(* ===== verification/Go_Prelude.thy ===== *)
theory Go_Prelude
  imports Main "HOL-Library.Word" "HOL-Library.Finite_Map" "HOL-Library.Char_ord"
    "HOL-Library.List_Lexorder" "HOL-Library.Sublist" "HOL-Library.Multiset" "HOL-Library.Product_Lexorder"
begin

text \<open>
  The part of the Go language and of its standard library that the chain's code rests on, and
  the generic lemmas that the component theories share.

  \<^item> \<open>uint64\<close>, \<open>uint32\<close> and \<open>int64\<close> are words: \<open>+\<close>, \<open>-\<close> and \<open>*\<close> wrap around exactly as Go's
    do; an \<open>int64\<close> is compared with the signed order \<open>\<le>s\<close>, \<open><s\<close>.
  \<^item> A Go \<open>string\<close> is an immutable byte sequence, and \<open>[]byte(s)\<close> copies its bytes: both are the
    type \<open>string\<close>, a list of 8-bit characters.
  \<^item> A Go map is a finite map; \<open>m[k]\<close> yields the zero value for a missing key
    (\<open>map_get\<close>), \<open>v, ok := m[k]\<close> is \<open>fmlookup\<close>. The order in which \<open>range\<close> visits a map is
    not specified by the language, so a loop over a map takes that order as an argument, a list
    of keys, and \<open>range_order\<close> says which lists the run-time system may choose.
  \<^item> Strings are compared byte by byte (the instance of \<open>linorder\<close> for lists of characters).
  \<^item> A function that returns \<open>(T, error)\<close> or may panic returns a value of type \<open>'a go\<close>; a method
    that changes its receiver returns the new receiver with the result.
  \<^item> \<open>time.Now()\<close> is an argument: \<open>now\<close> in seconds, \<open>nano\<close> in nanoseconds. An operation that
    reads the clock several times sees one value.
\<close>

named_theorems go_defs \<open>definitions of the small operations that proofs unfold\<close>
named_theorems frame \<open>fields that an operation leaves unchanged\<close>

type_synonym u64 = "64 word"
type_synonym u32 = "32 word"
type_synonym i64 = "64 word"

section \<open>Results: values, errors and panics\<close>

datatype 'a go = Ok 'a | Err string | Panic string

fun go_bind :: "'a go \<Rightarrow> ('a \<Rightarrow> 'b go) \<Rightarrow> 'b go" where
  "go_bind (Ok x) f = f x"
| "go_bind (Err e) f = Err e"
| "go_bind (Panic e) f = Panic e"

fun is_ok :: "'a go \<Rightarrow> bool" where
  "is_ok (Ok x) = True"
| "is_ok r = False"

lemma go_bind_Ok_iff: "go_bind r f = Ok y \<longleftrightarrow> (\<exists>x. r = Ok x \<and> f x = Ok y)"
  by (cases r) auto

lemma is_ok_iff: "is_ok r \<longleftrightarrow> (\<exists>x. r = Ok x)"
  by (cases r) auto

section \<open>Maps\<close>

definition map_get :: "'v \<Rightarrow> ('k, 'v) fmap \<Rightarrow> 'k \<Rightarrow> 'v" where
  "map_get zero m k = (case fmlookup m k of Some v \<Rightarrow> v | None \<Rightarrow> zero)"

definition has_key :: "('k, 'v) fmap \<Rightarrow> 'k \<Rightarrow> bool" where
  "has_key m k \<longleftrightarrow> fmlookup m k \<noteq> None"

definition range_order :: "'k list \<Rightarrow> ('k, 'v) fmap \<Rightarrow> bool" where
  "range_order ks m \<longleftrightarrow> distinct ks \<and> set ks = fset (fmdom m)"

text \<open>\<open>len(m)\<close>\<close>

definition map_len :: "('k, 'v) fmap \<Rightarrow> nat" where
  "map_len m = card (fset (fmdom m))"

definition fmsum :: "('v \<Rightarrow> nat) \<Rightarrow> ('k, 'v) fmap \<Rightarrow> nat" where
  "fmsum f m = (\<Sum>k \<in> fset (fmdom m). f (the (fmlookup m k)))"

lemma map_get_simps [simp]:
  "map_get z fmempty k = z"
  "map_get z (fmupd k v m) k' = (if k = k' then v else map_get z m k')"
  by (auto simp: map_get_def)

lemma map_get_Some: "fmlookup m k = Some v \<Longrightarrow> map_get z m k = v"
  by (simp add: map_get_def)

lemma map_get_None: "fmlookup m k = None \<Longrightarrow> map_get z m k = z"
  by (simp add: map_get_def)

lemma has_key_simps [simp]:
  "\<not> has_key fmempty k"
  "has_key (fmupd k v m) k' \<longleftrightarrow> k = k' \<or> has_key m k'"
  "has_key (fmdrop k m) k' \<longleftrightarrow> k \<noteq> k' \<and> has_key m k'"
  by (auto simp: has_key_def)

lemma has_key_iff: "has_key m k \<longleftrightarrow> (\<exists>v. fmlookup m k = Some v)"
  by (auto simp: has_key_def)

lemma has_key_dom: "has_key m k \<longleftrightarrow> k |\<in>| fmdom m"
  by (auto simp: has_key_def fmlookup_dom_iff)

lemma range_order_exists: "\<exists>ks. range_order ks m"
  using finite_distinct_list [OF finite_fset, of "fmdom m"] by (auto simp: range_order_def)

lemma range_order_has_key: "range_order ks m \<Longrightarrow> k \<in> set ks \<longleftrightarrow> has_key m k"
  by (simp add: range_order_def has_key_dom)

lemma range_order_length: "range_order ks m \<Longrightarrow> length ks = map_len m"
  using distinct_card [of ks] by (simp add: range_order_def map_len_def)

lemma map_len_simps [simp]:
  "map_len fmempty = 0"
  "map_len (fmupd k v m) = (if has_key m k then map_len m else Suc (map_len m))"
  by (auto simp: map_len_def has_key_dom card_insert_if)

lemma fmsum_empty [simp]: "fmsum f fmempty = 0"
  by (simp add: fmsum_def)

lemma fmsum_remove:
  assumes "fmlookup m k = Some v"
  shows "fmsum f m = f v + (\<Sum>k' \<in> fset (fmdom m) - {k}. f (the (fmlookup m k')))"
proof -
  have "k \<in> fset (fmdom m)"
    using assms by (auto simp: fmlookup_dom_iff)
  then show ?thesis
    using assms by (simp add: fmsum_def sum.remove)
qed

lemma fmsum_fmupd_new:
  assumes "fmlookup m k = None"
  shows "fmsum f (fmupd k v m) = fmsum f m + f v"
proof -
  have k: "k \<notin> fset (fmdom m)"
    using assms by (auto simp: fmlookup_dom_iff)
  have "(\<Sum>k' \<in> fset (fmdom m). f (the (fmlookup (fmupd k v m) k'))) = fmsum f m"
    unfolding fmsum_def using k by (intro sum.cong) auto
  then show ?thesis
    using k by (simp add: fmsum_def)
qed

lemma fmsum_fmupd_old:
  assumes "fmlookup m k = Some w"
  shows "fmsum f (fmupd k v m) + f w = fmsum f m + f v"
proof -
  have k: "k \<in> fset (fmdom m)"
    using assms by (auto simp: fmlookup_dom_iff)
  have same: "(\<Sum>k' \<in> fset (fmdom m) - {k}. f (the (fmlookup (fmupd k v m) k')))
      = (\<Sum>k' \<in> fset (fmdom m) - {k}. f (the (fmlookup m k')))"
    by (intro sum.cong) auto
  have "fmsum f (fmupd k v m) = f v + (\<Sum>k' \<in> fset (fmdom m) - {k}. f (the (fmlookup m k')))"
    using k same by (simp add: fmsum_def insert_absorb sum.remove [OF finite_fset k])
  then show ?thesis
    using fmsum_remove [OF assms, of f] by simp
qed

lemma fmsum_ge: "fmlookup m k = Some v \<Longrightarrow> f v \<le> fmsum f m"
  by (simp add: fmsum_remove)

lemma fmsum_ge2:
  assumes "fmlookup m k = Some v" "fmlookup m k' = Some v'" "k \<noteq> k'"
  shows "f v + f v' \<le> fmsum f m"
proof -
  have "k' \<in> fset (fmdom m) - {k}"
    using assms by (auto simp: fmlookup_dom_iff)
  then have "f v' \<le> (\<Sum>k' \<in> fset (fmdom m) - {k}. f (the (fmlookup m k')))"
    using assms(2) member_le_sum [of k' "fset (fmdom m) - {k}" "\<lambda>k'. f (the (fmlookup m k'))"]
    by simp
  then show ?thesis
    using fmsum_remove [OF assms(1), of f] by simp
qed

section \<open>Sorting\<close>

text \<open>\<open>sort.Slice(xs, lt)\<close>. When \<open>lt\<close> orders the elements totally the result is determined, and it is
  that of insertion sort, \<open>sort_slice\<close>. When elements may tie, the library leaves their order open;
  then the sorted slice is an argument, and \<open>is_sorted_slice\<close> says which slices it may be.\<close>

fun insert_by :: "('a \<Rightarrow> 'a \<Rightarrow> bool) \<Rightarrow> 'a \<Rightarrow> 'a list \<Rightarrow> 'a list" where
  "insert_by lt x [] = [x]"
| "insert_by lt x (y # ys) = (if lt y x then y # insert_by lt x ys else x # y # ys)"

definition sort_slice :: "('a \<Rightarrow> 'a \<Rightarrow> bool) \<Rightarrow> 'a list \<Rightarrow> 'a list" where
  "sort_slice lt xs = foldr (insert_by lt) xs []"

definition is_sorted_slice :: "('a \<Rightarrow> 'a \<Rightarrow> bool) \<Rightarrow> 'a list \<Rightarrow> 'a list \<Rightarrow> bool" where
  "is_sorted_slice lt xs ys \<longleftrightarrow> mset ys = mset xs \<and> sorted_wrt (\<lambda>a b. \<not> lt b a) ys"

lemma sort_slice_key:
  fixes key :: "'a \<Rightarrow> 'k::linorder"
  assumes "\<And>a b. lt a b \<longleftrightarrow> key a < key b"
  shows "sort_slice lt xs = sort_key key xs"
proof -
  have "insert_by lt = insort_key key"
  proof (intro ext)
    fix x ys
    show "insert_by lt x ys = insort_key key x ys"
      by (induction ys) (auto simp: assms not_less)
  qed
  then show ?thesis by (simp add: sort_slice_def sort_key_def)
qed

lemma sort_key_order:
  assumes "mset xs = mset ys" "inj_on key (set xs)"
  shows "sort_key key xs = sort_key key ys"
  using assms by (metis mset_sort sort_key_inj_key_eq sorted_sort_key)

lemma sort_key_set: "set (sort_key key xs) = set xs"
  by simp

section \<open>Sequences of operations\<close>

text \<open>A component is driven by events; what every single event keeps, every sequence keeps.\<close>

locale machine =
  fixes step :: "'e \<Rightarrow> 's \<Rightarrow> 's" and inv :: "'s \<Rightarrow> bool"
  assumes step_inv: "inv s \<Longrightarrow> inv (step e s)"
begin

lemma run_inv: "inv s \<Longrightarrow> inv (fold step es s)"
  by (induction es arbitrary: s) (auto intro: step_inv)

end

text \<open>A machine whose states pass through numbered phases: an event keeps the phase, or returns to
  the first one, or moves on to the next one, and then it satisfies the guard of the phase it
  leaves. A run that reaches the last phase holds one event for each phase passed, in order.\<close>

locale phased = machine step inv
  for step :: "'e \<Rightarrow> 's \<Rightarrow> 's" and inv :: "'s \<Rightarrow> bool" +
  fixes phase :: "'s \<Rightarrow> nat" and guards :: "('e \<Rightarrow> bool) list"
  assumes phase_step: "inv s \<Longrightarrow> phase (step e s) = phase s \<or> phase (step e s) = 0 \<or>
      (phase s < length guards \<and> phase (step e s) = Suc (phase s) \<and> (guards ! phase s) e)"
begin

lemma subseq_drop: "subseq (drop n xs) xs"
  by (rule suffix_imp_subseq) (rule suffix_drop)

lemma phase_trace:
  assumes "inv s" "phase s \<le> length guards" "phase (fold step es s) = length guards"
  shows "\<exists>evs. subseq evs es \<and> list_all2 (\<lambda>P e. P e) (drop (phase s) guards) evs"
  using assms
proof (induction es arbitrary: s)
  case Nil
  then show ?case by auto
next
  case (Cons e es)
  let ?t = "step e s"
  have t: "inv ?t" "phase ?t \<le> length guards" "phase (fold step es ?t) = length guards"
    using Cons.prems phase_step [OF Cons.prems(1), of e] by (auto intro: step_inv)
  then obtain evs where evs: "subseq evs es" "list_all2 (\<lambda>P e. P e) (drop (phase ?t) guards) evs"
    using Cons.IH by blast
  consider "phase ?t = phase s" | "phase ?t = 0" |
    "phase s < length guards" "phase ?t = Suc (phase s)" "(guards ! phase s) e"
    using phase_step [OF Cons.prems(1), of e] by argo
  then show ?case
  proof cases
    case 1
    then show ?thesis using evs by auto
  next
    case 2
    then have "list_all2 (\<lambda>P e. P e) (drop (phase s) guards) (drop (phase s) evs)"
      using evs(2) by (auto intro: list_all2_dropI)
    moreover have "subseq (drop (phase s) evs) (e # es)"
      using subseq_order.order_trans [OF subseq_drop evs(1)] by (rule list_emb_Cons)
    ultimately show ?thesis by blast
  next
    case 3
    then have "list_all2 (\<lambda>P e. P e) (drop (phase s) guards) (e # evs)"
      using evs(2) by (simp add: Cons_nth_drop_Suc [symmetric])
    then show ?thesis using subseq_Cons2 [OF evs(1), of e] by blast
  qed
qed

end

section \<open>Machine integers\<close>

lemma unat_add_no_wrap: "unat a + unat b < 2 ^ 64 \<Longrightarrow> unat (a + b :: u64) = unat a + unat b"
  by (simp add: unat_word_ariths)

lemma unat_sub_no_wrap: "b \<le> a \<Longrightarrow> unat (a - b :: u64) = unat a - unat b"
  by (simp add: unat_sub)

lemma u64_neq_zero: "(0 :: u64) < a \<longleftrightarrow> a \<noteq> 0"
  by (simp add: word_gt_0)

lemma unat_u64_lt: "unat (a :: u64) < 18446744073709551616"
  using unsigned_less [of a, where 'a = nat] by simp

lemma sint_of_int: "- (2 ^ 63) \<le> x \<Longrightarrow> x < 2 ^ 63 \<Longrightarrow> sint (word_of_int x :: i64) = x"
  by (simp add: sint_sbintrunc' signed_take_bit_int_eq_self)

lemma sint_large:
  assumes "2 ^ 63 \<le> uint (x :: i64)"
  shows "sint x = uint x - 2 ^ 64"
proof -
  have lt: "uint x < 2 ^ 64" using uint_lt2p [of x] by simp
  have "(word_of_int (uint x - 2 ^ 64) :: i64) = x" by simp
  moreover have "sint (word_of_int (uint x - 2 ^ 64) :: i64) = uint x - 2 ^ 64" using assms lt by (intro sint_of_int) auto
  ultimately show ?thesis by (simp only:)
qed

lemma sint_eq_unat:
  assumes "unat x < 2 ^ 63"
  shows "sint (x :: i64) = int (unat x)"
proof -
  have u: "uint x = int (unat x)" by (rule uint_nat)
  have "int (unat x) < 2 ^ 63" using assms by (metis of_nat_less_iff of_nat_numeral of_nat_power)
  moreover have "- (2 ^ 63) \<le> int (unat x)" by (rule order_trans [of _ 0]) simp_all
  ultimately have "signed_take_bit 63 (uint x) = uint x"
    unfolding u by (intro signed_take_bit_int_eq_self)
  then show ?thesis unfolding u [symmetric] by (simp add: sint_uint)
qed

lemma unat_div_u64: "unat (a div b :: u64) = unat a div unat b"
  by (simp add: unat_div)

section \<open>Strings\<close>

text \<open>Decimal conversions: \<open>strconv.FormatUint(v, 10)\<close>, which \<open>%d\<close> uses as well, and
  \<open>strconv.FormatInt(v, 10)\<close>.\<close>

definition digit :: "nat \<Rightarrow> char" where
  "digit d = char_of (48 + d)"

definition is_digit :: "char \<Rightarrow> bool" where
  "is_digit c \<longleftrightarrow> 48 \<le> (of_char c :: nat) \<and> (of_char c :: nat) \<le> 57"

definition digit_val :: "char \<Rightarrow> nat" where
  "digit_val c = of_char c - 48"

fun fmt_nat :: "nat \<Rightarrow> string" where
  "fmt_nat n = (if n < 10 then [digit n] else fmt_nat (n div 10) @ [digit (n mod 10)])"

declare fmt_nat.simps [simp del]

definition FormatUint :: "u64 \<Rightarrow> string" where
  "FormatUint v = fmt_nat (unat v)"

definition FormatInt :: "i64 \<Rightarrow> string" where
  "FormatInt v = (if sint v < 0 then ''-'' @ fmt_nat (nat (- sint v)) else fmt_nat (nat (sint v)))"

text \<open>\<open>%t\<close> of \<open>fmt.Sprintf\<close>.\<close>

definition fmt_bool :: "bool \<Rightarrow> string" where
  "fmt_bool b = (if b then ''true'' else ''false'')"

text \<open>\<open>%06d\<close>: padded with zeros on the left up to a width.\<close>

definition fmt_padded :: "nat \<Rightarrow> u64 \<Rightarrow> string" where
  "fmt_padded w v = replicate (w - length (FormatUint v)) (CHR ''0'') @ FormatUint v"

text \<open>\<open>strconv.ParseUint(s, 10, 64)\<close>: the value, or one of the two errors. The loop stops at the
  first byte that is not a digit or that takes the value past 64 bits.\<close>

datatype num_error = ErrSyntax | ErrRange

fun parse_uint_loop :: "nat \<Rightarrow> string \<Rightarrow> num_error + nat" where
  "parse_uint_loop n [] = Inr n"
| "parse_uint_loop n (c # cs) =
     (if \<not> is_digit c then Inl ErrSyntax
      else if n * 10 + digit_val c \<ge> 2 ^ 64 then Inl ErrRange
      else parse_uint_loop (n * 10 + digit_val c) cs)"

definition ParseUint :: "string \<Rightarrow> num_error + u64" where
  "ParseUint s =
     (if s = [] then Inl ErrSyntax
      else case parse_uint_loop 0 s of Inl e \<Rightarrow> Inl e | Inr n \<Rightarrow> Inr (of_nat n))"

text \<open>White space and case of ASCII text. A string with a byte outside ASCII goes through the
  Unicode tables of the standard library, which are the arguments \<open>utrim\<close>, \<open>ulower\<close> and
  \<open>ufields\<close>.\<close>

definition is_space :: "char \<Rightarrow> bool" where
  "is_space c \<longleftrightarrow> of_char c \<in> {9 :: nat, 10, 11, 12, 13, 32}"

definition is_ascii :: "string \<Rightarrow> bool" where
  "is_ascii s \<longleftrightarrow> list_all (\<lambda>c. of_char c < (128 :: nat)) s"

definition lower_char :: "char \<Rightarrow> char" where
  "lower_char c = (if 65 \<le> (of_char c :: nat) \<and> (of_char c :: nat) \<le> 90
     then char_of (of_char c + 32 :: nat) else c)"

definition trim_ascii :: "string \<Rightarrow> string" where
  "trim_ascii s = rev (dropWhile is_space (rev (dropWhile is_space s)))"

definition TrimSpace :: "(string \<Rightarrow> string) \<Rightarrow> string \<Rightarrow> string" where
  "TrimSpace utrim s = (if is_ascii s then trim_ascii s else utrim s)"

definition ToLower :: "(string \<Rightarrow> string) \<Rightarrow> string \<Rightarrow> string" where
  "ToLower ulower s = (if is_ascii s then map lower_char s else ulower s)"

fun fields_loop :: "string \<Rightarrow> string \<Rightarrow> string list" where
  "fields_loop cur [] = (if cur = [] then [] else [cur])"
| "fields_loop cur (c # cs) =
     (if is_space c then (if cur = [] then fields_loop [] cs else cur # fields_loop [] cs)
      else fields_loop (cur @ [c]) cs)"

definition Fields :: "(string \<Rightarrow> string list) \<Rightarrow> string \<Rightarrow> string list" where
  "Fields ufields s = (if is_ascii s then fields_loop [] s else ufields s)"

text \<open>\<open>strings.TrimPrefix\<close>.\<close>

definition TrimPrefix :: "string \<Rightarrow> string \<Rightarrow> string" where
  "TrimPrefix s p = (if prefix p s then drop (length p) s else s)"

text \<open>\<open>encoding/hex\<close>: lower-case digits on output, either case on input.\<close>

definition hex_digit :: "nat \<Rightarrow> char" where
  "hex_digit d = (if d < 10 then char_of (48 + d) else char_of (87 + d))"

definition hex_val :: "char \<Rightarrow> nat option" where
  "hex_val c = (let n = of_char c in
     if 48 \<le> n \<and> n \<le> 57 then Some (n - 48)
     else if 97 \<le> n \<and> n \<le> 102 then Some (n - 87)
     else if 65 \<le> n \<and> n \<le> 70 then Some (n - 55)
     else None)"

fun EncodeToString :: "string \<Rightarrow> string" where
  "EncodeToString [] = []"
| "EncodeToString (c # cs) =
     hex_digit (of_char c div 16) # hex_digit (of_char c mod 16) # EncodeToString cs"

fun DecodeString :: "string \<Rightarrow> string go" where
  "DecodeString [] = Ok []"
| "DecodeString [c] = (case hex_val c of None \<Rightarrow> Err ''invalid byte'' | Some _ \<Rightarrow> Err ''odd length hex string'')"
| "DecodeString (a # b # cs) =
     (case (hex_val a, hex_val b) of
        (Some x, Some y) \<Rightarrow> go_bind (DecodeString cs) (\<lambda>r. Ok (char_of (x * 16 + y) # r))
      | _ \<Rightarrow> Err ''invalid byte'')"

section \<open>Lemmas on strings\<close>

lemma of_char_digit: "d < 10 \<Longrightarrow> (of_char (digit d) :: nat) = 48 + d"
  by (simp add: digit_def)

lemma is_digit_digit [simp]: "d < 10 \<Longrightarrow> is_digit (digit d)"
  by (simp add: is_digit_def of_char_digit)

lemma digit_val_digit [simp]: "d < 10 \<Longrightarrow> digit_val (digit d) = d"
  by (simp add: digit_val_def of_char_digit)

lemma digit_inj: "a < 10 \<Longrightarrow> b < 10 \<Longrightarrow> digit a = digit b \<longleftrightarrow> a = b"
  by (metis digit_val_digit)

lemma fmt_nat_nonempty [simp]: "fmt_nat n \<noteq> []"
  by (subst fmt_nat.simps) simp

lemma fmt_nat_nonempty' [simp]: "[] \<noteq> fmt_nat n"
  using fmt_nat_nonempty [of n] by metis

lemma fmt_nat_digits: "c \<in> set (fmt_nat n) \<Longrightarrow> is_digit c"
proof (induction n rule: fmt_nat.induct)
  case (1 n)
  then show ?case
    by (cases "n < 10") (auto simp: fmt_nat.simps [of n])
qed

lemma parse_uint_loop_append:
  "parse_uint_loop n (xs @ ys) =
     (case parse_uint_loop n xs of Inl e \<Rightarrow> Inl e | Inr m \<Rightarrow> parse_uint_loop m ys)"
  by (induction xs arbitrary: n) auto

lemma parse_uint_loop_fmt_nat: "n < 2 ^ 64 \<Longrightarrow> parse_uint_loop 0 (fmt_nat n) = Inr n"
proof (induction n rule: fmt_nat.induct)
  case (1 n)
  show ?case
  proof (cases "n < 10")
    case True
    then show ?thesis by (simp add: fmt_nat.simps [of n])
  next
    case False
    with 1 have "parse_uint_loop 0 (fmt_nat (n div 10)) = Inr (n div 10)" by simp
    with False "1.prems" show ?thesis
      by (simp add: fmt_nat.simps [of n] parse_uint_loop_append)
  qed
qed

lemma ParseUint_FormatUint [simp]: "ParseUint (FormatUint v) = Inr v"
proof -
  have "unat v < 2 ^ 64" using unat_u64_lt [of v] by simp
  then show ?thesis
    by (simp add: ParseUint_def FormatUint_def parse_uint_loop_fmt_nat)
qed

lemma FormatUint_inj: "FormatUint a = FormatUint b \<longleftrightarrow> a = b"
  by (metis ParseUint_FormatUint Inr_inject)

lemma FormatUint_nonempty [simp]: "FormatUint v \<noteq> []"
  by (simp add: FormatUint_def)

lemma fmt_nat_inj: "fmt_nat a = fmt_nat b \<Longrightarrow> a = b"
proof (induction a arbitrary: b rule: fmt_nat.induct)
  case (1 a)
  show ?case
  proof (cases "a < 10")
    case True
    with 1 show ?thesis
      by (cases "b < 10") (auto simp: fmt_nat.simps [of a] fmt_nat.simps [of b] digit_inj)
  next
    case False
    then have a: "fmt_nat a = fmt_nat (a div 10) @ [digit (a mod 10)]"
      by (simp add: fmt_nat.simps [of a])
    with "1.prems" have b: "\<not> b < 10"
      by (auto simp: fmt_nat.simps [of b])
    then have "fmt_nat b = fmt_nat (b div 10) @ [digit (b mod 10)]"
      by (simp add: fmt_nat.simps [of b])
    with a "1.prems" have eq: "fmt_nat (a div 10) = fmt_nat (b div 10)"
        and m: "a mod 10 = b mod 10"
      by (simp_all add: digit_inj)
    have "a div 10 = b div 10"
      using "1.IH" [OF False] eq by simp
    with m show ?thesis by (metis div_mult_mod_eq)
  qed
qed

lemma FormatInt_inj: "FormatInt a = FormatInt b \<longleftrightarrow> a = b"
proof
  assume eq: "FormatInt a = FormatInt b"
  have minus: "fmt_nat n \<noteq> CHR ''-'' # s" for n s
    using fmt_nat_digits [of "CHR ''-''" n] by (auto simp: is_digit_def)
  have "sint a = sint b"
    using eq minus minus [symmetric]
    by (auto simp: FormatInt_def split: if_splits dest!: fmt_nat_inj)
  then show "a = b" by (rule signed_word_eqI)
qed simp

lemma hex_val_hex_digit [simp]: "d < 16 \<Longrightarrow> hex_val (hex_digit d) = Some d"
  by (auto simp: hex_val_def hex_digit_def Let_def)

lemma DecodeString_EncodeToString [simp]: "DecodeString (EncodeToString s) = Ok s"
proof (induction s)
  case (Cons c cs)
  have "(of_char c :: nat) < 256"
    by (rule nat_of_char_less_256)
  then have "(of_char c :: nat) div 16 < 16" by (simp add: less_mult_imp_div_less)
  with Cons show ?case by simp
qed simp

lemma EncodeToString_inj [simp]: "EncodeToString a = EncodeToString b \<longleftrightarrow> a = b"
  by (metis DecodeString_EncodeToString go.inject(1))

lemma length_EncodeToString [simp]: "length (EncodeToString s) = 2 * length s"
  by (induction s) auto

lemma EncodeToString_eq_Nil [simp]: "EncodeToString s = [] \<longleftrightarrow> s = []"
  by (cases s) auto

end
