(* ===== verification/Domain.thy ===== *)
theory Domain
  imports Go_Prelude
begin

text \<open>
  The data model of \<open>go-chain/blockchain/domain.go\<close>: transactions, blocks, accounts, the
  registry, escrows, reversals, governance, service agreements, validators and wallets, the
  economic constants, amounts in text, and the signing of transactions.

  The cryptographic primitives of the standard library and \<open>json.Marshal\<close> are fields of the
  record \<open>crypto\<close>, an argument of every operation that uses them: the theorems hold for every
  such function. \<open>crypto_ok\<close> states the documented facts that some of them need.
\<close>

section \<open>Transactions, blocks and accounts\<close>

type_synonym address = string
type_synonym TransactionType = string

abbreviation Transfer :: TransactionType where "Transfer \<equiv> ''TRANSFER''"
abbreviation RegisterModel :: TransactionType where "RegisterModel \<equiv> ''REGISTER_MODEL''"
abbreviation UpdateModel :: TransactionType where "UpdateModel \<equiv> ''UPDATE_MODEL''"
abbreviation PurchaseApiKey :: TransactionType where "PurchaseApiKey \<equiv> ''PURCHASE_API_KEY''"
abbreviation RequestReversal :: TransactionType where "RequestReversal \<equiv> ''REQUEST_REVERSAL''"
abbreviation ConfirmReversal :: TransactionType where "ConfirmReversal \<equiv> ''CONFIRM_REVERSAL''"
abbreviation CommitReversal :: TransactionType where "CommitReversal \<equiv> ''COMMIT_REVERSAL''"

record Transaction =
  tx_ID :: string
  tx_From :: address
  tx_FromPubKey :: string
  tx_To :: string
  tx_Amount :: u64
  tx_Fee :: u64
  tx_Nonce :: u64
  tx_TxType :: TransactionType
  tx_Payload :: string
  tx_Signature :: string
  tx_Timestamp :: i64
  tx_ChainID :: string

record Block =
  blk_Index :: u64
  blk_Author :: address
  blk_MinerAddress :: address
  blk_PreviousHash :: string
  blk_Timestamp :: i64
  blk_Transactions :: "Transaction list"
  blk_Nonce :: u64
  blk_BlockHash :: string
  blk_TxMerkleRoot :: string

record Account =
  acct_Address :: address
  acct_Balance :: u64
  acct_Staked :: u64
  acct_IsAgent :: bool

record MinerStats =
  ms_Address :: address
  ms_BlocksSubmitted :: u64
  ms_LastSubmissionTime :: i64
  ms_SubmittedLastHour :: u64
  ms_PersonalDifficulty :: u32
  ms_AcceleratorCount :: u64
  ms_LastRewardBlock :: u64
  ms_CurrentMonth :: int
  ms_CurrentYear :: int
  ms_MonthlyRewards :: u32
  ms_YearlyRewards :: u32
  ms_YearlyPauseUntil :: i64

record ModelRef =
  mr_ID :: string
  mr_Owner :: address
  mr_CID :: string
  mr_Active :: bool
  mr_PricePerCall :: u64

datatype ConsensusType = ProofOfStake | ProofOfAuthority | ProofOfWork

section \<open>Constants\<close>

definition HogohogoPerTender :: u64 where [go_defs]: "HogohogoPerTender = 10000000"
definition BaseFee :: u64 where [go_defs]: "BaseFee = 5 * 10000000"
definition FeeMultiplier :: u64 where [go_defs]: "FeeMultiplier = 2"
definition BurnRatePercent :: u64 where [go_defs]: "BurnRatePercent = 1"
definition AIBurnScaling :: u64 where [go_defs]: "AIBurnScaling = 20"
definition RewardRatePercent :: u64 where [go_defs]: "RewardRatePercent = 4"
definition MinStake :: u64 where [go_defs]: "MinStake = 100 * 10000000"
definition AIModelStake :: u64 where [go_defs]: "AIModelStake = 50 * 10000000"
definition AgentMinBalance :: u64 where [go_defs]: "AgentMinBalance = 10 * 10000000"
definition SlashPercent :: u64 where [go_defs]: "SlashPercent = 10"
definition MaxSupply :: u64 where [go_defs]: "MaxSupply = 18446744073709551615"
definition CurrencyName :: string where "CurrencyName = ''TENDER''"
definition CommunityFundAddress :: address where
  "CommunityFundAddress = ''tdr-community-fund-000000000000000000000000000000000000''"

section \<open>Escrows, reversals, governance, agreements, audit\<close>

record Escrow =
  esc_ID :: string
  esc_From :: address
  esc_To :: address
  esc_Amount :: u64
  esc_ServiceID :: string
  esc_Status :: string
  esc_Irreversible :: bool

record PendingReversal =
  rev_ID :: string
  rev_OriginalTxID :: string
  rev_From :: address
  rev_To :: address
  rev_Amount :: u64
  rev_Requester :: address
  rev_Confirmer :: address
  rev_Status :: string
  rev_Irreversible :: bool

record GovernanceProposal =
  prop_ID :: string
  prop_Title :: string
  prop_Description :: string
  prop_Votes :: "(address, bool) fmap"
  prop_Status :: string

record ServiceAgreement =
  agr_ID :: string
  agr_Provider :: address
  agr_Consumer :: address
  agr_ModelID :: string
  agr_PricePerCall :: u64
  agr_MaxCalls :: u64
  agr_Status :: string

record UsageMeter =
  um_AgreementID :: string
  um_UsageCount :: u64
  um_TotalCost :: u64

record AuditEntry =
  aud_Timestamp :: i64
  aud_Event :: string
  aud_Actor :: string
  aud_Details :: string

record ManagedWallet =
  mw_ID :: string
  mw_Address :: address
  mw_PublicKey :: string
  mw_Label :: string
  mw_IsAgent :: bool

record UniversalWallet =
  uw_Name :: string
  uw_Address :: address
  uw_Label :: string
  uw_Currency :: string

section \<open>Consensus messages and validators\<close>

record FinalityVoteSignature =
  fvs_BlockHash :: string
  fvs_Voter :: string
  fvs_Vote :: string
  fvs_Signature :: string

record Vote =
  vote_ValidatorAddress :: address
  vote_PubKey :: string
  vote_BlockHash :: string
  vote_Height :: u64
  vote_Round :: i64
  vote_Type :: string
  vote_Timestamp :: i64
  vote_Signature :: string

record Proposal =
  pro_BlockHash :: string
  pro_Height :: u64
  pro_Round :: i64
  pro_Block :: "Block option"
  pro_PolRound :: i64
  pro_Timestamp :: i64
  pro_Signature :: string

record Evidence =
  ev_Type :: string
  ev_ValidatorAddr :: address
  ev_Height :: u64
  ev_Round :: i64
  ev_BlockHash :: string
  ev_Timestamp :: i64

record Validator =
  val_PublicKey :: string
  val_Address :: address
  val_Stake :: u64
  val_Active :: bool
  val_JoinedAt :: i64
  val_Performance :: u64
  val_PublicKeyVersion :: u64
  val_KeyRotatedAt :: i64
  val_NextRotationAt :: i64

definition NeedsRotation :: "Validator \<Rightarrow> i64 \<Rightarrow> bool" where
  "NeedsRotation v now =
     (if val_NextRotationAt v = 0 then True else val_NextRotationAt v \<le>s now)"

definition RotateKey :: "Validator \<Rightarrow> string \<Rightarrow> i64 \<Rightarrow> Validator" where
  "RotateKey v newPubKey now = v\<lparr>
     val_PublicKey := newPubKey,
     val_PublicKeyVersion := val_PublicKeyVersion v + 1,
     val_KeyRotatedAt := now,
     val_NextRotationAt := now + 30 * 24 * 60 * 60\<rparr>"

section \<open>Names and amounts in text\<close>

definition ConsensusName :: "ConsensusType \<Rightarrow> string" where
  "ConsensusName c = (if c = ProofOfAuthority then ''poa'' else ''pos'')"

definition CurrencySymbol :: string where
  "CurrencySymbol = CurrencyName"

definition FormatAmount :: "u64 \<Rightarrow> string" where
  "FormatAmount amount =
     (let tender = amount div HogohogoPerTender;
          hogohogo = amount mod HogohogoPerTender
      in FormatUint tender @ '' TENDER '' @ fmt_padded 6 hogohogo @ '' HOGOHOGO'')"

text \<open>The Unicode tables behind \<open>strings.TrimSpace\<close> and \<open>strings.Fields\<close> are arguments; the
  message of an error of \<open>strconv\<close> is a constant.\<close>

definition ParseAmount :: "(string \<Rightarrow> string) \<Rightarrow> (string \<Rightarrow> string list) \<Rightarrow> string \<Rightarrow> u64 go" where
  "ParseAmount utrim ufields text0 =
     (let text1 = TrimSpace utrim text0;
          parts = Fields ufields text1
      in case parts of
           [] \<Rightarrow> Err ''empty amount''
         | p0 # rest \<Rightarrow>
             (case ParseUint p0 of
                Inl e \<Rightarrow> Err ''strconv.ParseUint''
              | Inr tender \<Rightarrow>
                  (let hogohogo =
                     (case rest of
                        [] \<Rightarrow> 0
                      | p1 # _ \<Rightarrow>
                          (case ParseUint p1 of
                             Inl e \<Rightarrow> 0
                           | Inr v \<Rightarrow> if v < HogohogoPerTender then v else 0))
                   in Ok (tender * HogohogoPerTender + hogohogo))))"

section \<open>Hashing and signatures\<close>

record crypto =
  sha256 :: "string \<Rightarrow> string"
  ed_verify :: "string \<Rightarrow> string \<Rightarrow> string \<Rightarrow> bool"
  ed_sign :: "string \<Rightarrow> string \<Rightarrow> string"
  ed_public :: "string \<Rightarrow> string"
  json_block :: "Block \<Rightarrow> string"

text \<open>What the documentation of \<open>crypto/sha256\<close> and \<open>crypto/ed25519\<close> promises: the sizes of
  digests, public keys and signatures, and that a signature made with a private key verifies
  under its public key.\<close>

definition crypto_ok :: "crypto \<Rightarrow> bool" where
  "crypto_ok C \<longleftrightarrow>
     (\<forall>m. length (sha256 C m) = 32) \<and>
     (\<forall>sk. length (ed_public C sk) = 32) \<and>
     (\<forall>sk m. length (ed_sign C sk m) = 64) \<and>
     (\<forall>sk m. ed_verify C (ed_public C sk) m (ed_sign C sk m))"

definition calculateHash :: "crypto \<Rightarrow> Block \<Rightarrow> string" where
  "calculateHash C block =
     (let clone = block\<lparr>blk_BlockHash := []\<rparr>;
          data = json_block C clone
      in EncodeToString (sha256 C data))"

definition zero_byte :: char where
  "zero_byte = CHR 0x00"

definition CanonicalSigningBytes :: "Transaction \<Rightarrow> string" where
  "CanonicalSigningBytes tx =
     tx_ChainID tx @ [zero_byte] @
     tx_From tx @ [zero_byte] @
     tx_FromPubKey tx @ [zero_byte] @
     tx_To tx @ [zero_byte] @
     FormatUint (tx_Amount tx) @ [zero_byte] @
     FormatUint (tx_Fee tx) @ [zero_byte] @
     FormatUint (tx_Nonce tx) @ [zero_byte] @
     tx_TxType tx @ [zero_byte] @
     tx_Payload tx @ [zero_byte] @
     FormatInt (tx_Timestamp tx)"

definition VerifyTransaction :: "crypto \<Rightarrow> Transaction \<Rightarrow> bool" where
  "VerifyTransaction C tx =
     (if tx_ChainID tx = [] then False
      else case DecodeString (tx_FromPubKey tx) of
        Ok pubKey \<Rightarrow>
          (if length pubKey \<noteq> 32 then False
           else if tx_From tx \<noteq> EncodeToString (sha256 C pubKey) then False
           else case DecodeString (tx_Signature tx) of
             Ok sig \<Rightarrow>
               (if length sig \<noteq> 64 then False
                else ed_verify C pubKey (CanonicalSigningBytes tx) sig)
           | _ \<Rightarrow> False)
      | _ \<Rightarrow> False)"

record Wallet =
  w_PublicKey :: string
  w_PrivateKey :: string

definition wallet_Address :: "crypto \<Rightarrow> Wallet \<Rightarrow> address" where
  "wallet_Address C w = EncodeToString (sha256 C (w_PublicKey w))"

definition wallet_Sign :: "crypto \<Rightarrow> i64 \<Rightarrow> Wallet \<Rightarrow> Transaction \<Rightarrow> Transaction" where
  "wallet_Sign C now w tx0 =
     (let tx1 = tx0\<lparr>tx_FromPubKey := EncodeToString (w_PublicKey w)\<rparr>;
          tx2 = tx1\<lparr>tx_Timestamp := now\<rparr>;
          payload = CanonicalSigningBytes tx2;
          hash = sha256 C payload;
          tx3 = tx2\<lparr>tx_ID := EncodeToString hash\<rparr>
      in tx3\<lparr>tx_Signature := EncodeToString (ed_sign C (w_PrivateKey w) payload)\<rparr>)"

text \<open>The pair \<open>keys\<close> is what \<open>ed25519.GenerateKey\<close> draws; \<open>b\<close> is the array of 16 bytes after \<open>rand.Read\<close>.\<close>

definition NewWallet :: "(string \<times> string) go \<Rightarrow> Wallet go" where
  "NewWallet keys = (case keys of Ok (pub, priv) \<Rightarrow> Ok \<lparr>w_PublicKey = pub, w_PrivateKey = priv\<rparr> | Err e \<Rightarrow> Panic e | Panic e \<Rightarrow> Panic e)"

definition NewRequestID :: "string \<Rightarrow> string" where
  "NewRequestID b = EncodeToString b"

definition LogJSON :: "i64 \<Rightarrow> string \<Rightarrow> string \<Rightarrow> string \<Rightarrow> string" where
  "LogJSON now event actor details =
     ''{\"ts\":'' @ FormatInt now @ '',\"event\":\"'' @ event @ ''\",\"actor\":\"'' @ actor @ ''\",\"details\":\"'' @ details @ ''\"}'' @ [CHR 0x0A]"

section \<open>Lemmas\<close>

lemma CommunityFundAddress_nonempty [simp]: "CommunityFundAddress \<noteq> []"
  by (simp add: CommunityFundAddress_def)

lemma calculateHash_ignores_hash [simp]:
  "calculateHash C (b\<lparr>blk_BlockHash := h\<rparr>) = calculateHash C b"
  by (simp add: calculateHash_def)

lemma calculateHash_nonempty: "crypto_ok C \<Longrightarrow> calculateHash C b \<noteq> []"
  by (metis calculateHash_def EncodeToString_eq_Nil crypto_ok_def list.size(3) zero_neq_numeral)

lemma CanonicalSigningBytes_nonempty [simp]: "CanonicalSigningBytes tx \<noteq> []"
  by (simp add: CanonicalSigningBytes_def)

lemma CanonicalSigningBytes_cong:
  "CanonicalSigningBytes (tx\<lparr>tx_ID := i\<rparr>) = CanonicalSigningBytes tx"
  "CanonicalSigningBytes (tx\<lparr>tx_Signature := s\<rparr>) = CanonicalSigningBytes tx"
  by (simp_all add: CanonicalSigningBytes_def)

text \<open>The fields of the signing payload are separated by zero bytes, so the payload determines
  them as long as the text fields hold none.\<close>

definition no_zero :: "string \<Rightarrow> bool" where
  "no_zero s \<longleftrightarrow> zero_byte \<notin> set s"

definition signable :: "Transaction \<Rightarrow> bool" where
  "signable tx \<longleftrightarrow> list_all no_zero
     [tx_ChainID tx, tx_From tx, tx_FromPubKey tx, tx_To tx, tx_TxType tx, tx_Payload tx]"

lemma append_zero_inject:
  "no_zero a \<Longrightarrow> no_zero b \<Longrightarrow> a @ zero_byte # r = b @ zero_byte # s \<longleftrightarrow> a = b \<and> r = s"
  unfolding no_zero_def
proof (induction a arbitrary: b)
  case Nil
  then show ?case by (cases b) auto
next
  case (Cons c a)
  then show ?case by (cases b) auto
qed

lemma no_zero_FormatUint [simp]: "no_zero (FormatUint v)"
  by (auto simp: no_zero_def FormatUint_def zero_byte_def is_digit_def dest!: fmt_nat_digits)

text \<open>A concrete set of primitives that satisfies \<open>crypto_ok\<close> and a concrete transaction, for the
  witnesses: digests and signatures are the message cut or padded to the documented size.\<close>

definition fit :: "nat \<Rightarrow> string \<Rightarrow> string" where
  "fit n s = take n (s @ replicate n zero_byte)"

definition demo_crypto :: crypto where
  "demo_crypto = \<lparr>sha256 = fit 32, ed_verify = (\<lambda>pk m sg. sg = fit 64 m),
     ed_sign = (\<lambda>sk m. fit 64 m), ed_public = fit 32, json_block = (\<lambda>b. blk_PreviousHash b)\<rparr>"

definition demo_tx :: Transaction where
  "demo_tx = \<lparr>tx_ID = ''a'', tx_From = ''f'', tx_FromPubKey = ''p'', tx_To = ''t'', tx_Amount = 5,
     tx_Fee = 1, tx_Nonce = 2, tx_TxType = Transfer, tx_Payload = [], tx_Signature = ''s'',
     tx_Timestamp = 7, tx_ChainID = ''c''\<rparr>"

lemma length_fit [simp]: "length (fit n s) = n"
  by (simp add: fit_def)

lemma crypto_ok_demo [simp]: "crypto_ok demo_crypto"
  by (simp add: crypto_ok_def demo_crypto_def)

lemma signing_payload_inj:
  assumes "signable tx" and "signable tx'" and "CanonicalSigningBytes tx = CanonicalSigningBytes tx'"
  shows "tx' = tx\<lparr>tx_ID := tx_ID tx', tx_Signature := tx_Signature tx'\<rparr>"
  using assms
  by (cases tx; cases tx')
    (simp add: CanonicalSigningBytes_def signable_def append_zero_inject FormatUint_inj FormatInt_inj)

text \<open>C6. What a signature covers: two transactions whose text fields hold no zero byte and that
  have the same signing payload agree in every field but the identifier and the signature
  itself, so a signature cannot be moved to a transaction with another chain, sender, recipient,
  amount, fee, nonce, type, payload or time.\<close>

theorem signing_payload_binds:
  assumes "signable tx" and "signable tx'"
    and "CanonicalSigningBytes tx = CanonicalSigningBytes tx'"
  shows "tx' = tx\<lparr>tx_ID := tx_ID tx', tx_Signature := tx_Signature tx'\<rparr>"
  using assms by (rule signing_payload_inj)

theorem signing_payload_binds_witness:
  "signable demo_tx \<and> CanonicalSigningBytes demo_tx = CanonicalSigningBytes (demo_tx\<lparr>tx_ID := ''b''\<rparr>)
   \<and> demo_tx\<lparr>tx_ID := ''b''\<rparr> = demo_tx\<lparr>tx_ID := ''b'', tx_Signature := ''s''\<rparr>"
proof -
  have "signable demo_tx" "signable (demo_tx\<lparr>tx_ID := ''b''\<rparr>)"
    by (simp_all add: signable_def no_zero_def zero_byte_def demo_tx_def)
  with signing_payload_binds [OF this] show ?thesis
    by (simp only: CanonicalSigningBytes_cong) (simp add: demo_tx_def)
qed

lemma wallet_Sign_ok:
  assumes "crypto_ok C" and "w_PublicKey w = ed_public C (w_PrivateKey w)"
    and "tx_ChainID tx \<noteq> []" and "tx_From tx = wallet_Address C w"
  shows "VerifyTransaction C (wallet_Sign C now w tx)"
  using assms
  by (simp add: VerifyTransaction_def wallet_Sign_def Let_def CanonicalSigningBytes_cong
      wallet_Address_def crypto_ok_def)

text \<open>A new wallet signs what verifies.\<close>

lemma NewWallet_signs:
  assumes "crypto_ok C" "NewWallet (Ok (ed_public C sk, sk)) = Ok w" "tx_ChainID tx \<noteq> []" "tx_From tx = wallet_Address C w"
  shows "VerifyTransaction C (wallet_Sign C now w tx)"
  using assms by (intro wallet_Sign_ok) (auto simp: NewWallet_def)

text \<open>A transaction signed by a wallet whose key pair matches verifies, when it names its chain
  and is sent from the wallet's own address.\<close>

theorem wallet_Sign_verifies:
  assumes "crypto_ok C"
    and "w_PublicKey w = ed_public C (w_PrivateKey w)"
    and "tx_ChainID tx \<noteq> []" and "tx_From tx = wallet_Address C w"
  shows "VerifyTransaction C (wallet_Sign C now w tx)"
  using assms by (rule wallet_Sign_ok)

theorem wallet_Sign_verifies_witness:
  "VerifyTransaction demo_crypto
     (wallet_Sign demo_crypto 7 \<lparr>w_PublicKey = fit 32 ''k'', w_PrivateKey = ''k''\<rparr>
       (demo_tx\<lparr>tx_From := wallet_Address demo_crypto \<lparr>w_PublicKey = fit 32 ''k'', w_PrivateKey = ''k''\<rparr>\<rparr>))"
  by (rule wallet_Sign_verifies [OF crypto_ok_demo]) (simp_all add: demo_crypto_def demo_tx_def)

section \<open>Amounts in text\<close>

lemma fields_loop_word:
  "list_all (\<lambda>c. \<not> is_space c) w \<Longrightarrow> fields_loop cur (w @ r) = fields_loop (cur @ w) r"
  by (induction w arbitrary: cur) auto

lemma digit_not_space: "is_digit c \<Longrightarrow> \<not> is_space c"
  by (auto simp: is_digit_def is_space_def)

lemma digit_ascii: "is_digit c \<Longrightarrow> of_char c < (128 :: nat)"
  by (simp add: is_digit_def)

lemma FormatUint_digits: "list_all is_digit (FormatUint v)"
  by (auto simp: FormatUint_def list_all_iff dest: fmt_nat_digits)

lemma digits_no_space: "list_all is_digit s \<Longrightarrow> list_all (\<lambda>c. \<not> is_space c) s"
  by (auto simp: list_all_iff digit_not_space)

lemma digits_ascii: "list_all is_digit s \<Longrightarrow> is_ascii s"
  by (auto simp: list_all_iff is_ascii_def digit_ascii)

lemma fmt_padded_digits: "list_all is_digit (fmt_padded w v)"
  using FormatUint_digits [of v] by (auto simp: fmt_padded_def list_all_iff is_digit_def)

lemma fmt_padded_nonempty [simp]: "fmt_padded w v \<noteq> []"
  by (simp add: fmt_padded_def)

lemma trim_ascii_id:
  assumes "s \<noteq> []" "\<not> is_space (hd s)" "\<not> is_space (last s)"
  shows "trim_ascii s = s"
proof -
  have "dropWhile is_space s = s"
    using assms by (cases s) auto
  moreover have "dropWhile is_space (rev s) = rev s"
    using assms by (cases "rev s") (auto simp: hd_rev [symmetric])
  ultimately show ?thesis by (simp add: trim_ascii_def)
qed

lemma is_ascii_append [simp]: "is_ascii (a @ b) \<longleftrightarrow> is_ascii a \<and> is_ascii b"
  by (simp add: is_ascii_def)

lemma hd_FormatUint_not_space: "\<not> is_space (hd (FormatUint v @ r))"
proof -
  have "hd (FormatUint v) \<in> set (FormatUint v)" by simp
  then show ?thesis
    using FormatUint_digits [of v] by (simp add: list_all_iff digit_not_space hd_append)
qed

text \<open>The text that \<open>FormatAmount\<close> writes, cut into its fields.\<close>

lemma Fields_FormatAmount:
  "Fields uf (TrimSpace ut (FormatAmount a)) =
     [FormatUint (a div HogohogoPerTender), ''TENDER'',
      fmt_padded 6 (a mod HogohogoPerTender), ''HOGOHOGO'']"
proof -
  let ?t = "FormatUint (a div HogohogoPerTender)"
  let ?h = "fmt_padded 6 (a mod HogohogoPerTender)"
  have asc: "is_ascii (FormatAmount a)"
  proof -
    have "is_ascii ?t" "is_ascii ?h"
      by (rule digits_ascii, rule FormatUint_digits) (rule digits_ascii, rule fmt_padded_digits)
    moreover have "is_ascii '' TENDER ''" "is_ascii '' HOGOHOGO''"
      by (simp_all add: is_ascii_def)
    ultimately show ?thesis
      unfolding FormatAmount_def Let_def is_ascii_append by blast
  qed
  have trim: "trim_ascii (FormatAmount a) = FormatAmount a"
    using hd_FormatUint_not_space
    by (intro trim_ascii_id) (simp_all add: FormatAmount_def Let_def is_space_def [of "CHR ''O''"])
  have "fields_loop [] (FormatAmount a) = [?t, ''TENDER'', ?h, ''HOGOHOGO'']"
    using digits_no_space [OF FormatUint_digits] digits_no_space [OF fmt_padded_digits]
    by (simp add: FormatAmount_def Let_def fields_loop_word is_space_def)
  then show ?thesis
    using asc trim by (simp add: TrimSpace_def Fields_def)
qed

text \<open>Reading back the text that \<open>FormatAmount\<close> writes yields the whole tenders only: the
  second field is the word TENDER, not the sub-unit, so the sub-unit amount is dropped.\<close>

theorem ParseAmount_FormatAmount:
  "ParseAmount ut uf (FormatAmount a) = Ok (a div HogohogoPerTender * HogohogoPerTender)"
proof -
  have "ParseUint ''TENDER'' = Inl ErrSyntax"
    by (simp add: ParseUint_def is_digit_def)
  then show ?thesis
    by (simp add: ParseAmount_def Fields_FormatAmount)
qed

end
