(* ===== verification/Wallet_Vault.thy ===== *)
theory Wallet_Vault
  imports Domain
begin

text \<open>
  The wallet vault of \<open>wallet_vault.go\<close>: key pairs under their addresses, archiving, and the file the
  vault is saved to. The key pairs that \<open>ed25519.GenerateKey\<close> draws, the clock, the JSON encoder and
  decoder and the file are arguments. Loading decodes into the map of the vault, so that a file can leave the map \<open>nil\<close> (its content is
  \<open>null\<close>) or give an address a \<open>nil\<close> record: both are \<open>None\<close>, and the calls that then panic do so in the model.
\<close>

section \<open>State and operations\<close>

record WalletRecord =
  wr_Wallet :: Wallet
  wr_Label :: string
  wr_IsAgent :: bool
  wr_Derivation :: u32
  wr_CreatedAt :: i64
  wr_LastUsed :: i64
  wr_Archived :: bool

type_synonym wallet_files = "(string, WalletRecord option) fmap"

record WalletVault =
  vv_wallets :: "wallet_files option"

definition wallet_map :: "WalletVault \<Rightarrow> wallet_files" where
  "wallet_map v = (case vv_wallets v of None \<Rightarrow> fmempty | Some m \<Rightarrow> m)"

definition NewWalletVault :: WalletVault where
  "NewWalletVault = \<lparr>vv_wallets = Some fmempty\<rparr>"

text \<open>A write to the map, which panics when the map is \<open>nil\<close>.\<close>

definition put_wallet :: "string \<Rightarrow> WalletRecord \<Rightarrow> WalletVault \<Rightarrow> (WalletVault \<times> unit go)" where
  "put_wallet address record v =
     (case vv_wallets v of
        None \<Rightarrow> (v, Panic ''assignment to entry in nil map'')
      | Some m \<Rightarrow> (v\<lparr>vv_wallets := Some (fmupd address (Some record) m)\<rparr>, Ok ()))"

definition CreateWallet :: "crypto \<Rightarrow> i64 \<Rightarrow> Wallet \<Rightarrow> string \<Rightarrow> bool \<Rightarrow> WalletVault \<Rightarrow> WalletVault \<times> WalletRecord go" where
  "CreateWallet C now wallet label isAgent v =
     (let record = \<lparr>wr_Wallet = wallet, wr_Label = label, wr_IsAgent = isAgent,
            wr_Derivation = of_nat (map_len (wallet_map v)), wr_CreatedAt = now, wr_LastUsed = now, wr_Archived = False\<rparr>
      in case put_wallet (wallet_Address C wallet) record v of
           (v, Ok _) \<Rightarrow> (v, Ok record)
         | (v, Err e) \<Rightarrow> (v, Err e)
         | (v, Panic e) \<Rightarrow> (v, Panic e))"

definition GetWallet :: "string \<Rightarrow> WalletVault \<Rightarrow> WalletRecord option" where
  "GetWallet address v = map_get None (wallet_map v) address"

text \<open>The list has the order \<open>ks\<close> in which \<open>range\<close> visits the map.\<close>

fun list_wallets :: "wallet_files \<Rightarrow> string list \<Rightarrow> WalletRecord list go" where
  "list_wallets m [] = Ok []"
| "list_wallets m (k # ks) =
     (case fmlookup m k of
        None \<Rightarrow> list_wallets m ks
      | Some None \<Rightarrow> Panic ''invalid memory address or nil pointer dereference''
      | Some (Some w) \<Rightarrow>
          (case list_wallets m ks of
             Ok ws \<Rightarrow> Ok (if \<not> wr_Archived w then w # ws else ws)
           | Err e \<Rightarrow> Err e
           | Panic e \<Rightarrow> Panic e))"

definition ListWallets :: "string list \<Rightarrow> WalletVault \<Rightarrow> WalletRecord list go" where
  "ListWallets ks v = list_wallets (wallet_map v) ks"

text \<open>The seed is random, so the index does not determine the key; \<open>keys\<close> is what the generator
  answers.\<close>

definition DerivePath :: "crypto \<Rightarrow> i64 \<Rightarrow> Wallet go \<Rightarrow> u32 \<Rightarrow> WalletVault \<Rightarrow> WalletVault \<times> WalletRecord option go" where
  "DerivePath C now keys index v =
     (case keys of
        Ok w \<Rightarrow>
          (let address = sha256 C (w_PublicKey w);
               record = \<lparr>wr_Wallet = w, wr_Label = ''hd-'' @ fmt_nat (unat index), wr_IsAgent = False,
                 wr_Derivation = index, wr_CreatedAt = now, wr_LastUsed = now, wr_Archived = False\<rparr>
           in case put_wallet (EncodeToString address) record v of
                (v, Ok _) \<Rightarrow> (v, Ok (Some record))
              | (v, Err e) \<Rightarrow> (v, Err e)
              | (v, Panic e) \<Rightarrow> (v, Panic e))
      | _ \<Rightarrow> (v, Ok None))"

text \<open>\<open>file\<close> is the content before; \<open>fault\<close> is what a failed write leaves in the file, and its error.\<close>

definition Save :: "(wallet_files option \<Rightarrow> string go) \<Rightarrow> (string option \<times> string) option \<Rightarrow> string option \<Rightarrow> WalletVault \<Rightarrow>
    string option \<times> unit go" where
  "Save json fault file v =
     (case json (vv_wallets v) of
        Err e \<Rightarrow> (file, Err e)
      | Panic e \<Rightarrow> (file, Panic e)
      | Ok data \<Rightarrow> (case fault of None \<Rightarrow> (Some data, Ok ()) | Some (rest, e) \<Rightarrow> (rest, Err e)))"

text \<open>The decoder works on the map in place: what it has read when it meets an error stays.\<close>

definition Load :: "(string \<Rightarrow> wallet_files option \<Rightarrow> wallet_files option \<times> unit go) \<Rightarrow> string option \<Rightarrow>
    WalletVault \<Rightarrow> WalletVault \<times> unit go" where
  "Load unjson file v =
     (case file of
        None \<Rightarrow> (v, Err ''no such file or directory'')
      | Some data \<Rightarrow> (case unjson data (vv_wallets v) of (ws, r) \<Rightarrow> (v\<lparr>vv_wallets := ws\<rparr>, r)))"

definition Archive :: "string \<Rightarrow> WalletVault \<Rightarrow> WalletVault \<times> bool go" where
  "Archive address v =
     (case fmlookup (wallet_map v) address of
        Some (Some rec) \<Rightarrow>
          (v\<lparr>vv_wallets := Some (fmupd address (Some (rec\<lparr>wr_Archived := True\<rparr>)) (wallet_map v))\<rparr>, Ok True)
      | Some None \<Rightarrow> (v, Panic ''invalid memory address or nil pointer dereference'')
      | None \<Rightarrow> (v, Ok False))"

definition Count :: "WalletVault \<Rightarrow> nat" where
  "Count v = map_len (wallet_map v)"

section \<open>Runs\<close>

text \<open>The calls that change a vault; a call yields the new vault and whether it panicked.\<close>

datatype vault_event = Create i64 Wallet string bool | Derive i64 "Wallet go" u32 | DoArchive string | DoLoad "string option"

definition is_panic :: "'a go \<Rightarrow> bool" where
  "is_panic r = (case r of Panic e \<Rightarrow> True | _ \<Rightarrow> False)"

lemma is_panic_simps [simp]: "\<not> is_panic (Ok x)" "\<not> is_panic (Err e)" "is_panic (Panic e)"
  by (simp_all add: is_panic_def)

type_synonym vault_decoder = "string \<Rightarrow> wallet_files option \<Rightarrow> wallet_files option \<times> unit go"

fun vault_call :: "crypto \<Rightarrow> vault_decoder \<Rightarrow> vault_event \<Rightarrow> WalletVault \<Rightarrow> WalletVault \<times> bool" where
  "vault_call C U (Create now w label agent) v = map_prod (\<lambda>v. v) is_panic (CreateWallet C now w label agent v)"
| "vault_call C U (Derive now keys i) v = map_prod (\<lambda>v. v) is_panic (DerivePath C now keys i v)"
| "vault_call C U (DoArchive a) v = map_prod (\<lambda>v. v) is_panic (Archive a v)"
| "vault_call C U (DoLoad file) v = map_prod (\<lambda>v. v) is_panic (Load U file v)"

definition vault_on :: "crypto \<Rightarrow> vault_decoder \<Rightarrow> vault_event \<Rightarrow> WalletVault \<Rightarrow> WalletVault" where
  "vault_on C U e v = fst (vault_call C U e v)"

text \<open>Every wallet is filed under the address of its public key.\<close>

definition filed :: "crypto \<Rightarrow> wallet_files \<Rightarrow> bool" where
  "filed C m \<longleftrightarrow> fmpred (\<lambda>a r. case r of None \<Rightarrow> False | Some r \<Rightarrow> wallet_Address C (wr_Wallet r) = a) m"

definition vault_ok :: "crypto \<Rightarrow> WalletVault \<Rightarrow> bool" where
  "vault_ok C v \<longleftrightarrow> (case vv_wallets v of None \<Rightarrow> False | Some m \<Rightarrow> filed C m)"

text \<open>A file that adds well-filed wallets: decoding it, with or without an error, overwrites the map with them. This is
  what \<open>encoding/json\<close> documents of an object that is decoded into an existing map, when the object is one that
  \<open>Save\<close> wrote for a vault whose wallets are filed.\<close>

definition file_ok :: "crypto \<Rightarrow> vault_decoder \<Rightarrow> string \<Rightarrow> bool" where
  "file_ok C U data \<longleftrightarrow> (\<exists>ws. filed C ws \<and> (\<forall>m. \<exists>r. U data (Some m) = (Some (m ++\<^sub>f ws), r) \<and> \<not> is_panic r))"

definition event_ok :: "crypto \<Rightarrow> vault_decoder \<Rightarrow> vault_event \<Rightarrow> bool" where
  "event_ok C U e \<longleftrightarrow> (\<forall>data. e = DoLoad (Some data) \<longrightarrow> file_ok C U data)"

lemma filed_upd: "filed C m \<Longrightarrow> wallet_Address C (wr_Wallet r) = a \<Longrightarrow> filed C (fmupd a (Some r) m)"
  by (simp add: filed_def fmpred_iff)

lemma filed_add: "filed C m \<Longrightarrow> filed C ws \<Longrightarrow> filed C (m ++\<^sub>f ws)"
  by (simp add: filed_def fmpred_add)

lemma filed_lookup: "filed C m \<Longrightarrow> fmlookup m a = Some x \<Longrightarrow> \<exists>r. x = Some r \<and> wallet_Address C (wr_Wallet r) = a"
  unfolding filed_def fmpred_iff by (cases x) fastforce+

text \<open>What one call does to a vault whose wallets are filed.\<close>

lemma vault_call_step:
  assumes "vault_ok C v" "event_ok C U e"
  shows "vault_ok C (vault_on C U e v) \<and> fset (fmdom (wallet_map v)) \<subseteq> fset (fmdom (wallet_map (vault_on C U e v))) \<and> \<not> snd (vault_call C U e v)"
proof -
  obtain m where m: "vv_wallets v = Some m" "filed C m" using assms(1) by (auto simp: vault_ok_def split: option.splits)
  show ?thesis
  proof (cases e)
    case (Create now w label agent)
    then show ?thesis using m by (auto simp: vault_on_def CreateWallet_def put_wallet_def vault_ok_def wallet_map_def Let_def filed_upd)
  next
    case (Derive now keys i)
    then show ?thesis
      using m by (cases keys) (auto simp: vault_on_def DerivePath_def put_wallet_def vault_ok_def wallet_map_def Let_def wallet_Address_def intro!: filed_upd)
  next
    case (DoArchive a)
    then show ?thesis
      using m filed_lookup [OF m(2), of a]
      by (cases "fmlookup m a") (auto simp: vault_on_def Archive_def vault_ok_def wallet_map_def intro!: filed_upd)
  next
    case (DoLoad f)
    show ?thesis
    proof (cases f)
      case (Some data)
      then obtain ws r where "filed C ws" "U data (Some m) = (Some (m ++\<^sub>f ws), r)" "\<not> is_panic r"
        using assms(2) DoLoad unfolding event_ok_def file_ok_def by metis
      then show ?thesis using m DoLoad Some by (auto simp: vault_on_def Load_def vault_ok_def wallet_map_def filed_add)
    qed (use m DoLoad in \<open>auto simp: vault_on_def Load_def vault_ok_def\<close>)
  qed
qed

text \<open>C40. Whatever calls a vault receives, starting with one whose wallets are filed under their addresses (as a new one is), creating, deriving and archiving in any order, and loading files that hold wallets filed under their addresses (as \<open>Save\<close> writes them), every
  wallet in it is filed under the address of its public key, no address ever disappears, and no such call panics. The condition on the files is needed: \<open>Load\<close> does not check what it reads.\<close>

theorem vault_runs:
  assumes "vault_ok C v" "\<forall>e \<in> set es. event_ok C U e"
  shows "let v' = fold (vault_on C U) es v in
    vault_ok C v' \<and> fset (fmdom (wallet_map v)) \<subseteq> fset (fmdom (wallet_map v')) \<and>
    (\<forall>e. event_ok C U e \<longrightarrow> \<not> snd (vault_call C U e v'))"
proof -
  have "vault_ok C (fold (vault_on C U) es v) \<and> fset (fmdom (wallet_map v)) \<subseteq> fset (fmdom (wallet_map (fold (vault_on C U) es v)))"
    using assms
  proof (induction es arbitrary: v)
    case (Cons e es)
    then show ?case using vault_call_step [of C v U e] Cons.IH [of "vault_on C U e v"] by auto
  qed simp
  then show ?thesis using vault_call_step by (simp add: Let_def)
qed

definition demo_vault :: WalletVault where
  "demo_vault = fst (CreateWallet demo_crypto 1 \<lparr>w_PublicKey = ''k'', w_PrivateKey = ''s''\<rparr> ''main'' False NewWalletVault)"

lemma demo_vault_ok: "vault_ok demo_crypto demo_vault"
  by (simp add: demo_vault_def vault_ok_def CreateWallet_def put_wallet_def NewWalletVault_def Let_def filed_def fmpred_iff)

text \<open>The decoder of the example reads the file \<open>s\<close> as the wallets of \<open>demo_vault\<close>, and \<open>null\<close> as the absence of a map.\<close>

definition demo_decoder :: vault_decoder where
  "demo_decoder data old =
     (if data = ''s'' then (map_option (\<lambda>m. m ++\<^sub>f wallet_map demo_vault) old, Ok ())
      else if data = ''null'' then (None, Ok ())
      else (old, Err ''invalid character''))"

lemma demo_file_ok: "file_ok demo_crypto demo_decoder ''s''"
  using demo_vault_ok
  by (auto simp: file_ok_def demo_decoder_def vault_ok_def wallet_map_def split: option.splits intro!: exI [of _ "wallet_map demo_vault"])

text \<open>A vault makes a wallet, loads the saved one and archives it, and holds both addresses.\<close>

theorem vault_runs_witness:
  "let w = \<lparr>w_PublicKey = ''p'', w_PrivateKey = ''q''\<rparr>;
       v = fold (vault_on demo_crypto demo_decoder)
         [Create 2 w ''two'' True, DoLoad (Some ''s''), DoArchive (wallet_Address demo_crypto \<lparr>w_PublicKey = ''k'', w_PrivateKey = ''s''\<rparr>)] demo_vault
   in vault_ok demo_crypto v \<and> fset (fmdom (wallet_map demo_vault)) \<subseteq> fset (fmdom (wallet_map v)) \<and>
      \<not> snd (vault_call demo_crypto demo_decoder (DoLoad (Some ''s'')) v)"
proof -
  have "event_ok demo_crypto demo_decoder (DoLoad (Some ''s''))" "event_ok demo_crypto demo_decoder (Create t w l a)"
    "event_ok demo_crypto demo_decoder (DoArchive x)" for t w l a x
    using demo_file_ok by (simp_all add: event_ok_def)
  then show ?thesis
    using vault_runs [OF demo_vault_ok, of "[Create 2 \<lparr>w_PublicKey = ''p'', w_PrivateKey = ''q''\<rparr> ''two'' True, DoLoad (Some ''s''),
        DoArchive (wallet_Address demo_crypto \<lparr>w_PublicKey = ''k'', w_PrivateKey = ''s''\<rparr>)]" demo_decoder]
    by (simp add: Let_def del: vault_call.simps)
qed

text \<open>What \<open>Load\<close> lets in: a file with the content \<open>null\<close>, which the decoder accepts, drops every wallet of the vault, and from then on
  making a wallet panics.\<close>

theorem null_file_empties_vault:
  assumes "unjson ''null'' (vv_wallets v) = (None, Ok ())"
  shows "snd (Load unjson (Some ''null'') v) = Ok () \<and> Count (fst (Load unjson (Some ''null'') v)) = 0 \<and>
    is_panic (snd (CreateWallet C now w label agent (fst (Load unjson (Some ''null'') v))))"
  using assms by (simp add: Load_def Count_def wallet_map_def CreateWallet_def put_wallet_def Let_def map_len_def)

theorem null_file_empties_vault_witness:
  "is_panic (snd (CreateWallet demo_crypto 1 \<lparr>w_PublicKey = ''p'', w_PrivateKey = ''q''\<rparr> [] False (fst (Load demo_decoder (Some ''null'') demo_vault))))"
  using null_file_empties_vault [of demo_decoder demo_vault] by (simp add: demo_decoder_def)

text \<open>In a vault whose wallets are filed, the listing shows exactly the wallets that are not archived: after a wallet is archived it is not
  listed, while \<open>GetWallet\<close> and \<open>Count\<close> still see it.\<close>

lemma list_wallets_ok:
  assumes "filed C m"
  shows "\<exists>ws. list_wallets m ks = Ok ws \<and> set ws = {r. \<not> wr_Archived r \<and> (\<exists>k \<in> set ks. fmlookup m k = Some (Some r))}"
proof (induction ks)
  case (Cons k ks)
  then show ?case using filed_lookup [OF assms, of k] by (cases "fmlookup m k") auto
qed simp

theorem archive_hides:
  assumes "vault_ok C v" "GetWallet a v = Some r" and "range_order ks (wallet_map (fst (Archive a v)))"
  shows "\<exists>ws. ListWallets ks (fst (Archive a v)) = Ok ws \<and>
    set ws = {r. \<not> wr_Archived r \<and> (\<exists>b. b \<noteq> a \<and> GetWallet b v = Some r)} \<and>
    GetWallet a (fst (Archive a v)) = Some (r\<lparr>wr_Archived := True\<rparr>) \<and> Count (fst (Archive a v)) = Count v"
proof -
  let ?m = "fmupd a (Some (r\<lparr>wr_Archived := True\<rparr>)) (wallet_map v)"
  have a: "fmlookup (wallet_map v) a = Some (Some r)"
    using assms(2) by (auto simp: GetWallet_def map_get_def split: option.splits)
  then have v': "wallet_map (fst (Archive a v)) = ?m" by (simp add: Archive_def wallet_map_def)
  have "filed C (wallet_map v)" using assms(1) by (auto simp: vault_ok_def wallet_map_def split: option.splits)
  then have "filed C ?m" using filed_lookup [OF _ a] by (auto intro!: filed_upd)
  then obtain ws where ws: "list_wallets ?m ks = Ok ws" "set ws = {r. \<not> wr_Archived r \<and> (\<exists>k \<in> set ks. fmlookup ?m k = Some (Some r))}"
    using list_wallets_ok by blast
  have "k \<in> set ks \<longleftrightarrow> has_key ?m k" for k using range_order_has_key [OF assms(3)] unfolding v' by simp
  then have ex: "(\<exists>k \<in> set ks. fmlookup ?m k = Some (Some x)) \<longleftrightarrow> (\<exists>k. fmlookup ?m k = Some (Some x))" for x by (auto simp: has_key_def)
  have get: "GetWallet b v = Some x \<longleftrightarrow> fmlookup (wallet_map v) b = Some (Some x)" for b x
    by (auto simp: GetWallet_def map_get_def split: option.splits)
  have "set ws = {r. \<not> wr_Archived r \<and> (\<exists>b. b \<noteq> a \<and> GetWallet b v = Some r)}"
    unfolding ws(2) ex get by (auto split: if_splits)
  then show ?thesis
    using ws(1) a by (simp add: ListWallets_def GetWallet_def map_get_def Count_def v' has_key_def)
qed

theorem archive_hides_witness:
  "ListWallets [wallet_Address demo_crypto \<lparr>w_PublicKey = ''k'', w_PrivateKey = ''s''\<rparr>]
     (fst (Archive (wallet_Address demo_crypto \<lparr>w_PublicKey = ''k'', w_PrivateKey = ''s''\<rparr>) demo_vault)) = Ok []"
proof -
  let ?a = "wallet_Address demo_crypto \<lparr>w_PublicKey = ''k'', w_PrivateKey = ''s''\<rparr>"
  obtain r where m: "wallet_map demo_vault = fmupd ?a (Some r) fmempty"
    by (simp add: demo_vault_def CreateWallet_def put_wallet_def NewWalletVault_def wallet_map_def Let_def)
  then have "range_order [?a] (wallet_map (fst (Archive ?a demo_vault)))"
    by (simp add: range_order_def Archive_def wallet_map_def)
  moreover have g: "GetWallet b demo_vault = (if b = ?a then Some r else None)" for b
    using m by (simp add: GetWallet_def map_get_def)
  ultimately obtain ws where "ListWallets [?a] (fst (Archive ?a demo_vault)) = Ok ws"
      "set ws = {r. \<not> wr_Archived r \<and> (\<exists>b. b \<noteq> ?a \<and> GetWallet b demo_vault = Some r)}"
    using archive_hides [OF demo_vault_ok, of ?a r "[?a]"] by auto
  moreover have "{r. \<not> wr_Archived r \<and> (\<exists>b. b \<noteq> ?a \<and> GetWallet b demo_vault = Some r)} = {}" unfolding g by auto
  ultimately show ?thesis by simp
qed

text \<open>A vault saved without a write error and loaded into an empty one is the same vault; loaded into
  a vault with wallets of its own it is merged: an address of the file takes the wallet of the
  file, and the others stay. The hypothesis is what \<open>encoding/json\<close> documents of decoding an object
  into an existing map.\<close>

theorem Save_Load:
  assumes "json (vv_wallets v) = Ok data" "vv_wallets v = Some m" and "\<And>old. unjson data (Some old) = (Some (old ++\<^sub>f m), Ok ())"
  shows "Load unjson (fst (Save json None file v)) NewWalletVault = (v, Ok ()) \<and>
    (\<forall>old a. vv_wallets old \<noteq> None \<longrightarrow> GetWallet a (fst (Load unjson (fst (Save json None file v)) old)) =
       (if has_key m a then GetWallet a v else GetWallet a old))"
  using assms by (auto simp: Save_def Load_def NewWalletVault_def GetWallet_def has_key_def map_get_def wallet_map_def fmlookup_dom_iff)

theorem Save_Load_witness:
  "Load demo_decoder (fst (Save (\<lambda>_. Ok ''s'') None None demo_vault)) NewWalletVault = (demo_vault, Ok ())"
proof -
  have "vv_wallets demo_vault = Some (wallet_map demo_vault)"
    using demo_vault_ok by (auto simp: vault_ok_def wallet_map_def split: option.splits)
  then show ?thesis
    by (intro conjunct1 [OF Save_Load [of "\<lambda>_. Ok ''s''" demo_vault "''s''"]]) (simp_all add: demo_decoder_def)
qed

end
