(* ===== verification/Merkle.thy ===== *)
theory Merkle
  imports Domain
begin

text \<open>
  Merkle trees: \<open>go-chain/blockchain/merkle.go\<close> (tree, inclusion proofs, their verification) and
  \<open>CalculateMerkleRoot\<close> of \<open>domain.go\<close> (the root that a block carries). A nil \<open>*MerkleNode\<close> is
  \<open>NilNode\<close>. The hash function is the field \<open>sha256\<close> of the argument \<open>C\<close>.
\<close>

section \<open>Definitions\<close>

datatype MerkleNode = NilNode | MNode (mn_Hash: string) (mn_Left: MerkleNode) (mn_Right: MerkleNode)
  where "mn_Hash NilNode = []"

text \<open>One round of the loop over a level: neighbours are combined, an odd last element is taken
  over.\<close>

fun merkle_pairs :: "('n \<Rightarrow> 'n \<Rightarrow> 'n) \<Rightarrow> 'n list \<Rightarrow> 'n list" where
  "merkle_pairs f (x # y # rest) = f x y # merkle_pairs f rest"
| "merkle_pairs f [x] = [x]"
| "merkle_pairs f [] = []"

lemma length_merkle_pairs [simp]: "length (merkle_pairs f xs) = (length xs + 1) div 2"
  by (induction f xs rule: merkle_pairs.induct) auto

lemma merkle_pairs_eq_Nil: "merkle_pairs f xs = [] \<longleftrightarrow> xs = []"
  by (induction f xs rule: merkle_pairs.induct) auto

function merkle_loop :: "('n \<Rightarrow> 'n \<Rightarrow> 'n) \<Rightarrow> 'n list \<Rightarrow> 'n list" where
  "merkle_loop f nodes = (if 1 < length nodes then merkle_loop f (merkle_pairs f nodes) else nodes)"
  by pat_completeness auto
termination
  by (relation "measure (\<lambda>(f, nodes). length nodes)") auto

declare merkle_loop.simps [simp del]

definition hex_sum :: "crypto \<Rightarrow> string \<Rightarrow> string" where
  "hex_sum C s = EncodeToString (sha256 C s)"

definition merkle_join :: "crypto \<Rightarrow> MerkleNode \<Rightarrow> MerkleNode \<Rightarrow> MerkleNode" where
  "merkle_join C left right =
     (let combined = mn_Hash left @ mn_Hash right in MNode (hex_sum C combined) left right)"

definition BuildMerkleTree :: "crypto \<Rightarrow> string list \<Rightarrow> MerkleNode go" where
  "BuildMerkleTree C items =
     (if length items = 0 then Err ''empty items''
      else let nodes = map (\<lambda>item. MNode (hex_sum C item) NilNode NilNode) items in
        case merkle_loop (merkle_join C) nodes of
          [] \<Rightarrow> Panic ''index out of range''
        | n # _ \<Rightarrow> Ok n)"

text \<open>The closure \<open>findProof\<close> appends to the variable \<open>proof\<close>, which is passed along.\<close>

fun findProof :: "string \<Rightarrow> MerkleNode \<Rightarrow> string list \<Rightarrow> bool \<times> string list" where
  "findProof targetHex NilNode prf = (False, prf)"
| "findProof targetHex (MNode h l r) prf =
     (if h = targetHex then (True, prf)
      else case findProof targetHex l prf of
        (True, prf') \<Rightarrow> (True, if r \<noteq> NilNode then prf' @ [CHR 0x01 # mn_Hash r] else prf')
      | (False, prf') \<Rightarrow>
          (case findProof targetHex r prf' of
             (True, prf'') \<Rightarrow> (True, if l \<noteq> NilNode then prf'' @ [CHR 0x00 # mn_Hash l] else prf'')
           | (False, prf'') \<Rightarrow> (False, prf'')))"

definition GenerateProof :: "crypto \<Rightarrow> MerkleNode \<Rightarrow> string \<Rightarrow> string list option" where
  "GenerateProof C root target =
     (if root = NilNode then None
      else case findProof (hex_sum C target) root [] of
        (True, prf) \<Rightarrow> Some prf
      | (False, prf) \<Rightarrow> None)"

fun verify_loop :: "crypto \<Rightarrow> string \<Rightarrow> string list \<Rightarrow> string option" where
  "verify_loop C currentHex [] = Some currentHex"
| "verify_loop C currentHex ([] # rest) = None"
| "verify_loop C currentHex ((d # siblingHash) # rest) =
     (let combined = (if d = CHR 0x01 then currentHex @ siblingHash else siblingHash @ currentHex)
      in verify_loop C (hex_sum C combined) rest)"

definition VerifyMerkleProof :: "crypto \<Rightarrow> string \<Rightarrow> string \<Rightarrow> string list \<Rightarrow> bool" where
  "VerifyMerkleProof C rootHash target prf =
     (let currentHex = hex_sum C target in
      if currentHex = rootHash \<and> length prf = 0 then True
      else case verify_loop C currentHex prf of
        None \<Rightarrow> False
      | Some currentHex \<Rightarrow> currentHex = rootHash)"

fun decode_all :: "string list \<Rightarrow> string list option" where
  "decode_all [] = Some []"
| "decode_all (h # hs) =
     (case DecodeString h of
        Ok d \<Rightarrow> map_option ((#) d) (decode_all hs)
      | _ \<Rightarrow> None)"

definition CalculateMerkleRootFromHashes :: "crypto \<Rightarrow> string list \<Rightarrow> string" where
  "CalculateMerkleRootFromHashes C txHashes =
     (if length txHashes = 0 then []
      else case decode_all txHashes of
        None \<Rightarrow> []
      | Some items \<Rightarrow>
          (case BuildMerkleTree C items of Ok node \<Rightarrow> mn_Hash node | _ \<Rightarrow> []))"

definition CalculateMerkleRootDeterministic :: "crypto \<Rightarrow> string list \<Rightarrow> string" where
  "CalculateMerkleRootDeterministic C items = CalculateMerkleRootFromHashes C items"

definition CalculateMerkleRoot :: "crypto \<Rightarrow> Transaction list \<Rightarrow> string" where
  "CalculateMerkleRoot C transactions =
     (if length transactions = 0 then []
      else let hashes = map (\<lambda>tx. sha256 C (tx_ID tx)) transactions in
        case merkle_loop (\<lambda>a b. sha256 C (a @ b)) hashes of
          [] \<Rightarrow> []
        | h # _ \<Rightarrow> EncodeToString h)"

section \<open>The reduction of a level to its root\<close>

text \<open>What holds of every leaf and is kept when two nodes are joined holds of the root. Both
  trees of the code are reductions of this kind.\<close>

locale merkle_reduction =
  fixes join :: "'n \<Rightarrow> 'n \<Rightarrow> 'n" and good :: "'n \<Rightarrow> bool" and covers :: "'n \<Rightarrow> 'h \<Rightarrow> bool"
  assumes good_join: "good a \<Longrightarrow> good b \<Longrightarrow> good (join a b)"
    and covers_join: "covers a h \<or> covers b h \<Longrightarrow> covers (join a b) h"
begin

lemma pairs_good: "list_all good ns \<Longrightarrow> list_all good (merkle_pairs join ns)"
  by (induction ns rule: induct_list012) (auto intro: good_join)

lemma pairs_covers: "\<exists>n \<in> set ns. covers n h \<Longrightarrow> \<exists>n \<in> set (merkle_pairs join ns). covers n h"
  by (induction ns rule: induct_list012) (auto intro: covers_join)

lemma loop_root:
  assumes "ns \<noteq> []" and "list_all good ns"
  shows "\<exists>root. merkle_loop join ns = [root] \<and> good root \<and>
           (\<forall>h. (\<exists>n \<in> set ns. covers n h) \<longrightarrow> covers root h)"
  using assms
proof (induction "length ns" arbitrary: ns rule: less_induct)
  case less
  show ?case
  proof (cases "1 < length ns")
    case True
    let ?ms = "merkle_pairs join ns"
    have "length ?ms < length ns" "?ms \<noteq> []"
      using True by (auto simp: merkle_pairs_eq_Nil)
    then obtain root where root: "merkle_loop join ?ms = [root]" "good root"
        "\<forall>h. (\<exists>n \<in> set ?ms. covers n h) \<longrightarrow> covers root h"
      using less.hyps [of ?ms] pairs_good [OF less.prems(2)] by auto
    then show ?thesis
      using True pairs_covers merkle_loop.simps [of join ns] by (metis (no_types))
  next
    case False
    with less.prems(1) obtain n where "ns = [n]"
      by (cases ns) auto
    with less.prems(2) show ?thesis
      by (simp add: merkle_loop.simps)
  qed
qed

end

text \<open>A node of a tree over \<open>items\<close>: a leaf holds the hash of an item, an inner node the hash of
  its children's hashes. \<open>in_tree h n\<close>: some node below \<open>n\<close> has the hash \<open>h\<close>.\<close>

inductive tree_over :: "crypto \<Rightarrow> string list \<Rightarrow> MerkleNode \<Rightarrow> bool" for C items where
  leaf: "it \<in> set items \<Longrightarrow> tree_over C items (MNode (hex_sum C it) NilNode NilNode)"
| inner: "tree_over C items l \<Longrightarrow> tree_over C items r \<Longrightarrow>
     tree_over C items (MNode (hex_sum C (mn_Hash l @ mn_Hash r)) l r)"

inductive_cases tree_overE: "tree_over C items n"

fun in_tree :: "MerkleNode \<Rightarrow> string \<Rightarrow> bool" where
  "in_tree NilNode h \<longleftrightarrow> False"
| "in_tree (MNode h' l r) h \<longleftrightarrow> h' = h \<or> in_tree l h \<or> in_tree r h"

interpretation hex_tree: merkle_reduction "merkle_join C" "tree_over C items" in_tree
  for C items
  by unfold_locales (auto simp: merkle_join_def Let_def intro: tree_over.inner)

interpretation raw_tree: merkle_reduction "\<lambda>a b. sha256 C (a @ b)" "\<lambda>d. crypto_ok C \<longrightarrow> length d = 32"
  "\<lambda>d h. False"
  for C
  by unfold_locales (auto simp: crypto_ok_def)

lemma BuildMerkleTree_Ok:
  assumes "items \<noteq> []"
  shows "\<exists>root. BuildMerkleTree C items = Ok root \<and> tree_over C items root \<and>
           (\<forall>t \<in> set items. in_tree root (hex_sum C t))"
proof -
  let ?leaf = "\<lambda>item. MNode (hex_sum C item) NilNode NilNode"
  have "list_all (tree_over C items) (map ?leaf items)"
    by (auto simp: list_all_iff intro: tree_over.leaf)
  then obtain root where root: "merkle_loop (merkle_join C) (map ?leaf items) = [root]"
      "tree_over C items root"
      "\<forall>h. (\<exists>n \<in> set (map ?leaf items). in_tree n h) \<longrightarrow> in_tree root h"
    using hex_tree.loop_root [of "map ?leaf items" C items] assms by auto
  moreover have "in_tree root (hex_sum C t)" if "t \<in> set items" for t
    using root(3) that by (auto intro: bexI [of _ t])
  ultimately show ?thesis
    using assms by (auto simp: BuildMerkleTree_def Let_def)
qed

section \<open>Inclusion proofs\<close>

lemma tree_over_not_Nil: "tree_over C items n \<Longrightarrow> n \<noteq> NilNode"
  by (auto elim: tree_overE)

lemma verify_loop_snoc:
  "verify_loop C cur (p @ [s]) =
     (case verify_loop C cur p of None \<Rightarrow> None | Some c \<Rightarrow> verify_loop C c [s])"
  by (induction C cur p rule: verify_loop.induct) (auto simp: Let_def)

text \<open>The search fails without touching the proof, or it extends the proof by a path that leads
  from the target's hash to the node's.\<close>

lemma findProof_spec:
  assumes "tree_over C items n"
  shows "if in_tree n h then
           \<exists>q. findProof h n p = (True, p @ q) \<and> verify_loop C h q = Some (mn_Hash n)
         else findProof h n p = (False, p)"
  using assms
proof (induction n arbitrary: p rule: tree_over.induct)
  case (leaf it)
  then show ?case by auto
next
  case (inner l r)
  let ?H = "hex_sum C (mn_Hash l @ mn_Hash r)"
  have nil: "l \<noteq> NilNode" "r \<noteq> NilNode"
    using inner.hyps by (auto dest: tree_over_not_Nil)
  show ?case
  proof (cases "?H = h")
    case True
    then show ?thesis by auto
  next
    case False
    note top = this
    show ?thesis
    proof (cases "in_tree l h")
      case True
      then obtain q where "findProof h l p = (True, p @ q)" "verify_loop C h q = Some (mn_Hash l)"
        using inner.IH(1) [of p] by auto
      with True top nil show ?thesis
        by (auto simp: verify_loop_snoc intro: exI [of _ "q @ [CHR 0x01 # mn_Hash r]"])
    next
      case False
      then have l: "findProof h l p = (False, p)"
        using inner.IH(1) [of p] by simp
      show ?thesis
      proof (cases "in_tree r h")
        case True
        then obtain q where "findProof h r p = (True, p @ q)" "verify_loop C h q = Some (mn_Hash r)"
          using inner.IH(2) [of p] by auto
        with True False top nil l show ?thesis
          by (auto simp: verify_loop_snoc intro: exI [of _ "q @ [CHR 0x00 # mn_Hash l]"])
      next
        case False
        with \<open>\<not> in_tree l h\<close> top l inner.IH(2) [of p] show ?thesis by simp
      qed
    qed
  qed
qed

text \<open>C9. Inclusion proofs are complete: for every non-empty list of items the tree is built, and
  for each item the tree yields a proof that the verifier accepts against the tree's root. This
  holds for every hash function.\<close>

theorem merkle_proofs_complete:
  assumes "items \<noteq> []"
  shows "\<exists>root. BuildMerkleTree C items = Ok root \<and>
     (\<forall>t \<in> set items. \<exists>prf. GenerateProof C root t = Some prf \<and> VerifyMerkleProof C (mn_Hash root) t prf)"
proof -
  obtain root where root: "BuildMerkleTree C items = Ok root" "tree_over C items root"
      "\<forall>t \<in> set items. in_tree root (hex_sum C t)"
    using BuildMerkleTree_Ok [OF assms] by blast
  have "\<exists>prf. GenerateProof C root t = Some prf \<and> VerifyMerkleProof C (mn_Hash root) t prf"
    if "t \<in> set items" for t
    using findProof_spec [OF root(2), of "hex_sum C t" "[]"] root(3) that tree_over_not_Nil [OF root(2)]
    by (auto simp: GenerateProof_def VerifyMerkleProof_def Let_def)
  with root(1) show ?thesis by blast
qed

theorem merkle_proofs_complete_witness:
  "\<exists>root. BuildMerkleTree demo_crypto [''a'', ''b'', ''c''] = Ok root \<and>
     (\<forall>t \<in> set [''a'', ''b'', ''c'']. \<exists>prf. GenerateProof demo_crypto root t = Some prf \<and>
        VerifyMerkleProof demo_crypto (mn_Hash root) t prf)"
  by (rule merkle_proofs_complete) simp

section \<open>Soundness of verification\<close>

text \<open>The strings that the two computations hash: the items and the pairs of children when the
  tree is built, the target and the combined strings when a proof is checked.\<close>

fun hashed_tree :: "MerkleNode \<Rightarrow> string set" where
  "hashed_tree NilNode = {}"
| "hashed_tree (MNode h l r) = {mn_Hash l @ mn_Hash r} \<union> hashed_tree l \<union> hashed_tree r"

fun hashed_verify :: "crypto \<Rightarrow> string \<Rightarrow> string list \<Rightarrow> string set" where
  "hashed_verify C currentHex ((d # siblingHash) # rest) =
     (let combined = (if d = CHR 0x01 then currentHex @ siblingHash else siblingHash @ currentHex)
      in insert combined (hashed_verify C (hex_sum C combined) rest))"
| "hashed_verify C currentHex p = {}"

definition collision :: "crypto \<Rightarrow> string set \<Rightarrow> string set \<Rightarrow> bool" where
  "collision C A B \<longleftrightarrow> (\<exists>x \<in> A. \<exists>y \<in> B. x \<noteq> y \<and> sha256 C x = sha256 C y)"

lemma collision_mono: "collision C A B \<Longrightarrow> A \<subseteq> A' \<Longrightarrow> B \<subseteq> B' \<Longrightarrow> collision C A' B'"
  by (auto simp: collision_def)

lemma length_hex_sum: "crypto_ok C \<Longrightarrow> length (hex_sum C s) = 64"
  by (simp add: hex_sum_def crypto_ok_def)

lemma length_node_hash: "crypto_ok C \<Longrightarrow> tree_over C items n \<Longrightarrow> length (mn_Hash n) = 64"
  by (auto elim: tree_overE simp: length_hex_sum)

lemma hex_sum_eq: "hex_sum C x = hex_sum C y \<longleftrightarrow> sha256 C x = sha256 C y"
  by (simp add: hex_sum_def)

lemma hashed_verify_snoc:
  "verify_loop C cur p = Some c \<Longrightarrow>
     hashed_verify C cur (p @ [d # s]) =
       insert (if d = CHR 0x01 then c @ s else s @ c) (hashed_verify C cur p)"
  by (induction C cur p rule: verify_loop.induct) (auto simp: Let_def)

lemma length_verify_loop:
  "crypto_ok C \<Longrightarrow> length cur = 64 \<Longrightarrow> verify_loop C cur p = Some c \<Longrightarrow> length c = 64"
  by (induction C cur p rule: verify_loop.induct) (auto simp: Let_def length_hex_sum)

text \<open>Going down from a node with an accepted proof, the last step first.\<close>

lemma append_halves:
  assumes "length a = 64" "length b = 64" "length c = 64"
    and "(if u then c @ s else s @ c) = a @ b"
  shows "c = a \<or> c = b"
  using assms by (auto split: if_splits)

lemma verify_sound_node:
  assumes C: "crypto_ok C" and items: "\<forall>it \<in> set items. length it < 64" and t: "length t < 64"
    and n: "tree_over C items n" and v: "verify_loop C (hex_sum C t) p = Some (mn_Hash n)"
  shows "t \<in> set items \<or>
     collision C (set items \<union> hashed_tree n) (insert t (hashed_verify C (hex_sum C t) p))"
  using n v
proof (induction p arbitrary: n rule: rev_induct)
  case Nil
  then have eq: "hex_sum C t = mn_Hash n" by simp
  from Nil.prems(1) show ?case
  proof (cases rule: tree_over.cases)
    case (leaf it)
    then show ?thesis using eq by (auto simp: collision_def hex_sum_eq)
  next
    case (inner l r)
    have "length (mn_Hash l @ mn_Hash r) = 128"
      using inner C by (simp add: length_node_hash)
    then have "t \<noteq> mn_Hash l @ mn_Hash r" using t by auto
    then show ?thesis using inner eq by (auto simp: collision_def hex_sum_eq)
  qed
next
  case (snoc s p)
  then obtain c d sib where c: "verify_loop C (hex_sum C t) p = Some c" and s: "s = d # sib"
    by (cases s) (auto simp: verify_loop_snoc split: option.splits)
  define x where "x = (if d = CHR 0x01 then c @ sib else sib @ c)"
  have hx: "hex_sum C x = mn_Hash n"
    using snoc.prems(2) c s by (auto simp: verify_loop_snoc x_def Let_def)
  have hashed: "hashed_verify C (hex_sum C t) (p @ [s]) = insert x (hashed_verify C (hex_sum C t) p)"
    using hashed_verify_snoc [OF c] s by (simp add: x_def)
  have lc: "length c = 64"
    using length_verify_loop [OF C length_hex_sum [OF C] c] .
  from snoc.prems(1) show ?case
  proof (cases rule: tree_over.cases)
    case (leaf it)
    have "64 \<le> length x" using lc by (simp add: x_def)
    then have "x \<noteq> it" using items leaf by auto
    then show ?thesis
      using leaf hx hashed by (auto simp: collision_def hex_sum_eq)
  next
    case (inner l r)
    have len: "length (mn_Hash l) = 64" "length (mn_Hash r) = 64"
      using inner C by (simp_all add: length_node_hash)
    show ?thesis
    proof (cases "x = mn_Hash l @ mn_Hash r")
      case True
      then have "c = mn_Hash l \<or> c = mn_Hash r"
        using append_halves [OF len lc] by (simp add: x_def)
      then obtain m where m: "m = l \<or> m = r" and v: "verify_loop C (hex_sum C t) p = Some (mn_Hash m)"
        using c by auto
      have "tree_over C items m" "hashed_tree m \<subseteq> hashed_tree n"
        using m inner by auto
      then have sub: "set items \<union> hashed_tree m \<subseteq> set items \<union> hashed_tree n"
        and tr: "tree_over C items m"
        by auto
      have "t \<in> set items \<or> collision C (set items \<union> hashed_tree m)
          (insert t (hashed_verify C (hex_sum C t) p))"
        using snoc.IH [OF tr v] .
      then show ?thesis
      proof
        assume "collision C (set items \<union> hashed_tree m) (insert t (hashed_verify C (hex_sum C t) p))"
        then have "collision C (set items \<union> hashed_tree n)
            (insert t (hashed_verify C (hex_sum C t) (p @ [s])))"
          unfolding hashed by (rule collision_mono [OF _ sub]) (rule insert_mono, rule subset_insertI)
        then show ?thesis ..
      qed simp
    next
      case False
      then show ?thesis
        using inner hx hashed by (auto simp: collision_def hex_sum_eq)
    qed
  qed
qed

text \<open>C8. Inclusion proofs are sound: when the verifier accepts some proof for a target against
  the root of a tree, then the target is one of the items, or the strings hashed by the two
  computations exhibit a collision of the hash function. Items and targets are shorter than 64
  bytes, as the 32-byte digests of transactions are; the next property shows that
  this is needed.\<close>

theorem merkle_verify_sound:
  assumes "crypto_ok C" and "\<forall>it \<in> set items. length it < 64" and "length t < 64"
    and "BuildMerkleTree C items = Ok root" and "VerifyMerkleProof C (mn_Hash root) t prf"
  shows "t \<in> set items \<or>
     collision C (set items \<union> hashed_tree root) (insert t (hashed_verify C (hex_sum C t) prf))"
proof -
  have "items \<noteq> []"
    using assms(4) by (auto simp: BuildMerkleTree_def)
  then have "tree_over C items root"
    using BuildMerkleTree_Ok [of items C] assms(4) by auto
  moreover have "verify_loop C (hex_sum C t) prf = Some (mn_Hash root)"
    using assms(5) by (auto simp: VerifyMerkleProof_def Let_def split: if_splits option.splits)
  ultimately show ?thesis
    using verify_sound_node [OF assms(1-3)] by blast
qed

theorem merkle_verify_sound_witness:
  "''b'' \<in> set [''a'', ''b''] \<or>
     collision demo_crypto (set [''a'', ''b''] \<union>
         hashed_tree (merkle_join demo_crypto (MNode (hex_sum demo_crypto ''a'') NilNode NilNode)
           (MNode (hex_sum demo_crypto ''b'') NilNode NilNode)))
       (insert ''b'' (hashed_verify demo_crypto (hex_sum demo_crypto ''b'')
         [CHR 0x00 # hex_sum demo_crypto ''a'']))"
  by (rule merkle_verify_sound [OF crypto_ok_demo])
    (simp_all add: BuildMerkleTree_def merkle_loop.simps Let_def VerifyMerkleProof_def merkle_join_def)

text \<open>Leaves and inner nodes are hashed alike, so the length bound cannot be dropped: for every
  hash function the concatenation of the hashes of two items passes as an item of their tree,
  with an empty proof.\<close>

theorem merkle_no_domain_separation:
  "\<exists>root. BuildMerkleTree C [a, b] = Ok root \<and>
     VerifyMerkleProof C (mn_Hash root) (hex_sum C a @ hex_sum C b) []"
  by (simp add: BuildMerkleTree_def merkle_loop.simps Let_def VerifyMerkleProof_def merkle_join_def)

section \<open>The root in a block\<close>

text \<open>The root of a block is a deterministic 64-digit hexadecimal digest for every
  non-empty list of transactions and the empty string for none, and it commits to the
  transaction identifiers alone.\<close>

theorem CalculateMerkleRoot_shape:
  assumes "crypto_ok C"
  shows "length (CalculateMerkleRoot C txs) = (if txs = [] then 0 else 64) \<and>
     (map tx_ID txs' = map tx_ID txs \<longrightarrow> CalculateMerkleRoot C txs' = CalculateMerkleRoot C txs)"
proof (cases "txs = []")
  case True
  then show ?thesis by (auto simp: CalculateMerkleRoot_def)
next
  case False
  let ?hs = "\<lambda>ts. map (\<lambda>tx. sha256 C (tx_ID tx)) ts"
  have ids: "?hs ts = map (sha256 C) (map tx_ID ts)" for ts
    by simp
  have "list_all (\<lambda>d. crypto_ok C \<longrightarrow> length d = 32) (?hs txs)"
    by (auto simp: list_all_iff crypto_ok_def)
  with False obtain r where "merkle_loop (\<lambda>a b. sha256 C (a @ b)) (?hs txs) = [r]" "length r = 32"
    using raw_tree.loop_root [of "?hs txs" C] assms by auto
  moreover have "CalculateMerkleRoot C txs' = CalculateMerkleRoot C txs" if "map tx_ID txs' = map tx_ID txs"
    using that map_eq_imp_length_eq [OF that] unfolding CalculateMerkleRoot_def ids by simp
  ultimately show ?thesis
    using False by (simp add: CalculateMerkleRoot_def)
qed

theorem CalculateMerkleRoot_shape_witness:
  "length (CalculateMerkleRoot demo_crypto [demo_tx]) = 64 \<and>
   CalculateMerkleRoot demo_crypto [demo_tx\<lparr>tx_Amount := 9\<rparr>] = CalculateMerkleRoot demo_crypto [demo_tx]"
  using CalculateMerkleRoot_shape [OF crypto_ok_demo, of "[demo_tx]" "[demo_tx\<lparr>tx_Amount := 9\<rparr>]"]
  by simp

end
