(* ===== verification/Encoding.thy ===== *)
theory Encoding
  imports Domain
begin

text \<open>
  The binary wire format of \<open>go-chain/blockchain/encoding.go\<close>: big-endian 64-bit integers,
  length-prefixed strings, transactions and blocks. A slice expression whose bounds are out of
  order and an allocation that the run-time system refuses are panics.
\<close>

section \<open>Big-endian integers\<close>

fun be_bytes :: "nat \<Rightarrow> nat \<Rightarrow> string" where
  "be_bytes 0 n = []"
| "be_bytes (Suc k) n = be_bytes k (n div 256) @ [char_of (n mod 256)]"

definition be_nat :: "string \<Rightarrow> nat" where
  "be_nat s = foldl (\<lambda>acc c. acc * 256 + of_char c) 0 s"

definition PutUint64 :: "u64 \<Rightarrow> string" where
  "PutUint64 v = be_bytes 8 (unat v)"

definition appendUint64 :: "string \<Rightarrow> u64 \<Rightarrow> string" where
  "appendUint64 b v = b @ PutUint64 v"

definition appendInt64 :: "string \<Rightarrow> i64 \<Rightarrow> string" where
  "appendInt64 b v = b @ PutUint64 v"

definition appendBytes :: "string \<Rightarrow> string \<Rightarrow> string" where
  "appendBytes b data = appendUint64 b (of_nat (length data)) @ data"

definition appendString :: "string \<Rightarrow> string \<Rightarrow> string" where
  "appendString b s = appendUint64 b (of_nat (length s)) @ s"

definition popUint64 :: "string \<Rightarrow> (u64 \<times> string) go" where
  "popUint64 data =
     (if length data < 8 then Err ''insufficient data for uint64''
      else Ok (of_nat (be_nat (take 8 data)), drop 8 data))"

definition popInt64 :: "string \<Rightarrow> (i64 \<times> string) go" where
  "popInt64 data = popUint64 data"

text \<open>\<open>8+length\<close> is computed in \<open>uint64\<close> and wraps. \<open>data[8+length:]\<close> and \<open>data[8 : 8+length]\<close>
  are evaluated in this order; the second panics when its bounds are out of order.\<close>

definition popBytes :: "string \<Rightarrow> (string \<times> string) go" where
  "popBytes data =
     (if length data < 8 then Err ''insufficient data for length prefix''
      else let len = (of_nat (be_nat (take 8 data)) :: u64) in
        if (of_nat (length data) :: u64) < 8 + len then Err ''insufficient data for payload''
        else let hi = unat (8 + len) in
          if length data < hi then Panic ''slice bounds out of range''
          else let rest = drop hi data in
            if hi < 8 then Panic ''slice bounds out of range''
            else Ok (drop 8 (take hi data), rest))"

definition popString :: "string \<Rightarrow> (string \<times> string) go" where
  "popString data = go_bind (popBytes data) (\<lambda>(s, rest). Ok (s, rest))"

section \<open>Transactions\<close>

definition EncodeTransactionBinary :: "Transaction \<Rightarrow> string" where
  "EncodeTransactionBinary tx =
     (let b = [];
          b = appendString b (tx_ID tx);
          b = appendString b (tx_From tx);
          b = appendString b (tx_FromPubKey tx);
          b = appendString b (tx_To tx);
          b = appendUint64 b (tx_Amount tx);
          b = appendUint64 b (tx_Fee tx);
          b = appendUint64 b (tx_Nonce tx);
          b = appendString b (tx_TxType tx);
          b = appendString b (tx_Payload tx);
          b = appendString b (tx_Signature tx);
          b = appendInt64 b (tx_Timestamp tx);
          b = appendString b (tx_ChainID tx)
      in b)"

definition DecodeTransactionBinary :: "string \<Rightarrow> Transaction go" where
  "DecodeTransactionBinary data =
     go_bind (popString data) (\<lambda>(txid, data).
     go_bind (popString data) (\<lambda>(from, data).
     go_bind (popString data) (\<lambda>(pub, data).
     go_bind (popString data) (\<lambda>(to, data).
     go_bind (popUint64 data) (\<lambda>(amount, data).
     go_bind (popUint64 data) (\<lambda>(fee, data).
     go_bind (popUint64 data) (\<lambda>(nonce, data).
     go_bind (popString data) (\<lambda>(txtype, data).
     go_bind (popString data) (\<lambda>(payload, data).
     go_bind (popString data) (\<lambda>(sig, data).
     go_bind (popInt64 data) (\<lambda>(ts, data).
     go_bind (popString data) (\<lambda>(chain, _).
       Ok \<lparr>tx_ID = txid, tx_From = from, tx_FromPubKey = pub, tx_To = to, tx_Amount = amount,
           tx_Fee = fee, tx_Nonce = nonce, tx_TxType = txtype, tx_Payload = payload,
           tx_Signature = sig, tx_Timestamp = ts, tx_ChainID = chain\<rparr>))))))))))))"

section \<open>Blocks\<close>

fun encode_txs :: "string \<Rightarrow> Transaction list \<Rightarrow> string" where
  "encode_txs b [] = b"
| "encode_txs b (tx # txs) = encode_txs (appendBytes b (EncodeTransactionBinary tx)) txs"

definition EncodeBlockBinary :: "Block \<Rightarrow> string" where
  "EncodeBlockBinary block =
     (let b = [];
          b = appendUint64 b (blk_Index block);
          b = appendString b (blk_Author block);
          b = appendString b (blk_MinerAddress block);
          b = appendString b (blk_PreviousHash block);
          b = appendInt64 b (blk_Timestamp block);
          b = appendBytes b (blk_BlockHash block);
          b = (if blk_TxMerkleRoot block \<noteq> [] then appendBytes b (blk_TxMerkleRoot block)
               else appendBytes b []);
          b = appendUint64 b (of_nat (length (blk_Transactions block)));
          b = encode_txs b (blk_Transactions block);
          b = appendUint64 b (blk_Nonce block)
      in b)"

fun decode_txs :: "nat \<Rightarrow> string \<Rightarrow> (Transaction list \<times> string) go" where
  "decode_txs 0 data = Ok ([], data)"
| "decode_txs (Suc n) data =
     go_bind (popBytes data) (\<lambda>(txBytes, rest).
     go_bind (DecodeTransactionBinary txBytes) (\<lambda>tx.
     go_bind (decode_txs n rest) (\<lambda>(txs, data'). Ok (tx # txs, data'))))"

text \<open>\<open>max_slice\<close> is the greatest length for which \<open>make([]Transaction, n)\<close> succeeds.\<close>

definition DecodeBlockBinary :: "nat \<Rightarrow> string \<Rightarrow> Block go" where
  "DecodeBlockBinary max_slice data =
     go_bind (popUint64 data) (\<lambda>(index, data).
     go_bind (popString data) (\<lambda>(author, data).
     go_bind (popString data) (\<lambda>(miner, data).
     go_bind (popString data) (\<lambda>(prev, data).
     go_bind (popInt64 data) (\<lambda>(ts, data).
     go_bind (popBytes data) (\<lambda>(hashBytes, data).
     go_bind (popBytes data) (\<lambda>(merkleBytes, data).
     go_bind (popUint64 data) (\<lambda>(txCount, data).
       if max_slice < unat txCount then Panic ''makeslice: len out of range''
       else
     go_bind (decode_txs (unat txCount) data) (\<lambda>(txs, data).
     go_bind (popUint64 data) (\<lambda>(nonce, _).
       Ok \<lparr>blk_Index = index, blk_Author = author, blk_MinerAddress = miner,
           blk_PreviousHash = prev, blk_Timestamp = ts, blk_Transactions = txs, blk_Nonce = nonce,
           blk_BlockHash = hashBytes,
           blk_TxMerkleRoot = (if 0 < length merkleBytes then merkleBytes else [])\<rparr>))))))))))"

section \<open>A codec: what the decoder of an encoded value returns\<close>

locale codec =
  fixes enc :: "'a \<Rightarrow> string"
    and dec :: "string \<Rightarrow> ('a \<times> string) go"
  assumes dec_enc: "length (enc x @ rest) < 2 ^ 64 \<Longrightarrow> dec (enc x @ rest) = Ok (x, rest)"
begin

lemma prefix_free:
  assumes "enc x @ r = enc y @ s" and "length (enc x @ r) < 2 ^ 64"
  shows "x = y \<and> r = s"
proof -
  have "length (enc y @ s) < 2 ^ 64"
    using assms by metis
  then have "Ok (x, r) = Ok (y, s)"
    using dec_enc [OF assms(2)] dec_enc [of y s] assms(1) by metis
  then show ?thesis by simp
qed

lemma step_enc:
  "length (enc x @ rest) < 2 ^ 64 \<Longrightarrow> go_bind (dec (enc x @ rest)) f = f (x, rest)"
  by (simp add: dec_enc)

end

lemma length_be_bytes [simp]: "length (be_bytes k n) = k"
  by (induction k arbitrary: n) auto

lemma be_nat_snoc [simp]: "be_nat (s @ [c]) = be_nat s * 256 + of_char c"
  by (simp add: be_nat_def)

lemma be_nat_be_bytes: "be_nat (be_bytes k n) = n mod 256 ^ k"
proof (induction k arbitrary: n)
  case 0
  then show ?case by (simp add: be_nat_def)
next
  case (Suc k)
  have "n mod 256 ^ Suc k = 256 * (n div 256 mod 256 ^ k) + n mod 256"
    by (simp add: mod_mult2_eq)
  with Suc show ?case by simp
qed

lemma length_PutUint64 [simp]: "length (PutUint64 v) = 8"
  by (simp add: PutUint64_def)

lemma be_nat_PutUint64 [simp]: "be_nat (PutUint64 v) = unat v"
  using unat_u64_lt [of v] by (simp add: PutUint64_def be_nat_be_bytes)

lemma popUint64_be: "popUint64 (PutUint64 v @ rest) = Ok (v, rest)"
  by (simp add: popUint64_def)

lemma popBytes_be:
  assumes "8 + length s + length rest < 2 ^ 64"
  shows "popBytes (PutUint64 (of_nat (length s)) @ s @ rest) = Ok (s, rest)"
proof -
  have len: "unat (of_nat (length s) :: u64) = length s"
    using assms by (simp add: unat_of_nat)
  have sum: "unat (8 + of_nat (length s) :: u64) = 8 + length s"
    using assms len by (subst unat_add_no_wrap) simp_all
  have tot: "unat (of_nat (8 + (length s + length rest)) :: u64) = 8 + (length s + length rest)"
    using assms by (simp only: unat_of_nat) simp
  have "\<not> (of_nat (8 + (length s + length rest)) :: u64) < 8 + of_nat (length s)"
    by (simp only: word_less_nat_alt tot sum)
  with sum show ?thesis
    by (simp add: popBytes_def Let_def)
qed

interpretation u64_codec: codec PutUint64 popUint64
  by unfold_locales (simp add: popUint64_be)

interpretation bytes_codec: codec "\<lambda>s. PutUint64 (of_nat (length s)) @ s" popBytes
  by unfold_locales (simp add: popBytes_be)

interpretation string_codec: codec "\<lambda>s. PutUint64 (of_nat (length s)) @ s" popString
  by unfold_locales (simp add: popString_def popBytes_be)

lemmas append_defs = appendUint64_def appendInt64_def appendBytes_def appendString_def

lemma popInt64_be: "popInt64 (PutUint64 v @ rest) = Ok (v, rest)"
  by (simp add: popInt64_def popUint64_be)

text \<open>Decoding one field and going on with the next: the shape in which the decoders' proofs use
  the codec laws.\<close>

lemmas pop_steps =
  string_codec.dec_enc [simplified append_assoc] bytes_codec.dec_enc [simplified append_assoc]
  popUint64_be popInt64_be

lemma decode_encoded:
  assumes "length (EncodeTransactionBinary tx @ rest) < 2 ^ 64"
  shows "DecodeTransactionBinary (EncodeTransactionBinary tx @ rest) = Ok tx"
  using assms
  by (simp add: DecodeTransactionBinary_def EncodeTransactionBinary_def append_defs pop_steps)

text \<open>Decoding the binary encoding of a transaction yields that transaction, for every
  transaction whose encoding fits in the address space; trailing bytes are ignored.\<close>

theorem DecodeTransactionBinary_encode:
  assumes "length (EncodeTransactionBinary tx @ rest) < 2 ^ 64"
  shows "DecodeTransactionBinary (EncodeTransactionBinary tx @ rest) = Ok tx"
  using assms by (rule decode_encoded)

theorem DecodeTransactionBinary_encode_witness:
  "DecodeTransactionBinary (EncodeTransactionBinary demo_tx @ ''tail'') = Ok demo_tx"
  by (rule DecodeTransactionBinary_encode)
    (simp add: EncodeTransactionBinary_def append_defs demo_tx_def)

section \<open>Blocks: round trip\<close>

definition frame_tx :: "Transaction \<Rightarrow> string" where
  "frame_tx tx = appendBytes [] (EncodeTransactionBinary tx)"

lemma length_frame_tx [simp]: "length (frame_tx tx) = 8 + length (EncodeTransactionBinary tx)"
  by (simp add: frame_tx_def append_defs)

lemma popBytes_frame:
  "8 + length (EncodeTransactionBinary tx) + length rest < 2 ^ 64 \<Longrightarrow>
     popBytes (frame_tx tx @ rest) = Ok (EncodeTransactionBinary tx, rest)"
  by (simp add: frame_tx_def append_defs popBytes_be)

lemma encode_txs_concat: "encode_txs b txs = b @ concat (map frame_tx txs)"
  by (induction txs arbitrary: b) (simp_all add: frame_tx_def append_defs)

lemma decode_txs_concat:
  "length (concat (map frame_tx txs) @ rest) < 2 ^ 64 \<Longrightarrow>
     decode_txs (length txs) (concat (map frame_tx txs) @ rest) = Ok (txs, rest)"
proof (induction txs)
  case (Cons tx txs)
  have "popBytes (frame_tx tx @ concat (map frame_tx txs) @ rest)
      = Ok (EncodeTransactionBinary tx, concat (map frame_tx txs) @ rest)"
    using Cons.prems by (intro popBytes_frame) simp
  moreover have "DecodeTransactionBinary (EncodeTransactionBinary tx) = Ok tx"
    using Cons.prems decode_encoded [of tx "[]"] by simp
  ultimately show ?case
    using Cons by simp
qed simp

lemma length_le_frames: "length txs \<le> length (concat (map frame_tx txs))"
  by (induction txs) simp_all

text \<open>The encoding of a block as one concatenation of fields.\<close>

lemma EncodeBlockBinary_flat:
  "EncodeBlockBinary block =
     PutUint64 (blk_Index block) @ appendString [] (blk_Author block) @
     appendString [] (blk_MinerAddress block) @ appendString [] (blk_PreviousHash block) @
     PutUint64 (blk_Timestamp block) @ appendBytes [] (blk_BlockHash block) @
     appendBytes [] (blk_TxMerkleRoot block) @ PutUint64 (of_nat (length (blk_Transactions block))) @
     concat (map frame_tx (blk_Transactions block)) @ PutUint64 (blk_Nonce block)"
  by (cases "blk_TxMerkleRoot block = []")
    (simp_all add: EncodeBlockBinary_def append_defs encode_txs_concat Let_def)

lemma pop_append:
  "8 + length s + length rest < 2 ^ 64 \<Longrightarrow> popString (appendString [] s @ rest) = Ok (s, rest)"
  "8 + length s + length rest < 2 ^ 64 \<Longrightarrow> popBytes (appendBytes [] s @ rest) = Ok (s, rest)"
  by (simp_all add: append_defs pop_steps)

lemma length_append_fields [simp]:
  "length (appendString [] s) = 8 + length s" "length (appendBytes [] s) = 8 + length s"
  by (simp_all add: append_defs)

text \<open>C7. Decoding the binary encoding of a block yields that block, transactions included, for
  every block whose encoding fits in the address space and whose transaction list can be
  allocated.\<close>

theorem DecodeBlockBinary_encode:
  assumes "length (EncodeBlockBinary block) < 2 ^ 64"
    and "length (blk_Transactions block) \<le> max_slice"
  shows "DecodeBlockBinary max_slice (EncodeBlockBinary block) = Ok block"
proof -
  define txs where "txs = blk_Transactions block"
  define body where "body = concat (map frame_tx txs)"
  have fits: "length (EncodeBlockBinary block) < 2 ^ 64"
    using assms(1) .
  have "length body < 2 ^ 64"
    using fits unfolding EncodeBlockBinary_flat body_def txs_def by simp
  then have n: "unat (of_nat (length txs) :: u64) = length txs"
    using length_le_frames [of txs] by (simp add: unat_of_nat body_def)
  have "decode_txs (length txs) (body @ PutUint64 (blk_Nonce block)) = Ok (txs, PutUint64 (blk_Nonce block))"
    unfolding body_def using fits unfolding EncodeBlockBinary_flat txs_def
    by (intro decode_txs_concat) simp
  then show ?thesis
    using fits assms(2) n popUint64_be [of "blk_Nonce block" "[]"]
    unfolding EncodeBlockBinary_flat txs_def [symmetric] body_def [symmetric] DecodeBlockBinary_def
    by (simp add: pop_append popUint64_be popInt64_be) (simp add: txs_def)
qed

definition demo_block :: Block where
  "demo_block = \<lparr>blk_Index = 3, blk_Author = ''m'', blk_MinerAddress = ''m'', blk_PreviousHash = ''p'',
     blk_Timestamp = 9, blk_Transactions = [demo_tx], blk_Nonce = 4, blk_BlockHash = ''h'',
     blk_TxMerkleRoot = []\<rparr>"

theorem DecodeBlockBinary_encode_witness:
  "DecodeBlockBinary 100 (EncodeBlockBinary demo_block) = Ok demo_block"
  by (rule DecodeBlockBinary_encode)
    (simp_all add: EncodeBlockBinary_def EncodeTransactionBinary_def append_defs demo_block_def demo_tx_def)

section \<open>Malformed input\<close>

lemma be_nat_less: "be_nat s < 256 ^ length s"
proof (induction s rule: rev_induct)
  case (snoc c s)
  have "of_char c < (256 :: nat)"
    by (rule nat_of_char_less_256)
  moreover have "be_nat s * 256 + 256 \<le> 256 ^ length s * 256"
    using snoc by linarith
  ultimately show ?case
    unfolding be_nat_snoc length_append_singleton power_Suc2 by linarith
qed (simp add: be_nat_def)

lemma popBytes_Ok:
  assumes "popBytes data = Ok (s, rest)" shows "data = take 8 data @ s @ rest"
proof -
  define hi where "hi = unat (8 + of_nat (be_nat (take 8 data)) :: u64)"
  have "s = drop 8 (take hi data)" "rest = drop hi data" "8 \<le> hi" "hi \<le> length data"
    using assms by (auto simp: popBytes_def Let_def hi_def split: if_splits)
  then show ?thesis
    by (metis append_assoc append_take_drop_id min_absorb1 take_take)
qed

text \<open>Which inputs crash the length-prefixed reader: on a buffer of any size the program can
  hold, \<open>popBytes\<close> panics exactly when the length prefix is one of the eight greatest
  \<open>uint64\<close> values, for which \<open>8+length\<close> wraps around and the bounds check passes.\<close>

theorem popBytes_panics_iff:
  assumes "length data < 2 ^ 64"
  shows "(\<exists>e. popBytes data = Panic e) \<longleftrightarrow> 8 \<le> length data \<and> 2 ^ 64 - 8 \<le> be_nat (take 8 data)"
proof (cases "8 \<le> length data")
  case True
  define p where "p = be_nat (take 8 data)"
  have p: "p < 2 ^ 64"
    using be_nat_less [of "take 8 data"] True by (simp add: p_def)
  have len: "unat (of_nat (length data) :: u64) = length data"
    using assms by (simp add: unat_of_nat)
  have sum: "unat (8 + of_nat p :: u64) = (8 + p) mod 2 ^ 64"
    by (simp add: unat_word_ariths unat_of_nat mod_simps)
  show ?thesis
  proof (cases "2 ^ 64 - 8 \<le> p")
    case True
    then have "(8 + p) mod 2 ^ 64 = 8 + p - 2 ^ 64"
      using p by (simp add: mod_if)
    then show ?thesis
      using True p len sum \<open>8 \<le> length data\<close>
      by (simp add: popBytes_def Let_def word_less_nat_alt flip: p_def)
  next
    case False
    then have "(8 + p) mod 2 ^ 64 = 8 + p" by simp
    then show ?thesis
      using False len sum \<open>8 \<le> length data\<close>
      by (simp add: popBytes_def Let_def word_less_nat_alt flip: p_def)
  qed
next
  case False
  then show ?thesis by (simp add: popBytes_def)
qed

theorem popBytes_panics_iff_witness:
  "\<exists>e. popBytes [CHR 0xFF, CHR 0xFF, CHR 0xFF, CHR 0xFF, CHR 0xFF, CHR 0xFF, CHR 0xFF, CHR 0xF8] = Panic e"
  by (subst popBytes_panics_iff) (simp_all add: be_nat_def)

end
