(* ===== verification/Tendermint.thy ===== *)
theory Tendermint
  imports Merkle Encoding
begin

text \<open>
  The consensus engine of \<open>go-chain/blockchain/consensus_tendermint.go\<close>, a state machine over the
  steps 0 (propose), 1 (prevote), 2 (precommit), 3 (ready) and 4 (committed), and the round that
  \<open>MineBlockFor\<close> of \<open>blockchain.go\<close> plays on it. A method that locks the engine's mutex for its
  whole body is one atomic event.
\<close>

section \<open>The engine\<close>

datatype EvidenceType = EvidenceDoubleSign | EvidenceUnavailability

record TendermintEngine =
  te_height :: u64
  te_round :: u64
  te_step :: nat
  te_committedRound :: u64
  te_lockedRound :: u64
  te_lockedBlock :: string
  te_validators :: "string list"
  te_proposerIdx :: nat
  te_evidence :: "Evidence list"
  te_lastBlockTime :: i64

text \<open>The length of a slice is below \<open>2\<^sup>6\<^sup>3\<close>, so \<open>uint64(len(te.validators))\<close> is exact.\<close>

definition selectProposerLocked :: "TendermintEngine \<Rightarrow> TendermintEngine" where
  "selectProposerLocked te =
     (if length (te_validators te) = 0 then te
      else te\<lparr>te_proposerIdx := unat (te_height te) mod length (te_validators te)\<rparr>)"

definition NewTendermintEngine :: "i64 \<Rightarrow> string list \<Rightarrow> TendermintEngine" where
  "NewTendermintEngine now validators = selectProposerLocked
     \<lparr>te_height = 1, te_round = 0, te_step = 0, te_committedRound = 0, te_lockedRound = 0,
      te_lockedBlock = [], te_validators = validators, te_proposerIdx = 0, te_evidence = [],
      te_lastBlockTime = now\<rparr>"

definition Height :: "TendermintEngine \<Rightarrow> u64" where
  "Height te = te_height te"

definition CurrentRound :: "TendermintEngine \<Rightarrow> u64" where
  "CurrentRound te = te_round te"

definition proposerLocked :: "TendermintEngine \<Rightarrow> string" where
  "proposerLocked te =
     (if length (te_validators te) = 0 then []
      else te_validators te ! (te_proposerIdx te mod length (te_validators te)))"

definition Proposer :: "TendermintEngine \<Rightarrow> string" where
  "Proposer te = proposerLocked te"

definition stepString :: "nat \<Rightarrow> string" where
  "stepString step =
     (if step = 0 then ''propose'' else if step = 1 then ''prevote''
      else if step = 2 then ''precommit'' else ''commit'')"

definition AddVote :: "i64 \<Rightarrow> Vote \<Rightarrow> TendermintEngine \<Rightarrow> TendermintEngine \<times> unit go" where
  "AddVote now v te =
     (if vote_Height v \<noteq> te_height te then
        (te, Err (''vote height mismatch: '' @ FormatUint (vote_Height v) @ '' != '' @ FormatUint (te_height te)))
      else if length (te_validators te) = 0 then (te, Err ''no validators registered'')
      else if vote_Type v = ''prevote'' then
        (if te_step te = 1 then te\<lparr>te_step := 2\<rparr> else te, Ok ())
      else if vote_Type v = ''precommit'' then
        (if te_step te = 2
         then te\<lparr>te_step := 3, te_committedRound := vote_Round v, te_lastBlockTime := now\<rparr>
         else te, Ok ())
      else (te, Ok ()))"

definition AdvanceRound :: "TendermintEngine \<Rightarrow> TendermintEngine" where
  "AdvanceRound te = selectProposerLocked (te\<lparr>te_round := te_round te + 1, te_step := 0\<rparr>)"

definition AdvanceHeight :: "TendermintEngine \<Rightarrow> TendermintEngine" where
  "AdvanceHeight te = selectProposerLocked
     (te\<lparr>te_height := te_height te + 1, te_round := 0, te_step := 0, te_committedRound := 0,
         te_lockedRound := 0, te_lockedBlock := []\<rparr>)"

definition AddEvidence :: "Evidence \<Rightarrow> TendermintEngine \<Rightarrow> TendermintEngine" where
  "AddEvidence ev te = te\<lparr>te_evidence := te_evidence te @ [ev]\<rparr>"

definition EvidenceList :: "TendermintEngine \<Rightarrow> Evidence list" where
  "EvidenceList te = te_evidence te"

definition ProcessProposal ::
  "crypto \<Rightarrow> i64 \<Rightarrow> Block \<Rightarrow> string \<Rightarrow> TendermintEngine \<Rightarrow> TendermintEngine \<times> Proposal go" where
  "ProcessProposal C now block proposer te =
     (if te_step te \<noteq> 0 then (te, Err (''not in proposal step: '' @ stepString (te_step te)))
      else let payload = sha256 C (FormatUint (te_height te) @ '':'' @ FormatUint (te_round te) @ '':'' @
                 blk_BlockHash block @ '':'' @ proposer)
        in (te\<lparr>te_step := 1\<rparr>,
            Ok \<lparr>pro_BlockHash = blk_BlockHash block, pro_Height = te_height te, pro_Round = te_round te,
                pro_Block = Some block, pro_PolRound = te_round te, pro_Timestamp = now,
                pro_Signature = payload\<rparr>))"

definition engine_vote ::
  "crypto \<Rightarrow> i64 \<Rightarrow> string \<Rightarrow> string \<Rightarrow> TendermintEngine \<Rightarrow> Vote" where
  "engine_vote C now kind blockHash te =
     (let voter = proposerLocked te;
          payload = sha256 C (FormatUint (te_height te) @ '':'' @ FormatUint (te_round te) @ '':'' @
            blockHash @ '':'' @ kind @ '':'' @ voter)
      in \<lparr>vote_ValidatorAddress = voter, vote_PubKey = EncodeToString payload, vote_BlockHash = blockHash,
          vote_Height = te_height te, vote_Round = te_round te, vote_Type = kind, vote_Timestamp = now,
          vote_Signature = payload\<rparr>)"

definition Prevote :: "crypto \<Rightarrow> i64 \<Rightarrow> string \<Rightarrow> TendermintEngine \<Rightarrow> Vote go" where
  "Prevote C now blockHash te =
     (if te_step te \<noteq> 1 then Err (''not in prevote step: '' @ stepString (te_step te))
      else Ok (engine_vote C now ''prevote'' blockHash te))"

definition Precommit :: "crypto \<Rightarrow> i64 \<Rightarrow> string \<Rightarrow> TendermintEngine \<Rightarrow> Vote go" where
  "Precommit C now blockHash te =
     (if te_step te \<noteq> 2 then Err (''not in precommit step: '' @ stepString (te_step te))
      else Ok (engine_vote C now ''precommit'' blockHash te))"

definition Commit :: "i64 \<Rightarrow> string \<Rightarrow> TendermintEngine \<Rightarrow> TendermintEngine \<times> unit go" where
  "Commit now blockHash te =
     (if te_step te \<noteq> 3
      then (te, Err (''consensus not ready for commit: '' @ stepString (te_step te)))
      else (te\<lparr>te_committedRound := te_round te, te_lockedBlock := blockHash, te_step := 4,
               te_lastBlockTime := now\<rparr>, Ok ()))"

definition VerifyVote :: "Vote \<Rightarrow> bool" where
  "VerifyVote v = (if vote_BlockHash v = [] \<or> length (vote_Signature v) = 0 then False else True)"

definition engine_Slash :: "i64 \<Rightarrow> string \<Rightarrow> EvidenceType \<Rightarrow> TendermintEngine \<Rightarrow> TendermintEngine" where
  "engine_Slash now validator reason te = AddEvidence
     \<lparr>ev_Type = ''evidence:'' @ (case reason of EvidenceDoubleSign \<Rightarrow> ''0'' | EvidenceUnavailability \<Rightarrow> ''1''),
      ev_ValidatorAddr = validator, ev_Height = te_height te, ev_Round = te_round te,
      ev_BlockHash = te_lockedBlock te, ev_Timestamp = now\<rparr> te"

text \<open>\<open>sort.Slice\<close> reorders the caller's slice, which is returned with the proposer. \<open>int(height)\<close>
  is negative from \<open>2\<^sup>6\<^sup>3\<close> on, and then so is the remainder, unless it is zero.\<close>

definition StakeWeightedSelector_Proposer :: "string list \<Rightarrow> u64 \<Rightarrow> string list \<times> string go" where
  "StakeWeightedSelector_Proposer validators height =
     (if length validators = 0 then (validators, Ok [])
      else let validators = sort validators; n = int (length validators) in
        if sint height < 0 \<and> (- sint height) mod n \<noteq> 0
        then (validators, Panic ''index out of range'')
        else (validators, Ok (validators ! nat (\<bar>sint height\<bar> mod n))))"

definition ProposeBlock :: "crypto \<Rightarrow> i64 \<Rightarrow> Transaction list \<Rightarrow> string \<Rightarrow> TendermintEngine \<Rightarrow> Block" where
  "ProposeBlock C now transactions proposer te =
     (let block = \<lparr>blk_Index = te_height te, blk_Author = proposer, blk_MinerAddress = proposer,
            blk_PreviousHash = EncodeToString (sha256 C []), blk_Timestamp = now,
            blk_Transactions = transactions, blk_Nonce = 0, blk_BlockHash = [], blk_TxMerkleRoot = []\<rparr>;
          block = block\<lparr>blk_TxMerkleRoot := CalculateMerkleRoot C transactions\<rparr>
      in block\<lparr>blk_BlockHash := calculateHash C block\<rparr>)"

definition FinalizeBlock :: "i64 \<Rightarrow> Block \<Rightarrow> TendermintEngine \<Rightarrow> TendermintEngine \<times> unit go" where
  "FinalizeBlock now block te =
     (if te_step te \<noteq> 3
      then (te, Err (''consensus not ready for commit: '' @ stepString (te_step te)))
      else (te\<lparr>te_committedRound := te_round te, te_lockedBlock := blk_BlockHash block, te_step := 4,
               te_lastBlockTime := now\<rparr>, Ok ()))"

definition ValidatorSet :: "TendermintEngine \<Rightarrow> string list" where
  "ValidatorSet te = te_validators te"

definition UpdateValidatorSet :: "string list \<Rightarrow> TendermintEngine \<Rightarrow> TendermintEngine" where
  "UpdateValidatorSet validators te = selectProposerLocked (te\<lparr>te_validators := validators\<rparr>)"

text \<open>A \<open>time.Duration\<close> counts nanoseconds.\<close>

definition DefaultBlockTimeout :: i64 where
  "DefaultBlockTimeout = 5 * 1000000000"

definition engine_IsFinalized :: "string \<Rightarrow> TendermintEngine \<Rightarrow> bool" where
  "engine_IsFinalized blockHash te \<longleftrightarrow> te_step te = 4 \<and> te_lockedBlock te = blockHash"

definition CurrentState :: "TendermintEngine \<Rightarrow> string" where
  "CurrentState te = ''height='' @ FormatUint (te_height te) @ '' round='' @ FormatUint (te_round te) @
     '' step='' @ stepString (te_step te) @ '' proposer='' @ proposerLocked te"

text \<open>The consensus round inside \<open>MineBlockFor\<close>: the errors are discarded, and the vote of a failed
  call is the zero value, whose block hash is empty. \<open>Prevote\<close> changes nothing and its vote is
  dropped.\<close>

definition mining_round :: "crypto \<Rightarrow> i64 \<Rightarrow> Block \<Rightarrow> string \<Rightarrow> TendermintEngine \<Rightarrow> TendermintEngine" where
  "mining_round C now block author te =
     (let te = fst (ProcessProposal C now block author te);
          voteHash = (case Precommit C now (blk_BlockHash block) te of Ok v \<Rightarrow> vote_BlockHash v | _ \<Rightarrow> []);
          te = (if voteHash \<noteq> []
                then fst (FinalizeBlock now block (fst (Commit now voteHash te)))
                else te)
      in AdvanceHeight te)"

section \<open>The engine as a state machine\<close>

datatype te_event =
    OnVote Vote
  | OnRound
  | OnHeight
  | OnEvidence Evidence
  | OnSlash string EvidenceType
  | OnProposal Block string
  | OnPrevote string
  | OnPrecommit string
  | OnCommit string
  | OnFinalize Block
  | OnValidators "string list"

fun te_on :: "crypto \<Rightarrow> i64 \<Rightarrow> te_event \<Rightarrow> TendermintEngine \<Rightarrow> TendermintEngine" where
  "te_on C now (OnVote v) te = fst (AddVote now v te)"
| "te_on C now OnRound te = AdvanceRound te"
| "te_on C now OnHeight te = AdvanceHeight te"
| "te_on C now (OnEvidence ev) te = AddEvidence ev te"
| "te_on C now (OnSlash v r) te = engine_Slash now v r te"
| "te_on C now (OnProposal b p) te = fst (ProcessProposal C now b p te)"
| "te_on C now (OnPrevote h) te = te"
| "te_on C now (OnPrecommit h) te = te"
| "te_on C now (OnCommit h) te = fst (Commit now h te)"
| "te_on C now (OnFinalize b) te = fst (FinalizeBlock now b te)"
| "te_on C now (OnValidators vs) te = UpdateValidatorSet vs te"

text \<open>What every reachable engine satisfies: the step is one of the five, the proposer is the one
  that the height selects, nothing locks a round, and a committed block was committed in the
  current round.\<close>

definition te_wf :: "TendermintEngine \<Rightarrow> bool" where
  "te_wf te \<longleftrightarrow> te_step te \<le> 4 \<and>
     (te_validators te \<noteq> [] \<longrightarrow> te_proposerIdx te = unat (te_height te) mod length (te_validators te)) \<and>
     te_lockedRound te = 0 \<and> (te_step te = 4 \<longrightarrow> te_committedRound te = te_round te)"

text \<open>The events that leave each step.\<close>

fun is_proposal :: "te_event \<Rightarrow> bool" where
  "is_proposal (OnProposal b p) = True"
| "is_proposal e = False"

fun is_vote :: "string \<Rightarrow> te_event \<Rightarrow> bool" where
  "is_vote kind (OnVote v) = (vote_Type v = kind)"
| "is_vote kind e = False"

fun is_commit :: "te_event \<Rightarrow> bool" where
  "is_commit (OnCommit h) = True"
| "is_commit (OnFinalize b) = True"
| "is_commit e = False"

definition te_guards :: "(te_event \<Rightarrow> bool) list" where
  "te_guards = [is_proposal, is_vote ''prevote'', is_vote ''precommit'', is_commit]"

lemma selectProposerLocked_frame [simp]:
  "te_step (selectProposerLocked te) = te_step te"
  "te_height (selectProposerLocked te) = te_height te"
  "te_round (selectProposerLocked te) = te_round te"
  "te_validators (selectProposerLocked te) = te_validators te"
  "te_lockedBlock (selectProposerLocked te) = te_lockedBlock te"
  "te_lockedRound (selectProposerLocked te) = te_lockedRound te"
  "te_committedRound (selectProposerLocked te) = te_committedRound te"
  by (simp_all add: selectProposerLocked_def)

lemma selectProposerLocked_idx:
  "te_validators te \<noteq> [] \<Longrightarrow>
     te_proposerIdx (selectProposerLocked te) = unat (te_height te) mod length (te_validators te)"
  by (simp add: selectProposerLocked_def)

lemmas te_ops = AddVote_def AdvanceRound_def AdvanceHeight_def AddEvidence_def engine_Slash_def
  ProcessProposal_def Commit_def FinalizeBlock_def UpdateValidatorSet_def Let_def

lemma te_on_wf: "te_wf te \<Longrightarrow> te_wf (te_on C now e te)"
  by (cases e) (auto simp: te_wf_def te_ops selectProposerLocked_idx)

lemma te_on_phase:
  "te_step (te_on C now e te) = te_step te \<or> te_step (te_on C now e te) = 0 \<or>
   (te_step te < length te_guards \<and> te_step (te_on C now e te) = Suc (te_step te) \<and>
    (te_guards ! te_step te) e)"
  by (cases e) (auto simp: te_ops te_guards_def eval_nat_numeral)

text \<open>An event happens at a time of its own.\<close>

definition te_at :: "crypto \<Rightarrow> i64 \<times> te_event \<Rightarrow> TendermintEngine \<Rightarrow> TendermintEngine" where
  "te_at C ne te = te_on C (fst ne) (snd ne) te"

interpretation engine: phased "te_at C" te_wf te_step "map (\<lambda>P ne. P (snd ne)) te_guards"
  for C
proof unfold_locales
  fix s ne
  show "te_wf s \<Longrightarrow> te_wf (te_at C ne s)"
    by (simp add: te_at_def te_on_wf)
  show "te_step (te_at C ne s) = te_step s \<or> te_step (te_at C ne s) = 0 \<or>
      te_step s < length (map (\<lambda>P ne. P (snd ne)) te_guards) \<and>
      te_step (te_at C ne s) = Suc (te_step s) \<and> (map (\<lambda>P ne. P (snd ne)) te_guards ! te_step s) ne"
    using te_on_phase [of C "fst ne" "snd ne" s] by (auto simp: te_at_def)
qed

lemma te_wf_New: "te_wf (NewTendermintEngine now vs)"
  by (simp add: te_wf_def NewTendermintEngine_def selectProposerLocked_idx selectProposerLocked_def)

section \<open>Properties\<close>

text \<open>C30. Every engine that any sequence of operations produces from a new one has one of the five
  steps, has the proposer that its height selects, holds no locked round, and when committed
  has recorded the current round as the committed one.\<close>

theorem engine_invariant:
  "te_wf (fold (te_at C) events (NewTendermintEngine now validators))"
  by (rule engine.run_inv) (rule te_wf_New)

text \<open>C31. No block is finalized out of order: when an engine in the proposal step comes to report a
  hash as finalized, the events in between hold, in this order, a proposal, a prevote, a
  precommit and a commit.\<close>

theorem finalized_needs_all_steps:
  assumes "te_wf te" and "te_step te = 0"
    and "engine_IsFinalized h (fold (te_at C) events te)"
  shows "\<exists>p v w c. subseq [p, v, w, c] events \<and> is_proposal (snd p) \<and> is_vote ''prevote'' (snd v) \<and>
     is_vote ''precommit'' (snd w) \<and> is_commit (snd c)"
proof -
  have "te_step (fold (te_at C) events te) = length (map (\<lambda>P ne. P (snd ne)) te_guards)"
    using assms(3) by (simp add: engine_IsFinalized_def te_guards_def)
  then obtain evs where "subseq evs events"
      "list_all2 (\<lambda>P e. P e) (drop 0 (map (\<lambda>P ne. P (snd ne)) te_guards)) evs"
    using engine.phase_trace [OF assms(1), of C events] assms(2) by auto
  then show ?thesis
    by (simp add: te_guards_def list_all2_Cons1) metis
qed

definition demo_vote :: "string \<Rightarrow> Vote" where
  "demo_vote kind = \<lparr>vote_ValidatorAddress = [], vote_PubKey = [], vote_BlockHash = [], vote_Height = 1,
     vote_Round = 0, vote_Type = kind, vote_Timestamp = 0, vote_Signature = []\<rparr>"

definition demo_round :: "Block \<Rightarrow> (i64 \<times> te_event) list" where
  "demo_round b = [(1, OnProposal b ''p''), (2, OnVote (demo_vote ''prevote'')),
     (3, OnVote (demo_vote ''precommit'')), (4, OnCommit ''h'')]"

theorem finalized_needs_all_steps_witness:
  "\<exists>p v w c. subseq [p, v, w, c] (demo_round demo_block) \<and> is_proposal (snd p) \<and> is_vote ''prevote'' (snd v) \<and>
     is_vote ''precommit'' (snd w) \<and> is_commit (snd c)"
  by (rule finalized_needs_all_steps [OF te_wf_New [of 0 "[''x'']"], where h = "''h''"])
    (simp_all add: demo_round_def demo_vote_def te_at_def te_ops engine_IsFinalized_def NewTendermintEngine_def
      selectProposerLocked_def)

text \<open>One vote is enough: with any non-empty set of validators, two votes that name the height
  and nothing else (no voter, no signature, no block, any round) take a proposal to the commit
  step, where any hash is finalized, also one that nobody proposed. The agreement of two thirds
  of the validators is not required.\<close>

theorem two_empty_votes_finalize:
  assumes "te_step te = 0" and "te_validators te \<noteq> []"
    and "vote_Height v = te_height te" "vote_Type v = ''prevote''"
    and "vote_Height w = te_height te" "vote_Type w = ''precommit''"
  shows "engine_IsFinalized h (fold (te_at C)
     [(t1, OnProposal b p), (t2, OnVote v), (t3, OnVote w), (t4, OnCommit h)] te)"
  using assms by (simp add: te_at_def te_ops engine_IsFinalized_def)

theorem two_empty_votes_finalize_witness:
  "engine_IsFinalized ''forged'' (fold (te_at demo_crypto)
     [(1, OnProposal demo_block ''p''), (2, OnVote (demo_vote ''prevote'')), (3, OnVote (demo_vote ''precommit'')),
      (4, OnCommit ''forged'')] (NewTendermintEngine 0 [''x'', ''y'', ''z'']))"
  by (rule two_empty_votes_finalize)
    (simp_all add: demo_vote_def NewTendermintEngine_def selectProposerLocked_def)

text \<open>The round that mining plays never commits: whatever the engine's state, the effect of
  mining a block on it is that of advancing the height alone (the precommit is asked for in
  the prevote step and fails). So a mined block is never finalized by the engine.\<close>

theorem mining_round_never_commits:
  "mining_round C now block author te = AdvanceHeight te \<and>
   \<not> engine_IsFinalized h (mining_round C now block author te)"
proof -
  have "AdvanceHeight (te\<lparr>te_step := k\<rparr>) = AdvanceHeight te" for k
    by (simp add: AdvanceHeight_def selectProposerLocked_def)
  then show ?thesis
    by (auto simp: mining_round_def te_ops Precommit_def engine_vote_def engine_IsFinalized_def)
qed

text \<open>The engine after a number of heights.\<close>

lemma AdvanceHeight_pow:
  "te_validators ((AdvanceHeight ^^ i) te) = te_validators te"
  "te_height ((AdvanceHeight ^^ i) te) = te_height te + of_nat i"
  by (induction i) (simp_all add: AdvanceHeight_def)

lemma proposer_after:
  assumes "te_wf te" and "te_validators te \<noteq> []" and "unat (te_height te) + i < 2 ^ 64"
  shows "proposerLocked ((AdvanceHeight ^^ i) te) =
    te_validators te ! ((unat (te_height te) + i) mod length (te_validators te))"
proof -
  have "te_wf ((AdvanceHeight ^^ i) te)"
    using assms(1) te_on_wf [where e = OnHeight] by (induction i) simp_all
  moreover have "unat (te_height te + of_nat i) = unat (te_height te) + i"
    using assms(3) by (simp add: unat_word_ariths unat_of_nat)
  ultimately show ?thesis
    using assms(2) by (simp add: proposerLocked_def te_wf_def AdvanceHeight_pow)
qed

text \<open>C39. The rotation of proposers is fair: over as many consecutive heights as there are
  validators, the proposers are the validators in their order, starting from the one that the
  height selects, so each of them proposes exactly once; as long as the heights stay below \<open>2\<^sup>6\<^sup>4\<close>, where they would wrap around.\<close>

theorem proposer_rotation:
  assumes "te_wf te" and "unat (te_height te) + length (te_validators te) < 2 ^ 64"
  shows "map (\<lambda>i. Proposer ((AdvanceHeight ^^ i) te)) [0..<length (te_validators te)] =
    rotate (unat (te_height te)) (te_validators te)"
proof (rule nth_equalityI)
  fix i assume "i < length (map (\<lambda>i. Proposer ((AdvanceHeight ^^ i) te)) [0..<length (te_validators te)])"
  then have i: "i < length (te_validators te)" by simp
  then have "te_validators te \<noteq> []" by auto
  with i assms show "map (\<lambda>i. Proposer ((AdvanceHeight ^^ i) te)) [0..<length (te_validators te)] ! i =
      rotate (unat (te_height te)) (te_validators te) ! i"
    by (simp add: Proposer_def proposer_after nth_rotate)
qed simp

theorem proposer_rotation_witness:
  "map (\<lambda>i. Proposer ((AdvanceHeight ^^ i) (NewTendermintEngine 0 [''a'', ''b'', ''c'']))) [0..<3] =
    [''b'', ''c'', ''a'']"
proof -
  let ?te = "NewTendermintEngine 0 [''a'', ''b'', ''c'']"
  have "te_height ?te = 1" "te_validators ?te = [''a'', ''b'', ''c'']"
    by (simp_all add: NewTendermintEngine_def)
  then show ?thesis
    using proposer_rotation [OF te_wf_New, of 0 "[''a'', ''b'', ''c'']"]
    by (simp add: upt_conv_Cons numeral_3_eq_3)
qed

end
