(* ===== verification/Chain_State.thy ===== *)
theory Chain_State
  imports Tendermint
begin

text \<open>
  The state of a node of package \<open>blockchain\<close>: the struct \<open>Blockchain\<close> of \<open>blockchain.go\<close>, its genesis
  block, its audit trail, and how it is saved to and loaded from \<open>chain.json\<close>.

  \<^item> \<open>Ledger\<close> and \<open>MinerStats\<close> are maps to pointers. Every entry is made with a fresh pointer, so no two
    keys share one, and the maps hold the structs themselves; a write through a pointer is an
    update of the entry. Sets (\<open>map[K]struct{}\<close>) are finite sets.
  \<^item> The mutex is held for the whole of each exported operation, so operations are atomic.
  \<^item> The files of the data directory are the field \<open>bc_disk\<close>.
  \<^item> What the environment answers during an operation is the argument \<open>E\<close>: the clock, the JSON
    encoder of the standard library, and whether writing and renaming a file succeed.
\<close>

section \<open>State\<close>

record serverMetrics =
  m_requestCount :: i64
  m_errorCount :: i64
  m_lastRequestAt :: i64
  m_blocksMined :: i64
  m_peersSeen :: i64
  m_txAccepted :: i64
  m_txRejected :: i64

record nodeState =
  ns_Chain :: "Block list"
  ns_Pending :: "Transaction list"
  ns_Ledger :: "(string, Account) fmap"
  ns_Registry :: "(string, ModelRef) fmap"
  ns_Consensus :: string
  ns_Authorities :: "string list"
  ns_TokenSupply :: u64
  ns_Escrows :: "(string, Escrow) fmap"
  ns_Proposals :: "(string, GovernanceProposal) fmap"
  ns_Agreements :: "(string, ServiceAgreement) fmap"
  ns_UsageMeters :: "(string, UsageMeter) fmap"
  ns_UsedNonces :: "(string, u64 fset) fmap"
  ns_SeenTxIDs :: "string fset"
  ns_AuditTrail :: "AuditEntry list"
  ns_NextNonce :: "(string, u64) fmap"
  ns_FinalizedBlocks :: "u64 fset"
  ns_LastFinalized :: u64
  ns_AgentTxCount :: u64
  ns_MintPaused :: bool
  ns_MintPauseUntil :: i64
  ns_UniversalWallets :: "(string, UniversalWallet) fmap"
  ns_FinalitySignatures :: "(u64, FinalityVoteSignature list) fmap"
  ns_PendingReversals :: "(string, PendingReversal) fmap"
  ns_IrreversibleTxs :: "string fset"

text \<open>The data directory: \<open>chain.json\<close> and \<open>chain.json.tmp\<close>.\<close>

record Disk =
  file_chain :: "string option"
  file_tmp :: "string option"

record Blockchain =
  bc_Chain :: "Block list"
  bc_Pending :: "Transaction list"
  bc_Ledger :: "(string, Account) fmap"
  bc_Registry :: "(string, ModelRef) fmap"
  bc_Consensus :: ConsensusType
  bc_Authorities :: "string list"
  bc_validatorIdx :: nat
  bc_TokenSupply :: u64
  bc_Escrows :: "(string, Escrow) fmap"
  bc_Proposals :: "(string, GovernanceProposal) fmap"
  bc_Agreements :: "(string, ServiceAgreement) fmap"
  bc_UsageMeters :: "(string, UsageMeter) fmap"
  bc_UsedNonces :: "(string, u64 fset) fmap"
  bc_NextNonce :: "(string, u64) fmap"
  bc_SeenTxIDs :: "string fset"
  bc_AuditTrail :: "AuditEntry list"
  bc_Wallets :: "(string, ManagedWallet) fmap"
  bc_Validators :: "(string, Validator) fmap"
  bc_GenesisHash :: string
  bc_ChainID :: string
  bc_BlockTime :: i64
  bc_Difficulty :: u32
  bc_FinalizedBlocks :: "u64 fset"
  bc_LastFinalized :: u64
  bc_AgentTxCount :: u64
  bc_MintPaused :: bool
  bc_MintPauseUntil :: i64
  bc_FinalityVotes :: "(u64, string fset) fmap"
  bc_FinalitySignatures :: "(u64, FinalityVoteSignature list) fmap"
  bc_MinerStats :: "(string, MinerStats) fmap"
  bc_UniversalWallets :: "(string, UniversalWallet) fmap"
  bc_PendingReversals :: "(string, PendingReversal) fmap"
  bc_IrreversibleTxs :: "string fset"
  bc_tendermintEngine :: "TendermintEngine option"
  bc_metrics :: "serverMetrics option"
  bc_disk :: Disk

text \<open>\<open>env_write_fault\<close>: the temporary file could not be written completely; what is left in it, and
  the error.\<close>

record env =
  env_now :: i64
  env_nano :: i64
  env_json_genesis :: "string \<Rightarrow> i64 \<Rightarrow> u64 \<Rightarrow> string \<Rightarrow> string"
  env_json_state :: "nodeState \<Rightarrow> string go"
  env_unjson_state :: "string \<Rightarrow> nodeState go"
  env_write_fault :: "(string \<times> string) option"
  env_rename_fault :: "string option"

definition zero_metrics :: serverMetrics where
  "zero_metrics = \<lparr>m_requestCount = 0, m_errorCount = 0, m_lastRequestAt = 0, m_blocksMined = 0,
     m_peersSeen = 0, m_txAccepted = 0, m_txRejected = 0\<rparr>"

definition zero_nodeState :: nodeState where
  "zero_nodeState = \<lparr>ns_Chain = [], ns_Pending = [], ns_Ledger = fmempty, ns_Registry = fmempty,
     ns_Consensus = [], ns_Authorities = [], ns_TokenSupply = 0, ns_Escrows = fmempty,
     ns_Proposals = fmempty, ns_Agreements = fmempty, ns_UsageMeters = fmempty,
     ns_UsedNonces = fmempty, ns_SeenTxIDs = {||}, ns_AuditTrail = [], ns_NextNonce = fmempty,
     ns_FinalizedBlocks = {||}, ns_LastFinalized = 0, ns_AgentTxCount = 0, ns_MintPaused = False,
     ns_MintPauseUntil = 0, ns_UniversalWallets = fmempty, ns_FinalitySignatures = fmempty,
     ns_PendingReversals = fmempty, ns_IrreversibleTxs = {||}\<rparr>"

section \<open>Operations\<close>

text \<open>The struct literal of \<open>NewBlockchain\<close>.\<close>

definition empty_Blockchain :: "ConsensusType \<Rightarrow> string \<Rightarrow> Disk \<Rightarrow> Blockchain" where
  "empty_Blockchain consensus chainID disk = \<lparr>bc_Chain = [], bc_Pending = [], bc_Ledger = fmempty,
     bc_Registry = fmempty, bc_Consensus = consensus, bc_Authorities = [], bc_validatorIdx = 0,
     bc_TokenSupply = 1000000000, bc_Escrows = fmempty, bc_Proposals = fmempty,
     bc_Agreements = fmempty, bc_UsageMeters = fmempty, bc_UsedNonces = fmempty,
     bc_NextNonce = fmempty, bc_SeenTxIDs = {||}, bc_AuditTrail = [], bc_Wallets = fmempty,
     bc_Validators = fmempty, bc_GenesisHash = [], bc_ChainID = chainID, bc_BlockTime = 5 * 1000000000,
     bc_Difficulty = 16, bc_FinalizedBlocks = {||}, bc_LastFinalized = 0, bc_AgentTxCount = 0,
     bc_MintPaused = False, bc_MintPauseUntil = 0, bc_FinalityVotes = fmempty,
     bc_FinalitySignatures = fmempty, bc_MinerStats = fmempty, bc_UniversalWallets = fmempty,
     bc_PendingReversals = fmempty, bc_IrreversibleTxs = {||}, bc_tendermintEngine = None,
     bc_metrics = Some zero_metrics, bc_disk = disk\<rparr>"

definition createGenesisBlock :: "crypto \<Rightarrow> env \<Rightarrow> Blockchain \<Rightarrow> Blockchain" where
  "createGenesisBlock C E bc =
     (let genesisPayload = env_json_genesis E (bc_ChainID bc) (env_now E) (bc_TokenSupply bc)
            (ConsensusName (bc_Consensus bc));
          genesisHash = sha256 C genesisPayload;
          genesis = \<lparr>blk_Index = 0, blk_Author = ''genesis'', blk_MinerAddress = [],
            blk_PreviousHash = ''0'', blk_Timestamp = env_now E, blk_Transactions = [], blk_Nonce = 0,
            blk_BlockHash = EncodeToString genesisHash, blk_TxMerkleRoot = []\<rparr>
      in bc\<lparr>bc_Chain := bc_Chain bc @ [genesis], bc_GenesisHash := blk_BlockHash genesis\<rparr>)"

definition state_of :: "Blockchain \<Rightarrow> nodeState" where
  "state_of bc = \<lparr>ns_Chain = bc_Chain bc, ns_Pending = bc_Pending bc, ns_Ledger = bc_Ledger bc,
     ns_Registry = bc_Registry bc, ns_Consensus = ConsensusName (bc_Consensus bc),
     ns_Authorities = bc_Authorities bc, ns_TokenSupply = bc_TokenSupply bc,
     ns_Escrows = bc_Escrows bc, ns_Proposals = bc_Proposals bc, ns_Agreements = bc_Agreements bc,
     ns_UsageMeters = bc_UsageMeters bc, ns_UsedNonces = bc_UsedNonces bc,
     ns_SeenTxIDs = bc_SeenTxIDs bc, ns_AuditTrail = bc_AuditTrail bc,
     ns_NextNonce = bc_NextNonce bc, ns_FinalizedBlocks = bc_FinalizedBlocks bc,
     ns_LastFinalized = bc_LastFinalized bc, ns_AgentTxCount = bc_AgentTxCount bc,
     ns_MintPaused = bc_MintPaused bc, ns_MintPauseUntil = bc_MintPauseUntil bc,
     ns_UniversalWallets = bc_UniversalWallets bc,
     ns_FinalitySignatures = bc_FinalitySignatures bc,
     ns_PendingReversals = bc_PendingReversals bc, ns_IrreversibleTxs = bc_IrreversibleTxs bc\<rparr>"

definition SaveToDisk :: "env \<Rightarrow> Blockchain \<Rightarrow> Blockchain \<times> unit go" where
  "SaveToDisk E bc =
     (case env_json_state E (state_of bc) of
        Ok payload \<Rightarrow>
          (case env_write_fault E of
             Some (partial, err) \<Rightarrow> (bc\<lparr>bc_disk := (bc_disk bc)\<lparr>file_tmp := Some partial\<rparr>\<rparr>, Err err)
           | None \<Rightarrow>
               (let disk = (bc_disk bc)\<lparr>file_tmp := Some payload\<rparr> in
                case env_rename_fault E of
                  Some err \<Rightarrow> (bc\<lparr>bc_disk := disk\<rparr>, Err err)
                | None \<Rightarrow> (bc\<lparr>bc_disk := disk\<lparr>file_chain := file_tmp disk, file_tmp := None\<rparr>\<rparr>, Ok ())))
      | Err e \<Rightarrow> (bc, Err e)
      | Panic e \<Rightarrow> (bc, Panic e))"

definition maxNonce :: "u64 fset \<Rightarrow> u64" where
  "maxNonce nonces = Max (insert 0 (fset nonces))"

text \<open>The loop over \<open>UsedNonces\<close> writes the entry of each sender once, so its order does not matter.\<close>

definition restoreNonces :: "(string, u64 fset) fmap \<Rightarrow> (string, u64) fmap \<Rightarrow> (string, u64) fmap" where
  "restoreNonces used next =
     fmadd next (fmmap (\<lambda>nonces. maxNonce nonces + 1)
       (fmfilter (\<lambda>from. maxNonce (map_get {||} used from) > 0) used))"

definition LoadFromDisk :: "crypto \<Rightarrow> env \<Rightarrow> Blockchain \<Rightarrow> Blockchain \<times> unit go" where
  "LoadFromDisk C E bc =
     (case file_chain (bc_disk bc) of
        None \<Rightarrow> (bc, Err ''open chain.json: no such file or directory'')
      | Some payload \<Rightarrow>
          (case env_unjson_state E payload of
             Err e \<Rightarrow> (bc, Err e)
           | Panic e \<Rightarrow> (bc, Panic e)
           | Ok state \<Rightarrow>
               (let bc = bc\<lparr>bc_Chain := ns_Chain state, bc_Pending := ns_Pending state,
                      bc_Ledger := ns_Ledger state, bc_Registry := ns_Registry state,
                      bc_Authorities := ns_Authorities state, bc_TokenSupply := ns_TokenSupply state,
                      bc_Escrows := ns_Escrows state, bc_Proposals := ns_Proposals state,
                      bc_Agreements := ns_Agreements state, bc_UsageMeters := ns_UsageMeters state,
                      bc_UsedNonces := ns_UsedNonces state, bc_SeenTxIDs := ns_SeenTxIDs state,
                      bc_AuditTrail := ns_AuditTrail state, bc_NextNonce := ns_NextNonce state,
                      bc_FinalizedBlocks := ns_FinalizedBlocks state,
                      bc_LastFinalized := ns_LastFinalized state,
                      bc_AgentTxCount := ns_AgentTxCount state, bc_MintPaused := ns_MintPaused state,
                      bc_MintPauseUntil := ns_MintPauseUntil state,
                      bc_UniversalWallets := ns_UniversalWallets state,
                      bc_FinalitySignatures := ns_FinalitySignatures state,
                      bc_PendingReversals := ns_PendingReversals state,
                      bc_IrreversibleTxs := ns_IrreversibleTxs state\<rparr>;
                    bc = bc\<lparr>bc_NextNonce := restoreNonces (bc_UsedNonces bc) (bc_NextNonce bc)\<rparr>;
                    bc = (case bc_Chain bc of [] \<Rightarrow> bc | b # _ \<Rightarrow> bc\<lparr>bc_GenesisHash := blk_BlockHash b\<rparr>);
                    bc = bc\<lparr>bc_Consensus := (if ns_Consensus state = ''poa'' then ProofOfAuthority else ProofOfStake)\<rparr>;
                    bc = (if bc_Chain bc = [] then createGenesisBlock C E bc else bc)
                in (bc, Ok ()))))"

definition EnsureMetrics :: "Blockchain \<Rightarrow> Blockchain" where
  "EnsureMetrics bc = (if bc_metrics bc = None then bc\<lparr>bc_metrics := Some zero_metrics\<rparr> else bc)"

definition recordRequest :: "env \<Rightarrow> bool \<Rightarrow> serverMetrics option \<Rightarrow> serverMetrics option" where
  "recordRequest E ok m =
     (case m of None \<Rightarrow> None
      | Some m \<Rightarrow>
          (let m = m\<lparr>m_requestCount := m_requestCount m + 1\<rparr>;
               m = (if \<not> ok then m\<lparr>m_errorCount := m_errorCount m + 1\<rparr> else m)
           in Some (m\<lparr>m_lastRequestAt := env_now E\<rparr>)))"

definition RecordRequest :: "env \<Rightarrow> bool \<Rightarrow> Blockchain \<Rightarrow> Blockchain" where
  "RecordRequest E ok bc = bc\<lparr>bc_metrics := recordRequest E ok (bc_metrics bc)\<rparr>"

definition appendAuditEntry :: "env \<Rightarrow> string \<Rightarrow> string \<Rightarrow> string \<Rightarrow> Blockchain \<Rightarrow> Blockchain" where
  "appendAuditEntry E event actor details bc =
     bc\<lparr>bc_AuditTrail := bc_AuditTrail bc @
       [\<lparr>aud_Timestamp = env_now E, aud_Event = event, aud_Actor = actor, aud_Details = details\<rparr>]\<rparr>"

definition TailHash :: "Blockchain \<Rightarrow> string" where
  "TailHash bc = (if bc_Chain bc = [] then ''0'' else blk_BlockHash (last (bc_Chain bc)))"

definition Snapshot :: "Blockchain \<Rightarrow> nodeState" where
  "Snapshot bc = zero_nodeState\<lparr>ns_Chain := bc_Chain bc, ns_Pending := bc_Pending bc,
     ns_Ledger := bc_Ledger bc, ns_Registry := bc_Registry bc,
     ns_Consensus := ConsensusName (bc_Consensus bc), ns_Authorities := bc_Authorities bc,
     ns_TokenSupply := bc_TokenSupply bc, ns_Escrows := bc_Escrows bc, ns_Proposals := bc_Proposals bc,
     ns_Agreements := bc_Agreements bc, ns_UsageMeters := bc_UsageMeters bc,
     ns_NextNonce := bc_NextNonce bc\<rparr>"

end
