(* ===== verification/Persistence.thy ===== *)
theory Persistence
  imports Chain_State
begin

text \<open>
  Saving and restoring a node: what survives a restart, and that a failing write never damages
  the saved state.
\<close>

section \<open>Consistency of the nonce tables\<close>

text \<open>The next nonce of a sender follows the largest one that a block has used.\<close>

definition nonces_ok :: "Blockchain \<Rightarrow> bool" where
  "nonces_ok bc \<longleftrightarrow> (\<forall>from nonces. fmlookup (bc_UsedNonces bc) from = Some nonces \<longrightarrow> 0 < maxNonce nonces \<longrightarrow>
     fmlookup (bc_NextNonce bc) from = Some (maxNonce nonces + 1))"

lemma restoreNonces_lookup:
  "fmlookup (restoreNonces used next) from =
     (case fmlookup used from of
        Some nonces \<Rightarrow> if 0 < maxNonce nonces then Some (maxNonce nonces + 1) else fmlookup next from
      | None \<Rightarrow> fmlookup next from)"
  by (auto simp: restoreNonces_def fmlookup_dom_iff map_get_def split: option.splits)

lemma restoreNonces_max:
  "fmlookup (restoreNonces used next) a =
     (if 0 < maxNonce (map_get {||} used a) then Some (maxNonce (map_get {||} used a) + 1) else fmlookup next a)"
  by (cases "fmlookup used a") (simp_all add: restoreNonces_lookup map_get_None map_get_Some maxNonce_def)

lemma restoreNonces_id: "nonces_ok bc \<Longrightarrow> restoreNonces (bc_UsedNonces bc) (bc_NextNonce bc) = bc_NextNonce bc"
  by (intro fmap_ext) (auto simp: restoreNonces_lookup nonces_ok_def split: option.splits)

section \<open>The saved file\<close>

text \<open>C33. Saving is atomic: after \<open>SaveToDisk\<close> the file \<open>chain.json\<close> holds the complete new state, and
  the operation reports success, or it holds exactly what it held before, and the operation
  reports a failure; nothing but the files changes.\<close>

theorem SaveToDisk_atomic:
  "case SaveToDisk E bc of (bc', r) \<Rightarrow>
     bc' = bc\<lparr>bc_disk := bc_disk bc'\<rparr> \<and>
     (if r = Ok () then \<exists>payload. env_json_state E (state_of bc) = Ok payload \<and>
           file_chain (bc_disk bc') = Some payload
      else file_chain (bc_disk bc') = file_chain (bc_disk bc))"
  by (auto simp: SaveToDisk_def Let_def split: go.splits option.splits)

text \<open>A save that meets no fault.\<close>

lemma SaveToDisk_ok:
  assumes "env_json_state E (state_of bc) = Ok payload" "env_write_fault E = None" "env_rename_fault E = None"
  shows "file_chain (bc_disk (fst (SaveToDisk E bc))) = Some payload" "snd (SaveToDisk E bc) = Ok ()"
  using assms by (simp_all add: SaveToDisk_def Let_def)

text \<open>C32. A saved node is restored: when the JSON decoder reads back what the encoder wrote, no write fails and the chain is not empty, a node
  that starts on the saved files has the whole persistent state of the one that saved it (chain,
  mempool, accounts, registry, contracts, finality, reversals, audit trail), except that the next nonces are computed again: for a sender with
  a positive used nonce it is the largest of them plus one (which wraps to 0 for the largest 64-bit nonce), for every other sender the saved one. Where the tables of nonces agree
  (\<open>nonces_ok\<close>) the whole state comes back exactly. The
  consensus mode is restored as well, except that proof of work comes back as proof of stake. Validators and miner statistics are not
  part of the file: they are those that the restarted node had already.\<close>

theorem restart_restores_state:
  assumes "env_json_state E (state_of bc) = Ok payload" and "env_unjson_state E payload = Ok (state_of bc)"
    and "env_write_fault E = None" "env_rename_fault E = None"
    and "bc_Chain bc \<noteq> []"
    and "bc_disk fresh = bc_disk (fst (SaveToDisk E bc))"
  shows "case LoadFromDisk C E fresh of (bc', r) \<Rightarrow> r = Ok () \<and>
     state_of bc' = (state_of bc)\<lparr>ns_NextNonce := bc_NextNonce bc'\<rparr> \<and>
     (\<forall>a. fmlookup (bc_NextNonce bc') a =
        (if 0 < maxNonce (map_get {||} (bc_UsedNonces bc) a) then Some (maxNonce (map_get {||} (bc_UsedNonces bc) a) + 1) else fmlookup (bc_NextNonce bc) a)) \<and>
     (nonces_ok bc \<longrightarrow> state_of bc' = state_of bc) \<and>
     bc_Consensus bc' = (if bc_Consensus bc = ProofOfAuthority then ProofOfAuthority else ProofOfStake) \<and>
     bc_Validators bc' = bc_Validators fresh \<and> bc_MinerStats bc' = bc_MinerStats fresh"
proof -
  obtain b bs where "bc_Chain bc = b # bs"
    using assms(5) by (cases "bc_Chain bc") auto
  then show ?thesis
    using assms SaveToDisk_ok(1) [OF assms(1,3,4)]
    by (simp add: LoadFromDisk_def Let_def state_of_def restoreNonces_id ConsensusName_def restoreNonces_max)
qed

definition demo_env :: env where
  "demo_env = \<lparr>env_now = 1000, env_nano = 1000000, env_json_genesis = (\<lambda>c t s k. c),
     env_json_state = (\<lambda>s. Ok ''state''), env_unjson_state = (\<lambda>p. Err ''bad json''),
     env_write_fault = None, env_rename_fault = None\<rparr>"

definition demo_chain :: Blockchain where
  "demo_chain = createGenesisBlock demo_crypto demo_env
     (empty_Blockchain ProofOfWork ''main'' \<lparr>file_chain = None, file_tmp = None\<rparr>)"

theorem restart_restores_state_witness:
  "let E = demo_env\<lparr>env_unjson_state := \<lambda>p. Ok (state_of demo_chain)\<rparr> in
   case LoadFromDisk demo_crypto E
     (empty_Blockchain ProofOfWork ''main'' (bc_disk (fst (SaveToDisk E demo_chain)))) of (bc', r) \<Rightarrow>
     r = Ok () \<and> state_of bc' = state_of demo_chain \<and> bc_Consensus bc' = ProofOfStake \<and>
     bc_Validators bc' = fmempty \<and> bc_MinerStats bc' = fmempty"
proof -
  let ?E = "demo_env\<lparr>env_unjson_state := \<lambda>p. Ok (state_of demo_chain)\<rparr>"
  have "nonces_ok demo_chain" "bc_Chain demo_chain \<noteq> []" "bc_Consensus demo_chain = ProofOfWork"
    by (simp_all add: demo_chain_def createGenesisBlock_def nonces_ok_def empty_Blockchain_def Let_def)
  note facts = this
  let ?fresh = "empty_Blockchain ProofOfWork ''main'' (bc_disk (fst (SaveToDisk ?E demo_chain)))"
  obtain bc' r where l: "LoadFromDisk demo_crypto ?E ?fresh = (bc', r)" by force
  have "bc_Validators ?fresh = fmempty" "bc_MinerStats ?fresh = fmempty" "bc_disk ?fresh = bc_disk (fst (SaveToDisk ?E demo_chain))"
    by (simp_all add: empty_Blockchain_def)
  moreover have "env_json_state ?E s = Ok ''state''" "env_write_fault ?E = None" "env_rename_fault ?E = None" for s
    by (simp_all add: demo_env_def)
  ultimately show ?thesis
    using restart_restores_state [of ?E demo_chain "''state''" ?fresh demo_crypto] facts unfolding l Let_def prod.case by auto
qed

end
