(* ===== verification/Ledger.thy ===== *)
theory Ledger
  imports Persistence
begin

text \<open>
  Accounts of package \<open>blockchain\<close>: creation, funding, staking, slashing, rewards, burning, the
  directory of named wallets, authorities and validators (\<open>blockchain.go\<close>), and the conservation of
  balances. The interface \<open>token_book\<close> states what a table of balances promises; both ledgers of
  the repository and the bridged token implement it.
\<close>

section \<open>Tables of balances\<close>

text \<open>The abstract specification: balances are natural numbers, and a transfer moves an amount
  between two existing accounts when the sender has it.\<close>

definition spec_transfer :: "string \<Rightarrow> string \<Rightarrow> nat \<Rightarrow> (string \<rightharpoonup> nat) \<Rightarrow> (string \<rightharpoonup> nat)" where
  "spec_transfer a b v m =
     (case (m a, m b) of
        (Some x, Some y) \<Rightarrow>
          (if v \<le> x then (let m' = m(a \<mapsto> x - v) in m'(b \<mapsto> the (m' b) + v)) else m)
      | _ \<Rightarrow> m)"

locale token_book =
  fixes bal :: "'l \<Rightarrow> string \<Rightarrow> u64 option" and total :: "'l \<Rightarrow> nat"
    and credit debit :: "string \<Rightarrow> u64 \<Rightarrow> 'l \<Rightarrow> 'l"
  assumes bal_credit: "bal (credit a v l) b = (if a = b then map_option (\<lambda>x. x + v) (bal l b) else bal l b)"
    and bal_debit: "bal (debit a v l) b = (if a = b then map_option (\<lambda>x. x - v) (bal l b) else bal l b)"
    and total_credit: "bal l a = Some x \<Longrightarrow> total (credit a v l) + unat x = total l + unat (x + v)"
    and total_debit: "bal l a = Some x \<Longrightarrow> total (debit a v l) + unat x = total l + unat (x - v)"
    and bal_le_total: "bal l a = Some x \<Longrightarrow> unat x \<le> total l"
begin

lemma total_debit_exact:
  assumes "bal l a = Some x" "v \<le> x"
  shows "total (debit a v l) + unat v = total l"
proof -
  have "unat v \<le> unat x" using assms(2) by (simp add: word_le_nat_alt)
  with total_debit [OF assms(1), of v] show ?thesis
    by (simp add: unat_sub_no_wrap [OF assms(2)])
qed

lemma total_credit_exact:
  assumes "bal l a = Some x" "total l + unat v < 2 ^ 64"
  shows "total (credit a v l) = total l + unat v"
proof -
  have "unat x + unat v < 2 ^ 64" using bal_le_total [OF assms(1)] assms(2) by linarith
  with total_credit [OF assms(1), of v] show ?thesis
    by (simp add: unat_add_no_wrap)
qed

lemma total_credit_le: "bal l a = Some x \<Longrightarrow> total (credit a v l) \<le> total l + unat v"
  using total_credit [of l a x v] mod_less_eq_dividend [of "unat x + unat v" "2 ^ 64"] by (simp add: unat_word_ariths)

lemma pay_total:
  assumes "bal l a = Some x" "bal l b = Some y" "v \<le> x" "total l < 2 ^ 64"
  shows "total (credit b v (debit a v l)) = total l"
proof -
  have d: "total (debit a v l) + unat v = total l"
    by (rule total_debit_exact [OF assms(1,3)])
  have "\<exists>z. bal (debit a v l) b = Some z" by (simp add: bal_debit assms(2))
  then show ?thesis using total_credit_exact d assms(4) by fastforce
qed

text \<open>Without a bound on the total, a credit may wrap around: then a payment destroys \<open>2\<^sup>6\<^sup>4\<close> units, and it never creates any.\<close>

lemma pay_total_wrap:
  assumes "bal l a = Some x" "bal l b = Some y" "v \<le> x"
  shows "total (credit b v (debit a v l)) \<le> total l \<and> total (credit b v (debit a v l)) mod 2 ^ 64 = total l mod 2 ^ 64"
proof -
  let ?l = "debit a v l"
  have d: "total ?l + unat v = total l" by (rule total_debit_exact [OF assms(1,3)])
  have "\<exists>z. bal ?l b = Some z" by (simp add: bal_debit assms(2))
  then obtain z where z: "bal ?l b = Some z" by blast
  show ?thesis
  proof (cases "unat z + unat v < 2 ^ 64")
    case True
    then show ?thesis using total_credit [OF z, of v] d by (simp add: unat_add_no_wrap)
  next
    case False
    have "unat (z + v) = (unat z + unat v) mod 2 ^ 64" by (simp add: unat_word_ariths)
    also have "\<dots> = unat z + unat v - 2 ^ 64"
      using False unat_u64_lt [of z] unat_u64_lt [of v] by (simp add: le_mod_geq not_less)
    finally have "unat (z + v) + 2 ^ 64 = unat z + unat v" using False by simp
    then have "total (credit b v ?l) + 2 ^ 64 = total l" using total_credit [OF z, of v] d by linarith
    then show ?thesis by (metis le_add1 mod_add_self2)
  qed
qed

lemma pay_bal:
  "bal (credit b v (debit a v l)) c =
     (if a = b then bal l c
      else if c = a then map_option (\<lambda>x. x - v) (bal l c)
      else if c = b then map_option (\<lambda>x. x + v) (bal l c) else bal l c)"
  by (auto simp: bal_credit bal_debit option.map_comp comp_def option.map_ident)

lemma pay_refines:
  assumes "bal l a = Some x" "bal l b = Some y" "v \<le> x" "total l < 2 ^ 64"
  shows "(\<lambda>c. map_option unat (bal (credit b v (debit a v l)) c)) =
    spec_transfer a b (unat v) (\<lambda>c. map_option unat (bal l c))"
proof -
  have vx: "unat v \<le> unat x" using assms(3) by (simp add: word_le_nat_alt)
  have "unat (y + v) = unat y + unat v" if "a \<noteq> b"
  proof -
    have "total (debit a v l) + unat v = total l" "bal (debit a v l) b = Some y"
      using total_debit_exact [OF assms(1,3)] that assms(2) by (simp_all add: bal_debit)
    then have "unat y + unat v < 2 ^ 64" using bal_le_total assms(4) by fastforce
    then show ?thesis by (rule unat_add_no_wrap)
  qed
  then show ?thesis
    using assms vx
    by (intro ext) (auto simp: pay_bal spec_transfer_def Let_def unat_sub_no_wrap)
qed

end

section \<open>The ledger of a node\<close>

definition balance_of :: "(string, Account) fmap \<Rightarrow> string \<Rightarrow> u64 option" where
  "balance_of L a = map_option acct_Balance (fmlookup L a)"

definition total_balance :: "(string, Account) fmap \<Rightarrow> nat" where
  "total_balance L = fmsum (\<lambda>ac. unat (acct_Balance ac)) L"

definition total_staked :: "(string, Account) fmap \<Rightarrow> nat" where
  "total_staked L = fmsum (\<lambda>ac. unat (acct_Staked ac)) L"

text \<open>A write through the account's pointer: \<open>account.Balance += v\<close>, \<open>account.Balance -= v\<close>,
  \<open>account.Staked += v\<close>, \<open>account.Staked -= v\<close>.\<close>

definition modify_account :: "string \<Rightarrow> (Account \<Rightarrow> Account) \<Rightarrow> (string, Account) fmap \<Rightarrow> (string, Account) fmap" where
  "modify_account a f L = (case fmlookup L a of None \<Rightarrow> L | Some ac \<Rightarrow> fmupd a (f ac) L)"

definition credit :: "string \<Rightarrow> u64 \<Rightarrow> (string, Account) fmap \<Rightarrow> (string, Account) fmap" where
  "credit a v = modify_account a (\<lambda>ac. ac\<lparr>acct_Balance := acct_Balance ac + v\<rparr>)"

definition debit :: "string \<Rightarrow> u64 \<Rightarrow> (string, Account) fmap \<Rightarrow> (string, Account) fmap" where
  "debit a v = modify_account a (\<lambda>ac. ac\<lparr>acct_Balance := acct_Balance ac - v\<rparr>)"

definition add_stake :: "string \<Rightarrow> u64 \<Rightarrow> (string, Account) fmap \<Rightarrow> (string, Account) fmap" where
  "add_stake a v = modify_account a (\<lambda>ac. ac\<lparr>acct_Staked := acct_Staked ac + v\<rparr>)"

definition sub_stake :: "string \<Rightarrow> u64 \<Rightarrow> (string, Account) fmap \<Rightarrow> (string, Account) fmap" where
  "sub_stake a v = modify_account a (\<lambda>ac. ac\<lparr>acct_Staked := acct_Staked ac - v\<rparr>)"

lemma modify_account_lookup:
  "fmlookup (modify_account a f L) b = (if a = b then map_option f (fmlookup L b) else fmlookup L b)"
  by (simp add: modify_account_def split: option.splits)

lemma has_key_modify_account [simp]: "has_key (modify_account a f L) b \<longleftrightarrow> has_key L b"
  by (simp add: has_key_def modify_account_lookup)

lemma fmsum_modify_account:
  "fmlookup L a = Some ac \<Longrightarrow> fmsum g (modify_account a f L) + g ac = fmsum g L + g (f ac)"
  by (simp add: modify_account_def fmsum_fmupd_old)

lemma fmsum_modify_same:
  assumes "\<And>ac. g (f ac) = g ac"
  shows "fmsum g (modify_account a f L) = fmsum g L"
proof (cases "fmlookup L a")
  case (Some ac)
  then show ?thesis using fmsum_modify_account [OF Some, of g f] assms by simp
qed (simp add: modify_account_def)

lemmas account_ops = credit_def debit_def add_stake_def sub_stake_def

lemma has_key_account_ops [simp]:
  "has_key (credit a v L) b \<longleftrightarrow> has_key L b" "has_key (debit a v L) b \<longleftrightarrow> has_key L b"
  "has_key (add_stake a v L) b \<longleftrightarrow> has_key L b" "has_key (sub_stake a v L) b \<longleftrightarrow> has_key L b"
  by (simp_all add: account_ops)

interpretation ledger: token_book balance_of total_balance credit debit
proof unfold_locales
  fix a b v L and x :: u64
  show "balance_of (credit a v L) b = (if a = b then map_option (\<lambda>x. x + v) (balance_of L b) else balance_of L b)"
    by (simp add: balance_of_def credit_def modify_account_lookup option.map_comp comp_def)
  show "balance_of (debit a v L) b = (if a = b then map_option (\<lambda>x. x - v) (balance_of L b) else balance_of L b)"
    by (simp add: balance_of_def debit_def modify_account_lookup option.map_comp comp_def)
  assume "balance_of L a = Some x"
  then obtain ac where ac: "fmlookup L a = Some ac" "x = acct_Balance ac"
    by (auto simp: balance_of_def)
  show "total_balance (credit a v L) + unat x = total_balance L + unat (x + v)"
    using fmsum_modify_account [OF ac(1), of "\<lambda>ac. unat (acct_Balance ac)"
        "\<lambda>ac. ac\<lparr>acct_Balance := acct_Balance ac + v\<rparr>"]
    by (simp add: total_balance_def credit_def ac(2))
  show "total_balance (debit a v L) + unat x = total_balance L + unat (x - v)"
    using fmsum_modify_account [OF ac(1), of "\<lambda>ac. unat (acct_Balance ac)"
        "\<lambda>ac. ac\<lparr>acct_Balance := acct_Balance ac - v\<rparr>"]
    by (simp add: total_balance_def debit_def ac(2))
  show "unat x \<le> total_balance L"
    unfolding total_balance_def ac(2) by (rule fmsum_ge [OF ac(1)])
qed

lemma total_balance_stake [simp]:
  "total_balance (add_stake a v L) = total_balance L" "total_balance (sub_stake a v L) = total_balance L"
  by (simp_all add: total_balance_def add_stake_def sub_stake_def fmsum_modify_same)

lemma total_staked_balance [simp]:
  "total_staked (credit a v L) = total_staked L" "total_staked (debit a v L) = total_staked L"
  by (simp_all add: total_staked_def credit_def debit_def fmsum_modify_same)

lemma total_staked_add:
  assumes "fmlookup L a = Some ac" "total_staked L + unat v < 2 ^ 64"
  shows "total_staked (add_stake a v L) = total_staked L + unat v"
proof -
  have "unat (acct_Staked ac) \<le> total_staked L"
    unfolding total_staked_def by (rule fmsum_ge [OF assms(1)])
  then have "unat (acct_Staked ac + v) = unat (acct_Staked ac) + unat v"
    using assms(2) by (intro unat_add_no_wrap) simp
  then show ?thesis
    using fmsum_modify_account [OF assms(1), of "\<lambda>ac. unat (acct_Staked ac)" "\<lambda>ac. ac\<lparr>acct_Staked := acct_Staked ac + v\<rparr>"]
    by (simp add: total_staked_def add_stake_def)
qed

section \<open>Operations\<close>

definition addAccountLocked :: "env \<Rightarrow> string \<Rightarrow> u64 \<Rightarrow> bool \<Rightarrow> Blockchain \<Rightarrow> Blockchain" where
  "addAccountLocked E address balance isAgent bc =
     (let bc = bc\<lparr>bc_Ledger := fmupd address
            \<lparr>acct_Address = address, acct_Balance = balance, acct_Staked = 0, acct_IsAgent = isAgent\<rparr>
            (bc_Ledger bc)\<rparr>
      in appendAuditEntry E ''account_created'' address
           (''balance='' @ FormatUint balance @ '' agent='' @ fmt_bool isAgent) bc)"

definition AddAccount :: "env \<Rightarrow> string \<Rightarrow> u64 \<Rightarrow> bool \<Rightarrow> Blockchain \<Rightarrow> Blockchain" where
  "AddAccount E address balance isAgent bc = addAccountLocked E address balance isAgent bc"

definition FundAccount :: "env \<Rightarrow> string \<Rightarrow> u64 \<Rightarrow> Blockchain \<Rightarrow> Blockchain" where
  "FundAccount E address amount bc =
     (let bc =
        (if fmlookup (bc_Ledger bc) address = None then
           appendAuditEntry E ''account_created'' address (''balance='' @ FormatUint amount @ '' funded=true'')
             (bc\<lparr>bc_Ledger := fmupd address
                \<lparr>acct_Address = address, acct_Balance = amount, acct_Staked = 0, acct_IsAgent = False\<rparr>
                (bc_Ledger bc)\<rparr>)
         else
           appendAuditEntry E ''account_funded'' address (''amount='' @ FormatUint amount)
             (bc\<lparr>bc_Ledger := credit address amount (bc_Ledger bc)\<rparr>));
          bc = bc\<lparr>bc_TokenSupply := bc_TokenSupply bc + amount\<rparr>
      in fst (SaveToDisk E bc))"

text \<open>The key pair that \<open>NewWallet\<close> draws at random is the argument \<open>wallet\<close>.\<close>

definition CreateManagedWallet ::
  "crypto \<Rightarrow> env \<Rightarrow> Wallet \<Rightarrow> string \<Rightarrow> bool \<Rightarrow> Blockchain \<Rightarrow> Blockchain \<times> ManagedWallet go" where
  "CreateManagedWallet C E wallet label isAgent bc =
     (let address = wallet_Address C wallet;
          bc = addAccountLocked E address 1000 isAgent bc;
          managed = \<lparr>mw_ID = ''wallet-'' @ FormatInt (env_nano E), mw_Address = address,
            mw_PublicKey = EncodeToString (w_PublicKey wallet), mw_Label = label, mw_IsAgent = isAgent\<rparr>;
          bc = bc\<lparr>bc_Wallets := fmupd (mw_ID managed) managed (bc_Wallets bc)\<rparr>
      in (appendAuditEntry E ''wallet_created'' address
            (''label='' @ label @ '' agent='' @ fmt_bool isAgent) bc, Ok managed))"

text \<open>The loop over the directory stops at the first clash, in the order \<open>ks\<close> that \<open>range\<close> takes.\<close>

fun directory_clash :: "string list \<Rightarrow> (string, UniversalWallet) fmap \<Rightarrow> string \<Rightarrow> string \<Rightarrow> string option" where
  "directory_clash [] m name address = None"
| "directory_clash (k # ks) m name address =
     (case fmlookup m k of
        None \<Rightarrow> directory_clash ks m name address
      | Some uw \<Rightarrow>
          (if uw_Name uw = name then Some ''name taken''
           else if uw_Address uw = address then Some ''address registered''
           else directory_clash ks m name address))"

definition RegisterUniversalWallet ::
  "(string \<Rightarrow> string) \<Rightarrow> (string \<Rightarrow> string) \<Rightarrow> env \<Rightarrow> string list \<Rightarrow> string \<Rightarrow> string \<Rightarrow> string \<Rightarrow> string \<Rightarrow>
   Blockchain \<Rightarrow> Blockchain \<times> UniversalWallet go" where
  "RegisterUniversalWallet ulower utrim E ks name0 address label currency bc =
     (let name = ToLower ulower (TrimSpace utrim name0) in
      if name = [] \<or> address = [] then (bc, Err ''name and address required'')
      else if map_len (bc_UniversalWallets bc) > 1024 then (bc, Err ''directory full'')
      else case directory_clash ks (bc_UniversalWallets bc) name address of
        Some e \<Rightarrow> (bc, Err e)
      | None \<Rightarrow>
          (let entry = \<lparr>uw_Name = name, uw_Address = address, uw_Label = label, uw_Currency = currency\<rparr>;
               bc = bc\<lparr>bc_UniversalWallets := fmupd name entry (bc_UniversalWallets bc)\<rparr>
           in (appendAuditEntry E ''universal_wallet_registered'' address (''name='' @ name) bc, Ok entry)))"

definition LookupWallet ::
  "(string \<Rightarrow> string) \<Rightarrow> (string \<Rightarrow> string) \<Rightarrow> string \<Rightarrow> Blockchain \<Rightarrow> UniversalWallet go" where
  "LookupWallet ulower utrim name0 bc =
     (let name = ToLower ulower (TrimSpace utrim name0) in
      case fmlookup (bc_UniversalWallets bc) name of
        None \<Rightarrow> Err ''wallet not found''
      | Some uw \<Rightarrow> Ok uw)"

definition Stake :: "env \<Rightarrow> string \<Rightarrow> u64 \<Rightarrow> Blockchain \<Rightarrow> Blockchain" where
  "Stake E address amount bc =
     (case fmlookup (bc_Ledger bc) address of
        None \<Rightarrow> bc
      | Some account \<Rightarrow>
          (if acct_Balance account < amount then bc
           else appendAuditEntry E ''stake'' address (''amount='' @ FormatUint amount)
             (bc\<lparr>bc_Ledger := add_stake address amount (debit address amount (bc_Ledger bc))\<rparr>)))"

definition slash_penalty :: "u64 \<Rightarrow> u64" where
  "slash_penalty amount = (let penalty = amount * SlashPercent div 100 in if penalty = 0 then 1 else penalty)"

definition slashLocked :: "env \<Rightarrow> string \<Rightarrow> u64 \<Rightarrow> Blockchain \<Rightarrow> Blockchain" where
  "slashLocked E address amount bc =
     (case fmlookup (bc_Ledger bc) address of
        None \<Rightarrow> bc
      | Some account \<Rightarrow>
          (if acct_Staked account < amount then bc
           else let penalty = slash_penalty amount in
             appendAuditEntry E ''slash'' address
               (''amount='' @ FormatUint amount @ '' penalty='' @ FormatUint penalty)
               (bc\<lparr>bc_Ledger := debit address penalty (sub_stake address amount (bc_Ledger bc))\<rparr>)))"

definition Slash :: "env \<Rightarrow> string \<Rightarrow> u64 \<Rightarrow> Blockchain \<Rightarrow> Blockchain" where
  "Slash E address amount bc = slashLocked E address amount bc"

text \<open>The rewards of the stakers, in the order \<open>ks\<close> in which the ledger is visited.\<close>

definition stake_reward :: "Account \<Rightarrow> u64" where
  "stake_reward account = acct_Staked account * RewardRatePercent div 100"

fun rewards_loop :: "string list \<Rightarrow> Blockchain \<Rightarrow> Blockchain" where
  "rewards_loop [] bc = bc"
| "rewards_loop (k # ks) bc =
     (case fmlookup (bc_Ledger bc) k of
        None \<Rightarrow> rewards_loop ks bc
      | Some account \<Rightarrow>
          (if 0 < acct_Staked account then
             let reward = stake_reward account in
             rewards_loop ks (bc\<lparr>bc_Ledger := credit k reward (bc_Ledger bc),
                                 bc_TokenSupply := bc_TokenSupply bc + reward\<rparr>)
           else rewards_loop ks bc))"

definition DistributeRewards :: "string list \<Rightarrow> Blockchain \<Rightarrow> Blockchain" where
  "DistributeRewards ks bc = rewards_loop ks bc"

definition Burn :: "u64 \<Rightarrow> Blockchain \<Rightarrow> Blockchain" where
  "Burn amount bc =
     (let amount = (if bc_TokenSupply bc < amount then bc_TokenSupply bc else amount)
      in bc\<lparr>bc_TokenSupply := bc_TokenSupply bc - amount\<rparr>)"

definition treasuryBuybackLocked :: "env \<Rightarrow> Blockchain \<Rightarrow> Blockchain" where
  "treasuryBuybackLocked E bc =
     (if bc_TokenSupply bc \<le> 0 then bc
      else case fmlookup (bc_Ledger bc) CommunityFundAddress of
        None \<Rightarrow> bc
      | Some cfAcct \<Rightarrow>
          (if acct_Balance cfAcct = 0 then bc
           else let burn = acct_Balance cfAcct div 10;
                    burn = (if bc_TokenSupply bc div 100 < burn then bc_TokenSupply bc div 100 else burn)
             in if 0 < burn then
                  appendAuditEntry E ''treasury_buyback'' CommunityFundAddress (''amount='' @ FormatUint burn)
                    (bc\<lparr>bc_Ledger := debit CommunityFundAddress burn (bc_Ledger bc),
                        bc_TokenSupply := bc_TokenSupply bc - burn\<rparr>)
                else bc))"

definition AddAuthority :: "string \<Rightarrow> Blockchain \<Rightarrow> Blockchain" where
  "AddAuthority address bc = bc\<lparr>bc_Authorities := bc_Authorities bc @ [address]\<rparr>"

definition new_validator :: "env \<Rightarrow> string \<Rightarrow> u64 \<Rightarrow> string \<Rightarrow> Validator" where
  "new_validator E address stake pubKey =
     \<lparr>val_PublicKey = pubKey, val_Address = address, val_Stake = stake, val_Active = True,
      val_JoinedAt = env_now E, val_Performance = 100, val_PublicKeyVersion = 0,
      val_KeyRotatedAt = env_now E, val_NextRotationAt = env_now E + 30 * 24 * 60 * 60\<rparr>"

text \<open>The order \<open>ks\<close> of the loop over \<open>Validators\<close> (with the new one) becomes the engine's order.\<close>

definition RegisterValidator ::
  "env \<Rightarrow> string list \<Rightarrow> string \<Rightarrow> u64 \<Rightarrow> string \<Rightarrow> Blockchain \<Rightarrow> Blockchain \<times> unit go" where
  "RegisterValidator E ks address stake pubKey bc =
     (case fmlookup (bc_Ledger bc) address of
        None \<Rightarrow> (bc, Err ''insufficient funds or stake below minimum'')
      | Some account \<Rightarrow>
          (if acct_Balance account < stake \<or> stake < MinStake
           then (bc, Err ''insufficient funds or stake below minimum'')
           else let bc = bc\<lparr>bc_Ledger := add_stake address stake (debit address stake (bc_Ledger bc)),
                      bc_Validators := fmupd address (new_validator E address stake pubKey) (bc_Validators bc)\<rparr>;
                    bc = appendAuditEntry E ''validator_registered'' address (''stake='' @ FormatUint stake) bc
             in (bc\<lparr>bc_tendermintEngine := map_option (UpdateValidatorSet ks) (bc_tendermintEngine bc)\<rparr>, Ok ())))"

definition seedDemoState :: "env \<Rightarrow> Blockchain \<Rightarrow> Blockchain" where
  "seedDemoState E bc =
     (let bc = AddAccount E ''human1'' 1000000 False bc;
          bc = AddAccount E ''agentA'' 100000 True bc;
          bc = AddAccount E ''agentB'' 50000 True bc;
          bc = Stake E ''agentA'' 10000 bc
      in AddAuthority ''agentA'' bc)"

definition NewBlockchain :: "crypto \<Rightarrow> env \<Rightarrow> ConsensusType \<Rightarrow> Disk \<Rightarrow> string \<Rightarrow> Blockchain" where
  "NewBlockchain C E consensus disk chainID =
     (let bc = createGenesisBlock C E (empty_Blockchain consensus chainID disk) in
      case LoadFromDisk C E bc of
        (bc, Ok _) \<Rightarrow> bc
      | (bc, _) \<Rightarrow> fst (SaveToDisk E (seedDemoState E bc)))"

section \<open>Staking and slashing\<close>

lemma appendAuditEntry_frame [simp]:
  "bc_Ledger (appendAuditEntry E e a d bc) = bc_Ledger bc"
  "bc_TokenSupply (appendAuditEntry E e a d bc) = bc_TokenSupply bc"
  "bc_Chain (appendAuditEntry E e a d bc) = bc_Chain bc"
  "bc_Pending (appendAuditEntry E e a d bc) = bc_Pending bc"
  "bc_Registry (appendAuditEntry E e a d bc) = bc_Registry bc"
  "bc_Validators (appendAuditEntry E e a d bc) = bc_Validators bc"
  "bc_Authorities (appendAuditEntry E e a d bc) = bc_Authorities bc"
  "bc_UsedNonces (appendAuditEntry E e a d bc) = bc_UsedNonces bc"
  "bc_NextNonce (appendAuditEntry E e a d bc) = bc_NextNonce bc"
  "bc_UniversalWallets (appendAuditEntry E e a d bc) = bc_UniversalWallets bc"
  "bc_PendingReversals (appendAuditEntry E e a d bc) = bc_PendingReversals bc"
  "bc_IrreversibleTxs (appendAuditEntry E e a d bc) = bc_IrreversibleTxs bc"
  "bc_Escrows (appendAuditEntry E e a d bc) = bc_Escrows bc"
  "bc_Proposals (appendAuditEntry E e a d bc) = bc_Proposals bc"
  "bc_Agreements (appendAuditEntry E e a d bc) = bc_Agreements bc"
  "bc_UsageMeters (appendAuditEntry E e a d bc) = bc_UsageMeters bc"
  "bc_FinalizedBlocks (appendAuditEntry E e a d bc) = bc_FinalizedBlocks bc"
  "bc_FinalityVotes (appendAuditEntry E e a d bc) = bc_FinalityVotes bc"
  "bc_LastFinalized (appendAuditEntry E e a d bc) = bc_LastFinalized bc"
  "bc_AgentTxCount (appendAuditEntry E e a d bc) = bc_AgentTxCount bc"
  "bc_ChainID (appendAuditEntry E e a d bc) = bc_ChainID bc"
  "bc_Consensus (appendAuditEntry E e a d bc) = bc_Consensus bc"
  "bc_SeenTxIDs (appendAuditEntry E e a d bc) = bc_SeenTxIDs bc"
  "bc_Difficulty (appendAuditEntry E e a d bc) = bc_Difficulty bc"
  "bc_MinerStats (appendAuditEntry E e a d bc) = bc_MinerStats bc"
  "bc_metrics (appendAuditEntry E e a d bc) = bc_metrics bc"
  "bc_tendermintEngine (appendAuditEntry E e a d bc) = bc_tendermintEngine bc"
  "bc_MintPaused (appendAuditEntry E e a d bc) = bc_MintPaused bc"
  "bc_MintPauseUntil (appendAuditEntry E e a d bc) = bc_MintPauseUntil bc"
  by (simp_all add: appendAuditEntry_def)

text \<open>What an account owns, liquid and staked.\<close>

definition total_wealth :: "(string, Account) fmap \<Rightarrow> nat" where
  "total_wealth L = total_balance L + total_staked L"

lemma lock_stake_wealth:
  assumes "fmlookup L a = Some ac" "v \<le> acct_Balance ac" "total_wealth L < 2 ^ 64"
  shows "total_wealth (add_stake a v (debit a v L)) = total_wealth L"
proof -
  have d: "total_balance (debit a v L) + unat v = total_balance L"
    using assms by (intro ledger.total_debit_exact) (auto simp: balance_of_def)
  have "fmlookup (debit a v L) a = Some (ac\<lparr>acct_Balance := acct_Balance ac - v\<rparr>)"
    using assms(1) by (simp add: debit_def modify_account_lookup)
  then have "total_staked (add_stake a v (debit a v L)) = total_staked L + unat v"
    using d assms(3) by (subst total_staked_add) (auto simp: total_wealth_def)
  with d show ?thesis by (simp add: total_wealth_def)
qed

text \<open>Staking conserves wealth: \<open>Stake\<close> and \<open>RegisterValidator\<close> move the amount from the balance
  to the stake of one account and neither create nor destroy anything, whether they succeed or
  are refused.\<close>

theorem staking_conserves_wealth:
  assumes "total_wealth (bc_Ledger bc) < 2 ^ 64"
  shows "total_wealth (bc_Ledger (Stake E a v bc)) = total_wealth (bc_Ledger bc) \<and>
    total_wealth (bc_Ledger (fst (RegisterValidator E ks a v pk bc))) = total_wealth (bc_Ledger bc) \<and>
    bc_TokenSupply (fst (RegisterValidator E ks a v pk bc)) = bc_TokenSupply bc"
  using lock_stake_wealth [OF _ _ assms]
  by (auto simp: Stake_def RegisterValidator_def Let_def not_less split: option.splits)

definition demo_account :: "string \<Rightarrow> u64 \<Rightarrow> u64 \<Rightarrow> Account" where
  "demo_account a b s = \<lparr>acct_Address = a, acct_Balance = b, acct_Staked = s, acct_IsAgent = False\<rparr>"

definition demo_node :: Blockchain where
  "demo_node = demo_chain\<lparr>bc_Ledger := fmupd ''a'' (demo_account ''a'' 1000 0)
     (fmupd ''v'' (demo_account ''v'' 3 500) fmempty)\<rparr>"

lemma demo_node_ledger:
  "bc_Ledger demo_node = fmupd ''a'' (demo_account ''a'' 1000 0) (fmupd ''v'' (demo_account ''v'' 3 500) fmempty)"
  by (simp add: demo_node_def)

lemma demo_node_wealth:
  "total_balance (bc_Ledger demo_node) = 1003" "total_staked (bc_Ledger demo_node) = 500"
  by (simp_all add: demo_node_ledger total_balance_def total_staked_def fmsum_fmupd_new demo_account_def)

theorem staking_conserves_wealth_witness:
  "total_wealth (bc_Ledger (Stake demo_env ''a'' 500 demo_node)) = 1503"
  using staking_conserves_wealth [of demo_node demo_env "''a''" 500]
  by (simp add: demo_node_wealth total_wealth_def)

text \<open>What slashing does to an account with enough stake: the stake falls by the whole amount,
  and the balance, not the stake, pays the penalty of a tenth on top. When the balance is
  smaller than the penalty it is not checked, and the balance wraps around to almost
  \<open>2\<^sup>6\<^sup>4\<close>.\<close>

theorem slash_effect:
  assumes "fmlookup (bc_Ledger bc) a = Some ac" and "amount \<le> acct_Staked ac"
  shows "\<exists>ac'. fmlookup (bc_Ledger (Slash E a amount bc)) a = Some ac' \<and>
    unat (acct_Staked ac') = unat (acct_Staked ac) - unat amount \<and>
    unat (acct_Balance ac') =
      (if slash_penalty amount \<le> acct_Balance ac then unat (acct_Balance ac) - unat (slash_penalty amount)
       else 2 ^ 64 + unat (acct_Balance ac) - unat (slash_penalty amount))"
proof -
  have "unat (x - p) = 2 ^ 64 + unat x - unat p" if "\<not> p \<le> x" for x p :: u64
    using that by (auto simp: unat_sub_if' word_le_nat_alt)
  with assms show ?thesis
    by (auto simp: Slash_def slashLocked_def Let_def account_ops modify_account_lookup unat_sub_no_wrap not_less)
qed

theorem slash_effect_witness:
  "\<exists>ac'. fmlookup (bc_Ledger (Slash demo_env ''v'' 100 demo_node)) ''v'' = Some ac' \<and>
     unat (acct_Staked ac') = 400 \<and> unat (acct_Balance ac') = 18446744073709551609"
  using slash_effect [of demo_node "''v''" "demo_account ''v'' 3 500" 100 demo_env]
  by (auto simp: slash_penalty_def SlashPercent_def demo_node_ledger demo_account_def)

section \<open>Rewards, burning and buyback\<close>

text \<open>The closed form of the loop over the stakers, whatever order it takes.\<close>

lemma rewards_loop_ledger:
  "distinct ks \<Longrightarrow> fmlookup (bc_Ledger (rewards_loop ks bc)) a =
     (if a \<in> set ks then map_option (\<lambda>ac. ac\<lparr>acct_Balance := acct_Balance ac + stake_reward ac\<rparr>)
        (fmlookup (bc_Ledger bc) a) else fmlookup (bc_Ledger bc) a)"
proof (induction ks arbitrary: bc)
  case (Cons k ks)
  have "stake_reward ac = 0" if "\<not> 0 < acct_Staked ac" for ac
    using that by (simp add: stake_reward_def u64_neq_zero)
  with Cons show ?case
    by (auto simp: Let_def credit_def modify_account_lookup split: option.splits)
qed simp

lemma rewards_loop_supply:
  "distinct ks \<Longrightarrow> bc_TokenSupply (rewards_loop ks bc) = bc_TokenSupply bc +
     (\<Sum>k\<leftarrow>ks. case fmlookup (bc_Ledger bc) k of None \<Rightarrow> 0 | Some ac \<Rightarrow> stake_reward ac)"
proof (induction ks arbitrary: bc)
  case (Cons k ks)
  have zero: "stake_reward ac = 0" if "\<not> 0 < acct_Staked ac" for ac
    using that by (simp add: stake_reward_def u64_neq_zero)
  have "(\<Sum>k'\<leftarrow>ks. case fmlookup (credit k r L) k' of None \<Rightarrow> 0 | Some ac \<Rightarrow> stake_reward ac) =
      (\<Sum>k'\<leftarrow>ks. case fmlookup L k' of None \<Rightarrow> 0 | Some ac \<Rightarrow> stake_reward ac)" for r L
    using Cons.prems by (intro arg_cong [where f = sum_list] map_cong)
      (auto simp: credit_def modify_account_lookup split: option.splits)
  with Cons zero show ?case
    by (auto simp: Let_def split: option.splits)
qed simp

text \<open>Distributing rewards gives every account four percent of its stake, and the supply grows by
  exactly the sum of the rewards paid, whatever the order in which the accounts are visited.\<close>

theorem DistributeRewards_effect:
  assumes "range_order ks (bc_Ledger bc)"
  shows "bc_Ledger (DistributeRewards ks bc) =
      fmmap (\<lambda>ac. ac\<lparr>acct_Balance := acct_Balance ac + stake_reward ac\<rparr>) (bc_Ledger bc) \<and>
    bc_TokenSupply (DistributeRewards ks bc) = bc_TokenSupply bc +
      (\<Sum>k \<in> fset (fmdom (bc_Ledger bc)). stake_reward (the (fmlookup (bc_Ledger bc) k)))"
proof -
  have ks: "distinct ks" "set ks = fset (fmdom (bc_Ledger bc))"
    using assms by (auto simp: range_order_def)
  have "bc_Ledger (rewards_loop ks bc) =
      fmmap (\<lambda>ac. ac\<lparr>acct_Balance := acct_Balance ac + stake_reward ac\<rparr>) (bc_Ledger bc)"
    by (intro fmap_ext) (auto simp: rewards_loop_ledger ks fmlookup_dom_iff)
  moreover have "(\<Sum>k\<leftarrow>ks. case fmlookup (bc_Ledger bc) k of None \<Rightarrow> 0 | Some ac \<Rightarrow> stake_reward ac) =
      (\<Sum>k \<in> fset (fmdom (bc_Ledger bc)). stake_reward (the (fmlookup (bc_Ledger bc) k)))"
    unfolding ks(2) [symmetric] sum_list_distinct_conv_sum_set [OF ks(1)]
    by (rule sum.cong) (auto simp: ks(2) fmlookup_dom_iff)
  ultimately show ?thesis
    by (simp add: DistributeRewards_def rewards_loop_supply ks(1))
qed

theorem DistributeRewards_effect_witness:
  "bc_Ledger (DistributeRewards [''v'', ''a''] demo_node) =
      fmmap (\<lambda>ac. ac\<lparr>acct_Balance := acct_Balance ac + stake_reward ac\<rparr>) (bc_Ledger demo_node)"
  using DistributeRewards_effect [of "[''v'', ''a'']" demo_node]
  by (auto simp: range_order_def demo_node_ledger)

text \<open>The treasury buyback burns at most a tenth of the community fund and at most one percent of
  the supply, takes the same amount from both without wrapping around, and touches no other
  account.\<close>

theorem buyback_bounded:
  "\<exists>burn. bc_TokenSupply (treasuryBuybackLocked E bc) = bc_TokenSupply bc - burn \<and>
     bc_Ledger (treasuryBuybackLocked E bc) = debit CommunityFundAddress burn (bc_Ledger bc) \<and>
     100 * unat burn \<le> unat (bc_TokenSupply bc) \<and>
     (case fmlookup (bc_Ledger bc) CommunityFundAddress of
        None \<Rightarrow> burn = 0 | Some ac \<Rightarrow> 10 * unat burn \<le> unat (acct_Balance ac))"
proof -
  let ?s = "bc_TokenSupply bc"
  define burn where "burn = (case fmlookup (bc_Ledger bc) CommunityFundAddress of None \<Rightarrow> 0
     | Some ac \<Rightarrow> if ?s div 100 < acct_Balance ac div 10 then ?s div 100 else acct_Balance ac div 10)"
  have same: "debit CommunityFundAddress 0 (bc_Ledger bc) = bc_Ledger bc"
    by (intro fmap_ext) (auto simp: debit_def modify_account_lookup option.map_ident)
  have le: "100 * m \<le> k \<longleftrightarrow> m \<le> k div 100" "10 * m \<le> k \<longleftrightarrow> m \<le> k div 10" for m k :: nat
    by (simp_all add: less_eq_div_iff_mult_less_eq mult.commute)
  have "100 * unat burn \<le> unat ?s" "case fmlookup (bc_Ledger bc) CommunityFundAddress of
        None \<Rightarrow> burn = 0 | Some ac \<Rightarrow> 10 * unat burn \<le> unat (acct_Balance ac)"
    unfolding le burn_def
    by (auto simp: unat_div_u64 word_less_nat_alt split: option.splits)
  moreover have "bc_TokenSupply (treasuryBuybackLocked E bc) = ?s - burn"
    "bc_Ledger (treasuryBuybackLocked E bc) = debit CommunityFundAddress burn (bc_Ledger bc)"
    by (auto simp: treasuryBuybackLocked_def burn_def Let_def same u64_neq_zero split: option.splits)
  ultimately show ?thesis by blast
qed

lemma Burn_supply: "unat (bc_TokenSupply (Burn v bc)) = unat (bc_TokenSupply bc) - unat v"
  by (auto simp: Burn_def Let_def unat_sub_no_wrap not_less) (simp add: word_less_nat_alt)

section \<open>The directory of names\<close>

definition directory_ok :: "(string, UniversalWallet) fmap \<Rightarrow> bool" where
  "directory_ok m \<longleftrightarrow>
     (\<forall>k uw. fmlookup m k = Some uw \<longrightarrow> uw_Name uw = k \<and> k \<noteq> [] \<and> uw_Address uw \<noteq> []) \<and>
     (\<forall>k k' uw uw'. fmlookup m k = Some uw \<longrightarrow> fmlookup m k' = Some uw' \<longrightarrow>
        uw_Address uw = uw_Address uw' \<longrightarrow> k = k') \<and>
     map_len m \<le> 1025"

lemma directory_clash_None:
  "directory_clash ks m name address = None \<longleftrightarrow>
     (\<forall>k \<in> set ks. \<forall>uw. fmlookup m k = Some uw \<longrightarrow> uw_Name uw \<noteq> name \<and> uw_Address uw \<noteq> address)"
  by (induction ks) (auto split: option.splits)

text \<open>Names and addresses of registered wallets stay unique, whatever the order in which the
  directory is searched: registering keeps every entry under its own name and no two entries with one
  address, never replaces an entry, and after a success looking up the name, however it is
  spelled in case and surrounding space, finds the new entry.\<close>

theorem RegisterUniversalWallet_unique:
  assumes "directory_ok (bc_UniversalWallets bc)" and "range_order ks (bc_UniversalWallets bc)"
  shows "case RegisterUniversalWallet ul ut E ks name addr label cur bc of (bc', r) \<Rightarrow>
     directory_ok (bc_UniversalWallets bc') \<and>
     (\<forall>k uw. fmlookup (bc_UniversalWallets bc) k = Some uw \<longrightarrow> fmlookup (bc_UniversalWallets bc') k = Some uw) \<and>
     (\<forall>entry. r = Ok entry \<longrightarrow> uw_Address entry = addr \<and>
        (\<forall>name'. ToLower ul (TrimSpace ut name') = ToLower ul (TrimSpace ut name) \<longrightarrow>
           LookupWallet ul ut name' bc' = Ok entry))"
proof -
  let ?m = "bc_UniversalWallets bc" and ?n = "ToLower ul (TrimSpace ut name)"
  have "k \<in> set ks" if "fmlookup ?m k = Some uw" for k uw
    using range_order_has_key [OF assms(2)] that by (simp add: has_key_def)
  then have clash: "directory_clash ks ?m ?n addr = None \<Longrightarrow> fmlookup ?m k = Some uw \<Longrightarrow>
      k \<noteq> ?n \<and> uw_Address uw \<noteq> addr" for k uw
    using assms(1) by (auto simp: directory_clash_None directory_ok_def)
  show ?thesis
    using assms(1) clash
    by (auto simp: RegisterUniversalWallet_def Let_def directory_ok_def LookupWallet_def has_key_def
        split: option.splits)
qed

theorem RegisterUniversalWallet_unique_witness:
  "case RegisterUniversalWallet id id demo_env [] '' Bob'' ''addr'' ''l'' ''TENDER'' demo_node of (bc', r) \<Rightarrow>
     \<exists>entry. r = Ok entry \<and> LookupWallet id id ''BOB '' bc' = Ok entry"
proof -
  let ?r = "RegisterUniversalWallet id id demo_env [] '' Bob'' ''addr'' ''l'' ''TENDER'' demo_node"
  have "directory_ok (bc_UniversalWallets demo_node)" "range_order [] (bc_UniversalWallets demo_node)"
    by (simp_all add: directory_ok_def range_order_def demo_node_def demo_chain_def createGenesisBlock_def
        empty_Blockchain_def Let_def)
  moreover have "ToLower id (TrimSpace id ''BOB '') = ToLower id (TrimSpace id '' Bob'')"
    by (simp add: ToLower_def TrimSpace_def is_ascii_def trim_ascii_def is_space_def lower_char_def
        char_of_def bit_0)
  moreover have "\<exists>entry. snd ?r = Ok entry"
    by (simp add: RegisterUniversalWallet_def Let_def demo_node_def demo_chain_def createGenesisBlock_def
        empty_Blockchain_def ToLower_def TrimSpace_def is_ascii_def trim_ascii_def is_space_def)
  ultimately show ?thesis
    using RegisterUniversalWallet_unique [where bc = demo_node and ks = "[]" and ul = id and ut = id and
        E = demo_env and name = "'' Bob''" and addr = "''addr''" and label = "''l''" and cur = "''TENDER''"]
    by (auto split: prod.splits)
qed

end
