(* ===== verification/Mempool.thy ===== *)
theory Mempool
  imports Ledger
begin

text \<open>
  The mempool and the protection against replay of \<open>blockchain.go\<close>: \<open>SubmitTransaction\<close>,
  \<open>EnqueueTransaction\<close>, \<open>isReplay\<close>, \<open>markTransactionSeen\<close>, \<open>markTransactionUsed\<close>. The interface \<open>replay_guard\<close>
  is what a record of processed items promises.
\<close>

section \<open>Operations\<close>

definition isReplay :: "Transaction \<Rightarrow> Blockchain \<Rightarrow> bool" where
  "isReplay tx bc =
     (if tx_Nonce tx = 0 then False
      else if (case fmlookup (bc_UsedNonces bc) (tx_From tx) of None \<Rightarrow> False | Some used \<Rightarrow> tx_Nonce tx |\<in>| used)
      then True
      else if tx_Nonce tx < map_get 0 (bc_NextNonce bc) (tx_From tx) then True
      else False)"

definition markTransactionSeen :: "Transaction \<Rightarrow> Blockchain \<Rightarrow> Blockchain" where
  "markTransactionSeen tx bc =
     (if tx_ID tx \<noteq> [] then bc\<lparr>bc_SeenTxIDs := finsert (tx_ID tx) (bc_SeenTxIDs bc)\<rparr> else bc)"

definition markTransactionUsed :: "Transaction \<Rightarrow> Blockchain \<Rightarrow> Blockchain" where
  "markTransactionUsed tx bc =
     (if 0 < tx_Nonce tx then
        let used = map_get {||} (bc_UsedNonces bc) (tx_From tx);
            bc = bc\<lparr>bc_UsedNonces := fmupd (tx_From tx) (finsert (tx_Nonce tx) used) (bc_UsedNonces bc)\<rparr>
        in (if map_get 0 (bc_NextNonce bc) (tx_From tx) \<le> tx_Nonce tx
            then bc\<lparr>bc_NextNonce := fmupd (tx_From tx) (tx_Nonce tx + 1) (bc_NextNonce bc)\<rparr>
            else bc)
      else bc)"

definition SubmitTransaction :: "env \<Rightarrow> Transaction \<Rightarrow> Blockchain \<Rightarrow> Blockchain" where
  "SubmitTransaction E tx bc =
     (let next = map_get 0 (bc_NextNonce bc) (tx_From tx) in
      if tx_Nonce tx < next then
        appendAuditEntry E ''transaction_rejected'' (tx_From tx) (''tx_id='' @ tx_ID tx @ '' nonce='' @
          FormatUint (tx_Nonce tx) @ '' expected='' @ FormatUint next) bc
      else
        appendAuditEntry E ''transaction_submitted'' (tx_From tx) (''tx_id='' @ tx_ID tx @ '' nonce='' @
          FormatUint (tx_Nonce tx)) (bc\<lparr>bc_Pending := bc_Pending bc @ [tx]\<rparr>))"

definition same_tx :: "Transaction \<Rightarrow> Transaction \<Rightarrow> bool" where
  "same_tx pending tx \<longleftrightarrow> tx_ID pending = tx_ID tx \<and> tx_Nonce pending = tx_Nonce tx \<and> tx_From pending = tx_From tx"

text \<open>The two loops over the mempool: the first entry for the same transaction, and the index of the
  first entry with the lowest fee (\<open>low\<close> and \<open>fee\<close> are the index found so far and its fee).\<close>

fun find_same :: "nat \<Rightarrow> Transaction list \<Rightarrow> Transaction \<Rightarrow> (nat \<times> Transaction) option" where
  "find_same i [] tx = None"
| "find_same i (p # ps) tx = (if same_tx p tx then Some (i, p) else find_same (Suc i) ps tx)"

fun lowest_loop :: "nat \<Rightarrow> Transaction list \<Rightarrow> nat \<Rightarrow> u64 \<Rightarrow> nat" where
  "lowest_loop i [] low fee = low"
| "lowest_loop i (p # ps) low fee =
     (if tx_Fee p < fee then lowest_loop (Suc i) ps i (tx_Fee p) else lowest_loop (Suc i) ps low fee)"

definition lowestFeeIdx :: "Transaction list \<Rightarrow> nat" where
  "lowestFeeIdx ps = (case ps of [] \<Rightarrow> 0 | p # _ \<Rightarrow> lowest_loop 0 ps 0 (tx_Fee p))"

definition prepare_tx :: "env \<Rightarrow> Transaction \<Rightarrow> Blockchain \<Rightarrow> Transaction" where
  "prepare_tx E tx bc =
     (let tx = (if tx_ID tx = [] then tx\<lparr>tx_ID := ''tx-'' @ FormatInt (env_nano E)\<rparr> else tx)
      in if tx_Nonce tx = 0 then tx\<lparr>tx_Nonce := map_get 0 (bc_NextNonce bc) (tx_From tx)\<rparr> else tx)"

definition EnqueueTransaction :: "env \<Rightarrow> Transaction \<Rightarrow> Blockchain \<Rightarrow> Blockchain" where
  "EnqueueTransaction E tx0 bc =
     (let tx = prepare_tx E tx0 bc;
          accept = (\<lambda>bc. appendAuditEntry E ''transaction_queued'' (tx_From tx)
            (''tx_id='' @ tx_ID tx @ '' fee='' @ FormatUint (tx_Fee tx)) (markTransactionSeen tx bc))
      in case find_same 0 (bc_Pending bc) tx of
        Some (i, pending) \<Rightarrow>
          (if tx_Fee pending < tx_Fee tx then
             appendAuditEntry E ''transaction_replaced'' (tx_From tx) (''tx_id='' @ tx_ID tx)
               (bc\<lparr>bc_Pending := (bc_Pending bc)[i := tx]\<rparr>)
           else bc)
      | None \<Rightarrow>
          (if isReplay tx bc then
             appendAuditEntry E ''transaction_rejected'' (tx_From tx)
               (''tx_id='' @ tx_ID tx @ '' nonce='' @ FormatUint (tx_Nonce tx)) bc
           else if 5000 \<le> length (bc_Pending bc) then
             (let low = lowestFeeIdx (bc_Pending bc) in
              if tx_Fee tx \<le> tx_Fee (bc_Pending bc ! low) then bc
              else accept (bc\<lparr>bc_Pending := (bc_Pending bc)[low := tx]\<rparr>))
           else accept (bc\<lparr>bc_Pending := bc_Pending bc @ [tx]\<rparr>)))"

section \<open>Replay protection\<close>

text \<open>The items that a guarded processor accepts from a sequence: it refuses what is on record, and
  records what it accepts.\<close>

fun accepted :: "('s \<Rightarrow> 'k \<Rightarrow> bool) \<Rightarrow> ('k \<Rightarrow> 's \<Rightarrow> 's) \<Rightarrow> 'k list \<Rightarrow> 's \<Rightarrow> 'k list" where
  "accepted seen mark [] s = []"
| "accepted seen mark (k # ks) s =
     (if seen s k then accepted seen mark ks s else k # accepted seen mark ks (mark k s))"

locale replay_guard =
  fixes seen :: "'s \<Rightarrow> 'k \<Rightarrow> bool" and mark :: "'k \<Rightarrow> 's \<Rightarrow> 's"
  assumes mark_seen: "seen (mark k s) k"
    and mark_mono: "seen s k \<Longrightarrow> seen (mark k' s) k"
begin

lemma accepted_unseen: "k \<in> set (accepted seen mark ks s) \<Longrightarrow> \<not> seen s k"
  by (induction ks arbitrary: s) (auto split: if_splits dest: mark_mono)

lemma accepted_once: "distinct (accepted seen mark ks s)"
  by (induction ks arbitrary: s) (auto dest: accepted_unseen simp: mark_seen)

lemma marked_stays: "seen s k \<Longrightarrow> seen (fold mark ks s) k"
  by (induction ks arbitrary: s) (auto intro: mark_mono)

lemma marked_all: "k \<in> set ks \<Longrightarrow> seen (fold mark ks s) k"
  by (induction ks arbitrary: s) (auto intro: marked_stays mark_seen)

end

text \<open>A transaction is recorded when its nonce is among the used ones of its sender; nonce zero is
  exempt from the record.\<close>

definition nonce_used :: "Blockchain \<Rightarrow> Transaction \<Rightarrow> bool" where
  "nonce_used bc tx \<longleftrightarrow> tx_Nonce tx = 0 \<or> tx_Nonce tx |\<in>| map_get {||} (bc_UsedNonces bc) (tx_From tx)"

lemma nonce_used_isReplay: "nonce_used bc tx \<Longrightarrow> 0 < tx_Nonce tx \<Longrightarrow> isReplay tx bc"
  by (auto simp: nonce_used_def isReplay_def map_get_def split: option.splits)

lemma markTransactionUsed_used:
  "bc_UsedNonces (markTransactionUsed tx bc) =
     (if 0 < tx_Nonce tx then fmupd (tx_From tx) (finsert (tx_Nonce tx) (map_get {||} (bc_UsedNonces bc) (tx_From tx)))
        (bc_UsedNonces bc) else bc_UsedNonces bc)"
  by (simp add: markTransactionUsed_def Let_def)

interpretation nonces: replay_guard nonce_used markTransactionUsed
  by unfold_locales (auto simp: nonce_used_def markTransactionUsed_used u64_neq_zero)

text \<open>A nonce is used once: once transactions have been recorded as used, every transaction of the
  same sender with one of their positive nonces is a replay, whatever else it holds and however
  many transactions were recorded in between.\<close>

theorem used_nonce_is_replay:
  assumes "tx \<in> set txs" and "tx_From tx' = tx_From tx" "tx_Nonce tx' = tx_Nonce tx" "0 < tx_Nonce tx"
  shows "isReplay tx' (fold markTransactionUsed txs bc)"
proof -
  have "nonce_used (fold markTransactionUsed txs bc) tx"
    by (rule nonces.marked_all [OF assms(1)])
  then show ?thesis
    using assms(2-4) by (intro nonce_used_isReplay) (auto simp: nonce_used_def)
qed

theorem used_nonce_is_replay_witness:
  "isReplay (demo_tx\<lparr>tx_Amount := 99\<rparr>) (fold markTransactionUsed [demo_tx, demo_tx\<lparr>tx_Nonce := 7\<rparr>] demo_node)"
  by (rule used_nonce_is_replay [of demo_tx]) (simp_all add: demo_tx_def)

text \<open>The invariant of the nonce tables: the next nonce of a sender follows the largest used one, and
  is zero or one while none is used. The largest 64-bit value, whose successor is zero, is
  excluded.\<close>

definition used_max :: "Blockchain \<Rightarrow> string \<Rightarrow> u64" where
  "used_max bc from = maxNonce (map_get {||} (bc_UsedNonces bc) from)"

definition nonces_inv :: "Blockchain \<Rightarrow> bool" where
  "nonces_inv bc \<longleftrightarrow> (\<forall>from. used_max bc from < - 1 \<and>
     (if 0 < used_max bc from then fmlookup (bc_NextNonce bc) from = Some (used_max bc from + 1)
      else map_get 0 (bc_NextNonce bc) from \<le> 1))"

lemma nonces_inv_ok: "nonces_inv bc \<Longrightarrow> nonces_ok bc"
  unfolding nonces_inv_def nonces_ok_def used_max_def by (metis map_get_Some)

lemma maxNonce_finsert: "maxNonce (finsert n s) = max n (maxNonce s)"
proof -
  have "Max (insert 0 (insert n (fset s))) = max n (Max (insert 0 (fset s)))"
    by (subst insert_commute, subst Max_insert) auto
  then show ?thesis by (simp add: maxNonce_def)
qed

lemma used_max_mark:
  "used_max (markTransactionUsed tx bc) from =
     (if 0 < tx_Nonce tx \<and> from = tx_From tx then max (tx_Nonce tx) (used_max bc from) else used_max bc from)"
  by (auto simp: used_max_def markTransactionUsed_used maxNonce_finsert)

lemma next_mark:
  "bc_NextNonce (markTransactionUsed tx bc) =
     (if 0 < tx_Nonce tx \<and> map_get 0 (bc_NextNonce bc) (tx_From tx) \<le> tx_Nonce tx
      then fmupd (tx_From tx) (tx_Nonce tx + 1) (bc_NextNonce bc) else bc_NextNonce bc)"
  by (simp add: markTransactionUsed_def Let_def)

lemma u64_succ_le:
  assumes "(n :: u64) < - 1"
  shows "n + 1 \<le> m \<longleftrightarrow> n < m"
proof -
  have "unat n < unat (- 1 :: u64)" using assms by (simp add: word_less_nat_alt)
  moreover have "unat (- 1 :: u64) = 18446744073709551615" by (simp add: unsigned_minus_1_eq_mask mask_eq_exp_minus_1)
  ultimately have "unat (n + 1) = unat n + 1"
    using unat_add_no_wrap [of n 1] by simp
  then show ?thesis by (simp add: word_le_nat_alt word_less_nat_alt Suc_le_eq)
qed

lemma markTransactionUsed_nonces_inv:
  assumes inv: "nonces_inv bc" and n: "tx_Nonce tx < - 1"
  shows "nonces_inv (markTransactionUsed tx bc)"
  unfolding nonces_inv_def
proof
  fix a
  let ?m = "used_max bc a" and ?n = "tx_Nonce tx"
  have old: "?m < - 1" "if 0 < ?m then fmlookup (bc_NextNonce bc) a = Some (?m + 1)
      else map_get 0 (bc_NextNonce bc) a \<le> 1"
    using inv unfolding nonces_inv_def by blast+
  show "used_max (markTransactionUsed tx bc) a < - 1 \<and>
     (if 0 < used_max (markTransactionUsed tx bc) a
      then fmlookup (bc_NextNonce (markTransactionUsed tx bc)) a = Some (used_max (markTransactionUsed tx bc) a + 1)
      else map_get 0 (bc_NextNonce (markTransactionUsed tx bc)) a \<le> 1)"
  proof (cases "0 < ?n \<and> a = tx_From tx")
    case True
    show ?thesis
    proof (cases "0 < ?m")
      case True
      with old have "fmlookup (bc_NextNonce bc) a = Some (?m + 1)" by simp
      with \<open>0 < ?n \<and> a = tx_From tx\<close> True old(1) n show ?thesis
        by (auto simp: used_max_mark next_mark map_get_Some u64_succ_le max_def)
    next
      case False
      then have "?m = 0" by (simp add: u64_neq_zero)
      moreover have "map_get 0 (bc_NextNonce bc) a \<le> ?n"
        using False old(2) \<open>0 < ?n \<and> a = tx_From tx\<close> by (auto simp: word_le_nat_alt word_less_nat_alt)
      ultimately show ?thesis
        using \<open>0 < ?n \<and> a = tx_From tx\<close> n by (simp add: used_max_mark next_mark)
    qed
  next
    case False
    then show ?thesis using old by (auto simp: used_max_mark next_mark)
  qed
qed

section \<open>The mempool\<close>

text \<open>A well-formed mempool is within its capacity and holds a transaction (identifier, sender and
  nonce) at most once.\<close>

definition tx_key :: "Transaction \<Rightarrow> string \<times> string \<times> u64" where
  "tx_key tx = (tx_ID tx, tx_From tx, tx_Nonce tx)"

definition mempool_ok :: "Transaction list \<Rightarrow> bool" where
  "mempool_ok ps \<longleftrightarrow> length ps \<le> 5000 \<and> distinct (map tx_key ps)"

lemma same_tx_key: "same_tx p tx \<longleftrightarrow> tx_key p = tx_key tx"
  by (auto simp: same_tx_def tx_key_def)

lemma find_same_Some:
  "find_same i ps tx = Some (j, p) \<Longrightarrow> i \<le> j \<and> j < i + length ps \<and> ps ! (j - i) = p \<and> same_tx p tx"
proof (induction ps arbitrary: i)
  case (Cons q ps)
  show ?case
  proof (cases "same_tx q tx")
    case False
    with Cons.IH [of "Suc i"] Cons.prems have "Suc i \<le> j \<and> j < Suc i + length ps \<and> ps ! (j - Suc i) = p \<and> same_tx p tx" by simp
    moreover from this have "(q # ps) ! (j - i) = ps ! (j - Suc i)"
      by (simp add: nth_Cons' diff_Suc_eq_diff_pred [symmetric])
    ultimately show ?thesis by auto
  qed (use Cons.prems in auto)
qed simp

lemma find_same_None: "find_same i ps tx = None \<Longrightarrow> tx_key tx \<notin> tx_key ` set ps"
  by (induction ps arbitrary: i) (auto simp: same_tx_key split: if_splits)

lemma lowest_loop_spec:
  assumes "low < length qs" "tx_Fee (qs ! low) = fee" "\<forall>q \<in> set qs. fee \<le> tx_Fee q"
  shows "lowest_loop (length qs) ps low fee < length (qs @ ps) \<and>
    (\<forall>q \<in> set (qs @ ps). tx_Fee ((qs @ ps) ! lowest_loop (length qs) ps low fee) \<le> tx_Fee q)"
  using assms
proof (induction ps arbitrary: qs low fee)
  case Nil
  then show ?case by simp
next
  case (Cons p ps)
  define low' fee' where "low' = (if tx_Fee p < fee then length qs else low)"
    and "fee' = (if tx_Fee p < fee then tx_Fee p else fee)"
  have "low' < length (qs @ [p])" "tx_Fee ((qs @ [p]) ! low') = fee'" "\<forall>q \<in> set (qs @ [p]). fee' \<le> tx_Fee q"
    using Cons.prems by (auto simp: low'_def fee'_def nth_append)
  from Cons.IH [OF this] show ?case
    by (auto simp: low'_def fee'_def split: if_splits)
qed

lemma lowestFeeIdx_spec:
  assumes "ps \<noteq> []"
  shows "lowestFeeIdx ps < length ps" and "p \<in> set ps \<Longrightarrow> tx_Fee (ps ! lowestFeeIdx ps) \<le> tx_Fee p"
proof -
  obtain q qs where ps: "ps = q # qs" using assms by (cases ps) auto
  have "lowestFeeIdx ps = lowest_loop 1 qs 0 (tx_Fee q)"
    by (simp add: lowestFeeIdx_def ps)
  then show "lowestFeeIdx ps < length ps" "p \<in> set ps \<Longrightarrow> tx_Fee (ps ! lowestFeeIdx ps) \<le> tx_Fee p"
    using lowest_loop_spec [of 0 "[q]" "tx_Fee q" qs] by (auto simp: ps)
qed

lemma distinct_key_update:
  assumes "distinct (map tx_key ps)" "i < length ps" "tx_key tx = tx_key (ps ! i) \<or> tx_key tx \<notin> tx_key ` set ps"
  shows "distinct (map tx_key (ps[i := tx]))"
proof (cases "tx_key tx = tx_key (ps ! i)")
  case True
  then have "map tx_key (ps[i := tx]) = map tx_key ps"
    using assms(2) by (metis list_update_id map_update nth_map)
  with assms(1) show ?thesis by simp
next
  case False
  with assms show ?thesis
    by (auto simp: map_update intro: distinct_list_update)
qed

text \<open>What happens to the mempool, on every branch.\<close>

lemma EnqueueTransaction_pending:
  obtains (kept) "bc_Pending (EnqueueTransaction E tx bc) = bc_Pending bc"
    | (replaced) i where "i < length (bc_Pending bc)" "same_tx (bc_Pending bc ! i) (prepare_tx E tx bc)"
        "tx_Fee (bc_Pending bc ! i) < tx_Fee (prepare_tx E tx bc)"
        "bc_Pending (EnqueueTransaction E tx bc) = (bc_Pending bc)[i := prepare_tx E tx bc]"
    | (evicted) i where "i < length (bc_Pending bc)" "5000 \<le> length (bc_Pending bc)"
        "tx_key (prepare_tx E tx bc) \<notin> tx_key ` set (bc_Pending bc)"
        "tx_Fee (bc_Pending bc ! i) < tx_Fee (prepare_tx E tx bc)"
        "\<forall>p \<in> set (bc_Pending bc). tx_Fee (bc_Pending bc ! i) \<le> tx_Fee p"
        "bc_Pending (EnqueueTransaction E tx bc) = (bc_Pending bc)[i := prepare_tx E tx bc]"
    | (added) "length (bc_Pending bc) < 5000" "tx_key (prepare_tx E tx bc) \<notin> tx_key ` set (bc_Pending bc)"
        "\<not> isReplay (prepare_tx E tx bc) bc"
        "bc_Pending (EnqueueTransaction E tx bc) = bc_Pending bc @ [prepare_tx E tx bc]"
proof -
  have seen: "bc_Pending (markTransactionSeen t b) = bc_Pending b" for t b
    by (simp add: markTransactionSeen_def)
  let ?tx = "prepare_tx E tx bc" and ?ps = "bc_Pending bc"
  show ?thesis
  proof (cases "find_same 0 ?ps ?tx")
    case (Some ip)
    then obtain i p where ip: "find_same 0 ?ps ?tx = Some (i, p)" by (cases ip) auto
    note f = find_same_Some [OF ip]
    show ?thesis
    proof (cases "tx_Fee p < tx_Fee ?tx")
      case True
      then show ?thesis using ip f by (intro replaced [of i]) (auto simp: EnqueueTransaction_def Let_def)
    next
      case False
      then show ?thesis using ip by (intro kept) (auto simp: EnqueueTransaction_def Let_def)
    qed
  next
    case None
    note key = find_same_None [OF None]
    let ?low = "lowestFeeIdx ?ps"
    consider (r) "isReplay ?tx bc" | (a) "\<not> isReplay ?tx bc" "length ?ps < 5000"
      | (k) "\<not> isReplay ?tx bc" "5000 \<le> length ?ps" "tx_Fee ?tx \<le> tx_Fee (?ps ! ?low)"
      | (e) "\<not> isReplay ?tx bc" "5000 \<le> length ?ps" "tx_Fee (?ps ! ?low) < tx_Fee ?tx"
      by (meson not_less)
    then show ?thesis
    proof cases
      case e
      then have "?ps \<noteq> []" by auto
      with e None key lowestFeeIdx_spec [OF this] show ?thesis
        by (intro evicted [of ?low]) (auto simp: EnqueueTransaction_def Let_def seen)
    next
      case a
      with None key show ?thesis by (intro added) (auto simp: EnqueueTransaction_def Let_def seen)
    qed (use None in \<open>(intro kept, simp add: EnqueueTransaction_def Let_def)+\<close>)
  qed
qed

definition enqueue_at :: "env \<times> Transaction \<Rightarrow> Blockchain \<Rightarrow> Blockchain" where
  "enqueue_at Et bc = EnqueueTransaction (fst Et) (snd Et) bc"

interpretation mempool: machine enqueue_at "\<lambda>bc. mempool_ok (bc_Pending bc)"
proof unfold_locales
  fix bc :: Blockchain and Et
  assume ok: "mempool_ok (bc_Pending bc)"
  have "mempool_ok (bc_Pending (EnqueueTransaction (fst Et) (snd Et) bc))"
  proof (cases rule: EnqueueTransaction_pending [where E = "fst Et" and tx = "snd Et" and bc = bc])
    case kept
    with ok show ?thesis by simp
  next
    case (replaced i)
    with ok show ?thesis by (auto simp: mempool_ok_def same_tx_key intro!: distinct_key_update)
  next
    case (evicted i)
    with ok show ?thesis by (auto simp: mempool_ok_def intro!: distinct_key_update)
  next
    case added
    with ok show ?thesis by (auto simp: mempool_ok_def)
  qed
  then show "mempool_ok (bc_Pending (enqueue_at Et bc))" by (simp add: enqueue_at_def)
qed

text \<open>C11. The mempool never outgrows its capacity of 5000 and never holds one transaction (identifier,
  sender, nonce) twice, after any sequence of \<open>EnqueueTransaction\<close> calls at any times.\<close>

theorem mempool_invariant:
  assumes "mempool_ok (bc_Pending bc)"
  shows "mempool_ok (bc_Pending (fold enqueue_at calls bc))"
  using assms by (rule mempool.run_inv)

theorem mempool_invariant_witness:
  "mempool_ok (bc_Pending (fold enqueue_at [(demo_env, demo_tx), (demo_env, demo_tx)] (demo_node\<lparr>bc_Pending := []\<rparr>)))"
  by (rule mempool_invariant) (simp add: mempool_ok_def)

text \<open>The mempool is a fee market: a transaction enters a full mempool only in the place of one
  with a lower fee, which is an older version of the same transaction or one of the cheapest
  entries; otherwise a full mempool is left as it is.\<close>

theorem mempool_fee_market:
  assumes "5000 \<le> length (bc_Pending bc)"
  shows "bc_Pending (EnqueueTransaction E tx bc) = bc_Pending bc \<or>
    (\<exists>i < length (bc_Pending bc).
       bc_Pending (EnqueueTransaction E tx bc) = (bc_Pending bc)[i := prepare_tx E tx bc] \<and>
       tx_Fee (bc_Pending bc ! i) < tx_Fee (prepare_tx E tx bc) \<and>
       (same_tx (bc_Pending bc ! i) (prepare_tx E tx bc) \<or>
        (\<forall>p \<in> set (bc_Pending bc). tx_Fee (bc_Pending bc ! i) \<le> tx_Fee p)))"
  using assms
  by (cases rule: EnqueueTransaction_pending [where E = E and tx = tx and bc = bc]) auto

theorem mempool_fee_market_witness:
  "length (replicate 5000 demo_tx) = 5000 \<and>
   (bc_Pending (EnqueueTransaction demo_env (demo_tx\<lparr>tx_Fee := 9\<rparr>) (demo_node\<lparr>bc_Pending := replicate 5000 demo_tx\<rparr>)) =
      replicate 5000 demo_tx \<or>
    (\<exists>i < 5000. bc_Pending (EnqueueTransaction demo_env (demo_tx\<lparr>tx_Fee := 9\<rparr>)
       (demo_node\<lparr>bc_Pending := replicate 5000 demo_tx\<rparr>)) = (replicate 5000 demo_tx)[i := demo_tx\<lparr>tx_Fee := 9\<rparr>]))"
proof -
  have "prepare_tx demo_env (demo_tx\<lparr>tx_Fee := 9\<rparr>) (demo_node\<lparr>bc_Pending := replicate 5000 demo_tx\<rparr>) = demo_tx\<lparr>tx_Fee := 9\<rparr>"
    by (simp add: prepare_tx_def demo_tx_def)
  then show ?thesis
    using mempool_fee_market [of "demo_node\<lparr>bc_Pending := replicate 5000 demo_tx\<rparr>" demo_env "demo_tx\<lparr>tx_Fee := 9\<rparr>"]
    by auto
qed

text \<open>Queueing a transaction with nonce zero for a sender that has used nonces replaces the nonce,
  and with it the bytes that the sender signed: the queued transaction no longer has the payload
  of its signature.\<close>

theorem enqueue_changes_signed_payload:
  assumes "signable tx" and "tx_Nonce tx = 0" and "map_get 0 (bc_NextNonce bc) (tx_From tx) \<noteq> 0"
  shows "CanonicalSigningBytes (prepare_tx E tx bc) \<noteq> CanonicalSigningBytes tx"
proof
  let ?tx = "prepare_tx E tx bc"
  assume "CanonicalSigningBytes ?tx = CanonicalSigningBytes tx"
  moreover have "signable ?tx"
    using assms(1) by (simp add: signable_def prepare_tx_def Let_def)
  ultimately have "tx = ?tx\<lparr>tx_ID := tx_ID tx, tx_Signature := tx_Signature tx\<rparr>"
    using assms(1) by (intro signing_payload_inj)
  then have "tx_Nonce tx = tx_Nonce ?tx" by (metis Transaction.select_convs(7) Transaction.surjective
        Transaction.update_convs(1) Transaction.update_convs(10))
  with assms(2,3) show False by (auto simp: prepare_tx_def Let_def split: if_splits)
qed

theorem enqueue_changes_signed_payload_witness:
  "CanonicalSigningBytes (prepare_tx demo_env (demo_tx\<lparr>tx_Nonce := 0\<rparr>) (demo_node\<lparr>bc_NextNonce := fmupd ''f'' 4 fmempty\<rparr>)) \<noteq>
   CanonicalSigningBytes (demo_tx\<lparr>tx_Nonce := 0\<rparr>)"
  by (rule enqueue_changes_signed_payload)
    (simp_all add: signable_def no_zero_def zero_byte_def demo_tx_def)

end
