(* ===== verification/Reversal.thy ===== *)
theory Reversal
  imports Mempool
begin

text \<open>
  Reversals of transfers (\<open>blockchain.go\<close>): a sender requests the reversal of a transaction of the
  chain, its recipient confirms it, and a commit moves the amount back. A pending reversal is a
  state machine per original transaction; \<open>ProcessReversals\<close> drives it with the transactions of
  a block.
\<close>

section \<open>Operations\<close>

text \<open>The first transaction of the chain with the identifier.\<close>

definition findOriginalTransaction :: "string \<Rightarrow> Blockchain \<Rightarrow> Transaction option" where
  "findOriginalTransaction txID bc = find (\<lambda>tx. tx_ID tx = txID) (concat (map blk_Transactions (bc_Chain bc)))"

definition validateRequestReversal :: "Blockchain \<Rightarrow> Transaction \<Rightarrow> bool" where
  "validateRequestReversal bc tx =
     (if tx_Amount tx = 0 \<or> tx_Payload tx = [] then False
      else if tx_Payload tx |\<in>| bc_IrreversibleTxs bc then False
      else case findOriginalTransaction (tx_Payload tx) bc of
        None \<Rightarrow> False
      | Some original \<Rightarrow>
          (if tx_From original \<noteq> tx_From tx \<or> tx_To original \<noteq> tx_To tx \<or> tx_Amount original \<noteq> tx_Amount tx
           then False
           else if tx_TxType original \<noteq> Transfer then False
           else case fmlookup (bc_Ledger bc) (tx_To tx) of
             None \<Rightarrow> False
           | Some receiver \<Rightarrow>
               (if acct_Balance receiver < tx_Amount tx then False
                else if has_key (bc_PendingReversals bc) (tx_Payload tx) then False
                else True)))"

definition validateConfirmReversal :: "Blockchain \<Rightarrow> Transaction \<Rightarrow> bool" where
  "validateConfirmReversal bc tx =
     (if tx_Payload tx = [] then False
      else case fmlookup (bc_PendingReversals bc) (tx_Payload tx) of
        None \<Rightarrow> False
      | Some reversal \<Rightarrow>
          (if rev_Status reversal \<noteq> ''requested'' then False
           else if rev_To reversal \<noteq> tx_From tx then False
           else True))"

definition validateCommitReversal :: "Blockchain \<Rightarrow> Transaction \<Rightarrow> bool" where
  "validateCommitReversal bc tx =
     (if tx_Payload tx = [] then False
      else case fmlookup (bc_PendingReversals bc) (tx_Payload tx) of
        None \<Rightarrow> False
      | Some reversal \<Rightarrow>
          (if rev_Status reversal \<noteq> ''confirmed'' then False
           else if rev_From reversal \<noteq> tx_From tx \<and> rev_To reversal \<noteq> tx_From tx then False
           else True))"

text \<open>The body of the loop of \<open>ProcessReversals\<close>.\<close>

definition process_reversal :: "env \<Rightarrow> Transaction \<Rightarrow> Blockchain \<Rightarrow> Blockchain" where
  "process_reversal E tx bc =
     (if tx_TxType tx = RequestReversal then
        (if \<not> has_key (bc_PendingReversals bc) (tx_Payload tx) then
           appendAuditEntry E ''reversal_requested'' (tx_From tx)
             (''original_tx='' @ tx_Payload tx @ '' amount='' @ FormatUint (tx_Amount tx))
             (bc\<lparr>bc_PendingReversals := fmupd (tx_Payload tx)
               \<lparr>rev_ID = tx_ID tx, rev_OriginalTxID = tx_Payload tx, rev_From = tx_From tx, rev_To = tx_To tx,
                rev_Amount = tx_Amount tx, rev_Requester = tx_From tx, rev_Confirmer = [],
                rev_Status = ''requested'', rev_Irreversible = False\<rparr> (bc_PendingReversals bc)\<rparr>)
         else bc)
      else if tx_TxType tx = ConfirmReversal then
        (case fmlookup (bc_PendingReversals bc) (tx_Payload tx) of
           None \<Rightarrow> bc
         | Some reversal \<Rightarrow>
             (if rev_Status reversal = ''requested'' then
                appendAuditEntry E ''reversal_confirmed'' (tx_From tx) (''original_tx='' @ tx_Payload tx)
                  (bc\<lparr>bc_PendingReversals := fmupd (tx_Payload tx)
                    (reversal\<lparr>rev_Status := ''confirmed'', rev_Confirmer := tx_From tx\<rparr>) (bc_PendingReversals bc)\<rparr>)
              else bc))
      else if tx_TxType tx = CommitReversal then
        (case fmlookup (bc_PendingReversals bc) (tx_Payload tx) of
           None \<Rightarrow> bc
         | Some reversal \<Rightarrow>
             (if rev_Status reversal = ''confirmed'' then
                (case (fmlookup (bc_Ledger bc) (rev_From reversal), fmlookup (bc_Ledger bc) (rev_To reversal)) of
                   (Some sender, Some receiver) \<Rightarrow>
                     (if rev_Amount reversal \<le> acct_Balance receiver then
                        appendAuditEntry E ''reversal_committed'' (tx_From tx)
                          (''original_tx='' @ tx_Payload tx @ '' amount='' @ FormatUint (rev_Amount reversal))
                          (bc\<lparr>bc_Ledger := credit (rev_From reversal) (rev_Amount reversal)
                                (debit (rev_To reversal) (rev_Amount reversal) (bc_Ledger bc)),
                              bc_PendingReversals := fmdrop (tx_Payload tx) (bc_PendingReversals bc)\<rparr>)
                      else bc)
                 | _ \<Rightarrow> bc)
              else bc))
      else bc)"

definition ProcessReversals :: "env \<Rightarrow> Block \<Rightarrow> Blockchain \<Rightarrow> Blockchain" where
  "ProcessReversals E block bc = fold (process_reversal E) (blk_Transactions block) bc"

definition MarkIrreversible :: "string \<Rightarrow> Blockchain \<Rightarrow> Blockchain" where
  "MarkIrreversible txID bc = bc\<lparr>bc_IrreversibleTxs := finsert txID (bc_IrreversibleTxs bc)\<rparr>"

section \<open>The life of a reversal\<close>

text \<open>A pending reversal is requested or confirmed, is filed under its original transaction, and is
  requested by the sender.\<close>

definition reversals_ok :: "Blockchain \<Rightarrow> bool" where
  "reversals_ok bc \<longleftrightarrow> (\<forall>k r. fmlookup (bc_PendingReversals bc) k = Some r \<longrightarrow>
     rev_OriginalTxID r = k \<and> rev_Requester r = rev_From r \<and>
     (rev_Status r = ''requested'' \<and> rev_Confirmer r = [] \<or> rev_Status r = ''confirmed''))"

text \<open>The phase of the reversal of \<open>k\<close>: none, requested, confirmed. A commit ends it.\<close>

definition reversal_phase :: "string \<Rightarrow> Blockchain \<Rightarrow> nat" where
  "reversal_phase k bc =
     (case fmlookup (bc_PendingReversals bc) k of
        None \<Rightarrow> 0
      | Some r \<Rightarrow> if rev_Status r = ''confirmed'' then 2 else 1)"

definition reversal_guards :: "string \<Rightarrow> (Transaction \<Rightarrow> bool) list" where
  "reversal_guards k =
     [\<lambda>tx. tx_TxType tx = RequestReversal \<and> tx_Payload tx = k,
      \<lambda>tx. tx_TxType tx = ConfirmReversal \<and> tx_Payload tx = k]"

lemma process_reversal_ok: "reversals_ok bc \<Longrightarrow> reversals_ok (process_reversal E tx bc)"
  unfolding reversals_ok_def process_reversal_def
  by (auto split: option.splits)

lemma process_reversal_phase:
  assumes "reversals_ok bc"
  shows "reversal_phase k (process_reversal E tx bc) = reversal_phase k bc \<or>
    reversal_phase k (process_reversal E tx bc) = 0 \<or>
    (reversal_phase k bc < length (reversal_guards k) \<and>
     reversal_phase k (process_reversal E tx bc) = Suc (reversal_phase k bc) \<and>
     (reversal_guards k ! reversal_phase k bc) tx)"
  by (auto simp: process_reversal_def reversal_phase_def reversal_guards_def has_key_def split: option.splits)

text \<open>The transactions of blocks, each with the environment in which its block is processed, as the events of a machine with phases.\<close>

definition reversal_step :: "env \<times> Transaction \<Rightarrow> Blockchain \<Rightarrow> Blockchain" where
  "reversal_step ev bc = process_reversal (fst ev) (snd ev) bc"

interpretation reversal: phased reversal_step reversals_ok "reversal_phase k" "map (\<lambda>P ev. P (snd ev)) (reversal_guards k)"
  for k
proof
  fix ev bc assume "reversals_ok bc"
  then show "reversals_ok (reversal_step ev bc)" by (simp add: reversal_step_def process_reversal_ok)
next
  fix bc ev assume "reversals_ok bc"
  from process_reversal_phase [OF this, of k "fst ev" "snd ev"]
  show "reversal_phase k (reversal_step ev bc) = reversal_phase k bc \<or> reversal_phase k (reversal_step ev bc) = 0 \<or>
      (reversal_phase k bc < length (map (\<lambda>P ev. P (snd ev)) (reversal_guards k)) \<and> reversal_phase k (reversal_step ev bc) = Suc (reversal_phase k bc) \<and>
       (map (\<lambda>P ev. P (snd ev)) (reversal_guards k) ! reversal_phase k bc) ev)"
    by (auto simp: reversal_step_def)
qed

text \<open>The reversals of a sequence of blocks, each processed in its environment.\<close>

definition process_blocks :: "(env \<times> Block) list \<Rightarrow> Blockchain \<Rightarrow> Blockchain" where
  "process_blocks ebs bc = fold (\<lambda>(E, b). ProcessReversals E b) ebs bc"

lemma process_blocks_steps:
  "process_blocks ebs bc = fold reversal_step (concat (map (\<lambda>(E, b). map (Pair E) (blk_Transactions b)) ebs)) bc"
proof -
  have "reversal_step (E, tx) = process_reversal E tx" for E tx by (rule ext) (simp add: reversal_step_def)
  then have "ProcessReversals E b bc = fold reversal_step (map (Pair E) (blk_Transactions b)) bc" for E b bc
    by (simp add: ProcessReversals_def fold_map comp_def)
  then show ?thesis by (induction ebs arbitrary: bc) (auto simp: process_blocks_def)
qed

text \<open>C29. A confirmed reversal was requested: when the transactions of any number of blocks bring the reversal of a
  transaction from absent to confirmed, they hold a request for it and after it a confirmation for it, which may be in different blocks. At the start, every pending
  reversal is to be filed under its transaction and to be requested or confirmed (\<open>reversals_ok\<close>), as it is when there is none.\<close>

theorem confirmed_reversal_was_requested:
  assumes "reversals_ok bc" and "\<not> has_key (bc_PendingReversals bc) k"
    and "fmlookup (bc_PendingReversals (process_blocks ebs bc)) k = Some r" "rev_Status r = ''confirmed''"
  shows "\<exists>q c. subseq [q, c] (concat (map (\<lambda>(E, b). blk_Transactions b) ebs)) \<and>
    tx_TxType q = RequestReversal \<and> tx_Payload q = k \<and> tx_TxType c = ConfirmReversal \<and> tx_Payload c = k"
proof -
  let ?evs = "concat (map (\<lambda>(E, b). map (Pair E) (blk_Transactions b)) ebs)"
  have "reversal_phase k bc = 0"
    using assms(2) by (simp add: reversal_phase_def has_key_def)
  moreover have "reversal_phase k (fold reversal_step ?evs bc) = length (map (\<lambda>P ev. P (snd ev)) (reversal_guards k))"
    using assms(3,4) by (simp add: reversal_phase_def process_blocks_steps reversal_guards_def)
  ultimately obtain evs where evs: "subseq evs ?evs" "list_all2 (\<lambda>P e. P e) (map (\<lambda>P ev. P (snd ev)) (reversal_guards k)) evs"
    using reversal.phase_trace [OF assms(1), of k ?evs] by auto
  then obtain x y where xy: "evs = [x, y]" "tx_TxType (snd x) = RequestReversal" "tx_Payload (snd x) = k" "tx_TxType (snd y) = ConfirmReversal" "tx_Payload (snd y) = k"
    by (auto simp: reversal_guards_def list_all2_Cons1)
  have "map snd ?evs = concat (map (\<lambda>(E, b). blk_Transactions b) ebs)"
    by (induction ebs) (auto simp: comp_def)
  then have "subseq [snd x, snd y] (concat (map (\<lambda>(E, b). blk_Transactions b) ebs))"
    using subseq_map [OF evs(1), of snd] xy(1) by simp
  with xy show ?thesis by blast
qed

section \<open>Reversals and money\<close>

lemma process_reversal_total:
  assumes "total_balance (bc_Ledger bc) < 2 ^ 64"
  shows "total_balance (bc_Ledger (process_reversal E tx bc)) = total_balance (bc_Ledger bc)"
  using ledger.pay_total [OF _ _ _ assms]
  by (auto simp: process_reversal_def balance_of_def split: option.splits)

lemma process_reversals_total:
  "total_balance (bc_Ledger bc) < 2 ^ 64 \<Longrightarrow>
     total_balance (bc_Ledger (fold (process_reversal E) txs bc)) = total_balance (bc_Ledger bc)"
  by (induction txs arbitrary: bc) (auto simp: process_reversal_total)

lemma process_reversals_wrap:
  "total_balance (bc_Ledger (fold (process_reversal E) txs bc)) \<le> total_balance (bc_Ledger bc) \<and>
   total_balance (bc_Ledger (fold (process_reversal E) txs bc)) mod 2 ^ 64 = total_balance (bc_Ledger bc) mod 2 ^ 64"
proof (induction txs arbitrary: bc)
  case (Cons tx txs)
  have "total_balance (bc_Ledger (process_reversal E tx bc)) \<le> total_balance (bc_Ledger bc) \<and>
      total_balance (bc_Ledger (process_reversal E tx bc)) mod 2 ^ 64 = total_balance (bc_Ledger bc) mod 2 ^ 64"
    using ledger.pay_total_wrap [of "bc_Ledger bc"] by (auto simp: process_reversal_def balance_of_def split: option.splits)
  with Cons.IH [of "process_reversal E tx bc"] show ?case by simp
qed simp

text \<open>A commit is what moves money, and only for a confirmed reversal that the recipient can pay:
  then the amount goes from the recipient back to the sender as in the abstract transfer, and the
  entry is removed; every other step leaves all balances alone.\<close>

theorem reversal_moves_money:
  assumes "total_balance (bc_Ledger bc) < 2 ^ 64"
  shows "bc_Ledger (process_reversal E tx bc) = bc_Ledger bc \<or>
    (tx_TxType tx = CommitReversal \<and>
     (\<exists>r. fmlookup (bc_PendingReversals bc) (tx_Payload tx) = Some r \<and> rev_Status r = ''confirmed'' \<and>
        \<not> has_key (bc_PendingReversals (process_reversal E tx bc)) (tx_Payload tx) \<and>
        (\<lambda>a. map_option unat (balance_of (bc_Ledger (process_reversal E tx bc)) a)) =
          spec_transfer (rev_To r) (rev_From r) (unat (rev_Amount r))
            (\<lambda>a. map_option unat (balance_of (bc_Ledger bc) a))))"
proof (cases "bc_Ledger (process_reversal E tx bc) = bc_Ledger bc")
  case False
  then obtain r s t where r: "tx_TxType tx = CommitReversal" "fmlookup (bc_PendingReversals bc) (tx_Payload tx) = Some r"
      "rev_Status r = ''confirmed''" "fmlookup (bc_Ledger bc) (rev_From r) = Some s"
      "fmlookup (bc_Ledger bc) (rev_To r) = Some t" "rev_Amount r \<le> acct_Balance t"
    by (auto simp: process_reversal_def split: if_splits option.splits)
  then have "bc_Ledger (process_reversal E tx bc) = credit (rev_From r) (rev_Amount r) (debit (rev_To r) (rev_Amount r) (bc_Ledger bc))"
    "\<not> has_key (bc_PendingReversals (process_reversal E tx bc)) (tx_Payload tx)"
    by (simp_all add: process_reversal_def)
  moreover note ledger.pay_refines [of "bc_Ledger bc" "rev_To r" "acct_Balance t" "rev_From r" "acct_Balance s" "rev_Amount r"]
  ultimately show ?thesis
    using r assms by (auto simp: balance_of_def)
qed simp

section \<open>Examples and limits\<close>

definition rev_tx :: "string \<Rightarrow> string \<Rightarrow> string \<Rightarrow> Transaction" where
  "rev_tx kind fromAddr toAddr = demo_tx\<lparr>tx_TxType := kind, tx_From := fromAddr, tx_To := toAddr, tx_Payload := ''t1''\<rparr>"

definition rev_block :: "Transaction list \<Rightarrow> Block" where
  "rev_block txs = demo_block\<lparr>blk_Transactions := txs\<rparr>"

definition rev_node :: Blockchain where
  "rev_node = demo_node\<lparr>bc_PendingReversals := fmempty\<rparr>"

lemma rev_node_fields:
  "bc_PendingReversals rev_node = fmempty" "bc_Ledger rev_node = bc_Ledger demo_node"
  by (simp_all add: rev_node_def)

lemma rev_node_ok: "reversals_ok rev_node"
  by (simp add: reversals_ok_def rev_node_fields)

theorem confirmed_reversal_was_requested_witness:
  "\<exists>q c. subseq [q, c] [rev_tx RequestReversal ''v'' ''a'', rev_tx ConfirmReversal ''a'' ''v''] \<and>
    tx_TxType q = RequestReversal \<and> tx_Payload q = ''t1'' \<and> tx_TxType c = ConfirmReversal \<and> tx_Payload c = ''t1''"
  using confirmed_reversal_was_requested [OF rev_node_ok, where k = "''t1''" and
      ebs = "[(demo_env, rev_block [rev_tx RequestReversal ''v'' ''a'']), (demo_env, rev_block [rev_tx ConfirmReversal ''a'' ''v''])]"]
  by (simp add: rev_node_fields process_blocks_def ProcessReversals_def process_reversal_def rev_block_def rev_tx_def demo_block_def)

definition rev_confirmed :: Blockchain where
  "rev_confirmed = fold (process_reversal demo_env)
     [rev_tx RequestReversal ''v'' ''a'', rev_tx ConfirmReversal ''a'' ''v''] rev_node"

theorem reversal_moves_money_witness:
  "(\<lambda>x. map_option unat (balance_of (bc_Ledger (process_reversal demo_env (rev_tx CommitReversal ''a'' ''v'') rev_confirmed)) x)) =
     spec_transfer ''a'' ''v'' 5 (\<lambda>x. map_option unat (balance_of (bc_Ledger rev_confirmed) x))"
proof -
  have L: "bc_Ledger rev_confirmed = bc_Ledger demo_node"
    and r: "\<exists>r. fmlookup (bc_PendingReversals rev_confirmed) ''t1'' = Some r \<and> rev_To r = ''a'' \<and> rev_From r = ''v'' \<and> rev_Amount r = 5"
    by (simp_all add: rev_confirmed_def rev_node_fields process_reversal_def rev_tx_def demo_tx_def)
  have "fmlookup (bc_Ledger (process_reversal demo_env (rev_tx CommitReversal ''a'' ''v'') rev_confirmed)) ''a'' \<noteq>
      fmlookup (bc_Ledger rev_confirmed) ''a''"
    by (simp add: rev_confirmed_def rev_node_fields process_reversal_def rev_tx_def demo_tx_def demo_node_ledger
        account_ops modify_account_lookup demo_account_def)
  then have "bc_Ledger (process_reversal demo_env (rev_tx CommitReversal ''a'' ''v'') rev_confirmed) \<noteq> bc_Ledger rev_confirmed"
    by metis
  then show ?thesis
    using reversal_moves_money [of rev_confirmed demo_env "rev_tx CommitReversal ''a'' ''v''"] r L
    by (auto simp: demo_node_wealth rev_tx_def)
qed

text \<open>One transfer can be reversed again: the entry is gone after the commit, so a second
  request, confirmation and commit for the same transaction move the amount a second time.\<close>

theorem reversal_repeats:
  assumes "\<not> has_key (bc_PendingReversals bc) k"
    and "fmlookup (bc_Ledger bc) a = Some s" "fmlookup (bc_Ledger bc) b = Some t" "a \<noteq> b"
    and "2 * unat amt \<le> unat (acct_Balance t)"
    and "tx_TxType q = RequestReversal" "tx_Payload q = k" "tx_From q = a" "tx_To q = b" "tx_Amount q = amt"
    and "tx_TxType c = ConfirmReversal" "tx_Payload c = k" and "tx_TxType m = CommitReversal" "tx_Payload m = k"
  shows "balance_of (bc_Ledger (fold (process_reversal E) [q, c, m, q, c, m] bc)) b = Some (acct_Balance t - 2 * amt)"
proof -
  have le: "amt \<le> acct_Balance t" using assms(5) by (simp add: word_le_nat_alt)
  have "unat (acct_Balance t - amt) = unat (acct_Balance t) - unat amt" by (rule unat_sub_no_wrap [OF le])
  then have "amt \<le> acct_Balance t - amt" using assms(5) by (simp add: word_le_nat_alt)
  with le assms show ?thesis
    by (simp add: process_reversal_def account_ops modify_account_lookup balance_of_def has_key_def)
qed

theorem reversal_repeats_witness:
  "balance_of (bc_Ledger (fold (process_reversal demo_env)
     [rev_tx RequestReversal ''v'' ''a'', rev_tx ConfirmReversal ''a'' ''v'', rev_tx CommitReversal ''a'' ''v'',
      rev_tx RequestReversal ''v'' ''a'', rev_tx ConfirmReversal ''a'' ''v'', rev_tx CommitReversal ''a'' ''v''] rev_node)) ''a'' = Some 990"
  using reversal_repeats [of rev_node "''t1''" "''v''" "demo_account ''v'' 3 500" "''a''" "demo_account ''a'' 1000 0" 5
      "rev_tx RequestReversal ''v'' ''a''" "rev_tx ConfirmReversal ''a'' ''v''" "rev_tx CommitReversal ''a'' ''v''" demo_env]
  by (simp add: rev_node_fields demo_node_ledger demo_account_def rev_tx_def demo_tx_def)

end
