(* ===== verification/Go_Float.thy ===== *)
theory Go_Float
  imports Go_Prelude "HOL-Library.Log_Nat"
begin

text \<open>
  The \<open>float64\<close> arithmetic of the fee, threshold and reward computations. Their operands are
  non-negative and between \<open>2\<^sup>-\<^sup>6\<^sup>4\<close> and \<open>2\<^sup>1\<^sup>2\<^sup>8\<close> (or zero), inside the normal range of
  the format, so a value is the rational number it denotes, and each operation is the exact
  operation followed by \<open>fl\<close>: rounding to 53 significant bits, ties to even (IEEE 754, which the
  Go specification prescribes).
\<close>

section \<open>Definitions\<close>

text \<open>The position of the leading bit of a positive rational.\<close>

definition ilog2 :: "rat \<Rightarrow> int" where
  "ilog2 x =
     (let (p, q) = quotient_of x;
          e = int (floorlog 2 (nat p)) - int (floorlog 2 (nat q))
      in if 2 powi e \<le> x then e else e - 1)"

definition round_even :: "rat \<Rightarrow> int" where
  "round_even x =
     (let k = \<lfloor>x\<rfloor>; r = x - of_int k in
      if r < 1 / 2 then k
      else if 1 / 2 < r then k + 1
      else if even k then k else k + 1)"

definition fl :: "rat \<Rightarrow> rat" where
  "fl x = (if x \<le> 0 then 0 else
     let u = 2 powi (ilog2 x - 52) in of_int (round_even (x / u)) * u)"

text \<open>The conversions \<open>float64(n)\<close> and \<open>uint64(f)\<close>. The second truncates; when the result does not
  fit, its value depends on the implementation, so it is the argument \<open>oor\<close>.\<close>

definition float_of_u64 :: "u64 \<Rightarrow> rat" where
  "float_of_u64 n = fl (of_nat (unat n))"

definition u64_of_float :: "(rat \<Rightarrow> u64) \<Rightarrow> rat \<Rightarrow> u64" where
  "u64_of_float oor f = (if \<lfloor>f\<rfloor> < 2 ^ 64 then of_int \<lfloor>f\<rfloor> else oor f)"

section \<open>Rounding\<close>

lemma floorlog_powi:
  assumes "0 < p"
  shows "(2 :: rat) powi (int (floorlog 2 (nat p)) - 1) \<le> of_int p"
    and "of_int p < (2 :: rat) powi int (floorlog 2 (nat p))"
proof -
  let ?a = "floorlog 2 (nat p)"
  have b: "2 ^ (?a - 1) \<le> nat p" "nat p < 2 ^ ?a" and a: "0 < ?a"
    using Log_Nat.floorlog_bounds [of "nat p" 2] assms
    by (auto intro: gr0I simp: floorlog_eq_zero_iff)
  have p: "of_int p = (of_nat (nat p) :: rat)"
    using assms by simp
  have "(2 :: rat) ^ (?a - 1) \<le> of_nat (nat p)"
    using of_nat_mono [OF b(1), where 'a = rat] by simp
  moreover have "nat (int ?a - 1) = ?a - 1" "0 \<le> int ?a - 1"
    using a by auto
  ultimately show "(2 :: rat) powi (int ?a - 1) \<le> of_int p"
    unfolding p power_int_def by simp
  have "of_nat (nat p) < (2 :: rat) ^ ?a"
    using b(2) of_nat_less_iff [where 'a = rat, of "nat p" "2 ^ ?a"] by simp
  then show "of_int p < (2 :: rat) powi int ?a"
    unfolding p power_int_def by simp
qed

lemma ilog2_bounds:
  assumes "0 < x"
  shows "2 powi ilog2 x \<le> x" and "x < 2 powi (ilog2 x + 1)"
proof -
  obtain p q where pq: "quotient_of x = (p, q)" by force
  have q: "0 < q" and x: "x = of_int p / of_int q"
    using quotient_of_denom_pos [OF pq] quotient_of_div [OF pq] by auto
  then have p: "0 < p"
    using assms by (simp add: zero_less_divide_iff)
  define a b where "a = int (floorlog 2 (nat p))" and "b = int (floorlog 2 (nat q))"
  note P = floorlog_powi [OF p, folded a_def] and Q = floorlog_powi [OF q, folded b_def]
  have "x < 2 powi a / of_int q"
    using P(2) q x by (simp add: divide_strict_right_mono)
  also have "\<dots> \<le> 2 powi a / 2 powi (b - 1)"
    using Q(1) by (intro divide_left_mono) (auto simp: q)
  finally have hi: "x < 2 powi (a - b + 1)"
    by (simp add: power_int_diff power_int_add field_simps)
  have "(2 :: rat) powi (a - 1) / 2 powi b \<le> of_int p / 2 powi b"
    using P(1) by (simp add: divide_right_mono)
  also have "\<dots> \<le> x"
    unfolding x using Q(2) p q by (intro divide_left_mono) auto
  finally have lo: "2 powi (a - b - 1) \<le> x"
    by (simp add: power_int_diff power_int_add field_simps)
  show "2 powi ilog2 x \<le> x" "x < 2 powi (ilog2 x + 1)"
    using hi lo by (auto simp: ilog2_def pq Let_def a_def [symmetric] b_def [symmetric])
qed

lemma round_even_error: "\<bar>of_int (round_even x) - x\<bar> \<le> 1 / 2"
proof -
  have "of_int \<lfloor>x\<rfloor> \<le> x" "x < of_int \<lfloor>x\<rfloor> + 1"
    by (rule of_int_floor_le) (rule floor_correct [THEN conjunct2, simplified])
  then show ?thesis
    by (auto simp: round_even_def Let_def abs_le_iff)
qed

lemma round_even_of_int [simp]: "round_even (of_int n) = n"
  by (simp add: round_even_def)

lemma fl_zero [simp]: "fl 0 = 0"
  by (simp add: fl_def)

text \<open>Rounding errs by half a unit in the last place, and is exact on integers below \<open>2\<^sup>5\<^sup>3\<close>.\<close>

lemma fl_error:
  assumes "0 < x" "x < 2 powi n"
  shows "\<bar>fl x - x\<bar> \<le> 2 powi (n - 54)"
proof -
  define u :: rat where "u = 2 powi (ilog2 x - 52)"
  have u: "0 < u" by (simp add: u_def)
  have "2 powi ilog2 x < (2 :: rat) powi n"
    using ilog2_bounds(1) [OF assms(1)] assms(2) by simp
  then have "ilog2 x < n"
    by (meson not_less one_less_numeral_iff power_int_increasing semiring_norm(76) order_less_imp_le
        le_less_trans less_irrefl one_le_numeral)
  then have un: "u / 2 \<le> 2 powi (n - 54)"
    using power_int_increasing [of "ilog2 x - 53" "n - 54" "2 :: rat"]
    by (simp add: u_def power_int_diff field_simps)
  have "\<bar>fl x - x\<bar> = \<bar>of_int (round_even (x / u)) - x / u\<bar> * u"
  proof -
    have "(of_int (round_even (x / u)) - x / u) * u = fl x - x"
      using u assms(1) by (simp add: fl_def u_def [symmetric] Let_def left_diff_distrib)
    then show ?thesis using u by (metis abs_mult abs_of_pos)
  qed
  also have "\<dots> \<le> 1 / 2 * u"
    using round_even_error [of "x / u"] u by (intro mult_right_mono) auto
  finally show ?thesis using un by simp
qed

lemma fl_of_int:
  assumes "0 \<le> n" "n < 2 ^ 53"
  shows "fl (of_int n) = of_int n"
proof (cases "n = 0")
  case False
  with assms have n: "(0 :: rat) < of_int n" by simp
  have "(of_int n :: rat) < of_int (2 ^ 53)"
    using assms(2) unfolding of_int_less_iff .
  then have "(2 :: rat) powi ilog2 (of_int n) < 2 powi 53"
    using ilog2_bounds(1) [OF n] by simp
  then have "ilog2 (of_int n) \<le> 52"
    using power_int_increasing [of 53 "ilog2 (of_int n)" "2 :: rat"] by force
  then obtain k where k: "ilog2 (of_int n) - 52 = - int k"
    using nonpos_int_cases [of "ilog2 (of_int n) - 52"] by auto
  have "of_int n / 2 powi (- int k) = (of_int (n * 2 ^ k) :: rat)"
    by (simp add: power_int_minus field_simps)
  then show ?thesis
    using n by (simp add: fl_def k Let_def power_int_minus del: of_int_mult) simp
qed simp

lemma fl_of_nat: "n < 2 ^ 53 \<Longrightarrow> fl (of_nat n) = of_nat n"
  using fl_of_int [of "int n"] by simp

text \<open>The ceiling of a rounded quotient is the exact one, when the quotient is below \<open>2\<^sup>5\<^sup>1\<close> and
  its denominator is small.\<close>

lemma ceiling_fl_third:
  assumes "m < 2 ^ 51"
  shows "\<lceil>fl (of_nat m / 3)\<rceil> = int ((m + 2) div 3)"
proof (cases "m mod 3 = 0")
  case True
  then obtain k where k: "m = 3 * k" by auto
  with assms show ?thesis by (simp add: fl_of_nat)
next
  case False
  define k r where "k = m div 3" and "r = m mod 3"
  have m: "m = 3 * k + r" and r: "r = 1 \<or> r = 2"
    using False by (auto simp: k_def r_def)
  have x: "of_nat m / 3 = (of_nat k + of_nat r / 3 :: rat)"
    by (simp add: m field_simps)
  have "(of_nat m :: rat) < of_nat (2 ^ 51)"
    using assms unfolding of_nat_less_iff .
  then have "\<bar>fl (of_nat m / 3) - of_nat m / 3\<bar> \<le> (2 :: rat) powi (51 - 54)"
    using r m by (intro fl_error) (auto simp: power_int_def)
  then have "of_nat k < fl (of_nat m / 3)" "fl (of_nat m / 3) \<le> of_nat k + 1"
    using r unfolding x by (auto simp: power_int_def power3_eq_cube abs_if split: if_splits)
  then have "\<lceil>fl (of_nat m / 3)\<rceil> = int k + 1"
    by (simp add: ceiling_eq_iff)
  moreover have "(m + 2) div 3 = k + 1"
    using m r by auto
  ultimately show ?thesis by simp
qed

end
