(* ===== verification/Finality.thy ===== *)
theory Finality
  imports Ledger Go_Float
begin

text \<open>
  Finality of blocks and the validators' keys (\<open>blockchain.go\<close>): collecting votes, the threshold of two
  thirds, finalizing with the slashing of those who did not vote, signatures of votes, the
  rotation of keys, and pausing the minting.
\<close>

section \<open>Operations\<close>

definition FinalizeBlocksAt :: "u64 \<Rightarrow> Blockchain \<Rightarrow> Blockchain \<times> unit go" where
  "FinalizeBlocksAt index bc =
     (if of_nat (length (bc_Chain bc)) \<le> index then (bc, Err ''invalid block index'')
      else (bc\<lparr>bc_LastFinalized := index, bc_FinalizedBlocks := finsert index (bc_FinalizedBlocks bc)\<rparr>, Ok ()))"

definition IsFinalized :: "u64 \<Rightarrow> Blockchain \<Rightarrow> bool" where
  "IsFinalized index bc \<longleftrightarrow> index |\<in>| bc_FinalizedBlocks bc"

text \<open>The deadline is \<open>time.Now().Add(duration).Unix()\<close>: \<open>d\<close> is the duration in nanoseconds, and the
  clock is read with its nanoseconds.\<close>

definition PauseMinting :: "env \<Rightarrow> i64 \<Rightarrow> Blockchain \<Rightarrow> Blockchain" where
  "PauseMinting E d bc =
     (let til = word_of_int ((sint (env_nano E) + sint d) div 1000000000);
          bc = bc\<lparr>bc_MintPaused := True, bc_MintPauseUntil := til\<rparr>
      in appendAuditEntry E ''minting_paused'' ''system'' (''until='' @ FormatInt (bc_MintPauseUntil bc)) bc)"

definition ResumeMinting :: "env \<Rightarrow> Blockchain \<Rightarrow> Blockchain" where
  "ResumeMinting E bc =
     appendAuditEntry E ''minting_resumed'' ''system'' ''resumed'' (bc\<lparr>bc_MintPaused := False, bc_MintPauseUntil := 0\<rparr>)"

definition IsMintingPaused :: "env \<Rightarrow> Blockchain \<Rightarrow> Blockchain \<times> bool" where
  "IsMintingPaused E bc =
     (if \<not> bc_MintPaused bc then (bc, False)
      else if bc_MintPauseUntil bc = 0 \<or> bc_MintPauseUntil bc \<le>s env_now E
      then (bc\<lparr>bc_MintPaused := False, bc_MintPauseUntil := 0\<rparr>, False)
      else (bc, True))"

definition isAuthority :: "string \<Rightarrow> Blockchain \<Rightarrow> bool" where
  "isAuthority address bc \<longleftrightarrow> list_ex (\<lambda>a. a = address) (bc_Authorities bc)"

definition active_staked :: "Validator \<Rightarrow> bool" where
  "active_staked v \<longleftrightarrow> val_Active v \<and> 0 < val_Stake v"

definition activeValidatorCount :: "Blockchain \<Rightarrow> nat" where
  "activeValidatorCount bc =
     length (bc_Authorities bc) +
     map_len (fmfilter (\<lambda>a. case fmlookup (bc_Validators bc) a of None \<Rightarrow> False | Some v \<Rightarrow> active_staked v) (bc_Validators bc))"

definition vote_payload :: "crypto \<Rightarrow> string \<Rightarrow> string \<Rightarrow> string \<Rightarrow> string" where
  "vote_payload C blockHash vote voter = sha256 C (blockHash @ '':'' @ vote @ '':'' @ voter)"

text \<open>\<open>int(blockIndex)\<close> is negative from \<open>2\<^sup>6\<^sup>3\<close> on and passes the check; the index then panics.\<close>

definition SignFinalityVote ::
  "crypto \<Rightarrow> env \<Rightarrow> u64 \<Rightarrow> string \<Rightarrow> Blockchain \<Rightarrow> Blockchain \<times> FinalityVoteSignature go" where
  "SignFinalityVote C E blockIndex voter bc =
     (if int (length (bc_Chain bc)) \<le> sint blockIndex then (bc, Err ''invalid block index'')
      else if length (bc_Chain bc) \<le> unat blockIndex then (bc, Panic ''index out of range'')
      else let block = bc_Chain bc ! unat blockIndex;
               voterHex = EncodeToString (ed_public C voter);
               payload = vote_payload C (blk_BlockHash block) ''finalize'' voterHex;
               sig = ed_sign C voter payload;
               entry = \<lparr>fvs_BlockHash = blk_BlockHash block, fvs_Voter = voterHex, fvs_Vote = ''finalize'', fvs_Signature = sig\<rparr>;
               sigs = map_get [] (bc_FinalitySignatures bc) blockIndex @ [entry];
               bc = bc\<lparr>bc_FinalitySignatures := fmupd blockIndex sigs (bc_FinalitySignatures bc)\<rparr>
        in (appendAuditEntry E ''finality_vote_signed'' voterHex
              (''block='' @ FormatUint blockIndex @ '' sig_count='' @ fmt_nat (length sigs)) bc, Ok entry))"

text \<open>The second attempt to decode the key repeats the first one.\<close>

definition VerifyFinalitySignature :: "crypto \<Rightarrow> FinalityVoteSignature \<Rightarrow> bool" where
  "VerifyFinalitySignature C vote =
     (case DecodeString (fvs_Voter vote) of
        Ok pubBytes \<Rightarrow>
          (if length pubBytes \<noteq> 32 then False
           else ed_verify C pubBytes (vote_payload C (fvs_BlockHash vote) (fvs_Vote vote) (fvs_Voter vote)) (fvs_Signature vote))
      | _ \<Rightarrow> False)"

definition finalityThreshold :: "Blockchain \<Rightarrow> int" where
  "finalityThreshold bc =
     (let active = activeValidatorCount bc in
      if active = 0 then 0 else \<lceil>fl (fl (fl (of_nat active) * 2) / 3)\<rceil>)"

definition CollectFinalityVote :: "u64 \<Rightarrow> string \<Rightarrow> Blockchain \<Rightarrow> Blockchain \<times> unit go" where
  "CollectFinalityVote blockIndex voter bc =
     (if of_nat (length (bc_Chain bc)) \<le> blockIndex then (bc, Err ''invalid block index'')
      else (bc\<lparr>bc_FinalityVotes := fmupd blockIndex
              (finsert voter (map_get {||} (bc_FinalityVotes bc) blockIndex)) (bc_FinalityVotes bc)\<rparr>, Ok ()))"

definition slash_share :: "Validator \<Rightarrow> u64" where
  "slash_share v = (let slashAmount = val_Stake v div 10 in if slashAmount = 0 then 1 else slashAmount)"

definition slashed :: "Validator \<Rightarrow> Validator" where
  "slashed v =
     (let v = v\<lparr>val_Stake := val_Stake v - slash_share v\<rparr>
      in if val_Stake v = 0 then v\<lparr>val_Active := False\<rparr> else v)"

fun slash_loop :: "env \<Rightarrow> u64 \<Rightarrow> string fset \<Rightarrow> string list \<Rightarrow> Blockchain \<Rightarrow> Blockchain" where
  "slash_loop E blockIndex voters [] bc = bc"
| "slash_loop E blockIndex voters (addr # ks) bc =
     (case fmlookup (bc_Validators bc) addr of
        None \<Rightarrow> slash_loop E blockIndex voters ks bc
      | Some v \<Rightarrow>
          (if addr |\<notin>| voters then
             let slashAmount = slash_share v;
                 bc = slashLocked E addr slashAmount bc;
                 bc = bc\<lparr>bc_Validators := fmupd addr (slashed v) (bc_Validators bc)\<rparr>;
                 bc = appendAuditEntry E ''validator_slashed'' addr
                        (''block='' @ FormatUint blockIndex @ '' amount='' @ FormatUint slashAmount) bc
             in slash_loop E blockIndex voters ks bc
           else slash_loop E blockIndex voters ks bc))"

definition tryFinalizeBlockLocked :: "env \<Rightarrow> string list \<Rightarrow> u64 \<Rightarrow> Blockchain \<Rightarrow> Blockchain \<times> unit go" where
  "tryFinalizeBlockLocked E ks blockIndex bc =
     (case fmlookup (bc_FinalityVotes bc) blockIndex of
        None \<Rightarrow> (bc, Err ''no votes collected'')
      | Some voters \<Rightarrow>
          (let threshold = finalityThreshold bc in
           if int (card (fset voters)) < threshold
           then (bc, Err (''insufficient votes: '' @ fmt_nat (card (fset voters)) @ '' < '' @ fmt_nat (nat threshold)))
           else let bc = slash_loop E blockIndex voters ks bc;
                    bc = bc\<lparr>bc_LastFinalized := blockIndex, bc_FinalizedBlocks := finsert blockIndex (bc_FinalizedBlocks bc)\<rparr>;
                    bc = appendAuditEntry E ''block_finalized'' ''system'' (''index='' @ FormatUint blockIndex @
                           '' votes='' @ fmt_nat (card (fset voters)) @ '' threshold='' @ fmt_nat (nat threshold)) bc
             in (bc, Ok ())))"

definition TryFinalizeBlock :: "env \<Rightarrow> string list \<Rightarrow> u64 \<Rightarrow> Blockchain \<Rightarrow> Blockchain \<times> unit go" where
  "TryFinalizeBlock E ks blockIndex bc = tryFinalizeBlockLocked E ks blockIndex bc"

text \<open>The votes that a node makes for its validators: the signature is the digest of the payload,
  padded with zeros to 64 bytes.\<close>

definition collect_vote :: "crypto \<Rightarrow> u64 \<Rightarrow> Block \<Rightarrow> Validator \<Rightarrow> Blockchain \<Rightarrow> Blockchain" where
  "collect_vote C blockIndex block v bc =
     (if \<not> val_Active v \<or> val_PublicKey v = [] then bc
      else let voters = map_get {||} (bc_FinalityVotes bc) blockIndex;
               bc = bc\<lparr>bc_FinalityVotes := fmupd blockIndex voters (bc_FinalityVotes bc)\<rparr>
        in if val_Address v |\<in>| voters then bc
           else let payload = vote_payload C (blk_BlockHash block) ''finalize'' (val_PublicKey v);
                    sig = fit 64 payload;
                    vote = \<lparr>fvs_BlockHash = blk_BlockHash block, fvs_Voter = val_PublicKey v, fvs_Vote = ''finalize'', fvs_Signature = sig\<rparr>
             in bc\<lparr>bc_FinalitySignatures := fmupd blockIndex (map_get [] (bc_FinalitySignatures bc) blockIndex @ [vote]) (bc_FinalitySignatures bc),
                   bc_FinalityVotes := fmupd blockIndex (finsert (val_Address v) voters) (bc_FinalityVotes bc)\<rparr>)"

fun collect_loop :: "crypto \<Rightarrow> u64 \<Rightarrow> Block \<Rightarrow> string list \<Rightarrow> Blockchain \<Rightarrow> Blockchain" where
  "collect_loop C blockIndex block [] bc = bc"
| "collect_loop C blockIndex block (k # ks) bc =
     (case fmlookup (bc_Validators bc) k of
        None \<Rightarrow> collect_loop C blockIndex block ks bc
      | Some v \<Rightarrow> collect_loop C blockIndex block ks (collect_vote C blockIndex block v bc))"

definition collectFinalityVotesLocked :: "crypto \<Rightarrow> string list \<Rightarrow> u64 \<Rightarrow> Blockchain \<Rightarrow> Blockchain" where
  "collectFinalityVotesLocked C ks blockIndex bc =
     (if of_nat (length (bc_Chain bc)) \<le> blockIndex then bc
      else collect_loop C blockIndex (bc_Chain bc ! unat blockIndex) ks bc)"

definition IsActiveValidatorPubKey :: "string \<Rightarrow> Blockchain \<Rightarrow> bool" where
  "IsActiveValidatorPubKey pubKey bc \<longleftrightarrow>
     fBex (fmdom (bc_Validators bc)) (\<lambda>a. case fmlookup (bc_Validators bc) a of
        None \<Rightarrow> False | Some v \<Rightarrow> active_staked v \<and> val_PublicKey v = pubKey)"

definition rotated_key :: "crypto \<Rightarrow> Validator \<Rightarrow> string" where
  "rotated_key C v = EncodeToString (sha256 C (val_PublicKey v @ ''v'' @ FormatUint (val_PublicKeyVersion v + 1)))"

fun rotate_loop :: "crypto \<Rightarrow> env \<Rightarrow> i64 \<Rightarrow> string list \<Rightarrow> Blockchain \<Rightarrow> Blockchain" where
  "rotate_loop C E now [] bc = bc"
| "rotate_loop C E now (addr # ks) bc =
     (case fmlookup (bc_Validators bc) addr of
        None \<Rightarrow> rotate_loop C E now ks bc
      | Some v \<Rightarrow>
          (if active_staked v \<and> NeedsRotation v now then
             let updated = RotateKey v (rotated_key C v) now;
                 bc = bc\<lparr>bc_Validators := fmupd addr updated (bc_Validators bc)\<rparr>
             in rotate_loop C E now ks (appendAuditEntry E ''validator_key_rotated'' addr
                  (''version='' @ FormatUint (val_PublicKeyVersion updated)) bc)
           else rotate_loop C E now ks bc))"

definition rotateValidatorKeysLocked :: "crypto \<Rightarrow> env \<Rightarrow> string list \<Rightarrow> i64 \<Rightarrow> Blockchain \<Rightarrow> Blockchain" where
  "rotateValidatorKeysLocked C E ks now bc = rotate_loop C E now ks bc"

definition RotateValidatorKeys :: "crypto \<Rightarrow> env \<Rightarrow> string list \<Rightarrow> i64 \<Rightarrow> Blockchain \<Rightarrow> Blockchain" where
  "RotateValidatorKeys C E ks now bc = rotateValidatorKeysLocked C E ks now bc"

section \<open>The threshold\<close>

lemma finalityThreshold_exact:
  assumes "activeValidatorCount bc < 2 ^ 50"
  shows "finalityThreshold bc = int ((2 * activeValidatorCount bc + 2) div 3)"
proof -
  let ?n = "activeValidatorCount bc"
  have "fl (of_nat ?n) = of_nat ?n" "fl (of_nat ?n * 2) = of_nat (2 * ?n)"
    using assms fl_of_nat [of ?n] fl_of_nat [of "2 * ?n"] by (simp_all add: mult.commute)
  then show ?thesis
    using assms ceiling_fl_third [of "2 * ?n"] by (simp add: finalityThreshold_def Let_def)
qed

text \<open>The threshold computed in floating point is exactly two thirds of the active validators and
  authorities, rounded up, for any number of them below \<open>2\<^sup>5\<^sup>0\<close>: the least number of votes
  that is at least two thirds.\<close>

theorem threshold_is_two_thirds:
  assumes "activeValidatorCount bc < 2 ^ 50"
  shows "int v \<ge> finalityThreshold bc \<longleftrightarrow> 3 * v \<ge> 2 * activeValidatorCount bc"
proof -
  have "(2 * n + 2) div 3 \<le> v \<longleftrightarrow> 2 * n \<le> 3 * v" for n :: nat
    by linarith
  then show ?thesis by (simp add: finalityThreshold_exact [OF assms])
qed

theorem threshold_is_two_thirds_witness:
  "finalityThreshold (demo_node\<lparr>bc_Authorities := [''x'', ''y'', ''z'', ''w''], bc_Validators := fmempty\<rparr>) \<le> int 3"
  by (subst threshold_is_two_thirds) (simp_all add: activeValidatorCount_def)

section \<open>Finalizing a block\<close>

lemma slashLocked_frame [simp]:
  "bc_Validators (slashLocked E a v bc) = bc_Validators bc"
  "bc_FinalizedBlocks (slashLocked E a v bc) = bc_FinalizedBlocks bc"
  "bc_Chain (slashLocked E a v bc) = bc_Chain bc"
  by (auto simp: slashLocked_def Let_def split: option.splits)

lemma slash_loop_frame [simp]:
  "bc_FinalizedBlocks (slash_loop E i voters ks bc) = bc_FinalizedBlocks bc"
  "bc_Chain (slash_loop E i voters ks bc) = bc_Chain bc"
  by (induction ks arbitrary: bc) (auto simp: Let_def split: option.splits)

lemma slash_loop_validators:
  "distinct ks \<Longrightarrow> fmlookup (bc_Validators (slash_loop E i voters ks bc)) a =
     (if a \<in> set ks \<and> a |\<notin>| voters then map_option slashed (fmlookup (bc_Validators bc) a)
      else fmlookup (bc_Validators bc) a)"
  by (induction ks arbitrary: bc) (auto simp: Let_def split: option.splits)

text \<open>The stake of a validator that did not vote falls by a tenth, at least by one unit; but a
  validator whose stake is already zero comes out with the largest possible stake, since the
  subtraction wraps around.\<close>

theorem slashed_stake:
  "unat (val_Stake (slashed v)) =
     (if val_Stake v = 0 then 18446744073709551615 else unat (val_Stake v) - max 1 (unat (val_Stake v) div 10))"
proof (cases "val_Stake v = 0")
  case True
  have "unat (- 1 :: u64) = 18446744073709551615" by (simp add: unsigned_minus_1_eq_mask mask_eq_exp_minus_1)
  with True show ?thesis by (simp add: slashed_def slash_share_def Let_def)
next
  case False
  have share: "unat (slash_share v) = max 1 (unat (val_Stake v) div 10)"
  proof -
    define d where "d = val_Stake v div 10"
    have "unat d = unat (val_Stake v) div 10" 
      using unat_div_u64 [of "val_Stake v" 10] by (simp add: d_def)
    then have "unat (if d = 0 then 1 else d) = max 1 (unat (val_Stake v) div 10)"
      using unat_gt_0 [of d] by (cases "d = 0") simp_all
    moreover have "slash_share v = (if d = 0 then 1 else d)" by (simp add: slash_share_def Let_def d_def)
    ultimately show ?thesis by simp
  qed
  have "0 < unat (val_Stake v)" using False by (simp add: unat_gt_0)
  then have "slash_share v \<le> val_Stake v" by (simp add: word_le_nat_alt share)
  then have "unat (val_Stake v - slash_share v) = unat (val_Stake v) - max 1 (unat (val_Stake v) div 10)"
    unfolding share [symmetric] by (rule unat_sub_no_wrap)
  moreover have "val_Stake (slashed v) = val_Stake v - slash_share v" by (simp add: slashed_def Let_def)
  ultimately show ?thesis using False by metis
qed

text \<open>Finalizing succeeds exactly when votes were collected for the block and reach the threshold. A
  failure changes nothing. A success finalizes the block and keeps all earlier ones finalized,
  leaves the validators that voted as they were, and takes a tenth of the stake (at least one
  unit) of each validator that did not, whatever the order of the loop over the validators.\<close>

theorem TryFinalizeBlock_effect:
  assumes "range_order ks (bc_Validators bc)"
  shows "case TryFinalizeBlock E ks i bc of (bc', r) \<Rightarrow>
     (r = Ok () \<longleftrightarrow> (\<exists>voters. fmlookup (bc_FinalityVotes bc) i = Some voters \<and> finalityThreshold bc \<le> int (card (fset voters)))) \<and>
     (if r = Ok () then
        bc_FinalizedBlocks bc' = finsert i (bc_FinalizedBlocks bc) \<and> bc_LastFinalized bc' = i \<and> bc_Chain bc' = bc_Chain bc \<and>
        (\<forall>a. fmlookup (bc_Validators bc') a =
           (if a |\<in>| map_get {||} (bc_FinalityVotes bc) i then fmlookup (bc_Validators bc) a
            else map_option slashed (fmlookup (bc_Validators bc) a)))
      else bc' = bc)"
proof -
  have "distinct ks" "a \<notin> set ks \<Longrightarrow> fmlookup (bc_Validators bc) a = None" for a
    using assms range_order_has_key [OF assms, of a] by (auto simp: range_order_def has_key_def)
  then show ?thesis
    by (auto simp: TryFinalizeBlock_def tryFinalizeBlockLocked_def Let_def slash_loop_validators map_get_def
        split: option.splits)
qed

definition demo_validator :: "u64 \<Rightarrow> Validator" where
  "demo_validator stake = \<lparr>val_PublicKey = ''k'', val_Address = ''v'', val_Stake = stake, val_Active = True,
     val_JoinedAt = 0, val_Performance = 100, val_PublicKeyVersion = 0, val_KeyRotatedAt = 0, val_NextRotationAt = 0\<rparr>"

definition demo_finality :: Blockchain where
  "demo_finality = demo_node\<lparr>bc_Validators := fmupd ''v'' (demo_validator 500) fmempty,
     bc_Authorities := [], bc_FinalityVotes := fmupd 0 {|''stranger''|} fmempty\<rparr>"

lemma demo_finality_fields:
  "bc_Validators demo_finality = fmupd ''v'' (demo_validator 500) fmempty" "bc_Authorities demo_finality = []"
  "bc_FinalityVotes demo_finality = fmupd 0 {|''stranger''|} fmempty"
  by (simp_all add: demo_finality_def)

theorem TryFinalizeBlock_effect_witness:
  "snd (TryFinalizeBlock demo_env [''v''] 0 demo_finality) = Ok () \<and>
   fmlookup (bc_Validators (fst (TryFinalizeBlock demo_env [''v''] 0 demo_finality))) ''v'' = Some (slashed (demo_validator 500))"
proof -
  have count: "activeValidatorCount demo_finality = 1"
    unfolding activeValidatorCount_def demo_finality_fields by (simp add: demo_validator_def active_staked_def)
  have "finalityThreshold demo_finality \<le> int 1"
    by (simp add: finalityThreshold_exact count)
  moreover have "range_order [''v''] (bc_Validators demo_finality)"
    by (simp add: range_order_def demo_finality_fields)
  ultimately show ?thesis
    using TryFinalizeBlock_effect [where ks = "[''v'']" and bc = demo_finality and E = demo_env and i = 0]
    by (auto simp: demo_finality_fields split: prod.splits if_splits)
qed

text \<open>The votes of a list of names, one after the other.\<close>

fun collect_votes :: "u64 \<Rightarrow> string list \<Rightarrow> Blockchain \<Rightarrow> Blockchain" where
  "collect_votes i [] bc = bc"
| "collect_votes i (v # vs) bc = collect_votes i vs (fst (CollectFinalityVote i v bc))"

lemma collect_votes_spec:
  assumes "i < of_nat (length (bc_Chain bc))"
  shows "map_get {||} (bc_FinalityVotes (collect_votes i vs bc)) i = fset_of_list vs |\<union>| map_get {||} (bc_FinalityVotes bc) i"
    and "bc_Validators (collect_votes i vs bc) = bc_Validators bc" "bc_Authorities (collect_votes i vs bc) = bc_Authorities bc"
    and "vs \<noteq> [] \<Longrightarrow> has_key (bc_FinalityVotes (collect_votes i vs bc)) i"
proof -
  have "map_get {||} (bc_FinalityVotes (collect_votes i vs bc)) i = fset_of_list vs |\<union>| map_get {||} (bc_FinalityVotes bc) i \<and>
      bc_Validators (collect_votes i vs bc) = bc_Validators bc \<and> bc_Authorities (collect_votes i vs bc) = bc_Authorities bc \<and>
      (vs \<noteq> [] \<or> has_key (bc_FinalityVotes bc) i \<longrightarrow> has_key (bc_FinalityVotes (collect_votes i vs bc)) i)"
    using assms by (induction vs arbitrary: bc) (auto simp: CollectFinalityVote_def)
  then show "map_get {||} (bc_FinalityVotes (collect_votes i vs bc)) i = fset_of_list vs |\<union>| map_get {||} (bc_FinalityVotes bc) i"
    "bc_Validators (collect_votes i vs bc) = bc_Validators bc" "bc_Authorities (collect_votes i vs bc) = bc_Authorities bc"
    "vs \<noteq> [] \<Longrightarrow> has_key (bc_FinalityVotes (collect_votes i vs bc)) i"
    by blast+
qed

text \<open>Votes are not checked against the validators: any names, as many different ones as two thirds
  of the validators and authorities, finalize a block of the chain, and no validator needs to be
  among them.\<close>

theorem outsiders_finalize:
  assumes "i < of_nat (length (bc_Chain bc))" and "names \<noteq> []" "distinct names"
    and "activeValidatorCount bc < 2 ^ 50" "2 * activeValidatorCount bc \<le> 3 * length names"
  shows "snd (TryFinalizeBlock E ks i (collect_votes i names bc)) = Ok () \<and>
    IsFinalized i (fst (TryFinalizeBlock E ks i (collect_votes i names bc)))"
proof -
  let ?bc = "collect_votes i names bc"
  note c = collect_votes_spec [OF assms(1), of names]
  obtain voters where voters: "fmlookup (bc_FinalityVotes ?bc) i = Some voters"
    using c(4) [OF assms(2)] by (auto simp: has_key_iff)
  have "set names \<subseteq> fset voters"
    using c(1) voters by (auto simp: map_get_Some fset_of_list.rep_eq)
  then have "length names \<le> card (fset voters)"
    using distinct_card [OF assms(3)] card_mono [of "fset voters" "set names"] by simp
  moreover have count: "activeValidatorCount ?bc = activeValidatorCount bc"
    unfolding activeValidatorCount_def c(2,3) ..
  ultimately have "finalityThreshold ?bc \<le> int (card (fset voters))"
    using assms(4,5) by (simp add: finalityThreshold_exact count)
  then show ?thesis
    by (simp add: TryFinalizeBlock_def tryFinalizeBlockLocked_def voters Let_def IsFinalized_def)
qed

theorem outsiders_finalize_witness:
  "snd (TryFinalizeBlock demo_env [''v''] 0 (collect_votes 0 [''stranger''] demo_finality)) = Ok ()"
proof -
  have "activeValidatorCount demo_finality = 1"
    unfolding activeValidatorCount_def demo_finality_fields by (simp add: demo_validator_def active_staked_def)
  moreover have "(0 :: u64) < of_nat (length (bc_Chain demo_finality))"
    by (simp add: demo_finality_def demo_node_def demo_chain_def createGenesisBlock_def empty_Blockchain_def Let_def)
  ultimately show ?thesis
    using outsiders_finalize [of 0 demo_finality "[''stranger'']"] by simp
qed

section \<open>Signatures of votes\<close>

text \<open>A vote that is signed with a private key for a block of the chain verifies under the
  documented behaviour of the signature scheme, and it names the block's hash.\<close>

theorem SignFinalityVote_verifies:
  assumes "crypto_ok C" and "unat i < length (bc_Chain bc)" "unat i < 2 ^ 63"
  shows "case SignFinalityVote C E i sk bc of (bc', r) \<Rightarrow>
    \<exists>vote. r = Ok vote \<and> fvs_BlockHash vote = blk_BlockHash (bc_Chain bc ! unat i) \<and> VerifyFinalitySignature C vote \<and>
      vote \<in> set (map_get [] (bc_FinalitySignatures bc') i)"
proof -
  have "\<not> int (length (bc_Chain bc)) \<le> sint i"
    using assms(2) unfolding sint_eq_unat [OF assms(3)] of_nat_le_iff by simp
  then show ?thesis
    using assms(1,2)
    by (auto simp: SignFinalityVote_def VerifyFinalitySignature_def Let_def crypto_ok_def appendAuditEntry_def)
qed

theorem SignFinalityVote_verifies_witness:
  "case SignFinalityVote demo_crypto demo_env 0 ''key'' demo_finality of (bc', r) \<Rightarrow>
    \<exists>vote. r = Ok vote \<and> VerifyFinalitySignature demo_crypto vote"
proof -
  have "length (bc_Chain demo_finality) = 1"
    by (simp add: demo_finality_def demo_node_def demo_chain_def createGenesisBlock_def empty_Blockchain_def Let_def)
  then show ?thesis
    using SignFinalityVote_verifies [OF crypto_ok_demo, where i = 0 and bc = demo_finality and E = demo_env and sk = "''key''"]
    by (auto split: prod.splits)
qed

section \<open>Rotation of keys\<close>

definition rotated :: "crypto \<Rightarrow> i64 \<Rightarrow> Validator \<Rightarrow> Validator" where
  "rotated C now v = (if active_staked v \<and> NeedsRotation v now then RotateKey v (rotated_key C v) now else v)"

lemma rotate_loop_validators:
  "distinct ks \<Longrightarrow> fmlookup (bc_Validators (rotate_loop C E now ks bc)) a =
     (if a \<in> set ks then map_option (rotated C now) (fmlookup (bc_Validators bc) a) else fmlookup (bc_Validators bc) a)"
  by (induction ks arbitrary: bc) (auto simp: Let_def rotated_def split: option.splits)

text \<open>A rotation renews every key that is due and no other: afterwards each active validator with
  stake has a key that is not due before 30 days have passed, a validator whose key was not due
  is unchanged, and a renewed one keeps its address, stake and performance and moves to the next
  key version.\<close>

theorem rotation_renews_due_keys:
  assumes "range_order ks (bc_Validators bc)" and "0 < sint now" "sint now < 2 ^ 62"
    and "fmlookup (bc_Validators bc) a = Some v"
  shows "\<exists>v'. fmlookup (bc_Validators (RotateValidatorKeys C E ks now bc)) a = Some v' \<and>
    (active_staked v' \<longrightarrow> \<not> NeedsRotation v' now) \<and>
    (if active_staked v \<and> NeedsRotation v now
     then val_PublicKeyVersion v' = val_PublicKeyVersion v + 1 \<and> sint (val_NextRotationAt v') = sint now + 2592000 \<and>
       val_Address v' = val_Address v \<and> val_Stake v' = val_Stake v \<and> val_Performance v' = val_Performance v
     else v' = v)"
proof -
  have "a \<in> set ks" "distinct ks"
    using assms(1,4) range_order_has_key [OF assms(1), of a] by (auto simp: range_order_def has_key_def)
  then have l: "fmlookup (bc_Validators (RotateValidatorKeys C E ks now bc)) a = Some (rotated C now v)"
    using assms(4) by (simp add: RotateValidatorKeys_def rotateValidatorKeysLocked_def rotate_loop_validators)
  have "sint (now + 2592000) = sint now + 2592000"
  proof -
    have "now + 2592000 = word_of_int (sint now + 2592000)" by simp
    then show ?thesis using assms(2,3) sint_of_int [of "sint now + 2592000"] by simp
  qed
  moreover from this have "now + 2592000 \<noteq> 0" using assms(2) by (metis add_pos_pos less_irrefl signed_0 zero_less_numeral)
  ultimately show ?thesis
    using l by (auto simp: rotated_def RotateKey_def NeedsRotation_def word_sle_eq)
qed

theorem rotation_renews_due_keys_witness:
  "\<exists>v'. fmlookup (bc_Validators (RotateValidatorKeys demo_crypto demo_env [''v''] 1000 demo_finality)) ''v'' = Some v' \<and>
    val_PublicKeyVersion v' = 1"
proof -
  have "range_order [''v''] (bc_Validators demo_finality)"
    by (simp add: range_order_def demo_finality_fields)
  then show ?thesis
    using rotation_renews_due_keys [of "[''v'']" demo_finality 1000 "''v''" "demo_validator 500" demo_crypto demo_env]
    by (auto simp: demo_finality_fields demo_validator_def active_staked_def NeedsRotation_def)
qed

end
