(* ===== verification/Fees.thy ===== *)
theory Fees
  imports Ledger Go_Float
begin

text \<open>
  The fee of a transaction (\<open>estimateFee\<close>, \<open>isAITransaction\<close> of \<open>blockchain.go\<close>) and what mining does with
  the fees of a block (the loop body of \<open>MineBlockFor\<close>). \<open>oor\<close> is the value of an out-of-range
  conversion from \<open>float64\<close>.
\<close>

section \<open>Operations\<close>

definition isAITransaction :: "TransactionType \<Rightarrow> bool" where
  "isAITransaction txType \<longleftrightarrow> txType = RegisterModel \<or> txType = UpdateModel \<or> txType = PurchaseApiKey"

text \<open>The demand computed in line 430 is assigned to the blank identifier and left out.\<close>

definition baseComplexity :: "Transaction \<Rightarrow> u64" where
  "baseComplexity tx =
     (if tx_TxType tx = RegisterModel then 3
      else if tx_TxType tx = UpdateModel then 2
      else if tx_TxType tx = PurchaseApiKey then 2 else 1)"

definition ai_ratio :: "Blockchain \<Rightarrow> rat" where
  "ai_ratio bc = fl (float_of_u64 (bc_AgentTxCount bc) / float_of_u64 (bc_TokenSupply bc))"

definition demandFactor :: "(rat \<Rightarrow> u64) \<Rightarrow> Blockchain \<Rightarrow> u64" where
  "demandFactor oor bc =
     (if 0 < bc_AgentTxCount bc \<and> 0 < bc_TokenSupply bc then
        let d = u64_of_float oor (fl (ai_ratio bc * 1000000000)) in if 200 < d then 200 else d
      else 0)"

definition estimateFee :: "(rat \<Rightarrow> u64) \<Rightarrow> Transaction \<Rightarrow> nat \<Rightarrow> Blockchain \<Rightarrow> u64" where
  "estimateFee oor tx congestion bc =
     (let congestionFactor = of_nat congestion :: u64;
          congestionFactor = (if 10 < congestionFactor then 10 else congestionFactor);
          baseFee = BaseFee + baseComplexity tx * FeeMultiplier + congestionFactor + demandFactor oor bc;
          baseFee = (if 0 < bc_TokenSupply bc then
                       (if bc_TokenSupply bc < 1000000 then baseFee + 2
                        else if 10000000 < bc_TokenSupply bc then baseFee - 1 else baseFee)
                     else baseFee)
      in if isAITransaction (tx_TxType tx) \<and> 0 < bc_AgentTxCount bc \<and> 0 < bc_TokenSupply bc
         then baseFee + u64_of_float oor (fl (ai_ratio bc * 1000000000)) else baseFee)"

text \<open>How a fee that is accepted into a block is split: a share is burnt from the supply, a smaller
  one is credited to the community fund.\<close>

definition fee_burn :: "Transaction \<Rightarrow> Blockchain \<Rightarrow> u64 \<times> u64" where
  "fee_burn tx bc =
     (let burnRate = (if isAITransaction (tx_TxType tx) \<and> 0 < bc_AgentTxCount bc \<and> 0 < bc_TokenSupply bc
            then BurnRatePercent + AIBurnScaling else BurnRatePercent);
          totalBurn = tx_Fee tx * burnRate div 100;
          permanentBurn = totalBurn * 70 div 100
      in (permanentBurn, totalBurn - permanentBurn))"

definition settle_fee :: "Transaction \<Rightarrow> Blockchain \<Rightarrow> Blockchain" where
  "settle_fee tx bc =
     (if 0 < tx_Fee tx then
        let (permanentBurn, communityFund) = fee_burn tx bc;
            permanentBurn = (if bc_TokenSupply bc < permanentBurn then bc_TokenSupply bc else permanentBurn);
            bc = bc\<lparr>bc_TokenSupply := bc_TokenSupply bc - permanentBurn\<rparr>
        in (case fmlookup (bc_Ledger bc) CommunityFundAddress of
              Some cfAcct \<Rightarrow> bc\<lparr>bc_Ledger := credit CommunityFundAddress communityFund (bc_Ledger bc)\<rparr>
            | None \<Rightarrow> bc\<lparr>bc_Ledger := fmupd CommunityFundAddress
                \<lparr>acct_Address = CommunityFundAddress, acct_Balance = communityFund, acct_Staked = 0,
                 acct_IsAgent = False\<rparr> (bc_Ledger bc)\<rparr>)
      else bc)"

section \<open>Bounds on the fee\<close>

lemma demandFactor_le: "demandFactor oor bc \<le> 200"
  by (simp add: demandFactor_def Let_def not_less)

lemma unat_demandFactor_le: "unat (demandFactor oor bc) \<le> 200"
  using demandFactor_le [of oor bc] by (simp add: word_le_nat_alt)

text \<open>The fee without the surcharge for AI transactions, over the natural numbers.\<close>

definition fee_nat :: "(rat \<Rightarrow> u64) \<Rightarrow> Transaction \<Rightarrow> nat \<Rightarrow> Blockchain \<Rightarrow> nat" where
  "fee_nat oor tx congestion bc =
     (if bc_TokenSupply bc = 0 then 50000000 else if bc_TokenSupply bc < 1000000 then 50000002
      else if 10000000 < bc_TokenSupply bc then 49999999 else 50000000) +
     2 * unat (baseComplexity tx) + min 10 congestion + unat (demandFactor oor bc)"

lemma unat_of_nat_u64: "n < 2 ^ 64 \<Longrightarrow> unat (of_nat n :: u64) = n"
  by (simp add: unat_of_nat)

lemma congestion_factor:
  assumes "n < 2 ^ 63"
  shows "(if (10 :: u64) < of_nat n then 10 else of_nat n) = (of_nat (min 10 n) :: u64)"
proof -
  have "unat (of_nat n :: u64) = n" using assms by (intro unat_of_nat_u64) simp
  then show ?thesis by (auto simp: word_less_nat_alt min_def)
qed

lemma baseComplexity_le: "unat (baseComplexity tx) \<le> 3" "1 \<le> unat (baseComplexity tx)"
  by (simp_all add: baseComplexity_def)

lemma fee_nat_bounds:
  "50000001 \<le> fee_nat oor tx congestion bc" "fee_nat oor tx congestion bc \<le> 50000218"
  using baseComplexity_le [of tx] unat_demandFactor_le [of oor bc] by (auto simp: fee_nat_def)

lemma estimateFee_nat:
  assumes "congestion < 2 ^ 63" and "\<not> isAITransaction (tx_TxType tx)"
  shows "unat (estimateFee oor tx congestion bc) = fee_nat oor tx congestion bc"
proof -
  have "estimateFee oor tx congestion bc = of_nat (fee_nat oor tx congestion bc)"
    using assms
    by (simp add: estimateFee_def Let_def congestion_factor fee_nat_def BaseFee_def FeeMultiplier_def u64_neq_zero)
  then show ?thesis
    using fee_nat_bounds [of oor tx congestion bc] by (simp add: unat_of_nat_u64)
qed

text \<open>C34. The fee of an ordinary transaction is bounded and never wraps around: it lies between
  50000001 and 50000214 of the smallest unit, whatever the supply, the AI demand (computed in
  floating point), the conversion of out-of-range values and the congestion, and more congestion
  never lowers it.\<close>

theorem estimateFee_bounds:
  assumes "congestion < 2 ^ 63" and "\<not> isAITransaction (tx_TxType tx)"
  shows "50000001 \<le> unat (estimateFee oor tx congestion bc) \<and> unat (estimateFee oor tx congestion bc) \<le> 50000214 \<and>
    (\<forall>c \<le> congestion. estimateFee oor tx c bc \<le> estimateFee oor tx congestion bc)"
proof -
  have "baseComplexity tx = 1"
    using assms(2) by (auto simp: baseComplexity_def isAITransaction_def)
  then have "fee_nat oor tx congestion bc \<le> 50000214"
    using unat_demandFactor_le [of oor bc] by (auto simp: fee_nat_def)
  moreover have "fee_nat oor tx c bc \<le> fee_nat oor tx congestion bc" if "c \<le> congestion" for c
    using that by (simp add: fee_nat_def)
  ultimately show ?thesis
    using assms fee_nat_bounds(1) by (auto simp: word_le_nat_alt estimateFee_nat)
qed

theorem estimateFee_bounds_witness:
  "50000001 \<le> unat (estimateFee (\<lambda>f. 0) demo_tx 42 demo_node) \<and> unat (estimateFee (\<lambda>f. 0) demo_tx 42 demo_node) \<le> 50000214"
  using estimateFee_bounds [of 42 demo_tx "\<lambda>f. 0" demo_node] by (simp add: demo_tx_def isAITransaction_def)

section \<open>Settlement\<close>

lemma fee_burn_bounds:
  "100 * (unat (fst (fee_burn tx bc)) + unat (snd (fee_burn tx bc))) \<le> 21 * unat (tx_Fee tx)"
  "3 * unat (fst (fee_burn tx bc)) \<le> 7 * unat (snd (fee_burn tx bc))"
proof -
  define rate :: u64 where "rate = (if isAITransaction (tx_TxType tx) \<and> 0 < bc_AgentTxCount bc \<and> 0 < bc_TokenSupply bc
            then BurnRatePercent + AIBurnScaling else BurnRatePercent)"
  define t where "t = tx_Fee tx * rate div 100"
  have "unat (tx_Fee tx) * unat rate \<le> unat (tx_Fee tx) * 21"
    by (rule mult_le_mono2) (simp add: rate_def BurnRatePercent_def AIBurnScaling_def)
  moreover have "unat (tx_Fee tx * rate) \<le> unat (tx_Fee tx) * unat rate"
    using mod_less_eq_dividend [of "unat (tx_Fee tx) * unat rate" "2 ^ 64"] by (simp add: unat_word_ariths)
  moreover have tn: "unat t = unat (tx_Fee tx * rate) div 100" by (simp add: t_def unat_div_u64)
  ultimately have t: "100 * unat t \<le> 21 * unat (tx_Fee tx)" by linarith
  have "100 * unat t < 2 ^ 64" using unat_u64_lt [of "tx_Fee tx * rate"] unfolding tn by simp
  then have p: "unat (t * 70 div 100) = unat t * 70 div 100"
    by (simp add: unat_div_u64 unat_word_ariths)
  have "t * 70 div 100 \<le> t"
    by (simp add: word_le_nat_alt p)
  then have s: "unat (t - t * 70 div 100) = unat t - unat t * 70 div 100"
    by (simp add: unat_sub_no_wrap p)
  have fb: "fee_burn tx bc = (t * 70 div 100, t - t * 70 div 100)"
    by (simp add: fee_burn_def Let_def rate_def t_def)
  show "100 * (unat (fst (fee_burn tx bc)) + unat (snd (fee_burn tx bc))) \<le> 21 * unat (tx_Fee tx)"
    "3 * unat (fst (fee_burn tx bc)) \<le> 7 * unat (snd (fee_burn tx bc))"
    using t by (auto simp: fb p s)
qed

text \<open>Whatever the balances are, settling a fee adds at most 21 percent of it to their sum.\<close>

lemma settle_fee_money: "100 * total_balance (bc_Ledger (settle_fee tx bc)) \<le> 100 * total_balance (bc_Ledger bc) + 21 * unat (tx_Fee tx)"
proof -
  let ?L = "bc_Ledger bc" and ?d = "snd (fee_burn tx bc)"
  have "total_balance (bc_Ledger (settle_fee tx bc)) \<le> total_balance ?L + unat ?d"
  proof (cases "fmlookup ?L CommunityFundAddress")
    case None
    then show ?thesis by (simp add: settle_fee_def Let_def total_balance_def fmsum_fmupd_new split: prod.splits)
  next
    case (Some ac)
    then show ?thesis
      using ledger.total_credit_le [of ?L CommunityFundAddress "acct_Balance ac" ?d]
      by (cases "fee_burn tx bc") (simp add: settle_fee_def Let_def balance_of_def)
  qed
  moreover have "100 * unat ?d \<le> 21 * unat (tx_Fee tx)" using fee_burn_bounds(1) [of tx bc] by simp
  ultimately show ?thesis by simp
qed

text \<open>What happens to the fee of a mined transaction: the burnt and the donated part together are
  at most 21 percent of it, the supply shrinks by the burnt part (never below zero), and the
  donated part is added to the balances although no account is charged: the sender keeps the
  whole fee, and the sum of all balances grows by the donation.\<close>

theorem settle_fee_effect:
  assumes "0 < tx_Fee tx" and "total_balance (bc_Ledger bc) + unat (snd (fee_burn tx bc)) < 2 ^ 64"
  shows "100 * (unat (fst (fee_burn tx bc)) + unat (snd (fee_burn tx bc))) \<le> 21 * unat (tx_Fee tx) \<and>
    unat (bc_TokenSupply (settle_fee tx bc)) = unat (bc_TokenSupply bc) - unat (fst (fee_burn tx bc)) \<and>
    total_balance (bc_Ledger (settle_fee tx bc)) = total_balance (bc_Ledger bc) + unat (snd (fee_burn tx bc)) \<and>
    (\<forall>a. a \<noteq> CommunityFundAddress \<longrightarrow> fmlookup (bc_Ledger (settle_fee tx bc)) a = fmlookup (bc_Ledger bc) a)"
proof -
  let ?L = "bc_Ledger bc" and ?p = "fst (fee_burn tx bc)" and ?d = "snd (fee_burn tx bc)"
  have L: "bc_Ledger (settle_fee tx bc) =
      (if has_key ?L CommunityFundAddress then credit CommunityFundAddress ?d ?L
       else fmupd CommunityFundAddress \<lparr>acct_Address = CommunityFundAddress, acct_Balance = ?d, acct_Staked = 0,
         acct_IsAgent = False\<rparr> ?L)"
    and S: "bc_TokenSupply (settle_fee tx bc) = bc_TokenSupply bc - (if bc_TokenSupply bc < ?p then bc_TokenSupply bc else ?p)"
    using assms(1) by (auto simp: settle_fee_def Let_def has_key_def split: option.splits prod.splits)
  have "total_balance (bc_Ledger (settle_fee tx bc)) = total_balance ?L + unat ?d"
  proof (cases "has_key ?L CommunityFundAddress")
    case True
    then show ?thesis
      using assms(2) by (auto simp: L has_key_iff balance_of_def intro!: ledger.total_credit_exact)
  next
    case False
    then show ?thesis
      by (simp add: L total_balance_def fmsum_fmupd_new has_key_def)
  qed
  moreover have "unat (bc_TokenSupply (settle_fee tx bc)) = unat (bc_TokenSupply bc) - unat ?p"
    by (auto simp: S unat_sub_no_wrap not_less) (simp add: word_less_nat_alt)
  moreover have "fmlookup (bc_Ledger (settle_fee tx bc)) a = fmlookup ?L a" if "a \<noteq> CommunityFundAddress" for a
    using that by (auto simp: L credit_def modify_account_lookup)
  ultimately show ?thesis using fee_burn_bounds(1) by simp
qed

theorem settle_fee_effect_witness:
  "total_balance (bc_Ledger (settle_fee (demo_tx\<lparr>tx_Fee := 60000000\<rparr>) demo_node)) = 181003"
proof -
  have "fee_burn (demo_tx\<lparr>tx_Fee := 60000000\<rparr>) demo_node = (420000, 180000)"
    by (simp add: fee_burn_def isAITransaction_def demo_tx_def BurnRatePercent_def Let_def)
  then show ?thesis
    using settle_fee_effect [of "demo_tx\<lparr>tx_Fee := 60000000\<rparr>" demo_node]
    by (simp add: demo_node_wealth)
qed

end
