(* ===== verification/Chain_Rules.thy ===== *)
theory Chain_Rules
  imports Reversal Finality Fees
begin

text \<open>
  The rules of the chain (\<open>blockchain.go\<close>): which transactions, blocks and chains are valid
  (\<open>validateTransaction\<close>, \<open>validateBlock\<close>, \<open>validateChain\<close>), what a block does to the state (\<open>applyBlock\<close>),
  how a chain from a peer is adopted (\<open>ReplaceChain\<close>) and how the difficulty follows the block time.
\<close>

section \<open>Operations\<close>

definition validateTransaction :: "crypto \<Rightarrow> Transaction \<Rightarrow> Blockchain \<Rightarrow> bool" where
  "validateTransaction C tx bc =
     (if tx_ChainID tx \<noteq> bc_ChainID bc then False
      else if \<not> VerifyTransaction C tx then False
      else if isReplay tx bc then False
      else case fmlookup (bc_Ledger bc) (tx_From tx) of
        None \<Rightarrow> False
      | Some sender \<Rightarrow>
          (if tx_From tx \<noteq> tx_To tx \<and> tx_Amount tx = 0 then False
           else if isAITransaction (tx_TxType tx) \<and> acct_Balance sender < AgentMinBalance then False
           else if tx_TxType tx = Transfer then
             has_key (bc_Ledger bc) (tx_To tx) \<and> tx_Amount tx \<le> acct_Balance sender
           else if tx_TxType tx = RegisterModel then
             acct_IsAgent sender \<and> \<not> has_key (bc_Registry bc) (tx_To tx) \<and> AIModelStake \<le> acct_Staked sender
           else if tx_TxType tx = UpdateModel then
             (case fmlookup (bc_Registry bc) (tx_To tx) of
                None \<Rightarrow> False | Some entry \<Rightarrow> mr_Owner entry = tx_From tx \<and> AIModelStake \<le> acct_Staked sender)
           else if tx_TxType tx = PurchaseApiKey then
             (case fmlookup (bc_Registry bc) (tx_To tx) of
                None \<Rightarrow> False | Some entry \<Rightarrow> tx_Amount tx \<le> acct_Balance sender \<and> mr_Active entry)
           else if tx_TxType tx = RequestReversal then validateRequestReversal bc tx
           else if tx_TxType tx = ConfirmReversal then validateConfirmReversal bc tx
           else if tx_TxType tx = CommitReversal then validateCommitReversal bc tx
           else False))"

text \<open>The loop over the transactions of a block, with the identifiers seen so far.\<close>

fun validate_txs :: "crypto \<Rightarrow> Blockchain \<Rightarrow> string fset \<Rightarrow> Transaction list \<Rightarrow> unit go" where
  "validate_txs C bc seen [] = Ok ()"
| "validate_txs C bc seen (tx # txs) =
     (if tx_ID tx = [] then Err ''missing transaction id''
      else if tx_ID tx |\<in>| seen then Err ''duplicate transaction''
      else if length (CanonicalSigningBytes tx) = 0 then Err ''missing canonical signing bytes''
      else if \<not> validateTransaction C tx bc then Err ''invalid transaction''
      else validate_txs C bc (finsert (tx_ID tx) seen) txs)"

definition validateBlock :: "crypto \<Rightarrow> Block \<Rightarrow> Block \<Rightarrow> Blockchain \<Rightarrow> unit go" where
  "validateBlock C block prev bc =
     (if blk_Index block \<noteq> blk_Index prev + 1 then Err ''invalid index''
      else if blk_PreviousHash block \<noteq> blk_BlockHash prev then Err ''invalid previous hash''
      else if blk_BlockHash block = [] then Err ''missing block hash''
      else if blk_TxMerkleRoot block \<noteq> [] \<and> CalculateMerkleRoot C (blk_Transactions block) \<noteq> blk_TxMerkleRoot block
      then Err ''invalid merkle root''
      else if calculateHash C block \<noteq> blk_BlockHash block then Err ''invalid block hash''
      else go_bind (validate_txs C bc {||} (blk_Transactions block)) (\<lambda>_.
        if bc_Consensus bc = ProofOfStake \<and> blk_Author block \<noteq> [] \<and>
           \<not> has_key (bc_Validators bc) (blk_Author block) \<and> \<not> isAuthority (blk_Author block) bc \<and>
           \<not> has_key (bc_Ledger bc) (blk_Author block)
        then Err ''block author is not an active validator''
        else Ok ()))"

fun validate_links :: "crypto \<Rightarrow> Blockchain \<Rightarrow> Block list \<Rightarrow> unit go" where
  "validate_links C bc (prev # b # bs) =
     go_bind (validateBlock C b prev bc) (\<lambda>_. validate_links C bc (b # bs))"
| "validate_links C bc bs = Ok ()"

definition validateChain :: "crypto \<Rightarrow> Block list \<Rightarrow> Blockchain \<Rightarrow> unit go" where
  "validateChain C chain bc =
     (case chain of
        [] \<Rightarrow> Err ''empty chain''
      | genesis # _ \<Rightarrow>
          (if blk_Index genesis \<noteq> 0 then Err ''invalid genesis'' else validate_links C bc chain))"

definition ReplaceChain :: "crypto \<Rightarrow> env \<Rightarrow> Block list \<Rightarrow> Blockchain \<Rightarrow> Blockchain \<times> bool" where
  "ReplaceChain C E newChain bc =
     (if validateChain C newChain bc \<noteq> Ok () then (bc, False)
      else if length newChain \<le> length (bc_Chain bc) then (bc, False)
      else let bc = bc\<lparr>bc_Chain := newChain\<rparr>;
               bc = appendAuditEntry E ''chain_replaced'' ''network'' (''height='' @ fmt_nat (length newChain)) bc
        in (fst (SaveToDisk E bc), True))"

text \<open>\<open>actualTime\<close> and \<open>BlockTime\<close> count nanoseconds. The difference of two \<open>time.Time\<close> saturates at the
  bounds of \<open>int64\<close> instead of wrapping around.\<close>

definition saturate64 :: "int \<Rightarrow> i64" where
  "saturate64 d = word_of_int (max (- (2 ^ 63)) (min (2 ^ 63 - 1) d))"

definition adjustDifficulty :: "Blockchain \<Rightarrow> Blockchain" where
  "adjustDifficulty bc =
     (if bc_Consensus bc = ProofOfStake then bc
      else if length (bc_Chain bc) < 2 then bc
      else let last = bc_Chain bc ! (length (bc_Chain bc) - 1);
               prev = bc_Chain bc ! (length (bc_Chain bc) - 2);
               actualTime = saturate64 ((sint (blk_Timestamp last) - sint (blk_Timestamp prev)) * 1000000000)
        in if actualTime <s bc_BlockTime bc \<and> bc_Difficulty bc < 64 then bc\<lparr>bc_Difficulty := bc_Difficulty bc + 1\<rparr>
           else if bc_BlockTime bc * 2 <s actualTime \<and> 0 < bc_Difficulty bc then bc\<lparr>bc_Difficulty := bc_Difficulty bc - 1\<rparr>
           else bc)"

definition zero_ModelRef :: ModelRef where
  "zero_ModelRef = \<lparr>mr_ID = [], mr_Owner = [], mr_CID = [], mr_Active = False, mr_PricePerCall = 0\<rparr>"

text \<open>The guarded payment that the cases \<open>Transfer\<close> and \<open>PurchaseApiKey\<close> share.\<close>

definition guarded_pay :: "string \<Rightarrow> string \<Rightarrow> u64 \<Rightarrow> (string, Account) fmap \<Rightarrow> (string, Account) fmap" where
  "guarded_pay a b amount L =
     (case (fmlookup L a, fmlookup L b) of
        (Some sender, Some receiver) \<Rightarrow> if amount \<le> acct_Balance sender then credit b amount (debit a amount L) else L
      | _ \<Rightarrow> L)"

definition apply_tx :: "Transaction \<Rightarrow> Blockchain \<Rightarrow> Blockchain" where
  "apply_tx tx bc =
     (let bc = markTransactionUsed tx (markTransactionSeen tx bc);
          cid = tx_To tx @ '':'' @ tx_From tx @ '':'' @ tx_Payload tx
      in if tx_TxType tx = Transfer then
           bc\<lparr>bc_Ledger := guarded_pay (tx_From tx) (tx_To tx) (tx_Amount tx) (bc_Ledger bc)\<rparr>
         else if tx_TxType tx = RegisterModel then
           bc\<lparr>bc_Registry := fmupd (tx_To tx) \<lparr>mr_ID = tx_To tx, mr_Owner = tx_From tx, mr_CID = cid,
                mr_Active = True, mr_PricePerCall = tx_Amount tx\<rparr> (bc_Registry bc),
              bc_AgentTxCount := bc_AgentTxCount bc + 1\<rparr>
         else if tx_TxType tx = UpdateModel then
           bc\<lparr>bc_Registry := fmupd (tx_To tx) ((map_get zero_ModelRef (bc_Registry bc) (tx_To tx))
                \<lparr>mr_CID := cid, mr_PricePerCall := tx_Amount tx\<rparr>) (bc_Registry bc),
              bc_AgentTxCount := bc_AgentTxCount bc + 1\<rparr>
         else if tx_TxType tx = PurchaseApiKey then
           bc\<lparr>bc_Ledger := guarded_pay (tx_From tx) (mr_Owner (map_get zero_ModelRef (bc_Registry bc) (tx_To tx)))
                (tx_Amount tx) (bc_Ledger bc),
              bc_AgentTxCount := bc_AgentTxCount bc + 1\<rparr>
         else bc)"

definition applyBlock :: "env \<Rightarrow> Block \<Rightarrow> Blockchain \<Rightarrow> Blockchain" where
  "applyBlock E block bc = ProcessReversals E block (fold apply_tx (blk_Transactions block) bc)"

section \<open>Valid blocks\<close>

lemma validate_txs_Ok:
  "validate_txs C bc seen txs = Ok () \<longleftrightarrow>
     distinct (map tx_ID txs) \<and> (\<forall>tx \<in> set txs. tx_ID tx \<noteq> [] \<and> tx_ID tx |\<notin>| seen \<and> validateTransaction C tx bc)"
proof (induction txs arbitrary: seen)
  case (Cons tx txs)
  have "tx_ID tx \<in> tx_ID ` set txs \<longleftrightarrow> (\<exists>t \<in> set txs. tx_ID t = tx_ID tx)"
    unfolding image_iff by metis
  with Cons show ?case by auto
qed simp

lemma validateBlock_Ok:
  "validateBlock C b prev bc = Ok () \<longleftrightarrow>
     blk_Index b = blk_Index prev + 1 \<and> blk_PreviousHash b = blk_BlockHash prev \<and> blk_BlockHash b \<noteq> [] \<and>
     (blk_TxMerkleRoot b = [] \<or> blk_TxMerkleRoot b = CalculateMerkleRoot C (blk_Transactions b)) \<and>
     blk_BlockHash b = calculateHash C b \<and>
     validate_txs C bc {||} (blk_Transactions b) = Ok () \<and>
     \<not> (bc_Consensus bc = ProofOfStake \<and> blk_Author b \<noteq> [] \<and> \<not> has_key (bc_Validators bc) (blk_Author b) \<and>
        \<not> isAuthority (blk_Author b) bc \<and> \<not> has_key (bc_Ledger bc) (blk_Author b))"
  by (auto simp: validateBlock_def go_bind_Ok_iff)

lemma validateTransaction_facts:
  "validateTransaction C tx bc \<Longrightarrow> tx_ChainID tx = bc_ChainID bc \<and> VerifyTransaction C tx \<and> \<not> isReplay tx bc \<and>
     has_key (bc_Ledger bc) (tx_From tx)"
  by (auto simp: validateTransaction_def has_key_def split: if_splits option.splits)

lemma validateTransaction_funds:
  "validateTransaction C tx bc \<Longrightarrow> tx_TxType tx = Transfer \<or> tx_TxType tx = PurchaseApiKey \<Longrightarrow>
     \<exists>ac. fmlookup (bc_Ledger bc) (tx_From tx) = Some ac \<and> tx_Amount tx \<le> acct_Balance ac"
  by (auto simp: validateTransaction_def split: if_splits option.splits)

text \<open>C3. What a valid block guarantees: it extends its predecessor by index and hash, its hash is that
  of its content, its root, when present, commits to its transactions, its transactions have
  different non-empty identifiers, and each of them is for this chain, carries a valid signature
  of the key that owns the sender's address, is not a replay, has an account for its sender, and
  (for payments) a sufficient balance.\<close>

theorem validateBlock_sound:
  assumes "validateBlock C b prev bc = Ok ()"
  shows "blk_Index b = blk_Index prev + 1 \<and> blk_PreviousHash b = blk_BlockHash prev \<and>
    blk_BlockHash b = calculateHash C b \<and>
    (blk_TxMerkleRoot b = [] \<or> blk_TxMerkleRoot b = CalculateMerkleRoot C (blk_Transactions b)) \<and>
    distinct (map tx_ID (blk_Transactions b)) \<and>
    (\<forall>tx \<in> set (blk_Transactions b). tx_ID tx \<noteq> [] \<and> tx_ChainID tx = bc_ChainID bc \<and> VerifyTransaction C tx \<and>
       \<not> isReplay tx bc \<and> has_key (bc_Ledger bc) (tx_From tx) \<and>
       (tx_TxType tx = Transfer \<or> tx_TxType tx = PurchaseApiKey \<longrightarrow>
          (\<exists>ac. fmlookup (bc_Ledger bc) (tx_From tx) = Some ac \<and> tx_Amount tx \<le> acct_Balance ac)))"
  using assms validateTransaction_facts validateTransaction_funds
  by (auto simp: validateBlock_Ok validate_txs_Ok)

text \<open>A node with a signed payment and a valid block that holds it.\<close>

definition demo_wallet :: Wallet where
  "demo_wallet = \<lparr>w_PublicKey = fit 32 ''k'', w_PrivateKey = ''k''\<rparr>"

definition demo_addr :: string where
  "demo_addr = wallet_Address demo_crypto demo_wallet"

definition demo_bank :: Blockchain where
  "demo_bank = demo_node\<lparr>bc_Ledger := fmupd demo_addr (demo_account demo_addr 100 0)
     (fmupd ''a'' (demo_account ''a'' 50 0) fmempty), bc_ChainID := ''c'', bc_UsedNonces := fmempty, bc_NextNonce := fmempty\<rparr>"

definition demo_payment :: Transaction where
  "demo_payment = wallet_Sign demo_crypto 7 demo_wallet (demo_tx\<lparr>tx_From := demo_addr, tx_To := ''a''\<rparr>)"

definition demo_next :: Block where
  "demo_next = (let b = demo_block\<lparr>blk_Index := 1, blk_PreviousHash := TailHash demo_bank, blk_Transactions := [demo_payment]\<rparr>
     in b\<lparr>blk_BlockHash := calculateHash demo_crypto b\<rparr>)"

lemma demo_bank_fields:
  "bc_Ledger demo_bank = fmupd demo_addr (demo_account demo_addr 100 0) (fmupd ''a'' (demo_account ''a'' 50 0) fmempty)"
  "bc_ChainID demo_bank = ''c''" "bc_UsedNonces demo_bank = fmempty" "bc_NextNonce demo_bank = fmempty"
  "bc_Consensus demo_bank = ProofOfWork" "length (bc_Chain demo_bank) = 1" "bc_Chain demo_bank \<noteq> []"
  "blk_Index (last (bc_Chain demo_bank)) = 0"
  by (simp_all add: demo_bank_def demo_node_def demo_chain_def createGenesisBlock_def empty_Blockchain_def Let_def)

lemma demo_payment_fields:
  "tx_From demo_payment = demo_addr" "tx_To demo_payment = ''a''" "tx_Amount demo_payment = 5" "tx_Nonce demo_payment = 2"
  "tx_TxType demo_payment = Transfer" "tx_ChainID demo_payment = ''c''" "tx_ID demo_payment \<noteq> []"
proof -
  have "fit 32 s \<noteq> []" for s by (metis length_fit list.size(3) zero_neq_numeral)
  then show "tx_ID demo_payment \<noteq> []"
    by (simp add: demo_payment_def wallet_Sign_def Let_def demo_crypto_def)
qed (simp_all add: demo_payment_def wallet_Sign_def Let_def demo_tx_def)

lemma demo_payment_valid: "validateTransaction demo_crypto demo_payment demo_bank"
proof -
  have "VerifyTransaction demo_crypto demo_payment"
    unfolding demo_payment_def
    by (rule wallet_Sign_ok [OF crypto_ok_demo]) (simp_all add: demo_wallet_def demo_crypto_def demo_tx_def demo_addr_def)
  then show ?thesis
    by (simp add: validateTransaction_def demo_payment_fields demo_bank_fields isReplay_def isAITransaction_def demo_account_def)
qed

lemma demo_next_valid: "validateBlock demo_crypto demo_next (last (bc_Chain demo_bank)) demo_bank = Ok ()"
proof -
  have "blk_Transactions demo_next = [demo_payment]" "blk_Index demo_next = 1" "blk_PreviousHash demo_next = TailHash demo_bank"
    "blk_BlockHash demo_next = calculateHash demo_crypto demo_next" "blk_TxMerkleRoot demo_next = blk_TxMerkleRoot demo_block"
    by (simp_all add: demo_next_def Let_def)
  then show ?thesis
    using calculateHash_nonempty [OF crypto_ok_demo, of demo_next]
    by (simp add: validateBlock_Ok validate_txs_Ok demo_bank_fields demo_payment_valid demo_payment_fields TailHash_def)
      (simp add: demo_block_def)
qed

theorem validateBlock_sound_witness:
  "blk_Index demo_next = blk_Index (last (bc_Chain demo_bank)) + 1 \<and> distinct (map tx_ID (blk_Transactions demo_next))"
  using validateBlock_sound [OF demo_next_valid] by blast

section \<open>Valid chains\<close>

lemma validate_links_snoc:
  "validate_links C bc (bs @ [p, b]) = Ok () \<longleftrightarrow> validate_links C bc (bs @ [p]) = Ok () \<and> validateBlock C b p bc = Ok ()"
proof (induction bs)
  case Nil
  then show ?case by (auto simp: go_bind_Ok_iff)
next
  case (Cons x bs)
  then show ?case by (cases bs) (auto simp: go_bind_Ok_iff)
qed

lemma validate_links_member:
  "validate_links C bc bs = Ok () \<Longrightarrow> b \<in> set (tl bs) \<Longrightarrow> \<exists>p. validateBlock C b p bc = Ok ()"
  by (induction C bc bs rule: validate_links.induct) (auto simp: go_bind_Ok_iff)

lemma validateChain_Ok:
  "validateChain C chain bc = Ok () \<longleftrightarrow> chain \<noteq> [] \<and> blk_Index (hd chain) = 0 \<and> validate_links C bc chain = Ok ()"
  by (auto simp: validateChain_def split: list.splits)

text \<open>Two different blocks with one hash: a collision of the hash of their encodings, or two blocks with
  the same encoding.\<close>

definition hash_clash :: "crypto \<Rightarrow> Block list \<Rightarrow> Block list \<Rightarrow> bool" where
  "hash_clash C c c' \<longleftrightarrow> (\<exists>b \<in> set c. \<exists>b' \<in> set c'. b \<noteq> b' \<and> calculateHash C b = calculateHash C b')"

lemma links_tamper:
  assumes "length c = length c'" "c \<noteq> []" "validate_links C bc c = Ok ()" "validate_links C bc' c' = Ok ()"
    "blk_BlockHash (last c) = blk_BlockHash (last c')"
  shows "(tl c = tl c' \<and> blk_BlockHash (hd c) = blk_BlockHash (hd c')) \<or> hash_clash C c c'"
  using assms
proof (induction c arbitrary: c' rule: rev_induct)
  case (snoc b bs)
  then obtain b' bs' where c': "c' = bs' @ [b']" and len: "length bs = length bs'"
    by (cases c' rule: rev_cases) auto
  show ?case
  proof (cases bs rule: rev_cases)
    case Nil
    with snoc.prems c' len show ?thesis by simp
  next
    case (snoc ps p)
    with len obtain ps' p' where bs': "bs' = ps' @ [p']" by (cases bs' rule: rev_cases) auto
    have v: "validate_links C bc bs = Ok ()" "validateBlock C b p bc = Ok ()"
        "validate_links C bc' bs' = Ok ()" "validateBlock C b' p' bc' = Ok ()"
      using snoc.prems(3,4) validate_links_snoc [of C bc ps p b] validate_links_snoc [of C bc' ps' p' b']
      by (auto simp: c' bs' snoc)
    show ?thesis
    proof (cases "b = b'")
      case True
      then have "blk_BlockHash (last bs) = blk_BlockHash (last bs')"
        using v by (auto simp: validateBlock_Ok snoc bs')
      then have "(tl bs = tl bs' \<and> blk_BlockHash (hd bs) = blk_BlockHash (hd bs')) \<or> hash_clash C bs bs'"
        using snoc.IH [OF len _ v(1,3)] snoc by simp
      moreover have "bs \<noteq> []" "bs' \<noteq> []" by (simp_all add: snoc bs')
      moreover have "hash_clash C bs bs' \<Longrightarrow> hash_clash C (bs @ [b]) (bs' @ [b'])"
        unfolding hash_clash_def by auto
      ultimately show ?thesis using True by (auto simp: c')
    next
      case False
      then have "calculateHash C b = calculateHash C b'"
        using v snoc.prems(5) by (auto simp: validateBlock_Ok c')
      with False show ?thesis by (auto simp: hash_clash_def c')
    qed
  qed
qed simp

text \<open>C5. The chain is tamper evident: two valid chains of the same length that end in the same block
  hash hold the same blocks from the first one after the genesis block on, and genesis blocks with
  the same hash field, unless they exhibit two different blocks with one hash. This holds
  whatever the states of the nodes that validated them.\<close>

theorem chain_tamper_evident:
  assumes "validateChain C c bc = Ok ()" "validateChain C c' bc' = Ok ()" "length c = length c'"
    and "blk_BlockHash (last c) = blk_BlockHash (last c')"
  shows "(tl c = tl c' \<and> blk_BlockHash (hd c) = blk_BlockHash (hd c')) \<or> hash_clash C c c'"
  using assms by (intro links_tamper) (auto simp: validateChain_Ok)

lemma demo_chain_valid: "validateChain demo_crypto (bc_Chain demo_bank @ [demo_next]) demo_bank = Ok ()"
proof -
  obtain g where g: "bc_Chain demo_bank = [g]"
    using demo_bank_fields(6) by (cases "bc_Chain demo_bank") auto
  then show ?thesis
    using demo_next_valid demo_bank_fields(8) by (simp add: validateChain_Ok)
qed

theorem chain_tamper_evident_witness:
  "(tl (bc_Chain demo_bank @ [demo_next]) = tl (bc_Chain demo_bank @ [demo_next]) \<and>
      blk_BlockHash (hd (bc_Chain demo_bank @ [demo_next])) = blk_BlockHash (hd (bc_Chain demo_bank @ [demo_next]))) \<or>
    hash_clash demo_crypto (bc_Chain demo_bank @ [demo_next]) (bc_Chain demo_bank @ [demo_next])"
  by (rule chain_tamper_evident [of _ _ demo_bank _ demo_bank]) (simp_all add: demo_chain_valid)

section \<open>Applying a block\<close>

lemma mark_frame [simp]:
  "bc_Ledger (markTransactionUsed tx bc) = bc_Ledger bc" "bc_Ledger (markTransactionSeen tx bc) = bc_Ledger bc"
  "bc_Registry (markTransactionUsed tx bc) = bc_Registry bc" "bc_Registry (markTransactionSeen tx bc) = bc_Registry bc"
  "bc_TokenSupply (markTransactionUsed tx bc) = bc_TokenSupply bc" "bc_TokenSupply (markTransactionSeen tx bc) = bc_TokenSupply bc"
  "bc_Chain (markTransactionUsed tx bc) = bc_Chain bc" "bc_Chain (markTransactionSeen tx bc) = bc_Chain bc"
  "bc_UsedNonces (markTransactionSeen tx bc) = bc_UsedNonces bc" "bc_NextNonce (markTransactionSeen tx bc) = bc_NextNonce bc"
  "bc_PendingReversals (markTransactionUsed tx bc) = bc_PendingReversals bc"
  "bc_PendingReversals (markTransactionSeen tx bc) = bc_PendingReversals bc"
  by (simp_all add: markTransactionUsed_def markTransactionSeen_def Let_def)

lemma markUsed_cong:
  "bc_UsedNonces b = bc_UsedNonces bc \<Longrightarrow> bc_UsedNonces (markTransactionUsed tx b) = bc_UsedNonces (markTransactionUsed tx bc)"
  "bc_NextNonce b = bc_NextNonce bc \<Longrightarrow> bc_NextNonce (markTransactionUsed tx b) = bc_NextNonce (markTransactionUsed tx bc)"
  by (simp_all add: markTransactionUsed_used next_mark)

lemma apply_tx_frame:
  "bc_UsedNonces (apply_tx tx bc) = bc_UsedNonces (markTransactionUsed tx bc)"
  "bc_NextNonce (apply_tx tx bc) = bc_NextNonce (markTransactionUsed tx bc)"
  "bc_TokenSupply (apply_tx tx bc) = bc_TokenSupply bc" "bc_Chain (apply_tx tx bc) = bc_Chain bc"
  by (simp_all add: apply_tx_def Let_def markTransactionUsed_used next_mark)

lemma process_reversal_frame [simp]:
  "bc_UsedNonces (process_reversal E tx bc) = bc_UsedNonces bc" "bc_NextNonce (process_reversal E tx bc) = bc_NextNonce bc"
  "bc_TokenSupply (process_reversal E tx bc) = bc_TokenSupply bc" "bc_Chain (process_reversal E tx bc) = bc_Chain bc"
  by (auto simp: process_reversal_def split: option.splits)

lemma process_reversals_frame [simp]:
  "bc_UsedNonces (fold (process_reversal E) txs bc) = bc_UsedNonces bc"
  "bc_NextNonce (fold (process_reversal E) txs bc) = bc_NextNonce bc"
  "bc_TokenSupply (fold (process_reversal E) txs bc) = bc_TokenSupply bc"
  "bc_Chain (fold (process_reversal E) txs bc) = bc_Chain bc"
  by (induction txs arbitrary: bc) simp_all

lemma nonce_used_cong: "bc_UsedNonces b = bc_UsedNonces bc \<Longrightarrow> nonce_used b tx = nonce_used bc tx"
  by (simp add: nonce_used_def)

interpretation applied: replay_guard nonce_used apply_tx
proof unfold_locales
  fix k k' bc
  show "nonce_used (apply_tx k bc) k"
    using nonces.mark_seen nonce_used_cong [OF apply_tx_frame(1)] by blast
  show "nonce_used bc k \<Longrightarrow> nonce_used (apply_tx k' bc) k"
    using nonces.mark_mono nonce_used_cong [OF apply_tx_frame(1)] by blast
qed

lemma applyBlock_used: "tx \<in> set (blk_Transactions b) \<Longrightarrow> nonce_used (applyBlock E b bc) tx"
  using applied.marked_all [of tx "blk_Transactions b" bc]
  by (simp add: applyBlock_def ProcessReversals_def nonce_used_cong [OF process_reversals_frame(1)])

lemma guarded_pay_total:
  "total_balance L < 2 ^ 64 \<Longrightarrow> total_balance (guarded_pay a b v L) = total_balance L"
  using ledger.pay_total [of L] by (auto simp: guarded_pay_def balance_of_def split: option.splits)

lemma guarded_pay_staked: "total_staked (guarded_pay a b v L) = total_staked L"
  by (auto simp: guarded_pay_def split: option.splits)

lemma guarded_pay_refines:
  assumes "total_balance L < 2 ^ 64"
  shows "(\<lambda>x. map_option unat (balance_of (guarded_pay a b v L) x)) = spec_transfer a b (unat v) (\<lambda>x. map_option unat (balance_of L x))"
proof (cases "\<exists>s t. fmlookup L a = Some s \<and> fmlookup L b = Some t \<and> v \<le> acct_Balance s")
  case True
  then obtain s t where st: "fmlookup L a = Some s" "fmlookup L b = Some t" "v \<le> acct_Balance s" by blast
  then show ?thesis
    using ledger.pay_refines [of L a "acct_Balance s" b "acct_Balance t" v] assms
    by (simp add: guarded_pay_def balance_of_def)
next
  case False
  then show ?thesis
    by (auto simp: guarded_pay_def balance_of_def spec_transfer_def word_le_nat_alt split: option.splits)
qed

text \<open>C2. The effect of a transaction on the balances refines the abstract specification: a transfer
  moves the amount from the sender to the recipient, the purchase of an API key moves it to the
  owner of the model, every other type leaves all balances alone; the 64-bit balances never wrap
  around as long as their sum fits in 64 bits.\<close>

theorem apply_tx_refines_spec:
  assumes "total_balance (bc_Ledger bc) < 2 ^ 64"
  shows "(\<lambda>x. map_option unat (balance_of (bc_Ledger (apply_tx tx bc)) x)) =
    (if tx_TxType tx = Transfer then spec_transfer (tx_From tx) (tx_To tx) (unat (tx_Amount tx))
     else if tx_TxType tx = PurchaseApiKey
     then spec_transfer (tx_From tx) (mr_Owner (map_get zero_ModelRef (bc_Registry bc) (tx_To tx))) (unat (tx_Amount tx))
     else (\<lambda>m. m)) (\<lambda>x. map_option unat (balance_of (bc_Ledger bc) x))"
  using guarded_pay_refines [OF assms]
  by (simp add: apply_tx_def Let_def)

theorem apply_tx_refines_spec_witness:
  "(\<lambda>x. map_option unat (balance_of (bc_Ledger (apply_tx (demo_tx\<lparr>tx_From := ''a'', tx_To := ''v''\<rparr>) demo_node)) x)) =
    spec_transfer ''a'' ''v'' 5 (\<lambda>x. map_option unat (balance_of (bc_Ledger demo_node) x))"
  using apply_tx_refines_spec [of demo_node "demo_tx\<lparr>tx_From := ''a'', tx_To := ''v''\<rparr>"]
  by (simp add: demo_node_wealth) (simp add: demo_tx_def)

lemma apply_tx_total:
  "total_balance (bc_Ledger bc) < 2 ^ 64 \<Longrightarrow> total_balance (bc_Ledger (apply_tx tx bc)) = total_balance (bc_Ledger bc)"
  by (simp add: apply_tx_def Let_def guarded_pay_total)

lemma apply_txs_total:
  "total_balance (bc_Ledger bc) < 2 ^ 64 \<Longrightarrow> total_balance (bc_Ledger (fold apply_tx txs bc)) = total_balance (bc_Ledger bc)"
  by (induction txs arbitrary: bc) (simp_all add: apply_tx_total)

lemma apply_txs_frame:
  "bc_TokenSupply (fold apply_tx txs bc) = bc_TokenSupply bc" "bc_Chain (fold apply_tx txs bc) = bc_Chain bc"
  by (induction txs arbitrary: bc) (simp_all add: apply_tx_frame)

lemma apply_txs_wrap:
  "total_balance (bc_Ledger (fold apply_tx txs bc)) \<le> total_balance (bc_Ledger bc) \<and>
   total_balance (bc_Ledger (fold apply_tx txs bc)) mod 2 ^ 64 = total_balance (bc_Ledger bc) mod 2 ^ 64"
proof (induction txs arbitrary: bc)
  case (Cons tx txs)
  have "total_balance (guarded_pay a b v L) \<le> total_balance L \<and> total_balance (guarded_pay a b v L) mod 2 ^ 64 = total_balance L mod 2 ^ 64" for a b v L
    using ledger.pay_total_wrap [of L] by (auto simp: guarded_pay_def balance_of_def split: option.splits)
  then have "total_balance (bc_Ledger (apply_tx tx bc)) \<le> total_balance (bc_Ledger bc) \<and>
      total_balance (bc_Ledger (apply_tx tx bc)) mod 2 ^ 64 = total_balance (bc_Ledger bc) mod 2 ^ 64"
    by (simp add: apply_tx_def Let_def)
  with Cons.IH [of "apply_tx tx bc"] show ?case by simp
qed simp

lemma applyBlock_wrap:
  "total_balance (bc_Ledger (applyBlock E b bc)) \<le> total_balance (bc_Ledger bc)"
  "total_balance (bc_Ledger (applyBlock E b bc)) mod 2 ^ 64 = total_balance (bc_Ledger bc) mod 2 ^ 64"
  using process_reversals_wrap [of E "blk_Transactions b" "fold apply_tx (blk_Transactions b) bc"] apply_txs_wrap [of "blk_Transactions b" bc]
  by (simp_all add: applyBlock_def ProcessReversals_def)

text \<open>C1. Applying a block creates no money, whatever transactions it holds, valid or not: the sum of all balances does not grow, it stays the same modulo
  \<open>2\<^sup>6\<^sup>4\<close>, and it stays exactly the same when it fits in 64 bits before. The condition is needed: a credit is not checked for overflow, so that beyond it a payment can
  destroy \<open>2\<^sup>6\<^sup>4\<close> units. The token supply never changes.\<close>

theorem applyBlock_conserves:
  "total_balance (bc_Ledger (applyBlock E b bc)) \<le> total_balance (bc_Ledger bc) \<and>
   total_balance (bc_Ledger (applyBlock E b bc)) mod 2 ^ 64 = total_balance (bc_Ledger bc) mod 2 ^ 64 \<and>
   (total_balance (bc_Ledger bc) < 2 ^ 64 \<longrightarrow> total_balance (bc_Ledger (applyBlock E b bc)) = total_balance (bc_Ledger bc)) \<and>
   bc_TokenSupply (applyBlock E b bc) = bc_TokenSupply bc"
  using applyBlock_wrap [of E b bc]
  by (simp add: applyBlock_def ProcessReversals_def process_reversals_total apply_txs_total apply_txs_frame)

theorem applyBlock_conserves_witness:
  "total_balance (bc_Ledger (applyBlock demo_env (demo_block\<lparr>blk_Transactions := [demo_tx\<lparr>tx_From := ''a'', tx_To := ''v''\<rparr>]\<rparr>) demo_node)) = 1003"
  using applyBlock_conserves [of demo_env "demo_block\<lparr>blk_Transactions := [demo_tx\<lparr>tx_From := ''a'', tx_To := ''v''\<rparr>]\<rparr>" demo_node] by (simp add: demo_node_wealth)

lemma apply_txs_nonces:
  "nonces_inv bc \<Longrightarrow> \<forall>tx \<in> set txs. tx_Nonce tx < - 1 \<Longrightarrow> nonces_inv (fold apply_tx txs bc)"
proof (induction txs arbitrary: bc)
  case (Cons tx txs)
  have "nonces_inv (markTransactionUsed tx bc)"
    using Cons.prems by (intro markTransactionUsed_nonces_inv) auto
  then have "nonces_inv (apply_tx tx bc)"
    by (simp add: nonces_inv_def used_max_def apply_tx_frame)
  with Cons show ?case by simp
qed simp

text \<open>Applying a block keeps the nonce tables consistent, so that a restart restores the next nonces
  exactly, provided no transaction uses the largest 64-bit nonce.\<close>

theorem applyBlock_keeps_nonces:
  assumes "nonces_inv bc" and "\<forall>tx \<in> set (blk_Transactions b). tx_Nonce tx < - 1"
  shows "nonces_inv (applyBlock E b bc) \<and>
    restoreNonces (bc_UsedNonces (applyBlock E b bc)) (bc_NextNonce (applyBlock E b bc)) = bc_NextNonce (applyBlock E b bc)"
proof -
  have "nonces_inv (applyBlock E b bc)"
    using apply_txs_nonces [OF assms]
    by (simp add: applyBlock_def ProcessReversals_def nonces_inv_def used_max_def)
  then show ?thesis using nonces_inv_ok restoreNonces_id by blast
qed

theorem applyBlock_keeps_nonces_witness:
  "nonces_inv (applyBlock demo_env demo_next demo_bank)"
proof -
  have "nonces_inv demo_bank"
    by (simp add: nonces_inv_def used_max_def demo_bank_fields maxNonce_def word_less_nat_alt unsigned_minus_1_eq_mask mask_eq_exp_minus_1)
  moreover have "blk_Transactions demo_next = [demo_payment]"
    by (simp add: demo_next_def Let_def)
  ultimately show ?thesis
    using applyBlock_keeps_nonces [of demo_bank demo_next demo_env] by (simp add: demo_payment_fields)
qed

section \<open>Replay across blocks and chains\<close>

text \<open>C12. No replay across blocks: after a block is applied, no block is valid that holds a transaction
  of the same sender with one of its positive nonces, and no chain that holds such a block after its
  first one is adopted.\<close>

theorem applied_nonce_is_rejected:
  assumes "tx \<in> set (blk_Transactions b)" "0 < tx_Nonce tx"
    and "tx' \<in> set (blk_Transactions b')" "tx_From tx' = tx_From tx" "tx_Nonce tx' = tx_Nonce tx"
  shows "validateBlock C b' prev (applyBlock E b bc) \<noteq> Ok () \<and>
    (b' \<in> set (tl chain) \<longrightarrow> ReplaceChain C E' chain (applyBlock E b bc) = (applyBlock E b bc, False))"
proof -
  let ?bc = "applyBlock E b bc"
  have "nonce_used ?bc tx'"
    using applyBlock_used [OF assms(1), of E bc] assms(4,5) by (simp add: nonce_used_def)
  then have "isReplay tx' ?bc"
    using assms(2,5) by (intro nonce_used_isReplay) simp_all
  then have bad: "validateBlock C b' p ?bc \<noteq> Ok ()" for p
    using assms(3) validateTransaction_facts by (fastforce simp: validateBlock_Ok validate_txs_Ok)
  then have "b' \<in> set (tl chain) \<Longrightarrow> validateChain C chain ?bc \<noteq> Ok ()"
    using validate_links_member by (fastforce simp: validateChain_Ok)
  with bad show ?thesis by (simp add: ReplaceChain_def)
qed

theorem applied_nonce_is_rejected_witness:
  "validateBlock demo_crypto demo_next (last (bc_Chain demo_bank)) (applyBlock demo_env demo_next demo_bank) \<noteq> Ok ()"
proof -
  have "blk_Transactions demo_next = [demo_payment]"
    by (simp add: demo_next_def Let_def)
  then show ?thesis
    using applied_nonce_is_rejected [of demo_payment demo_next demo_payment demo_next] by (simp add: demo_payment_fields)
qed

text \<open>No check looks at the identifier.\<close>

lemma tx_ID_update:
  "tx_From (tx\<lparr>tx_ID := i\<rparr>) = tx_From tx" "tx_FromPubKey (tx\<lparr>tx_ID := i\<rparr>) = tx_FromPubKey tx"
  "tx_To (tx\<lparr>tx_ID := i\<rparr>) = tx_To tx" "tx_Amount (tx\<lparr>tx_ID := i\<rparr>) = tx_Amount tx"
  "tx_Nonce (tx\<lparr>tx_ID := i\<rparr>) = tx_Nonce tx" "tx_TxType (tx\<lparr>tx_ID := i\<rparr>) = tx_TxType tx"
  "tx_Payload (tx\<lparr>tx_ID := i\<rparr>) = tx_Payload tx" "tx_Signature (tx\<lparr>tx_ID := i\<rparr>) = tx_Signature tx"
  "tx_ChainID (tx\<lparr>tx_ID := i\<rparr>) = tx_ChainID tx"
  by simp_all

lemma validateTransaction_id: "validateTransaction C (tx\<lparr>tx_ID := i\<rparr>) bc = validateTransaction C tx bc"
  unfolding validateTransaction_def VerifyTransaction_def CanonicalSigningBytes_cong isReplay_def
    validateRequestReversal_def validateConfirmReversal_def validateCommitReversal_def tx_ID_update
  by (rule refl)

text \<open>Within one block there is no such protection: a valid transaction and its copy under another
  identifier, which the signature does not cover, pass the checks of a block together, and when the
  block is applied the payment is made twice.\<close>

theorem copy_in_block_is_paid_twice:
  assumes "validate_txs C bc {||} [tx] = Ok ()" and "tx_TxType tx = Transfer" "tx_From tx \<noteq> tx_To tx"
    and "copyID \<noteq> []" "copyID \<noteq> tx_ID tx"
    and "fmlookup (bc_Ledger bc) (tx_From tx) = Some ac" "2 * unat (tx_Amount tx) \<le> unat (acct_Balance ac)"
  shows "validate_txs C bc {||} [tx, tx\<lparr>tx_ID := copyID\<rparr>] = Ok () \<and>
    balance_of (bc_Ledger (fold apply_tx [tx, tx\<lparr>tx_ID := copyID\<rparr>] bc)) (tx_From tx) =
      Some (acct_Balance ac - 2 * tx_Amount tx)"
proof -
  have v: "validateTransaction C tx bc" "tx_ID tx \<noteq> []"
    using assms(1) unfolding validate_txs_Ok by simp_all
  then have ok: "validate_txs C bc {||} [tx, tx\<lparr>tx_ID := copyID\<rparr>] = Ok ()"
    using assms(4,5) unfolding validate_txs_Ok by (simp add: validateTransaction_id)
  obtain t where t: "fmlookup (bc_Ledger bc) (tx_To tx) = Some t"
    using v(1) assms(2,6) by (auto simp: validateTransaction_def has_key_iff split: if_splits)
  have le: "tx_Amount tx \<le> acct_Balance ac" using assms(7) by (simp add: word_le_nat_alt)
  have "unat (acct_Balance ac - tx_Amount tx) = unat (acct_Balance ac) - unat (tx_Amount tx)"
    by (rule unat_sub_no_wrap [OF le])
  then have "tx_Amount tx \<le> acct_Balance ac - tx_Amount tx" using assms(7) by (simp add: word_le_nat_alt)
  with ok le t assms(2,3,6) show ?thesis
    by (simp add: apply_tx_def Let_def guarded_pay_def account_ops modify_account_lookup balance_of_def)
qed

theorem copy_in_block_is_paid_twice_witness:
  "validate_txs demo_crypto demo_bank {||} [demo_payment, demo_payment\<lparr>tx_ID := ''copy''\<rparr>] = Ok () \<and>
   balance_of (bc_Ledger (fold apply_tx [demo_payment, demo_payment\<lparr>tx_ID := ''copy''\<rparr>] demo_bank)) demo_addr = Some 90"
proof -
  have "length demo_addr = 64" "length (tx_ID demo_payment) = 64"
    by (simp_all add: demo_addr_def wallet_Address_def demo_payment_def wallet_Sign_def Let_def demo_crypto_def)
  moreover have "length ''a'' \<noteq> 64" "length ''copy'' \<noteq> 64" by simp_all
  ultimately have "demo_addr \<noteq> ''a''" "''copy'' \<noteq> tx_ID demo_payment" by metis+
  then show ?thesis
    using copy_in_block_is_paid_twice [of demo_crypto demo_bank demo_payment "''copy''" "demo_account demo_addr 100 0"]
    by (simp add: demo_payment_fields demo_payment_valid demo_bank_fields validate_txs_Ok demo_account_def)
qed

section \<open>Adopting a chain\<close>

text \<open>A chain from a peer is adopted only when it is valid and strictly longer; otherwise nothing
  changes. When it is adopted the accounts, the registry and the nonces stay as they were: the
  blocks are not applied.\<close>

theorem ReplaceChain_effect:
  "case ReplaceChain C E chain bc of (bc', adopted) \<Rightarrow>
    (adopted \<longleftrightarrow> validateChain C chain bc = Ok () \<and> length (bc_Chain bc) < length chain) \<and>
    (if adopted then bc_Chain bc' = chain \<and> bc_Ledger bc' = bc_Ledger bc \<and> bc_Registry bc' = bc_Registry bc \<and>
       bc_UsedNonces bc' = bc_UsedNonces bc \<and> bc_NextNonce bc' = bc_NextNonce bc
     else bc' = bc)"
  by (auto simp: ReplaceChain_def Let_def SaveToDisk_def split: go.splits option.splits)

section \<open>Difficulty\<close>

text \<open>The difficulty stays between 0 and 64 and moves by at most one step at a time; under proof of
  stake it does not move.\<close>

theorem adjustDifficulty_bounds:
  assumes "bc_Difficulty bc \<le> 64"
  shows "bc_Difficulty (adjustDifficulty bc) \<le> 64 \<and>
    unat (bc_Difficulty (adjustDifficulty bc)) \<le> unat (bc_Difficulty bc) + 1 \<and>
    unat (bc_Difficulty bc) \<le> unat (bc_Difficulty (adjustDifficulty bc)) + 1 \<and>
    (bc_Consensus bc = ProofOfStake \<longrightarrow> adjustDifficulty bc = bc)"
proof -
  have le: "unat (bc_Difficulty bc) \<le> 64" using assms by (simp add: word_le_nat_alt)
  have up: "unat (bc_Difficulty bc + 1) = unat (bc_Difficulty bc) + 1"
    using le by (simp add: unat_word_ariths)
  have down: "unat (bc_Difficulty bc - 1) = unat (bc_Difficulty bc) - 1" "0 < unat (bc_Difficulty bc)" if "0 < bc_Difficulty bc"
    using that unat_minus_one [of "bc_Difficulty bc"] by (simp_all add: word_gt_0 unat_gt_0)
  show ?thesis
    using le up down
    by (auto simp: adjustDifficulty_def Let_def word_le_nat_alt word_less_nat_alt)
qed

theorem adjustDifficulty_bounds_witness:
  "bc_Difficulty (adjustDifficulty demo_chain) \<le> 64"
  using adjustDifficulty_bounds [of demo_chain]
  by (simp add: demo_chain_def createGenesisBlock_def empty_Blockchain_def Let_def)

end
