(* ===== verification/Miner_Rewards.thy ===== *)
theory Miner_Rewards
  imports Ledger
begin

text \<open>
  The rewards of miners (\<open>MineRewardFor\<close>, \<open>RecordMinerSubmission\<close>, \<open>NoteMinedBlock\<close>, \<open>minerDifficulty\<close> of
  \<open>blockchain.go\<close>) and the part of Go's calendar that they use: the year and the month of a Unix
  time in UTC (package \<open>time\<close>, proleptic Gregorian calendar).
\<close>

section \<open>The calendar\<close>

text \<open>Days from 1 January of the year 1 to 1 January of the year \<open>y\<close>, and the year of a day, counted
  from there. 719162 days lie between the years 1 and 1970.\<close>

definition days_before_year :: "int \<Rightarrow> int" where
  "days_before_year y = 365 * (y - 1) + (y - 1) div 4 - (y - 1) div 100 + (y - 1) div 400"

definition year_of_day :: "int \<Rightarrow> int" where
  "year_of_day n =
     (let y = n * 400 div 146097 + 1 in
      if n < days_before_year y then y - 1
      else if days_before_year (y + 1) \<le> n then y + 1 else y)"

definition is_leap :: "int \<Rightarrow> bool" where
  "is_leap y \<longleftrightarrow> y mod 4 = 0 \<and> (y mod 100 \<noteq> 0 \<or> y mod 400 = 0)"

text \<open>The month of a day of the year: one more than the number of months that have ended.\<close>

definition month_of_day :: "int \<Rightarrow> int" where
  "month_of_day n =
     (let y = year_of_day n; d = n - days_before_year y; l = (if is_leap y then 1 else 0)
      in 1 + int (length (filter (\<lambda>e. e \<le> d)
           (31 # map (\<lambda>e. e + l) [59, 90, 120, 151, 181, 212, 243, 273, 304, 334]))))"

definition unix_day :: "i64 \<Rightarrow> int" where
  "unix_day ts = sint ts div 86400 + 719162"

definition monthIdentifier :: "i64 \<Rightarrow> int" where
  "monthIdentifier ts = year_of_day (unix_day ts) * 12 + month_of_day (unix_day ts)"

definition yearIdentifier :: "i64 \<Rightarrow> int" where
  "yearIdentifier ts = year_of_day (unix_day ts)"

definition yearEndTimestamp :: "i64 \<Rightarrow> i64" where
  "yearEndTimestamp ts = word_of_int ((days_before_year (year_of_day (unix_day ts) + 1) - 719162) * 86400)"

lemma year_of_day_bounds:
  "days_before_year (year_of_day n) \<le> n" "n < days_before_year (year_of_day n + 1)"
proof -
  have fl: "k - 3 \<le> 4 * (k div 4)" "4 * (k div 4) \<le> k" "k - 99 \<le> 100 * (k div 100)" "100 * (k div 100) \<le> k"
    "k - 399 \<le> 400 * (k div 400)" "400 * (k div 400) \<le> k" for k :: int
    by linarith+
  have approx: "400 * days_before_year (k + 1) \<le> 146097 * k + 399" "146097 * k - 799 \<le> 400 * days_before_year (k + 1)" for k
    using fl [of k] by (auto simp: days_before_year_def)
  define q where "q = n * 400 div 146097"
  have q: "146097 * q \<le> n * 400" "n * 400 < 146097 * q + 146097"
    by (auto simp: q_def)
  show "days_before_year (year_of_day n) \<le> n" "n < days_before_year (year_of_day n + 1)"
    using approx [of q] approx [of "q - 1"] approx [of "q + 1"] approx [of "q + 2"] q
    by (auto simp: year_of_day_def Let_def q_def [symmetric])
qed

lemma year_length: "days_before_year (y + 1) \<le> days_before_year y + 367"
proof -
  have "(k + 1) div 4 \<le> k div 4 + 1" "(k + 1) div 400 \<le> k div 400 + 1" "k div 100 \<le> (k + 1) div 100" for k :: int
    by linarith+
  from this [of "y - 1"] show ?thesis by (simp add: days_before_year_def)
qed

lemma sint_yearEnd:
  assumes "0 < sint ts" "sint ts < 2 ^ 62"
  shows "sint (yearEndTimestamp ts) = (days_before_year (yearIdentifier ts + 1) - 719162) * 86400"
    and "sint ts < sint (yearEndTimestamp ts)"
proof -
  let ?x = "(days_before_year (yearIdentifier ts + 1) - 719162) * 86400"
  have d: "unix_day ts - 719162 = sint ts div 86400"
    by (simp add: unix_day_def)
  have "unix_day ts < days_before_year (yearIdentifier ts + 1)"
    "days_before_year (yearIdentifier ts + 1) \<le> unix_day ts + 367"
    using year_of_day_bounds [of "unix_day ts"] year_length [of "yearIdentifier ts"]
    by (auto simp: yearIdentifier_def)
  then have "sint ts < ?x" "?x \<le> sint ts + 367 * 86400"
    using d by auto
  moreover from this have "sint (word_of_int ?x :: i64) = ?x"
    using assms by (intro sint_of_int) auto
  ultimately show "sint (yearEndTimestamp ts) = ?x" "sint ts < sint (yearEndTimestamp ts)"
    by (simp_all add: yearEndTimestamp_def yearIdentifier_def)
qed

section \<open>Operations\<close>

definition oneWeekSeconds :: i64 where [go_defs]: "oneWeekSeconds = 604800"
definition twoWeekSeconds :: i64 where [go_defs]: "twoWeekSeconds = 1209600"

definition new_stats :: "string \<Rightarrow> MinerStats" where
  "new_stats miner = \<lparr>ms_Address = miner, ms_BlocksSubmitted = 0, ms_LastSubmissionTime = 0,
     ms_SubmittedLastHour = 0, ms_PersonalDifficulty = 0, ms_AcceleratorCount = 0, ms_LastRewardBlock = 0,
     ms_CurrentMonth = 0, ms_CurrentYear = 0, ms_MonthlyRewards = 0, ms_YearlyRewards = 0,
     ms_YearlyPauseUntil = 0\<rparr>"

text \<open>The statistics of a miner, created when missing.\<close>

definition stats_of :: "string \<Rightarrow> Blockchain \<Rightarrow> MinerStats" where
  "stats_of miner bc = map_get (new_stats miner) (bc_MinerStats bc) miner"

text \<open>The resets at the beginning of \<open>MineRewardFor\<close> for a new year and a new month.\<close>

definition roll_calendar :: "i64 \<Rightarrow> u32 \<Rightarrow> MinerStats \<Rightarrow> MinerStats" where
  "roll_calendar now difficulty stats =
     (let currentMonth = monthIdentifier now;
          currentYear = yearIdentifier now;
          stats = (if ms_CurrentYear stats = 0 then stats\<lparr>ms_CurrentYear := currentYear\<rparr> else stats);
          stats = (if ms_CurrentMonth stats = 0 then stats\<lparr>ms_CurrentMonth := currentMonth\<rparr> else stats);
          stats = (if ms_CurrentYear stats \<noteq> currentYear then
                     stats\<lparr>ms_CurrentYear := currentYear, ms_YearlyRewards := 0, ms_YearlyPauseUntil := 0,
                           ms_MonthlyRewards := 0, ms_PersonalDifficulty := difficulty\<rparr>
                   else stats)
      in if ms_CurrentMonth stats \<noteq> currentMonth then
           stats\<lparr>ms_CurrentMonth := currentMonth, ms_MonthlyRewards := 0, ms_PersonalDifficulty := difficulty\<rparr>
         else stats)"

text \<open>The \<open>switch\<close> on the rewards of the month: \<open>None\<close> when it returns no reward.\<close>

definition monthly_step :: "i64 \<Rightarrow> u32 \<Rightarrow> MinerStats \<Rightarrow> MinerStats option" where
  "monthly_step now difficulty stats =
     (let elapsed = now - ms_LastSubmissionTime stats;
          elapsed = (if elapsed <s 0 then 0 else elapsed)
      in if ms_MonthlyRewards stats = 0 then
           (if elapsed <s oneWeekSeconds then None
            else Some (stats\<lparr>ms_MonthlyRewards := 1, ms_YearlyRewards := ms_YearlyRewards stats + 1,
                             ms_PersonalDifficulty := difficulty + 8\<rparr>))
         else if ms_MonthlyRewards stats = 1 then
           (if elapsed <s twoWeekSeconds then None
            else Some (stats\<lparr>ms_MonthlyRewards := 2, ms_YearlyRewards := ms_YearlyRewards stats + 1,
                             ms_PersonalDifficulty := difficulty + 16\<rparr>))
         else if ms_MonthlyRewards stats = 2 then
           (if ms_CurrentMonth stats = monthIdentifier (ms_LastSubmissionTime stats) then None
            else if elapsed <s oneWeekSeconds then None
            else Some (stats\<lparr>ms_MonthlyRewards := 1, ms_YearlyRewards := ms_YearlyRewards stats + 1,
                             ms_PersonalDifficulty := difficulty\<rparr>))
         else None)"

definition mine_reward :: "i64 \<Rightarrow> u32 \<Rightarrow> MinerStats \<Rightarrow> MinerStats \<times> u64" where
  "mine_reward now difficulty stats0 =
     (let stats = roll_calendar now difficulty stats0 in
      if 0 <s ms_YearlyPauseUntil stats \<and> now <s ms_YearlyPauseUntil stats then (stats, 0)
      else if ms_LastRewardBlock stats = 0 then
        (stats\<lparr>ms_MonthlyRewards := 1, ms_YearlyRewards := 1, ms_LastRewardBlock := now,
               ms_LastSubmissionTime := now, ms_BlocksSubmitted := ms_BlocksSubmitted stats + 1,
               ms_PersonalDifficulty := difficulty + 8\<rparr>, 1)
      else case monthly_step now difficulty stats of
        None \<Rightarrow> (stats, 0)
      | Some stats \<Rightarrow>
          (let stats = (if 3 \<le> ms_YearlyRewards stats then stats\<lparr>ms_YearlyPauseUntil := yearEndTimestamp now\<rparr> else stats)
           in if 3 < ms_YearlyRewards stats then (stats, 0)
              else let stats = (if 0 < ms_BlocksSubmitted stats \<and> 0 < ms_AcceleratorCount stats
                                then stats\<lparr>ms_AcceleratorCount := 0\<rparr> else stats)
                in (stats\<lparr>ms_LastSubmissionTime := now, ms_BlocksSubmitted := ms_BlocksSubmitted stats + 1,
                          ms_LastRewardBlock := now\<rparr>, 1)))"

definition MineRewardFor :: "env \<Rightarrow> string \<Rightarrow> Blockchain \<Rightarrow> Blockchain \<times> u64" where
  "MineRewardFor E miner bc =
     (let (stats, reward) = mine_reward (env_now E) (bc_Difficulty bc) (stats_of miner bc)
      in (bc\<lparr>bc_MinerStats := fmupd miner stats (bc_MinerStats bc)\<rparr>, reward))"

definition record_submission :: "i64 \<Rightarrow> MinerStats \<Rightarrow> MinerStats" where
  "record_submission now stats =
     (let stats = stats\<lparr>ms_BlocksSubmitted := ms_BlocksSubmitted stats + 1, ms_LastSubmissionTime := now\<rparr>
      in if 24 * 7 < ms_SubmittedLastHour stats then stats\<lparr>ms_PersonalDifficulty := 32\<rparr>
         else stats\<lparr>ms_SubmittedLastHour := ms_SubmittedLastHour stats + 1\<rparr>)"

definition RecordMinerSubmission :: "env \<Rightarrow> string \<Rightarrow> Blockchain \<Rightarrow> Blockchain" where
  "RecordMinerSubmission E miner bc =
     bc\<lparr>bc_MinerStats := fmupd miner (record_submission (env_now E) (stats_of miner bc)) (bc_MinerStats bc)\<rparr>"

definition NoteMinedBlock :: "string \<Rightarrow> Blockchain \<Rightarrow> Blockchain" where
  "NoteMinedBlock miner bc =
     bc\<lparr>bc_MinerStats := fmupd miner ((stats_of miner bc)\<lparr>ms_SubmittedLastHour := 0\<rparr>) (bc_MinerStats bc)\<rparr>"

definition minerDifficulty :: "string \<Rightarrow> Blockchain \<Rightarrow> u32" where
  "minerDifficulty miner bc =
     (case fmlookup (bc_MinerStats bc) miner of
        None \<Rightarrow> bc_Difficulty bc
      | Some stats \<Rightarrow>
          (if bc_Difficulty bc < ms_PersonalDifficulty stats then ms_PersonalDifficulty stats else bc_Difficulty bc))"

section \<open>Three rewards a year\<close>

text \<open>The calls that mining makes for one miner: ask for a reward, record the submission.\<close>

datatype miner_call = AskReward | Submission | Mined

fun miner_on :: "i64 \<times> u32 \<times> miner_call \<Rightarrow> MinerStats \<Rightarrow> MinerStats \<times> nat" where
  "miner_on (now, difficulty, AskReward) s = (case mine_reward now difficulty s of (s', r) \<Rightarrow> (s', unat r))"
| "miner_on (now, difficulty, Submission) s = (record_submission now s, 0)"
| "miner_on (now, difficulty, Mined) s = (s\<lparr>ms_SubmittedLastHour := 0\<rparr>, 0)"

fun miner_run :: "(i64 \<times> u32 \<times> miner_call) list \<Rightarrow> MinerStats \<Rightarrow> nat" where
  "miner_run [] s = 0"
| "miner_run (c # cs) s = snd (miner_on c s) + miner_run cs (fst (miner_on c s))"

text \<open>The statistics in the year \<open>y\<close>, when \<open>r\<close> rewards have been paid in it: either they still show
  another year, and nothing was paid, or the count covers the rewards and three of them pause
  the miner until the end of the year.\<close>

definition reward_inv :: "int \<Rightarrow> i64 \<Rightarrow> nat \<Rightarrow> MinerStats \<Rightarrow> bool" where
  "reward_inv y end r s \<longleftrightarrow>
     (if ms_CurrentYear s \<noteq> 0 \<and> ms_CurrentYear s \<noteq> y then r = 0
      else r \<le> unat (ms_YearlyRewards s) \<and> unat (ms_YearlyRewards s) \<le> 3 \<and>
        (unat (ms_YearlyRewards s) = 3 \<longrightarrow> ms_YearlyPauseUntil s = end) \<and> (ms_LastRewardBlock s = 0 \<longrightarrow> r = 0))"

lemma roll_calendar_spec:
  assumes "reward_inv y end r s" "yearIdentifier now = y"
  shows "reward_inv y end r (roll_calendar now d s)" "ms_CurrentYear (roll_calendar now d s) = y"
    "ms_LastRewardBlock (roll_calendar now d s) = ms_LastRewardBlock s"
  using assms by (auto simp: roll_calendar_def Let_def reward_inv_def)

lemma monthly_step_Some:
  "monthly_step now d s = Some s' \<Longrightarrow> ms_YearlyRewards s' = ms_YearlyRewards s + 1 \<and>
     ms_CurrentYear s' = ms_CurrentYear s \<and> ms_LastRewardBlock s' = ms_LastRewardBlock s \<and>
     ms_YearlyPauseUntil s' = ms_YearlyPauseUntil s"
  by (auto simp: monthly_step_def Let_def split: if_splits)

lemma mine_reward_inv:
  assumes inv: "reward_inv y end r s" and y: "yearIdentifier now = y" and now: "0 < sint now"
    and "end": "end = yearEndTimestamp now" "sint now < sint end"
  shows "case mine_reward now d s of (s', p) \<Rightarrow> reward_inv y end (r + unat p) s'"
proof -
  define t where "t = roll_calendar now d s"
  have t: "reward_inv y end r t" "ms_CurrentYear t = y"
    using roll_calendar_spec [OF inv y] by (auto simp: t_def)
  have paused: "0 <s ms_YearlyPauseUntil t \<and> now <s ms_YearlyPauseUntil t" if "unat (ms_YearlyRewards t) = 3"
    using t that now "end" by (auto simp: reward_inv_def word_sless_alt)
  have nz: "now \<noteq> 0" using now by auto
  show ?thesis
  proof (cases "0 <s ms_YearlyPauseUntil t \<and> now <s ms_YearlyPauseUntil t")
    case True
    then show ?thesis using t by (simp add: mine_reward_def Let_def t_def [symmetric])
  next
    case False
    with paused have "unat (ms_YearlyRewards t) \<noteq> 3" by blast
    moreover have "unat (ms_YearlyRewards t) \<le> 3" using t by (simp add: reward_inv_def)
    ultimately have le: "unat (ms_YearlyRewards t) \<le> 2" by linarith
    then have inc: "unat (ms_YearlyRewards t + 1) = unat (ms_YearlyRewards t) + 1"
      by (simp add: unat_word_ariths)
    show ?thesis
    proof (cases "ms_LastRewardBlock t = 0")
      case True
      with False t nz show ?thesis
        by (auto simp: mine_reward_def Let_def t_def [symmetric] reward_inv_def)
    next
      case L: False
      show ?thesis
      proof (cases "monthly_step now d t")
        case None
        with False L t show ?thesis by (auto simp: mine_reward_def Let_def t_def [symmetric])
      next
        case (Some u)
        note u = monthly_step_Some [OF Some]
        with False L t nz le inc Some "end" show ?thesis
          by (auto simp: mine_reward_def Let_def t_def [symmetric] reward_inv_def word_le_nat_alt word_less_nat_alt)
      qed
    qed
  qed
qed

text \<open>All times of a year have the same end of year.\<close>

lemma yearEnd_cong: "yearIdentifier t = yearIdentifier t' \<Longrightarrow> yearEndTimestamp t = yearEndTimestamp t'"
  by (simp add: yearEndTimestamp_def yearIdentifier_def)

lemma miner_on_inv:
  assumes "reward_inv y end r s" "yearIdentifier now = y" "0 < sint now" "sint now < 2 ^ 62" "end = yearEndTimestamp now"
  shows "reward_inv y end (r + snd (miner_on (now, d, call) s)) (fst (miner_on (now, d, call) s))"
proof (cases call)
  case AskReward
  then show ?thesis
    using mine_reward_inv [OF assms(1-3,5), of d] sint_yearEnd(2) [OF assms(3,4)] assms(5)
    by (auto split: prod.splits)
qed (use assms(1) in \<open>auto simp: record_submission_def reward_inv_def Let_def\<close>)

lemma miner_run_bound:
  assumes "reward_inv y end r s"
    and "\<forall>(now, d, call) \<in> set calls. yearIdentifier now = y \<and> 0 < sint now \<and> sint now < 2 ^ 62 \<and> end = yearEndTimestamp now"
  shows "r + miner_run calls s \<le> 3"
  using assms
proof (induction calls arbitrary: r s)
  case Nil
  then show ?case by (auto simp: reward_inv_def split: if_splits)
next
  case (Cons c calls)
  obtain now d call where c: "c = (now, d, call)" by (cases c) auto
  have "reward_inv y end (r + snd (miner_on c s)) (fst (miner_on c s))"
    using miner_on_inv [OF Cons.prems(1)] Cons.prems(2) by (auto simp: c)
  from Cons.IH [OF this] Cons.prems(2) show ?case by simp
qed

text \<open>A miner earns at most three rewards in a calendar year: whatever sequence of reward
  requests, submissions and mined blocks happens at times of one year, in any order of the clock,
  the rewards sum up to at most three, for a new miner and for one whose statistics are of
  another year.\<close>

theorem three_rewards_a_year:
  assumes "s = new_stats miner \<or> (ms_CurrentYear s \<noteq> 0 \<and> ms_CurrentYear s \<noteq> y)"
    and "\<forall>(now, d, call) \<in> set calls. yearIdentifier now = y \<and> 0 < sint now \<and> sint now < 2 ^ 62"
  shows "miner_run calls s \<le> 3"
proof (cases calls)
  case (Cons c cs)
  obtain now0 d0 call0 where c: "c = (now0, d0, call0)" by (cases c) auto
  have y0: "yearIdentifier now0 = y" using assms(2) Cons c by auto
  have "yearEndTimestamp now0 = yearEndTimestamp now" if "yearIdentifier now = y" for now
    using y0 that by (intro yearEnd_cong) simp
  then have "\<forall>(now, d, call) \<in> set calls. yearIdentifier now = y \<and> 0 < sint now \<and> sint now < 2 ^ 62 \<and>
      yearEndTimestamp now0 = yearEndTimestamp now"
    using assms(2) by (auto split: prod.splits)
  moreover have "reward_inv y (yearEndTimestamp now0) 0 s"
    using assms(1) by (auto simp: reward_inv_def new_stats_def)
  ultimately have "0 + miner_run calls s \<le> 3" by (intro miner_run_bound)
  then show ?thesis by simp
qed simp

theorem three_rewards_a_year_witness:
  "miner_run [(1700000000, 16, AskReward), (1701300000, 16, AskReward), (1702600000, 16, AskReward)] (new_stats ''m'') \<le> 3"
proof -
  have "sint (1700000000 :: i64) = 1700000000" "sint (1701300000 :: i64) = 1701300000" "sint (1702600000 :: i64) = 1702600000"
    by simp_all
  moreover from this have "yearIdentifier 1700000000 = 2023" "yearIdentifier 1701300000 = 2023" "yearIdentifier 1702600000 = 2023"
    by (simp_all add: yearIdentifier_def unix_day_def year_of_day_def days_before_year_def)
  ultimately show ?thesis
    by (intro three_rewards_a_year [where miner = "''m''" and y = 2023]) simp_all
qed

text \<open>The difficulty of a miner is never below that of the chain.\<close>

lemma minerDifficulty_ge: "bc_Difficulty bc \<le> minerDifficulty miner bc"
  by (auto simp: minerDifficulty_def split: option.splits)

end
