(* ===== verification/Services.thy ===== *)
theory Services
  imports Ledger
begin

text \<open>
  The services of a node that clients call directly (\<open>blockchain.go\<close>): the registry of AI models, the
  sale of API keys, escrows, governance proposals, service agreements and usage metering. The
  operations \<open>RegisterModel\<close>, \<open>UpdateModel\<close> and \<open>PurchaseApiKey\<close> carry the suffix \<open>_op\<close>, since the
  names are those of the transaction types.
\<close>

section \<open>Operations\<close>

definition model_cid :: "string \<Rightarrow> string \<Rightarrow> string \<Rightarrow> string" where
  "model_cid id' owner version = id' @ '':'' @ owner @ '':'' @ version"

definition RegisterModel_op ::
  "env \<Rightarrow> string \<Rightarrow> string \<Rightarrow> string \<Rightarrow> string \<Rightarrow> u64 \<Rightarrow> bool \<Rightarrow> Blockchain \<Rightarrow> Blockchain" where
  "RegisterModel_op E owner id' version metadata pricePerCall active bc =
     (case fmlookup (bc_Ledger bc) owner of
        None \<Rightarrow> bc
      | Some account \<Rightarrow>
          (if acct_Balance account < AIModelStake then bc
           else let bc = bc\<lparr>bc_Ledger := add_stake owner AIModelStake (debit owner AIModelStake (bc_Ledger bc))\<rparr>;
                    cid = model_cid id' owner version;
                    bc = bc\<lparr>bc_Registry := fmupd id' \<lparr>mr_ID = id', mr_Owner = owner, mr_CID = cid, mr_Active = active,
                           mr_PricePerCall = pricePerCall\<rparr> (bc_Registry bc)\<rparr>;
                    bc = appendAuditEntry E ''model_registered'' owner (''model_id='' @ id' @ '' cid='' @ cid @
                           '' price='' @ FormatUint pricePerCall @ '' stake='' @ FormatUint AIModelStake) bc
             in bc\<lparr>bc_AgentTxCount := bc_AgentTxCount bc + 1\<rparr>))"

definition UpdateModel_op ::
  "env \<Rightarrow> string \<Rightarrow> string \<Rightarrow> string \<Rightarrow> string \<Rightarrow> u64 \<Rightarrow> Blockchain \<Rightarrow> Blockchain" where
  "UpdateModel_op E owner id' version metadata pricePerCall bc =
     (case fmlookup (bc_Registry bc) id' of
        None \<Rightarrow> bc
      | Some entry \<Rightarrow>
          (case fmlookup (bc_Ledger bc) owner of
             None \<Rightarrow> bc
           | Some account \<Rightarrow>
               (if acct_Staked account < AIModelStake then bc
                else let cid = model_cid id' owner version;
                         entry = entry\<lparr>mr_CID := cid, mr_PricePerCall := pricePerCall\<rparr>;
                         bc = bc\<lparr>bc_Registry := fmupd id' entry (bc_Registry bc)\<rparr>;
                         bc = appendAuditEntry E ''model_updated'' owner (''model_id='' @ id' @ '' cid='' @ cid @
                                '' price='' @ FormatUint pricePerCall) bc
                  in bc\<lparr>bc_AgentTxCount := bc_AgentTxCount bc + 1\<rparr>)))"

definition PurchaseApiKey_op :: "env \<Rightarrow> string \<Rightarrow> string \<Rightarrow> u64 \<Rightarrow> Blockchain \<Rightarrow> Blockchain" where
  "PurchaseApiKey_op E buyer modelID amount bc =
     (case fmlookup (bc_Registry bc) modelID of
        None \<Rightarrow> bc
      | Some entry \<Rightarrow>
          (case (fmlookup (bc_Ledger bc) buyer, fmlookup (bc_Ledger bc) (mr_Owner entry)) of
             (Some sender, Some receiver) \<Rightarrow>
               (if amount \<le> acct_Balance sender then
                  let bc = bc\<lparr>bc_Ledger := credit (mr_Owner entry) amount (debit buyer amount (bc_Ledger bc))\<rparr>;
                      bc = appendAuditEntry E ''api_key_purchased'' buyer
                             (''model_id='' @ modelID @ '' amount='' @ FormatUint amount) bc
                  in bc\<lparr>bc_AgentTxCount := bc_AgentTxCount bc + 1\<rparr>
                else bc)
           | _ \<Rightarrow> bc))"

definition CreateEscrow ::
  "env \<Rightarrow> string \<Rightarrow> string \<Rightarrow> u64 \<Rightarrow> string \<Rightarrow> Blockchain \<Rightarrow> Blockchain \<times> Escrow go" where
  "CreateEscrow E from to amount serviceID bc =
     (case fmlookup (bc_Ledger bc) from of
        None \<Rightarrow> (bc, Err ''insufficient funds'')
      | Some fromAccount \<Rightarrow>
          (if acct_Balance fromAccount < amount then (bc, Err ''insufficient funds'')
           else let bc = bc\<lparr>bc_Ledger := debit from amount (bc_Ledger bc)\<rparr>;
                    id' = ''escrow-'' @ FormatInt (env_nano E);
                    escrow = \<lparr>esc_ID = id', esc_From = from, esc_To = to, esc_Amount = amount,
                      esc_ServiceID = serviceID, esc_Status = ''active'', esc_Irreversible = True\<rparr>;
                    bc = bc\<lparr>bc_Escrows := fmupd id' escrow (bc_Escrows bc),
                            bc_IrreversibleTxs := finsert id' (bc_IrreversibleTxs bc)\<rparr>;
                    bc = appendAuditEntry E ''escrow_created'' from (''to='' @ to @ '' amount='' @
                           FormatUint amount @ '' service_id='' @ serviceID @ '' irreversible=true'') bc
             in (bc, Ok escrow)))"

definition CreateProposal :: "env \<Rightarrow> string \<Rightarrow> string \<Rightarrow> Blockchain \<Rightarrow> Blockchain \<times> GovernanceProposal" where
  "CreateProposal E title description bc =
     (let id' = ''proposal-'' @ FormatInt (env_nano E);
          proposal = \<lparr>prop_ID = id', prop_Title = title, prop_Description = description,
            prop_Votes = fmempty, prop_Status = ''open''\<rparr>;
          bc = bc\<lparr>bc_Proposals := fmupd id' proposal (bc_Proposals bc)\<rparr>
      in (appendAuditEntry E ''proposal_created'' ''governance'' (''id='' @ id' @ '' title='' @ title) bc, proposal))"

text \<open>A missing proposal reads as the zero value, whose identifier is empty.\<close>

definition VoteProposal :: "env \<Rightarrow> string \<Rightarrow> string \<Rightarrow> Blockchain \<Rightarrow> Blockchain" where
  "VoteProposal E id' voter bc =
     (case fmlookup (bc_Proposals bc) id' of
        None \<Rightarrow> bc
      | Some proposal \<Rightarrow>
          (if prop_ID proposal = [] then bc
           else let proposal = proposal\<lparr>prop_Votes := fmupd voter True (prop_Votes proposal)\<rparr>;
                    bc = bc\<lparr>bc_Proposals := fmupd id' proposal (bc_Proposals bc)\<rparr>
             in appendAuditEntry E ''proposal_voted'' voter (''proposal_id='' @ id') bc))"

definition CreateServiceAgreement ::
  "env \<Rightarrow> string \<Rightarrow> string \<Rightarrow> string \<Rightarrow> u64 \<Rightarrow> u64 \<Rightarrow> Blockchain \<Rightarrow> Blockchain \<times> ServiceAgreement go" where
  "CreateServiceAgreement E provider consumer modelID pricePerCall maxCalls bc =
     (if has_key (bc_Agreements bc) modelID then (bc, Err ''agreement already exists'')
      else let agreement = \<lparr>agr_ID = ''agreement-'' @ FormatInt (env_nano E), agr_Provider = provider,
                 agr_Consumer = consumer, agr_ModelID = modelID, agr_PricePerCall = pricePerCall,
                 agr_MaxCalls = maxCalls, agr_Status = ''active''\<rparr>
        in (bc\<lparr>bc_Agreements := fmupd (agr_ID agreement) agreement (bc_Agreements bc)\<rparr>, Ok agreement))"

definition zero_meter :: UsageMeter where
  "zero_meter = \<lparr>um_AgreementID = [], um_UsageCount = 0, um_TotalCost = 0\<rparr>"

definition RecordUsage :: "string \<Rightarrow> u64 \<Rightarrow> Blockchain \<Rightarrow> Blockchain \<times> UsageMeter go" where
  "RecordUsage agreementID usageCount bc =
     (case fmlookup (bc_Agreements bc) agreementID of
        None \<Rightarrow> (bc, Err ''agreement not found'')
      | Some agreement \<Rightarrow>
          (let bc = (if 0 < agr_MaxCalls agreement \<and> agr_MaxCalls agreement < usageCount
                     then bc\<lparr>bc_Agreements := fmupd agreementID (agreement\<lparr>agr_Status := ''over_limit''\<rparr>)
                            (bc_Agreements bc)\<rparr>
                     else bc);
               meter = map_get zero_meter (bc_UsageMeters bc) agreementID;
               meter = meter\<lparr>um_AgreementID := agreementID,
                             um_UsageCount := um_UsageCount meter + usageCount,
                             um_TotalCost := um_TotalCost meter + usageCount * agr_PricePerCall agreement\<rparr>
           in (bc\<lparr>bc_UsageMeters := fmupd agreementID meter (bc_UsageMeters bc)\<rparr>, Ok meter)))"

section \<open>Models and payments\<close>

text \<open>The money that a node accounts for: liquid, staked, and held in escrows.\<close>

definition total_escrow :: "Blockchain \<Rightarrow> nat" where
  "total_escrow bc = fmsum (\<lambda>e. unat (esc_Amount e)) (bc_Escrows bc)"

definition node_wealth :: "Blockchain \<Rightarrow> nat" where
  "node_wealth bc = total_wealth (bc_Ledger bc) + total_escrow bc"

text \<open>The services conserve money: registering and updating a model, buying an API key and opening
  an escrow (under an identifier that is not in use) keep the sum of all balances, stakes and
  escrowed amounts, on success and on refusal.\<close>

theorem services_conserve_wealth:
  assumes "node_wealth bc < 2 ^ 64" and "\<not> has_key (bc_Escrows bc) (''escrow-'' @ FormatInt (env_nano E))"
  shows "node_wealth (RegisterModel_op E o' m v md p act bc) = node_wealth bc \<and>
    node_wealth (UpdateModel_op E o' m v md p bc) = node_wealth bc \<and>
    node_wealth (PurchaseApiKey_op E b m amt bc) = node_wealth bc \<and>
    node_wealth (fst (CreateEscrow E b t amt srv bc)) = node_wealth bc"
proof -
  have small: "total_wealth (bc_Ledger bc) < 2 ^ 64" "total_balance (bc_Ledger bc) < 2 ^ 64"
    using assms(1) by (auto simp: node_wealth_def total_wealth_def)
  have "node_wealth (RegisterModel_op E o' m v md p act bc) = node_wealth bc"
    using lock_stake_wealth [OF _ _ small(1)]
    by (auto simp: node_wealth_def RegisterModel_op_def Let_def total_escrow_def not_less split: option.splits)
  moreover have "node_wealth (UpdateModel_op E o' m v md p bc) = node_wealth bc"
    by (auto simp: node_wealth_def UpdateModel_op_def Let_def total_escrow_def split: option.splits)
  moreover have "node_wealth (PurchaseApiKey_op E b m amt bc) = node_wealth bc"
    using ledger.pay_total [OF _ _ _ small(2)]
    by (auto simp: node_wealth_def total_wealth_def PurchaseApiKey_op_def Let_def total_escrow_def balance_of_def
        split: option.splits)
  moreover have "node_wealth (fst (CreateEscrow E b t amt srv bc)) = node_wealth bc"
    using assms(2) ledger.total_debit_exact [of "bc_Ledger bc" b]
    by (auto simp: node_wealth_def total_wealth_def CreateEscrow_def Let_def total_escrow_def balance_of_def
        fmsum_fmupd_new has_key_def not_less split: option.splits)
  ultimately show ?thesis by blast
qed

lemma demo_node_escrow: "bc_Escrows demo_node = fmempty"
  by (simp add: demo_node_def demo_chain_def createGenesisBlock_def empty_Blockchain_def Let_def)

theorem services_conserve_wealth_witness:
  "node_wealth (fst (CreateEscrow demo_env ''a'' ''v'' 700 ''s'' demo_node)) = 1503"
proof -
  have "node_wealth demo_node = 1503"
    by (simp add: node_wealth_def total_wealth_def demo_node_wealth total_escrow_def demo_node_escrow)
  then show ?thesis
    using services_conserve_wealth [of demo_node demo_env] by (simp add: demo_node_escrow)
qed

text \<open>The owner of a model is not checked by the direct operations: any account that can pay the
  stake takes over a registered model with \<open>RegisterModel\<close>, and any account with a stake large enough
  sets its price with \<open>UpdateModel\<close> (the transactions of these types do check the owner).\<close>

theorem model_takeover:
  assumes "fmlookup (bc_Registry bc) m = Some entry" and "mr_Owner entry \<noteq> mallory"
    and "fmlookup (bc_Ledger bc) mallory = Some ac"
  shows "(AIModelStake \<le> acct_Balance ac \<longrightarrow>
      (\<exists>e. fmlookup (bc_Registry (RegisterModel_op E mallory m v md p act bc)) m = Some e \<and> mr_Owner e = mallory)) \<and>
    (AIModelStake \<le> acct_Staked ac \<longrightarrow>
      (\<exists>e. fmlookup (bc_Registry (UpdateModel_op E mallory m v md p bc)) m = Some e \<and>
         mr_Owner e = mr_Owner entry \<and> mr_PricePerCall e = p))"
  using assms by (auto simp: RegisterModel_op_def UpdateModel_op_def Let_def)

definition demo_model :: ModelRef where
  "demo_model = \<lparr>mr_ID = ''m'', mr_Owner = ''v'', mr_CID = ''c'', mr_Active = True, mr_PricePerCall = 5\<rparr>"

theorem model_takeover_witness:
  "\<exists>e. fmlookup (bc_Registry (RegisterModel_op demo_env ''a'' ''m'' ''2'' [] 1 True
       (demo_chain\<lparr>bc_Registry := fmupd ''m'' demo_model fmempty,
          bc_Ledger := fmupd ''a'' (demo_account ''a'' 600000000 0) fmempty\<rparr>))) ''m'' = Some e \<and> mr_Owner e = ''a''"
  using model_takeover [of "demo_chain\<lparr>bc_Registry := fmupd ''m'' demo_model fmempty,
      bc_Ledger := fmupd ''a'' (demo_account ''a'' 600000000 0) fmempty\<rparr>" "''m''" demo_model "''a''"
      "demo_account ''a'' 600000000 0"]
  by (simp add: demo_model_def demo_account_def AIModelStake_def)

section \<open>Agreements and metering\<close>

text \<open>Every meter belongs to an agreement and charges its price.\<close>

definition meters_ok :: "Blockchain \<Rightarrow> bool" where
  "meters_ok bc \<longleftrightarrow> 
     (\<forall>k. has_key (bc_UsageMeters bc) k \<longrightarrow> has_key (bc_Agreements bc) k) \<and>
     (\<forall>k m agr. fmlookup (bc_UsageMeters bc) k = Some m \<longrightarrow> fmlookup (bc_Agreements bc) k = Some agr \<longrightarrow>
        um_AgreementID m = k \<and> um_TotalCost m = um_UsageCount m * agr_PricePerCall agr)"

fun record_usages :: "string \<Rightarrow> u64 list \<Rightarrow> Blockchain \<Rightarrow> Blockchain" where
  "record_usages k [] bc = bc"
| "record_usages k (n # ns) bc = record_usages k ns (fst (RecordUsage k n bc))"

lemma RecordUsage_meters_ok: "meters_ok bc \<Longrightarrow> meters_ok (fst (RecordUsage k n bc))"
  unfolding meters_ok_def
  by (auto simp: RecordUsage_def Let_def map_get_def zero_meter_def distrib_right has_key_iff split: option.splits)

lemma RecordUsage_count:
  assumes "fmlookup (bc_Agreements bc) k = Some agr"
  shows "um_UsageCount (map_get zero_meter (bc_UsageMeters (fst (RecordUsage k n bc))) k) =
      um_UsageCount (map_get zero_meter (bc_UsageMeters bc) k) + n"
    and "\<exists>agr'. fmlookup (bc_Agreements (fst (RecordUsage k n bc))) k = Some agr' \<and>
      agr_PricePerCall agr' = agr_PricePerCall agr \<and> agr_MaxCalls agr' = agr_MaxCalls agr \<and>
      agr_Status agr' = (if 0 < agr_MaxCalls agr \<and> agr_MaxCalls agr < n then ''over_limit'' else agr_Status agr)"
  using assms by (auto simp: RecordUsage_def Let_def map_get_def)

text \<open>Metering adds up: after any sequence of usage reports the meter of an agreement counts the sum
  of the reported calls, and its cost is that count at the agreed price.\<close>

theorem metering_adds_up:
  assumes "meters_ok bc" and "fmlookup (bc_Agreements bc) k = Some agr"
  shows "um_UsageCount (map_get zero_meter (bc_UsageMeters (record_usages k ns bc)) k) =
      um_UsageCount (map_get zero_meter (bc_UsageMeters bc) k) + sum_list ns \<and>
    um_TotalCost (map_get zero_meter (bc_UsageMeters (record_usages k ns bc)) k) =
      um_UsageCount (map_get zero_meter (bc_UsageMeters (record_usages k ns bc)) k) * agr_PricePerCall agr"
  using assms
proof (induction ns arbitrary: bc agr)
  case Nil
  then show ?case by (auto simp: meters_ok_def map_get_def zero_meter_def split: option.splits)
next
  case (Cons n ns)
  obtain agr' where "fmlookup (bc_Agreements (fst (RecordUsage k n bc))) k = Some agr'"
      "agr_PricePerCall agr' = agr_PricePerCall agr"
    using RecordUsage_count(2) [OF Cons.prems(2)] by blast
  then show ?case
    using Cons.IH [OF RecordUsage_meters_ok [OF Cons.prems(1)]] RecordUsage_count(1) [OF Cons.prems(2), of n]
    by (simp add: add.assoc)
qed

definition demo_agreement :: ServiceAgreement where
  "demo_agreement = \<lparr>agr_ID = ''agreement-1'', agr_Provider = ''p'', agr_Consumer = ''c'', agr_ModelID = ''m'',
     agr_PricePerCall = 3, agr_MaxCalls = 10, agr_Status = ''active''\<rparr>"

definition demo_service :: Blockchain where
  "demo_service = demo_chain\<lparr>bc_Agreements := fmupd ''agreement-1'' demo_agreement fmempty\<rparr>"

lemma demo_service_fields:
  "bc_Agreements demo_service = fmupd ''agreement-1'' demo_agreement fmempty"
  "bc_UsageMeters demo_service = fmempty"
  by (simp_all add: demo_service_def demo_chain_def createGenesisBlock_def empty_Blockchain_def Let_def)

theorem metering_adds_up_witness:
  "um_UsageCount (map_get zero_meter (bc_UsageMeters (record_usages ''agreement-1'' [4, 5] demo_service)) ''agreement-1'') = 9 \<and>
   um_TotalCost (map_get zero_meter (bc_UsageMeters (record_usages ''agreement-1'' [4, 5] demo_service)) ''agreement-1'') = 27"
  using metering_adds_up [of demo_service "''agreement-1''" demo_agreement "[4, 5]"]
  by (simp add: meters_ok_def demo_service_fields zero_meter_def) (simp add: demo_agreement_def)

text \<open>The limit of calls is checked against a single report, not against the total: any number of
  reports, each within the limit, leaves the agreement as it was, however many calls they add
  up to.\<close>

theorem call_limit_per_report:
  assumes "fmlookup (bc_Agreements bc) k = Some agr" and "\<forall>n \<in> set ns. n \<le> agr_MaxCalls agr"
  shows "bc_Agreements (record_usages k ns bc) = bc_Agreements bc"
  using assms
proof (induction ns arbitrary: bc)
  case (Cons n ns)
  then have "bc_Agreements (fst (RecordUsage k n bc)) = bc_Agreements bc"
    by (auto simp: RecordUsage_def Let_def not_less)
  with Cons show ?case by simp
qed simp

theorem call_limit_per_report_witness:
  "agr_MaxCalls demo_agreement = 10 \<and>
   bc_Agreements (record_usages ''agreement-1'' [10, 10, 10] demo_service) = bc_Agreements demo_service"
  using call_limit_per_report [of demo_service "''agreement-1''" demo_agreement "[10, 10, 10]"]
  by (simp add: demo_service_fields) (simp add: demo_agreement_def)

section \<open>Governance\<close>

text \<open>Voting is idempotent: a voter counts once, however often it votes.\<close>

lemma VoteProposal_votes:
  assumes "fmlookup (bc_Proposals bc) id' = Some p" "prop_ID p \<noteq> []"
  shows "fmlookup (bc_Proposals (VoteProposal E id' voter bc)) id' =
    Some (p\<lparr>prop_Votes := fmupd voter True (prop_Votes p)\<rparr>)"
  using assms by (simp add: VoteProposal_def Let_def)

lemma VoteProposal_idem:
  "bc_Proposals (VoteProposal E id' voter (VoteProposal E' id' voter bc)) = bc_Proposals (VoteProposal E' id' voter bc)"
proof -
  have "fmupd voter True (fmupd voter True m) = fmupd voter True m" for m :: "(string, bool) fmap"
    by (rule fmap_ext) simp
  moreover have "fmupd id' x (fmupd id' y m) = fmupd id' x m" for x y and m :: "(string, GovernanceProposal) fmap"
    by (rule fmap_ext) simp
  ultimately show ?thesis by (auto simp: VoteProposal_def Let_def split: option.splits)
qed

end
