(* ===== verification/Mining.thy ===== *)
theory Mining
  imports Chain_Rules Miner_Rewards Services
begin

text \<open>
  Making blocks (\<open>blockchain.go\<close>): the selection of the author, proof of work, \<open>MineBlockFor\<close>,
  \<open>SubmitMinedBlock\<close> and \<open>UniversalTransfer\<close>.

  What the language leaves open during an operation is the argument \<open>K\<close>: the orders in which \<open>range\<close>
  visits the validators and the ledger, the order that \<open>sort.Slice\<close> gives to transactions with
  equal fee and time, and the value of an out-of-range conversion from \<open>float64\<close>. The search for
  a nonce may run forever, so mining returns an \<open>option\<close>. The notification of the bridge relayer over
  HTTP at the end of \<open>MineBlockFor\<close>, whose result is dropped, is left out.
\<close>

record choices =
  ch_validators :: "string list"
  ch_ledger :: "string list"
  ch_rotation :: "string list"
  ch_pending :: "Transaction list"
  ch_oor :: "rat \<Rightarrow> u64"

section \<open>Selection of the author\<close>

definition zero_Validator :: Validator where
  "zero_Validator = \<lparr>val_PublicKey = [], val_Address = [], val_Stake = 0, val_Active = False, val_JoinedAt = 0,
     val_Performance = 0, val_PublicKeyVersion = 0, val_KeyRotatedAt = 0, val_NextRotationAt = 0\<rparr>"

definition validator_at :: "Blockchain \<Rightarrow> string \<Rightarrow> Validator" where
  "validator_at bc a = map_get zero_Validator (bc_Validators bc) a"

definition staked_candidates :: "string list \<Rightarrow> Blockchain \<Rightarrow> string list" where
  "staked_candidates ks bc = filter (\<lambda>a. has_key (bc_Validators bc) a \<and> active_staked (validator_at bc a)) ks"

definition pubkey_less :: "Blockchain \<Rightarrow> string \<Rightarrow> string \<Rightarrow> bool" where
  "pubkey_less bc a b =
     (let left = validator_at bc a; right = validator_at bc b in
      if val_Stake left = val_Stake right then a < b else val_Stake right < val_Stake left)"

definition SelectValidatorPubKey :: "string list \<Rightarrow> Blockchain \<Rightarrow> string" where
  "SelectValidatorPubKey ks bc =
     (let candidates = staked_candidates ks bc in
      if length candidates = 0 then []
      else val_PublicKey (validator_at bc (sort_slice (pubkey_less bc) candidates ! 0)))"

definition candidate_less :: "Blockchain \<Rightarrow> string \<Rightarrow> string \<Rightarrow> bool" where
  "candidate_less bc a b =
     (let left = validator_at bc a; right = validator_at bc b in
      if val_Stake left = val_Stake right then
        (if val_Performance left = val_Performance right then a < b else val_Performance right < val_Performance left)
      else val_Stake right < val_Stake left)"

text \<open>The candidates: active validators, or else the accounts with a stake, or else all accounts.\<close>

definition candidates :: "choices \<Rightarrow> Blockchain \<Rightarrow> string list" where
  "candidates K bc =
     (let cs = staked_candidates (ch_validators K) bc;
          cs = (if length cs = 0
            then filter (\<lambda>a. case fmlookup (bc_Ledger bc) a of None \<Rightarrow> False | Some ac \<Rightarrow> 0 < acct_Staked ac) (ch_ledger K)
            else cs)
      in if length cs = 0 then ch_ledger K else cs)"

definition SelectValidator :: "choices \<Rightarrow> Blockchain \<Rightarrow> Blockchain \<times> string" where
  "SelectValidator K bc =
     (if bc_Consensus bc = ProofOfAuthority then
        (if length (bc_Authorities bc) = 0 then (bc, ''authority'')
         else let idx = (bc_validatorIdx bc + 1) mod length (bc_Authorities bc)
           in (bc\<lparr>bc_validatorIdx := idx\<rparr>, bc_Authorities bc ! idx))
      else case (bc_tendermintEngine bc, bc_Consensus bc = ProofOfStake) of
        (Some te, True) \<Rightarrow> (bc, Proposer te)
      | _ \<Rightarrow>
        (if length (candidates K bc) = 0 then (bc, ''validator'')
         else let sorted = sort_slice (candidate_less bc) (candidates K bc);
                  idx = (bc_validatorIdx bc + 1) mod length sorted
           in (bc\<lparr>bc_validatorIdx := idx\<rparr>, sorted ! idx)))"

section \<open>Proof of work\<close>

definition hex_number :: "string \<Rightarrow> nat" where
  "hex_number s = foldl (\<lambda>n c. n * 16 + (case hex_val c of Some d \<Rightarrow> d | None \<Rightarrow> 0)) 0 s"

partial_function (option) pow_loop :: "crypto \<Rightarrow> nat \<Rightarrow> Block \<Rightarrow> Block option" where
  "pow_loop C target block =
     (let hash = calculateHash C block in
      if hex_number hash < target then Some (block\<lparr>blk_BlockHash := hash\<rparr>)
      else pow_loop C target (block\<lparr>blk_Nonce := blk_Nonce block + 1\<rparr>))"

text \<open>The shift count \<open>256-uint(difficulty)\<close> wraps around for a difficulty above 256, and a shift by that
  much panics.\<close>

definition proofOfWork :: "crypto \<Rightarrow> Block \<Rightarrow> Blockchain \<Rightarrow> Block go option" where
  "proofOfWork C block bc =
     (let block = block\<lparr>blk_TxMerkleRoot := CalculateMerkleRoot C (blk_Transactions block)\<rparr>;
          difficulty = unat (minerDifficulty (blk_MinerAddress block) bc)
      in if 256 < difficulty then Some (Panic ''makeslice: len out of range'')
         else map_option Ok (pow_loop C (2 ^ (256 - difficulty)) block))"

section \<open>Mining\<close>

definition pending_less :: "Transaction \<Rightarrow> Transaction \<Rightarrow> bool" where
  "pending_less a b =
     (if tx_Fee a = tx_Fee b then tx_Timestamp a <s tx_Timestamp b else tx_Fee b < tx_Fee a)"

definition count_metric :: "(serverMetrics \<Rightarrow> serverMetrics) \<Rightarrow> Blockchain \<Rightarrow> Blockchain" where
  "count_metric f bc = bc\<lparr>bc_metrics := map_option f (bc_metrics bc)\<rparr>"

text \<open>The loop that fills the block; \<open>n\<close> is the number of pending transactions. Counting a rejected
  transaction dereferences the metrics without \<open>EnsureMetrics\<close>.\<close>

fun mine_txs :: "crypto \<Rightarrow> (rat \<Rightarrow> u64) \<Rightarrow> nat \<Rightarrow> Transaction list \<Rightarrow> Transaction list \<Rightarrow> Blockchain \<Rightarrow> Blockchain \<times> Transaction list go" where
  "mine_txs C oor n [] acc bc = (bc, Ok acc)"
| "mine_txs C oor n (tx # txs) acc bc =
     (if validateTransaction C tx bc then
        (if tx_Fee tx < estimateFee oor tx n bc then
           (if bc_metrics bc = None then (bc, Panic ''invalid memory address or nil pointer dereference'')
            else mine_txs C oor n txs acc (count_metric (\<lambda>m. m\<lparr>m_txRejected := m_txRejected m + 1\<rparr>) bc))
         else
           let bc = settle_fee tx bc;
               bc = markTransactionSeen tx bc;
               bc = count_metric (\<lambda>m. m\<lparr>m_txAccepted := m_txAccepted m + 1\<rparr>) (EnsureMetrics bc)
           in mine_txs C oor n txs (acc @ [tx]) bc)
      else mine_txs C oor n txs acc bc)"

definition pay_reward :: "string \<Rightarrow> u64 \<Rightarrow> Blockchain \<Rightarrow> Blockchain" where
  "pay_reward author reward bc =
     (if has_key (bc_Ledger bc) author
      then bc\<lparr>bc_Ledger := credit author reward (bc_Ledger bc), bc_TokenSupply := bc_TokenSupply bc + reward\<rparr>
      else bc)"

text \<open>What follows the validation of the new block: reward, application, key rotation, consensus round,
  buyback, bookkeeping, saving.\<close>

definition commit_mined :: "crypto \<Rightarrow> env \<Rightarrow> choices \<Rightarrow> string \<Rightarrow> Block \<Rightarrow> Blockchain \<Rightarrow> Blockchain \<times> Block go" where
  "commit_mined C E K author block bc =
     (let (bc, blockReward) = MineRewardFor E author bc;
          bc = pay_reward author blockReward bc;
          bc = applyBlock E block bc;
          bc = bc\<lparr>bc_Chain := bc_Chain bc @ [block]\<rparr>;
          bc = rotateValidatorKeysLocked C E (ch_rotation K) (env_now E) bc;
          bc = (if bc_Consensus bc \<noteq> ProofOfWork
                then bc\<lparr>bc_tendermintEngine := map_option (mining_round C (env_now E) block author) (bc_tendermintEngine bc)\<rparr>
                else bc);
          bc = (if 0 < bc_AgentTxCount bc then treasuryBuybackLocked E bc else bc);
          bc = bc\<lparr>bc_Pending := []\<rparr>;
          bc = adjustDifficulty bc;
          bc = NoteMinedBlock author (RecordMinerSubmission E author bc);
          bc = appendAuditEntry E ''block_mined'' author (''index='' @ FormatUint (blk_Index block) @ '' txs='' @
                 fmt_nat (length (blk_Transactions block)) @ '' miner='' @ author @ '' reward='' @ FormatUint blockReward) bc;
          bc = count_metric (\<lambda>m. m\<lparr>m_blocksMined := m_blocksMined m + 1\<rparr>) (EnsureMetrics bc)
      in case SaveToDisk E bc of
           (bc, Ok _) \<Rightarrow> (bc, Ok block)
         | (bc, Err e) \<Rightarrow> (bc, Err e)
         | (bc, Panic e) \<Rightarrow> (bc, Panic e))"

definition seal_block :: "crypto \<Rightarrow> Block \<Rightarrow> Blockchain \<Rightarrow> Block go option" where
  "seal_block C block bc =
     (if bc_Consensus bc = ProofOfWork then proofOfWork C block bc
      else let block = block\<lparr>blk_TxMerkleRoot := CalculateMerkleRoot C (blk_Transactions block)\<rparr>
        in Some (Ok (block\<lparr>blk_BlockHash := calculateHash C block\<rparr>)))"

definition MineBlockFor :: "crypto \<Rightarrow> env \<Rightarrow> choices \<Rightarrow> string \<Rightarrow> Blockchain \<Rightarrow> (Blockchain \<times> Block go) option" where
  "MineBlockFor C E K minerAddress bc =
     (if bc_MintPaused bc \<and> 0 <s bc_MintPauseUntil bc \<and> env_now E <s bc_MintPauseUntil bc
      then Some (bc, Err ''minting is currently paused'')
      else
        let bc = (if bc_Chain bc = [] then createGenesisBlock C E bc else bc);
            prevHash = blk_BlockHash (last (bc_Chain bc));
            (bc, selected) = SelectValidator K bc;
            author = (if minerAddress \<noteq> [] then minerAddress else selected);
            block = \<lparr>blk_Index = of_nat (length (bc_Chain bc)), blk_Author = author, blk_MinerAddress = author,
              blk_PreviousHash = prevHash, blk_Timestamp = env_now E, blk_Transactions = [], blk_Nonce = 0,
              blk_BlockHash = [], blk_TxMerkleRoot = []\<rparr>
        in case mine_txs C (ch_oor K) (length (ch_pending K)) (ch_pending K) [] bc of
             (bc, Err e) \<Rightarrow> Some (bc, Err e)
           | (bc, Panic e) \<Rightarrow> Some (bc, Panic e)
           | (bc, Ok txs) \<Rightarrow>
               (case seal_block C (block\<lparr>blk_Transactions := txs\<rparr>) bc of
                  None \<Rightarrow> None
                | Some (Err e) \<Rightarrow> Some (bc, Err e)
                | Some (Panic e) \<Rightarrow> Some (bc, Panic e)
                | Some (Ok block) \<Rightarrow>
                    (case validateBlock C block (last (bc_Chain bc)) bc of
                       Ok _ \<Rightarrow> Some (commit_mined C E K author block bc)
                     | Err e \<Rightarrow> Some (bc, Err e)
                     | Panic e \<Rightarrow> Some (bc, Panic e))))"

definition MineBlock :: "crypto \<Rightarrow> env \<Rightarrow> choices \<Rightarrow> Blockchain \<Rightarrow> (Blockchain \<times> Block go) option" where
  "MineBlock C E K bc = MineBlockFor C E K [] bc"

definition SubmitMinedBlock :: "crypto \<Rightarrow> env \<Rightarrow> Block \<Rightarrow> Blockchain \<Rightarrow> Blockchain \<times> unit go" where
  "SubmitMinedBlock C E block bc =
     (if length (bc_Chain bc) = 0 \<or> blk_Index block \<noteq> of_nat (length (bc_Chain bc)) then (bc, Err ''invalid block index'')
      else let prev = last (bc_Chain bc) in
        if blk_PreviousHash block \<noteq> blk_BlockHash prev then (bc, Err ''invalid previous hash'')
        else if calculateHash C block \<noteq> blk_BlockHash block then (bc, Err ''invalid block hash'')
        else case validateBlock C block prev bc of
          Err e \<Rightarrow> (bc, Err (''invalid block transactions: '' @ e))
        | Panic e \<Rightarrow> (bc, Panic e)
        | Ok _ \<Rightarrow>
            (let author = (if blk_Author block = [] then blk_MinerAddress block else blk_Author block) in
             if author = [] then (bc, Err ''missing miner address'')
             else let bc = pay_reward author 100 bc;
                      bc = applyBlock E block bc;
                      bc = bc\<lparr>bc_Chain := bc_Chain bc @ [block], bc_Pending := []\<rparr>;
                      bc = adjustDifficulty bc;
                      bc = appendAuditEntry E ''block_submitted'' author (''index='' @ FormatUint (blk_Index block) @
                             '' txs='' @ fmt_nat (length (blk_Transactions block))) bc;
                      bc = count_metric (\<lambda>m. m\<lparr>m_blocksMined := m_blocksMined m + 1\<rparr>) (EnsureMetrics bc)
               in SaveToDisk E bc))"

definition UniversalTransfer ::
  "(string \<Rightarrow> string) \<Rightarrow> (string \<Rightarrow> string) \<Rightarrow> env \<Rightarrow> string \<Rightarrow> string \<Rightarrow> string \<Rightarrow> u64 \<Rightarrow> Blockchain \<Rightarrow> Blockchain \<times> UniversalWallet go" where
  "UniversalTransfer ulower utrim E fromWallet toName0 currency amount bc =
     (if amount = 0 then (bc, Err ''amount must be positive'')
      else let toName = ToLower ulower (TrimSpace utrim toName0) in
        case fmlookup (bc_UniversalWallets bc) toName of
          None \<Rightarrow> (bc, Err ''recipient wallet not found'')
        | Some to \<Rightarrow>
            (case fmlookup (bc_Ledger bc) fromWallet of
               None \<Rightarrow> (bc, Err ''insufficient funds'')
             | Some fromAcct \<Rightarrow>
                 (if acct_Balance fromAcct < amount then (bc, Err ''insufficient funds'')
                  else
                    let bc = bc\<lparr>bc_Ledger := debit fromWallet amount (bc_Ledger bc)\<rparr>;
                        bc = (if fmlookup (bc_Ledger bc) (uw_Address to) = None
                              then bc\<lparr>bc_Ledger := fmupd (uw_Address to) \<lparr>acct_Address = uw_Address to, acct_Balance = 0,
                                     acct_Staked = 0, acct_IsAgent = False\<rparr> (bc_Ledger bc)\<rparr>
                              else bc);
                        bc = bc\<lparr>bc_Ledger := credit (uw_Address to) amount (bc_Ledger bc)\<rparr>;
                        tx = \<lparr>tx_ID = [], tx_From = fromWallet, tx_FromPubKey = [], tx_To = uw_Address to,
                          tx_Amount = amount, tx_Fee = 1, tx_Nonce = map_get 0 (bc_NextNonce bc) fromWallet,
                          tx_TxType = Transfer, tx_Payload = [], tx_Signature = [], tx_Timestamp = env_now E,
                          tx_ChainID = bc_ChainID bc\<rparr>;
                        bc = bc\<lparr>bc_NextNonce := fmupd fromWallet (tx_Nonce tx + 1) (bc_NextNonce bc)\<rparr>;
                        bc = markTransactionSeen tx bc;
                        block = \<lparr>blk_Index = of_nat (length (bc_Chain bc)), blk_Author = fromWallet, blk_MinerAddress = [],
                          blk_PreviousHash = TailHash bc, blk_Timestamp = env_now E, blk_Transactions = [tx], blk_Nonce = 0,
                          blk_BlockHash = [], blk_TxMerkleRoot = []\<rparr>;
                        bc = applyBlock E block bc;
                        bc = bc\<lparr>bc_Chain := bc_Chain bc @ [block], bc_Pending := []\<rparr>
                    in (appendAuditEntry E ''universal_transfer'' fromWallet (''to='' @ toName @ '' amount='' @
                          FormatUint amount @ '' currency='' @ currency) bc, Ok to))))"

section \<open>Selection does not depend on the order of maps\<close>

definition pubkey_key :: "Blockchain \<Rightarrow> string \<Rightarrow> nat \<times> string" where
  "pubkey_key bc a = (2 ^ 64 - unat (val_Stake (validator_at bc a)), a)"

definition candidate_key :: "Blockchain \<Rightarrow> string \<Rightarrow> nat \<times> nat \<times> string" where
  "candidate_key bc a = (2 ^ 64 - unat (val_Stake (validator_at bc a)), 2 ^ 64 - unat (val_Performance (validator_at bc a)), a)"

lemma u64_flip: "2 ^ 64 - unat (x :: u64) < 2 ^ 64 - unat y \<longleftrightarrow> y < x" "2 ^ 64 - unat (x :: u64) = 2 ^ 64 - unat y \<longleftrightarrow> x = y"
proof -
  have "unat x < 2 ^ 64" "unat y < 2 ^ 64" using unat_u64_lt [of x] unat_u64_lt [of y] by simp_all
  then show "2 ^ 64 - unat x < 2 ^ 64 - unat y \<longleftrightarrow> y < x" "2 ^ 64 - unat x = 2 ^ 64 - unat y \<longleftrightarrow> x = y"
    unfolding word_less_nat_alt word_unat_eq_iff by linarith+
qed

lemma pubkey_less_key: "pubkey_less bc a b \<longleftrightarrow> pubkey_key bc a < pubkey_key bc b"
  by (auto simp: pubkey_less_def pubkey_key_def Let_def less_prod_def' u64_flip simp del: power_numeral)

lemma candidate_less_key: "candidate_less bc a b \<longleftrightarrow> candidate_key bc a < candidate_key bc b"
  by (auto simp: candidate_less_def candidate_key_def Let_def less_prod_def' u64_flip simp del: power_numeral)

lemma candidates_sort:
  assumes "mset xs = mset ys"
  shows "sort_slice (candidate_less bc) xs = sort_slice (candidate_less bc) ys"
proof -
  have "inj_on (candidate_key bc) (set xs)" by (auto simp: candidate_key_def inj_on_def)
  with assms show ?thesis
    using candidate_less_key sort_key_order by (simp add: sort_slice_key [of _ "candidate_key bc"])
qed

lemma first_nonempty_mset:
  assumes "mset xs = mset xs'" "mset ys = mset ys'" "mset zs = mset zs'"
  shows "mset (let cs = xs; cs = (if length cs = 0 then ys else cs) in if length cs = 0 then zs else cs) =
    mset (let cs = xs'; cs = (if length cs = 0 then ys' else cs) in if length cs = 0 then zs' else cs)"
  using assms mset_eq_length [OF assms(1)] mset_eq_length [OF assms(2)]
  by (auto simp: Let_def simp del: length_0_conv)

text \<open>The author of the next block does not depend on the order in which the run-time system visits the
  validators and the ledger: any two such orders select the same author and leave the same state.\<close>

theorem SelectValidator_deterministic:
  assumes "range_order (ch_validators K) (bc_Validators bc)" "range_order (ch_validators K') (bc_Validators bc)"
    and "range_order (ch_ledger K) (bc_Ledger bc)" "range_order (ch_ledger K') (bc_Ledger bc)"
  shows "SelectValidator K bc = SelectValidator K' bc"
proof -
  have v: "mset (ch_validators K) = mset (ch_validators K')" and l: "mset (ch_ledger K) = mset (ch_ledger K')"
    using assms by (auto simp: range_order_def set_eq_iff_mset_eq_distinct [symmetric])
  have f: "mset (filter P xs) = mset (filter P ys)" if "mset xs = mset ys" for P and xs ys :: "string list"
    using that by (simp add: mset_filter)
  have "mset (candidates K bc) = mset (candidates K' bc)"
    unfolding candidates_def staked_candidates_def by (intro first_nonempty_mset f v l)
  from candidates_sort [OF this, of bc] mset_eq_length [OF this] show ?thesis
    unfolding SelectValidator_def by (simp only:)
qed

definition demo_choices :: choices where
  "demo_choices = \<lparr>ch_validators = [], ch_ledger = [''a'', ''v''], ch_rotation = [], ch_pending = [], ch_oor = (\<lambda>f. 0)\<rparr>"

lemma demo_node_validators: "bc_Validators demo_node = fmempty"
  by (simp add: demo_node_def demo_chain_def createGenesisBlock_def empty_Blockchain_def Let_def)

theorem SelectValidator_deterministic_witness:
  "SelectValidator demo_choices demo_node = SelectValidator (demo_choices\<lparr>ch_ledger := [''v'', ''a'']\<rparr>) demo_node"
  by (rule SelectValidator_deterministic)
    (auto simp: range_order_def demo_choices_def demo_node_validators demo_node_ledger)

end
