(* ===== verification/Mining_Properties.thy ===== *)
theory Mining_Properties
  imports Mining
begin

text \<open>
  Properties of making blocks: the search for a nonce, the integrity of the chain, the supply, what
  can stop mining, submitted blocks, and the transfers between named wallets.
\<close>

section \<open>Proof of work\<close>

definition meets :: "crypto \<Rightarrow> nat \<Rightarrow> Block \<Rightarrow> u64 \<Rightarrow> bool" where
  "meets C target block n \<longleftrightarrow> hex_number (calculateHash C (block\<lparr>blk_Nonce := n\<rparr>)) < target"

lemma pow_loop_finds:
  "meets C t block (blk_Nonce block + of_nat k) \<Longrightarrow> pow_loop C t block \<noteq> None"
proof (induction k arbitrary: block)
  case 0
  then show ?case by (subst pow_loop.simps) (simp add: meets_def Let_def)
next
  case (Suc k)
  let ?b = "block\<lparr>blk_Nonce := blk_Nonce block + 1\<rparr>"
  have "meets C t ?b (blk_Nonce ?b + of_nat k)"
    using Suc.prems by (simp add: meets_def ac_simps)
  from Suc.IH [OF this] show ?case
    by (subst pow_loop.simps) (simp add: Let_def)
qed

lemma pow_loop_result:
  assumes "pow_loop C t block = Some b"
  shows "\<exists>n. meets C t block n \<and> b = block\<lparr>blk_Nonce := n, blk_BlockHash := calculateHash C (block\<lparr>blk_Nonce := n\<rparr>)\<rparr>"
proof (rule pow_loop.raw_induct [OF _ assms])
  fix loop C t block b
  assume IH: "\<And>C t block b. loop C t block = Some b \<Longrightarrow> \<exists>n. meets C t block n \<and>
      b = block\<lparr>blk_Nonce := n, blk_BlockHash := calculateHash C (block\<lparr>blk_Nonce := n\<rparr>)\<rparr>"
    and body: "(let hash = calculateHash C block in if hex_number hash < t then Some (block\<lparr>blk_BlockHash := hash\<rparr>)
      else loop C t (block\<lparr>blk_Nonce := blk_Nonce block + 1\<rparr>)) = Some b"
  show "\<exists>n. meets C t block n \<and> b = block\<lparr>blk_Nonce := n, blk_BlockHash := calculateHash C (block\<lparr>blk_Nonce := n\<rparr>)\<rparr>"
  proof (cases "hex_number (calculateHash C block) < t")
    case True
    with body show ?thesis by (intro exI [of _ "blk_Nonce block"]) (simp add: meets_def Let_def)
  next
    case False
    with body have "loop C t (block\<lparr>blk_Nonce := blk_Nonce block + 1\<rparr>) = Some b" by (simp add: Let_def)
    from IH [OF this] show ?thesis by (auto simp: meets_def)
  qed
qed

text \<open>C10. Proof of work: when the difficulty is at most 256, the search returns if and only if some nonce
  meets the target, so it runs forever exactly when none of the \<open>2\<^sup>6\<^sup>4\<close> nonces does; and the block
  it returns carries the root of its transactions, its own hash, a hash below the target, and is
  otherwise the given block with another nonce.\<close>

theorem proofOfWork_correct:
  assumes "unat (minerDifficulty (blk_MinerAddress block) bc) \<le> 256"
  shows "let t = 2 ^ (256 - unat (minerDifficulty (blk_MinerAddress block) bc));
             block0 = block\<lparr>blk_TxMerkleRoot := CalculateMerkleRoot C (blk_Transactions block)\<rparr>
    in ((\<exists>b. proofOfWork C block bc = Some (Ok b)) \<longleftrightarrow> (\<exists>n. meets C t block0 n)) \<and>
       (\<forall>b. proofOfWork C block bc = Some (Ok b) \<longrightarrow>
          blk_BlockHash b = calculateHash C b \<and> hex_number (blk_BlockHash b) < t \<and>
          b = block0\<lparr>blk_Nonce := blk_Nonce b, blk_BlockHash := blk_BlockHash b\<rparr>)"
proof -
  define t :: nat where "t = 2 ^ (256 - unat (minerDifficulty (blk_MinerAddress block) bc))"
  define block0 where "block0 = block\<lparr>blk_TxMerkleRoot := CalculateMerkleRoot C (blk_Transactions block)\<rparr>"
  have p: "proofOfWork C block bc = map_option Ok (pow_loop C t block0)"
    using assms by (simp add: proofOfWork_def Let_def t_def block0_def)
  have "pow_loop C t block0 \<noteq> None" if "meets C t block0 n" for n
    using pow_loop_finds [of C t block0 "unat (n - blk_Nonce block0)"] that by simp
  then have "(\<exists>b. pow_loop C t block0 = Some b) \<longleftrightarrow> (\<exists>n. meets C t block0 n)"
    using pow_loop_result by blast
  moreover have "blk_BlockHash b = calculateHash C b \<and> hex_number (blk_BlockHash b) < t \<and>
      b = block0\<lparr>blk_Nonce := blk_Nonce b, blk_BlockHash := blk_BlockHash b\<rparr>" if "pow_loop C t block0 = Some b" for b
    using pow_loop_result [OF that] by (auto simp: meets_def)
  ultimately show ?thesis
    unfolding Let_def t_def [symmetric] block0_def [symmetric] p by auto
qed

lemma hex_number_bound: "hex_number s < 16 ^ length s"
proof -
  let ?f = "\<lambda>n c. n * 16 + (case hex_val c of Some d \<Rightarrow> d | None \<Rightarrow> 0)"
  have d: "(case hex_val c of Some d \<Rightarrow> d | None \<Rightarrow> 0) < 16" for c
    by (auto simp: hex_val_def Let_def split: option.splits if_splits)
  have "foldl ?f n s < (n + 1) * 16 ^ length s" for n
  proof (induction s arbitrary: n)
    case (Cons c s)
    have "foldl ?f (?f n c) s < (?f n c + 1) * 16 ^ length s" by (rule Cons.IH)
    also have "\<dots> \<le> ((n + 1) * 16) * 16 ^ length s"
      using d [of c] by (intro mult_right_mono) auto
    also have "\<dots> = (n + 1) * 16 ^ length (c # s)" by (simp add: algebra_simps)
    finally show ?case by simp
  qed simp
  from this [of 0] show ?thesis by (simp add: hex_number_def)
qed

theorem proofOfWork_correct_witness:
  "\<exists>b. proofOfWork demo_crypto demo_block (demo_node\<lparr>bc_Difficulty := 0, bc_MinerStats := fmempty\<rparr>) = Some (Ok b) \<and>
      blk_BlockHash b = calculateHash demo_crypto b"
proof -
  have d: "minerDifficulty (blk_MinerAddress demo_block) (demo_node\<lparr>bc_Difficulty := 0, bc_MinerStats := fmempty\<rparr>) = 0"
    by (simp add: minerDifficulty_def)
  have "length (calculateHash demo_crypto b) = 64" for b
    by (simp add: calculateHash_def demo_crypto_def)
  then have "meets demo_crypto (2 ^ 256) b n" for b n
    using hex_number_bound [of "calculateHash demo_crypto (b\<lparr>blk_Nonce := n\<rparr>)"] by (simp add: meets_def)
  then show ?thesis
    using proofOfWork_correct [of demo_block "demo_node\<lparr>bc_Difficulty := 0, bc_MinerStats := fmempty\<rparr>" demo_crypto] d
    by (auto simp: Let_def)
qed

section \<open>The chain\<close>

text \<open>Consecutive blocks fit together, and every block but the first carries the hash of its content.\<close>

definition follows :: "crypto \<Rightarrow> Block \<Rightarrow> Block \<Rightarrow> bool" where
  "follows C p b \<longleftrightarrow> blk_Index b = blk_Index p + 1 \<and> blk_PreviousHash b = blk_BlockHash p \<and> blk_BlockHash b = calculateHash C b"

definition linked :: "crypto \<Rightarrow> Block list \<Rightarrow> bool" where
  "linked C chain \<longleftrightarrow> successively (follows C) chain"

lemma linked_snoc: "linked C chain \<Longrightarrow> chain \<noteq> [] \<Longrightarrow> validateBlock C b (last chain) bc = Ok () \<Longrightarrow> linked C (chain @ [b])"
  by (simp add: linked_def successively_append_iff follows_def validateBlock_Ok)

lemma SaveToDisk_frame [frame]:
  "bc_Chain (fst (SaveToDisk E bc)) = bc_Chain bc" "bc_TokenSupply (fst (SaveToDisk E bc)) = bc_TokenSupply bc"
  "bc_Ledger (fst (SaveToDisk E bc)) = bc_Ledger bc" "bc_Pending (fst (SaveToDisk E bc)) = bc_Pending bc"
  by (auto simp: SaveToDisk_def Let_def split: go.splits option.splits)

lemma count_frame [frame]:
  "bc_Chain (EnsureMetrics bc) = bc_Chain bc" "bc_Chain (count_metric f bc) = bc_Chain bc"
  "bc_TokenSupply (EnsureMetrics bc) = bc_TokenSupply bc" "bc_TokenSupply (count_metric f bc) = bc_TokenSupply bc"
  "bc_Ledger (EnsureMetrics bc) = bc_Ledger bc" "bc_Ledger (count_metric f bc) = bc_Ledger bc"
  "bc_Pending (EnsureMetrics bc) = bc_Pending bc" "bc_Pending (count_metric f bc) = bc_Pending bc"
  by (simp_all add: count_metric_def EnsureMetrics_def)

lemma select_frame [frame]:
  "bc_Chain (fst (SelectValidator K bc)) = bc_Chain bc" "bc_TokenSupply (fst (SelectValidator K bc)) = bc_TokenSupply bc"
  "bc_Pending (fst (SelectValidator K bc)) = bc_Pending bc"
  by (auto simp: SelectValidator_def Let_def split: option.splits bool.splits)

lemma settle_frame [frame]: "bc_Chain (settle_fee tx bc) = bc_Chain bc" "bc_Pending (settle_fee tx bc) = bc_Pending bc"
  by (auto simp: settle_fee_def Let_def split: option.splits prod.splits)

lemma settle_supply: "unat (bc_TokenSupply (settle_fee tx bc)) \<le> unat (bc_TokenSupply bc)"
  by (auto simp: settle_fee_def Let_def unat_sub_no_wrap not_less split: option.splits prod.splits)

lemma mark_pending [frame]: "bc_Pending (markTransactionSeen tx bc) = bc_Pending bc" "bc_Pending (markTransactionUsed tx bc) = bc_Pending bc"
  by (simp_all add: markTransactionSeen_def markTransactionUsed_def Let_def)

lemma mine_txs_frame [frame]:
  "bc_Chain (fst (mine_txs C oor n txs acc bc)) = bc_Chain bc"
  "bc_Pending (fst (mine_txs C oor n txs acc bc)) = bc_Pending bc"
  "unat (bc_TokenSupply (fst (mine_txs C oor n txs acc bc))) \<le> unat (bc_TokenSupply bc)"
proof -
  show "bc_Chain (fst (mine_txs C oor n txs acc bc)) = bc_Chain bc" "bc_Pending (fst (mine_txs C oor n txs acc bc)) = bc_Pending bc"
    by (induction C oor n txs acc bc rule: mine_txs.induct) (auto simp: Let_def frame)
  show "unat (bc_TokenSupply (fst (mine_txs C oor n txs acc bc))) \<le> unat (bc_TokenSupply bc)"
  proof (induction txs arbitrary: acc bc)
    case (Cons tx txs)
    have step: "unat (bc_TokenSupply (fst (mine_txs C oor n txs acc b))) \<le> unat (bc_TokenSupply bc)"
      if "unat (bc_TokenSupply b) \<le> unat (bc_TokenSupply bc)" for acc b
      using order_trans [OF Cons that] .
    show ?case
      by (auto simp: Let_def intro!: step) (simp_all add: frame settle_supply)
  qed simp
qed

lemma reward_frame [frame]:
  "bc_Chain (fst (MineRewardFor E m bc)) = bc_Chain bc" "bc_TokenSupply (fst (MineRewardFor E m bc)) = bc_TokenSupply bc"
  "bc_Chain (pay_reward a r bc) = bc_Chain bc"
  by (simp_all add: MineRewardFor_def pay_reward_def Let_def split: prod.splits)

lemma mine_reward_le: "unat (snd (MineRewardFor E m bc)) \<le> 1"
  by (auto simp: MineRewardFor_def mine_reward_def Let_def split: prod.splits option.splits)

lemma applyBlock_frame [frame]:
  "bc_Chain (applyBlock E b bc) = bc_Chain bc" "bc_TokenSupply (applyBlock E b bc) = bc_TokenSupply bc"
  by (simp_all add: applyBlock_def ProcessReversals_def apply_txs_frame)

lemma rotate_frame [frame]:
  "bc_Chain (rotateValidatorKeysLocked C E ks now bc) = bc_Chain bc"
  "bc_TokenSupply (rotateValidatorKeysLocked C E ks now bc) = bc_TokenSupply bc"
proof -
  have "bc_Chain (rotate_loop C E now ks bc) = bc_Chain bc \<and> bc_TokenSupply (rotate_loop C E now ks bc) = bc_TokenSupply bc"
    by (induction ks arbitrary: bc) (auto simp: Let_def split: option.splits)
  then show "bc_Chain (rotateValidatorKeysLocked C E ks now bc) = bc_Chain bc"
    "bc_TokenSupply (rotateValidatorKeysLocked C E ks now bc) = bc_TokenSupply bc"
    by (simp_all add: rotateValidatorKeysLocked_def)
qed

lemma buyback_frame [frame]: "bc_Chain (treasuryBuybackLocked E bc) = bc_Chain bc"
  by (auto simp: treasuryBuybackLocked_def Let_def split: option.splits)

lemma buyback_supply: "unat (bc_TokenSupply (treasuryBuybackLocked E bc)) \<le> unat (bc_TokenSupply bc)"
proof -
  have "s - b \<le> s" if "b \<le> s div 100" for s b :: u64
  proof -
    have "unat b \<le> unat s div 100" using that by (simp add: word_le_nat_alt unat_div_u64)
    then have "unat b \<le> unat s" by linarith
    then show ?thesis by (simp add: word_le_nat_alt unat_sub_no_wrap)
  qed
  then show ?thesis
    by (auto simp: treasuryBuybackLocked_def Let_def word_le_nat_alt [symmetric] not_less split: option.splits)
qed

lemma difficulty_frame [frame]:
  "bc_Chain (adjustDifficulty bc) = bc_Chain bc" "bc_TokenSupply (adjustDifficulty bc) = bc_TokenSupply bc"
  "bc_Pending (adjustDifficulty bc) = bc_Pending bc" "bc_Ledger (adjustDifficulty bc) = bc_Ledger bc"
  by (simp_all add: adjustDifficulty_def Let_def)

lemma submission_frame [frame]:
  "bc_Chain (NoteMinedBlock m (RecordMinerSubmission E m bc)) = bc_Chain bc"
  "bc_TokenSupply (NoteMinedBlock m (RecordMinerSubmission E m bc)) = bc_TokenSupply bc"
  "bc_Pending (NoteMinedBlock m (RecordMinerSubmission E m bc)) = bc_Pending bc"
  by (simp_all add: NoteMinedBlock_def RecordMinerSubmission_def)

lemma pay_reward_supply: "unat r \<le> 1 \<Longrightarrow> unat (bc_TokenSupply (pay_reward a r bc)) \<le> unat (bc_TokenSupply bc) + 1"
  by (auto simp: pay_reward_def unat_word_ariths intro: order_trans [OF mod_less_eq_dividend])

lemma commit_mined_spec:
  "bc_Chain (fst (commit_mined C E K author block bc)) = bc_Chain bc @ [block]"
  "bc_Pending (fst (commit_mined C E K author block bc)) = []"
  "unat (bc_TokenSupply (fst (commit_mined C E K author block bc))) \<le> unat (bc_TokenSupply bc) + 1"
  "snd (commit_mined C E K author block bc) = Ok b \<Longrightarrow> b = block"
proof -
  obtain bc1 r where r: "MineRewardFor E author bc = (bc1, r)" by force
  define bc2 where "bc2 = applyBlock E block (pay_reward author r bc1)"
  define bc3 where "bc3 = rotateValidatorKeysLocked C E (ch_rotation K) (env_now E) (bc2\<lparr>bc_Chain := bc_Chain bc2 @ [block]\<rparr>)"
  define bc4 where "bc4 = (if bc_Consensus bc3 \<noteq> ProofOfWork
    then bc3\<lparr>bc_tendermintEngine := map_option (mining_round C (env_now E) block author) (bc_tendermintEngine bc3)\<rparr> else bc3)"
  define bc5 where "bc5 = (if 0 < bc_AgentTxCount bc4 then treasuryBuybackLocked E bc4 else bc4)"
  define bc6 where "bc6 = count_metric (\<lambda>m. m\<lparr>m_blocksMined := m_blocksMined m + 1\<rparr>) (EnsureMetrics
    (appendAuditEntry E ''block_mined'' author (''index='' @ FormatUint (blk_Index block) @ '' txs='' @
      fmt_nat (length (blk_Transactions block)) @ '' miner='' @ author @ '' reward='' @ FormatUint r)
      (NoteMinedBlock author (RecordMinerSubmission E author (adjustDifficulty (bc5\<lparr>bc_Pending := []\<rparr>))))))"
  have c: "commit_mined C E K author block bc = (case SaveToDisk E bc6 of
      (bc, Ok _) \<Rightarrow> (bc, Ok block) | (bc, Err e) \<Rightarrow> (bc, Err e) | (bc, Panic e) \<Rightarrow> (bc, Panic e))"
    unfolding commit_mined_def Let_def r prod.case bc6_def bc5_def bc4_def bc3_def bc2_def ..
  have f: "fst (commit_mined C E K author block bc) = fst (SaveToDisk E bc6)"
    unfolding c by (auto split: prod.splits go.splits)
  have bc1: "bc_Chain bc1 = bc_Chain bc" "bc_TokenSupply bc1 = bc_TokenSupply bc" "unat r \<le> 1"
    using reward_frame(1,2) [where E = E and m = author and bc = bc] mine_reward_le [where E = E and m = author and bc = bc]
    by (simp_all add: r)
  then have bc2: "bc_Chain bc2 = bc_Chain bc" "unat (bc_TokenSupply bc2) \<le> unat (bc_TokenSupply bc) + 1"
    using pay_reward_supply [OF bc1(3), of author bc1] by (simp_all add: bc2_def frame)
  have bc5: "bc_Chain bc5 = bc_Chain bc @ [block]" "unat (bc_TokenSupply bc5) \<le> unat (bc_TokenSupply bc2)"
  proof -
    have "bc_Chain bc4 = bc_Chain bc @ [block]" "bc_TokenSupply bc4 = bc_TokenSupply bc2"
      using bc2(1) by (simp_all add: bc4_def bc3_def frame)
    then show "bc_Chain bc5 = bc_Chain bc @ [block]" "unat (bc_TokenSupply bc5) \<le> unat (bc_TokenSupply bc2)"
      using buyback_supply [of E bc4] by (simp_all add: bc5_def frame)
  qed
  show "bc_Chain (fst (commit_mined C E K author block bc)) = bc_Chain bc @ [block]"
    "bc_Pending (fst (commit_mined C E K author block bc)) = []"
    "unat (bc_TokenSupply (fst (commit_mined C E K author block bc))) \<le> unat (bc_TokenSupply bc) + 1"
    using bc2 bc5 unfolding f by (simp_all add: bc6_def frame)
  show "snd (commit_mined C E K author block bc) = Ok b \<Longrightarrow> b = block"
    unfolding c by (auto split: prod.splits go.splits)
qed

text \<open>What mining adds to the sum of all balances: the parts of the fees that go to the community fund, for
  which nobody is charged, and the reward.\<close>

definition fee_sum :: "Transaction list \<Rightarrow> nat" where
  "fee_sum txs = sum_list (map (\<lambda>tx. unat (tx_Fee tx)) txs)"

lemma select_ledger [frame]: "bc_Ledger (fst (SelectValidator K bc)) = bc_Ledger bc"
  by (auto simp: SelectValidator_def Let_def split: option.splits bool.splits)

lemma mine_txs_money:
  "100 * total_balance (bc_Ledger (fst (mine_txs C oor n txs acc bc))) \<le> 100 * total_balance (bc_Ledger bc) + 21 * fee_sum txs"
proof (induction txs arbitrary: acc bc)
  case (Cons tx txs)
  have step: "100 * total_balance (bc_Ledger (fst (mine_txs C oor n txs acc b))) \<le> 100 * total_balance (bc_Ledger bc) + 21 * fee_sum (tx # txs)"
    if "100 * total_balance (bc_Ledger b) \<le> 100 * total_balance (bc_Ledger bc) + 21 * unat (tx_Fee tx)" for acc b
    using Cons [of acc b] that by (simp add: fee_sum_def)
  show ?case
    by (auto simp: Let_def intro!: step) (simp_all add: frame settle_fee_money)
qed (simp add: fee_sum_def)

lemma buyback_money: "total_balance (bc_Ledger (treasuryBuybackLocked E bc)) \<le> total_balance (bc_Ledger bc)"
proof -
  have "total_balance (debit CommunityFundAddress b (bc_Ledger bc)) \<le> total_balance (bc_Ledger bc)"
    if "fmlookup (bc_Ledger bc) CommunityFundAddress = Some ac" "b \<le> acct_Balance ac div 10" for ac b
  proof -
    have "b \<le> acct_Balance ac" using that(2) by (simp add: word_le_nat_alt unat_div_u64)
    then show ?thesis
      using ledger.total_debit_exact [of "bc_Ledger bc" CommunityFundAddress "acct_Balance ac" b] that(1) by (simp add: balance_of_def)
  qed
  then show ?thesis by (auto simp: treasuryBuybackLocked_def Let_def split: option.splits)
qed

lemma rotate_ledger [frame]: "bc_Ledger (rotateValidatorKeysLocked C E ks now bc) = bc_Ledger bc"
proof -
  have "bc_Ledger (rotate_loop C E now ks bc) = bc_Ledger bc"
    by (induction ks arbitrary: bc) (auto simp: Let_def split: option.splits)
  then show ?thesis by (simp add: rotateValidatorKeysLocked_def)
qed

lemma pay_reward_money: "unat r \<le> 1 \<Longrightarrow> total_balance (bc_Ledger (pay_reward a r bc)) \<le> total_balance (bc_Ledger bc) + 1"
  using ledger.total_credit_le [of "bc_Ledger bc" a _ r]
  by (fastforce simp: pay_reward_def has_key_iff balance_of_def)

lemma commit_mined_money:
  "total_balance (bc_Ledger (fst (commit_mined C E K author block bc))) \<le> total_balance (bc_Ledger bc) + 1"
proof -
  obtain bc1 r where r: "MineRewardFor E author bc = (bc1, r)" by force
  have "bc_Ledger bc1 = bc_Ledger bc" "unat r \<le> 1"
    using r mine_reward_le [where E = E and m = author and bc = bc] by (auto simp: MineRewardFor_def split: prod.splits)
  then have a: "total_balance (bc_Ledger (applyBlock E block (pay_reward author r bc1))) \<le> total_balance (bc_Ledger bc) + 1"
    using applyBlock_wrap(1) [of E block "pay_reward author r bc1"] pay_reward_money [of r author bc1] by simp
  have "total_balance (bc_Ledger (if P then treasuryBuybackLocked E b else b)) \<le> total_balance (bc_Ledger bc) + 1"
    if "bc_Ledger b = bc_Ledger (applyBlock E block (pay_reward author r bc1))" for P b
    using buyback_money [of E b] a that by simp
  moreover have "bc_Ledger (fst (case SaveToDisk E b of (bc, Ok _) \<Rightarrow> (bc, Ok block) | (bc, Err e) \<Rightarrow> (bc, Err e) | (bc, Panic e) \<Rightarrow> (bc, Panic e))) =
      bc_Ledger b" for b
    using SaveToDisk_frame(3) [of E b] by (auto split: prod.splits go.splits)
  ultimately show ?thesis
    unfolding commit_mined_def Let_def r prod.case
    by (simp add: frame NoteMinedBlock_def RecordMinerSubmission_def)
qed

text \<open>How a run of \<open>MineBlockFor\<close> on a non-empty chain ends.\<close>

lemma MineBlockFor_cases:
  assumes "MineBlockFor C E K miner bc = Some (bc', r)" "bc_Chain bc \<noteq> []"
  obtains (failed) "bc_Chain bc' = bc_Chain bc" "bc_Pending bc' = bc_Pending bc" "\<not> is_ok r"
      "unat (bc_TokenSupply bc') \<le> unat (bc_TokenSupply bc)"
      "100 * total_balance (bc_Ledger bc') \<le> 100 * total_balance (bc_Ledger bc) + 21 * fee_sum (ch_pending K)"
    | (mined) bc1 block author where "bc_Chain bc1 = bc_Chain bc" "unat (bc_TokenSupply bc1) \<le> unat (bc_TokenSupply bc)"
      "validateBlock C block (last (bc_Chain bc)) bc1 = Ok ()" "commit_mined C E K author block bc1 = (bc', r)"
      "100 * total_balance (bc_Ledger bc1) \<le> 100 * total_balance (bc_Ledger bc) + 21 * fee_sum (ch_pending K)"
proof -
  obtain bc0 sel where sel: "SelectValidator K bc = (bc0, sel)" by force
  have bc0: "bc_Chain bc0 = bc_Chain bc" "bc_Pending bc0 = bc_Pending bc" "bc_TokenSupply bc0 = bc_TokenSupply bc"
    using select_frame [of K bc] by (simp_all add: sel)
  obtain bc1 txs where m: "mine_txs C (ch_oor K) (length (ch_pending K)) (ch_pending K) [] bc0 = (bc1, txs)" by force
  have bc1: "bc_Chain bc1 = bc_Chain bc" "bc_Pending bc1 = bc_Pending bc" "unat (bc_TokenSupply bc1) \<le> unat (bc_TokenSupply bc)"
    using mine_txs_frame [of C "ch_oor K" "length (ch_pending K)" "ch_pending K" "[]" bc0] by (simp_all add: m bc0)
  have money: "100 * total_balance (bc_Ledger bc1) \<le> 100 * total_balance (bc_Ledger bc) + 21 * fee_sum (ch_pending K)"
    using mine_txs_money [of C "ch_oor K" "length (ch_pending K)" "ch_pending K" "[]" bc0] select_ledger [of K bc] by (simp add: m sel)
  show ?thesis
    using assms bc0 bc1 money select_ledger [of K bc] failed mined
    by (auto simp: MineBlockFor_def sel m Let_def split: if_splits go.splits option.splits)
qed

text \<open>C4. Mining keeps the chain intact: every outcome of \<open>MineBlockFor\<close>, failures included, leaves a chain
  whose blocks are linked by index and hash; a success appends exactly the block that is returned;
  blocks that are in the chain are never changed or dropped.\<close>

theorem mining_extends_chain:
  assumes "linked C (bc_Chain bc)" "bc_Chain bc \<noteq> []" "MineBlockFor C E K miner bc = Some (bc', r)"
  shows "linked C (bc_Chain bc') \<and> (bc_Chain bc' = bc_Chain bc \<or> (\<exists>b. bc_Chain bc' = bc_Chain bc @ [b])) \<and>
    (\<forall>b. r = Ok b \<longrightarrow> bc_Chain bc' = bc_Chain bc @ [b] \<and> bc_Pending bc' = [])"
  using assms(3,2)
proof (cases rule: MineBlockFor_cases)
  case failed
  then show ?thesis using assms(1) by (cases r) auto
next
  case (mined bc1 block author)
  then have f: "bc' = fst (commit_mined C E K author block bc1)" "r = snd (commit_mined C E K author block bc1)"
    by simp_all
  show ?thesis
    using commit_mined_spec [of C E K author block bc1] linked_snoc [OF assms(1,2) mined(3)] mined(1)
    unfolding f by auto
qed

text \<open>C13. How much money one call of \<open>MineBlockFor\<close> that returns can make on a node whose chain is not empty, whatever its outcome, over all fees, burns, the
  reward, the buyback and the reversals: the token supply grows by at most one base unit (the reward), and the sum of all balances grows by at most that unit and 21 percent of the
  fees of the pending transactions it goes through (\<open>ch_pending\<close>). The second part is not zero: the community fund is credited with its share of a fee that no account has paid, also when the block is refused.\<close>

theorem mining_supply_bound:
  assumes "bc_Chain bc \<noteq> []" "MineBlockFor C E K miner bc = Some (bc', r)"
  shows "unat (bc_TokenSupply bc') \<le> unat (bc_TokenSupply bc) + 1 \<and>
    100 * total_balance (bc_Ledger bc') \<le> 100 * (total_balance (bc_Ledger bc) + 1) + 21 * fee_sum (ch_pending K)"
  using assms(2,1)
proof (cases rule: MineBlockFor_cases)
  case (mined bc1 block author)
  then have "bc' = fst (commit_mined C E K author block bc1)" by simp
  with commit_mined_spec(3) [of C E K author block bc1] commit_mined_money [of C E K author block bc1] mined(2,5) show ?thesis by simp
qed simp

text \<open>Mining on a node with one account and an empty mempool, under proof of stake.\<close>

definition demo_miner :: Blockchain where
  "demo_miner = demo_bank\<lparr>bc_Consensus := ProofOfStake, bc_MintPaused := False\<rparr>"

definition mined_block :: "Transaction list \<Rightarrow> Block" where
  "mined_block txs = (let b = \<lparr>blk_Index = 1, blk_Author = ''a'', blk_MinerAddress = ''a'', blk_PreviousHash = TailHash demo_bank,
       blk_Timestamp = 1000, blk_Transactions = txs, blk_Nonce = 0, blk_BlockHash = [], blk_TxMerkleRoot = CalculateMerkleRoot demo_crypto txs\<rparr>
     in b\<lparr>blk_BlockHash := calculateHash demo_crypto b\<rparr>)"

lemma demo_miner_fields:
  "bc_Chain demo_miner = bc_Chain demo_bank" "bc_Consensus demo_miner = ProofOfStake" "\<not> bc_MintPaused demo_miner"
  "bc_Ledger demo_miner = bc_Ledger demo_bank"
  by (simp_all add: demo_miner_def)

lemma demo_miner_select:
  "bc_Chain (fst (SelectValidator demo_choices demo_miner)) = bc_Chain demo_bank"
  "bc_Consensus (fst (SelectValidator demo_choices demo_miner)) = ProofOfStake"
  "bc_Ledger (fst (SelectValidator demo_choices demo_miner)) = bc_Ledger demo_bank"
  using demo_miner_fields by (auto simp: SelectValidator_def Let_def split: option.splits bool.splits)

definition demo_mined :: "Blockchain \<times> Block go" where
  "demo_mined = commit_mined demo_crypto demo_env demo_choices ''a'' (mined_block []) (fst (SelectValidator demo_choices demo_miner))"

lemma mined_block_fields:
  "blk_BlockHash (mined_block txs) = calculateHash demo_crypto (mined_block txs)" "blk_Index (mined_block txs) = 1"
  "blk_PreviousHash (mined_block txs) = TailHash demo_bank" "blk_Transactions (mined_block txs) = txs"
  "blk_Author (mined_block txs) = ''a''" "blk_TxMerkleRoot (mined_block txs) = CalculateMerkleRoot demo_crypto txs"
  by (simp_all add: mined_block_def Let_def calculateHash_def)

lemma demo_mining:
  "MineBlockFor demo_crypto demo_env demo_choices ''a'' demo_miner = Some (fst demo_mined, snd demo_mined)"
proof -
  let ?bc = "fst (SelectValidator demo_choices demo_miner)"
  obtain g where g: "bc_Chain demo_bank = [g]"
    using demo_bank_fields(6) by (cases "bc_Chain demo_bank") auto
  have idx: "blk_Index g = 0" using demo_bank_fields(8) g by simp
  have "validateBlock demo_crypto (mined_block []) (last (bc_Chain ?bc)) ?bc = Ok ()"
    using calculateHash_nonempty [OF crypto_ok_demo, of "mined_block []"] demo_miner_select
    unfolding validateBlock_Ok mined_block_fields
    by (simp add: g idx TailHash_def demo_bank_fields)
  moreover have "seal_block demo_crypto (\<lparr>blk_Index = 1, blk_Author = ''a'', blk_MinerAddress = ''a'',
      blk_PreviousHash = blk_BlockHash g, blk_Timestamp = 1000, blk_Transactions = [], blk_Nonce = 0, blk_BlockHash = [],
      blk_TxMerkleRoot = []\<rparr>) ?bc = Some (Ok (mined_block []))"
    using demo_miner_select by (simp add: seal_block_def mined_block_def Let_def TailHash_def g)
  ultimately show ?thesis
    using demo_miner_select
    by (simp add: MineBlockFor_def demo_miner_fields g Let_def case_prod_beta demo_choices_def demo_env_def demo_mined_def)
qed

theorem mining_extends_chain_witness:
  "linked demo_crypto (bc_Chain (fst demo_mined))"
proof -
  obtain g where g: "bc_Chain demo_bank = [g]"
    using demo_bank_fields(6) by (cases "bc_Chain demo_bank") auto
  then have "linked demo_crypto (bc_Chain demo_miner)" "bc_Chain demo_miner \<noteq> []"
    by (simp_all add: linked_def demo_miner_fields)
  from mining_extends_chain [OF this demo_mining] show ?thesis by blast
qed

theorem mining_supply_bound_witness:
  "unat (bc_TokenSupply (fst demo_mined)) \<le> unat (bc_TokenSupply demo_miner) + 1 \<and>
   total_balance (bc_Ledger (fst demo_mined)) \<le> total_balance (bc_Ledger demo_miner) + 1"
proof -
  have "bc_Chain demo_miner \<noteq> []" "fee_sum (ch_pending demo_choices) = 0"
    using demo_bank_fields by (auto simp: demo_miner_fields fee_sum_def demo_choices_def)
  with mining_supply_bound [OF _ demo_mining] show ?thesis by simp
qed

section \<open>A transaction that stops mining\<close>

text \<open>A transaction with an empty identifier stops the production of blocks: \<open>SubmitTransaction\<close> accepts it
  (the identifier is not signed, so anyone can strip it from a valid transaction), the block that
  holds it is refused, and the mempool keeps it, so the next attempt fails as well; yet each failed
  attempt burns its share of the supply.\<close>

theorem blank_id_stops_mining:
  assumes "bc_Chain bc \<noteq> []" "bc_Consensus bc \<noteq> ProofOfWork" "\<not> bc_MintPaused bc"
    and "ch_pending K = [tx]" "tx_ID tx = []" "validateTransaction C tx (fst (SelectValidator K bc))"
    and "estimateFee (ch_oor K) tx 1 (fst (SelectValidator K bc)) \<le> tx_Fee tx"
    and "crypto_ok C" "blk_Index (last (bc_Chain bc)) + 1 = of_nat (length (bc_Chain bc))"
  shows "\<exists>bc'. MineBlockFor C E K miner bc = Some (bc', Err ''missing transaction id'') \<and>
    bc_Pending bc' = bc_Pending bc \<and> bc_Chain bc' = bc_Chain bc \<and>
    bc_TokenSupply bc' = bc_TokenSupply (settle_fee tx (fst (SelectValidator K bc)))"
proof -
  obtain bc0 sel where sel: "SelectValidator K bc = (bc0, sel)" by force
  have bc0: "bc_Chain bc0 = bc_Chain bc" "bc_Pending bc0 = bc_Pending bc" "bc_Consensus bc0 = bc_Consensus bc"
    using select_frame(1,3) [of K bc] sel
    by (auto simp: SelectValidator_def Let_def split: option.splits bool.splits if_splits)
  define bc1 where "bc1 = count_metric (\<lambda>m. m\<lparr>m_txAccepted := m_txAccepted m + 1\<rparr>) (EnsureMetrics (markTransactionSeen tx (settle_fee tx bc0)))"
  have cons: "bc_Consensus bc1 = bc_Consensus bc"
    by (auto simp: bc1_def count_metric_def EnsureMetrics_def markTransactionSeen_def settle_fee_def Let_def bc0(3)
        split: option.splits prod.splits)
  have bc1: "bc_Chain bc1 = bc_Chain bc" "bc_Pending bc1 = bc_Pending bc" "bc_TokenSupply bc1 = bc_TokenSupply (settle_fee tx bc0)"
    by (simp_all add: bc1_def frame bc0)
  have m: "mine_txs C (ch_oor K) 1 [tx] [] bc0 = (bc1, Ok [tx])"
    using assms(6,7) by (simp add: sel Let_def bc1_def not_less)
  define author where "author = (if miner \<noteq> [] then miner else sel)"
  define b0 where "b0 = \<lparr>blk_Index = of_nat (length (bc_Chain bc)), blk_Author = author, blk_MinerAddress = author,
      blk_PreviousHash = blk_BlockHash (last (bc_Chain bc)), blk_Timestamp = env_now E, blk_Transactions = [tx], blk_Nonce = 0,
      blk_BlockHash = [], blk_TxMerkleRoot = CalculateMerkleRoot C [tx]\<rparr>"
  define b where "b = b0\<lparr>blk_BlockHash := calculateHash C b0\<rparr>"
  have "calculateHash C b = blk_BlockHash b" "blk_BlockHash b \<noteq> []"
    using calculateHash_nonempty [OF assms(8), of b0] by (simp_all add: b_def)
  moreover have "blk_Index b = of_nat (length (bc_Chain bc))" "blk_PreviousHash b = blk_BlockHash (last (bc_Chain bc))"
    "blk_Transactions b = [tx]" "blk_TxMerkleRoot b = CalculateMerkleRoot C [tx]"
    by (simp_all add: b_def b0_def)
  ultimately have v: "validateBlock C b (last (bc_Chain bc)) bc1 = Err ''missing transaction id''"
    using assms(5,9) by (simp add: validateBlock_def)
  have "seal_block C (b0\<lparr>blk_TxMerkleRoot := []\<rparr>) bc1 = Some (Ok b)"
    using assms(2) cons by (simp add: seal_block_def b_def b0_def Let_def)
  then have "MineBlockFor C E K miner bc = Some (bc1, Err ''missing transaction id'')"
    using assms(1,3,4) m v by (simp add: MineBlockFor_def sel Let_def author_def [symmetric] bc0 bc1 b0_def)
  then show ?thesis using bc1 by (simp add: sel)
qed

definition blank_tx :: Transaction where
  "blank_tx = (wallet_Sign demo_crypto 7 demo_wallet (demo_tx\<lparr>tx_From := demo_addr, tx_To := ''a'', tx_Fee := 60000000\<rparr>))\<lparr>tx_ID := []\<rparr>"

lemma select_rules:
  "bc_ChainID (fst (SelectValidator K bc)) = bc_ChainID bc" "bc_UsedNonces (fst (SelectValidator K bc)) = bc_UsedNonces bc"
  "bc_NextNonce (fst (SelectValidator K bc)) = bc_NextNonce bc"
  by (auto simp: SelectValidator_def Let_def split: option.splits bool.splits)

lemma blank_tx_valid:
  "validateTransaction demo_crypto blank_tx (fst (SelectValidator K demo_miner))"
proof -
  let ?tx = "wallet_Sign demo_crypto 7 demo_wallet (demo_tx\<lparr>tx_From := demo_addr, tx_To := ''a'', tx_Fee := 60000000\<rparr>)"
  have "VerifyTransaction demo_crypto ?tx"
    by (rule wallet_Sign_ok [OF crypto_ok_demo]) (simp_all add: demo_wallet_def demo_crypto_def demo_tx_def demo_addr_def)
  moreover have "tx_From ?tx = demo_addr" "tx_To ?tx = ''a''" "tx_Amount ?tx = 5" "tx_Nonce ?tx = 2" "tx_TxType ?tx = Transfer" "tx_ChainID ?tx = ''c''"
    by (simp_all add: wallet_Sign_def Let_def demo_tx_def)
  moreover have "bc_Ledger (fst (SelectValidator K demo_miner)) = bc_Ledger demo_bank"
    by (auto simp: SelectValidator_def Let_def demo_miner_fields split: option.splits bool.splits)
  ultimately have "validateTransaction demo_crypto ?tx (fst (SelectValidator K demo_miner))"
    by (simp add: validateTransaction_def select_rules demo_miner_def demo_bank_fields isReplay_def isAITransaction_def demo_account_def)
  then show ?thesis by (simp add: blank_tx_def validateTransaction_id)
qed

theorem blank_id_stops_mining_witness:
  "\<exists>bc'. MineBlockFor demo_crypto demo_env (demo_choices\<lparr>ch_pending := [blank_tx]\<rparr>) ''a'' demo_miner =
     Some (bc', Err ''missing transaction id'')"
proof -
  have fee: "tx_Fee blank_tx = 60000000" "tx_ID blank_tx = []" "\<not> isAITransaction (tx_TxType blank_tx)"
    by (simp_all add: blank_tx_def wallet_Sign_def Let_def demo_tx_def isAITransaction_def)
  have "estimateFee oor blank_tx 1 bc \<le> tx_Fee blank_tx" for oor bc
    using estimateFee_nat [of 1 blank_tx oor bc] fee_nat_bounds(2) [of oor blank_tx 1 bc] fee
    by (simp add: word_le_nat_alt)
  then show ?thesis
    using blank_id_stops_mining [of demo_miner "demo_choices\<lparr>ch_pending := [blank_tx]\<rparr>" blank_tx demo_crypto demo_env "''a''"]
      blank_tx_valid fee(2) crypto_ok_demo
    by (auto simp: demo_miner_fields demo_bank_fields)
qed

section \<open>Submitted blocks\<close>

lemma SubmitMinedBlock_ok:
  assumes "bc_Chain bc \<noteq> []" "blk_Index block = of_nat (length (bc_Chain bc))"
    "validateBlock C block (last (bc_Chain bc)) bc = Ok ()" "author = (if blk_Author block = [] then blk_MinerAddress block else blk_Author block)"
    "author \<noteq> []"
  shows "\<exists>bc1. SubmitMinedBlock C E block bc = SaveToDisk E bc1 \<and> bc_Chain bc1 = bc_Chain bc @ [block] \<and> bc_Pending bc1 = [] \<and>
    bc_Ledger bc1 = bc_Ledger (applyBlock E block (pay_reward author 100 bc)) \<and>
    bc_TokenSupply bc1 = bc_TokenSupply (pay_reward author 100 bc)"
proof -
  define bc1 where "bc1 = count_metric (\<lambda>m. m\<lparr>m_blocksMined := m_blocksMined m + 1\<rparr>) (EnsureMetrics
    (appendAuditEntry E ''block_submitted'' author (''index='' @ FormatUint (blk_Index block) @ '' txs='' @ fmt_nat (length (blk_Transactions block)))
      (adjustDifficulty ((applyBlock E block (pay_reward author 100 bc))\<lparr>bc_Chain := bc_Chain bc @ [block], bc_Pending := []\<rparr>))))"
  have "blk_PreviousHash block = blk_BlockHash (last (bc_Chain bc))" "calculateHash C block = blk_BlockHash block"
    using assms(3) by (auto simp: validateBlock_Ok)
  then have "SubmitMinedBlock C E block bc = SaveToDisk E bc1"
    unfolding SubmitMinedBlock_def Let_def assms(4) [symmetric] bc1_def using assms by (simp add: frame)
  moreover have "bc_Chain bc1 = bc_Chain bc @ [block]" "bc_Pending bc1 = []"
    "bc_Ledger bc1 = bc_Ledger (applyBlock E block (pay_reward author 100 bc))"
    "bc_TokenSupply bc1 = bc_TokenSupply (pay_reward author 100 bc)"
    by (simp_all add: bc1_def frame)
  ultimately show ?thesis by blast
qed

text \<open>Submitting a block either refuses it and changes nothing, or appends exactly this block to a chain
  that stays linked, pays the author (when it has an account) 100 units that the supply grows by,
  and empties the mempool.\<close>

theorem SubmitMinedBlock_effect:
  assumes "linked C (bc_Chain bc)"
  shows "case SubmitMinedBlock C E block bc of (bc', r) \<Rightarrow>
    (bc' = bc \<and> \<not> is_ok r) \<or>
    (bc_Chain bc' = bc_Chain bc @ [block] \<and> linked C (bc_Chain bc') \<and> bc_Pending bc' = [] \<and>
     bc_TokenSupply bc' = bc_TokenSupply bc +
       (if has_key (bc_Ledger bc) (if blk_Author block = [] then blk_MinerAddress block else blk_Author block) then 100 else 0))"
proof -
  let ?author = "if blk_Author block = [] then blk_MinerAddress block else blk_Author block"
  show ?thesis
  proof (cases "bc_Chain bc \<noteq> [] \<and> blk_Index block = of_nat (length (bc_Chain bc)) \<and>
      validateBlock C block (last (bc_Chain bc)) bc = Ok () \<and> ?author \<noteq> []")
    case True
    then obtain bc1 where bc1: "SubmitMinedBlock C E block bc = SaveToDisk E bc1" "bc_Chain bc1 = bc_Chain bc @ [block]"
        "bc_Pending bc1 = []" "bc_TokenSupply bc1 = bc_TokenSupply (pay_reward ?author 100 bc)"
      using SubmitMinedBlock_ok [of bc block C ?author E] by auto
    moreover have "linked C (bc_Chain bc @ [block])"
      using linked_snoc [OF assms] True by blast
    ultimately show ?thesis
      using SaveToDisk_frame [of E bc1] by (auto simp: pay_reward_def case_prod_beta)
  next
    case False
    then show ?thesis
      by (auto simp: SubmitMinedBlock_def Let_def split: go.splits if_splits)
  qed
qed

theorem SubmitMinedBlock_effect_witness:
  "bc_Chain (fst (SubmitMinedBlock demo_crypto demo_env demo_next demo_bank)) = bc_Chain demo_bank @ [demo_next]"
proof -
  obtain g where g: "bc_Chain demo_bank = [g]"
    using demo_bank_fields(6) by (cases "bc_Chain demo_bank") auto
  have idx: "blk_Index demo_next = 1" "blk_Author demo_next = ''m''"
    by (simp_all add: demo_next_def Let_def demo_block_def)
  have "snd (SubmitMinedBlock demo_crypto demo_env demo_next demo_bank) = Ok ()"
  proof -
    obtain bc1 where "SubmitMinedBlock demo_crypto demo_env demo_next demo_bank = SaveToDisk demo_env bc1"
      using SubmitMinedBlock_ok [of demo_bank demo_next demo_crypto "''m''" demo_env] demo_next_valid demo_bank_fields(6,7) idx by auto
    then show ?thesis by (simp add: SaveToDisk_def demo_env_def Let_def)
  qed
  then show ?thesis
    using SubmitMinedBlock_effect [where C = demo_crypto and bc = demo_bank and E = demo_env and block = demo_next] g
    by (auto simp: linked_def split: prod.splits)
qed

text \<open>No work is demanded of a submitted block: under proof of work, a block that passes the ordinary
  checks is accepted although its hash misses the target of its miner.\<close>

theorem submitted_block_needs_no_work:
  assumes "bc_Consensus bc = ProofOfWork"
    and "2 ^ (256 - unat (minerDifficulty (blk_MinerAddress block) bc)) \<le> hex_number (blk_BlockHash block)"
    and "bc_Chain bc \<noteq> []" "blk_Index block = of_nat (length (bc_Chain bc))"
    and "validateBlock C block (last (bc_Chain bc)) bc = Ok ()" "blk_Author block \<noteq> []"
  shows "bc_Chain (fst (SubmitMinedBlock C E block bc)) = bc_Chain bc @ [block]"
proof -
  obtain bc1 where "SubmitMinedBlock C E block bc = SaveToDisk E bc1" "bc_Chain bc1 = bc_Chain bc @ [block]"
    using SubmitMinedBlock_ok [OF assms(3-5), of "blk_Author block" E] assms(6) by auto
  then show ?thesis using SaveToDisk_frame(1) [of E bc1] by simp
qed

lemma hex_number_pos:
  assumes "c \<in> set s" "hex_val c = Some (Suc d)"
  shows "0 < hex_number s"
proof -
  let ?f = "\<lambda>n c. n * 16 + (case hex_val c of Some d \<Rightarrow> d | None \<Rightarrow> 0)"
  have mono: "0 < n \<Longrightarrow> 0 < foldl ?f n t" for n t
    by (induction t arbitrary: n) auto
  have "0 < foldl ?f n s" for n
    using assms by (induction s arbitrary: n) (auto intro: mono)
  then show ?thesis by (simp add: hex_number_def)
qed

lemma bc_Difficulty_update:
  "bc_ChainID (bc\<lparr>bc_Difficulty := d, bc_MinerStats := m\<rparr>) = bc_ChainID bc"
  "bc_Ledger (bc\<lparr>bc_Difficulty := d, bc_MinerStats := m\<rparr>) = bc_Ledger bc"
  "bc_Registry (bc\<lparr>bc_Difficulty := d, bc_MinerStats := m\<rparr>) = bc_Registry bc"
  "bc_UsedNonces (bc\<lparr>bc_Difficulty := d, bc_MinerStats := m\<rparr>) = bc_UsedNonces bc"
  "bc_NextNonce (bc\<lparr>bc_Difficulty := d, bc_MinerStats := m\<rparr>) = bc_NextNonce bc"
  "bc_IrreversibleTxs (bc\<lparr>bc_Difficulty := d, bc_MinerStats := m\<rparr>) = bc_IrreversibleTxs bc"
  "bc_PendingReversals (bc\<lparr>bc_Difficulty := d, bc_MinerStats := m\<rparr>) = bc_PendingReversals bc"
  "bc_Chain (bc\<lparr>bc_Difficulty := d, bc_MinerStats := m\<rparr>) = bc_Chain bc"
  "bc_Consensus (bc\<lparr>bc_Difficulty := d, bc_MinerStats := m\<rparr>) = bc_Consensus bc"
  "bc_Validators (bc\<lparr>bc_Difficulty := d, bc_MinerStats := m\<rparr>) = bc_Validators bc"
  "bc_Authorities (bc\<lparr>bc_Difficulty := d, bc_MinerStats := m\<rparr>) = bc_Authorities bc"
  by simp_all

lemma validateTransaction_difficulty:
  "validateTransaction C tx (bc\<lparr>bc_Difficulty := d, bc_MinerStats := m\<rparr>) = validateTransaction C tx bc"
  unfolding validateTransaction_def isReplay_def validateRequestReversal_def validateConfirmReversal_def
    validateCommitReversal_def findOriginalTransaction_def bc_Difficulty_update by (rule refl)

lemma validate_txs_difficulty:
  "validate_txs C (bc\<lparr>bc_Difficulty := d, bc_MinerStats := m\<rparr>) seen txs = validate_txs C bc seen txs"
  by (induction txs arbitrary: seen) (simp_all only: validate_txs.simps validateTransaction_difficulty)

lemma validateBlock_difficulty:
  "validateBlock C b p (bc\<lparr>bc_Difficulty := d, bc_MinerStats := m\<rparr>) = validateBlock C b p bc"
  unfolding validateBlock_def isAuthority_def validate_txs_difficulty bc_Difficulty_update by (rule refl)

theorem submitted_block_needs_no_work_witness:
  "bc_Chain (fst (SubmitMinedBlock demo_crypto demo_env demo_next (demo_bank\<lparr>bc_Difficulty := 256, bc_MinerStats := fmempty\<rparr>))) =
     bc_Chain demo_bank @ [demo_next]"
proof -
  let ?bc = "demo_bank\<lparr>bc_Difficulty := 256, bc_MinerStats := fmempty\<rparr>"
  have "blk_PreviousHash demo_next = EncodeToString (fit 32 ''main'')"
    by (simp add: demo_next_def Let_def TailHash_def demo_bank_def demo_node_def demo_chain_def createGenesisBlock_def
        empty_Blockchain_def demo_env_def demo_crypto_def)
  then have "blk_BlockHash demo_next = EncodeToString (fit 32 (EncodeToString (fit 32 ''main'')))"
    by (simp add: demo_next_def Let_def calculateHash_def demo_crypto_def)
  moreover have "\<exists>r. EncodeToString (fit 32 (EncodeToString (fit 32 ''main''))) = CHR ''3'' # r"
    by (simp add: fit_def hex_digit_def char_of_def bit_0)
  ultimately have "0 < hex_number (blk_BlockHash demo_next)"
    by (auto intro: hex_number_pos [of "CHR ''3''" _ 2] simp: hex_val_def)
  moreover have "minerDifficulty (blk_MinerAddress demo_next) ?bc = 256"
    by (simp add: minerDifficulty_def)
  moreover have "validateBlock demo_crypto demo_next (last (bc_Chain ?bc)) ?bc = Ok ()"
    unfolding validateBlock_difficulty bc_Difficulty_update by (rule demo_next_valid)
  moreover have "blk_Index demo_next = 1" "blk_Author demo_next = ''m''"
    by (simp_all add: demo_next_def Let_def demo_block_def)
  ultimately show ?thesis
    using submitted_block_needs_no_work [of ?bc demo_next demo_crypto demo_env] demo_bank_fields(5,6,7) by simp
qed

section \<open>Transfers between named wallets\<close>

text \<open>A transfer to a named wallet is executed twice: it moves the amount itself and then applies a
  block with the same payment. When the sender can pay twice, the sender loses and the recipient
  gains twice the amount. The appended block has no hash, so the chain is no longer valid for any
  node.\<close>

theorem UniversalTransfer_pays_twice:
  assumes "amount \<noteq> 0" "fmlookup (bc_UniversalWallets bc) (ToLower ul (TrimSpace ut name)) = Some to"
    and "fmlookup (bc_Ledger bc) payer = Some s" "fmlookup (bc_Ledger bc) (uw_Address to) = Some t" "payer \<noteq> uw_Address to"
    and "2 * unat amount \<le> unat (acct_Balance s)" "bc_Chain bc \<noteq> []"
  shows "case UniversalTransfer ul ut E payer name cur amount bc of (bc', r) \<Rightarrow>
    r = Ok to \<and>
    balance_of (bc_Ledger bc') payer = Some (acct_Balance s - 2 * amount) \<and>
    balance_of (bc_Ledger bc') (uw_Address to) = Some (acct_Balance t + 2 * amount) \<and>
    (\<forall>C any. validateChain C (bc_Chain bc') any \<noteq> Ok ())"
proof -
  have le: "amount \<le> acct_Balance s" using assms(6) by (simp add: word_le_nat_alt)
  have "unat (acct_Balance s - amount) = unat (acct_Balance s) - unat amount" by (rule unat_sub_no_wrap [OF le])
  then have le2: "amount \<le> acct_Balance s - amount" using assms(6) by (simp add: word_le_nat_alt)
  have bad: "validateChain C (bc_Chain bc @ [b]) any \<noteq> Ok ()" if "blk_BlockHash b = []" for C b any
  proof -
    obtain ps p where "bc_Chain bc = ps @ [p]" using assms(7) by (cases "bc_Chain bc" rule: rev_cases) auto
    then show ?thesis
      using validate_links_snoc [of C any ps p b] that by (auto simp: validateChain_Ok validateBlock_Ok)
  qed
  show ?thesis
    using assms le le2 bad
    by (simp add: UniversalTransfer_def Let_def not_less applyBlock_def ProcessReversals_def apply_tx_def guarded_pay_def
        account_ops modify_account_lookup balance_of_def process_reversal_def frame)
qed

definition demo_directory :: Blockchain where
  "demo_directory = demo_node\<lparr>bc_UniversalWallets := fmupd ''bob''
     \<lparr>uw_Name = ''bob'', uw_Address = ''v'', uw_Label = [], uw_Currency = ''TENDER''\<rparr> fmempty\<rparr>"

theorem UniversalTransfer_pays_twice_witness:
  "balance_of (bc_Ledger (fst (UniversalTransfer id id demo_env ''a'' ''bob'' ''TENDER'' 100 demo_directory))) ''a'' = Some 800"
proof -
  have "ToLower id (TrimSpace id ''bob'') = ''bob''"
    by (simp add: ToLower_def TrimSpace_def is_ascii_def trim_ascii_def is_space_def lower_char_def)
  moreover have "bc_Ledger demo_directory = bc_Ledger demo_node" "bc_Chain demo_directory \<noteq> []"
    by (simp_all add: demo_directory_def demo_node_def demo_chain_def createGenesisBlock_def empty_Blockchain_def Let_def)
  ultimately show ?thesis
    using UniversalTransfer_pays_twice [of 100 demo_directory id id "''bob''"
        "\<lparr>uw_Name = ''bob'', uw_Address = ''v'', uw_Label = [], uw_Currency = ''TENDER''\<rparr>" "''a''"
        "demo_account ''a'' 1000 0" "demo_account ''v'' 3 500" demo_env "''TENDER''"]
    by (simp add: demo_node_ledger demo_directory_def demo_account_def split: prod.splits)
qed

end
