(* ===== verification/Go_Http.thy ===== *)
theory Go_Http
  imports Go_Prelude
begin

text \<open>
  What the HTTP handlers answer: a JSON value, an error text or a bare status. Requests are the
  decoded values a handler reads; the JSON decoder is an argument or has run already. A JSON number
  that is decoded into an interface is a \<open>float64\<close>, here the rational number it denotes.
\<close>

datatype json = JNull | JBool bool | JNum rat | JStr string | JArr "json list" | JObj "(string \<times> json) list"

datatype response = HttpError nat string | HttpJson nat json | HttpStatus nat

abbreviation StatusOK :: nat where "StatusOK \<equiv> 200"
abbreviation StatusCreated :: nat where "StatusCreated \<equiv> 201"
abbreviation StatusBadRequest :: nat where "StatusBadRequest \<equiv> 400"
abbreviation StatusUnauthorized :: nat where "StatusUnauthorized \<equiv> 401"
abbreviation StatusForbidden :: nat where "StatusForbidden \<equiv> 403"
abbreviation StatusNotFound :: nat where "StatusNotFound \<equiv> 404"
abbreviation StatusMethodNotAllowed :: nat where "StatusMethodNotAllowed \<equiv> 405"
abbreviation StatusConflict :: nat where "StatusConflict \<equiv> 409"
abbreviation StatusTooManyRequests :: nat where "StatusTooManyRequests \<equiv> 429"
abbreviation StatusInternalServerError :: nat where "StatusInternalServerError \<equiv> 500"

definition ok_json :: "(string \<times> json) list \<Rightarrow> response" where
  "ok_json fields = HttpJson StatusOK (JObj fields)"

fun json_field :: "json \<Rightarrow> string \<Rightarrow> json option" where
  "json_field (JObj fields) k = map_of fields k"
| "json_field _ k = None"

text \<open>The type assertions \<open>.(float64)\<close> and \<open>.(string)\<close>, the first with a conversion to \<open>uint64\<close>.\<close>

definition u64_of_json :: "(rat \<Rightarrow> u64) \<Rightarrow> json option \<Rightarrow> u64" where
  "u64_of_json oor j =
     (case j of Some (JNum x) \<Rightarrow> if x \<le> -1 \<or> 2 ^ 64 \<le> x then oor x else if x < 0 then 0 else of_int \<lfloor>x\<rfloor> | _ \<Rightarrow> 0)"

definition str_of_json :: "json option \<Rightarrow> string" where
  "str_of_json j = (case j of Some (JStr s) \<Rightarrow> s | _ \<Rightarrow> [])"

definition jnum :: "u64 \<Rightarrow> json" where
  "jnum v = JNum (of_nat (unat v))"

fun status_of :: "response \<Rightarrow> nat" where
  "status_of (HttpError s t) = s"
| "status_of (HttpJson s j) = s"
| "status_of (HttpStatus s) = s"

lemma status_ok_json [simp]: "status_of (ok_json fs) = StatusOK"
  by (simp add: ok_json_def)

end
