(* ===== verification/Mining_Pool.thy ===== *)
theory Mining_Pool
  imports Mining_Properties Go_Http
begin

text \<open>
  The mining pool of \<open>tools/pool/main.go\<close>: workers, shares, rewards and payouts, and the handlers of its
  server. A handler locks the pool for each access, but workers are never removed and the
  difficulty never changes, so a handler is modelled as one step.
\<close>

section \<open>State and operations\<close>

record MiningPool =
  mp_address :: string
  mp_balance :: u64
  mp_minThreshold :: u64
  mp_workers :: "(string, u64) fmap"
  mp_totalShares :: u64
  mp_lastPayout :: i64
  mp_difficulty :: u32
  mp_latestBlockIdx :: u64
  mp_latestBlockHash :: string
  mp_nodeBase :: string

definition NewMiningPool :: "i64 \<Rightarrow> string \<Rightarrow> u64 \<Rightarrow> u32 \<Rightarrow> MiningPool" where
  "NewMiningPool now address minPayout difficulty =
     \<lparr>mp_address = address, mp_balance = 0, mp_minThreshold = minPayout, mp_workers = fmempty, mp_totalShares = 0,
      mp_lastPayout = now, mp_difficulty = difficulty, mp_latestBlockIdx = 0, mp_latestBlockHash = [], mp_nodeBase = []\<rparr>"

text \<open>The reply of the node is the decoded body or the error of the request; \<open>oor\<close> is the value of a
  conversion to \<open>uint64\<close> that is out of range. A failed type assertion yields the zero value.\<close>

definition refreshTemplate :: "(rat \<Rightarrow> u64) \<Rightarrow> json go \<Rightarrow> MiningPool \<Rightarrow> MiningPool \<times> unit go" where
  "refreshTemplate oor reply p =
     (if mp_nodeBase p = [] then (p, Err ''pool node base not configured'')
      else case reply of
        Err e \<Rightarrow> (p, Err e)
      | Panic e \<Rightarrow> (p, Panic e)
      | Ok result \<Rightarrow>
          (case json_field result ''chain'' of
             Some (JArr (b # bs)) \<Rightarrow>
               (case last (b # bs) of
                  JObj fs \<Rightarrow>
                    (p\<lparr>mp_latestBlockIdx := u64_of_json oor (map_of fs ''index''),
                       mp_latestBlockHash := str_of_json (map_of fs ''block_hash'')\<rparr>, Ok ())
                | _ \<Rightarrow> (p, Err ''invalid block format''))
           | _ \<Rightarrow> (p, Err ''empty chain'')))"

definition RegisterWorker :: "string \<Rightarrow> MiningPool \<Rightarrow> MiningPool \<times> bool" where
  "RegisterWorker workerID p =
     (if has_key (mp_workers p) workerID then (p, False)
      else (p\<lparr>mp_workers := fmupd workerID 0 (mp_workers p)\<rparr>, True))"

definition RecordShare :: "string \<Rightarrow> u64 \<Rightarrow> MiningPool \<Rightarrow> MiningPool" where
  "RecordShare workerID shares p =
     p\<lparr>mp_workers := fmupd workerID (map_get 0 (mp_workers p) workerID + shares) (mp_workers p),
       mp_totalShares := mp_totalShares p + shares\<rparr>"

definition AddReward :: "u64 \<Rightarrow> MiningPool \<Rightarrow> MiningPool" where
  "AddReward amount p = p\<lparr>mp_balance := mp_balance p + amount\<rparr>"

definition Payout :: "i64 \<Rightarrow> MiningPool \<Rightarrow> MiningPool \<times> u64" where
  "Payout now p =
     (if mp_balance p < mp_minThreshold p then (p, 0)
      else (p\<lparr>mp_balance := 0, mp_lastPayout := now\<rparr>, mp_balance p))"

definition Stats :: "MiningPool \<Rightarrow> json" where
  "Stats p = JObj [(''address'', JStr (mp_address p)), (''balance'', jnum (mp_balance p)),
     (''workers'', JNum (of_nat (map_len (mp_workers p)))), (''total_shares'', jnum (mp_totalShares p)),
     (''min_payout'', jnum (mp_minThreshold p)), (''difficulty'', JNum (of_nat (unat (mp_difficulty p)))),
     (''last_payout'', JNum (of_int (sint (mp_lastPayout p))))]"

definition lower_hex :: "char \<Rightarrow> bool" where
  "lower_hex c \<longleftrightarrow> (CHR ''0'' \<le> c \<and> c \<le> CHR ''9'') \<or> (CHR ''a'' \<le> c \<and> c \<le> CHR ''f'')"

text \<open>\<open>(difficulty+3)/4\<close> is computed in 32 bits.\<close>

definition ValidateShare :: "string \<Rightarrow> u64 \<Rightarrow> u32 \<Rightarrow> bool" where
  "ValidateShare blockHash nonce difficulty =
     (if length blockHash \<noteq> 64 then False
      else if \<not> list_all lower_hex blockHash then False
      else prefix (replicate (unat ((difficulty + 3) div 4)) (CHR ''0'')) blockHash)"

section \<open>Handlers\<close>

definition handleRegister :: "string \<Rightarrow> string go \<Rightarrow> MiningPool \<Rightarrow> MiningPool \<times> response" where
  "handleRegister meth body p =
     (if meth \<noteq> ''POST'' then (p, HttpError StatusMethodNotAllowed ''method not allowed'')
      else case body of
        Ok workerID \<Rightarrow>
          (if workerID = [] then (p, HttpError StatusBadRequest ''worker_id required'')
           else case RegisterWorker workerID p of
             (p, True) \<Rightarrow> (p, ok_json [(''status'', JStr ''registered''), (''worker_id'', JStr workerID)])
           | (p, False) \<Rightarrow> (p, HttpError StatusConflict ''worker already registered''))
      | Err e \<Rightarrow> (p, HttpError StatusBadRequest e)
      | Panic e \<Rightarrow> (p, HttpError StatusBadRequest e))"

definition handleWork :: "i64 \<Rightarrow> string \<Rightarrow> MiningPool \<Rightarrow> response" where
  "handleWork now workerID p =
     (if workerID = [] then HttpError StatusBadRequest ''worker_id required''
      else if \<not> has_key (mp_workers p) workerID then HttpError StatusForbidden ''worker not registered''
      else ok_json [(''difficulty'', JNum (of_nat (unat (mp_difficulty p)))), (''worker_id'', JStr workerID),
        (''timestamp'', JNum (of_int (sint now))),
        (''block_template'', JObj [(''previous_hash'', JStr (mp_latestBlockHash p)), (''height'', jnum (mp_latestBlockIdx p)),
           (''miner_address'', JStr (mp_address p)), (''transactions'', JArr [])])])"

record submit_request =
  sr_WorkerID :: string
  sr_BlockHash :: string
  sr_Nonce :: u64

definition handleSubmit :: "string \<Rightarrow> submit_request go \<Rightarrow> MiningPool \<Rightarrow> MiningPool \<times> response" where
  "handleSubmit meth body p =
     (if meth \<noteq> ''POST'' then (p, HttpError StatusMethodNotAllowed ''method not allowed'')
      else case body of
        Err e \<Rightarrow> (p, HttpError StatusBadRequest e)
      | Panic e \<Rightarrow> (p, HttpError StatusBadRequest e)
      | Ok req \<Rightarrow>
          (if sr_WorkerID req = [] \<or> sr_BlockHash req = []
           then (p, HttpError StatusBadRequest ''worker_id and block_hash required'')
           else if \<not> has_key (mp_workers p) (sr_WorkerID req) then (p, HttpError StatusForbidden ''worker not registered'')
           else if \<not> ValidateShare (sr_BlockHash req) (sr_Nonce req) (mp_difficulty p)
           then (p, HttpError StatusBadRequest ''share does not meet difficulty target'')
           else let p = RecordShare (sr_WorkerID req) 1 p
             in (p, ok_json [(''status'', JStr ''accepted''), (''worker_id'', JStr (sr_WorkerID req)),
                   (''shares'', jnum (map_get 0 (mp_workers p) (sr_WorkerID req)))])))"

definition handleStats :: "MiningPool \<Rightarrow> response" where
  "handleStats p = HttpJson StatusOK (Stats p)"

definition handlePayout :: "i64 \<Rightarrow> string \<Rightarrow> MiningPool \<Rightarrow> MiningPool \<times> response" where
  "handlePayout now meth p =
     (if meth \<noteq> ''POST'' then (p, HttpError StatusMethodNotAllowed ''method not allowed'')
      else case Payout now p of (p, amount) \<Rightarrow>
        (if amount = 0
         then (p, ok_json [(''status'', JStr ''below_threshold''), (''balance'', jnum (mp_balance p)), (''min_payout'', jnum (mp_minThreshold p))])
         else (p, ok_json [(''status'', JStr ''payout_queued''), (''amount'', jnum amount), (''address'', JStr (mp_address p))])))"

section \<open>Shares and difficulty\<close>

lemma hex_number_Cons:
  "hex_number (c # s) = (case hex_val c of Some d \<Rightarrow> d | None \<Rightarrow> 0) * 16 ^ length s + hex_number s"
proof -
  let ?f = "\<lambda>n c. n * 16 + (case hex_val c of Some d \<Rightarrow> d | None \<Rightarrow> 0)"
  have shift: "(n * 16 + d) * L + F = n * (16 * L) + ((0 * 16 + d) * L + F)" for n d L F :: nat
    by (simp add: algebra_simps)
  have "foldl ?f n s = n * 16 ^ length s + foldl ?f 0 s" for n
  proof (induction s arbitrary: n)
    case (Cons c s)
    have 0: "foldl ?f 0 (c # s) = ?f 0 c * 16 ^ length s + foldl ?f 0 s" unfolding foldl.simps by (rule Cons)
    have "foldl ?f n (c # s) = ?f n c * 16 ^ length s + foldl ?f 0 s" unfolding foldl.simps by (rule Cons)
    also have "\<dots> = n * 16 ^ length (c # s) + (?f 0 c * 16 ^ length s + foldl ?f 0 s)"
      unfolding length_Cons power_Suc by (rule shift)
    finally show ?case unfolding 0 .
  qed simp
  from this [of "?f 0 c"] show ?thesis by (simp add: hex_number_def)
qed

lemma lower_hex_zero:
  assumes "lower_hex c"
  shows "(case hex_val c of Some d \<Rightarrow> d | None \<Rightarrow> 0) = 0 \<longleftrightarrow> c = CHR ''0''"
proof -
  have "c = CHR ''0'' \<longleftrightarrow> of_char c = (48 :: nat)"
    using of_char_eq_iff [of c "CHR ''0''", where 'a = nat] by simp
  with assms show ?thesis
    by (auto simp: lower_hex_def hex_val_def less_eq_char_def Let_def)
qed

lemma zeros_prefix_iff:
  assumes "list_all lower_hex h" "k \<le> length h"
  shows "prefix (replicate k (CHR ''0'')) h \<longleftrightarrow> hex_number h < 16 ^ (length h - k)"
  using assms
proof (induction h arbitrary: k)
  case (Cons c h)
  show ?case
  proof (cases k)
    case 0
    then show ?thesis using hex_number_bound [of "c # h"] by simp
  next
    case (Suc j)
    let ?d = "case hex_val c of Some d \<Rightarrow> d | None \<Rightarrow> 0"
    have "hex_number (c # h) < 16 ^ (length h - j) \<longleftrightarrow> ?d = 0 \<and> hex_number h < 16 ^ (length h - j)"
    proof (cases "?d = 0")
      case False
      have "(16 :: nat) ^ (length h - j) \<le> 1 * 16 ^ length h" by (simp add: power_increasing)
      also have "\<dots> \<le> ?d * 16 ^ length h" using False by (intro mult_right_mono) auto
      finally have "16 ^ (length h - j) \<le> hex_number (c # h)" by (simp add: hex_number_Cons)
      then show ?thesis using False by simp
    qed (simp add: hex_number_Cons)
    then show ?thesis
      using Cons.IH [of j] Cons.prems Suc lower_hex_zero [of c] by auto
  qed
qed (simp add: hex_number_def)

lemma ValidateShare_small:
  assumes "length h = 64" "list_all lower_hex h" "unat difficulty \<le> 256"
  shows "ValidateShare h nonce difficulty \<longleftrightarrow> hex_number h < 2 ^ (256 - 4 * ((unat difficulty + 3) div 4))"
proof -
  have "unat (difficulty + 3) = unat difficulty + 3"
    using assms(3) by (simp add: unat_word_ariths)
  then have k: "unat ((difficulty + 3) div 4) = (unat difficulty + 3) div 4" (is "_ = ?k")
    by (simp add: unat_div)
  have "?k \<le> 64" using assms(3) by simp
  moreover have "(16 :: nat) ^ m = 2 ^ (4 * m)" for m by (simp add: power_mult)
  ultimately have "(16 :: nat) ^ (64 - ?k) = 2 ^ (256 - 4 * ?k)" by (simp add: diff_mult_distrib2)
  then show ?thesis
    using zeros_prefix_iff [of h ?k] assms \<open>?k \<le> 64\<close> by (simp add: ValidateShare_def k)
qed

lemma ValidateShare_large:
  assumes "length h = 64" "list_all lower_hex h" "256 < unat (difficulty :: u32)"
  shows "ValidateShare h nonce difficulty \<longleftrightarrow> 2 ^ 32 - 3 \<le> unat difficulty"
proof (cases "2 ^ 32 - 3 \<le> unat difficulty")
  case True
  have "unat (difficulty + 3) = (unat difficulty + 3) mod 2 ^ 32" by (simp add: unat_word_ariths)
  also have "\<dots> < 4" using True unsigned_less [of difficulty, where 'a = nat] by (simp add: le_mod_geq)
  finally have "unat ((difficulty + 3) div 4) = 0" by (simp add: unat_div)
  then show ?thesis using True assms by (simp add: ValidateShare_def)
next
  case False
  then have "unat (difficulty + 3) = unat difficulty + 3" by (simp add: unat_word_ariths)
  then have "64 < unat ((difficulty + 3) div 4)" using assms(3) by (simp add: unat_div)
  then have "\<not> prefix (replicate (unat ((difficulty + 3) div 4)) (CHR ''0'')) h"
    using assms(1) by (auto dest: prefix_length_le)
  then show ?thesis using False by (simp add: ValidateShare_def)
qed

text \<open>C38. The textual check of a share is a numeric target, for every 32-bit difficulty: a share is accepted if and only if it has 64 lower-case digits and, for
  difficulties up to 256, the hash, read as a number, lies below \<open>2\<^sup>2\<^sup>5\<^sup>6\<close> divided by two
  to the difficulty rounded up to a multiple of four. Above 256 no hash is accepted (not even zero), except that for the three largest difficulties, where
  the sum in \<open>(difficulty+3)/4\<close> wraps around, every hash is.\<close>

theorem ValidateShare_is_target:
  "ValidateShare h nonce difficulty \<longleftrightarrow> length h = 64 \<and> list_all lower_hex h \<and>
     (if unat difficulty \<le> 256 then hex_number h < 2 ^ (256 - 4 * ((unat difficulty + 3) div 4))
      else 2 ^ 32 - 3 \<le> unat difficulty)"
proof (cases "length h = 64 \<and> list_all lower_hex h")
  case True
  then show ?thesis using ValidateShare_small [of h difficulty nonce] ValidateShare_large [of h difficulty nonce] by auto
qed (auto simp: ValidateShare_def)

section \<open>Accounting\<close>

text \<open>The pool under its requests, with the rewards received and the amounts paid out so far.\<close>

datatype pool_event = PRegister string "string go" | PSubmit string "submit_request go" | PPayout i64 string
  | PReward u64 | PRefresh "rat \<Rightarrow> u64" "json go"

type_synonym pool_book = "MiningPool \<times> u64 \<times> u64"

fun pool_on :: "pool_event \<Rightarrow> pool_book \<Rightarrow> pool_book" where
  "pool_on (PRegister m body) (p, rewarded, paid) = (fst (handleRegister m body p), rewarded, paid)"
| "pool_on (PSubmit m body) (p, rewarded, paid) = (fst (handleSubmit m body p), rewarded, paid)"
| "pool_on (PPayout now m) (p, rewarded, paid) =
     (fst (handlePayout now m p), rewarded, paid + (if m = ''POST'' then snd (Payout now p) else 0))"
| "pool_on (PReward amount) (p, rewarded, paid) = (AddReward amount p, rewarded + amount, paid)"
| "pool_on (PRefresh oor reply) (p, rewarded, paid) = (fst (refreshTemplate oor reply p), rewarded, paid)"

definition shares_ok :: "MiningPool \<Rightarrow> bool" where
  "shares_ok p \<longleftrightarrow> mp_totalShares p = of_nat (fmsum unat (mp_workers p))"

definition book_ok :: "pool_book \<Rightarrow> bool" where
  "book_ok b \<longleftrightarrow> (case b of (p, rewarded, paid) \<Rightarrow> mp_balance p = rewarded - paid \<and> shares_ok p)"

lemma RecordShare_shares: "shares_ok p \<Longrightarrow> shares_ok (RecordShare w n p)"
proof (cases "fmlookup (mp_workers p) w")
  case None
  then show "shares_ok p \<Longrightarrow> ?thesis"
    by (simp add: shares_ok_def RecordShare_def fmsum_fmupd_new map_get_None)
next
  case (Some v)
  assume ok: "shares_ok p"
  have "of_nat (fmsum unat (fmupd w (v + n) (mp_workers p)) + unat v) = (of_nat (fmsum unat (mp_workers p) + unat (v + n)) :: u64)"
    using fmsum_fmupd_old [OF Some, of unat "v + n"] by (rule arg_cong)
  then show ?thesis
    using ok Some by (simp add: shares_ok_def RecordShare_def map_get_Some algebra_simps)
qed

lemma RegisterWorker_shares: "shares_ok p \<Longrightarrow> shares_ok (fst (RegisterWorker w p))"
  by (simp add: shares_ok_def RegisterWorker_def fmsum_fmupd_new has_key_def)

lemma pool_fields:
  "mp_balance (fst (RegisterWorker w p)) = mp_balance p" "mp_balance (RecordShare w n p) = mp_balance p"
  "mp_balance (fst (refreshTemplate oor reply p)) = mp_balance p"
  "shares_ok (fst (refreshTemplate oor reply p)) = shares_ok p" "shares_ok (AddReward a p) = shares_ok p"
  "shares_ok (fst (Payout now p)) = shares_ok p" "mp_balance (AddReward a p) = mp_balance p + a"
  "mp_balance (fst (Payout now p)) = mp_balance p - snd (Payout now p)"
  by (auto simp: RegisterWorker_def RecordShare_def refreshTemplate_def shares_ok_def AddReward_def Payout_def
      split: go.splits option.splits json.splits list.splits)

lemma handler_states:
  "fst (handleRegister m body p) \<in> {p, fst (RegisterWorker (case body of Ok w \<Rightarrow> w | _ \<Rightarrow> []) p)}"
  "fst (handleSubmit m sbody p) \<in> {p, RecordShare (case sbody of Ok r \<Rightarrow> sr_WorkerID r | _ \<Rightarrow> []) 1 p}"
  "fst (handlePayout now m p) = (if m = ''POST'' then fst (Payout now p) else p)"
  by (auto simp: handleRegister_def handleSubmit_def handlePayout_def Let_def split: go.splits prod.splits bool.splits)

lemma pool_on_ok: "book_ok b \<Longrightarrow> book_ok (pool_on e b)"
proof (cases b)
  case (fields p rewarded paid)
  assume "book_ok b"
  then have ok: "mp_balance p = rewarded - paid" "shares_ok p" by (simp_all add: book_ok_def fields)
  show ?thesis
  proof (cases e)
    case (PRegister m body)
    then show ?thesis
      using ok handler_states(1) [of m body p] by (auto simp: fields book_ok_def pool_fields RegisterWorker_shares)
  next
    case (PSubmit m body)
    then show ?thesis
      using ok handler_states(2) [of m body p] by (auto simp: fields book_ok_def pool_fields RecordShare_shares)
  qed (use ok in \<open>auto simp: fields book_ok_def pool_fields handler_states(3)\<close>)
qed

interpretation pool: machine pool_on book_ok
  by unfold_locales (rule pool_on_ok)

text \<open>The books of a pool always agree, whatever requests it serves, in 64-bit arithmetic: the shares
  of the workers add up to the total, and the balance is what it received as rewards less what it
  paid out.\<close>

theorem pool_accounting:
  "case fold pool_on es (NewMiningPool now address minPayout difficulty, 0, 0) of (p, rewarded, paid) \<Rightarrow>
     mp_balance p = rewarded - paid \<and> mp_totalShares p = of_nat (fmsum unat (mp_workers p))"
proof -
  have "book_ok (NewMiningPool now address minPayout difficulty, 0, 0)"
    by (simp add: book_ok_def shares_ok_def NewMiningPool_def)
  from pool.run_inv [OF this, of es] show ?thesis by (auto simp: book_ok_def shares_ok_def)
qed

text \<open>A submission changes the pool only when it is a well-formed request of a registered worker whose
  hash meets the target; then it adds exactly one share to that worker and to the total.\<close>

theorem handleSubmit_effect:
  "handleSubmit meth body p =
     (case body of
        Ok req \<Rightarrow>
          (if meth = ''POST'' \<and> sr_WorkerID req \<noteq> [] \<and> has_key (mp_workers p) (sr_WorkerID req) \<and>
              ValidateShare (sr_BlockHash req) (sr_Nonce req) (mp_difficulty p)
           then (RecordShare (sr_WorkerID req) 1 p,
                 ok_json [(''status'', JStr ''accepted''), (''worker_id'', JStr (sr_WorkerID req)),
                   (''shares'', jnum (map_get 0 (mp_workers p) (sr_WorkerID req) + 1))])
           else (p, snd (handleSubmit meth body p)))
      | _ \<Rightarrow> (p, snd (handleSubmit meth body p))) \<and>
   (fst (handleSubmit meth body p) \<noteq> p \<longleftrightarrow> status_of (snd (handleSubmit meth body p)) = StatusOK)"
proof -
  have "RecordShare w 1 p \<noteq> p" for w
  proof
    assume "RecordShare w 1 p = p"
    then have "mp_totalShares p + 1 = mp_totalShares p" by (metis (no_types, lifting) RecordShare_def MiningPool.simps(5) MiningPool.update_convs(5) MiningPool.select_convs(5) MiningPool.surjective)
    then show False by simp
  qed
  moreover have "ValidateShare h n d \<Longrightarrow> h \<noteq> []" for h n d
    by (auto simp: ValidateShare_def)
  ultimately show ?thesis
    by (cases body) (auto simp: handleSubmit_def Let_def RecordShare_def)
qed

text \<open>A share can be submitted again: a pool that accepted a request accepts the same request any number
  of times, and the worker gains a share each time. Neither the nonce nor the work that the pool
  handed out is compared with the hash.\<close>

theorem share_replay:
  assumes "has_key (mp_workers p) (sr_WorkerID req)" "sr_WorkerID req \<noteq> []"
    and "ValidateShare (sr_BlockHash req) (sr_Nonce req) (mp_difficulty p)"
  shows "map_get 0 (mp_workers (((\<lambda>p. fst (handleSubmit ''POST'' (Ok req) p)) ^^ n) p)) (sr_WorkerID req) =
    map_get 0 (mp_workers p) (sr_WorkerID req) + of_nat n"
  using assms
proof (induction n arbitrary: p)
  case (Suc n)
  have "sr_BlockHash req \<noteq> []" using Suc.prems(3) by (auto simp: ValidateShare_def)
  then have "fst (handleSubmit ''POST'' (Ok req) p) = RecordShare (sr_WorkerID req) 1 p"
    using Suc.prems by (simp add: handleSubmit_def Let_def)
  moreover have "mp_difficulty (RecordShare (sr_WorkerID req) 1 p) = mp_difficulty p"
      "has_key (mp_workers (RecordShare (sr_WorkerID req) 1 p)) (sr_WorkerID req)"
    by (simp_all add: RecordShare_def)
  ultimately show ?case
    using Suc.IH [of "RecordShare (sr_WorkerID req) 1 p"] Suc.prems
    by (simp add: funpow_Suc_right RecordShare_def del: funpow.simps(2))
qed simp

theorem share_replay_witness:
  "map_get 0 (mp_workers (((\<lambda>p. fst (handleSubmit ''POST'' (Ok \<lparr>sr_WorkerID = ''w'', sr_BlockHash = replicate 64 (CHR ''0''),
      sr_Nonce = 0\<rparr>) p)) ^^ 3) ((NewMiningPool 0 ''pool'' 1000 4)\<lparr>mp_workers := fmupd ''w'' 0 fmempty\<rparr>))) ''w'' = 3"
proof -
  have "ValidateShare (replicate 64 (CHR ''0'')) 0 4"
  proof -
    have "unat ((4 + 3 :: u32) div 4) = 1" by simp
    moreover have "replicate 64 (CHR ''0'') = CHR ''0'' # replicate 63 (CHR ''0'')"
      by (simp add: replicate_Suc [symmetric] del: replicate_Suc)
    ultimately show ?thesis by (simp add: ValidateShare_def list_all_iff lower_hex_def)
  qed
  then show ?thesis
    using share_replay [of "(NewMiningPool 0 ''pool'' 1000 4)\<lparr>mp_workers := fmupd ''w'' 0 fmempty\<rparr>"
        "\<lparr>sr_WorkerID = ''w'', sr_BlockHash = replicate 64 (CHR ''0''), sr_Nonce = 0\<rparr>" 3]
    by (simp add: NewMiningPool_def)
qed

end
