(* ===== verification/State_Store.thy ===== *)
theory State_Store
  imports Domain
begin

text \<open>
  The store of compressed snapshots of \<open>go-chain/state_store.go\<close>: reading the newest snapshot of a directory, writing a
  snapshot under the hash of its content, and forgetting the oldest.

  A directory is a finite map from names to entries; the code addresses files by the directory joined with a name, and
  here by the name. JSON, gzip and the clock are fields of the parameter \<open>store_env\<close>; \<open>se_write_fault\<close> is the content
  that a failed write leaves, with the error. Entries of a snapshot's map of accounts may be \<open>null\<close>, \<open>None\<close>.
\<close>

section \<open>State\<close>

record SnapshotHeader =
  sh_ChainID :: string
  sh_GenesisHash :: string
  sh_Height :: u64
  sh_Timestamp :: i64
  sh_StateRoot :: string
  sh_TxCount :: u64
  sh_ValidatorSet :: string

record StoreSnapshot =
  sn_Header :: SnapshotHeader
  sn_Accounts :: "(string, Account option) fmap"
  sn_Registry :: "(string, ModelRef) fmap"
  sn_Escrows :: "(string, Escrow) fmap"
  sn_Proposals :: "(string, GovernanceProposal) fmap"
  sn_Agreements :: "(string, ServiceAgreement) fmap"
  sn_UsageMeters :: "(string, UsageMeter) fmap"
  sn_UsedNonces :: "(string, u64 fset) fmap"
  sn_NextNonce :: "(string, u64) fmap"
  sn_SeenTxIDs :: "string fset"
  sn_Validators :: "(string, Validator) fmap"
  sn_AuditTrail :: "AuditEntry list"
  sn_TokenSupply :: u64
  sn_Wallets :: "(string, ManagedWallet) fmap"

record store_file =
  sf_dir :: bool
  sf_info_ok :: bool
  sf_mod :: int
  sf_data :: string

record StateStore =
  ss_files :: "(string, store_file) fmap"
  ss_latest :: StoreSnapshot
  ss_history :: "string list"
  ss_maxFiles :: nat

record store_env =
  se_json :: "StoreSnapshot \<Rightarrow> string go"
  se_unjson :: "string \<Rightarrow> StoreSnapshot go"
  se_gzip :: "string \<Rightarrow> string"
  se_gunzip :: "string \<Rightarrow> string go"
  se_write_fault :: "(string option \<times> string) option"
  se_now :: int

definition maxSnapshotSize :: nat where
  "maxSnapshotSize = 50 * 2 ^ 20"

definition empty_header :: SnapshotHeader where
  "empty_header = \<lparr>sh_ChainID = [], sh_GenesisHash = [], sh_Height = 0, sh_Timestamp = 0, sh_StateRoot = [], sh_TxCount = 0, sh_ValidatorSet = []\<rparr>"

definition empty_snapshot :: StoreSnapshot where
  "empty_snapshot = \<lparr>sn_Header = empty_header, sn_Accounts = fmempty, sn_Registry = fmempty, sn_Escrows = fmempty, sn_Proposals = fmempty,
     sn_Agreements = fmempty, sn_UsageMeters = fmempty, sn_UsedNonces = fmempty, sn_NextNonce = fmempty, sn_SeenTxIDs = {||},
     sn_Validators = fmempty, sn_AuditTrail = [], sn_TokenSupply = 0, sn_Wallets = fmempty\<rparr>"

section \<open>Operations\<close>

definition stateRoot :: "crypto \<Rightarrow> string \<Rightarrow> string" where
  "stateRoot C data = EncodeToString (take 8 (sha256 C data))"

definition is_snapshot_name :: "string \<Rightarrow> bool" where
  "is_snapshot_name name \<longleftrightarrow> \<not> (length name < 12 \<or> take 8 name \<noteq> ''snapshot'' \<or> \<not> suffix ''.json.gz'' name)"

text \<open>The loop of \<open>loadLatest\<close> over the names that \<open>os.ReadDir\<close> returns; \<open>latest\<close> and \<open>latestMod\<close> are the variables of the code.\<close>

fun latest_loop :: "(string, store_file) fmap \<Rightarrow> string list \<Rightarrow> string \<Rightarrow> int \<Rightarrow> string" where
  "latest_loop files [] latest latestMod = latest"
| "latest_loop files (name # names) latest latestMod =
     (case fmlookup files name of
        None \<Rightarrow> latest_loop files names latest latestMod
      | Some f \<Rightarrow>
          (if sf_dir f then latest_loop files names latest latestMod
           else if \<not> is_snapshot_name name then latest_loop files names latest latestMod
           else if \<not> sf_info_ok f then latest_loop files names latest latestMod
           else if latest = [] \<or> latestMod < sf_mod f then latest_loop files names name (sf_mod f)
           else latest_loop files names latest latestMod))"

definition readSnapshot :: "store_env \<Rightarrow> string \<Rightarrow> StateStore \<Rightarrow> StateStore \<times> unit go" where
  "readSnapshot E path s =
     (case fmlookup (ss_files s) path of
        None \<Rightarrow> (s, Err ''no such file or directory'')
      | Some f \<Rightarrow>
          (case go_bind (se_gunzip E (sf_data f)) (\<lambda>data. se_unjson E (take (maxSnapshotSize + 1) data)) of
             Ok snap \<Rightarrow> (s\<lparr>ss_latest := snap\<rparr>, Ok ())
           | Err e \<Rightarrow> (s, Err e)
           | Panic e \<Rightarrow> (s, Panic e)))"

text \<open>\<open>os.ReadDir\<close> sorts the names. Without a snapshot the subdirectory \<open>data\<close> is made.\<close>

definition loadLatest :: "store_env \<Rightarrow> StateStore \<Rightarrow> StateStore \<times> unit go" where
  "loadLatest E s =
     (let latest = latest_loop (ss_files s) (sorted_list_of_fset (fmdom (ss_files s))) [] 0 in
      if latest = [] then
        (s\<lparr>ss_files := (if has_key (ss_files s) ''data'' then ss_files s
              else fmupd ''data'' \<lparr>sf_dir = True, sf_info_ok = True, sf_mod = se_now E, sf_data = []\<rparr> (ss_files s)),
           ss_latest := empty_snapshot\<rparr>, Ok ())
      else readSnapshot E latest s)"

definition NewStateStore :: "store_env \<Rightarrow> (string, store_file) fmap \<Rightarrow> StateStore go" where
  "NewStateStore E files =
     (case loadLatest E \<lparr>ss_files = files, ss_latest = empty_snapshot, ss_history = [], ss_maxFiles = 64\<rparr> of
        (s, Ok _) \<Rightarrow> Ok s
      | (s, Err e) \<Rightarrow> Err e
      | (s, Panic e) \<Rightarrow> Panic e)"

definition snapshot_name :: "crypto \<Rightarrow> string \<Rightarrow> string" where
  "snapshot_name C payload = ''snapshot_'' @ take 12 (stateRoot C payload) @ ''.json.gz''"

definition put_file :: "store_env \<Rightarrow> string \<Rightarrow> string \<Rightarrow> (string, store_file) fmap \<Rightarrow> (string, store_file) fmap" where
  "put_file E path data files = fmupd path \<lparr>sf_dir = False, sf_info_ok = True, sf_mod = se_now E, sf_data = data\<rparr> files"

definition WriteSnapshot :: "crypto \<Rightarrow> store_env \<Rightarrow> StoreSnapshot \<Rightarrow> StateStore \<Rightarrow> StateStore \<times> string go" where
  "WriteSnapshot C E snap s =
     (case se_json E snap of
        Err e \<Rightarrow> (s, Err e)
      | Panic e \<Rightarrow> (s, Panic e)
      | Ok payload \<Rightarrow>
          (let buf = se_gzip E payload;
               path = snapshot_name C payload
           in case se_write_fault E of
                Some (left, e) \<Rightarrow>
                  (case left of None \<Rightarrow> (s, Err e) | Some data \<Rightarrow> (s\<lparr>ss_files := put_file E path data (ss_files s)\<rparr>, Err e))
              | None \<Rightarrow>
                  (let s = s\<lparr>ss_files := put_file E path buf (ss_files s)\<rparr>;
                       s = s\<lparr>ss_history := ss_history s @ [path]\<rparr>;
                       s = s\<lparr>ss_latest := snap\<rparr>;
                       s = (if ss_maxFiles s < length (ss_history s)
                            then s\<lparr>ss_history := tl (ss_history s), ss_files := fmdrop (hd (ss_history s)) (ss_files s)\<rparr>
                            else s)
                   in (s, Ok path))))"

text \<open>Cloning an account dereferences its pointer. The managed wallets are not copied.\<close>

definition Snapshot_op :: "StateStore \<Rightarrow> StoreSnapshot go" where
  "Snapshot_op s =
     (if fBex (fmdom (sn_Accounts (ss_latest s))) (\<lambda>k. fmlookup (sn_Accounts (ss_latest s)) k = Some None)
      then Panic ''invalid memory address or nil pointer dereference''
      else Ok ((ss_latest s)\<lparr>sn_Wallets := fmempty\<rparr>))"

section \<open>The newest snapshot is read\<close>

definition candidate :: "(string, store_file) fmap \<Rightarrow> string \<Rightarrow> bool" where
  "candidate files name \<longleftrightarrow> is_snapshot_name name \<and> (\<exists>f. fmlookup files name = Some f \<and> \<not> sf_dir f \<and> sf_info_ok f)"

lemma is_snapshot_name_nonempty: "is_snapshot_name name \<Longrightarrow> name \<noteq> []"
  by (auto simp: is_snapshot_name_def)

definition mod_time :: "(string, store_file) fmap \<Rightarrow> string \<Rightarrow> int" where
  "mod_time files name = (case fmlookup files name of None \<Rightarrow> 0 | Some f \<Rightarrow> sf_mod f)"

text \<open>\<open>r\<close> is a newest candidate among the names, or empty when there is none.\<close>

definition newest :: "(string, store_file) fmap \<Rightarrow> string list \<Rightarrow> string \<Rightarrow> bool" where
  "newest files names r \<longleftrightarrow>
     (if r = [] then \<forall>x \<in> set names. \<not> candidate files x
      else candidate files r \<and> r \<in> set names \<and> (\<forall>x \<in> set names. candidate files x \<longrightarrow> mod_time files x \<le> mod_time files r))"

lemma latest_loop_newest:
  assumes "newest files seen latest" "latest \<noteq> [] \<Longrightarrow> latestMod = mod_time files latest"
  shows "newest files (seen @ names) (latest_loop files names latest latestMod)"
  using assms
proof (induction names arbitrary: seen latest latestMod)
  case (Cons name names)
  show ?case
  proof (cases "candidate files name \<and> (latest = [] \<or> latestMod < mod_time files name)")
    case True
    then have step: "latest_loop files (name # names) latest latestMod = latest_loop files names name (mod_time files name)"
      by (auto simp: candidate_def mod_time_def)
    have "newest files (seen @ [name]) name"
      using True Cons.prems is_snapshot_name_nonempty by (auto simp: newest_def candidate_def split: if_splits)
    from Cons.IH [OF this, of "mod_time files name"] show ?thesis unfolding step by simp
  next
    case False
    then have step: "latest_loop files (name # names) latest latestMod = latest_loop files names latest latestMod"
      by (auto simp: candidate_def mod_time_def split: option.splits)
    have "newest files (seen @ [name]) latest"
      using False Cons.prems by (auto simp: newest_def not_less split: if_splits)
    from Cons.IH [OF this Cons.prems(2)] show ?thesis unfolding step by simp
  qed
qed simp

text \<open>Opening a store reads a newest snapshot file of its directory, judged by modification time and whatever else the
  directory holds; without any, it starts empty.\<close>

theorem NewStateStore_reads_newest:
  assumes "NewStateStore E files = Ok s"
  shows "(\<forall>x. candidate files x \<longrightarrow> (\<exists>r f. candidate files r \<and> mod_time files x \<le> mod_time files r \<and> fmlookup files r = Some f \<and>
            go_bind (se_gunzip E (sf_data f)) (\<lambda>data. se_unjson E (take (maxSnapshotSize + 1) data)) = Ok (ss_latest s))) \<and>
    ((\<forall>x. \<not> candidate files x) \<longrightarrow> ss_latest s = empty_snapshot) \<and> ss_history s = [] \<and> ss_maxFiles s = 64"
proof -
  let ?names = "sorted_list_of_fset (fmdom files)"
  define r where "r = latest_loop files ?names [] 0"
  have n: "newest files ?names r"
    using latest_loop_newest [of files "[]" "[]" 0 ?names] by (simp add: newest_def r_def)
  have mem: "candidate files x \<Longrightarrow> x \<in> set ?names" for x
    by (auto simp: candidate_def fmlookup_dom_iff)
  show ?thesis
  proof (cases "r = []")
    case True
    then have "\<not> candidate files x" for x using n mem by (auto simp: newest_def)
    with True assms show ?thesis by (auto simp: NewStateStore_def loadLatest_def r_def)
  next
    case False
    then obtain f where f: "candidate files r" "fmlookup files r = Some f" using n by (auto simp: newest_def candidate_def)
    have "s = \<lparr>ss_files = files, ss_latest = ss_latest s, ss_history = [], ss_maxFiles = 64\<rparr>"
      "go_bind (se_gunzip E (sf_data f)) (\<lambda>data. se_unjson E (take (maxSnapshotSize + 1) data)) = Ok (ss_latest s)"
      using assms False f(2)
      by (auto simp: NewStateStore_def loadLatest_def r_def [symmetric] readSnapshot_def split: go.splits)
    then show ?thesis using f n False mem unfolding newest_def by (metis StateStore.select_convs(3,4))
  qed
qed

section \<open>Writing and reading back\<close>

text \<open>What writing does: the snapshot becomes the latest one, the history stays within its limit, and the directory holds the
  compressed snapshot under the name of its hash, unless the oldest entry of a full history has that name.\<close>

theorem WriteSnapshot_effect:
  assumes "WriteSnapshot C E snap s = (s', Ok path)" "se_json E snap = Ok payload"
  shows "path = snapshot_name C payload \<and> ss_latest s' = snap \<and> length (ss_history s') \<le> max (ss_maxFiles s) (length (ss_history s)) \<and>
    (fmlookup (ss_files s') path = Some \<lparr>sf_dir = False, sf_info_ok = True, sf_mod = se_now E, sf_data = se_gzip E payload\<rparr> \<or>
     fmlookup (ss_files s') path = None \<and> ss_maxFiles s \<le> length (ss_history s) \<and> hd (ss_history s @ [path]) = path)"
  using assms
  by (cases "ss_history s") (auto simp: WriteSnapshot_def Let_def put_file_def split: option.splits if_splits)

text \<open>The file that was just written is deleted again when the oldest entry of the history, 64 writes ago, had the same content:
  the store then has no file of its latest snapshot.\<close>

theorem rewritten_snapshot_is_deleted:
  assumes "se_json E snap = Ok payload" "se_write_fault E = None" "ss_maxFiles s = length (ss_history s)"
    and "ss_history s = snapshot_name C payload # rest"
  shows "fmlookup (ss_files (fst (WriteSnapshot C E snap s))) (snapshot_name C payload) = None \<and>
    ss_latest (fst (WriteSnapshot C E snap s)) = snap"
  using assms by (simp add: WriteSnapshot_def Let_def)

text \<open>A snapshot survives a restart: when its file is still there and every other snapshot file is older, a store opened on the
  directory has it as its latest snapshot.\<close>

theorem snapshot_survives_restart:
  assumes "WriteSnapshot C E snap s = (s', Ok path)" "se_json E snap = Ok payload" "fmlookup (ss_files s') path \<noteq> None"
    and "se_gunzip E (se_gzip E payload) = Ok payload" "se_unjson E (take (maxSnapshotSize + 1) payload) = Ok snap"
    and "\<And>x. candidate (ss_files s') x \<Longrightarrow> x \<noteq> path \<Longrightarrow> mod_time (ss_files s') x < se_now E"
  shows "\<exists>t. NewStateStore E (ss_files s') = Ok t \<and> ss_latest t = snap"
proof -
  let ?f = "\<lparr>sf_dir = False, sf_info_ok = True, sf_mod = se_now E, sf_data = se_gzip E payload\<rparr>"
  have p: "path = snapshot_name C payload" "fmlookup (ss_files s') path = Some ?f"
    using assms(1-3) by (auto simp: WriteSnapshot_def Let_def put_file_def split: option.splits if_splits)
  have "is_snapshot_name path"
    by (auto simp: p(1) is_snapshot_name_def snapshot_name_def suffix_def)
  with p(2) have path: "candidate (ss_files s') path" "mod_time (ss_files s') path = se_now E"
    by (auto simp: candidate_def mod_time_def)
  define r where "r = latest_loop (ss_files s') (sorted_list_of_fset (fmdom (ss_files s'))) [] 0"
  have n: "newest (ss_files s') (sorted_list_of_fset (fmdom (ss_files s'))) r"
    using latest_loop_newest [of "ss_files s'" "[]" "[]" 0 "sorted_list_of_fset (fmdom (ss_files s'))"] by (simp add: newest_def r_def)
  have mem: "path \<in> set (sorted_list_of_fset (fmdom (ss_files s')))" using p(2) by (auto simp: fmlookup_dom_iff)
  have "r \<noteq> []" using n path mem by (auto simp: newest_def)
  then have "candidate (ss_files s') r" "se_now E \<le> mod_time (ss_files s') r" using n path mem by (auto simp: newest_def)
  then have "r = path" using assms(6) [of r] by fastforce
  with \<open>r \<noteq> []\<close> show ?thesis
    using p(2) assms(4,5) by (simp add: NewStateStore_def loadLatest_def readSnapshot_def r_def [symmetric])
qed

end
