(* ===== verification/Security.thy ===== *)
theory Security
  imports Domain
begin

text \<open>
  The security module of \<open>security.go\<close>: integrity labels, counters, the hardening level and the
  bounded audit log. Atomic counters are plain fields, since each method is one atomic step.
\<close>

section \<open>State and operations\<close>

record SecurityModule =
  sm_integrityHashes :: "(string, string) fmap"
  sm_hardeningLevel :: u32
  sm_zeroized :: i64
  sm_tamperDetected :: i64
  sm_validationFailures :: i64
  sm_securityAuditLog :: "string list"
  sm_sealedMode :: bool

text \<open>\<open>sha256.New().Sum(nil)\<close> is the digest of the empty message.\<close>

definition baselineIntegrity :: "crypto \<Rightarrow> SecurityModule \<Rightarrow> SecurityModule" where
  "baselineIntegrity C s =
     s\<lparr>sm_integrityHashes := fmupd ''blockchain_state'' (EncodeToString (sha256 C [])) (sm_integrityHashes s)\<rparr>"

definition NewSecurityModule :: "crypto \<Rightarrow> SecurityModule" where
  "NewSecurityModule C = baselineIntegrity C
     \<lparr>sm_integrityHashes = fmempty, sm_hardeningLevel = 2, sm_zeroized = 0, sm_tamperDetected = 0,
      sm_validationFailures = 0, sm_securityAuditLog = [], sm_sealedMode = True\<rparr>"

definition VerifyIntegrity :: "SecurityModule \<Rightarrow> string \<Rightarrow> string \<Rightarrow> bool" where
  "VerifyIntegrity s label data = has_key (sm_integrityHashes s) label"

text \<open>A secret is a pointer to a slice: absent, pointing to \<open>nil\<close>, or to bytes. The second component of
  the result is what the array that other slices may share holds afterwards.\<close>

definition ZeroizeSecret :: "string option \<Rightarrow> SecurityModule \<Rightarrow> SecurityModule \<times> string option" where
  "ZeroizeSecret secret s =
     (case secret of
        None \<Rightarrow> (s, None)
      | Some bytes \<Rightarrow> (s\<lparr>sm_zeroized := sm_zeroized s + 1\<rparr>, Some (map (\<lambda>_. zero_byte) bytes)))"

definition count_failure :: "SecurityModule \<Rightarrow> SecurityModule" where
  "count_failure s = s\<lparr>sm_validationFailures := sm_validationFailures s + 1\<rparr>"

definition RecordValidatorSign :: "crypto \<Rightarrow> string \<Rightarrow> string \<Rightarrow> SecurityModule \<Rightarrow> SecurityModule" where
  "RecordValidatorSign C address pub s =
     (if \<not> VerifyIntegrity s ''blockchain_state'' [] then count_failure s
      else s\<lparr>sm_integrityHashes := fmupd (''validator:'' @ address) (EncodeToString (sha256 C [])) (sm_integrityHashes s)\<rparr>)"

definition AntiTamperAudit :: "SecurityModule \<Rightarrow> SecurityModule" where
  "AntiTamperAudit s = (if \<not> VerifyIntegrity s ''blockchain_state'' [] then count_failure s else s)"

definition HardeningLevel :: "SecurityModule \<Rightarrow> u32" where
  "HardeningLevel s = sm_hardeningLevel s"

definition SetHardeningLevel :: "u32 \<Rightarrow> SecurityModule \<Rightarrow> SecurityModule" where
  "SetHardeningLevel level s = s\<lparr>sm_hardeningLevel := (if 3 < level then 3 else level)\<rparr>"

definition TamperDetected :: "SecurityModule \<Rightarrow> i64" where
  "TamperDetected s = sm_tamperDetected s"

definition ValidationFailures :: "SecurityModule \<Rightarrow> i64" where
  "ValidationFailures s = sm_validationFailures s"

definition IsSealed :: "SecurityModule \<Rightarrow> bool" where
  "IsSealed s = sm_sealedMode s"

definition recordAudit :: "string \<Rightarrow> SecurityModule \<Rightarrow> SecurityModule" where
  "recordAudit event s =
     (let l = sm_securityAuditLog s @ [event] in
      s\<lparr>sm_securityAuditLog := (if 1024 < length l then drop (length l - 1024) l else l)\<rparr>)"

definition AuditLog :: "SecurityModule \<Rightarrow> string list" where
  "AuditLog s = sm_securityAuditLog s"

section \<open>Runs\<close>

datatype sec_event = Zeroize "string option" | RecordSign string string | TamperAudit | SetLevel u32 | Audit string

fun sec_on :: "crypto \<Rightarrow> sec_event \<Rightarrow> SecurityModule \<Rightarrow> SecurityModule" where
  "sec_on C (Zeroize secret) s = fst (ZeroizeSecret secret s)"
| "sec_on C (RecordSign address pub) s = RecordValidatorSign C address pub s"
| "sec_on C TamperAudit s = AntiTamperAudit s"
| "sec_on C (SetLevel level) s = SetHardeningLevel level s"
| "sec_on C (Audit event) s = recordAudit event s"

definition sec_ok :: "SecurityModule \<Rightarrow> bool" where
  "sec_ok s \<longleftrightarrow> has_key (sm_integrityHashes s) ''blockchain_state'' \<and> sm_hardeningLevel s \<le> 3 \<and>
     length (sm_securityAuditLog s) \<le> 1024 \<and> sm_validationFailures s = 0 \<and> sm_tamperDetected s = 0 \<and> sm_sealedMode s"

lemma sec_on_ok: "sec_ok s \<Longrightarrow> sec_ok (sec_on C e s)"
  by (cases e)
    (auto simp: sec_ok_def ZeroizeSecret_def RecordValidatorSign_def AntiTamperAudit_def SetHardeningLevel_def
      recordAudit_def VerifyIntegrity_def Let_def not_less split: option.splits)

interpretation security: machine "sec_on C" sec_ok for C
  by unfold_locales (rule sec_on_ok)

lemma sec_ok_new: "sec_ok (NewSecurityModule C)"
  by (simp add: sec_ok_def NewSecurityModule_def baselineIntegrity_def)

text \<open>Whatever calls a fresh security module receives, the hardening level stays at most 3, the audit
  log holds at most 1024 entries, the module stays sealed, and no validation failure and no
  tampering is ever counted: the check of integrity only looks for the label, so it passes for every
  content.\<close>

theorem security_module_runs:
  "sec_ok (fold (sec_on C) es (NewSecurityModule C)) \<and>
   VerifyIntegrity (fold (sec_on C) es (NewSecurityModule C)) ''blockchain_state'' data"
  using security.run_inv [of "NewSecurityModule C", OF sec_ok_new] by (auto simp: sec_ok_def VerifyIntegrity_def)

text \<open>The audit log keeps the last 1024 events.\<close>

lemma drop_window:
  assumes "0 < n"
  shows "drop (length (drop (length xs - n) xs @ [x]) - n) (drop (length xs - n) xs @ [x]) =
    drop (length (xs @ [x]) - n) (xs @ [x])"
proof -
  have "drop (length xs - n) xs @ [x] = drop (length xs - n) (xs @ [x])" by simp
  then have "drop m (drop (length xs - n) xs @ [x]) = drop (m + (length xs - n)) (xs @ [x])" for m
    by (simp only: drop_drop)
  moreover have "length (drop (length xs - n) xs @ [x]) - n + (length xs - n) = length (xs @ [x]) - n"
    using assms by auto
  ultimately show ?thesis by simp
qed

lemma audit_log_keeps_latest:
  assumes "length (AuditLog s) \<le> 1024"
  shows "AuditLog (fold recordAudit es s) = drop (length (AuditLog s @ es) - 1024) (AuditLog s @ es)"
proof (induction es rule: rev_induct)
  case Nil
  then show ?case using assms by simp
next
  case (snoc e es)
  have "AuditLog (recordAudit e t) = drop (length (AuditLog t @ [e]) - 1024) (AuditLog t @ [e])" for t
    by (auto simp: recordAudit_def AuditLog_def Let_def)
  then show ?case
    using snoc drop_window [of 1024 "AuditLog s @ es" e] by simp
qed

end
