(* ===== verification/Genesis.thy ===== *)
theory Genesis
  imports Finality Security
begin

text \<open>
  How a chain begins and how validators join it: the genesis file that \<open>LoadGenesis\<close> of
  \<open>blockchain.go\<close> reads, and the keys that \<open>validator_onboarding.go\<close> hands out.
\<close>

section \<open>The genesis file\<close>

record genesis_alloc =
  ga_Address :: string
  ga_PublicKey :: string
  ga_Amount :: u64

record genesis_val =
  gv_Address :: string
  gv_PublicKey :: string
  gv_Stake :: u64

record genesisFile =
  gf_ChainID :: string
  gf_InitialSupply :: u64
  gf_MaxSupply :: u64
  gf_Allocations :: "genesis_alloc list"
  gf_Validators :: "genesis_val list"

fun load_allocations :: "env \<Rightarrow> genesis_alloc list \<Rightarrow> Blockchain \<Rightarrow> Blockchain \<times> unit go" where
  "load_allocations E [] bc = (bc, Ok ())"
| "load_allocations E (alloc # rest) bc =
     (if ga_Address alloc = [] then (bc, Err ''genesis allocation missing address'')
      else if MaxSupply < ga_Amount alloc then (bc, Err ''genesis allocation exceeds max supply'')
      else let bc = addAccountLocked E (ga_Address alloc) (ga_Amount alloc) False bc;
               bc = bc\<lparr>bc_TokenSupply := bc_TokenSupply bc + ga_Amount alloc\<rparr>
        in load_allocations E rest bc)"

text \<open>The account of a genesis validator: an existing one pays the stake, a new one is created with the
  stake both as balance and as stake.\<close>

definition genesis_stake :: "env \<Rightarrow> string \<Rightarrow> u64 \<Rightarrow> Blockchain \<Rightarrow> Blockchain" where
  "genesis_stake E a stake bc =
     (if has_key (bc_Ledger bc) a
      then bc\<lparr>bc_Ledger := modify_account a (\<lambda>acct. acct\<lparr>acct_IsAgent := False, acct_Staked := stake,
                 acct_Balance := acct_Balance acct - stake\<rparr>) (bc_Ledger bc)\<rparr>
      else let bc = addAccountLocked E a stake False bc
        in bc\<lparr>bc_Ledger := modify_account a (\<lambda>acct. acct\<lparr>acct_Staked := stake\<rparr>) (bc_Ledger bc)\<rparr>)"

fun load_validators :: "env \<Rightarrow> genesis_val list \<Rightarrow> Blockchain \<Rightarrow> Blockchain \<times> unit go" where
  "load_validators E [] bc = (bc, Ok ())"
| "load_validators E (val # rest) bc =
     (if gv_Address val = [] then (bc, Err ''genesis validator missing address'')
      else if gv_Stake val < MinStake then (bc, Err ''genesis validator stake below minimum'')
      else let bc = bc\<lparr>bc_TokenSupply := bc_TokenSupply bc + gv_Stake val\<rparr>;
               bc = genesis_stake E (gv_Address val) (gv_Stake val) bc;
               bc = bc\<lparr>bc_Validators := fmupd (gv_Address val)
                      (new_validator E (gv_Address val) (gv_Stake val) (gv_PublicKey val)) (bc_Validators bc)\<rparr>;
               bc = AddAuthority (gv_Address val) bc
        in load_validators E rest bc)"

text \<open>\<open>file\<close> is the content of the file or the error of reading it, \<open>unjson\<close> the decoder.\<close>

definition LoadGenesis :: "env \<Rightarrow> (string \<Rightarrow> genesisFile go) \<Rightarrow> string go \<Rightarrow> Blockchain \<Rightarrow> Blockchain \<times> unit go" where
  "LoadGenesis E unjson file bc =
     (case go_bind file unjson of
        Err e \<Rightarrow> (bc, Err e)
      | Panic e \<Rightarrow> (bc, Panic e)
      | Ok genesis \<Rightarrow>
          (let bc = (if gf_ChainID genesis \<noteq> [] then bc\<lparr>bc_ChainID := gf_ChainID genesis\<rparr> else bc);
               bc = bc\<lparr>bc_TokenSupply := 0\<rparr>
           in case load_allocations E (gf_Allocations genesis) bc of
                (bc, Ok _) \<Rightarrow>
                  (case load_validators E (gf_Validators genesis) bc of
                     (bc, Ok _) \<Rightarrow>
                       (if MaxSupply < bc_TokenSupply bc
                        then (bc, Err (''genesis total supply exceeds max supply: '' @
                                FormatUint (bc_TokenSupply bc) @ '' > '' @ FormatUint MaxSupply))
                        else (appendAuditEntry E ''genesis_loaded'' ''system'' (''chain_id='' @ bc_ChainID bc @ '' supply='' @
                                FormatUint (bc_TokenSupply bc) @ '' allocations='' @ fmt_nat (length (gf_Allocations genesis)) @
                                '' validators='' @ fmt_nat (length (gf_Validators genesis))) bc, Ok ()))
                   | r \<Rightarrow> r)
              | r \<Rightarrow> r))"

section \<open>What a genesis file must satisfy\<close>

lemma MaxSupply_top: "\<not> MaxSupply < (x :: u64)"
  by (simp add: MaxSupply_def not_less word_le_nat_alt) (use unat_u64_lt [of x] in simp)

lemma load_allocations_Ok:
  "snd (load_allocations E as bc) = Ok () \<longleftrightarrow> list_all (\<lambda>a. ga_Address a \<noteq> []) as"
  by (induction as arbitrary: bc) (auto simp: Let_def MaxSupply_top)

lemma load_validators_Ok:
  "snd (load_validators E vs bc) = Ok () \<longleftrightarrow> list_all (\<lambda>v. gv_Address v \<noteq> [] \<and> MinStake \<le> gv_Stake v) vs"
  by (induction vs arbitrary: bc) (auto simp: Let_def not_less)

lemma LoadGenesis_decoded:
  assumes Ok: "go_bind file unjson = Ok g"
  shows "snd (LoadGenesis E unjson file bc) = Ok () \<longleftrightarrow>
     list_all (\<lambda>a. ga_Address a \<noteq> []) (gf_Allocations g) \<and>
     list_all (\<lambda>v. gv_Address v \<noteq> [] \<and> MinStake \<le> gv_Stake v) (gf_Validators g)"
proof -
  define bc0 where "bc0 = (if gf_ChainID g \<noteq> [] then bc\<lparr>bc_ChainID := gf_ChainID g\<rparr> else bc)\<lparr>bc_TokenSupply := 0\<rparr>"
  obtain b1 r1 where 1: "load_allocations E (gf_Allocations g) bc0 = (b1, r1)" by force
  obtain b2 r2 where 2: "load_validators E (gf_Validators g) b1 = (b2, r2)" by force
  have "snd (LoadGenesis E unjson file bc) = Ok () \<longleftrightarrow> r1 = Ok () \<and> r2 = Ok ()"
    unfolding LoadGenesis_def Ok Let_def go.case bc0_def [symmetric] 1 prod.case
    by (cases r1; cases r2) (simp_all add: 2 MaxSupply_top)
  then show ?thesis
    using load_allocations_Ok [of E "gf_Allocations g" bc0] load_validators_Ok [of E "gf_Validators g" b1]
    by (simp add: 1 2)
qed

text \<open>\<open>LoadGenesis\<close> succeeds if and only if the file can be read and decoded, every allocation and
  every validator has an address, and every validator stakes the minimum. No amount is too large: the
  comparisons with the maximal supply, the largest \<open>uint64\<close>, cannot hold.\<close>

theorem LoadGenesis_Ok_iff:
  "snd (LoadGenesis E unjson file bc) = Ok () \<longleftrightarrow>
     (\<exists>g. go_bind file unjson = Ok g \<and> list_all (\<lambda>a. ga_Address a \<noteq> []) (gf_Allocations g) \<and>
        list_all (\<lambda>v. gv_Address v \<noteq> [] \<and> MinStake \<le> gv_Stake v) (gf_Validators g))"
  by (cases "go_bind file unjson") (simp_all add: LoadGenesis_decoded, simp_all add: LoadGenesis_def)

section \<open>What a genesis file sets up\<close>

lemma load_allocations_frame:
  "bc_Authorities (fst (load_allocations E as bc)) = bc_Authorities bc"
  "bc_Validators (fst (load_allocations E as bc)) = bc_Validators bc"
  by (induction as arbitrary: bc) (auto simp: Let_def addAccountLocked_def)

lemma load_allocations_supply:
  "snd (load_allocations E as bc) = Ok () \<Longrightarrow>
   bc_TokenSupply (fst (load_allocations E as bc)) = bc_TokenSupply bc + sum_list (map ga_Amount as)"
  by (induction as arbitrary: bc) (auto simp: Let_def addAccountLocked_def add.assoc split: if_splits)

lemma load_allocations_other:
  "a \<notin> ga_Address ` set as \<Longrightarrow> fmlookup (bc_Ledger (fst (load_allocations E as bc))) a = fmlookup (bc_Ledger bc) a"
  by (induction as arbitrary: bc) (auto simp: Let_def addAccountLocked_def)

lemma load_allocations_account:
  assumes "snd (load_allocations E as bc) = Ok ()" "distinct (map ga_Address as)" "al \<in> set as"
  shows "fmlookup (bc_Ledger (fst (load_allocations E as bc))) (ga_Address al) =
    Some \<lparr>acct_Address = ga_Address al, acct_Balance = ga_Amount al, acct_Staked = 0, acct_IsAgent = False\<rparr>"
  using assms
proof (induction as arbitrary: bc)
  case (Cons a as)
  then show ?case
    by (cases "al = a") (auto simp: Let_def addAccountLocked_def load_allocations_other split: if_splits)
qed simp

lemma genesis_stake_frame [simp]:
  "bc_TokenSupply (genesis_stake E a v bc) = bc_TokenSupply bc"
  "bc_Authorities (genesis_stake E a v bc) = bc_Authorities bc"
  "bc_Validators (genesis_stake E a v bc) = bc_Validators bc"
  by (simp_all add: genesis_stake_def addAccountLocked_def Let_def)

lemma genesis_stake_other: "b \<noteq> a \<Longrightarrow> fmlookup (bc_Ledger (genesis_stake E a v bc)) b = fmlookup (bc_Ledger bc) b"
  by (simp add: genesis_stake_def addAccountLocked_def Let_def modify_account_lookup)

lemma AddAuthority_frame [simp]:
  "bc_Ledger (AddAuthority a bc) = bc_Ledger bc" "bc_Validators (AddAuthority a bc) = bc_Validators bc"
  "bc_TokenSupply (AddAuthority a bc) = bc_TokenSupply bc"
  by (simp_all add: AddAuthority_def)

definition staked_account :: "string \<Rightarrow> u64 \<Rightarrow> Account option \<Rightarrow> Account" where
  "staked_account a stake ac = (case ac of
     None \<Rightarrow> \<lparr>acct_Address = a, acct_Balance = stake, acct_Staked = stake, acct_IsAgent = False\<rparr>
   | Some ac \<Rightarrow> ac\<lparr>acct_IsAgent := False, acct_Staked := stake, acct_Balance := acct_Balance ac - stake\<rparr>)"

lemma genesis_stake_same:
  "fmlookup (bc_Ledger (genesis_stake E a v bc)) a = Some (staked_account a v (fmlookup (bc_Ledger bc) a))"
  by (simp add: genesis_stake_def addAccountLocked_def Let_def modify_account_lookup staked_account_def has_key_def
      split: option.splits)

lemma load_validators_supply:
  "snd (load_validators E vs bc) = Ok () \<Longrightarrow>
   bc_TokenSupply (fst (load_validators E vs bc)) = bc_TokenSupply bc + sum_list (map gv_Stake vs)"
  by (induction vs arbitrary: bc) (auto simp: Let_def AddAuthority_def add.assoc split: if_splits)

lemma load_validators_authorities:
  "snd (load_validators E vs bc) = Ok () \<Longrightarrow>
   bc_Authorities (fst (load_validators E vs bc)) = bc_Authorities bc @ map gv_Address vs"
  by (induction vs arbitrary: bc) (auto simp: Let_def AddAuthority_def split: if_splits)

lemma load_validators_other:
  assumes "a \<notin> gv_Address ` set vs"
  shows "fmlookup (bc_Ledger (fst (load_validators E vs bc))) a = fmlookup (bc_Ledger bc) a"
    and "fmlookup (bc_Validators (fst (load_validators E vs bc))) a = fmlookup (bc_Validators bc) a"
  using assms by (induction vs arbitrary: bc) (auto simp: Let_def AddAuthority_def genesis_stake_other)

lemma load_validators_account:
  assumes "snd (load_validators E vs bc) = Ok ()" "distinct (map gv_Address vs)" "v \<in> set vs"
  shows "fmlookup (bc_Ledger (fst (load_validators E vs bc))) (gv_Address v) =
      Some (staked_account (gv_Address v) (gv_Stake v) (fmlookup (bc_Ledger bc) (gv_Address v))) \<and>
    fmlookup (bc_Validators (fst (load_validators E vs bc))) (gv_Address v) =
      Some (new_validator E (gv_Address v) (gv_Stake v) (gv_PublicKey v))"
  using assms
proof (induction vs arbitrary: bc)
  case (Cons w vs)
  let ?b = "genesis_stake E (gv_Address w) (gv_Stake w) (bc\<lparr>bc_TokenSupply := bc_TokenSupply bc + gv_Stake w\<rparr>)"
  let ?bc = "AddAuthority (gv_Address w) (?b\<lparr>bc_Validators := fmupd (gv_Address w)
     (new_validator E (gv_Address w) (gv_Stake w) (gv_PublicKey w)) (bc_Validators ?b)\<rparr>)"
  have step: "load_validators E (w # vs) bc = load_validators E vs ?bc"
    using Cons.prems(1) by (simp add: Let_def split: if_splits)
  show ?case
  proof (cases "v = w")
    case True
    with Cons.prems(2) show ?thesis
      unfolding step by (simp add: load_validators_other genesis_stake_same)
  next
    case False
    with Cons.prems(3) have v: "v \<in> set vs" by simp
    with Cons.prems(2) have "gv_Address v \<noteq> gv_Address w" by (auto simp: image_iff)
    then show ?thesis
      using Cons.IH [of ?bc] v Cons.prems(1,2) unfolding step by (simp add: genesis_stake_other)
  qed
qed simp

text \<open>What a loaded genesis file sets up, when its allocations and its validators have distinct
  addresses: the supply is the sum of all amounts and all stakes, modulo \<open>2\<^sup>6\<^sup>4\<close>; the validators
  become authorities in the order of the file; each validator is registered with its stake and key,
  its account holds that stake, and the stake is taken from its allocation without a check, while a
  validator without an account gets the stake a second time as balance; every other allocation
  is the balance of its account.\<close>

theorem LoadGenesis_effect:
  assumes "LoadGenesis E unjson file bc = (bc', Ok ())" and "go_bind file unjson = Ok g"
    and "distinct (map ga_Address (gf_Allocations g))" "distinct (map gv_Address (gf_Validators g))"
  shows "bc_TokenSupply bc' = sum_list (map ga_Amount (gf_Allocations g)) + sum_list (map gv_Stake (gf_Validators g)) \<and>
    bc_Authorities bc' = bc_Authorities bc @ map gv_Address (gf_Validators g) \<and>
    (\<forall>v \<in> set (gf_Validators g).
       fmlookup (bc_Validators bc') (gv_Address v) = Some (new_validator E (gv_Address v) (gv_Stake v) (gv_PublicKey v)) \<and>
       fmlookup (bc_Ledger bc') (gv_Address v) = Some (staked_account (gv_Address v) (gv_Stake v)
         (case find (\<lambda>al. ga_Address al = gv_Address v) (gf_Allocations g) of
            Some al \<Rightarrow> Some \<lparr>acct_Address = gv_Address v, acct_Balance = ga_Amount al, acct_Staked = 0, acct_IsAgent = False\<rparr>
          | None \<Rightarrow> fmlookup (bc_Ledger bc) (gv_Address v)))) \<and>
    (\<forall>al \<in> set (gf_Allocations g). ga_Address al \<notin> gv_Address ` set (gf_Validators g) \<longrightarrow>
       balance_of (bc_Ledger bc') (ga_Address al) = Some (ga_Amount al))"
proof -
  define bc0 where "bc0 = (if gf_ChainID g \<noteq> [] then bc\<lparr>bc_ChainID := gf_ChainID g\<rparr> else bc)\<lparr>bc_TokenSupply := 0\<rparr>"
  obtain b1 r1 where 1: "load_allocations E (gf_Allocations g) bc0 = (b1, r1)" by force
  obtain b2 r2 where 2: "load_validators E (gf_Validators g) b1 = (b2, r2)" by force
  have "r1 = Ok () \<and> r2 = Ok () \<and> (\<exists>d. bc' = appendAuditEntry E ''genesis_loaded'' ''system'' d b2)"
    using assms(1) unfolding LoadGenesis_def assms(2) Let_def go.case bc0_def [symmetric] 1 prod.case
    by (cases r1; cases r2) (auto simp: 2 MaxSupply_top)
  then have ok: "snd (load_allocations E (gf_Allocations g) bc0) = Ok ()" "snd (load_validators E (gf_Validators g) b1) = Ok ()"
    and bc': "bc_TokenSupply bc' = bc_TokenSupply b2" "bc_Authorities bc' = bc_Authorities b2"
      "bc_Validators bc' = bc_Validators b2" "bc_Ledger bc' = bc_Ledger b2"
    by (auto simp: 1 2)
  have 0: "bc_TokenSupply bc0 = 0" "bc_Authorities bc0 = bc_Authorities bc" "bc_Ledger bc0 = bc_Ledger bc"
    by (simp_all add: bc0_def)
  have L1: "fmlookup (bc_Ledger b1) a = (case find (\<lambda>al. ga_Address al = a) (gf_Allocations g) of
      Some al \<Rightarrow> Some \<lparr>acct_Address = a, acct_Balance = ga_Amount al, acct_Staked = 0, acct_IsAgent = False\<rparr>
    | None \<Rightarrow> fmlookup (bc_Ledger bc) a)" for a
    using load_allocations_account [OF ok(1) assms(3)] load_allocations_other [of a "gf_Allocations g" E bc0]
    by (auto simp: 1 0 find_None_iff find_Some_iff split: option.splits)
  have "balance_of (bc_Ledger b2) (ga_Address al) = Some (ga_Amount al)"
    if "al \<in> set (gf_Allocations g)" "ga_Address al \<notin> gv_Address ` set (gf_Validators g)" for al
    using load_allocations_account [OF ok(1) assms(3) that(1)] load_validators_other(1) [OF that(2), of E b1]
    by (simp add: 1 2 balance_of_def)
  then show ?thesis
    using load_allocations_supply [OF ok(1)] load_validators_supply [OF ok(2)] load_validators_authorities [OF ok(2)]
      load_allocations_frame(1) [of E "gf_Allocations g" bc0] load_validators_account [OF ok(2) assms(4)] L1
    by (auto simp: 0 1 2 bc')
qed

definition demo_genesis :: genesisFile where
  "demo_genesis = \<lparr>gf_ChainID = ''main'', gf_InitialSupply = 0, gf_MaxSupply = 0,
     gf_Allocations = [\<lparr>ga_Address = ''a'', ga_PublicKey = [], ga_Amount = 5\<rparr>],
     gf_Validators = [\<lparr>gv_Address = ''w'', gv_PublicKey = ''k'', gv_Stake = MinStake\<rparr>]\<rparr>"

theorem LoadGenesis_effect_witness:
  "bc_TokenSupply (fst (LoadGenesis demo_env (\<lambda>_. Ok demo_genesis) (Ok []) demo_node)) = 1000000005 \<and>
   balance_of (bc_Ledger (fst (LoadGenesis demo_env (\<lambda>_. Ok demo_genesis) (Ok []) demo_node))) ''w'' = Some 1000000000"
proof -
  obtain bc' r where r: "LoadGenesis demo_env (\<lambda>_. Ok demo_genesis) (Ok []) demo_node = (bc', r)" by force
  moreover have "snd (LoadGenesis demo_env (\<lambda>_. Ok demo_genesis) (Ok []) demo_node) = Ok ()"
    by (subst LoadGenesis_decoded [of _ _ demo_genesis]) (simp_all add: demo_genesis_def)
  ultimately show ?thesis
    using LoadGenesis_effect [of demo_env "\<lambda>_. Ok demo_genesis" "Ok []" demo_node bc' demo_genesis]
    by (simp add: demo_genesis_def staked_account_def balance_of_def demo_node_ledger MinStake_def HogohogoPerTender_def)
qed

section \<open>Onboarding of validators\<close>

record ValidatorOnboarding =
  vo_pending :: "(string, string) fmap"

definition NewValidatorOnboarding :: ValidatorOnboarding where
  "NewValidatorOnboarding = \<lparr>vo_pending = fmempty\<rparr>"

text \<open>The pair \<open>keys\<close> is what \<open>ed25519.GenerateKey\<close> draws, or its error. The address is not used.\<close>

definition GenerateKeyFor :: "(string \<times> string) go \<Rightarrow> string \<Rightarrow> ValidatorOnboarding \<Rightarrow> ValidatorOnboarding \<times> string go" where
  "GenerateKeyFor keys address ob =
     (case keys of
        Err e \<Rightarrow> (ob, Err e)
      | Panic e \<Rightarrow> (ob, Panic e)
      | Ok (pub, priv) \<Rightarrow>
          (let hexPub = EncodeToString pub
           in (ob\<lparr>vo_pending := fmupd hexPub priv (vo_pending ob)\<rparr>, Ok hexPub)))"

definition ClaimPrivateKey :: "string \<Rightarrow> ValidatorOnboarding \<Rightarrow> ValidatorOnboarding \<times> string option" where
  "ClaimPrivateKey pubHex ob = (ob\<lparr>vo_pending := fmdrop pubHex (vo_pending ob)\<rparr>, fmlookup (vo_pending ob) pubHex)"

text \<open>The entry that \<open>RegisterValidator\<close> made is replaced by one without rotation times, and the private
  key, whose bytes the slice \<open>secret\<close> shares, is overwritten.\<close>

definition RegisterValidatorWithKey ::
  "env \<Rightarrow> string list \<Rightarrow> string \<Rightarrow> u64 \<Rightarrow> string \<Rightarrow> ValidatorOnboarding \<times> Blockchain \<times> SecurityModule \<Rightarrow>
   (ValidatorOnboarding \<times> Blockchain \<times> SecurityModule) \<times> unit go" where
  "RegisterValidatorWithKey E ks address stake pubHex st =
     (case st of (ob, bc, sec) \<Rightarrow>
        (case ClaimPrivateKey pubHex ob of
           (ob, None) \<Rightarrow> ((ob, bc, sec), Err ''unknown validator public key'')
         | (ob, Some priv) \<Rightarrow>
             (case RegisterValidator E ks address stake pubHex bc of
                (bc, Err e) \<Rightarrow> ((ob, bc, sec), Err e)
              | (bc, Panic e) \<Rightarrow> ((ob, bc, sec), Panic e)
              | (bc, Ok _) \<Rightarrow>
                  (let bc = bc\<lparr>bc_Validators := fmupd address
                         \<lparr>val_PublicKey = pubHex, val_Address = address, val_Stake = stake, val_Active = True,
                          val_JoinedAt = env_now E, val_Performance = 100, val_PublicKeyVersion = 0,
                          val_KeyRotatedAt = 0, val_NextRotationAt = 0\<rparr> (bc_Validators bc)\<rparr>;
                       bc = fst (SaveToDisk E bc);
                       sec = fst (ZeroizeSecret (Some priv) sec)
                   in ((ob, bc, sec), Ok ())))))"

text \<open>A key that was handed out serves for one registration: the first attempt with it uses it up
  even when the registration is refused, and every later attempt with it fails without touching the
  chain.\<close>

theorem onboarding_key_once:
  "let (st', r) = RegisterValidatorWithKey E ks a v pk st
   in RegisterValidatorWithKey E' ks' a' v' pk st' = (st', Err ''unknown validator public key'')"
proof -
  obtain o0 bc sec where st: "st = (o0, bc, sec)" by (cases st)
  have drop: "vo_pending (fst (fst (RegisterValidatorWithKey E ks a v pk st))) = fmdrop pk (vo_pending o0)"
    by (simp add: st RegisterValidatorWithKey_def ClaimPrivateKey_def Let_def split: option.splits prod.splits go.splits)
  have gone: "RegisterValidatorWithKey E' ks' a' v' pk t = (t, Err ''unknown validator public key'')"
    if "vo_pending (fst t) = fmdrop pk m" for t m
  proof -
    obtain o1 b s where t: "t = (o1, b, s)" by (cases t)
    have "fmdrop pk (fmdrop pk m) = fmdrop pk m" by (rule fmap_ext) simp
    with that show ?thesis
      by (simp add: t RegisterValidatorWithKey_def ClaimPrivateKey_def)
  qed
  show ?thesis
    using gone [OF drop] by (simp add: case_prod_beta Let_def)
qed

text \<open>A successful onboarding registers the validator with the claimed key, moves the stake out of
  the balance of its account, and counts one erased secret. Its entry carries no rotation time, so
  its key is due for rotation at once, at any time.\<close>

theorem onboarding_effect:
  assumes "RegisterValidatorWithKey E ks a stake pk (ob, bc, sec) = ((ob', bc', sec'), Ok ())"
    and "fmlookup (bc_Ledger bc) a = Some ac"
  shows "\<exists>v. fmlookup (bc_Validators bc') a = Some v \<and> val_PublicKey v = pk \<and> val_Stake v = stake \<and>
    active_staked v \<and> NeedsRotation v now \<and>
    fmlookup (bc_Ledger bc') a = Some (ac\<lparr>acct_Balance := acct_Balance ac - stake, acct_Staked := acct_Staked ac + stake\<rparr>) \<and>
    stake \<le> acct_Balance ac \<and> MinStake \<le> stake \<and> has_key (vo_pending ob) pk \<and> \<not> has_key (vo_pending ob') pk \<and>
    sm_zeroized sec' = sm_zeroized sec + 1"
proof -
  obtain bcr r where R: "RegisterValidator E ks a stake pk bc = (bcr, r)" by force
  obtain priv where priv: "fmlookup (vo_pending ob) pk = Some priv"
    using assms(1) by (cases "fmlookup (vo_pending ob) pk") (auto simp: RegisterValidatorWithKey_def ClaimPrivateKey_def)
  let ?v = "\<lparr>val_PublicKey = pk, val_Address = a, val_Stake = stake, val_Active = True, val_JoinedAt = env_now E,
     val_Performance = 100, val_PublicKeyVersion = 0, val_KeyRotatedAt = 0, val_NextRotationAt = 0\<rparr>"
  have st: "r = Ok ()" "bc' = fst (SaveToDisk E (bcr\<lparr>bc_Validators := fmupd a ?v (bc_Validators bcr)\<rparr>))"
      "ob' = ob\<lparr>vo_pending := fmdrop pk (vo_pending ob)\<rparr>" "sec' = fst (ZeroizeSecret (Some priv) sec)"
    using assms(1) by (cases r; simp add: RegisterValidatorWithKey_def ClaimPrivateKey_def priv R Let_def)+
  have g: "stake \<le> acct_Balance ac" "MinStake \<le> stake"
    and L: "bc_Ledger bcr = add_stake a stake (debit a stake (bc_Ledger bc))"
    using R assms(2) st(1) by (auto simp: RegisterValidator_def Let_def not_less split: if_splits)
  have "0 < stake"
    by (rule order_less_le_trans [OF _ g(2)]) (simp add: MinStake_def HogohogoPerTender_def)
  then have "active_staked ?v" "NeedsRotation ?v now"
    by (simp_all add: active_staked_def NeedsRotation_def)
  moreover have "bc_Ledger (fst (SaveToDisk E b)) = bc_Ledger b" "bc_Validators (fst (SaveToDisk E b)) = bc_Validators b" for b
    by (simp_all add: SaveToDisk_def Let_def split: go.splits option.splits)
  ultimately show ?thesis
    using g assms(2) priv
    by (intro exI [of _ ?v]) (simp add: st L account_ops modify_account_lookup ZeroizeSecret_def has_key_def)
qed

definition demo_onboarding :: "ValidatorOnboarding \<times> Blockchain \<times> SecurityModule" where
  "demo_onboarding = (\<lparr>vo_pending = fmupd ''k'' ''secret'' fmempty\<rparr>,
     demo_node\<lparr>bc_Ledger := fmupd ''a'' (demo_account ''a'' 2000000000 0) fmempty\<rparr>, NewSecurityModule demo_crypto)"

theorem onboarding_effect_witness:
  "\<exists>v. fmlookup (bc_Validators (fst (snd (fst (RegisterValidatorWithKey demo_env [''a''] ''a'' MinStake ''k'' demo_onboarding))))) ''a'' = Some v \<and>
     val_PublicKey v = ''k'' \<and> NeedsRotation v 5"
proof -
  obtain ob' bc' sec' r where r: "RegisterValidatorWithKey demo_env [''a''] ''a'' MinStake ''k'' demo_onboarding = ((ob', bc', sec'), r)"
    by (metis prod.exhaust)
  have "\<exists>b. RegisterValidator demo_env [''a''] ''a'' MinStake ''k'' (fst (snd demo_onboarding)) = (b, Ok ())"
    by (simp add: demo_onboarding_def RegisterValidator_def demo_account_def MinStake_def HogohogoPerTender_def Let_def)
  then have "r = Ok ()"
    using r by (auto simp: demo_onboarding_def RegisterValidatorWithKey_def ClaimPrivateKey_def Let_def)
  then show ?thesis
    using r onboarding_effect [of demo_env "[''a'']" "''a''" MinStake "''k''" "fst demo_onboarding" "fst (snd demo_onboarding)"
        "snd (snd demo_onboarding)" ob' bc' sec' "demo_account ''a'' 2000000000 0" 5]
    by (auto simp: demo_onboarding_def)
qed

end
