(* ===== verification/Go_Proc.thy ===== *)
theory Go_Proc
  imports Go_Prelude
begin

text \<open>
  Code that takes locks itself. A value of type \<open>proc\<close> runs from a state to an outcome and a state: it returns, it
  panics, or it blocks forever. The state is a value together with the \<open>sync.RWMutex\<close> that guards it. One \<open>proc\<close> is
  one request or message; it runs while no other is running, so a lock that is not free when it starts is held by
  one that has ended without releasing it or is itself blocked, and waiting for it never ends. A blocked
  writer keeps later readers out (\<open>mu_waiting\<close>), as the mutex of the library does.
\<close>

section \<open>Procedures\<close>

datatype 'a outcome = Returned 'a | Panicked string | Blocked

type_synonym ('s, 'a) proc = "'s \<Rightarrow> 'a outcome \<times> 's"

definition p_ret :: "'a \<Rightarrow> ('s, 'a) proc" where
  "p_ret x s = (Returned x, s)"

definition p_bind :: "('s, 'a) proc \<Rightarrow> ('a \<Rightarrow> ('s, 'b) proc) \<Rightarrow> ('s, 'b) proc" where
  "p_bind m f s = (case m s of (Returned x, s) \<Rightarrow> f x s | (Panicked e, s) \<Rightarrow> (Panicked e, s) | (Blocked, s) \<Rightarrow> (Blocked, s))"

definition p_then :: "('s, 'a) proc \<Rightarrow> ('s, 'b) proc \<Rightarrow> ('s, 'b) proc" where
  "p_then m k = p_bind m (\<lambda>_. k)"

definition p_panic :: "string \<Rightarrow> ('s, 'a) proc" where
  "p_panic e s = (Panicked e, s)"

text \<open>A deferred call runs when the body returns or panics.\<close>

definition p_defer :: "('s \<Rightarrow> 's) \<Rightarrow> ('s, 'a) proc \<Rightarrow> ('s, 'a) proc" where
  "p_defer u m s = (case m s of (Returned x, s) \<Rightarrow> (Returned x, u s) | (Panicked e, s) \<Rightarrow> (Panicked e, u s) | (Blocked, s) \<Rightarrow> (Blocked, s))"

lemma p_bind_ret [simp]: "p_bind (p_ret x) f = f x"
  by (simp add: fun_eq_iff p_bind_def p_ret_def)

lemma p_bind_assoc: "p_bind (p_bind m f) h = p_bind m (\<lambda>x. p_bind (f x) h)"
  by (simp add: fun_eq_iff p_bind_def split: prod.splits outcome.splits)

section \<open>A guarded value\<close>

record rwmutex =
  mu_writer :: bool
  mu_readers :: nat
  mu_waiting :: bool

record 'v guarded =
  g_mu :: rwmutex
  g_val :: 'v

definition mu_free :: "rwmutex \<Rightarrow> bool" where
  "mu_free mu \<longleftrightarrow> \<not> mu_writer mu \<and> mu_readers mu = 0 \<and> \<not> mu_waiting mu"

definition free :: "'v \<Rightarrow> 'v guarded" where
  "free v = \<lparr>g_mu = \<lparr>mu_writer = False, mu_readers = 0, mu_waiting = False\<rparr>, g_val = v\<rparr>"

definition Lock :: "('v guarded, unit) proc" where
  "Lock g = (if mu_free (g_mu g) then (Returned (), g\<lparr>g_mu := (g_mu g)\<lparr>mu_writer := True\<rparr>\<rparr>)
             else (Blocked, g\<lparr>g_mu := (g_mu g)\<lparr>mu_waiting := True\<rparr>\<rparr>))"

definition RLock :: "('v guarded, unit) proc" where
  "RLock g = (if mu_writer (g_mu g) \<or> mu_waiting (g_mu g) then (Blocked, g)
              else (Returned (), g\<lparr>g_mu := (g_mu g)\<lparr>mu_readers := mu_readers (g_mu g) + 1\<rparr>\<rparr>))"

text \<open>Only a holder releases.\<close>

definition unlock :: "'v guarded \<Rightarrow> 'v guarded" where
  "unlock g = g\<lparr>g_mu := (g_mu g)\<lparr>mu_writer := False\<rparr>\<rparr>"

definition runlock :: "'v guarded \<Rightarrow> 'v guarded" where
  "runlock g = g\<lparr>g_mu := (g_mu g)\<lparr>mu_readers := mu_readers (g_mu g) - 1\<rparr>\<rparr>"

definition Unlock :: "('v guarded, unit) proc" where
  "Unlock g = (Returned (), unlock g)"

definition RUnlock :: "('v guarded, unit) proc" where
  "RUnlock g = (Returned (), runlock g)"

text \<open>Access to the value, without taking the lock.\<close>

definition reads :: "('v \<Rightarrow> 'a) \<Rightarrow> ('v guarded, 'a) proc" where
  "reads f g = (Returned (f (g_val g)), g)"

definition writes :: "('v \<Rightarrow> 'v) \<Rightarrow> ('v guarded, unit) proc" where
  "writes f g = (Returned (), g\<lparr>g_val := f (g_val g)\<rparr>)"

text \<open>A method body: it may run forever (\<open>None\<close>) or panic; its error is a result.\<close>

definition body :: "('v \<Rightarrow> ('v \<times> 'a go) option) \<Rightarrow> ('v guarded, string + 'a) proc" where
  "body f g =
     (case f (g_val g) of
        None \<Rightarrow> (Blocked, g)
      | Some (v, Ok x) \<Rightarrow> (Returned (Inr x), g\<lparr>g_val := v\<rparr>)
      | Some (v, Err e) \<Rightarrow> (Returned (Inl e), g\<lparr>g_val := v\<rparr>)
      | Some (v, Panic e) \<Rightarrow> (Panicked e, g\<lparr>g_val := v\<rparr>))"

text \<open>A method that starts with \<open>mu.Lock(); defer mu.Unlock()\<close>, and one with a read lock.\<close>

definition locked :: "('v guarded, 'a) proc \<Rightarrow> ('v guarded, 'a) proc" where
  "locked m = p_then Lock (p_defer unlock m)"

definition rlocked :: "('v guarded, 'a) proc \<Rightarrow> ('v guarded, 'a) proc" where
  "rlocked m = p_then RLock (p_defer runlock m)"

section \<open>Lock discipline\<close>

text \<open>Four contracts. A steady procedure touches no lock and ends. A procedure that releases, started on a
  free mutex, ends and leaves it free. A procedure that yields leaves a free mutex free, also where it waits forever for something else, and it ends when its condition holds. A procedure is frozen out of a view of the value when it
  does not change it as long as a writer holds the mutex, and does not release the mutex.\<close>

named_theorems lock_rules

definition steady :: "('v guarded, 'a) proc \<Rightarrow> bool" where
  "steady m \<longleftrightarrow> (\<forall>g. fst (m g) \<noteq> Blocked \<and> g_mu (snd (m g)) = g_mu g)"

definition releases :: "('v guarded, 'a) proc \<Rightarrow> bool" where
  "releases m \<longleftrightarrow> (\<forall>g. mu_free (g_mu g) \<longrightarrow> fst (m g) \<noteq> Blocked \<and> mu_free (g_mu (snd (m g))))"

definition yields :: "bool \<Rightarrow> ('v guarded, 'a) proc \<Rightarrow> bool" where
  "yields c m \<longleftrightarrow> (\<forall>g. mu_free (g_mu g) \<longrightarrow> (c \<longrightarrow> fst (m g) \<noteq> Blocked) \<and> mu_free (g_mu (snd (m g))))"

definition frozen :: "('v \<Rightarrow> 'b) \<Rightarrow> ('v guarded, 'a) proc \<Rightarrow> bool" where
  "frozen view m \<longleftrightarrow>
     (\<forall>g. mu_writer (g_mu g) \<longrightarrow> mu_writer (g_mu (snd (m g))) \<and> view (g_val (snd (m g))) = view (g_val g))"

lemma steadyI: "(\<And>g r g'. m g = (r, g') \<Longrightarrow> r \<noteq> Blocked \<and> g_mu g' = g_mu g) \<Longrightarrow> steady m"
  by (metis prod.collapse steady_def)

lemma steadyD: "steady m \<Longrightarrow> m g = (r, g') \<Longrightarrow> r \<noteq> Blocked \<and> g_mu g' = g_mu g"
  by (metis fst_conv snd_conv steady_def)

lemma releasesI:
  "(\<And>g r g'. m g = (r, g') \<Longrightarrow> mu_free (g_mu g) \<Longrightarrow> r \<noteq> Blocked \<and> mu_free (g_mu g')) \<Longrightarrow> releases m"
  by (metis prod.collapse releases_def)

lemma releasesD: "releases m \<Longrightarrow> m g = (r, g') \<Longrightarrow> mu_free (g_mu g) \<Longrightarrow> r \<noteq> Blocked \<and> mu_free (g_mu g')"
  by (metis fst_conv snd_conv releases_def)

lemma frozenI:
  "(\<And>g r g'. m g = (r, g') \<Longrightarrow> mu_writer (g_mu g) \<Longrightarrow> mu_writer (g_mu g') \<and> view (g_val g') = view (g_val g)) \<Longrightarrow> frozen view m"
  by (metis prod.collapse frozen_def)

lemma frozenD:
  "frozen view m \<Longrightarrow> m g = (r, g') \<Longrightarrow> mu_writer (g_mu g) \<Longrightarrow> mu_writer (g_mu g') \<and> view (g_val g') = view (g_val g)"
  by (metis snd_conv frozen_def)

lemma p_bind_cases:
  assumes "p_bind m f g = (r, g')"
  obtains (returned) x g1 where "m g = (Returned x, g1)" "f x g1 = (r, g')"
  | (panicked) e where "m g = (Panicked e, g')" "r = Panicked e"
  | (blocked) "m g = (Blocked, g')" "r = Blocked"
  using assms by (auto simp: p_bind_def split: prod.splits outcome.splits)

lemma p_defer_cases:
  assumes "p_defer u m g = (r, g')"
  obtains (ended) g1 where "m g = (r, g1)" "r \<noteq> Blocked" "g' = u g1"
  | (blocked) "m g = (Blocked, g')" "r = Blocked"
  using assms by (auto simp: p_defer_def split: prod.splits outcome.splits)

lemma mu_free_eq: "mu_free mu \<longleftrightarrow> mu = \<lparr>mu_writer = False, mu_readers = 0, mu_waiting = False\<rparr>"
  by (cases mu) (simp add: mu_free_def)

lemma free_is_free [simp]: "mu_free (g_mu (free v))" "g_val (free v) = v"
  by (simp_all add: mu_free_def free_def)

lemma free_eq: "mu_free (g_mu g) \<Longrightarrow> g = free (g_val g)"
  by (cases g) (simp add: free_def mu_free_eq)

lemma releases_freeI: "(\<And>v r g'. m (free v) = (r, g') \<Longrightarrow> r \<noteq> Blocked \<and> mu_free (g_mu g')) \<Longrightarrow> releases m"
  by (rule releasesI) (metis free_eq)

lemma releases_freeD: "releases m \<Longrightarrow> m (free v) = (r, g') \<Longrightarrow> r \<noteq> Blocked \<and> mu_free (g_mu g')"
  using releasesD [of m "free v" r g'] by simp

subsection \<open>Steady procedures\<close>

lemma steady_basic [lock_rules]:
  "steady (p_ret x)" "steady (p_panic e)" "steady (reads f)" "steady (writes h)"
  by (simp_all add: steady_def p_ret_def p_panic_def reads_def writes_def)

lemma steady_bind [lock_rules]:
  assumes "steady m" "\<And>x. steady (f x)"
  shows "steady (p_bind m f)"
proof (rule steadyI)
  fix g r g' assume "p_bind m f g = (r, g')"
  then show "r \<noteq> Blocked \<and> g_mu g' = g_mu g"
  proof (cases rule: p_bind_cases)
    case (returned x g1)
    then show ?thesis using steadyD [OF assms(1) returned(1)] steadyD [OF assms(2) returned(2)] by simp
  qed (use assms(1) in \<open>auto dest: steadyD\<close>)
qed

lemma steady_then [lock_rules]: "steady m \<Longrightarrow> steady k \<Longrightarrow> steady (p_then m k)"
  by (simp add: p_then_def steady_bind)

lemma steady_body [lock_rules]:
  assumes "\<And>v. f v \<noteq> None"
  shows "steady (body f)"
proof (rule steadyI)
  fix g r g' assume "body f g = (r, g')"
  with assms [of "g_val g"] show "r \<noteq> Blocked \<and> g_mu g' = g_mu g"
    by (auto simp: body_def split: go.splits)
qed

subsection \<open>Procedures that release\<close>

lemma releases_steady: "steady m \<Longrightarrow> releases m"
  by (simp add: steady_def releases_def)

lemmas releases_basic [lock_rules] = steady_basic [THEN releases_steady]

lemma releases_bind [lock_rules]:
  assumes "releases m" "\<And>x. releases (f x)"
  shows "releases (p_bind m f)"
proof (rule releasesI)
  fix g r g' assume "p_bind m f g = (r, g')" "mu_free (g_mu g)"
  then show "r \<noteq> Blocked \<and> mu_free (g_mu g')"
    using assms by (cases rule: p_bind_cases) (auto dest: releasesD)
qed

lemma releases_then [lock_rules]: "releases m \<Longrightarrow> releases k \<Longrightarrow> releases (p_then m k)"
  by (simp add: p_then_def releases_bind)

lemma locked_free:
  assumes "mu_free (g_mu g)"
  shows "locked m g = p_defer unlock m (g\<lparr>g_mu := (g_mu g)\<lparr>mu_writer := True\<rparr>\<rparr>)"
    and "rlocked m g = p_defer runlock m (g\<lparr>g_mu := (g_mu g)\<lparr>mu_readers := 1\<rparr>\<rparr>)"
  using assms
  by (simp_all add: locked_def rlocked_def p_then_def p_bind_def Lock_def RLock_def mu_free_def)

lemma releases_locked [lock_rules]:
  assumes "steady m"
  shows "releases (locked m)" "releases (rlocked m)"
proof -
  have "r \<noteq> Blocked \<and> mu_free (g_mu g')" if "locked m g = (r, g')" "mu_free (g_mu g)" for g r g'
    using that(1) unfolding locked_free [OF that(2)]
    by (cases rule: p_defer_cases) (use assms that(2) in \<open>auto dest!: steadyD simp: unlock_def mu_free_def\<close>)
  then show "releases (locked m)" by (rule releasesI)
  have "r \<noteq> Blocked \<and> mu_free (g_mu g')" if "rlocked m g = (r, g')" "mu_free (g_mu g)" for g r g'
    using that(1) unfolding locked_free [OF that(2)]
    by (cases rule: p_defer_cases) (use assms that(2) in \<open>auto dest!: steadyD simp: runlock_def mu_free_def\<close>)
  then show "releases (rlocked m)" by (rule releasesI)
qed

subsection \<open>Procedures that yield\<close>

lemma yields_releases: "releases m \<Longrightarrow> yields c m"
  by (simp add: releases_def yields_def)

lemma yieldsI:
  "(\<And>g r g'. m g = (r, g') \<Longrightarrow> mu_free (g_mu g) \<Longrightarrow> (c \<longrightarrow> r \<noteq> Blocked) \<and> mu_free (g_mu g')) \<Longrightarrow> yields c m"
  by (metis prod.collapse yields_def)

lemma yieldsD: "yields c m \<Longrightarrow> m g = (r, g') \<Longrightarrow> mu_free (g_mu g) \<Longrightarrow> (c \<longrightarrow> r \<noteq> Blocked) \<and> mu_free (g_mu g')"
  by (metis fst_conv snd_conv yields_def)

lemma yields_freeI: "(\<And>v r g'. m (free v) = (r, g') \<Longrightarrow> (c \<longrightarrow> r \<noteq> Blocked) \<and> mu_free (g_mu g')) \<Longrightarrow> yields c m"
  by (rule yieldsI) (metis free_eq)

lemma yields_freeD: "yields c m \<Longrightarrow> m (free v) = (r, g') \<Longrightarrow> (c \<longrightarrow> r \<noteq> Blocked) \<and> mu_free (g_mu g')"
  using yieldsD [of c m "free v" r g'] by simp

lemmas yields_basic [lock_rules] = releases_basic [THEN yields_releases]

lemma yields_bind [lock_rules]:
  assumes "yields c m" "\<And>x. yields c (f x)"
  shows "yields c (p_bind m f)"
proof (rule yieldsI)
  fix g r g' assume "p_bind m f g = (r, g')" "mu_free (g_mu g)"
  then show "(c \<longrightarrow> r \<noteq> Blocked) \<and> mu_free (g_mu g')"
    using assms by (cases rule: p_bind_cases) (auto dest: yieldsD)
qed

lemma yields_then [lock_rules]: "yields c m \<Longrightarrow> yields c k \<Longrightarrow> yields c (p_then m k)"
  by (simp add: p_then_def yields_bind)

lemmas yields_locked [lock_rules] = releases_locked [THEN yields_releases]

subsection \<open>Procedures that are locked out\<close>

lemma frozen_basic [lock_rules]: "frozen view (p_ret x)" "frozen view (p_panic e)" "frozen view (reads f)"
  by (simp_all add: frozen_def p_ret_def p_panic_def reads_def)

lemma frozen_writes [lock_rules]: "(\<And>v. view (h v) = view v) \<Longrightarrow> frozen view (writes h)"
  by (simp add: frozen_def writes_def)

lemma frozen_bind [lock_rules]:
  assumes "frozen view m" "\<And>x. frozen view (f x)"
  shows "frozen view (p_bind m f)"
proof (rule frozenI)
  fix g r g' assume w: "mu_writer (g_mu g)" and "p_bind m f g = (r, g')"
  from this(2) show "mu_writer (g_mu g') \<and> view (g_val g') = view (g_val g)"
  proof (cases rule: p_bind_cases)
    case (returned x g1)
    then show ?thesis using frozenD [OF assms(1) returned(1) w] frozenD [OF assms(2) returned(2)] by simp
  qed (use assms(1) w in \<open>auto dest: frozenD\<close>)
qed

lemma frozen_then [lock_rules]: "frozen view m \<Longrightarrow> frozen view k \<Longrightarrow> frozen view (p_then m k)"
  by (simp add: p_then_def frozen_bind)

lemma lock_blocks:
  assumes "mu_writer (g_mu g)"
  shows "Lock g = (Blocked, g\<lparr>g_mu := (g_mu g)\<lparr>mu_waiting := True\<rparr>\<rparr>)" "RLock g = (Blocked, g)"
    "p_then Lock k g = (Blocked, g\<lparr>g_mu := (g_mu g)\<lparr>mu_waiting := True\<rparr>\<rparr>)" "p_then RLock k g = (Blocked, g)"
    "locked m g = (Blocked, g\<lparr>g_mu := (g_mu g)\<lparr>mu_waiting := True\<rparr>\<rparr>)" "rlocked m g = (Blocked, g)"
  using assms by (simp_all add: Lock_def RLock_def mu_free_def p_then_def p_bind_def locked_def rlocked_def)

lemma frozen_locks [lock_rules]:
  "frozen view (p_then Lock k)" "frozen view (p_then RLock k)" "frozen view (locked m)" "frozen view (rlocked m)"
  by (simp_all add: frozen_def lock_blocks)

lemma if_locks [lock_rules]:
  "(b \<Longrightarrow> steady m) \<Longrightarrow> (\<not> b \<Longrightarrow> steady k) \<Longrightarrow> steady (if b then m else k)"
  "(b \<Longrightarrow> releases m) \<Longrightarrow> (\<not> b \<Longrightarrow> releases k) \<Longrightarrow> releases (if b then m else k)"
  "(b \<Longrightarrow> frozen view m) \<Longrightarrow> (\<not> b \<Longrightarrow> frozen view k) \<Longrightarrow> frozen view (if b then m else k)"
  "(b \<Longrightarrow> yields c m) \<Longrightarrow> (\<not> b \<Longrightarrow> yields c k) \<Longrightarrow> yields c (if b then m else k)"
  by simp_all

section \<open>Servers\<close>

text \<open>A server runs one procedure for each request. A panic ends the request, not the server. The run stops at
  nothing: a request that blocks leaves the state it has reached.\<close>

definition serve_all :: "('r \<Rightarrow> ('v guarded, 'a) proc) \<Rightarrow> 'r list \<Rightarrow> 'v guarded \<Rightarrow> 'v guarded" where
  "serve_all handle rs g = fold (\<lambda>r g. snd (handle r g)) rs g"

lemma serve_all_simps [simp]:
  "serve_all handle [] g = g" "serve_all handle (r # rs) g = serve_all handle rs (snd (handle r g))"
  by (simp_all add: serve_all_def)

text \<open>The contract of a server that always answers: requests of a class release the mutex. Then no request of the
  class blocks, after any number of them.\<close>

locale answering_server =
  fixes handle :: "'r \<Rightarrow> ('v guarded, 'a) proc" and safe :: "'r \<Rightarrow> bool"
  assumes safe_releases: "safe r \<Longrightarrow> releases (handle r)"
begin

lemma stays_free: "list_all safe rs \<Longrightarrow> mu_free (g_mu g) \<Longrightarrow> mu_free (g_mu (serve_all handle rs g))"
proof (induction rs arbitrary: g)
  case (Cons r rs)
  then have "mu_free (g_mu (snd (handle r g)))" using safe_releases by (simp add: releases_def)
  with Cons show ?case by simp
qed simp

lemma always_answers:
  "list_all safe rs \<Longrightarrow> safe r \<Longrightarrow> mu_free (g_mu g) \<Longrightarrow> fst (handle r (serve_all handle rs g)) \<noteq> Blocked"
  using stays_free safe_releases unfolding releases_def by blast

end

text \<open>The contract of a server whose requests may have to wait for others than the server, but never with the lock: requests of a class leave the mutex free, and those that are
  prompt end. Then a prompt request of the class is answered, whatever requests of the class came before, those that are still waiting included.\<close>

locale patient_server =
  fixes handle :: "'r \<Rightarrow> ('v guarded, 'a) proc" and safe prompt :: "'r \<Rightarrow> bool"
  assumes safe_yields: "safe r \<Longrightarrow> yields (prompt r) (handle r)"
begin

lemma stays_open: "list_all safe rs \<Longrightarrow> mu_free (g_mu g) \<Longrightarrow> mu_free (g_mu (serve_all handle rs g))"
proof (induction rs arbitrary: g)
  case (Cons r rs)
  then have "mu_free (g_mu (snd (handle r g)))" using safe_yields by (simp add: yields_def)
  with Cons show ?case by simp
qed simp

lemma answers_prompt:
  "list_all safe rs \<Longrightarrow> safe r \<Longrightarrow> prompt r \<Longrightarrow> mu_free (g_mu g) \<Longrightarrow> fst (handle r (serve_all handle rs g)) \<noteq> Blocked"
  using stays_open safe_yields unfolding yields_def by blast

end

text \<open>The contract of a server in which a view of the state is only changed under the lock: once a writer does not
  release the mutex, the view stays as it is.\<close>

locale lock_guarded_server =
  fixes handle :: "'r \<Rightarrow> ('v guarded, 'a) proc" and view :: "'v \<Rightarrow> 'b"
  assumes handle_frozen: "frozen view (handle r)"
begin

lemma stays_frozen:
  "mu_writer (g_mu g) \<Longrightarrow> mu_writer (g_mu (serve_all handle rs g)) \<and> view (g_val (serve_all handle rs g)) = view (g_val g)"
proof (induction rs arbitrary: g)
  case (Cons r rs)
  have "mu_writer (g_mu (snd (handle r g))) \<and> view (g_val (snd (handle r g))) = view (g_val g)"
    using handle_frozen Cons.prems unfolding frozen_def by blast
  with Cons.IH show ?case by simp
qed simp

end

end
