(* ===== verification/Http_Server.thy ===== *)
theory Http_Server
  imports Go_Proc Go_Http
begin

text \<open>
  What the two HTTP servers share: requests, replies and the checks that handlers start with. A handler is a procedure
  that yields a reply. The header fields and the query that the handlers read are fields of the request. A body is a
  reader: the bytes that arrive and the error that follows them; a JSON decoder is a function of the reader. The
  type \<open>'v\<close> of a reply is the type of the values that are passed to the JSON encoder.
\<close>

section \<open>Requests and replies\<close>

type_synonym reader = "string \<times> string"

record http_request =
  rq_Method :: string
  rq_Path :: string
  rq_RemoteAddr :: string
  rq_Authorization :: string
  rq_RequestID :: string
  rq_IdempotencyKey :: string
  rq_ContentLength :: int
  rq_Body :: reader
  rq_Query :: "string \<Rightarrow> string"
  rq_ContextValidator :: "string option"

datatype 'v http_reply = Failed nat string | Replied 'v | ServedFile string

abbreviation http_Error :: "nat \<Rightarrow> string \<Rightarrow> ('s, 'v http_reply) proc" where
  "http_Error code msg \<equiv> p_ret (Failed code msg)"

abbreviation encode :: "'v \<Rightarrow> ('s, 'v http_reply) proc" where
  "encode v \<equiv> p_ret (Replied v)"

abbreviation StatusServiceUnavailable :: nat where "StatusServiceUnavailable \<equiv> 503"
abbreviation StatusRequestEntityTooLarge :: nat where "StatusRequestEntityTooLarge \<equiv> 413"

text \<open>\<open>http.MaxBytesReader\<close>.\<close>

definition MaxBytesReader :: "int \<Rightarrow> reader \<Rightarrow> reader" where
  "MaxBytesReader limit rd =
     (if int (length (fst rd)) \<le> limit then rd else (take (nat limit) (fst rd), ''http: request body too large''))"

lemma MaxBytesReader_bound: "0 \<le> limit \<Longrightarrow> int (length (fst (MaxBytesReader limit rd))) \<le> limit"
  by (simp add: MaxBytesReader_def)

text \<open>Payloads that both servers decode.\<close>

record AmountPayload =
  am_Address :: string
  am_Amount :: u64

record EscrowPayload =
  ep_From :: string
  ep_To :: string
  ep_Amount :: u64
  ep_ServiceID :: string

record AgreementPayload =
  ag_Provider :: string
  ag_Consumer :: string
  ag_ModelID :: string
  ag_PricePerCall :: u64
  ag_MaxCalls :: u64

section \<open>The checks at the start of a handler\<close>

definition only_post :: "http_request \<Rightarrow> ('s, 'v http_reply) proc \<Rightarrow> ('s, 'v http_reply) proc" where
  "only_post r k = (if rq_Method r \<noteq> ''POST'' then http_Error StatusMethodNotAllowed ''method not allowed'' else k)"

definition authorized :: "unit go \<Rightarrow> ('s, 'v http_reply) proc \<Rightarrow> ('s, 'v http_reply) proc" where
  "authorized auth k = (case auth of Err e \<Rightarrow> http_Error StatusUnauthorized e | Panic e \<Rightarrow> p_panic e | Ok _ \<Rightarrow> k)"

definition decoded :: "(reader \<Rightarrow> 'a go) \<Rightarrow> http_request \<Rightarrow> ('a \<Rightarrow> ('s, 'v http_reply) proc) \<Rightarrow> ('s, 'v http_reply) proc" where
  "decoded dec r k = (case dec (rq_Body r) of Ok x \<Rightarrow> k x | Err e \<Rightarrow> http_Error StatusBadRequest e | Panic e \<Rightarrow> p_panic e)"

text \<open>The usual handling of the error of a method: a reply with a status.\<close>

definition or_fail :: "nat \<Rightarrow> ('s, string + 'a) proc \<Rightarrow> ('a \<Rightarrow> ('s, 'v http_reply) proc) \<Rightarrow> ('s, 'v http_reply) proc" where
  "or_fail code m k = p_bind m (\<lambda>r. case r of Inl e \<Rightarrow> http_Error code e | Inr x \<Rightarrow> k x)"

lemma check_rules [lock_rules]:
  "releases k \<Longrightarrow> releases (only_post r k)" "frozen view k \<Longrightarrow> frozen view (only_post r k)"
  "releases k \<Longrightarrow> releases (authorized auth k)" "frozen view k \<Longrightarrow> frozen view (authorized auth k)"
  "(\<And>x. releases (f x)) \<Longrightarrow> releases (decoded dec r f)" "(\<And>x. frozen view (f x)) \<Longrightarrow> frozen view (decoded dec r f)"
  by (auto simp: only_post_def authorized_def decoded_def intro: lock_rules split: go.splits)

lemma or_fail_rules [lock_rules]:
  "releases m \<Longrightarrow> (\<And>x. releases (f x)) \<Longrightarrow> releases (or_fail code m f)"
  "frozen view m \<Longrightarrow> (\<And>x. frozen view (f x)) \<Longrightarrow> frozen view (or_fail code m f)"
  unfolding or_fail_def by (auto intro!: lock_rules split: sum.splits)

lemma check_yields [lock_rules]:
  "yields c k \<Longrightarrow> yields c (only_post r k)" "yields c k \<Longrightarrow> yields c (authorized auth k)" "(\<And>x. yields c (f x)) \<Longrightarrow> yields c (decoded dec r f)"
  "yields c m \<Longrightarrow> (\<And>x. yields c (f x)) \<Longrightarrow> yields c (or_fail code m f)"
  unfolding or_fail_def by (auto simp: only_post_def authorized_def decoded_def intro!: lock_rules split: go.splits sum.splits)

text \<open>A further contract: a procedure leaves a view of the value as it is.\<close>

definition keeps :: "('v \<Rightarrow> 'b) \<Rightarrow> ('v guarded, 'a) proc \<Rightarrow> bool" where
  "keeps view m \<longleftrightarrow> (\<forall>g. view (g_val (snd (m g))) = view (g_val g))"

named_theorems keep_rules

lemma keeps_basic [keep_rules]:
  "keeps view (p_ret x)" "keeps view (p_panic e)" "keeps view (reads f)" "keeps view Lock" "keeps view RLock" "keeps view Unlock" "keeps view RUnlock"
  by (simp_all add: keeps_def p_ret_def p_panic_def reads_def Lock_def RLock_def Unlock_def RUnlock_def unlock_def runlock_def)

lemma keeps_writes [keep_rules]: "(\<And>v. view (h v) = view v) \<Longrightarrow> keeps view (writes h)"
  by (simp add: keeps_def writes_def)

lemma keeps_bind [keep_rules]: "keeps view m \<Longrightarrow> (\<And>x. keeps view (f x)) \<Longrightarrow> keeps view (p_bind m f)"
  unfolding keeps_def p_bind_def by (auto split: prod.splits outcome.splits) (metis snd_conv)+

lemma keeps_then [keep_rules]: "keeps view m \<Longrightarrow> keeps view k \<Longrightarrow> keeps view (p_then m k)"
  by (simp add: p_then_def keeps_bind)

lemma keeps_defer: "keeps view m \<Longrightarrow> (\<And>g. g_val (u g) = g_val g) \<Longrightarrow> keeps view (p_defer u m)"
  unfolding keeps_def p_defer_def by (auto split: prod.splits outcome.splits) (metis snd_conv)+

lemma keeps_locked [keep_rules]: "keeps view m \<Longrightarrow> keeps view (locked m)" "keeps view m \<Longrightarrow> keeps view (rlocked m)"
  unfolding locked_def rlocked_def by (auto intro!: keep_rules keeps_defer simp: unlock_def runlock_def)

lemma keeps_body [keep_rules]: "(\<And>v w r. f v = Some (w, r) \<Longrightarrow> view w = view v) \<Longrightarrow> keeps view (body f)"
  by (auto simp: keeps_def body_def split: option.splits go.splits)

lemma keeps_if [keep_rules]: "(b \<Longrightarrow> keeps view m) \<Longrightarrow> (\<not> b \<Longrightarrow> keeps view k) \<Longrightarrow> keeps view (if b then m else k)"
  by simp

lemma keeps_checks [keep_rules]:
  "keeps view k \<Longrightarrow> keeps view (only_post r k)" "keeps view k \<Longrightarrow> keeps view (authorized auth k)"
  "(\<And>x. keeps view (f x)) \<Longrightarrow> keeps view (decoded dec r f)"
  "keeps view m \<Longrightarrow> (\<And>x. keeps view (f x)) \<Longrightarrow> keeps view (or_fail code m f)"
  unfolding or_fail_def
  by (auto simp: only_post_def authorized_def decoded_def intro!: keep_rules split: go.splits sum.splits)

text \<open>The contract of a server that ignores a class of requests: they leave a view of the state as it is. Then any number of them does.\<close>

locale guarded_server =
  fixes handle :: "'r \<Rightarrow> ('v guarded, 'a) proc" and quiet :: "'r \<Rightarrow> bool" and view :: "'v \<Rightarrow> 'b"
  assumes quiet_keeps: "quiet r \<Longrightarrow> keeps view (handle r)"
begin

lemma stays_unchanged: "list_all quiet rs \<Longrightarrow> view (g_val (serve_all handle rs g)) = view (g_val g)"
proof (induction rs arbitrary: g)
  case (Cons r rs)
  then have "view (g_val (snd (handle r g))) = view (g_val g)" using quiet_keeps by (simp add: keeps_def)
  with Cons show ?case by simp
qed simp

end

end
