(* ===== verification/Node_Guard.thy ===== *)
theory Node_Guard
  imports Go_Http
begin

text \<open>
  What protects the HTTP interface of the node in \<open>main.go\<close>: the settings read from the environment, the
  check of the API key, the rate limiter and the circuit breaker. A point in time and a duration are
  numbers of nanoseconds; the clock is an argument of each operation.
\<close>

section \<open>Settings\<close>

record serverConfig =
  cfg_APIKey :: string
  cfg_EnableAuth :: bool
  cfg_RateLimit :: int
  cfg_RateWindow :: int
  cfg_MetricsPath :: string
  cfg_APIPort :: int
  cfg_P2PPort :: int
  cfg_DataDir :: string
  cfg_Consensus :: string
  cfg_StrictP2P :: bool
  cfg_BootstrapPeers :: string
  cfg_AdvertiseAddr :: string
  cfg_RelayURL :: string
  cfg_NodeID :: string

text \<open>The environment is a function that yields the empty string for an unset variable; \<open>atoi\<close> is
  \<open>strconv.Atoi\<close> and \<open>parse_bool\<close> the ten spellings that \<open>strconv.ParseBool\<close> accepts.\<close>

definition parse_bool :: "string \<Rightarrow> bool option" where
  "parse_bool s =
     (if s \<in> {''1'', ''t'', ''T'', ''true'', ''TRUE'', ''True''} then Some True
      else if s \<in> {''0'', ''f'', ''F'', ''false'', ''FALSE'', ''False''} then Some False
      else None)"

definition atoi :: "string \<Rightarrow> int option" where
  "atoi s =
     (let (neg, digits) =
        (case s of c # cs \<Rightarrow> if c = CHR ''+'' then (False, cs) else if c = CHR ''-'' then (True, cs) else (False, s) | [] \<Rightarrow> (False, s))
      in if digits = [] then None
         else case parse_uint_loop 0 digits of
           Inl e \<Rightarrow> None
         | Inr n \<Rightarrow> (if neg then (if 2 ^ 63 < n then None else Some (- int n))
                    else if 2 ^ 63 \<le> n then None else Some (int n)))"

definition getEnvOrDefault :: "(string \<Rightarrow> string) \<Rightarrow> string \<Rightarrow> string \<Rightarrow> string" where
  "getEnvOrDefault env key fallback = (if env key \<noteq> [] then env key else fallback)"

definition getEnvIntOrDefault :: "(string \<Rightarrow> string) \<Rightarrow> string \<Rightarrow> int \<Rightarrow> int" where
  "getEnvIntOrDefault env key fallback =
     (if env key \<noteq> [] then (case atoi (env key) of Some parsed \<Rightarrow> parsed | None \<Rightarrow> fallback) else fallback)"

definition getEnvBoolOrDefault :: "(string \<Rightarrow> string) \<Rightarrow> string \<Rightarrow> bool \<Rightarrow> bool" where
  "getEnvBoolOrDefault env key fallback =
     (if env key \<noteq> [] then (case parse_bool (env key) of Some parsed \<Rightarrow> parsed | None \<Rightarrow> fallback) else fallback)"

text \<open>The product of the window with \<open>time.Second\<close> wraps around at 64 bits.\<close>

definition serverConfigFromEnv :: "(string \<Rightarrow> string) \<Rightarrow> (string \<Rightarrow> string) \<Rightarrow> serverConfig" where
  "serverConfigFromEnv ulower env =
     \<lparr>cfg_APIKey = getEnvOrDefault env ''TENDER_API_KEY'' [],
      cfg_EnableAuth = getEnvBoolOrDefault env ''TENDER_ENABLE_AUTH'' True,
      cfg_RateLimit = getEnvIntOrDefault env ''TENDER_RATE_LIMIT'' 60,
      cfg_RateWindow = sint (word_of_int (getEnvIntOrDefault env ''TENDER_RATE_WINDOW_SECONDS'' 60) * 1000000000 :: i64),
      cfg_MetricsPath = getEnvOrDefault env ''TENDER_METRICS_PATH'' ''/metrics'',
      cfg_APIPort = getEnvIntOrDefault env ''TENDER_API_PORT'' 8080,
      cfg_P2PPort = getEnvIntOrDefault env ''TENDER_P2P_PORT'' 3030,
      cfg_DataDir = getEnvOrDefault env ''TENDER_DATA_DIR'' ''./data'',
      cfg_Consensus = ToLower ulower (getEnvOrDefault env ''TENDER_CONSENSUS'' ''pos''),
      cfg_StrictP2P = getEnvBoolOrDefault env ''TENDER_STRICT_P2P'' True,
      cfg_BootstrapPeers = getEnvOrDefault env ''TENDER_BOOTSTRAP_PEERS'' [],
      cfg_AdvertiseAddr = getEnvOrDefault env ''TENDER_ADVERTISE_ADDR'' [],
      cfg_RelayURL = getEnvOrDefault env ''TENDER_RELAY_URL'' [],
      cfg_NodeID = getEnvOrDefault env ''TENDER_NODE_ID'' []\<rparr>"

section \<open>Authorization\<close>

text \<open>\<open>header\<close> is the value of the header field \<open>Authorization\<close>.\<close>

definition requireAuth :: "(string \<Rightarrow> string) \<Rightarrow> string \<Rightarrow> serverConfig \<Rightarrow> unit go" where
  "requireAuth utrim header cfg =
     (if \<not> cfg_EnableAuth cfg then Ok ()
      else if cfg_APIKey cfg = [] then Err ''missing api key''
      else let authorization = TrimSpace utrim header in
        if authorization = [] then Err ''missing authorization''
        else if \<not> prefix ''Bearer '' authorization then Err ''invalid authorization scheme''
        else let provided = drop 7 authorization in
          if provided \<noteq> cfg_APIKey cfg then Err ''invalid api key'' else Ok ())"

text \<open>A request is authorized if and only if authorization is disabled, or a key is configured and the
  header, without surrounding white space, is \<open>Bearer\<close> followed by one blank and exactly that key.
  With the default settings, authorization on and no key, no request is.\<close>

theorem requireAuth_Ok_iff:
  "requireAuth utrim header cfg = Ok () \<longleftrightarrow>
     \<not> cfg_EnableAuth cfg \<or>
     (cfg_APIKey cfg \<noteq> [] \<and> TrimSpace utrim header = ''Bearer '' @ cfg_APIKey cfg)"
  by (auto simp: requireAuth_def Let_def prefix_def)

lemma default_config_refuses:
  "requireAuth utrim header (serverConfigFromEnv ulower (\<lambda>_. [])) = Err ''missing api key''"
  by (simp add: requireAuth_def serverConfigFromEnv_def getEnvOrDefault_def getEnvBoolOrDefault_def)

section \<open>Rate limiting\<close>

record rateLimiter =
  rl_counts :: "(string, int list) fmap"
  rl_limit :: int
  rl_window :: int

definition newRateLimiter :: "int \<Rightarrow> int \<Rightarrow> rateLimiter" where
  "newRateLimiter limit window =
     \<lparr>rl_counts = fmempty, rl_limit = (if limit \<le> 0 then 60 else limit), rl_window = (if window \<le> 0 then 60000000000 else window)\<rparr>"

definition rl_allow :: "int \<Rightarrow> string \<Rightarrow> rateLimiter \<Rightarrow> rateLimiter \<times> bool" where
  "rl_allow now key rl =
     (let entries = map_get [] (rl_counts rl) key;
          filtered = filter (\<lambda>ts. now - ts \<le> rl_window rl) entries
      in if rl_limit rl \<le> int (length filtered)
         then (rl\<lparr>rl_counts := fmupd key filtered (rl_counts rl)\<rparr>, False)
         else (rl\<lparr>rl_counts := fmupd key (filtered @ [now]) (rl_counts rl)\<rparr>, True))"

text \<open>A run of requests, each with its time and key; the result lists the requests that were allowed.\<close>

fun rl_run :: "(int \<times> string) list \<Rightarrow> rateLimiter \<Rightarrow> (int \<times> string) list" where
  "rl_run [] rl = []"
| "rl_run ((now, key) # rs) rl =
     (case rl_allow now key rl of (rl, ok) \<Rightarrow> (if ok then [(now, key)] else []) @ rl_run rs rl)"

text \<open>The times at which a key was allowed, at most one window before a given time.\<close>

definition recent :: "int \<Rightarrow> int \<Rightarrow> int list \<Rightarrow> int list" where
  "recent w t ts = filter (\<lambda>x. t - x \<le> w) ts"

lemma recent_later: "t \<le> t' \<Longrightarrow> recent w t' (recent w t ts) = recent w t' ts"
  unfolding recent_def filter_filter by (rule filter_cong) auto

lemma recent_simps [simp]: "recent w t [] = []" "recent w t (xs @ ys) = recent w t xs @ recent w t ys"
  by (simp_all add: recent_def)

lemma length_recent_one: "length (recent w t [x]) \<le> 1"
  by (simp add: recent_def)

text \<open>What the limiter stores for a key shows, from now on, the same recent requests as the list of all that
  were allowed.\<close>

definition tracks :: "int \<Rightarrow> string \<Rightarrow> int list \<Rightarrow> rateLimiter \<Rightarrow> bool" where
  "tracks t key allowed rl \<longleftrightarrow>
     (\<forall>t' \<ge> t. recent (rl_window rl) t' (map_get [] (rl_counts rl) key) = recent (rl_window rl) t' allowed)"

lemma tracks_allow:
  assumes "tracks t key allowed rl" "t \<le> now" "rl_allow now k rl = (rl', ok)"
  shows "tracks now key (allowed @ (if ok \<and> k = key then [now] else [])) rl'"
    and "ok \<Longrightarrow> k = key \<Longrightarrow> int (length (recent (rl_window rl) now (allowed @ [now]))) \<le> rl_limit rl"
    and "rl_window rl' = rl_window rl" "rl_limit rl' = rl_limit rl"
proof -
  have r: "recent (rl_window rl) t' (map_get [] (rl_counts rl) key) = recent (rl_window rl) t' allowed" if "now \<le> t'" for t'
    using assms that by (simp add: tracks_def)
  then have f: "filter (\<lambda>ts. now - ts \<le> rl_window rl) (map_get [] (rl_counts rl) key) = recent (rl_window rl) now allowed"
    by (simp add: recent_def)
  show "tracks now key (allowed @ (if ok \<and> k = key then [now] else [])) rl'"
    using f r assms(3) by (auto simp: rl_allow_def Let_def tracks_def recent_later split: if_splits)
  show "int (length (recent (rl_window rl) now (allowed @ [now]))) \<le> rl_limit rl" if "ok" "k = key"
    using f assms(3) that length_recent_one [of "rl_window rl" now now] by (auto simp: rl_allow_def Let_def split: if_splits)
  show "rl_window rl' = rl_window rl" "rl_limit rl' = rl_limit rl"
    using assms(3) by (auto simp: rl_allow_def Let_def split: if_splits)
qed

text \<open>Every allowed request was within the limit when it was allowed.\<close>

inductive within :: "int \<Rightarrow> int \<Rightarrow> int list \<Rightarrow> bool" for limit w where
  Nil: "within limit w []"
| snoc: "within limit w ts \<Longrightarrow> int (length (recent w t (ts @ [t]))) \<le> limit \<Longrightarrow> within limit w (ts @ [t])"

lemma within_window:
  assumes "within limit w ts" "0 \<le> limit"
  shows "int (length (filter (\<lambda>x. lo \<le> x \<and> x \<le> lo + w) ts)) \<le> limit"
  using assms(1)
proof (induction rule: within.induct)
  case (snoc ts t)
  have mono: "length (filter (\<lambda>x. lo \<le> x \<and> x \<le> lo + w) xs) \<le> length (recent w t xs)" if "t \<le> lo + w" for xs
    using that by (induction xs) (auto simp: recent_def)
  show ?case
  proof (cases "lo \<le> t \<and> t \<le> lo + w")
    case True
    then show ?thesis using mono [of "ts @ [t]"] snoc.hyps(2) by linarith
  qed (use snoc in auto)
qed (use assms(2) in simp)

lemma rl_run_within:
  assumes "tracks t key allowed rl" "within (rl_limit rl) (rl_window rl) allowed" "sorted (t # map fst rs)"
  shows "within (rl_limit rl) (rl_window rl) (allowed @ map fst (filter (\<lambda>r. snd r = key) (rl_run rs rl)))"
  using assms
proof (induction rs arbitrary: t allowed rl)
  case (Cons r rs)
  obtain now k where r: "r = (now, k)" by force
  obtain rl' ok where al: "rl_allow now k rl = (rl', ok)" by force
  have "t \<le> now" using Cons.prems(3) r by simp
  note tr = tracks_allow [OF Cons.prems(1) this al]
  have w: "within (rl_limit rl') (rl_window rl') (allowed @ (if ok \<and> k = key then [now] else []))"
    using Cons.prems(2) tr(2-4) by (auto intro: within.snoc)
  have run: "rl_run (r # rs) rl = (if ok then [(now, k)] else []) @ rl_run rs rl'" by (simp add: r al)
  show ?case
    using Cons.IH [OF tr(1) w] Cons.prems(3) tr(3,4) unfolding run by (cases "ok \<and> k = key") (auto simp: r)
qed simp

lemma rl_run_window:
  assumes "sorted (map fst rs)" "rl_counts rl = fmempty" "0 \<le> rl_limit rl"
  shows "int (length (filter (\<lambda>(t, k). k = key \<and> lo \<le> t \<and> t \<le> lo + rl_window rl) (rl_run rs rl))) \<le> rl_limit rl"
proof -
  have tr: "tracks t key [] rl" for t by (simp add: tracks_def assms(2))
  have "within (rl_limit rl) (rl_window rl) (map fst (filter (\<lambda>r. snd r = key) (rl_run rs rl)))"
  proof (cases rs)
    case Nil
    then show ?thesis by (simp add: within.Nil)
  next
    case (Cons r rs')
    then show ?thesis
      using rl_run_within [OF tr [of "fst r"] within.Nil, of rs] assms(1) by simp
  qed
  from within_window [OF this assms(3), of lo] show ?thesis
    by (simp add: filter_map o_def case_prod_unfold conj_commute)
qed

lemma rl_run_decides:
  assumes "tracks t key allowed rl" "sorted (t # map fst rs @ [now])"
  shows "rl_run (rs @ [(now, key)]) rl = rl_run rs rl @
    (if int (length (recent (rl_window rl) now (allowed @ map fst (filter (\<lambda>r. snd r = key) (rl_run rs rl))))) < rl_limit rl then [(now, key)] else [])"
  using assms
proof (induction rs arbitrary: t allowed rl)
  case Nil
  then have "filter (\<lambda>ts. now - ts \<le> rl_window rl) (map_get [] (rl_counts rl) key) = recent (rl_window rl) now allowed"
    by (simp add: tracks_def recent_def)
  then show ?case by (simp add: rl_allow_def Let_def not_less)
next
  case (Cons r rs)
  obtain t' k where r: "r = (t', k)" by force
  obtain rl' ok where al: "rl_allow t' k rl = (rl', ok)" by force
  have "t \<le> t'" "sorted (t' # map fst rs @ [now])" using Cons.prems(2) r by simp_all
  note tr = tracks_allow [OF Cons.prems(1) this(1) al] and sorted = this(2)
  have run: "rl_run (r # xs) rl = (if ok then [(t', k)] else []) @ rl_run xs rl'" for xs by (simp add: r al)
  show ?case
    using Cons.IH [OF tr(1) sorted] tr(3,4) unfolding append_Cons run by (cases "ok \<and> k = key") auto
qed

text \<open>C36. The limiter keeps its promise: when requests arrive in the order of their times, the next request is allowed exactly when fewer requests of its own key
  than the limit were allowed within the window before it, so that the keys do not share their allowance; and in every
  stretch of time as long as the window, at most as many requests of one key are allowed as the limit says.\<close>

theorem rate_limit_window:
  assumes "sorted (map fst rs @ [now])"
  shows "let rl = newRateLimiter limit window;
      used = length (filter (\<lambda>(t, k). k = key \<and> now - t \<le> rl_window rl) (rl_run rs rl)) in
    rl_run (rs @ [(now, key)]) rl = rl_run rs rl @ (if int used < rl_limit rl then [(now, key)] else []) \<and>
    int (length (filter (\<lambda>(t, k). k = key \<and> lo \<le> t \<and> t \<le> lo + rl_window rl) (rl_run (rs @ [(now, key)]) rl))) \<le> rl_limit rl"
proof -
  let ?rl = "newRateLimiter limit window"
  have "0 \<le> rl_limit ?rl" "rl_counts ?rl = fmempty" by (simp_all add: newRateLimiter_def)
  then have w: "int (length (filter (\<lambda>(t, k). k = key \<and> lo \<le> t \<and> t \<le> lo + rl_window ?rl) (rl_run (rs @ [(now, key)]) ?rl))) \<le> rl_limit ?rl"
    using rl_run_window [of "rs @ [(now, key)]" ?rl key lo] assms by simp
  have sorted: "sorted (hd (map fst rs @ [now]) # map fst rs @ [now])" using assms by (cases rs) auto
  have "rl_run (rs @ [(now, key)]) ?rl = rl_run rs ?rl @
      (if int (length (recent (rl_window ?rl) now (map fst (filter (\<lambda>r. snd r = key) (rl_run rs ?rl))))) < rl_limit ?rl then [(now, key)] else [])"
    using rl_run_decides [OF _ sorted, of key "[]" ?rl] \<open>rl_counts ?rl = fmempty\<close> by (simp add: tracks_def)
  moreover have "length (recent (rl_window ?rl) now (map fst (filter (\<lambda>r. snd r = key) (rl_run rs ?rl)))) =
      length (filter (\<lambda>(t, k). k = key \<and> now - t \<le> rl_window ?rl) (rl_run rs ?rl))"
    by (simp add: recent_def filter_map o_def case_prod_unfold)
  ultimately show ?thesis using w by (simp only: Let_def)
qed

text \<open>The two requests of one key use up its allowance; the request of the other key is still allowed.\<close>

theorem rate_limit_window_witness:
  "rl_run [(0, ''a''), (1, ''a''), (3, ''b'')] (newRateLimiter 2 100) = [(0, ''a''), (1, ''a''), (3, ''b'')] \<and>
   rl_run [(0, ''a''), (1, ''a''), (3, ''a'')] (newRateLimiter 2 100) = [(0, ''a''), (1, ''a'')]"
proof -
  have "rl_run [(0, ''a''), (1, ''a'')] (newRateLimiter 2 100) = [(0, ''a''), (1, ''a'')]"
    by (simp add: newRateLimiter_def rl_allow_def Let_def)
  then show ?thesis
    using rate_limit_window [of "[(0, ''a''), (1, ''a'')]" 3 2 100 "''b''" 0] rate_limit_window [of "[(0, ''a''), (1, ''a'')]" 3 2 100 "''a''" 0]
    by (simp add: newRateLimiter_def Let_def del: rl_run.simps)
qed

section \<open>Circuit breaker\<close>

record circuitBreaker =
  cb_failures :: i64
  cb_threshold :: i64
  cb_window :: int
  cb_lastFailure :: int
  cb_state :: string

definition newCircuitBreaker :: "i64 \<Rightarrow> int \<Rightarrow> circuitBreaker" where
  "newCircuitBreaker threshold window =
     \<lparr>cb_failures = 0, cb_threshold = threshold, cb_window = window, cb_lastFailure = 0, cb_state = ''closed''\<rparr>"

definition cb_Allow :: "int \<Rightarrow> circuitBreaker \<Rightarrow> circuitBreaker \<times> bool" where
  "cb_Allow now cb =
     (if cb_state cb = ''open'' then
        (if cb_window cb < now - cb_lastFailure cb then (cb\<lparr>cb_state := ''half-open'', cb_failures := 0\<rparr>, True)
         else (cb, False))
      else (cb, True))"

definition RecordSuccess :: "circuitBreaker \<Rightarrow> circuitBreaker" where
  "RecordSuccess cb = cb\<lparr>cb_failures := 0, cb_state := ''closed''\<rparr>"

definition RecordFailure :: "int \<Rightarrow> circuitBreaker \<Rightarrow> circuitBreaker" where
  "RecordFailure now cb =
     (let cb = cb\<lparr>cb_failures := cb_failures cb + 1, cb_lastFailure := now\<rparr>
      in if cb_threshold cb \<le>s cb_failures cb then cb\<lparr>cb_state := ''open''\<rparr> else cb)"

text \<open>The state as a specification sees it: a breaker trips after a number of failures in a row and then
  refuses until the window has passed since the last failure.\<close>

datatype breaker_spec = Tripped int | Counting nat

fun spec_allow :: "int \<Rightarrow> int \<Rightarrow> breaker_spec \<Rightarrow> breaker_spec \<times> bool" where
  "spec_allow w now (Tripped t) = (if w < now - t then (Counting 0, True) else (Tripped t, False))"
| "spec_allow w now (Counting n) = (Counting n, True)"

definition spec_success :: "breaker_spec \<Rightarrow> breaker_spec" where
  "spec_success s = Counting 0"

fun spec_failure :: "nat \<Rightarrow> int \<Rightarrow> breaker_spec \<Rightarrow> breaker_spec" where
  "spec_failure k now (Counting n) = (if k \<le> Suc n then Tripped now else Counting (Suc n))"
| "spec_failure k now (Tripped t) = Tripped now"

definition cb_abs :: "circuitBreaker \<Rightarrow> breaker_spec" where
  "cb_abs cb = (if cb_state cb = ''open'' then Tripped (cb_lastFailure cb) else Counting (unat (cb_failures cb)))"

text \<open>Fewer failures than the threshold are counted while the breaker is not open.\<close>

definition cb_ok :: "circuitBreaker \<Rightarrow> bool" where
  "cb_ok cb \<longleftrightarrow> 0 < sint (cb_threshold cb) \<and> (cb_state cb \<noteq> ''open'' \<longrightarrow> unat (cb_failures cb) < unat (cb_threshold cb))"

lemma sint_positive_unat:
  assumes "0 \<le> sint (x :: i64)"
  shows "sint x = int (unat x)" "unat x < 2 ^ 63"
proof -
  have lt: "sint x < 2 ^ 63" using sint_lt [of x] by simp
  have "uint x = sint x mod 2 ^ 64" using uint_word_of_int [of "sint x", where 'a = 64] by simp
  also have "\<dots> = sint x" using assms lt by (intro mod_pos_pos_trivial) auto
  finally show "sint x = int (unat x)" by simp
  then show "unat x < 2 ^ 63" using lt by (metis of_nat_less_iff of_nat_numeral of_nat_power)
qed

lemma cb_ok_count:
  assumes "cb_ok cb" "cb_state cb \<noteq> ''open''"
  shows "unat (cb_failures cb + 1) = Suc (unat (cb_failures cb))"
    and "cb_threshold cb \<le>s cb_failures cb + 1 \<longleftrightarrow> unat (cb_threshold cb) \<le> Suc (unat (cb_failures cb))"
proof -
  have t: "sint (cb_threshold cb) = int (unat (cb_threshold cb))" "unat (cb_threshold cb) < 2 ^ 63"
    using assms(1) sint_positive_unat [of "cb_threshold cb"] by (simp_all add: cb_ok_def)
  have lt: "unat (cb_failures cb) < unat (cb_threshold cb)" using assms by (simp add: cb_ok_def)
  show s: "unat (cb_failures cb + 1) = Suc (unat (cb_failures cb))"
    using lt t(2) by (subst unat_add_no_wrap) auto
  have "sint (cb_failures cb + 1) = int (Suc (unat (cb_failures cb)))"
    using lt t(2) s by (subst sint_eq_unat) auto
  then show "cb_threshold cb \<le>s cb_failures cb + 1 \<longleftrightarrow> unat (cb_threshold cb) \<le> Suc (unat (cb_failures cb))"
    unfolding word_sle_eq t(1) by (simp only: of_nat_le_iff)
qed

text \<open>C35. The breaker implements its specification: every operation of the code, seen through the
  abstraction, is the operation of the specification, and the well-formedness of the counter is kept. So
  after a number of failures in a row equal to the threshold it refuses, and it goes on refusing until the
  window has passed since the last failure; then it counts afresh.\<close>

theorem breaker_refines:
  assumes "cb_ok cb"
  shows "spec_allow (cb_window cb) now (cb_abs cb) = (cb_abs (fst (cb_Allow now cb)), snd (cb_Allow now cb)) \<and>
    spec_success (cb_abs cb) = cb_abs (RecordSuccess cb) \<and>
    spec_failure (unat (cb_threshold cb)) now (cb_abs cb) = cb_abs (RecordFailure now cb) \<and>
    cb_ok (fst (cb_Allow now cb)) \<and> cb_ok (RecordSuccess cb) \<and> cb_ok (RecordFailure now cb)"
proof -
  have pos: "0 < unat (cb_threshold cb)"
  proof (rule ccontr)
    assume "\<not> 0 < unat (cb_threshold cb)"
    then have "cb_threshold cb = 0" by (simp only: unat_eq_0 not_gr_zero)
    then show False using assms by (simp add: cb_ok_def)
  qed
  have "spec_failure (unat (cb_threshold cb)) now (cb_abs cb) = cb_abs (RecordFailure now cb) \<and> cb_ok (RecordFailure now cb)"
  proof (cases "cb_state cb = ''open''")
    case True
    then show ?thesis using assms by (simp add: cb_abs_def RecordFailure_def Let_def cb_ok_def)
  next
    case False
    note c = cb_ok_count [OF assms False]
    show ?thesis using False assms c
      by (simp add: cb_abs_def RecordFailure_def Let_def cb_ok_def)
  qed
  moreover have "spec_allow (cb_window cb) now (cb_abs cb) = (cb_abs (fst (cb_Allow now cb)), snd (cb_Allow now cb))"
      "cb_ok (fst (cb_Allow now cb))" "cb_ok (RecordSuccess cb)" "spec_success (cb_abs cb) = cb_abs (RecordSuccess cb)"
    using assms pos by (auto simp: cb_abs_def cb_Allow_def cb_ok_def RecordSuccess_def spec_success_def)
  ultimately show ?thesis by blast
qed

theorem breaker_refines_witness:
  "spec_failure 3 5 (Counting 0) = cb_abs (RecordFailure 5 (newCircuitBreaker 3 60))"
proof -
  have "cb_ok (newCircuitBreaker 3 60)" by (simp add: cb_ok_def newCircuitBreaker_def)
  then have "spec_failure (unat (cb_threshold (newCircuitBreaker 3 60))) 5 (cb_abs (newCircuitBreaker 3 60)) =
      cb_abs (RecordFailure 5 (newCircuitBreaker 3 60))"
    using breaker_refines by blast
  then show ?thesis by (simp add: newCircuitBreaker_def cb_abs_def)
qed

text \<open>So a run of failures, one for each unit of the threshold, opens a fresh breaker, and it refuses for the
  length of the window.\<close>

lemma spec_trips: "0 < n \<Longrightarrow> k = m + n \<Longrightarrow> fold (spec_failure k) (replicate n t) (Counting m) = Tripped t"
proof (induction n arbitrary: m)
  case (Suc n)
  have trip: "fold (spec_failure k) (replicate j t) (Tripped t) = Tripped t" for j by (induction j) auto
  show ?case
    using Suc.IH [of "Suc m"] Suc.prems trip by (cases n) auto
qed simp

lemma tripped_refuses: "now - t \<le> w \<Longrightarrow> \<not> snd (spec_allow w now (Tripped t))"
  by simp

end
