(* ===== verification/P2P_Package.thy ===== *)
theory P2P_Package
  imports Mining_Properties Node_Guard Go_Proc
begin

text \<open>
  The peer-to-peer layer of package \<open>p2p\<close> (\<open>p2p/p2p.go\<close>), which works on the \<open>Blockchain\<close> of the package and takes its lock
  itself: the procedures of \<open>Go_Proc\<close>. A \<open>Host\<close> is the chain, which the mutex guards, and the peer node, a struct
  without a lock of its own for most fields.

  \<^item> Times are nanoseconds, \<open>int\<close>; \<open>pn_now\<close> is the clock of an operation. A connection is opaque: \<open>pn_peerConns\<close> holds the keys
    of the maps \<open>peerConns\<close> and \<open>peerWriters\<close>, which are the same. The network is the argument of type \<open>wire\<close>.
  \<^item> \<open>pn_buffered\<close> is what has been written to the buffered writer of a connection and not flushed; \<open>pn_out\<close> lists the messages
    that have left the node. A message stands for its JSON encoding and fits into the buffer. A write is taken to end, by reaching the peer or with an error: the connections have no deadline for writing, and a write to a
    peer that never reads, at which the goroutine would wait forever, is not considered here (it is for the node of \<open>main.go\<close>, in \<open>Node_P2P\<close>).
  \<^item> \<open>ks\<close> is the order in which \<open>range\<close> visits the validators.
\<close>

section \<open>State\<close>

record PeerInfo =
  pi_Address :: string
  pi_Peers :: "string list"
  pi_ValidatorPubKey :: string

record Message =
  mg_Type :: string
  mg_From :: string
  mg_NodeID :: string
  mg_Block :: "Block option"
  mg_Chain :: "Block list"
  mg_Tx :: "Transaction option"
  mg_Peer :: "PeerInfo option"
  mg_StreamID :: string

record PeerNode =
  pn_addr :: string
  pn_peers :: "string list"
  pn_peerScores :: "(string, int) fmap"
  pn_trustedPeers :: "(string, bool) fmap"
  pn_maxPeers :: int
  pn_strictMode :: bool
  pn_peerRateLimits :: "(string, int list) fmap"
  pn_peerConns :: "string fset"
  pn_seenMsgIDs :: "(string, int) fmap"
  pn_dialBackoff :: "(string, int) fmap"
  pn_buffered :: "(string, Message list) fmap"
  pn_out :: "(string \<times> Message) list"

record Host =
  h_chain :: Blockchain
  h_p2p :: PeerNode

record wire =
  wire_alive :: "string \<Rightarrow> bool"
  wire_dial :: "string \<Rightarrow> bool"
  wire_write :: "string \<Rightarrow> bool"

definition pn_now :: "env \<Rightarrow> int" where
  "pn_now E = sint (env_nano E)"

definition seconds :: "int \<Rightarrow> int" where
  "seconds n = n * 1000000000"

definition blank_message :: Message where
  "blank_message = \<lparr>mg_Type = [], mg_From = [], mg_NodeID = [], mg_Block = None, mg_Chain = [], mg_Tx = None, mg_Peer = None, mg_StreamID = []\<rparr>"

definition NewP2PNode :: "string \<Rightarrow> string list \<Rightarrow> bool \<Rightarrow> PeerNode" where
  "NewP2PNode addr peers strictMode = \<lparr>pn_addr = addr, pn_peers = peers, pn_peerScores = fmempty, pn_trustedPeers = fmempty,
     pn_maxPeers = 50, pn_strictMode = strictMode, pn_peerRateLimits = fmempty, pn_peerConns = {||}, pn_seenMsgIDs = fmempty,
     pn_dialBackoff = fmempty, pn_buffered = fmempty, pn_out = []\<rparr>"

definition AddPeer :: "string \<Rightarrow> PeerNode \<Rightarrow> PeerNode" where
  "AddPeer peer p = (if peer = [] \<or> peer = pn_addr p then p else p\<lparr>pn_peers := pn_peers p @ [peer]\<rparr>)"

section \<open>Rate limit of a peer\<close>

text \<open>The slice \<open>kept\<close> shares the array of \<open>entries\<close>: when the peer is refused, the map still holds the old slice, whose
  first elements have been overwritten.\<close>

definition allowPeerRate :: "env \<Rightarrow> string \<Rightarrow> PeerNode \<Rightarrow> PeerNode \<times> bool" where
  "allowPeerRate E remote p =
     (let now = pn_now E;
          entries = map_get [] (pn_peerRateLimits p) remote;
          kept = filter (\<lambda>ts. now - ts \<le> seconds 60) entries
      in if 300 \<le> length kept
         then (p\<lparr>pn_peerRateLimits := fmupd remote (kept @ drop (length kept) entries) (pn_peerRateLimits p)\<rparr>, False)
         else (p\<lparr>pn_peerRateLimits := fmupd remote (kept @ [now]) (pn_peerRateLimits p)\<rparr>, True))"

section \<open>Connections\<close>

definition pn_allowDial :: "env \<Rightarrow> string \<Rightarrow> PeerNode \<Rightarrow> bool" where
  "pn_allowDial E target p = (case fmlookup (pn_dialBackoff p) target of None \<Rightarrow> True | Some next \<Rightarrow> next < pn_now E)"

definition pn_recordDialFailure :: "env \<Rightarrow> string \<Rightarrow> PeerNode \<Rightarrow> PeerNode" where
  "pn_recordDialFailure E target p =
     (let backoff = (case fmlookup (pn_dialBackoff p) target of
            None \<Rightarrow> seconds 1
          | Some prev \<Rightarrow>
              (let d = pn_now E - prev in
               if d < 0 then (if seconds 30 < - d * 2 then seconds 30 else - d * 2)
               else if d < seconds 30 then (if seconds 30 < d * 2 then seconds 30 else d * 2)
               else seconds 1))
      in p\<lparr>pn_dialBackoff := fmupd target (pn_now E + backoff) (pn_dialBackoff p)\<rparr>)"

definition pn_cleanupPeerLocked :: "string \<Rightarrow> PeerNode \<Rightarrow> PeerNode" where
  "pn_cleanupPeerLocked target p = p\<lparr>pn_peerConns := pn_peerConns p |-| {|target|}, pn_buffered := fmdrop target (pn_buffered p)\<rparr>"

definition pn_ensurePeerConn :: "wire \<Rightarrow> env \<Rightarrow> string \<Rightarrow> PeerNode \<Rightarrow> PeerNode \<times> unit go" where
  "pn_ensurePeerConn W E target p =
     (if target |\<in>| pn_peerConns p \<and> wire_alive W target then (p, Ok ())
      else let p = pn_cleanupPeerLocked target p in
        if \<not> pn_allowDial E target p then (p, Err ''use of closed network connection'')
        else if \<not> wire_dial W target then (pn_recordDialFailure E target p, Err ''dial tcp'')
        else (p\<lparr>pn_peerConns := finsert target (pn_peerConns p), pn_buffered := fmupd target [] (pn_buffered p)\<rparr>, Ok ()))"

text \<open>\<open>WriteMessage\<close> on the writer of a connection, which buffers, and its \<open>Flush\<close>.\<close>

definition pn_WriteMessage :: "string \<Rightarrow> Message \<Rightarrow> PeerNode \<Rightarrow> PeerNode" where
  "pn_WriteMessage target msg p = p\<lparr>pn_buffered := fmupd target (map_get [] (pn_buffered p) target @ [msg]) (pn_buffered p)\<rparr>"

definition pn_flush :: "wire \<Rightarrow> string \<Rightarrow> PeerNode \<Rightarrow> PeerNode \<times> unit go" where
  "pn_flush W target p =
     (if \<not> wire_write W target then (p, Err ''write tcp'')
      else (p\<lparr>pn_out := pn_out p @ map (Pair target) (map_get [] (pn_buffered p) target), pn_buffered := fmupd target [] (pn_buffered p)\<rparr>, Ok ()))"

definition pn_writePeer :: "wire \<Rightarrow> env \<Rightarrow> string \<Rightarrow> Message \<Rightarrow> PeerNode \<Rightarrow> PeerNode \<times> unit go" where
  "pn_writePeer W E target payload p =
     (case pn_ensurePeerConn W E target p of
        (p, Ok _) \<Rightarrow>
          (case pn_flush W target (pn_WriteMessage target payload p) of
             (p, Ok _) \<Rightarrow> (p, Ok ())
           | (p, Err e) \<Rightarrow> (pn_cleanupPeerLocked target p, Err e)
           | (p, Panic e) \<Rightarrow> (p, Panic e))
      | (p, Err e) \<Rightarrow> (pn_cleanupPeerLocked target p, Err e)
      | (p, Panic e) \<Rightarrow> (p, Panic e))"

text \<open>One tick of \<open>keepAlivePeers\<close>; \<open>targets\<close> is the order in which the connections are visited.\<close>

fun keepAlive_tick :: "wire \<Rightarrow> string list \<Rightarrow> PeerNode \<Rightarrow> PeerNode" where
  "keepAlive_tick W [] p = p"
| "keepAlive_tick W (target # targets) p =
     (if target |\<in>| pn_peerConns p
      then keepAlive_tick W targets (fst (pn_flush W target (pn_WriteMessage target (blank_message\<lparr>mg_Type := ''ping'', mg_From := pn_addr p\<rparr>) p)))
      else keepAlive_tick W targets p)"

definition pn_seenMessageID :: "env \<Rightarrow> string \<Rightarrow> PeerNode \<Rightarrow> PeerNode \<times> bool" where
  "pn_seenMessageID E i p =
     (if i = [] then (p, False)
      else if has_key (pn_seenMsgIDs p) i then (p, True)
      else let m = fmupd i (pn_now E) (pn_seenMsgIDs p);
               cut = pn_now E - seconds 600;
               m = (if 4096 < map_len m then fmfilter (\<lambda>k. \<not> map_get 0 m k < cut) m else m)
        in (p\<lparr>pn_seenMsgIDs := m\<rparr>, False))"

section \<open>Greeting and broadcast\<close>

text \<open>The goroutines that \<open>ConnectToPeers\<close> starts, one after the other. The greeting is written to the buffer only.\<close>

fun connect_loop :: "wire \<Rightarrow> env \<Rightarrow> string \<Rightarrow> string list \<Rightarrow> PeerNode \<Rightarrow> PeerNode" where
  "connect_loop W E pubKey [] p = p"
| "connect_loop W E pubKey (peer # peers) p =
     (if peer = [] \<or> peer = pn_addr p then connect_loop W E pubKey peers p
      else case pn_ensurePeerConn W E peer p of
        (p, Ok _) \<Rightarrow>
          connect_loop W E pubKey peers (pn_WriteMessage peer
            (blank_message\<lparr>mg_Type := ''hello'', mg_From := pn_addr p,
               mg_Peer := Some \<lparr>pi_Address = pn_addr p, pi_Peers = pn_peers p, pi_ValidatorPubKey = pubKey\<rparr>\<rparr>)
            (p\<lparr>pn_peerScores := fmupd peer 1 (pn_peerScores p), pn_trustedPeers := fmupd peer True (pn_trustedPeers p)\<rparr>))
      | (p, _) \<Rightarrow> connect_loop W E pubKey peers p)"

definition ConnectToPeers :: "wire \<Rightarrow> env \<Rightarrow> string list \<Rightarrow> 'z Host_scheme \<Rightarrow> 'z Host_scheme" where
  "ConnectToPeers W E ks h = h\<lparr>h_p2p := connect_loop W E (SelectValidatorPubKey ks (h_chain h)) (pn_peers (h_p2p h)) (h_p2p h)\<rparr>"

fun broadcast_block_loop :: "wire \<Rightarrow> env \<Rightarrow> Block \<Rightarrow> Block list \<Rightarrow> string list \<Rightarrow> PeerNode \<Rightarrow> PeerNode" where
  "broadcast_block_loop W E block chain [] p = p"
| "broadcast_block_loop W E block chain (peer # peers) p =
     (if peer = [] \<or> peer = pn_addr p \<or> \<not> map_get False (pn_trustedPeers p) peer then broadcast_block_loop W E block chain peers p
      else if 0 < length chain \<and> peer |\<in>| pn_peerConns p \<and> wire_alive W peer
      then broadcast_block_loop W E block chain peers
             (fst (pn_flush W peer (pn_WriteMessage peer (blank_message\<lparr>mg_Type := ''block'', mg_Block := Some block, mg_Chain := chain\<rparr>) p)))
      else broadcast_block_loop W E block chain peers
             (fst (pn_writePeer W E peer (blank_message\<lparr>mg_Type := ''block'', mg_Block := Some block\<rparr>) p)))"

definition BroadcastBlock :: "wire \<Rightarrow> env \<Rightarrow> Block \<Rightarrow> 'z Host_scheme \<Rightarrow> 'z Host_scheme" where
  "BroadcastBlock W E block h = h\<lparr>h_p2p := broadcast_block_loop W E block (bc_Chain (h_chain h)) (pn_peers (h_p2p h)) (h_p2p h)\<rparr>"

fun broadcast_tx_loop :: "wire \<Rightarrow> env \<Rightarrow> Message \<Rightarrow> string list \<Rightarrow> PeerNode \<Rightarrow> PeerNode" where
  "broadcast_tx_loop W E msg [] p = p"
| "broadcast_tx_loop W E msg (peer # peers) p =
     (if peer = [] \<or> peer = pn_addr p \<or> \<not> map_get False (pn_trustedPeers p) peer then broadcast_tx_loop W E msg peers p
      else broadcast_tx_loop W E msg peers (fst (pn_writePeer W E peer msg p)))"

definition BroadcastTransaction :: "wire \<Rightarrow> env \<Rightarrow> Transaction \<Rightarrow> 'z Host_scheme \<Rightarrow> 'z Host_scheme" where
  "BroadcastTransaction W E tx h =
     h\<lparr>h_p2p := broadcast_tx_loop W E (blank_message\<lparr>mg_Type := ''tx'', mg_Tx := Some tx\<rparr>) (pn_peers (h_p2p h)) (h_p2p h)\<rparr>"

section \<open>Received messages\<close>

text \<open>A method of the chain as a procedure: the body on the chain, with the lock of the method or without one.\<close>

definition on_chain :: "(Blockchain \<Rightarrow> Blockchain \<times> 'a go) \<Rightarrow> 'z Host_scheme \<Rightarrow> ('z Host_scheme \<times> 'a go) option" where
  "on_chain f h = (case f (h_chain h) of (bc, r) \<Rightarrow> Some (h\<lparr>h_chain := bc\<rparr>, r))"

definition chain_call :: "(Blockchain \<Rightarrow> Blockchain \<times> 'a go) \<Rightarrow> ('z Host_scheme guarded, string + 'a) proc" where
  "chain_call f = locked (body (on_chain f))"

definition chain_do :: "(Blockchain \<Rightarrow> Blockchain) \<Rightarrow> ('z Host_scheme guarded, unit) proc" where
  "chain_do f = locked (writes (\<lambda>h. h\<lparr>h_chain := f (h_chain h)\<rparr>))"

definition save :: "env \<Rightarrow> ('z Host_scheme guarded, unit) proc" where
  "save E = writes (\<lambda>h. h\<lparr>h_chain := fst (SaveToDisk E (h_chain h))\<rparr>)"

definition peer_op :: "(PeerNode \<Rightarrow> PeerNode \<times> 'a) \<Rightarrow> ('z Host_scheme guarded, 'a) proc" where
  "peer_op f g = (case f (h_p2p (g_val g)) of (p, r) \<Rightarrow> (Returned r, g\<lparr>g_val := (g_val g)\<lparr>h_p2p := p\<rparr>\<rparr>))"

text \<open>A relayed message goes over a connection of its own.\<close>

fun pn_relay_loop :: "wire \<Rightarrow> env \<Rightarrow> Message \<Rightarrow> string \<Rightarrow> string list \<Rightarrow> PeerNode \<Rightarrow> PeerNode" where
  "pn_relay_loop W E msg remote [] p = p"
| "pn_relay_loop W E msg remote (peer # peers) p =
     (if peer = [] \<or> peer = pn_addr p \<or> peer = remote \<or> \<not> map_get False (pn_trustedPeers p) peer
      then pn_relay_loop W E msg remote peers p
      else let (p, seen) = pn_seenMessageID E (mg_StreamID msg) p in
        if seen then pn_relay_loop W E msg remote peers p
        else if \<not> wire_dial W peer then pn_relay_loop W E msg remote peers p
        else pn_relay_loop W E msg remote peers (if wire_write W peer then p\<lparr>pn_out := pn_out p @ [(peer, msg)]\<rparr> else p))"

definition relay :: "wire \<Rightarrow> env \<Rightarrow> Message \<Rightarrow> string \<Rightarrow> ('z Host_scheme guarded, unit) proc" where
  "relay W E msg remote = peer_op (\<lambda>p. (pn_relay_loop W E msg remote (pn_peers p) p, ()))"

definition credit_sender :: "Message \<Rightarrow> PeerNode \<Rightarrow> PeerNode" where
  "credit_sender msg p =
     (if mg_NodeID msg \<noteq> [] then
        (if map_get False (pn_trustedPeers p) (mg_From msg) \<and> 0 < map_get 0 (pn_peerScores p) (mg_From msg)
         then p\<lparr>pn_peerScores := fmupd (mg_From msg) (map_get 0 (pn_peerScores p) (mg_From msg) + 1) (pn_peerScores p)\<rparr>
         else p\<lparr>pn_peerScores := fmupd (mg_From msg) 1 (pn_peerScores p), pn_trustedPeers := fmupd (mg_From msg) True (pn_trustedPeers p)\<rparr>)
      else p)"

text \<open>What happens to a received block between \<open>Lock\<close> and \<open>Unlock\<close>, when the message has no chain or its chain was not taken.\<close>

definition append_block :: "env \<Rightarrow> Block \<Rightarrow> ('z Host_scheme guarded, unit) proc" where
  "append_block E block =
     p_bind (reads (\<lambda>h. bc_Chain (h_chain h))) (\<lambda>chain.
       let extend = p_then (writes (\<lambda>h. h\<lparr>h_chain := (h_chain h)\<lparr>bc_Chain := bc_Chain (h_chain h) @ [block]\<rparr>\<rparr>)) (save E) in
       if int (length chain) < sint (blk_Index block + 1) then extend
       else if chain = [] then p_panic ''index out of range [-1]''
       else if blk_BlockHash (last chain) \<noteq> blk_PreviousHash block then extend
       else p_ret ())"

text \<open>The result tells whether the loop goes on to the next check of the message or has taken its chain.\<close>

definition pn_receive_block :: "crypto \<Rightarrow> env \<Rightarrow> Block \<Rightarrow> Message \<Rightarrow> ('z Host_scheme guarded, bool) proc" where
  "pn_receive_block C E block msg =
     p_then Lock
      (p_bind (if 0 < length (mg_Chain msg) then chain_call (\<lambda>bc. case ReplaceChain C E (mg_Chain msg) bc of (bc, ok) \<Rightarrow> (bc, Ok ok))
               else p_ret (Inr False)) (\<lambda>replaced.
       if replaced = Inr True then p_then Unlock (p_ret True)
       else p_then (append_block E block) (p_then Unlock (p_ret False))))"

definition pn_receive_hello :: "PeerInfo \<Rightarrow> ('z Host_scheme guarded, unit) proc" where
  "pn_receive_hello peer =
     p_bind (reads h_p2p) (\<lambda>p.
       if pn_strictMode p \<and> pn_maxPeers p \<le> int (length (pn_peers p)) then p_ret ()
       else if pi_Address peer \<noteq> [] \<and> pi_Address peer \<noteq> pn_addr p then
         p_bind (if pn_strictMode p \<and> pi_ValidatorPubKey peer \<noteq> []
                 then rlocked (reads (\<lambda>h. IsActiveValidatorPubKey (pi_ValidatorPubKey peer) (h_chain h))) else p_ret True) (\<lambda>active.
         if \<not> active then p_ret ()
         else writes (\<lambda>h. h\<lparr>h_p2p := (h_p2p h)\<lparr>pn_peers := pn_peers (h_p2p h) @ [pi_Address peer],
                pn_peerScores := fmupd (pi_Address peer) 1 (pn_peerScores (h_p2p h)),
                pn_trustedPeers := fmupd (pi_Address peer) True (pn_trustedPeers (h_p2p h))\<rparr>\<rparr>))
       else p_ret ())"

text \<open>One pass of the loop of \<open>handleConn\<close>, from the decoded message on. The result tells whether to read on.\<close>

definition handle_message :: "crypto \<Rightarrow> wire \<Rightarrow> env \<Rightarrow> Message \<Rightarrow> string \<Rightarrow> ('z Host_scheme guarded, bool) proc" where
  "handle_message C W E msg remote =
     p_bind (if mg_StreamID msg \<noteq> [] then peer_op (pn_seenMessageID E (mg_StreamID msg)) else p_ret False) (\<lambda>seen.
     if seen then p_ret True
     else p_bind (peer_op (allowPeerRate E remote)) (\<lambda>allowed.
     if \<not> allowed then p_ret False
     else p_then (peer_op (\<lambda>p. (credit_sender msg p, ())))
      (p_bind (case (mg_Type msg = ''block'', mg_Block msg) of
           (True, Some block) \<Rightarrow> p_bind (pn_receive_block C E block msg) (\<lambda>replaced.
              if replaced then p_ret True else p_then (relay W E msg remote) (p_ret False))
         | _ \<Rightarrow> p_ret False) (\<lambda>replaced.
       if replaced then p_ret True
       else p_then (case (mg_Type msg = ''tx'', mg_Tx msg) of
           (True, Some tx) \<Rightarrow> p_then (chain_do (EnqueueTransaction E tx)) (relay W E msg remote)
         | _ \<Rightarrow> p_ret ())
        (p_then (case (mg_Type msg = ''hello'', mg_Peer msg) of
           (True, Some peer) \<Rightarrow> pn_receive_hello peer
         | _ \<Rightarrow> p_ret ())
         (p_ret True))))))"

fun pn_handleConn ::
  "crypto \<Rightarrow> wire \<Rightarrow> env \<Rightarrow> (string \<Rightarrow> string) \<Rightarrow> (string \<Rightarrow> Message go) \<Rightarrow> string \<Rightarrow> string list \<Rightarrow> ('z Host_scheme guarded, unit) proc" where
  "pn_handleConn C W E utrim decode remote [] = p_ret ()"
| "pn_handleConn C W E utrim decode remote (l # ls) =
     (let line = TrimSpace utrim l in
      if line = [] then pn_handleConn C W E utrim decode remote ls
      else if 5 * 1024 * 1024 < length line then p_ret ()
      else case decode line of
        Ok msg \<Rightarrow> p_bind (handle_message C W E msg remote) (\<lambda>go_on.
          if go_on then pn_handleConn C W E utrim decode remote ls else p_ret ())
      | _ \<Rightarrow> p_ret ())"

section \<open>Lock discipline of the message loop\<close>

lemma chain_call_rules [lock_rules]:
  "releases (chain_call f)" "releases (chain_do h)" "frozen view (chain_call f)" "frozen view (chain_do h)"
  unfolding chain_call_def chain_do_def
  by (intro lock_rules; simp add: on_chain_def case_prod_unfold)+

lemma peer_op_rules [lock_rules]: "steady (peer_op f)" "releases (peer_op f)" "frozen h_chain (peer_op f)"
  by (auto simp: peer_op_def steady_def releases_def frozen_def split: prod.splits)

lemma relay_rules [lock_rules]: "releases (relay W E msg remote)" "frozen h_chain (relay W E msg remote)"
  unfolding relay_def by (intro lock_rules)+

lemma receive_hello_rules [lock_rules]: "releases (pn_receive_hello peer)" "frozen h_chain (pn_receive_hello peer)"
  unfolding pn_receive_hello_def by (intro lock_rules; simp)+

text \<open>A block whose successor has a positive index as a signed number is appended or ignored, without a panic.\<close>

lemma append_block_returns:
  assumes "0 < sint (blk_Index block + 1)"
  shows "\<exists>h. append_block E block g = (Returned (), g\<lparr>g_val := h\<rparr>)"
  using assms
  by (auto simp: append_block_def Let_def p_bind_def p_then_def reads_def writes_def save_def p_ret_def)
     (metis guarded.surjective guarded.update_convs(2))

text \<open>Messages that the loop survives: a block comes without a chain and with an index below \<open>2\<^sup>6\<^sup>3 - 1\<close>.\<close>

definition survivable :: "Message \<Rightarrow> bool" where
  "survivable msg \<longleftrightarrow> (mg_Type msg = ''block'' \<longrightarrow>
     (case mg_Block msg of None \<Rightarrow> True | Some block \<Rightarrow> mg_Chain msg = [] \<and> 0 < sint (blk_Index block + 1)))"

lemma releases_receive_block:
  assumes "mg_Chain msg = []" "0 < sint (blk_Index block + 1)"
  shows "releases (pn_receive_block C E block msg)"
proof (rule releasesI)
  fix g r g' assume run: "pn_receive_block C E block msg g = (r, g')" and "mu_free (g_mu g)"
  moreover obtain h where "append_block E block (g\<lparr>g_mu := (g_mu g)\<lparr>mu_writer := True\<rparr>\<rparr>) =
      (Returned (), g\<lparr>g_mu := (g_mu g)\<lparr>mu_writer := True\<rparr>, g_val := h\<rparr>)"
    using append_block_returns [OF assms(2)] by (metis guarded.fold_congs(2) guarded.update_convs(2))
  ultimately show "r \<noteq> Blocked \<and> mu_free (g_mu g')"
    using assms(1)
    by (auto simp: pn_receive_block_def p_then_def p_bind_def Lock_def Unlock_def unlock_def p_ret_def mu_free_def)
qed

lemma releases_handle_message:
  assumes "survivable msg"
  shows "releases (handle_message C W E msg remote)"
proof -
  have "releases (pn_receive_block C E block msg)" if "mg_Type msg = ''block''" "mg_Block msg = Some block" for block
    using assms that by (intro releases_receive_block) (auto simp: survivable_def)
  then show ?thesis
    unfolding handle_message_def
    by (intro lock_rules) (auto intro!: lock_rules split: bool.splits option.splits)
qed

lemma frozen_handle_message: "frozen h_chain (handle_message C W E msg remote)"
  unfolding handle_message_def pn_receive_block_def
  by (intro lock_rules) (auto intro!: lock_rules split: bool.splits option.splits)

definition on_message :: "crypto \<Rightarrow> wire \<Rightarrow> env \<times> Message \<times> string \<Rightarrow> ('z Host_scheme guarded, bool) proc" where
  "on_message C W = (\<lambda>(E, msg, remote). handle_message C W E msg remote)"

interpretation conn: answering_server "on_message C W" "\<lambda>(E, msg, remote). survivable msg" for C W
  by unfold_locales (auto simp: on_message_def intro: releases_handle_message)

interpretation conn_lock: lock_guarded_server "on_message C W" h_chain for C W
  by unfold_locales (auto simp: on_message_def intro: frozen_handle_message)

text \<open>Messages that come without a chain never block the node and never leave its lock held, in any number and order.\<close>

theorem messages_without_chain_are_answered:
  assumes "list_all (\<lambda>(E, msg, remote). survivable msg) ms" "survivable msg"
  shows "fst (handle_message C W E msg remote (serve_all (on_message C W) ms (free h))) \<noteq> Blocked"
  using conn.always_answers [of ms "(E, msg, remote)" "free h" C W] assms by (simp add: on_message_def)

section \<open>A chain in a message stops the node\<close>

text \<open>\<open>handleConn\<close> holds the lock when it calls \<open>ReplaceChain\<close>, which takes it: the first block message that carries a chain, seen for
  the first time and within the rate limit, blocks forever and keeps the lock. No message changes the chain after that.\<close>

theorem chain_in_message_deadlocks:
  assumes "mu_free (g_mu g)" "mg_Type msg = ''block''" "mg_Block msg = Some block" "mg_Chain msg \<noteq> []"
    and "mg_StreamID msg = []" "snd (allowPeerRate E remote (h_p2p (g_val g)))"
  shows "fst (handle_message C W E msg remote g) = Blocked \<and>
    h_chain (g_val (serve_all (on_message C W) ms (snd (handle_message C W E msg remote g)))) = h_chain (g_val g)"
proof -
  obtain p where p: "allowPeerRate E remote (h_p2p (g_val g)) = (p, True)"
    using assms(6) by (metis prod.collapse)
  have run: "fst (handle_message C W E msg remote g) = Blocked" "mu_writer (g_mu (snd (handle_message C W E msg remote g)))"
    "h_chain (g_val (snd (handle_message C W E msg remote g))) = h_chain (g_val g)"
    using assms p
    by (simp_all add: handle_message_def p_bind_def p_then_def peer_op_def p_ret_def pn_receive_block_def Lock_def chain_call_def locked_def mu_free_def)
  with conn_lock.stays_frozen [OF run(2)] show ?thesis by simp
qed

section \<open>Broadcasting a block stops the receivers\<close>

lemma pn_out_mono:
  "set (pn_out p) \<subseteq> set (pn_out (fst (pn_flush W t p)))" "set (pn_out p) \<subseteq> set (pn_out (fst (pn_writePeer W E t m p)))"
proof -
  show f: "set (pn_out p) \<subseteq> set (pn_out (fst (pn_flush W t p)))" for t p by (auto simp: pn_flush_def)
  have e: "pn_out (fst (pn_ensurePeerConn W E t p)) = pn_out p"
    by (simp add: pn_ensurePeerConn_def Let_def pn_cleanupPeerLocked_def pn_recordDialFailure_def)
  then show "set (pn_out p) \<subseteq> set (pn_out (fst (pn_writePeer W E t m p)))"
    using f [of "pn_WriteMessage t m (fst (pn_ensurePeerConn W E t p))" t]
    by (auto simp: pn_writePeer_def pn_WriteMessage_def pn_cleanupPeerLocked_def split: prod.splits go.splits)
qed

lemma broadcast_block_mono: "set (pn_out p) \<subseteq> set (pn_out (broadcast_block_loop W E b ch ps p))"
proof (induction ps arbitrary: p)
  case (Cons t ps)
  have "set (pn_out p) \<subseteq> set (pn_out (fst (pn_flush W t (pn_WriteMessage t m p))))" for m
    using pn_out_mono(1) [of "pn_WriteMessage t m p"] by (simp add: pn_WriteMessage_def)
  then show ?case using Cons.IH pn_out_mono(2) by (simp; meson order_trans)
qed simp

lemma other_connections_stay:
  assumes "a \<noteq> t"
  shows "a |\<in>| pn_peerConns (fst (pn_writePeer W E t m p)) \<longleftrightarrow> a |\<in>| pn_peerConns p"
  using assms
  by (auto simp: pn_writePeer_def pn_ensurePeerConn_def pn_flush_def pn_WriteMessage_def pn_cleanupPeerLocked_def pn_recordDialFailure_def Let_def
        split: prod.splits go.splits if_splits)

lemma pn_write_frame [frame]:
  "pn_addr (fst (pn_writePeer W E t m p)) = pn_addr p" "pn_trustedPeers (fst (pn_writePeer W E t m p)) = pn_trustedPeers p"
  "pn_addr (fst (pn_flush W t p)) = pn_addr p" "pn_trustedPeers (fst (pn_flush W t p)) = pn_trustedPeers p"
  "pn_peerConns (fst (pn_flush W t p)) = pn_peerConns p"
  by (auto simp: pn_writePeer_def pn_ensurePeerConn_def pn_flush_def pn_WriteMessage_def pn_cleanupPeerLocked_def pn_recordDialFailure_def Let_def
        split: prod.splits go.splits if_splits)

definition block_with_chain :: "Block \<Rightarrow> Block list \<Rightarrow> Message" where
  "block_with_chain b ch = blank_message\<lparr>mg_Type := ''block'', mg_Block := Some b, mg_Chain := ch\<rparr>"

lemma broadcast_sends_chain:
  assumes "a \<in> set ps" "a \<noteq> []" "a \<noteq> pn_addr p" "map_get False (pn_trustedPeers p) a" "a |\<in>| pn_peerConns p"
    and "wire_alive W a" "wire_write W a" "ch \<noteq> []"
  shows "(a, block_with_chain b ch) \<in> set (pn_out (broadcast_block_loop W E b ch ps p))"
  using assms(1,3-5)
proof (induction ps arbitrary: p)
  case (Cons t ps)
  show ?case
  proof (cases "t = a")
    case True
    let ?q = "fst (pn_flush W a (pn_WriteMessage a (block_with_chain b ch) p))"
    have "(a, block_with_chain b ch) \<in> set (pn_out ?q)"
      using assms(7) by (simp add: pn_flush_def pn_WriteMessage_def)
    moreover have "broadcast_block_loop W E b ch (t # ps) p = broadcast_block_loop W E b ch ps ?q"
      using True Cons.prems assms(2,6,8) by (simp add: block_with_chain_def)
    ultimately show ?thesis using broadcast_block_mono by fastforce
  next
    case False
    have "pn_addr (pn_WriteMessage t m p) = pn_addr p" "pn_trustedPeers (pn_WriteMessage t m p) = pn_trustedPeers p"
      "pn_peerConns (pn_WriteMessage t m p) = pn_peerConns p" for m
      by (simp_all add: pn_WriteMessage_def)
    with False Cons show ?thesis by (simp add: frame other_connections_stay)
  qed
qed simp

text \<open>Over every live connection to a trusted peer, \<open>BroadcastBlock\<close> sends the block together with the whole chain; and a node that receives
  this message with a free lock, within its rate limit, blocks forever.\<close>

theorem broadcast_stops_receivers:
  assumes "a \<in> set (pn_peers (h_p2p h))" "a \<noteq> []" "a \<noteq> pn_addr (h_p2p h)" "map_get False (pn_trustedPeers (h_p2p h)) a"
    and "a |\<in>| pn_peerConns (h_p2p h)" "wire_alive W a" "wire_write W a" "bc_Chain (h_chain h) \<noteq> []"
  shows "\<exists>m. (a, m) \<in> set (pn_out (h_p2p (BroadcastBlock W E b h))) \<and>
    (\<forall>E' W' remote g. mu_free (g_mu g) \<longrightarrow> snd (allowPeerRate E' remote (h_p2p (g_val g))) \<longrightarrow>
      fst (handle_message C W' E' m remote g) = Blocked)"
proof (intro exI conjI allI impI)
  show "(a, block_with_chain b (bc_Chain (h_chain h))) \<in> set (pn_out (h_p2p (BroadcastBlock W E b h)))"
    using assms broadcast_sends_chain [of a "pn_peers (h_p2p h)" "h_p2p h" W "bc_Chain (h_chain h)" b E] by (simp add: BroadcastBlock_def)
next
  fix E' W' remote and g :: "'c Host_scheme guarded"
  assume g: "mu_free (g_mu g)" "snd (allowPeerRate E' remote (h_p2p (g_val g)))"
  obtain p where "allowPeerRate E' remote (h_p2p (g_val g)) = (p, True)" using g(2) by (metis prod.collapse)
  with g assms(8) show "fst (handle_message C W' E' (block_with_chain b (bc_Chain (h_chain h))) remote g) = Blocked"
    by (simp add: block_with_chain_def blank_message_def handle_message_def p_bind_def p_then_def peer_op_def p_ret_def
        pn_receive_block_def Lock_def chain_call_def locked_def mu_free_def)
qed

section \<open>Which blocks are appended\<close>

text \<open>The two checks of a received block are joined by "or", and the second asks for a wrong link: a block that the node already has as its tip is
  appended once more each time it is received without a chain.\<close>

theorem tip_is_appended_again:
  assumes "mu_free (g_mu g)" "bc_Chain (h_chain (g_val g)) \<noteq> []" "last (bc_Chain (h_chain (g_val g))) = block"
    and "blk_PreviousHash block \<noteq> blk_BlockHash block" "mg_Chain msg = []"
  shows "bc_Chain (h_chain (g_val (snd (pn_receive_block C E block msg g)))) = bc_Chain (h_chain (g_val g)) @ [block]"
  using assms
  by (auto simp: pn_receive_block_def append_block_def Let_def p_bind_def p_then_def p_ret_def Lock_def Unlock_def unlock_def reads_def writes_def save_def
        mu_free_def frame)

section \<open>Trust and greetings\<close>

text \<open>A message with a node identifier makes the address in its field \<open>from\<close> trusted, whoever sends it.\<close>

theorem sender_declares_trust:
  assumes "mg_NodeID msg \<noteq> []"
  shows "map_get False (pn_trustedPeers (credit_sender msg p)) (mg_From msg)"
  using assms by (simp add: credit_sender_def)

lemma connect_loop_out: "pn_out (connect_loop W E k ps p) = pn_out p"
proof (induction ps arbitrary: p)
  case (Cons t ps)
  obtain q r where e: "pn_ensurePeerConn W E t p = (q, r)" by force
  have "pn_out q = pn_out p"
    using e by (auto simp: pn_ensurePeerConn_def Let_def pn_cleanupPeerLocked_def pn_recordDialFailure_def split: if_splits)
  with e Cons show ?case by (cases r) (auto simp: pn_WriteMessage_def)
qed simp

text \<open>The greetings of \<open>ConnectToPeers\<close> stay in the buffers of the connections: nothing leaves the node until something else is
  flushed to the same peer.\<close>

theorem greetings_are_not_sent: "pn_out (h_p2p (ConnectToPeers W E ks h)) = pn_out (h_p2p h)"
  by (simp add: ConnectToPeers_def connect_loop_out)

section \<open>The rate limit of a peer\<close>

text \<open>Seen as a rate limiter: 300 messages in a minute.\<close>

definition peer_limiter :: "PeerNode \<Rightarrow> rateLimiter" where
  "peer_limiter p = \<lparr>rl_counts = pn_peerRateLimits p, rl_limit = 300, rl_window = seconds 60\<rparr>"

definition rates_ok :: "PeerNode \<Rightarrow> bool" where
  "rates_ok p \<longleftrightarrow> (\<forall>remote. length (map_get [] (pn_peerRateLimits p) remote) \<le> 300)"

text \<open>No list of times grows beyond 300. Therefore a refused peer has all its times within the minute, the shared array is
  overwritten by itself, and the function is exactly the limiter of the HTTP interface with these two numbers.\<close>

theorem allowPeerRate_is_limiter:
  assumes "rates_ok p"
  shows "rl_allow (pn_now E) remote (peer_limiter p) =
      (peer_limiter (fst (allowPeerRate E remote p)), snd (allowPeerRate E remote p)) \<and> rates_ok (fst (allowPeerRate E remote p))"
proof -
  let ?es = "map_get [] (pn_peerRateLimits p) remote"
  let ?ks = "filter (\<lambda>ts. pn_now E - ts \<le> seconds 60) ?es"
  have len: "length ?ks \<le> length ?es" "length ?es \<le> 300" using assms by (simp_all add: rates_ok_def)
  have all: "300 \<le> length ?ks \<Longrightarrow> length ?ks = length ?es" using len by linarith
  show ?thesis
    using assms len all
    by (auto simp: rl_allow_def allowPeerRate_def peer_limiter_def rates_ok_def Let_def intro: le_antisym)
qed

fun rate_run :: "(env \<times> string) list \<Rightarrow> PeerNode \<Rightarrow> (int \<times> string) list" where
  "rate_run [] p = []"
| "rate_run ((E, remote) # rs) p =
     (case allowPeerRate E remote p of (p, ok) \<Rightarrow> (if ok then [(pn_now E, remote)] else []) @ rate_run rs p)"

lemma rate_run_limiter: "rates_ok p \<Longrightarrow> rate_run rs p = rl_run (map (\<lambda>(E, remote). (pn_now E, remote)) rs) (peer_limiter p)"
proof (induction rs arbitrary: p)
  case (Cons r rs)
  obtain E remote where r: "r = (E, remote)" by force
  show ?case
    using allowPeerRate_is_limiter [OF Cons.prems, of E remote] Cons.IH [of "fst (allowPeerRate E remote p)"]
    by (simp add: r case_prod_unfold)
qed simp

text \<open>Hence, when messages are handled in the order of their times, a new node handles at most 300 messages of one remote address in any
  stretch of a minute, however many are sent.\<close>

theorem peer_rate_bound:
  assumes "sorted (map (\<lambda>(E, remote). pn_now E) rs)"
  shows "length (filter (\<lambda>(t, r). r = remote \<and> lo \<le> t \<and> t \<le> lo + seconds 60) (rate_run rs (NewP2PNode addr peers strict))) \<le> 300"
proof -
  let ?p = "NewP2PNode addr peers strict"
  have ok: "rates_ok ?p" by (simp add: rates_ok_def NewP2PNode_def)
  have l: "rl_counts (peer_limiter ?p) = fmempty" "rl_limit (peer_limiter ?p) = 300" "rl_window (peer_limiter ?p) = seconds 60"
    by (simp_all add: peer_limiter_def NewP2PNode_def)
  have "sorted (map fst (map (\<lambda>(E, remote). (pn_now E, remote)) rs))"
    using assms by (simp add: comp_def case_prod_unfold)
  from rl_run_window [OF this l(1), of remote lo] l show ?thesis
    by (simp add: rate_run_limiter [OF ok])
qed

section \<open>Examples\<close>

definition demo_wire :: wire where
  "demo_wire = \<lparr>wire_alive = \<lambda>_. True, wire_dial = \<lambda>_. True, wire_write = \<lambda>_. True\<rparr>"

definition demo_peer :: PeerNode where
  "demo_peer = (NewP2PNode ''a'' [''b''] True)\<lparr>pn_trustedPeers := fmupd ''b'' True fmempty, pn_peerConns := {|''b''|}\<rparr>"

end
