(* ===== verification/Tokenomics.thy ===== *)
theory Tokenomics
  imports Ledger Go_Float
begin

text \<open>
  The token economics of \<open>tokenomics.go\<close>: a configuration, its validation, inflation, rewards and burn rates. A \<open>float64\<close> of
  the configuration is finite, since JSON has no infinities, and is the rational number it denotes; every operation on
  floats rounds its exact result (\<open>sfl\<close>). Results beyond the range of the format and fused operations are not
  modelled. \<open>int\<close> is unbounded: years and counts are small. \<open>oor\<close> is the value of a conversion to \<open>uint64\<close> that the
  language leaves open.
\<close>

section \<open>Signed floats\<close>

definition sfl :: "rat \<Rightarrow> rat" where
  "sfl x = (if x < 0 then - fl (- x) else fl x)"

definition to_u64 :: "(rat \<Rightarrow> u64) \<Rightarrow> rat \<Rightarrow> u64" where
  "to_u64 oor f = (if 0 \<le> f then u64_of_float oor f else if - 1 < f then 0 else oor f)"

definition float_of_int :: "int \<Rightarrow> rat" where
  "float_of_int n = sfl (of_int n)"

section \<open>Configuration\<close>

record TokenomicsConfig =
  tk_Network :: string
  tk_NativeToken :: string
  tk_MaxSupply :: u64
  tk_InitialCirculating :: u64
  tk_GenesisMintCap :: u64
  tk_StakingRewardAPY :: rat
  tk_BaseGasFee :: u64
  tk_BurnRate :: rat
  tk_InflationStartYear :: int
  tk_InflationDecayPerYear :: rat
  tk_ValidatorRewardShare :: rat
  tk_CommunityRewardShare :: rat
  tk_TreasuryRewardShare :: rat
  tk_MinInflationRate :: rat
  tk_ValidatorPerformanceDecay :: rat
  tk_BlockRewardBase :: u64
  tk_AgentActivityBaseDemand :: u64
  tk_AgentDemandGrowthRate :: rat
  tk_DeflationaryThreshold :: u64

definition LoadTokenomicsConfig :: "(string \<Rightarrow> TokenomicsConfig go) \<Rightarrow> string go \<Rightarrow> TokenomicsConfig go" where
  "LoadTokenomicsConfig unjson file = go_bind file unjson"

text \<open>\<open>fmt6\<close> is the format \<open>%.6f\<close>.\<close>

definition tk_Validate :: "(rat \<Rightarrow> string) \<Rightarrow> TokenomicsConfig \<Rightarrow> unit go" where
  "tk_Validate fmt6 cfg =
     (if tk_MaxSupply cfg = 0 \<or> tk_InitialCirculating cfg = 0 then Err ''supply values must be positive''
      else if tk_MaxSupply cfg < tk_InitialCirculating cfg then Err ''initial circulating exceeds max supply''
      else if tk_MaxSupply cfg < tk_GenesisMintCap cfg then Err ''genesis mint cap exceeds max supply''
      else if tk_GenesisMintCap cfg < tk_InitialCirculating cfg then Err ''initial circulating cannot exceed genesis mint cap''
      else let sum = sfl (sfl (tk_ValidatorRewardShare cfg + tk_CommunityRewardShare cfg) + tk_TreasuryRewardShare cfg) in
        if sfl (1 / 1000000000) < \<bar>sfl (sum - 1)\<bar> then Err (''reward shares must sum to 1.0, got '' @ fmt6 sum)
        else if tk_StakingRewardAPY cfg < 0 \<or> 1 < tk_StakingRewardAPY cfg then Err ''staking reward APY must be between 0 and 1''
        else if tk_BurnRate cfg < 0 \<or> 1 < tk_BurnRate cfg then Err ''burn rate must be between 0 and 1''
        else if tk_MinInflationRate cfg < 0 then Err ''min inflation rate cannot be negative''
        else if tk_InflationDecayPerYear cfg < 0 \<or> 1 < tk_InflationDecayPerYear cfg then Err ''inflation decay per year must be between 0 and 1''
        else if tk_AgentDemandGrowthRate cfg < 0 then Err ''agent demand growth rate cannot be negative''
        else Ok ())"

section \<open>Minting and inflation\<close>

definition GenesisMintCapReached :: "u64 \<Rightarrow> TokenomicsConfig \<Rightarrow> bool" where
  "GenesisMintCapReached currentSupply cfg \<longleftrightarrow> tk_GenesisMintCap cfg \<le> currentSupply"

definition CanMint :: "u64 \<Rightarrow> u64 \<Rightarrow> TokenomicsConfig \<Rightarrow> bool" where
  "CanMint amount currentSupply cfg =
     (if GenesisMintCapReached currentSupply cfg then False
      else currentSupply + amount \<le> tk_GenesisMintCap cfg)"

definition AnnualInflationRate :: "int \<Rightarrow> TokenomicsConfig \<Rightarrow> rat" where
  "AnnualInflationRate year cfg =
     (if year < tk_InflationStartYear cfg then 0
      else let decay = sfl (1 - sfl (float_of_int (year - tk_InflationStartYear cfg) * tk_InflationDecayPerYear cfg)) in
        if decay < 0 then 0 else max decay (tk_MinInflationRate cfg))"

definition CalculateInflationDecaySchedule :: "int \<Rightarrow> TokenomicsConfig \<Rightarrow> (int, rat) fmap" where
  "CalculateInflationDecaySchedule years cfg =
     fmap_of_list (map (\<lambda>y. (y, AnnualInflationRate (tk_InflationStartYear cfg + y) cfg)) [0..years])"

definition CalculateTokenSupplyAtYear :: "(rat \<Rightarrow> u64) \<Rightarrow> int \<Rightarrow> TokenomicsConfig \<Rightarrow> u64" where
  "CalculateTokenSupplyAtYear oor year cfg =
     (if year < tk_InflationStartYear cfg then tk_GenesisMintCap cfg
      else let elapsed = year - tk_InflationStartYear cfg;
               decay = sfl (1 - sfl (float_of_int elapsed * tk_InflationDecayPerYear cfg));
               decay = (if decay < 0 then 0 else decay);
               inflationFactor = max decay (tk_MinInflationRate cfg);
               supply = sfl (float_of_u64 (tk_GenesisMintCap cfg) * sfl (1 + inflationFactor))
        in to_u64 oor supply)"

record TokenSupplyProjection =
  tp_Year :: int
  tp_ProjectedSupply :: u64
  tp_InflationRate :: rat
  tp_MaxSupply :: u64

definition CalculateDisinflationProjection :: "(rat \<Rightarrow> u64) \<Rightarrow> int \<Rightarrow> TokenomicsConfig \<Rightarrow> TokenSupplyProjection list go" where
  "CalculateDisinflationProjection oor years cfg =
     (if years + 1 < 0 then Panic ''makeslice: cap out of range''
      else Ok (map (\<lambda>y. \<lparr>tp_Year = tk_InflationStartYear cfg + y,
             tp_ProjectedSupply = CalculateTokenSupplyAtYear oor (tk_InflationStartYear cfg + y) cfg,
             tp_InflationRate = AnnualInflationRate (tk_InflationStartYear cfg + y) cfg, tp_MaxSupply = tk_MaxSupply cfg\<rparr>) [0..years]))"

section \<open>Rewards\<close>

text \<open>Dividing by no validator gives an infinity or NaN, whose conversion is the argument \<open>undef\<close>.\<close>

definition ValidatorBlockReward :: "(rat \<Rightarrow> u64) \<Rightarrow> u64 \<Rightarrow> u64 \<Rightarrow> int \<Rightarrow> rat \<Rightarrow> TokenomicsConfig \<Rightarrow> u64" where
  "ValidatorBlockReward oor undef blockHeight validatorCount validatorPerformance cfg =
     (let year = int (unat (blockHeight div 100000));
          inflationFactor = AnnualInflationRate year cfg;
          reward = sfl (float_of_u64 (tk_BlockRewardBase cfg) * inflationFactor);
          reward = (if validatorPerformance < 1 / 2 then sfl (reward * tk_ValidatorPerformanceDecay cfg) else reward)
      in if validatorCount = 0 then undef
         else let reward = sfl (reward / float_of_int validatorCount) in to_u64 oor (of_int \<lfloor>reward\<rfloor>))"

record BlockRewardDistribution =
  rd_TotalReward :: u64
  rd_ValidatorShare :: u64
  rd_CommunityShare :: u64
  rd_TreasuryShare :: u64
  rd_ValidatorPercentage :: rat
  rd_CommunityPercentage :: rat
  rd_TreasuryPercentage :: rat

definition DistributeBlockReward :: "(rat \<Rightarrow> u64) \<Rightarrow> u64 \<Rightarrow> TokenomicsConfig \<Rightarrow> BlockRewardDistribution" where
  "DistributeBlockReward oor totalReward cfg =
     (let validatorShare = to_u64 oor (sfl (float_of_u64 totalReward * tk_ValidatorRewardShare cfg));
          communityShare = to_u64 oor (sfl (float_of_u64 totalReward * tk_CommunityRewardShare cfg));
          treasuryShare = totalReward - validatorShare - communityShare
      in \<lparr>rd_TotalReward = totalReward, rd_ValidatorShare = validatorShare, rd_CommunityShare = communityShare,
          rd_TreasuryShare = treasuryShare, rd_ValidatorPercentage = tk_ValidatorRewardShare cfg,
          rd_CommunityPercentage = tk_CommunityRewardShare cfg, rd_TreasuryPercentage = tk_TreasuryRewardShare cfg\<rparr>)"

text \<open>The loop that pays the active validators, and \<open>ApplyStakingRewards\<close>; \<open>ks\<close> is the order in which the validators are visited.\<close>

definition validator_reward :: "(rat \<Rightarrow> u64) \<Rightarrow> u64 \<Rightarrow> u64 \<Rightarrow> Validator \<Rightarrow> u64" where
  "validator_reward oor rewardPool totalStaked v =
     (let percent = sfl (float_of_u64 (val_Stake v) / float_of_u64 totalStaked)
      in to_u64 oor (sfl (float_of_u64 rewardPool * percent)))"

fun pay_validators :: "(Validator \<Rightarrow> u64) \<Rightarrow> Validator list \<Rightarrow> Blockchain \<Rightarrow> Blockchain" where
  "pay_validators rw [] bc = bc"
| "pay_validators rw (v # vs) bc =
     (if \<not> val_Active v then pay_validators rw vs bc
      else if has_key (bc_Ledger bc) (val_Address v)
      then pay_validators rw vs (bc\<lparr>bc_Ledger := credit (val_Address v) (rw v) (bc_Ledger bc), bc_TokenSupply := bc_TokenSupply bc + rw v\<rparr>)
      else pay_validators rw vs bc)"

definition active_validators :: "string list \<Rightarrow> Blockchain \<Rightarrow> Validator list" where
  "active_validators ks bc = filter val_Active (map (\<lambda>k. the (fmlookup (bc_Validators bc) k)) (filter (has_key (bc_Validators bc)) ks))"

definition ApplyStakingRewards :: "(rat \<Rightarrow> u64) \<Rightarrow> string list \<Rightarrow> u64 \<Rightarrow> TokenomicsConfig \<Rightarrow> Blockchain \<Rightarrow> Blockchain" where
  "ApplyStakingRewards oor ks blockHeight cfg bc =
     (let validators = active_validators ks bc;
          totalStaked = (\<Sum>v\<leftarrow>validators. val_Stake v)
      in if totalStaked = 0 then bc
         else let rewardPool = to_u64 oor (sfl (sfl (float_of_u64 (tk_BlockRewardBase cfg) * tk_ValidatorRewardShare cfg) *
                    AnnualInflationRate (int (unat (blockHeight div 100000))) cfg))
           in pay_validators (validator_reward oor rewardPool totalStaked) validators bc)"

section \<open>Burning and demand\<close>

definition ApplyTransactionFeeBurn :: "(rat \<Rightarrow> u64) \<Rightarrow> u64 \<Rightarrow> TokenomicsConfig \<Rightarrow> u64" where
  "ApplyTransactionFeeBurn oor amount cfg = to_u64 oor (sfl (float_of_u64 amount * tk_BurnRate cfg))"

definition FormatTokenomics :: "u64 \<Rightarrow> string" where
  "FormatTokenomics amount = FormatAmount amount"

definition CalculateEffectiveBurnRate :: "u64 \<Rightarrow> TokenomicsConfig \<Rightarrow> rat" where
  "CalculateEffectiveBurnRate currentSupply cfg =
     (if tk_MaxSupply cfg div 2 < currentSupply then sfl (tk_BurnRate cfg * (3 / 2)) else tk_BurnRate cfg)"

definition CalculateTreasuryAllocation :: "(rat \<Rightarrow> u64) \<Rightarrow> u64 \<Rightarrow> int \<Rightarrow> TokenomicsConfig \<Rightarrow> u64" where
  "CalculateTreasuryAllocation oor revenue year cfg =
     (let inflationFactor = AnnualInflationRate year cfg;
          baseAllocation = to_u64 oor (sfl (float_of_u64 revenue * tk_TreasuryRewardShare cfg));
          inflationBoost = to_u64 oor (sfl (sfl (float_of_u64 baseAllocation * inflationFactor) * (1 / 2)))
      in baseAllocation + inflationBoost)"

fun apy_loop :: "TokenomicsConfig \<Rightarrow> int list \<Rightarrow> rat \<Rightarrow> rat" where
  "apy_loop cfg [] rate = rate"
| "apy_loop cfg (y # ys) rate =
     apy_loop cfg ys (sfl (rate + sfl (sfl (tk_StakingRewardAPY cfg * AnnualInflationRate (tk_InflationStartYear cfg + y) cfg) * sfl (1 / 10))))"

definition CalculateAPYForStake :: "u64 \<Rightarrow> int \<Rightarrow> TokenomicsConfig \<Rightarrow> rat" where
  "CalculateAPYForStake amount years cfg =
     min (apy_loop cfg [0..years - 1] (tk_StakingRewardAPY cfg)) (sfl (tk_StakingRewardAPY cfg * 3))"

definition AgentDemandPressure :: "(rat \<Rightarrow> u64) \<Rightarrow> u64 \<Rightarrow> TokenomicsConfig \<Rightarrow> u64" where
  "AgentDemandPressure oor agentTransactionCount cfg =
     (let base = tk_AgentActivityBaseDemand cfg;
          growth = to_u64 oor (sfl (sfl (float_of_u64 base * tk_AgentDemandGrowthRate cfg) * float_of_u64 agentTransactionCount))
      in base + growth)"

definition DeflationaryPressure :: "u64 \<Rightarrow> TokenomicsConfig \<Rightarrow> rat" where
  "DeflationaryPressure currentSupply cfg =
     (let burnRate = CalculateEffectiveBurnRate currentSupply cfg in
      if tk_DeflationaryThreshold cfg < currentSupply then sfl (burnRate * (3 / 2)) else burnRate)"

definition HumanValueScore :: "(rat \<Rightarrow> u64) \<Rightarrow> u64 \<Rightarrow> u64 \<Rightarrow> TokenomicsConfig \<Rightarrow> rat" where
  "HumanValueScore oor currentSupply agentTransactionCount cfg =
     (let demand = float_of_u64 (AgentDemandPressure oor agentTransactionCount cfg);
          deflation = DeflationaryPressure currentSupply cfg
      in if deflation = 0 then demand else sfl (demand / deflation))"

definition DemandBurnRatio :: "(rat \<Rightarrow> u64) \<Rightarrow> u64 \<Rightarrow> u64 \<Rightarrow> TokenomicsConfig \<Rightarrow> rat" where
  "DemandBurnRatio oor agentTransactionCount currentSupply cfg =
     (let demand = float_of_u64 (AgentDemandPressure oor agentTransactionCount cfg);
          burn = float_of_u64 (to_u64 oor (sfl (DeflationaryPressure currentSupply cfg * 1000000)))
      in if burn = 0 then 0 else sfl (demand / burn))"

section \<open>Shares of a reward\<close>

lemma fl_nonneg: "0 \<le> fl x"
proof (cases "x \<le> 0")
  case False
  have "0 \<le> round_even y" if "0 \<le> y" for y :: rat
    using that by (auto simp: round_even_def Let_def)
  with False show ?thesis by (simp add: fl_def Let_def)
qed (simp add: fl_def)

lemma share_of_total:
  assumes "m = unat t" "m < 2 ^ 52" "0 \<le> s" "s \<le> 1" "k = unat (to_u64 oor (sfl (float_of_u64 t * s)))"
  shows "rat_of_nat k \<le> of_nat m * s + 1 / 4"
proof -
  let ?x = "of_nat m * s :: rat"
  have t: "float_of_u64 t = of_nat m"
    using fl_of_nat [of m] assms(1,2) unfolding float_of_u64_def by simp
  have x: "0 \<le> ?x" "?x \<le> of_nat m" using assms(3,4) by (simp_all add: mult_left_le)
  have tb: "(of_nat m :: rat) < 2 ^ 52" using of_nat_less_iff [of m "2 ^ 52", where 'a = rat] assms(2) by simp
  have err: "fl ?x \<le> ?x + 1 / 4"
  proof (cases "?x = 0")
    case False
    then have "0 < ?x" using x(1) by linarith
    moreover have "?x < 2 powi 52" using x(2) tb by simp
    ultimately have "0 < ?x" "?x < 2 powi 52" .
    from fl_error [OF this] have "\<bar>fl ?x - ?x\<bar> \<le> 1 / 4" by (simp add: power_int_minus)
    then show ?thesis by linarith
  qed auto
  have b: "\<lfloor>fl ?x\<rfloor> < 2 ^ 64" "0 \<le> \<lfloor>fl ?x\<rfloor>"
    using err x tb fl_nonneg [of ?x] by (simp_all add: floor_less_iff)
  then have "to_u64 oor (sfl (float_of_u64 t * s)) = of_int \<lfloor>fl ?x\<rfloor>"
    using x fl_nonneg [of ?x] by (simp add: t to_u64_def sfl_def u64_of_float_def)
  with b have "int k = \<lfloor>fl ?x\<rfloor>"
    using assms(5) by (simp add: unat_eq_nat_uint uint_word_of_int)
  then have "rat_of_nat k = of_int \<lfloor>fl ?x\<rfloor>" by (metis of_int_of_nat_eq)
  also have "\<dots> \<le> fl ?x" by simp
  finally show ?thesis using err by simp
qed

text \<open>A block reward below \<open>2\<^sup>5\<^sup>2\<close> is split without loss, in spite of floating-point rounding: when the shares of validators and
  community are not negative and at most 1 together, the three parts add up to the reward and none wraps around.\<close>

theorem distribution_adds_up:
  assumes "unat tot < 2 ^ 52" "0 \<le> tk_ValidatorRewardShare cfg" "0 \<le> tk_CommunityRewardShare cfg"
    and "tk_ValidatorRewardShare cfg + tk_CommunityRewardShare cfg \<le> 1"
  shows "let d = DistributeBlockReward oor tot cfg in
    unat (rd_ValidatorShare d) + unat (rd_CommunityShare d) + unat (rd_TreasuryShare d) = unat tot"
proof -
  let ?s = "tk_ValidatorRewardShare cfg" and ?c = "tk_CommunityRewardShare cfg"
  define v where "v = to_u64 oor (sfl (float_of_u64 tot * ?s))"
  define w where "w = to_u64 oor (sfl (float_of_u64 tot * ?c))"
  obtain m i j where mij: "m = unat tot" "i = unat v" "j = unat w" by simp
  have "rat_of_nat i \<le> of_nat m * ?s + 1 / 4"
    by (rule share_of_total [OF mij(1) _ _ _ mij(2) [unfolded v_def]]) (use assms mij(1) in simp_all)
  moreover have "rat_of_nat j \<le> of_nat m * ?c + 1 / 4"
    by (rule share_of_total [OF mij(1) _ _ _ mij(3) [unfolded w_def]]) (use assms mij(1) in simp_all)
  moreover have "of_nat m * ?s + of_nat m * ?c \<le> (of_nat m :: rat)"
    using mult_left_mono [OF assms(4), of "of_nat m"] by (simp add: distrib_left)
  ultimately have "rat_of_nat (i + j) < of_nat (m + 1)" by simp
  then have vw: "unat v + unat w \<le> unat tot" unfolding of_nat_less_iff mij by simp
  then have "unat (tot - v) = unat tot - unat v" by (intro unat_sub_no_wrap) (simp add: word_le_nat_alt)
  moreover from this vw have "unat (tot - v - w) = unat (tot - v) - unat w" by (intro unat_sub_no_wrap) (simp add: word_le_nat_alt)
  ultimately show ?thesis using vw by (simp add: DistributeBlockReward_def v_def [symmetric] w_def [symmetric])
qed

section \<open>Minting\<close>

text \<open>When the sum does not overflow, \<open>CanMint\<close> allows exactly what stays within the cap.\<close>

theorem CanMint_iff:
  assumes "unat supply + unat amount < 2 ^ 64"
  shows "CanMint amount supply cfg \<longleftrightarrow> supply < tk_GenesisMintCap cfg \<and> unat supply + unat amount \<le> unat (tk_GenesisMintCap cfg)"
  using assms by (auto simp: CanMint_def GenesisMintCapReached_def word_le_nat_alt unat_add_no_wrap not_le word_less_nat_alt)

text \<open>The sum is not checked for overflow: below the cap, an amount of almost \<open>2\<^sup>6\<^sup>4\<close> may be minted.\<close>

theorem CanMint_overflow:
  assumes "supply < tk_GenesisMintCap cfg"
  shows "CanMint (- supply) supply cfg"
  using assms by (simp add: CanMint_def GenesisMintCapReached_def)

section \<open>Inflation\<close>

text \<open>Once the decay is complete the inflation rate falls to 0, below the configured minimum, while the projected supply keeps using
  the minimum.\<close>

lemma inflation_below_minimum:
  assumes "tk_InflationStartYear cfg \<le> year" "sfl (1 - sfl (float_of_int (year - tk_InflationStartYear cfg) * tk_InflationDecayPerYear cfg)) < 0"
  shows "AnnualInflationRate year cfg = 0 \<and>
    CalculateTokenSupplyAtYear oor year cfg = to_u64 oor (sfl (float_of_u64 (tk_GenesisMintCap cfg) * sfl (1 + max 0 (tk_MinInflationRate cfg))))"
  using assms by (simp add: AnnualInflationRate_def CalculateTokenSupplyAtYear_def Let_def)

section \<open>Staking rewards\<close>

text \<open>Paying the validators raises the supply by exactly what their accounts receive.\<close>

lemma pay_validators_supply:
  "bc_TokenSupply (pay_validators rw vs bc) = bc_TokenSupply bc +
     (\<Sum>v\<leftarrow>filter (\<lambda>v. val_Active v \<and> has_key (bc_Ledger bc) (val_Address v)) vs. rw v)"
  by (induction vs arbitrary: bc) (simp_all add: ac_simps)

lemma pay_validators_balance:
  "balance_of (bc_Ledger (pay_validators rw vs bc)) a =
     map_option (\<lambda>x. x + (\<Sum>v\<leftarrow>filter (\<lambda>v. val_Active v \<and> val_Address v = a) vs. rw v)) (balance_of (bc_Ledger bc) a)"
proof (induction vs arbitrary: bc)
  case (Cons v vs)
  have "\<not> has_key (bc_Ledger bc) a \<Longrightarrow> balance_of (bc_Ledger bc) a = None" by (simp add: has_key_def balance_of_def)
  with Cons show ?case
    by (auto simp: ledger.bal_credit option.map_comp comp_def ac_simps)
qed (simp add: option.map_ident)

section \<open>Examples\<close>

definition demo_tokenomics :: TokenomicsConfig where
  "demo_tokenomics = \<lparr>tk_Network = ''main'', tk_NativeToken = ''TENDER'', tk_MaxSupply = 1000, tk_InitialCirculating = 100, tk_GenesisMintCap = 500,
     tk_StakingRewardAPY = 0, tk_BaseGasFee = 1, tk_BurnRate = 0, tk_InflationStartYear = 0, tk_InflationDecayPerYear = 1,
     tk_ValidatorRewardShare = 1 / 2, tk_CommunityRewardShare = 1 / 4, tk_TreasuryRewardShare = 1 / 4, tk_MinInflationRate = 0,
     tk_ValidatorPerformanceDecay = 1, tk_BlockRewardBase = 100, tk_AgentActivityBaseDemand = 0, tk_AgentDemandGrowthRate = 0,
     tk_DeflationaryThreshold = 0\<rparr>"

theorem distribution_adds_up_witness:
  "unat (rd_ValidatorShare (DistributeBlockReward (\<lambda>_. 0) 1001 demo_tokenomics)) + unat (rd_CommunityShare (DistributeBlockReward (\<lambda>_. 0) 1001 demo_tokenomics)) +
     unat (rd_TreasuryShare (DistributeBlockReward (\<lambda>_. 0) 1001 demo_tokenomics)) = 1001"
  using distribution_adds_up [of 1001 demo_tokenomics "\<lambda>_. 0"] by (simp add: demo_tokenomics_def Let_def)

theorem CanMint_iff_witness: "CanMint 400 100 demo_tokenomics \<and> \<not> CanMint 401 100 demo_tokenomics"
  using CanMint_iff [of 100 400 demo_tokenomics] CanMint_iff [of 100 401 demo_tokenomics] by (simp add: demo_tokenomics_def)

end
