(* ===== verification/Rosetta.thy ===== *)
theory Rosetta
  imports Mining_Properties Go_Http
begin

text \<open>
  The Rosetta interface of \<open>rosetta.go\<close>: network status, block lookup, submission of transactions, and
  the helpers for amounts and signatures. The JSON encoder of a transaction and the decoders of
  request bodies are arguments.
\<close>

section \<open>Data\<close>

record RosettaNetworkIdentifier =
  rni_Blockchain :: string
  rni_Network :: string

record RosettaPartialBlockIdentifier =
  rbi_Index :: i64
  rbi_Hash :: string

record RosettaCurrency =
  rc_Symbol :: string
  rc_Decimals :: i64

record RosettaAmount =
  ra_Value :: string
  ra_Currency :: RosettaCurrency

record RosettaOperation =
  ro_OperationIndex :: i64
  ro_Type :: string
  ro_Status :: string
  ro_Account :: string
  ro_Amount :: RosettaAmount

record RosettaTransaction =
  rt_TransactionIdentifier :: RosettaPartialBlockIdentifier
  rt_Operations :: "RosettaOperation list"
  rt_Metadata :: "(string \<times> string) list"

record RosettaBlock =
  rb_BlockIdentifier :: RosettaPartialBlockIdentifier
  rb_ParentBlockIdentifier :: RosettaPartialBlockIdentifier
  rb_Timestamp :: i64
  rb_Transactions :: "RosettaTransaction list"
  rb_Metadata :: "(string \<times> string) list"

record RosettaPeer =
  rp_PeerID :: string
  rp_Metadata :: "(string \<times> string) list"

record RosettaNetworkStatusResponse =
  rs_CurrentBlockIdentifier :: RosettaPartialBlockIdentifier
  rs_OldestBlockIdentifier :: RosettaPartialBlockIdentifier
  rs_GenesisBlockIdentifier :: RosettaPartialBlockIdentifier
  rs_CurrentBlockTimestamp :: i64
  rs_Peers :: "RosettaPeer list"

record RosettaPublicKey =
  rk_Bytes :: string
  rk_CurveType :: string

record RosettaConstructionSubmitRequest =
  rq_NetworkIdentifier :: RosettaNetworkIdentifier
  rq_Transaction :: string
  rq_Signature :: string
  rq_PublicKeys :: "RosettaPublicKey list"

record RosettaConstructionSubmitResponse =
  rr_TransactionIdentifier :: RosettaPartialBlockIdentifier
  rr_Status :: "(string \<times> string) list"

text \<open>What a handler writes: a bare status or a value.\<close>

datatype 'a reply = Status nat | Reply 'a

section \<open>Network status\<close>

definition block_id :: "i64 \<Rightarrow> string \<Rightarrow> RosettaPartialBlockIdentifier" where
  "block_id i h = \<lparr>rbi_Index = i, rbi_Hash = h\<rparr>"

text \<open>The loop over the audit trail, with the set of actors seen.\<close>

fun peers_loop :: "string fset \<Rightarrow> AuditEntry list \<Rightarrow> RosettaPeer list" where
  "peers_loop seen [] = []"
| "peers_loop seen (entry # es) =
     (if aud_Event entry = ''block_mined'' \<and> aud_Actor entry \<noteq> [] \<and> aud_Actor entry |\<notin>| seen
      then \<lparr>rp_PeerID = aud_Actor entry, rp_Metadata = [(''last_event'', aud_Event entry)]\<rparr> #
             peers_loop (finsert (aud_Actor entry) seen) es
      else peers_loop seen es)"

definition RosettaNetworkStatusHandler :: "i64 \<Rightarrow> Blockchain \<Rightarrow> RosettaNetworkStatusResponse" where
  "RosettaNetworkStatusHandler now bc =
     (case bc_Chain bc of
        [] \<Rightarrow> \<lparr>rs_CurrentBlockIdentifier = block_id 0 ''genesis'', rs_OldestBlockIdentifier = block_id 0 ''genesis'',
               rs_GenesisBlockIdentifier = block_id 0 ''genesis'', rs_CurrentBlockTimestamp = now, rs_Peers = []\<rparr>
      | genesis # _ \<Rightarrow>
          (let lst = last (bc_Chain bc) in
           \<lparr>rs_CurrentBlockIdentifier = block_id (blk_Index lst) (blk_BlockHash lst),
            rs_OldestBlockIdentifier = block_id 0 (blk_BlockHash genesis),
            rs_GenesisBlockIdentifier = block_id 0 (blk_BlockHash genesis),
            rs_CurrentBlockTimestamp = blk_Timestamp lst,
            rs_Peers = peers_loop {||} (bc_AuditTrail bc)\<rparr>))"

section \<open>Blocks\<close>

text \<open>\<open>strconv.ParseInt(s, 10, 64)\<close>: an optional sign, then digits.
  \<open>strings.TrimRight(s, "/")\<close>, and \<open>strings.Split\<close> at a single byte.\<close>

definition ParseInt :: "string \<Rightarrow> num_error + i64" where
  "ParseInt s =
     (let (neg, digits) =
        (case s of c # cs \<Rightarrow> if c = CHR ''+'' then (False, cs) else if c = CHR ''-'' then (True, cs) else (False, s) | [] \<Rightarrow> (False, s))
      in if digits = [] then Inl ErrSyntax
         else case parse_uint_loop 0 digits of
           Inl e \<Rightarrow> Inl e
         | Inr n \<Rightarrow> (if neg then (if 2 ^ 63 < n then Inl ErrRange else Inr (- of_nat n))
                    else if 2 ^ 63 \<le> n then Inl ErrRange else Inr (of_nat n)))"

definition TrimRight :: "char \<Rightarrow> string \<Rightarrow> string" where
  "TrimRight c s = rev (dropWhile (\<lambda>x. x = c) (rev s))"

fun split_at :: "char \<Rightarrow> string \<Rightarrow> string list" where
  "split_at c [] = [[]]"
| "split_at c (x # xs) = (if x = c then [] # split_at c xs else (x # hd (split_at c xs)) # tl (split_at c xs))"

definition rosetta_op :: "i64 \<Rightarrow> Transaction \<Rightarrow> string \<Rightarrow> string \<Rightarrow> RosettaOperation" where
  "rosetta_op i tx address value =
     \<lparr>ro_OperationIndex = i, ro_Type = tx_TxType tx, ro_Status = ''SUCCESS'', ro_Account = address,
      ro_Amount = \<lparr>ra_Value = value, ra_Currency = \<lparr>rc_Symbol = ''TDR'', rc_Decimals = 8\<rparr>\<rparr>\<rparr>"

definition rosetta_tx :: "crypto \<Rightarrow> (Transaction \<Rightarrow> string) \<Rightarrow> u64 \<Rightarrow> Transaction \<Rightarrow> RosettaTransaction" where
  "rosetta_tx C json_tx idx tx =
     \<lparr>rt_TransactionIdentifier = block_id idx (EncodeToString (sha256 C (json_tx tx))),
      rt_Operations = [rosetta_op 0 tx (tx_From tx) (''-'' @ FormatUint (tx_Amount tx)),
                       rosetta_op 1 tx (tx_To tx) (FormatUint (tx_Amount tx))],
      rt_Metadata = [(''tx_id'', tx_ID tx)]\<rparr>"

definition rosetta_block :: "crypto \<Rightarrow> (Transaction \<Rightarrow> string) \<Rightarrow> Block \<Rightarrow> RosettaBlock" where
  "rosetta_block C json_tx block =
     \<lparr>rb_BlockIdentifier = block_id (blk_Index block) (blk_BlockHash block),
      rb_ParentBlockIdentifier = block_id (blk_Index block - 1) (blk_PreviousHash block),
      rb_Timestamp = blk_Timestamp block,
      rb_Transactions = map (rosetta_tx C json_tx (blk_Index block)) (blk_Transactions block),
      rb_Metadata = [(''author'', blk_Author block)]\<rparr>"

definition RosettaBlockHandler :: "crypto \<Rightarrow> (Transaction \<Rightarrow> string) \<Rightarrow> string \<Rightarrow> Blockchain \<Rightarrow> RosettaBlock reply" where
  "RosettaBlockHandler C json_tx urlPath bc =
     (let path = TrimPrefix urlPath ''/block/'' in
      if path = [] \<or> path = ''/'' then Status StatusBadRequest
      else let segments = split_at (CHR ''/'') (TrimRight (CHR ''/'') path) in
        case ParseInt (hd segments) of
          Inl _ \<Rightarrow> Status StatusBadRequest
        | Inr targetIndex \<Rightarrow>
            (case find (\<lambda>block. blk_Index block = targetIndex) (bc_Chain bc) of
               None \<Rightarrow> Status StatusNotFound
             | Some block \<Rightarrow> Reply (rosetta_block C json_tx block)))"

section \<open>Submission\<close>

text \<open>The transaction that is queued: identifier and time are the node's, a zero nonce is filled in, and an
  unsigned transaction takes the first public key of the request as its sender.\<close>

definition submitted_tx :: "env \<Rightarrow> RosettaConstructionSubmitRequest \<Rightarrow> Blockchain \<Rightarrow> Transaction \<Rightarrow> Transaction" where
  "submitted_tx E req bc tx =
     (let tx = tx\<lparr>tx_ID := ''tx-'' @ FormatInt (env_nano E)\<rparr>;
          tx = (if tx_Nonce tx = 0 then tx\<lparr>tx_Nonce := of_nat (length (bc_Pending bc) + 1)\<rparr> else tx);
          tx = tx\<lparr>tx_Timestamp := env_now E\<rparr>
      in if tx_Signature tx = [] \<and> rq_PublicKeys req \<noteq> [] then
           (case DecodeString (rk_Bytes (hd (rq_PublicKeys req))) of
              Ok pubBytes \<Rightarrow> (if length pubBytes = 32 then tx\<lparr>tx_From := EncodeToString pubBytes\<rparr> else tx)
            | _ \<Rightarrow> tx)
         else tx)"

definition RosettaConstructionSubmitHandler ::
  "crypto \<Rightarrow> env \<Rightarrow> (string \<Rightarrow> string) \<Rightarrow> (string \<Rightarrow> Transaction go) \<Rightarrow> RosettaConstructionSubmitRequest go \<Rightarrow> Blockchain \<Rightarrow>
   Blockchain \<times> RosettaConstructionSubmitResponse reply go" where
  "RosettaConstructionSubmitHandler C E utrim unjson_tx body bc =
     (case body of
        Ok req \<Rightarrow>
          (if TrimSpace utrim (rq_Transaction req) = [] then (bc, Ok (Status StatusBadRequest))
           else case unjson_tx (rq_Transaction req) of
             Ok tx0 \<Rightarrow>
               (let tx = submitted_tx E req bc tx0;
                    bc = bc\<lparr>bc_Pending := bc_Pending bc @ [tx]\<rparr>;
                    txHash = sha256 C (tx_ID tx @ rni_Network (rq_NetworkIdentifier req))
                in if bc_Chain bc = [] then (bc, Panic ''index out of range [-1]'')
                   else (bc, Ok (Reply \<lparr>rr_TransactionIdentifier = block_id (blk_Index (last (bc_Chain bc))) (EncodeToString txHash),
                                       rr_Status = [(''accepted'', ''true'')]\<rparr>)))
           | _ \<Rightarrow> (bc, Ok (Status StatusBadRequest)))
      | _ \<Rightarrow> (bc, Ok (Status StatusBadRequest)))"

section \<open>Helpers\<close>

definition hashInt :: "crypto \<Rightarrow> i64 \<Rightarrow> string" where
  "hashInt C v = EncodeToString (sha256 C (FormatInt v))"

text \<open>Decoding into a map accepts an object, and \<open>null\<close>, which leaves the map empty.\<close>

definition validateRosettaTransaction :: "(string \<Rightarrow> string) \<Rightarrow> (string \<Rightarrow> json go) \<Rightarrow> string \<Rightarrow> unit go" where
  "validateRosettaTransaction utrim unjson raw =
     (if TrimSpace utrim raw = [] then Err ''transaction payload cannot be empty''
      else case unjson raw of
        Ok j \<Rightarrow>
          (case (case j of JObj fs \<Rightarrow> Some (map_of fs) | JNull \<Rightarrow> Some Map.empty | _ \<Rightarrow> None) of
             None \<Rightarrow> Err ''transaction payload must be valid JSON''
           | Some t \<Rightarrow>
               (if t ''from'' = None then Err ''transaction payload must include sender address''
                else if t ''to'' = None then Err ''transaction payload must include recipient address''
                else Ok ()))
      | _ \<Rightarrow> Err ''transaction payload must be valid JSON'')"

definition buildRosettaTx :: "(string \<Rightarrow> Transaction go) \<Rightarrow> string \<Rightarrow> Transaction go" where
  "buildRosettaTx unjson_tx raw =
     (case unjson_tx raw of
        Ok tx \<Rightarrow>
          (if tx_From tx = [] \<or> tx_To tx = [] then Err ''transaction must include from and to addresses''
           else if tx_Amount tx = 0 then Err ''transaction amount must be greater than 0''
           else Ok tx)
      | Err e \<Rightarrow> Err (''invalid transaction JSON: '' @ e)
      | Panic e \<Rightarrow> Panic e)"

definition formatRosettaAmount :: "u64 \<Rightarrow> nat \<Rightarrow> string" where
  "formatRosettaAmount val decimals =
     (let s = FormatUint val in
      if 0 < decimals then
        (if decimals < length s then take (length s - decimals) s @ ''.'' @ drop (length s - decimals) s
         else ''0.'' @ replicate (decimals - length s) (CHR ''0'') @ s)
      else s)"

text \<open>The value of \<open>n, _ := strconv.ParseUint(s, 10, 64)\<close>: on an error it is 0, or the largest number when
  the text is out of range.\<close>

definition uint_or_zero :: "string \<Rightarrow> u64" where
  "uint_or_zero s = (case ParseUint s of Inr v \<Rightarrow> v | Inl ErrSyntax \<Rightarrow> 0 | Inl ErrRange \<Rightarrow> - 1)"

definition parseRosettaAmount :: "string \<Rightarrow> u64" where
  "parseRosettaAmount s =
     (case split_at (CHR ''.'') s of
        [whole] \<Rightarrow> uint_or_zero whole * HogohogoPerTender
      | [whole, dec] \<Rightarrow>
          (let intPart = uint_or_zero whole;
               decPart = (if 8 < length dec then take 8 dec else dec);
               decPart = decPart @ replicate (8 - length decPart) (CHR ''0'');
               decN = uint_or_zero decPart
           in intPart * 100000000 + decN)
      | _ \<Rightarrow> 0)"

definition checkRosettaTxBalance :: "Blockchain \<Rightarrow> string \<Rightarrow> u64 \<Rightarrow> bool" where
  "checkRosettaTxBalance bc addr amount =
     (case fmlookup (bc_Ledger bc) addr of None \<Rightarrow> False | Some account \<Rightarrow> amount \<le> acct_Balance account)"

definition validateRosettaSignature :: "crypto \<Rightarrow> (Transaction \<Rightarrow> string) \<Rightarrow> Transaction \<Rightarrow> string \<Rightarrow> string \<Rightarrow> bool" where
  "validateRosettaSignature C json_tx tx pubHex sigHex =
     (case DecodeString pubHex of
        Ok pubBytes \<Rightarrow>
          (if length pubBytes \<noteq> 32 then False
           else case DecodeString sigHex of
             Ok sigBytes \<Rightarrow> (if length sigBytes \<noteq> 64 then False else ed_verify C pubBytes (json_tx tx) sigBytes)
           | _ \<Rightarrow> False)
      | _ \<Rightarrow> False)"

definition rosettaTxToCanonicalJSON :: "(Transaction \<Rightarrow> string) \<Rightarrow> Transaction \<Rightarrow> string" where
  "rosettaTxToCanonicalJSON json_tx tx = json_tx (tx\<lparr>tx_Signature := []\<rparr>)"

section \<open>Amounts\<close>

text \<open>The number that a string of digits denotes, starting from a value already read.\<close>

definition dec :: "nat \<Rightarrow> string \<Rightarrow> nat" where
  "dec n s = foldl (\<lambda>n c. n * 10 + digit_val c) n s"

lemma dec_simps [simp]: "dec n [] = n" "dec n (c # s) = dec (n * 10 + digit_val c) s"
  "dec n (s @ t) = dec (dec n s) t"
  by (simp_all add: dec_def)

lemma dec_ge: "n \<le> dec n s"
proof (induction s arbitrary: n)
  case (Cons c s)
  from Cons [of "n * 10 + digit_val c"] show ?case by simp
qed simp

lemma parse_uint_loop_dec: "list_all is_digit s \<Longrightarrow> dec n s < 2 ^ 64 \<Longrightarrow> parse_uint_loop n s = Inr (dec n s)"
proof (induction s arbitrary: n)
  case (Cons c s)
  then show ?case using dec_ge [of "n * 10 + digit_val c" s] by auto
qed simp

lemma dec_shift: "dec n s = n * 10 ^ length s + dec 0 s"
proof (induction s arbitrary: n)
  case (Cons c s)
  have "dec n (c # s) = (n * 10 + digit_val c) * 10 ^ length s + dec 0 s" unfolding dec_simps by (rule Cons)
  moreover have "dec 0 (c # s) = (0 * 10 + digit_val c) * 10 ^ length s + dec 0 s" unfolding dec_simps by (rule Cons)
  ultimately show ?case by (simp add: algebra_simps)
qed simp

lemma dec_fmt_nat: "dec 0 (fmt_nat n) = n"
proof (induction n rule: fmt_nat.induct)
  case (1 n)
  then show ?case by (cases "n < 10") (auto simp: fmt_nat.simps [of n])
qed

lemma dec_zeros: "dec 0 (replicate k (CHR ''0'')) = 0"
  by (induction k) (simp_all add: digit_val_def)

lemma uint_or_zero_dec: "s \<noteq> [] \<Longrightarrow> list_all is_digit s \<Longrightarrow> dec 0 s < 2 ^ 64 \<Longrightarrow> uint_or_zero s = of_nat (dec 0 s)"
  by (simp add: uint_or_zero_def ParseUint_def parse_uint_loop_dec)

lemma FormatUint_all_digits: "list_all is_digit (FormatUint v)"
  by (auto simp: list_all_iff FormatUint_def dest: fmt_nat_digits)

lemma split_at_none: "c \<notin> set s \<Longrightarrow> split_at c s = [s]"
  by (induction s) auto

lemma split_at_once: "c \<notin> set s \<Longrightarrow> c \<notin> set t \<Longrightarrow> split_at c (s @ c # t) = [s, t]"
  by (induction s) (auto simp: split_at_none)

lemma digits_no: "list_all is_digit s \<Longrightarrow> \<not> is_digit c \<Longrightarrow> c \<notin> set s"
  by (auto simp: list_all_iff)

lemma parse_decimal:
  assumes "list_all is_digit w" "w \<noteq> []" "list_all is_digit d" "length d \<le> 8" "dec 0 w < 2 ^ 64"
  shows "parseRosettaAmount (w @ CHR ''.'' # d) = of_nat (dec 0 w) * 100000000 + of_nat (dec 0 (d @ replicate (8 - length d) (CHR ''0'')))"
proof -
  let ?d = "d @ replicate (8 - length d) (CHR ''0'')"
  have dot: "\<not> is_digit (CHR ''.'')" by (simp add: is_digit_def)
  have digits: "list_all is_digit ?d" using assms(3) by (auto simp: list_all_iff is_digit_def)
  have "dec 0 t < 10 ^ length t" if "list_all is_digit t" for t
    using that
  proof (induction t rule: rev_induct)
    case (snoc c t)
    then have "dec 0 t + 1 \<le> 10 ^ length t" "digit_val c < 10"
      by (auto simp: digit_val_def is_digit_def)
    then have "dec 0 (t @ [c]) < (dec 0 t + 1) * 10" by simp
    also have "\<dots> \<le> 10 ^ length t * 10" using \<open>dec 0 t + 1 \<le> _\<close> by (rule mult_right_mono) simp
    finally show ?case by simp
  qed simp
  from this [OF digits] have "dec 0 ?d < 2 ^ 64" using assms(4) by simp
  moreover have "?d \<noteq> []" using assms(4) by (cases d) auto
  ultimately have "uint_or_zero ?d = of_nat (dec 0 ?d)" using digits by (intro uint_or_zero_dec)
  then show ?thesis
    using split_at_once [OF digits_no [OF assms(1) dot] digits_no [OF assms(3) dot]] assms uint_or_zero_dec [of w]
    by (simp add: parseRosettaAmount_def Let_def)
qed

text \<open>An amount that is formatted with eight decimals parses back to itself, for every 64-bit value.\<close>

theorem parse_formatRosettaAmount: "parseRosettaAmount (formatRosettaAmount v 8) = v"
proof -
  let ?s = "FormatUint v"
  have n: "dec 0 ?s = unat v" by (simp add: FormatUint_def dec_fmt_nat)
  show ?thesis
  proof (cases "8 < length ?s")
    case True
    let ?w = "take (length ?s - 8) ?s" and ?d = "drop (length ?s - 8) ?s"
    have wd: "list_all is_digit ?w" "list_all is_digit ?d"
      using FormatUint_all_digits [of v] by (metis list_all_append append_take_drop_id)+
    have len: "length ?d = 8" "?w \<noteq> []" using True by auto
    have "dec 0 (?w @ ?d) = dec 0 ?w * 10 ^ length ?d + dec 0 ?d"
      unfolding dec_simps by (rule dec_shift)
    then have split: "unat v = dec 0 ?w * 10 ^ 8 + dec 0 ?d" by (simp only: append_take_drop_id n len(1))
    then have "dec 0 ?w < 2 ^ 64" using unat_u64_lt [of v] by simp
    then have "parseRosettaAmount (?w @ CHR ''.'' # ?d) = of_nat (dec 0 ?w) * 100000000 + of_nat (dec 0 ?d)"
      using parse_decimal [OF wd(1) len(2) wd(2)] len(1) by simp
    also have "\<dots> = of_nat (unat v)" unfolding split by simp
    finally show ?thesis using True by (simp add: formatRosettaAmount_def Let_def)
  next
    case False
    let ?d = "replicate (8 - length ?s) (CHR ''0'') @ ?s"
    have "list_all is_digit ?d" using FormatUint_all_digits [of v] by (auto simp: list_all_iff is_digit_def)
    moreover have "dec 0 ?d = unat v" by (simp add: dec_zeros n)
    ultimately have "parseRosettaAmount (''0'' @ CHR ''.'' # ?d) = of_nat (unat v)"
      using parse_decimal [of "''0''" ?d] False by (simp add: is_digit_def digit_val_def)
    then show ?thesis using False by (simp add: formatRosettaAmount_def Let_def)
  qed
qed

text \<open>A whole number is read on another scale than the same number with a decimal point: without the
  point the unit is \<open>10\<^sup>7\<close>, with it \<open>10\<^sup>8\<close>.\<close>

theorem rosetta_amount_scales:
  "parseRosettaAmount (FormatUint v) = v * 10000000 \<and> parseRosettaAmount (FormatUint v @ ''.0'') = v * 100000000"
proof -
  have dot: "CHR ''.'' \<notin> set (FormatUint v)"
    by (rule digits_no [OF FormatUint_all_digits]) (simp add: is_digit_def)
  have n: "dec 0 (FormatUint v) = unat v" by (simp add: FormatUint_def dec_fmt_nat)
  moreover have "dec 0 (''0'' @ replicate 7 (CHR ''0'')) = 0"
    by (simp add: digit_val_def dec_zeros)
  ultimately have "parseRosettaAmount (FormatUint v @ CHR ''.'' # ''0'') = v * 100000000"
    using parse_decimal [OF FormatUint_all_digits FormatUint_nonempty, of "''0''" v] unat_u64_lt [of v]
    by (simp add: is_digit_def)
  then show ?thesis
    using uint_or_zero_dec [OF FormatUint_nonempty FormatUint_all_digits, of v] n unat_u64_lt [of v] split_at_none [OF dot]
    by (simp add: parseRosettaAmount_def HogohogoPerTender_def)
qed

section \<open>Status and blocks\<close>

lemma peers_loop_exact:
  "distinct (map rp_PeerID (peers_loop seen es)) \<and>
   set (map rp_PeerID (peers_loop seen es)) =
     {aud_Actor e | e. e \<in> set es \<and> aud_Event e = ''block_mined'' \<and> aud_Actor e \<noteq> []} - fset seen"
proof (induction es arbitrary: seen)
  case (Cons e es)
  then show ?case
    using Cons [of seen] Cons [of "finsert (aud_Actor e) seen"] by auto
qed simp

text \<open>The peers in the network status are the actors of the mined blocks in the audit trail, each of
  them once; on a chain with blocks, the current block is the last one and the oldest and genesis
  blocks are the first.\<close>

theorem network_status_exact:
  assumes "bc_Chain bc \<noteq> []"
  shows "let r = RosettaNetworkStatusHandler now bc in
    distinct (map rp_PeerID (rs_Peers r)) \<and>
    set (map rp_PeerID (rs_Peers r)) = {aud_Actor e | e. e \<in> set (bc_AuditTrail bc) \<and> aud_Event e = ''block_mined'' \<and> aud_Actor e \<noteq> []} \<and>
    rs_CurrentBlockIdentifier r = block_id (blk_Index (last (bc_Chain bc))) (blk_BlockHash (last (bc_Chain bc))) \<and>
    rbi_Hash (rs_OldestBlockIdentifier r) = blk_BlockHash (hd (bc_Chain bc)) \<and>
    rs_GenesisBlockIdentifier r = rs_OldestBlockIdentifier r"
  using assms peers_loop_exact [of "{||}" "bc_AuditTrail bc"]
  by (cases "bc_Chain bc") (simp_all add: RosettaNetworkStatusHandler_def Let_def block_id_def)

theorem network_status_exact_witness:
  "set (map rp_PeerID (rs_Peers (RosettaNetworkStatusHandler 0 (demo_bank\<lparr>bc_AuditTrail :=
     [\<lparr>aud_Timestamp = 1, aud_Event = ''block_mined'', aud_Actor = ''m'', aud_Details = []\<rparr>]\<rparr>)))) = {''m''}"
proof -
  have "bc_Chain (demo_bank\<lparr>bc_AuditTrail := a\<rparr>) \<noteq> []" for a using demo_bank_fields(6) by auto
  from network_status_exact [OF this, where now = 0] show ?thesis by (auto simp: Let_def)
qed

lemma linked_index:
  assumes "linked C chain" "chain \<noteq> []" "blk_Index (hd chain) = 0" "i < length chain"
  shows "blk_Index (chain ! i) = of_nat i"
  using assms(4)
proof (induction i)
  case 0
  then show ?case using assms(2,3) by (simp add: hd_conv_nth)
next
  case (Suc i)
  then have "follows C (chain ! i) (chain ! Suc i)"
    using assms(1) by (simp add: linked_def successively_conv_nth)
  then show ?case using Suc by (simp add: follows_def add.commute)
qed

lemma ParseInt_fmt_nat: "n < 2 ^ 63 \<Longrightarrow> ParseInt (fmt_nat n) = Inr (of_nat n)"
proof -
  assume n: "n < 2 ^ 63"
  obtain c cs where s: "fmt_nat n = c # cs" by (cases "fmt_nat n") auto
  then have "is_digit c" using fmt_nat_digits [of c n] by simp
  then have "c \<noteq> CHR ''+''" "c \<noteq> CHR ''-''" by (auto simp: is_digit_def)
  then show ?thesis
    using n parse_uint_loop_fmt_nat [of n] by (simp add: ParseInt_def s Let_def)
qed

text \<open>On a linked chain that starts with block 0, asking for \<open>/block/i\<close> returns the block at position
  \<open>i\<close>, with or without a trailing slash, and every other position is not found.\<close>

theorem RosettaBlockHandler_finds:
  assumes "linked C (bc_Chain bc)" "bc_Chain bc \<noteq> []" "blk_Index (hd (bc_Chain bc)) = 0"
    and "length (bc_Chain bc) < 2 ^ 63" "i < 2 ^ 63" "slash \<in> {[], ''/''}"
  shows "RosettaBlockHandler C json_tx (''/block/'' @ fmt_nat i @ slash) bc =
    (if i < length (bc_Chain bc) then Reply (rosetta_block C json_tx (bc_Chain bc ! i)) else Status StatusNotFound)"
proof -
  have no: "CHR ''/'' \<notin> set (fmt_nat i)" using fmt_nat_digits [of "CHR ''/''" i] by (auto simp: is_digit_def)
  then have rt: "TrimRight (CHR ''/'') (fmt_nat i @ slash) = fmt_nat i"
    using assms(6) by (cases "fmt_nat i" rule: rev_cases) (auto simp: TrimRight_def)
  have ne: "fmt_nat i @ slash \<noteq> ''/''" "fmt_nat i @ slash \<noteq> []"
    using no by (cases "fmt_nat i"; auto)+
  have idx: "blk_Index (bc_Chain bc ! j) = of_nat i \<longleftrightarrow> j = i" if "j < length (bc_Chain bc)" for j
    using linked_index [OF assms(1-3) that] that assms(4,5)
    by (auto simp: word_unat_eq_iff unat_of_nat take_bit_nat_eq_self)
  have "find (\<lambda>block. blk_Index block = of_nat i) (bc_Chain bc) =
      (if i < length (bc_Chain bc) then Some (bc_Chain bc ! i) else None)"
    using idx by (auto simp: find_Some_iff find_None_iff in_set_conv_nth)
  then show ?thesis
    using ne by (simp add: RosettaBlockHandler_def Let_def TrimPrefix_def rt split_at_none [OF no] ParseInt_fmt_nat [OF assms(5)])
qed

lemma demo_bank_linked: "linked demo_crypto (bc_Chain demo_bank)" "blk_Index (hd (bc_Chain demo_bank)) = 0"
    "length (bc_Chain demo_bank) = 1"
proof -
  obtain g where "bc_Chain demo_bank = [g]" "blk_Index g = 0"
    by (simp add: demo_bank_def demo_node_def demo_chain_def createGenesisBlock_def empty_Blockchain_def Let_def)
  then show "linked demo_crypto (bc_Chain demo_bank)" "blk_Index (hd (bc_Chain demo_bank)) = 0" "length (bc_Chain demo_bank) = 1"
    by (simp_all add: linked_def)
qed

theorem RosettaBlockHandler_finds_witness:
  "RosettaBlockHandler demo_crypto tx_ID ''/block/7/'' demo_bank = Status StatusNotFound"
proof -
  have "bc_Chain demo_bank \<noteq> []" using demo_bank_linked(3) by auto
  moreover have "fmt_nat 7 = ''7''" by (simp add: fmt_nat.simps digit_def char_of_def bit_0)
  ultimately show ?thesis
    using RosettaBlockHandler_finds [of demo_crypto demo_bank 7 "''/''" tx_ID] demo_bank_linked by simp
qed

section \<open>Submitted transactions\<close>

text \<open>A submission adds at most one transaction to the pending list and changes nothing else; a request
  whose body or transaction cannot be decoded, or is blank, is refused with status 400. The queue is not
  limited and no replay check is made.\<close>

theorem rosetta_submit_effect:
  "case RosettaConstructionSubmitHandler C E utrim unjson_tx body bc of (bc', r) \<Rightarrow>
     (\<exists>req tx. body = Ok req \<and> TrimSpace utrim (rq_Transaction req) \<noteq> [] \<and> unjson_tx (rq_Transaction req) = Ok tx \<and>
        bc' = bc\<lparr>bc_Pending := bc_Pending bc @ [submitted_tx E req bc tx]\<rparr> \<and>
        (if bc_Chain bc = [] then r = Panic ''index out of range [-1]'' else \<exists>rp. r = Ok (Reply rp))) \<or>
     bc' = bc \<and> r = Ok (Status StatusBadRequest)"
  by (cases body)
    (auto simp: RosettaConstructionSubmitHandler_def Let_def split: go.splits)

text \<open>A signed transaction does not survive submission: the handler overwrites the time, which the
  signature covers, so the queued transaction has other signing bytes unless it was signed in the very
  second in which it arrives.\<close>

theorem rosetta_submit_changes_signed_bytes:
  assumes "signable tx" "tx_Signature tx \<noteq> []" "tx_Timestamp tx \<noteq> env_now E"
  shows "CanonicalSigningBytes (submitted_tx E req bc tx) \<noteq> CanonicalSigningBytes tx"
proof
  assume eq: "CanonicalSigningBytes (submitted_tx E req bc tx) = CanonicalSigningBytes tx"
  have t: "tx_Timestamp (submitted_tx E req bc tx) = env_now E" and s: "signable (submitted_tx E req bc tx)"
    using assms(1,2) by (simp_all add: submitted_tx_def Let_def signable_def)
  from signing_payload_inj [OF assms(1) s eq [symmetric]]
  have "tx_Timestamp (submitted_tx E req bc tx) = tx_Timestamp tx" by (metis Transaction.select_convs(11) Transaction.update_convs(1,10) Transaction.surjective)
  then show False using t assms(3) by simp
qed

theorem rosetta_submit_changes_signed_bytes_witness:
  "CanonicalSigningBytes (submitted_tx (demo_env\<lparr>env_now := 9\<rparr>) \<lparr>rq_NetworkIdentifier = \<lparr>rni_Blockchain = [], rni_Network = []\<rparr>,
     rq_Transaction = ''{}'', rq_Signature = [], rq_PublicKeys = []\<rparr> demo_bank demo_tx) \<noteq> CanonicalSigningBytes demo_tx"
  by (rule rosetta_submit_changes_signed_bytes) (simp_all add: demo_tx_def signable_def no_zero_def zero_byte_def)

end
