(* ===== verification/Api_Server.thy ===== *)
theory Api_Server
  imports Genesis Encoding Http_Server P2P_Package Tokenomics Rosetta
begin

text \<open>
  The HTTP server of package \<open>api\<close> (\<open>api/api.go\<close>): settings, middleware, and one procedure for each handler that \<open>StartAPI\<close>
  registers. The rate limiter and the circuit breaker are, line for line, those of \<open>main.go\<close> (\<open>Node_Guard\<close>).

  \<^item> The server is a host (\<open>P2P_Package\<close>) with the limiter, the breaker and the keys that the idempotency
    middleware has seen. The mutex of the chain guards the host; the locks of limiter and breaker are
    taken and released inside one call.
  \<^item> The record \<open>api\<close> holds what is fixed while the server runs: settings, cryptography, the JSON decoders of the
    payload types, and trimming and lower case of text that is not ASCII. The record \<open>world\<close> holds what a request meets: the clock, the orders of
    maps, the key pair or identifier that is drawn, results of conversions that the language leaves open.
  \<^item> \<open>json.NewEncoder(w).Encode\<close> gets a value of type \<open>api_value\<close>; \<open>net/http\<close> recovers a panic of a handler. \<open>ServeMux\<close> is an
    association list of patterns; all other paths go to the file server.
\<close>

section \<open>Settings\<close>

record ServerConfig =
  sc_APIKey :: string
  sc_EnableAuth :: bool
  sc_RateLimit :: int
  sc_RateWindow :: int
  sc_EnableTLS :: bool
  sc_TLSCertFile :: string
  sc_TLSKeyFile :: string
  sc_MaxBodyBytes :: int
  sc_MetricsPath :: string
  sc_APIPort :: int
  sc_P2PPort :: int
  sc_DataDir :: string
  sc_Consensus :: string
  sc_StrictP2P :: bool
  sc_FaucetAmount :: u64

definition getEnvInt64OrDefault :: "(string \<Rightarrow> string) \<Rightarrow> string \<Rightarrow> int \<Rightarrow> int" where
  "getEnvInt64OrDefault env key fallback =
     (if env key \<noteq> [] then (case ParseInt (env key) of Inr parsed \<Rightarrow> sint parsed | Inl _ \<Rightarrow> fallback) else fallback)"

definition ServerConfigFromEnv :: "(string \<Rightarrow> string) \<Rightarrow> (string \<Rightarrow> string) \<Rightarrow> ServerConfig" where
  "ServerConfigFromEnv ulower env =
     \<lparr>sc_APIKey = getEnvOrDefault env ''TENDER_API_KEY'' [],
      sc_EnableAuth = getEnvBoolOrDefault env ''TENDER_ENABLE_AUTH'' True,
      sc_RateLimit = getEnvIntOrDefault env ''TENDER_RATE_LIMIT'' 60,
      sc_RateWindow = sint (word_of_int (getEnvIntOrDefault env ''TENDER_RATE_WINDOW_SECONDS'' 60) * 1000000000 :: i64),
      sc_EnableTLS = False, sc_TLSCertFile = [], sc_TLSKeyFile = [],
      sc_MaxBodyBytes = getEnvInt64OrDefault env ''TENDER_MAX_BODY_BYTES'' (2 ^ 20),
      sc_MetricsPath = getEnvOrDefault env ''TENDER_METRICS_PATH'' ''/metrics'',
      sc_APIPort = getEnvIntOrDefault env ''TENDER_API_PORT'' 8080,
      sc_P2PPort = getEnvIntOrDefault env ''TENDER_P2P_PORT'' 3030,
      sc_DataDir = getEnvOrDefault env ''TENDER_DATA_DIR'' ''./data'',
      sc_Consensus = ToLower ulower (getEnvOrDefault env ''TENDER_CONSENSUS'' ''pos''),
      sc_StrictP2P = getEnvBoolOrDefault env ''TENDER_STRICT_P2P'' True,
      sc_FaucetAmount = word_of_int (getEnvIntOrDefault env ''TENDER_FAUCET_AMOUNT'' 1000)\<rparr>"

definition api_requireAuth :: "(string \<Rightarrow> string) \<Rightarrow> http_request \<Rightarrow> ServerConfig \<Rightarrow> unit go" where
  "api_requireAuth utrim r cfg =
     (if \<not> sc_EnableAuth cfg then Ok ()
      else if sc_APIKey cfg = [] then Err ''missing api key''
      else let authorization = TrimSpace utrim (rq_Authorization r) in
        if authorization = [] then Err ''missing authorization''
        else if \<not> prefix ''Bearer '' authorization then Err ''invalid authorization scheme''
        else let provided = TrimPrefix authorization ''Bearer '' in
          if provided \<noteq> sc_APIKey cfg then Err ''invalid api key'' else Ok ())"

section \<open>Payloads and replies\<close>

record FinalityPayload =
  fp_Index :: u64
  fp_Voter :: string
  fp_Voters :: "string list"
  fp_Signatures :: "(string \<times> string \<times> string) list"

record RegisterPayload =
  rp_Address :: string
  rp_Stake :: u64
  rp_PublicKey :: string

record ModelPayload =
  mo_ID :: string
  mo_Owner :: string
  mo_Version :: string
  mo_Metadata :: string
  mo_PricePerCall :: u64
  mo_Active :: bool

record PurchasePayload =
  pu_Buyer :: string
  pu_ModelID :: string
  pu_Amount :: u64

record UniversalPayload =
  un_Name :: string
  un_Address :: string
  un_Label :: string
  un_Currency :: string

record UniversalTransferPayload =
  ut_From :: string
  ut_ToName :: string
  ut_Amount :: u64
  ut_Currency :: string

record ReversalPayload =
  rv_From :: string
  rv_To :: string
  rv_Amount :: u64
  rv_OriginalTxID :: string

record IngestMessage =
  ig_Type :: string
  ig_Block :: "json option"
  ig_Tx :: "json option"
  ig_FromNodeID :: string

text \<open>The JSON decoders of the payload types. A payload with one or two strings is decoded into these.\<close>

record api_json =
  aj_tx :: "reader \<Rightarrow> Transaction go"
  aj_block :: "reader \<Rightarrow> Block go"
  aj_finality :: "reader \<Rightarrow> FinalityPayload go"
  aj_index :: "reader \<Rightarrow> u64 go"
  aj_miner :: "reader \<Rightarrow> string go"
  aj_register :: "reader \<Rightarrow> RegisterPayload go"
  aj_model :: "reader \<Rightarrow> ModelPayload go"
  aj_purchase :: "reader \<Rightarrow> PurchasePayload go"
  aj_amount :: "reader \<Rightarrow> AmountPayload go"
  aj_universal :: "reader \<Rightarrow> UniversalPayload go"
  aj_universal_transfer :: "reader \<Rightarrow> UniversalTransferPayload go"
  aj_managed :: "reader \<Rightarrow> (string \<times> bool) go"
  aj_escrow :: "reader \<Rightarrow> EscrowPayload go"
  aj_reversal :: "reader \<Rightarrow> ReversalPayload go"
  aj_proposal :: "reader \<Rightarrow> (string \<times> string) go"
  aj_agreement :: "reader \<Rightarrow> AgreementPayload go"
  aj_usage :: "reader \<Rightarrow> (string \<times> u64) go"
  aj_ingest :: "reader \<Rightarrow> IngestMessage go"
  aj_tx_of_json :: "json \<Rightarrow> Transaction go"

datatype api_value =
    VStr string | VNum u64 | VLen nat | VBool bool | VFloat rat | VStrs "string list" | VFlags "(string, bool) fmap"
  | VTx Transaction | VTxs "Transaction list" | VBlock Block | VState nodeState | VAudit "AuditEntry list"
  | VLedger "(string, Account) fmap" | VRegistry "(string, ModelRef) fmap" | VValidators "(string, Validator) fmap"
  | VEscrow Escrow | VEscrows "(string, Escrow) fmap" | VProposal GovernanceProposal | VProposals "(string, GovernanceProposal) fmap"
  | VAgreement ServiceAgreement | VMeter UsageMeter | VUniversal UniversalWallet | VManaged ManagedWallet
  | VIndices "u64 fset" | VSignatures "(u64, FinalityVoteSignature list) fmap" | VObj "(string \<times> api_value) list"

section \<open>The server\<close>

record Server = Host +
  srv_limiter :: rateLimiter
  srv_cb :: circuitBreaker
  srv_seen :: "string fset"

record api =
  ap_cfg :: ServerConfig
  ap_C :: crypto
  ap_J :: api_json
  ap_utrim :: "string \<Rightarrow> string"
  ap_ulower :: "string \<Rightarrow> string"

record world =
  wo_E :: env
  wo_K :: choices
  wo_directory :: "string list"
  wo_wallet :: Wallet
  wo_random :: string
  wo_i64 :: "rat \<Rightarrow> i64"

type_synonym handler = "api \<Rightarrow> world \<Rightarrow> http_request \<Rightarrow> (Server guarded, api_value http_reply) proc"

definition wo_now :: "world \<Rightarrow> int" where
  "wo_now w = sint (env_nano (wo_E w))"

definition new_server :: "ServerConfig \<Rightarrow> Blockchain \<Rightarrow> PeerNode \<Rightarrow> Server" where
  "new_server cfg chain p2pNode = \<lparr>h_chain = chain, h_p2p = p2pNode,
     srv_limiter = newRateLimiter (sc_RateLimit cfg) (sc_RateWindow cfg), srv_cb = newCircuitBreaker 5 (seconds 10), srv_seen = {||}\<rparr>"

definition limiter_allow :: "world \<Rightarrow> string \<Rightarrow> (Server guarded, bool) proc" where
  "limiter_allow w key g =
     (case rl_allow (wo_now w) key (srv_limiter (g_val g)) of (rl, ok) \<Rightarrow> (Returned ok, g\<lparr>g_val := (g_val g)\<lparr>srv_limiter := rl\<rparr>\<rparr>))"

definition breaker_allow :: "world \<Rightarrow> (Server guarded, bool) proc" where
  "breaker_allow w g = (case cb_Allow (wo_now w) (srv_cb (g_val g)) of (cb, ok) \<Rightarrow> (Returned ok, g\<lparr>g_val := (g_val g)\<lparr>srv_cb := cb\<rparr>\<rparr>))"

definition rate_limited :: "world \<Rightarrow> http_request \<Rightarrow> (Server guarded, api_value http_reply) proc \<Rightarrow> (Server guarded, api_value http_reply) proc" where
  "rate_limited w r k = p_bind (limiter_allow w (rq_RemoteAddr r)) (\<lambda>ok.
     if \<not> ok then http_Error StatusTooManyRequests ''rate limit exceeded'' else k)"

abbreviation auth :: "api \<Rightarrow> http_request \<Rightarrow> unit go" where
  "auth A r \<equiv> api_requireAuth (ap_utrim A) r (ap_cfg A)"

abbreviation status_reply :: "string \<Rightarrow> (string \<times> api_value) list \<Rightarrow> (Server guarded, api_value http_reply) proc" where
  "status_reply status rest \<equiv> encode (VObj ((''status'', VStr status) # rest))"

end
