(* ===== verification/Api_Handlers.thy ===== *)
theory Api_Handlers
  imports Api_Server
begin

text \<open>
  The handlers of \<open>StartAPI\<close>, in the order of the code, each named after its path, the table of routes, and the middleware around it.
\<close>

section \<open>Chain, finality and mempool\<close>

definition h_health :: handler where
  "h_health A w r = status_reply ''ok'' []"

text \<open>The snapshot is taken under a read lock of its own.\<close>

definition h_api_chain :: handler where
  "h_api_chain A w r =
     p_bind (breaker_allow w) (\<lambda>ok.
     if \<not> ok then http_Error StatusServiceUnavailable ''circuit breaker open''
     else case auth A r of
       Err e \<Rightarrow> p_then (writes (\<lambda>s. s\<lparr>srv_cb := RecordFailure (wo_now w) (srv_cb s)\<rparr>)) (http_Error StatusUnauthorized e)
     | Panic e \<Rightarrow> p_panic e
     | Ok _ \<Rightarrow>
         p_bind (limiter_allow w (rq_RemoteAddr r)) (\<lambda>ok.
         if \<not> ok
         then p_then (writes (\<lambda>s. s\<lparr>srv_cb := RecordFailure (wo_now w) (srv_cb s)\<rparr>)) (http_Error StatusTooManyRequests ''rate limit exceeded'')
         else p_then (writes (\<lambda>s. s\<lparr>srv_cb := RecordSuccess (srv_cb s)\<rparr>))
             (p_then (writes (\<lambda>s. s\<lparr>h_chain := RecordRequest (wo_E w) True (h_chain s)\<rparr>))
             (p_bind (rlocked (reads (\<lambda>s. Snapshot (h_chain s)))) (\<lambda>snapshot. encode (VState snapshot))))))"

fun collect_voters :: "u64 \<Rightarrow> string list \<Rightarrow> (Server guarded, unit) proc" where
  "collect_voters i [] = p_ret ()"
| "collect_voters i (voter # voters) = p_then (chain_call (CollectFinalityVote i voter)) (collect_voters i voters)"

text \<open>Signatures are checked and recorded without the lock.\<close>

fun collect_signatures :: "crypto \<Rightarrow> u64 \<Rightarrow> (string \<times> string \<times> string) list \<Rightarrow> Blockchain \<Rightarrow> Blockchain" where
  "collect_signatures C i [] bc = bc"
| "collect_signatures C i ((voterHex, vote, signature) # ss) bc =
     (let v = \<lparr>fvs_BlockHash = TailHash bc, fvs_Voter = voterHex, fvs_Vote = vote, fvs_Signature = signature\<rparr> in
      collect_signatures C i ss
        (if VerifyFinalitySignature C v
         then bc\<lparr>bc_FinalitySignatures := fmupd i (map_get [] (bc_FinalitySignatures bc) i @ [v]) (bc_FinalitySignatures bc)\<rparr>
         else bc))"

definition h_finality :: handler where
  "h_finality A w r = authorized (auth A r)
     (if rq_Method r = ''POST'' then
        decoded (aj_finality (ap_J A)) r (\<lambda>payload.
          p_then (if fp_Voter payload \<noteq> [] then collect_voters (fp_Index payload) [fp_Voter payload] else p_ret ())
         (p_then (collect_voters (fp_Index payload) (fp_Voters payload))
         (p_then (writes (\<lambda>s. s\<lparr>h_chain := collect_signatures (ap_C A) (fp_Index payload) (fp_Signatures payload) (h_chain s)\<rparr>))
           (status_reply ''voted'' [(''signatures_received'', VLen (length (fp_Signatures payload)))]))))
      else
        rlocked (p_bind (reads h_chain) (\<lambda>bc.
          encode (VObj [(''last_finalized'', VNum (bc_LastFinalized bc)), (''finalized'', VIndices (bc_FinalizedBlocks bc)),
            (''signatures'', VSignatures (bc_FinalitySignatures bc))]))))"

text \<open>No middleware sets the value of the context, so the voter is the remote address.\<close>

definition h_finality_vote :: handler where
  "h_finality_vote A w r = authorized (auth A r) (only_post r
     (decoded (aj_index (ap_J A)) r (\<lambda>blockIndex.
        let voter = (case rq_ContextValidator r of Some v \<Rightarrow> if v \<noteq> [] then v else rq_RemoteAddr r | None \<Rightarrow> rq_RemoteAddr r) in
        p_then (chain_call (CollectFinalityVote blockIndex voter)) (status_reply ''voted'' [(''voter'', VStr voter)]))))"

definition h_audit :: handler where
  "h_audit A w r = rlocked (p_bind (reads h_chain) (\<lambda>bc. encode (VAudit (bc_AuditTrail bc))))"

definition h_monitoring :: handler where
  "h_monitoring A w r = authorized (auth A r) (rate_limited w r
     (rlocked (p_bind (reads (\<lambda>s. (h_chain s, h_p2p s))) (\<lambda>(bc, p).
        encode (VObj [(''height'', VLen (length (bc_Chain bc))), (''pending_transactions'', VLen (length (bc_Pending bc))),
          (''token_supply'', VNum (bc_TokenSupply bc)), (''audit_entries'', VLen (length (bc_AuditTrail bc))),
          (''peer_count'', VLen (length (pn_peers p))), (''trusted_peer_count'', VLen (map_len (pn_trustedPeers p))),
          (''strict_p2p'', VBool (pn_strictMode p)), (''consensus'', VStr (ConsensusName (bc_Consensus bc)))])))))"

definition h_mempool :: handler where
  "h_mempool A w r = rlocked (p_bind (reads h_chain) (\<lambda>bc. encode (VTxs (bc_Pending bc))))"

text \<open>\<open>/api/transactions\<close> and \<open>/api/transfer\<close> have the same body.\<close>

definition enqueue_and_save :: "world \<Rightarrow> Transaction \<Rightarrow> (Server guarded, unit) proc" where
  "enqueue_and_save w tx = p_then (chain_do (EnqueueTransaction (wo_E w) tx)) (save (wo_E w))"

definition h_transactions :: handler where
  "h_transactions A w r = authorized (auth A r) (rate_limited w r (only_post r
     (decoded (aj_tx (ap_J A)) r (\<lambda>tx. p_then (enqueue_and_save w tx) (encode (VTx tx))))))"

section \<open>Mining and validators\<close>

text \<open>Proof of work may never end; the lock is held while it runs.\<close>

definition h_mine :: handler where
  "h_mine A w r = only_post r
     (decoded (aj_miner (ap_J A)) r (\<lambda>minerAddress.
        or_fail StatusInternalServerError
          (locked (body (\<lambda>s. map_option (\<lambda>(bc, res). (s\<lparr>h_chain := bc\<rparr>, res)) (MineBlockFor (ap_C A) (wo_E w) (wo_K w) minerAddress (h_chain s)))))
          (\<lambda>block. encode (VBlock block))))"

definition h_miner_submit :: handler where
  "h_miner_submit A w r = only_post r
     (decoded (aj_block (ap_J A)) r (\<lambda>block.
        or_fail StatusBadRequest (chain_call (SubmitMinedBlock (ap_C A) (wo_E w) block))
          (\<lambda>_. status_reply ''accepted'' [(''hash'', VStr (blk_BlockHash block))])))"

text \<open>\<open>SelectValidator\<close> advances the counter of the authorities, here under a read lock.\<close>

definition select_validator :: "world \<Rightarrow> (Server guarded, string) proc" where
  "select_validator w g =
     (case SelectValidator (wo_K w) (h_chain (g_val g)) of (bc, v) \<Rightarrow> (Returned v, g\<lparr>g_val := (g_val g)\<lparr>h_chain := bc\<rparr>\<rparr>))"

definition h_validators :: handler where
  "h_validators A w r = rlocked (p_bind (select_validator w) (\<lambda>v. p_bind (reads h_chain) (\<lambda>bc.
     encode (VObj [(''consensus'', VStr (ConsensusName (bc_Consensus bc))), (''authorities'', VStrs (bc_Authorities bc)),
       (''next_validator'', VStr v), (''validators'', VValidators (bc_Validators bc))]))))"

definition h_validators_register :: handler where
  "h_validators_register A w r = only_post r
     (decoded (aj_register (ap_J A)) r (\<lambda>payload.
        or_fail StatusBadRequest
          (chain_call (RegisterValidator (wo_E w) (ch_validators (wo_K w)) (rp_Address payload) (rp_Stake payload) (rp_PublicKey payload)))
          (\<lambda>_. p_then (save (wo_E w)) (status_reply ''registered'' []))))"

definition h_bootstrap :: handler where
  "h_bootstrap A w r = p_bind (select_validator w) (\<lambda>v. p_bind (reads h_p2p) (\<lambda>p.
     encode (VObj [(''node'', VStr (pn_addr p)), (''peers'', VStrs (pn_peers p)), (''trusted'', VFlags (pn_trustedPeers p)), (''validator'', VStr v)])))"

section \<open>Registry\<close>

definition h_registry :: handler where
  "h_registry A w r = rlocked (p_bind (reads h_chain) (\<lambda>bc. encode (VRegistry (bc_Registry bc))))"

definition h_registry_register :: handler where
  "h_registry_register A w r = authorized (auth A r) (rate_limited w r (only_post r
     (decoded (aj_model (ap_J A)) r (\<lambda>payload.
        p_then (chain_do (RegisterModel_op (wo_E w) (mo_Owner payload) (mo_ID payload) (mo_Version payload) (mo_Metadata payload)
                  (mo_PricePerCall payload) (mo_Active payload)))
       (p_then (save (wo_E w)) (status_reply ''registered'' [(''id'', VStr (mo_ID payload))]))))))"

text \<open>The payload of an update has no field \<open>active\<close>; the value that the decoder yields there is not used.\<close>

definition h_registry_update :: handler where
  "h_registry_update A w r = authorized (auth A r) (rate_limited w r (only_post r
     (decoded (aj_model (ap_J A)) r (\<lambda>payload.
        p_then (chain_do (UpdateModel_op (wo_E w) (mo_Owner payload) (mo_ID payload) (mo_Version payload) (mo_Metadata payload) (mo_PricePerCall payload)))
       (p_then (save (wo_E w)) (status_reply ''updated'' [(''id'', VStr (mo_ID payload))]))))))"

definition h_registry_purchase :: handler where
  "h_registry_purchase A w r = authorized (auth A r) (rate_limited w r (only_post r
     (decoded (aj_purchase (ap_J A)) r (\<lambda>payload.
        p_then (chain_do (PurchaseApiKey_op (wo_E w) (pu_Buyer payload) (pu_ModelID payload) (pu_Amount payload)))
       (p_then (save (wo_E w)) (status_reply ''purchased'' [(''model_id'', VStr (pu_ModelID payload))]))))))"

section \<open>Accounts and wallets\<close>

definition h_accounts :: handler where
  "h_accounts A w r = rlocked (p_bind (reads h_chain) (\<lambda>bc. encode (VLedger (bc_Ledger bc))))"

definition h_stake :: handler where
  "h_stake A w r = only_post r
     (decoded (aj_amount (ap_J A)) r (\<lambda>payload.
        p_then (chain_do (Stake (wo_E w) (am_Address payload) (am_Amount payload)))
       (p_then (save (wo_E w)) (encode (VObj [(''address'', VStr (am_Address payload)), (''amount'', VNum (am_Amount payload))])))))"

definition h_wallet :: handler where
  "h_wallet A w r =
     (let address = wallet_Address (ap_C A) (wo_wallet w) in
      p_then (chain_do (AddAccount (wo_E w) address 1000 False))
     (p_then (save (wo_E w)) (encode (VObj [(''address'', VStr address), (''public_key'', VStr (EncodeToString (w_PublicKey (wo_wallet w))))]))))"

definition h_universal_register :: handler where
  "h_universal_register A w r = rate_limited w r (only_post r
     (decoded (aj_universal (ap_J A)) r (\<lambda>payload.
        or_fail StatusBadRequest
          (chain_call (RegisterUniversalWallet (ap_ulower A) (ap_utrim A) (wo_E w) (wo_directory w) (un_Name payload) (un_Address payload) (un_Label payload) (un_Currency payload)))
          (\<lambda>uw. p_then (save (wo_E w)) (encode (VUniversal uw))))))"

definition h_universal_lookup :: handler where
  "h_universal_lookup A w r =
     (let name = TrimSpace (ap_utrim A) (rq_Query r ''name'') in
      if name = [] then http_Error StatusBadRequest ''missing name''
      else or_fail StatusNotFound (rlocked (body (on_chain (\<lambda>bc. (bc, LookupWallet (ap_ulower A) (ap_utrim A) name bc))))) (\<lambda>uw. encode (VUniversal uw)))"

definition h_universal_transfer :: handler where
  "h_universal_transfer A w r = rate_limited w r (only_post r
     (decoded (aj_universal_transfer (ap_J A)) r (\<lambda>payload.
        or_fail StatusBadRequest
          (chain_call (UniversalTransfer (ap_ulower A) (ap_utrim A) (wo_E w) (ut_From payload) (ut_ToName payload) (ut_Currency payload) (ut_Amount payload)))
          (\<lambda>uw. p_then (save (wo_E w)) (status_reply ''transferred'' [(''recipient'', VUniversal uw)])))))"

text \<open>The read lock around the balance is not deferred: if the account were missing, the panic would leave it held.\<close>

definition h_faucet :: handler where
  "h_faucet A w r = rate_limited w r (only_post r
     (decoded (aj_amount (ap_J A)) r (\<lambda>payload.
        if am_Address payload = [] then http_Error StatusBadRequest ''missing address''
        else let amount = (if am_Amount payload = 0 then sc_FaucetAmount (ap_cfg A) else am_Amount payload) in
          p_then (chain_do (FundAccount (wo_E w) (am_Address payload) amount))
         (p_then RLock
         (p_bind (reads (\<lambda>s. fmlookup (bc_Ledger (h_chain s)) (am_Address payload))) (\<lambda>account.
            case account of
              None \<Rightarrow> p_panic ''invalid memory address or nil pointer dereference''
            | Some acct \<Rightarrow>
                p_then RUnlock
                 (encode (VObj [(''address'', VStr (am_Address payload)), (''amount'', VNum amount), (''amount_formatted'', VStr (FormatAmount amount)),
                    (''balance'', VNum (acct_Balance acct)), (''balance_formatted'', VStr (FormatAmount (acct_Balance acct)))]))))))))"

text \<open>The handler takes the lock and then calls \<open>AddAccount\<close>, which takes it.\<close>

definition h_admin_mint :: handler where
  "h_admin_mint A w r = only_post r
     (decoded (aj_amount (ap_J A)) r (\<lambda>payload.
        if am_Address payload = [] \<or> am_Amount payload = 0 then http_Error StatusBadRequest ''missing address or amount''
        else p_then Lock (p_bind (reads (\<lambda>s. bc_TokenSupply (h_chain s))) (\<lambda>supply.
          if MaxSupply < supply + am_Amount payload
          then p_then Unlock (http_Error StatusBadRequest ''mint would exceed max supply'')
          else p_then (chain_do (AddAccount (wo_E w) (am_Address payload) (am_Amount payload) False))
              (p_then (writes (\<lambda>s. s\<lparr>h_chain := (h_chain s)\<lparr>bc_TokenSupply := bc_TokenSupply (h_chain s) + am_Amount payload\<rparr>\<rparr>))
              (p_then Unlock
              (p_then (save (wo_E w))
                (encode (VObj [(''address'', VStr (am_Address payload)), (''amount'', VNum (am_Amount payload)), (''status'', VStr ''minted'')])))))))))"

definition h_token :: handler where
  "h_token A w r = encode (VObj [(''currency_name'', VStr CurrencyName), (''currency_symbol'', VStr CurrencySymbol), (''currency_subunit'', VStr ''HOGOHOGO''),
     (''subunit_factor'', VNum HogohogoPerTender), (''base_fee'', VNum BaseFee), (''base_fee_formatted'', VStr (FormatAmount BaseFee)),
     (''burn_rate_percent'', VNum BurnRatePercent), (''reward_rate_percent'', VNum RewardRatePercent)])"

definition h_managed_wallets :: handler where
  "h_managed_wallets A w r = only_post r
     (decoded (aj_managed (ap_J A)) r (\<lambda>(label, isAgent).
        or_fail StatusBadRequest (chain_call (CreateManagedWallet (ap_C A) (wo_E w) (wo_wallet w) label isAgent))
          (\<lambda>wallet. p_then (save (wo_E w)) (encode (VManaged wallet)))))"

section \<open>Transfers, escrow and reversals\<close>

definition h_transfer :: handler where
  "h_transfer A w r = authorized (auth A r) (rate_limited w r (only_post r
     (decoded (aj_tx (ap_J A)) r (\<lambda>payload. p_then (enqueue_and_save w payload) (encode (VTx payload))))))"

text \<open>\<open>io.ReadAll\<close> yields the bytes, or the error of the reader.\<close>

definition h_transfer_binary :: handler where
  "h_transfer_binary A w r = authorized (auth A r) (rate_limited w r (only_post r
     (if snd (rq_Body r) \<noteq> [] then http_Error StatusBadRequest (snd (rq_Body r))
      else decoded (\<lambda>(data, err). DecodeTransactionBinary data) r (\<lambda>tx. p_then (enqueue_and_save w tx) (encode (VTx tx))))))"

definition h_escrow :: handler where
  "h_escrow A w r = only_post r
     (decoded (aj_escrow (ap_J A)) r (\<lambda>payload.
        or_fail StatusBadRequest (chain_call (CreateEscrow (wo_E w) (ep_From payload) (ep_To payload) (ep_Amount payload) (ep_ServiceID payload)))
          (\<lambda>escrow. p_then (save (wo_E w)) (encode (VEscrow escrow)))))"

definition zero_tx :: Transaction where
  "zero_tx = \<lparr>tx_ID = [], tx_From = [], tx_FromPubKey = [], tx_To = [], tx_Amount = 0, tx_Fee = 0, tx_Nonce = 0, tx_TxType = [], tx_Payload = [],
     tx_Signature = [], tx_Timestamp = 0, tx_ChainID = []\<rparr>"

definition h_reversals_request :: handler where
  "h_reversals_request A w r = only_post r
     (decoded (aj_reversal (ap_J A)) r (\<lambda>payload.
        p_then (enqueue_and_save w (zero_tx\<lparr>tx_From := rv_From payload, tx_To := rv_To payload, tx_Amount := rv_Amount payload,
                  tx_TxType := RequestReversal, tx_Payload := rv_OriginalTxID payload\<rparr>))
          (status_reply ''reversal_requested'' [(''original_tx'', VStr (rv_OriginalTxID payload))])))"

text \<open>The payloads of the next two have only the fields \<open>from\<close> and \<open>original_tx_id\<close>.\<close>

definition h_reversals_confirm :: handler where
  "h_reversals_confirm A w r = only_post r
     (decoded (aj_reversal (ap_J A)) r (\<lambda>payload.
        p_then (enqueue_and_save w (zero_tx\<lparr>tx_From := rv_From payload, tx_To := rv_From payload, tx_Amount := 0,
                  tx_TxType := ConfirmReversal, tx_Payload := rv_OriginalTxID payload\<rparr>))
          (status_reply ''reversal_confirmed'' [(''original_tx'', VStr (rv_OriginalTxID payload))])))"

definition h_reversals_commit :: handler where
  "h_reversals_commit A w r = only_post r
     (decoded (aj_reversal (ap_J A)) r (\<lambda>payload.
        p_then (enqueue_and_save w (zero_tx\<lparr>tx_From := rv_From payload, tx_To := rv_From payload, tx_Amount := 0,
                  tx_TxType := CommitReversal, tx_Payload := rv_OriginalTxID payload\<rparr>))
          (status_reply ''reversal_committed'' [(''original_tx'', VStr (rv_OriginalTxID payload))])))"

section \<open>Governance and metering\<close>

definition h_proposals :: handler where
  "h_proposals A w r = only_post r
     (decoded (aj_proposal (ap_J A)) r (\<lambda>(title, description).
        or_fail StatusOK (chain_call (\<lambda>bc. case CreateProposal (wo_E w) title description bc of (bc, p) \<Rightarrow> (bc, Ok p)))
          (\<lambda>proposal. p_then (save (wo_E w)) (encode (VProposal proposal)))))"

definition h_agreements :: handler where
  "h_agreements A w r = only_post r
     (decoded (aj_agreement (ap_J A)) r (\<lambda>payload.
        or_fail StatusBadRequest
          (chain_call (CreateServiceAgreement (wo_E w) (ag_Provider payload) (ag_Consumer payload) (ag_ModelID payload) (ag_PricePerCall payload) (ag_MaxCalls payload)))
          (\<lambda>agreement. p_then (save (wo_E w)) (encode (VAgreement agreement)))))"

definition h_usage :: handler where
  "h_usage A w r = only_post r
     (decoded (aj_usage (ap_J A)) r (\<lambda>(agreementID, usageCount).
        or_fail StatusBadRequest (chain_call (RecordUsage agreementID usageCount))
          (\<lambda>meter. p_then (save (wo_E w)) (encode (VMeter meter)))))"

section \<open>Demand figures\<close>

definition h_tokenomics :: handler where
  "h_tokenomics A w r = rlocked (p_bind (reads h_chain) (\<lambda>bc.
     let agentBaseDemand = 1000000 :: u64;
         agentGrowth = fl (1 / 20);
         agentDemand = agentBaseDemand +
           u64_of_float (ch_oor (wo_K w)) (fl (fl (float_of_u64 agentBaseDemand * agentGrowth) * float_of_u64 (bc_AgentTxCount bc)));
         deflPressure = (if 0 < bc_TokenSupply bc
           then (if 5000000000 < bc_TokenSupply bc then fl (float_of_u64 BurnRatePercent * (3 / 2)) else float_of_u64 BurnRatePercent) else 0);
         humanScore = (if 0 < deflPressure then fl (float_of_u64 agentDemand / deflPressure)
           else if 0 < agentDemand then float_of_u64 agentDemand else 0)
     in encode (VObj [(''currency'', VStr CurrencySymbol), (''token_supply'', VNum (bc_TokenSupply bc)), (''burn_rate_percent'', VNum BurnRatePercent),
          (''reward_rate_percent'', VNum RewardRatePercent), (''base_fee'', VNum BaseFee), (''escrows'', VEscrows (bc_Escrows bc)),
          (''proposals'', VProposals (bc_Proposals bc)), (''agent_tx_count'', VNum (bc_AgentTxCount bc)), (''agent_demand_pressure'', VNum agentDemand),
          (''deflationary_pressure'', VFloat deflPressure), (''human_value_score'', VFloat humanScore)])))"

section \<open>Messages from the libp2p bridge\<close>

text \<open>The conversion \<open>int64(ts)\<close>; out of range it is open.\<close>

definition to_i64 :: "(rat \<Rightarrow> i64) \<Rightarrow> rat \<Rightarrow> i64" where
  "to_i64 oor f = (let t = (if 0 \<le> f then \<lfloor>f\<rfloor> else \<lceil>f\<rceil>) in if - (2 ^ 63) \<le> t \<and> t < 2 ^ 63 then word_of_int t else oor f)"

fun enqueue_ingested :: "api \<Rightarrow> world \<Rightarrow> json list \<Rightarrow> (Server guarded, unit) proc" where
  "enqueue_ingested A w [] = p_ret ()"
| "enqueue_ingested A w (JObj fs # txs) =
     p_then (case aj_tx_of_json (ap_J A) (JObj fs) of Ok tx \<Rightarrow> chain_do (EnqueueTransaction (wo_E w) tx) | _ \<Rightarrow> p_ret ()) (enqueue_ingested A w txs)"
| "enqueue_ingested A w (_ # txs) = enqueue_ingested A w txs"

definition fill_block :: "world \<Rightarrow> json \<Rightarrow> Block \<Rightarrow> Block" where
  "fill_block w j b =
     (let b = b\<lparr>blk_BlockHash := str_of_json (json_field j ''block_hash''), blk_Author := str_of_json (json_field j ''author'')\<rparr>;
          b = (case json_field j ''timestamp'' of Some (JNum ts) \<Rightarrow> b\<lparr>blk_Timestamp := to_i64 (wo_i64 w) ts\<rparr> | _ \<Rightarrow> b)
      in b\<lparr>blk_PreviousHash := str_of_json (json_field j ''previous_hash'')\<rparr>)"

text \<open>The index is compared as a signed number and used as an unsigned one.\<close>

definition ingest_block :: "api \<Rightarrow> world \<Rightarrow> json \<Rightarrow> (Server guarded, unit) proc" where
  "ingest_block A w j =
     (case json_field j ''index'' of
        Some (JNum f) \<Rightarrow>
          (let idx = to_u64 (ch_oor (wo_K w)) f in
           p_bind (reads (\<lambda>s. bc_Chain (h_chain s))) (\<lambda>chain.
             if sint idx < int (length chain) then
               (if length chain \<le> unat idx then p_panic ''index out of range''
                else let b = chain ! unat idx in
                  if blk_BlockHash b = [] then
                    p_then (case json_field j ''transactions'' of Some (JArr txs) \<Rightarrow> enqueue_ingested A w txs | _ \<Rightarrow> p_ret ())
                   (p_then (writes (\<lambda>s. s\<lparr>h_chain := (h_chain s)\<lparr>bc_Chain := (bc_Chain (h_chain s))[unat idx := fill_block w j b]\<rparr>\<rparr>))
                     (save (wo_E w)))
                  else p_ret ())
             else p_ret ()))
      | _ \<Rightarrow> p_ret ())"

definition ingest_tx :: "api \<Rightarrow> world \<Rightarrow> json \<Rightarrow> (Server guarded, unit) proc" where
  "ingest_tx A w j = (case aj_tx_of_json (ap_J A) j of Ok tx \<Rightarrow> chain_do (EnqueueTransaction (wo_E w) tx) | _ \<Rightarrow> p_ret ())"

definition h_ingest :: handler where
  "h_ingest A w r = only_post r
     (decoded (aj_ingest (ap_J A)) r (\<lambda>msg.
        p_then Lock
       (p_then (if ig_Type msg = ''block'' then (case ig_Block msg of Some j \<Rightarrow> ingest_block A w j | None \<Rightarrow> p_ret ())
                else if ig_Type msg = ''tx'' then (case ig_Tx msg of Some j \<Rightarrow> ingest_tx A w j | None \<Rightarrow> p_ret ())
                else p_ret ())
       (p_then Unlock (status_reply ''accepted'' [(''from'', VStr (ig_FromNodeID msg))])))))"

section \<open>Routes and middleware\<close>

definition api_routes :: "(string \<times> handler) list" where
  "api_routes = [
     (''/health'', h_health), (''/api/chain'', h_api_chain), (''/api/finality'', h_finality), (''/api/finality/vote'', h_finality_vote),
     (''/api/audit'', h_audit), (''/api/monitoring'', h_monitoring), (''/api/mempool'', h_mempool), (''/api/transactions'', h_transactions),
     (''/api/mine'', h_mine), (''/api/miner/submit'', h_miner_submit), (''/api/validators'', h_validators),
     (''/api/validators/register'', h_validators_register), (''/api/bootstrap'', h_bootstrap), (''/api/registry'', h_registry),
     (''/api/registry/register'', h_registry_register), (''/api/registry/update'', h_registry_update), (''/api/registry/purchase'', h_registry_purchase),
     (''/api/accounts'', h_accounts), (''/api/stake'', h_stake), (''/api/wallet'', h_wallet), (''/api/universal/register'', h_universal_register),
     (''/api/universal/lookup'', h_universal_lookup), (''/api/universal/transfer'', h_universal_transfer), (''/api/faucet'', h_faucet),
     (''/api/admin/mint'', h_admin_mint), (''/api/token'', h_token), (''/api/managed-wallets'', h_managed_wallets), (''/api/transfer'', h_transfer),
     (''/api/transfer-binary'', h_transfer_binary), (''/api/escrow'', h_escrow), (''/api/reversals/request'', h_reversals_request),
     (''/api/reversals/confirm'', h_reversals_confirm), (''/api/reversals/commit'', h_reversals_commit), (''/api/proposals'', h_proposals),
     (''/api/agreements'', h_agreements), (''/api/usage'', h_usage), (''/api/tokenomics'', h_tokenomics), (''/api/p2p/libp2p/ingest'', h_ingest)]"

definition api_mux :: handler where
  "api_mux A w r = (case map_of api_routes (rq_Path r) of Some h \<Rightarrow> h A w r | None \<Rightarrow> p_ret (ServedFile (rq_Path r)))"

definition maxBodyMiddleware :: "int \<Rightarrow> handler \<Rightarrow> handler" where
  "maxBodyMiddleware limit nxt A w r =
     (if 0 < limit \<and> 0 < rq_ContentLength r \<and> limit < rq_ContentLength r
      then http_Error StatusRequestEntityTooLarge ''request body too large''
      else nxt A w (if 0 < limit then r\<lparr>rq_Body := MaxBytesReader limit (rq_Body r)\<rparr> else r))"

text \<open>The key is recorded before the request is handled.\<close>

definition idempotencyMiddleware :: "handler \<Rightarrow> handler" where
  "idempotencyMiddleware nxt A w r =
     (if rq_IdempotencyKey r = [] then nxt A w r
      else p_bind (reads (\<lambda>s. rq_IdempotencyKey r |\<in>| srv_seen s)) (\<lambda>seen.
        if seen then http_Error StatusConflict ''duplicate idempotency key''
        else p_then (writes (\<lambda>s. s\<lparr>srv_seen := finsert (rq_IdempotencyKey r) (srv_seen s)\<rparr>)) (nxt A w r)))"

text \<open>\<open>newRequestID\<close> encodes sixteen random bytes. The identifier goes into the header of the reply and the context of the request.\<close>

definition newRequestID :: "world \<Rightarrow> string" where
  "newRequestID w = EncodeToString (wo_random w)"

definition requestIDMiddleware :: "handler \<Rightarrow> handler" where
  "requestIDMiddleware nxt A w r =
     (let i = (if rq_RequestID r = [] then newRequestID w else rq_RequestID r) in nxt A w (r\<lparr>rq_RequestID := i\<rparr>))"

definition StartAPI :: handler where
  "StartAPI A = requestIDMiddleware (idempotencyMiddleware (maxBodyMiddleware (sc_MaxBodyBytes (ap_cfg A)) api_mux)) A"

section \<open>Examples\<close>

text \<open>A server whose decoders accept every body.\<close>

definition demo_payload :: AmountPayload where
  "demo_payload = \<lparr>am_Address = ''a'', am_Amount = 7\<rparr>"

definition demo_ingest :: IngestMessage where
  "demo_ingest = \<lparr>ig_Type = ''block'', ig_Block = Some (JObj [(''index'', JNum (2 ^ 63))]), ig_Tx = None, ig_FromNodeID = ''n''\<rparr>"

definition demo_config :: ServerConfig where
  "demo_config = ServerConfigFromEnv (\<lambda>s. s) (\<lambda>_. [])"

definition demo_json :: api_json where
  "demo_json = \<lparr>aj_tx = \<lambda>_. Err [], aj_block = \<lambda>_. Err [], aj_finality = \<lambda>_. Err [], aj_index = \<lambda>_. Err [], aj_miner = \<lambda>_. Err [],
     aj_register = \<lambda>_. Err [], aj_model = \<lambda>_. Err [], aj_purchase = \<lambda>_. Err [], aj_amount = \<lambda>_. Ok demo_payload, aj_universal = \<lambda>_. Err [],
     aj_universal_transfer = \<lambda>_. Err [], aj_managed = \<lambda>_. Err [], aj_escrow = \<lambda>_. Err [], aj_reversal = \<lambda>_. Err [], aj_proposal = \<lambda>_. Err [],
     aj_agreement = \<lambda>_. Err [], aj_usage = \<lambda>_. Err [], aj_ingest = \<lambda>_. Ok demo_ingest, aj_tx_of_json = \<lambda>_. Err []\<rparr>"

definition demo_api :: api where
  "demo_api = \<lparr>ap_cfg = demo_config, ap_C = demo_crypto, ap_J = demo_json, ap_utrim = \<lambda>s. s, ap_ulower = \<lambda>s. s\<rparr>"

definition demo_world :: world where
  "demo_world = \<lparr>wo_E = demo_env, wo_K = demo_choices, wo_directory = [], wo_wallet = demo_wallet, wo_random = [], wo_i64 = \<lambda>_. 0\<rparr>"

definition demo_request :: "string \<Rightarrow> string \<Rightarrow> http_request" where
  "demo_request m p = \<lparr>rq_Method = m, rq_Path = p, rq_RemoteAddr = ''c'', rq_Authorization = [], rq_RequestID = [], rq_IdempotencyKey = [],
     rq_ContentLength = 0, rq_Body = ([], []), rq_Query = \<lambda>_. [], rq_ContextValidator = None\<rparr>"

definition demo_server :: "Server guarded" where
  "demo_server = free (new_server demo_config demo_chain (NewP2PNode ''a'' [] True))"

end
