(* ===== verification/Api_Properties.thy ===== *)
theory Api_Properties
  imports Api_Handlers
begin

text \<open>
  What the HTTP server of package \<open>api\<close> guarantees: which requests are always answered, which protect the node by a key, what repeated
  and oversized requests do.
\<close>

section \<open>Lock rules of the building blocks\<close>

lemma server_steady [lock_rules]:
  "steady (limiter_allow w k)" "steady (breaker_allow w)" "steady (select_validator w)" "steady (save E)"
  by (simp_all add: steady_def limiter_allow_def breaker_allow_def select_validator_def save_def writes_def split: prod.splits)

lemmas server_releases [lock_rules] = server_steady [THEN releases_steady]

lemma rate_limited_rules [lock_rules]: "releases k \<Longrightarrow> releases (rate_limited w r k)"
  unfolding rate_limited_def by (intro lock_rules) auto

lemma collect_voters_rules [lock_rules]: "releases (collect_voters i vs)"
  by (induction vs) (auto intro!: lock_rules)

lemma enqueue_and_save_rules [lock_rules]: "releases (enqueue_and_save w tx)"
  unfolding enqueue_and_save_def by (intro lock_rules)

lemma prod_case_rules [lock_rules]:
  "releases (f (fst p) (snd p)) \<Longrightarrow> releases (case p of (a, b) \<Rightarrow> f a b)" "steady (f (fst p) (snd p)) \<Longrightarrow> steady (case p of (a, b) \<Rightarrow> f a b)"
  "frozen view (f (fst p) (snd p)) \<Longrightarrow> frozen view (case p of (a, b) \<Rightarrow> f a b)"
  by (simp_all add: case_prod_unfold)

lemma body_on_chain [lock_rules]: "steady (body (on_chain f))"
  by (intro lock_rules) (simp add: on_chain_def case_prod_unfold)

section \<open>Requests that are always answered\<close>

lemma FundAccount_exists: "fmlookup (bc_Ledger (FundAccount E a n bc)) a \<noteq> None"
  by (auto simp: FundAccount_def Let_def frame appendAuditEntry_def credit_def modify_account_def split: option.splits)

text \<open>The balance is read under a lock that is released because the account exists.\<close>

lemma faucet_balance_releases:
  fixes k :: "Account \<Rightarrow> (Server guarded, 'a) proc"
  assumes "\<And>acct. releases (k acct)"
  shows "releases (p_then (chain_do (FundAccount E a n))
    (p_then RLock (p_bind (reads (\<lambda>s. fmlookup (bc_Ledger (h_chain s)) a)) (\<lambda>account.
       case account of None \<Rightarrow> p_panic e | Some acct \<Rightarrow> p_then RUnlock (k acct)))))"
proof (rule releasesI)
  fix g r g'
  assume run: "(p_then (chain_do (FundAccount E a n)) (p_then RLock (p_bind (reads (\<lambda>s. fmlookup (bc_Ledger (h_chain s)) a)) (\<lambda>account.
       case account of None \<Rightarrow> p_panic e | Some acct \<Rightarrow> p_then RUnlock (k acct))))) (g :: Server guarded) = (r, g')"
    and fr: "mu_free (g_mu g)"
  let ?g = "g\<lparr>g_val := (g_val g)\<lparr>h_chain := FundAccount E a n (h_chain (g_val g))\<rparr>\<rparr>"
  obtain acct where acct: "fmlookup (bc_Ledger (FundAccount E a n (h_chain (g_val g)))) a = Some acct"
    using FundAccount_exists by blast
  have mu: "(g_mu g)\<lparr>mu_writer := False\<rparr> = g_mu g" "(g_mu g)\<lparr>mu_readers := 0\<rparr> = g_mu g" "\<not> mu_waiting (g_mu g)" "\<not> mu_writer (g_mu g)" "mu_readers (g_mu g) = 0"
    using fr by (simp_all add: mu_free_eq)
  have d: "chain_do (FundAccount E a n) g = (Returned (), ?g)"
    using mu by (simp add: chain_do_def locked_free(1) [OF fr] p_defer_def writes_def unlock_def)
  have "(r, g') = k acct ?g"
    using run mu acct by (simp add: p_then_def p_bind_def d RLock_def reads_def RUnlock_def runlock_def)
  then show "r \<noteq> Blocked \<and> mu_free (g_mu g')"
    using releasesD [OF assms, of acct ?g r g'] fr by simp
qed

lemmas handler_defs = h_health_def h_api_chain_def h_finality_def h_finality_vote_def h_audit_def h_monitoring_def h_mempool_def
  h_transactions_def h_miner_submit_def h_validators_def h_validators_register_def h_bootstrap_def h_registry_def h_registry_register_def
  h_registry_update_def h_registry_purchase_def h_accounts_def h_stake_def h_wallet_def h_universal_register_def h_universal_lookup_def
  h_universal_transfer_def h_token_def h_managed_wallets_def h_transfer_def h_transfer_binary_def h_escrow_def
  h_reversals_request_def h_reversals_confirm_def h_reversals_commit_def h_proposals_def h_agreements_def h_usage_def h_tokenomics_def

lemma releases_faucet: "releases (h_faucet A w r)"
  unfolding h_faucet_def Let_def
  by (rule rate_limited_rules check_rules(1) check_rules(5) if_locks(2) faucet_balance_releases releases_basic)+

lemma releases_chain_handler: "releases (h_api_chain A w r)"
  unfolding h_api_chain_def by (intro lock_rules) (auto intro!: lock_rules split: go.splits)

lemma releases_handlers:
  "releases (h_health A w r)" "releases (h_finality A w r)" "releases (h_finality_vote A w r)" "releases (h_audit A w r)"
  "releases (h_monitoring A w r)" "releases (h_mempool A w r)" "releases (h_transactions A w r)" "releases (h_miner_submit A w r)"
  "releases (h_validators A w r)" "releases (h_validators_register A w r)" "releases (h_bootstrap A w r)" "releases (h_registry A w r)"
  "releases (h_registry_register A w r)" "releases (h_registry_update A w r)" "releases (h_registry_purchase A w r)" "releases (h_accounts A w r)"
  "releases (h_stake A w r)" "releases (h_wallet A w r)" "releases (h_universal_register A w r)" "releases (h_universal_lookup A w r)"
  "releases (h_universal_transfer A w r)" "releases (h_token A w r)" "releases (h_managed_wallets A w r)" "releases (h_transfer A w r)"
  "releases (h_transfer_binary A w r)" "releases (h_escrow A w r)" "releases (h_reversals_request A w r)" "releases (h_reversals_confirm A w r)"
  "releases (h_reversals_commit A w r)" "releases (h_proposals A w r)" "releases (h_agreements A w r)" "releases (h_usage A w r)" "releases (h_tokenomics A w r)"
  unfolding handler_defs Let_def by (intro lock_rules; auto intro!: lock_rules)+

text \<open>The requests that are always answered: all but those to three routes. Mining may search for a nonce forever; the other two
  are the subject of the theory \<open>Api_Stop\<close>.\<close>

definition answered :: "http_request \<Rightarrow> bool" where
  "answered r \<longleftrightarrow> rq_Path r \<notin> {''/api/mine'', ''/api/admin/mint'', ''/api/p2p/libp2p/ingest''}"

lemma releases_mux:
  assumes "answered r"
  shows "releases (api_mux A w r)"
proof -
  have "releases (h A w r)" if "map_of api_routes (rq_Path r) = Some h" for h
    using map_of_SomeD [OF that] assms
    by (auto simp: api_routes_def answered_def releases_handlers releases_faucet releases_chain_handler)
  then show ?thesis
    by (auto simp: api_mux_def intro: lock_rules split: option.splits)
qed

lemma releases_StartAPI: "answered r \<Longrightarrow> releases (StartAPI A w r)"
  unfolding StartAPI_def requestIDMiddleware_def idempotencyMiddleware_def maxBodyMiddleware_def Let_def
  by (intro lock_rules) (auto intro!: lock_rules releases_mux simp: answered_def)

definition on_request :: "api \<Rightarrow> world \<times> http_request \<Rightarrow> (Server guarded, api_value http_reply) proc" where
  "on_request A = (\<lambda>(w, r). StartAPI A w r)"

interpretation api_answers: answering_server "on_request A" "\<lambda>(w, r). answered r" for A
  by unfold_locales (auto simp: on_request_def intro: releases_StartAPI)

text \<open>C20. Whatever requests were served before, none of them to \<open>/api/mine\<close>, \<open>/api/admin/mint\<close> or \<open>/api/p2p/libp2p/ingest\<close>, the next request to another path is answered: it
  returns a reply or panics, which ends only that request, and it never waits for the lock of the chain.\<close>

theorem api_requests_are_answered:
  assumes "list_all (\<lambda>(w, r). answered r) rs" "answered r"
  shows "fst (StartAPI A w r (serve_all (on_request A) rs (free (new_server (ap_cfg A) bc p)))) \<noteq> Blocked"
  using api_answers.always_answers [of rs "(w, r)" "free (new_server (ap_cfg A) bc p)" A] assms by (simp add: on_request_def)

text \<open>A request to mine ends when the mining does, and holds the lock forever when the search for a nonce does not end.\<close>

theorem mine_request_ends_iff:
  assumes "mu_free (g_mu g)" "rq_Method r = ''POST''" "aj_miner (ap_J A) (rq_Body r) = Ok miner"
  shows "fst (h_mine A w r g) = Blocked \<longleftrightarrow> MineBlockFor (ap_C A) (wo_E w) (wo_K w) miner (h_chain (g_val g)) = None"
proof -
  let ?m = "MineBlockFor (ap_C A) (wo_E w) (wo_K w) miner (h_chain (g_val g))"
  show ?thesis
    using assms
    by (cases ?m) (auto simp: h_mine_def only_post_def decoded_def or_fail_def p_bind_def locked_free p_defer_def body_def unlock_def p_ret_def
          split: go.splits prod.splits outcome.splits)
qed

section \<open>Keys, repetitions and large bodies\<close>

definition protected_routes :: "string set" where
  "protected_routes = {''/api/finality'', ''/api/finality/vote'', ''/api/monitoring'', ''/api/transactions'', ''/api/registry/register'',
     ''/api/registry/update'', ''/api/registry/purchase'', ''/api/transfer'', ''/api/transfer-binary''}"

text \<open>The routes that ask for the key: without it nothing happens. All other routes but \<open>/api/chain\<close>, minting, staking and mining among
  them, do the same whatever key the request has.\<close>

theorem protected_routes_need_key:
  "(rq_Path r \<in> protected_routes \<longrightarrow> auth A r = Err e \<longrightarrow> api_mux A w r g = (Returned (Failed StatusUnauthorized e), g)) \<and>
   (rq_Path r \<notin> protected_routes \<longrightarrow> rq_Path r \<noteq> ''/api/chain'' \<longrightarrow> api_mux A w (r\<lparr>rq_Authorization := key\<rparr>) = api_mux A w r)"
proof (intro conjI impI)
  assume "rq_Path r \<in> protected_routes" "auth A r = Err e"
  then show "api_mux A w r g = (Returned (Failed StatusUnauthorized e), g)"
    by (auto simp: protected_routes_def api_mux_def api_routes_def handler_defs authorized_def p_ret_def)
next
  assume "rq_Path r \<notin> protected_routes" "rq_Path r \<noteq> ''/api/chain''"
  then have "h A w (r\<lparr>rq_Authorization := key\<rparr>) = h A w r" if "map_of api_routes (rq_Path r) = Some h" for h
    using map_of_SomeD [OF that]
    by (auto simp: api_routes_def protected_routes_def handler_defs h_faucet_def h_mine_def h_admin_mint_def h_ingest_def only_post_def decoded_def rate_limited_def Let_def)
  then show "api_mux A w (r\<lparr>rq_Authorization := key\<rparr>) = api_mux A w r"
    by (auto simp: api_mux_def split: option.splits)
qed

text \<open>A request with a key that was used before is refused and changes nothing; a key that is used stays used.\<close>

theorem repeated_key_is_refused:
  assumes "rq_IdempotencyKey r \<noteq> []" "rq_IdempotencyKey r |\<in>| srv_seen (g_val g)"
  shows "StartAPI A w r g = (Returned (Failed StatusConflict ''duplicate idempotency key''), g)"
  using assms
  by (simp add: StartAPI_def requestIDMiddleware_def idempotencyMiddleware_def Let_def p_bind_def reads_def p_ret_def)

text \<open>A handler reads at most as many bytes of the body as the limit says.\<close>

theorem body_is_limited:
  assumes "0 < sc_MaxBodyBytes (ap_cfg A)"
  shows "\<exists>r'. int (length (fst (rq_Body r'))) \<le> sc_MaxBodyBytes (ap_cfg A) \<and> rq_Path r' = rq_Path r \<and> rq_Method r' = rq_Method r \<and>
    (maxBodyMiddleware (sc_MaxBodyBytes (ap_cfg A)) api_mux A w r = api_mux A w r' \<or>
     maxBodyMiddleware (sc_MaxBodyBytes (ap_cfg A)) api_mux A w r = http_Error StatusRequestEntityTooLarge ''request body too large'')"
  using assms MaxBytesReader_bound [of "sc_MaxBodyBytes (ap_cfg A)" "rq_Body r"]
  by (intro exI [of _ "r\<lparr>rq_Body := MaxBytesReader (sc_MaxBodyBytes (ap_cfg A)) (rq_Body r)\<rparr>"]) (simp add: maxBodyMiddleware_def)

section \<open>Examples\<close>

theorem api_requests_are_answered_witness:
  "fst (StartAPI demo_api demo_world (demo_request ''GET'' ''/api/accounts'')
     (serve_all (on_request demo_api) [(demo_world, demo_request ''POST'' ''/api/stake'')] demo_server)) \<noteq> Blocked"
  unfolding demo_server_def
  using api_requests_are_answered [of "[(demo_world, demo_request ''POST'' ''/api/stake'')]" "demo_request ''GET'' ''/api/accounts''" demo_api demo_world]
  by (simp add: answered_def demo_request_def demo_api_def)

theorem repeated_key_is_refused_witness:
  "let r = (demo_request ''POST'' ''/api/stake'')\<lparr>rq_IdempotencyKey := ''k''\<rparr>; g = demo_server\<lparr>g_val := (g_val demo_server)\<lparr>srv_seen := {|''k''|}\<rparr>\<rparr>
   in StartAPI demo_api demo_world r g = (Returned (Failed StatusConflict ''duplicate idempotency key''), g)"
  unfolding Let_def by (rule repeated_key_is_refused) (simp_all add: demo_request_def)

end
