(* ===== verification/Api_Stop.thy ===== *)
theory Api_Stop
  imports Api_Properties
begin

text \<open>
  Two requests of the HTTP server that stop the node for good: they end without releasing the lock of the chain, and since the chain is
  only changed under the lock, nothing changes after them.
\<close>

section \<open>The books are only changed under the lock\<close>

text \<open>What the node accounts for.\<close>

definition books :: "'z Host_scheme \<Rightarrow> Block list \<times> Transaction list \<times> (string, Account) fmap \<times> u64" where
  "books h = (bc_Chain (h_chain h), bc_Pending (h_chain h), bc_Ledger (h_chain h), bc_TokenSupply (h_chain h))"

lemma SelectValidator_ledger [frame]: "bc_Ledger (fst (SelectValidator K bc)) = bc_Ledger bc"
  by (auto simp: SelectValidator_def Let_def split: option.splits bool.splits)

lemma collect_signatures_frame [frame]:
  "bc_Chain (collect_signatures C i ss bc) = bc_Chain bc" "bc_Pending (collect_signatures C i ss bc) = bc_Pending bc"
  "bc_Ledger (collect_signatures C i ss bc) = bc_Ledger bc" "bc_TokenSupply (collect_signatures C i ss bc) = bc_TokenSupply bc"
  by (induction C i ss bc rule: collect_signatures.induct) (auto simp: Let_def)

lemma server_frozen [lock_rules]:
  "frozen books (limiter_allow w k)" "frozen books (breaker_allow w)" "frozen books (select_validator w)" "frozen books (save E)"
  by (auto simp: frozen_def limiter_allow_def breaker_allow_def select_validator_def save_def writes_def books_def frame split: prod.splits)
     (metis fst_conv frame)+

lemma rate_limited_frozen [lock_rules]: "frozen books k \<Longrightarrow> frozen books (rate_limited w r k)"
  unfolding rate_limited_def by (intro lock_rules) auto

lemma voters_frozen [lock_rules]: "frozen books (collect_voters i vs)" "frozen books (enqueue_and_save w tx)"
  unfolding enqueue_and_save_def by (induction vs) (auto intro!: lock_rules)

lemma frozen_chain_handler: "frozen books (h_api_chain A w r)"
  unfolding h_api_chain_def by (intro lock_rules) (auto intro!: lock_rules simp: books_def RecordRequest_def split: go.splits)

lemma frozen_handlers:
  "frozen books (h_health A w r)" "frozen books (h_finality A w r)" "frozen books (h_finality_vote A w r)" "frozen books (h_audit A w r)"
  "frozen books (h_monitoring A w r)" "frozen books (h_mempool A w r)" "frozen books (h_transactions A w r)" "frozen books (h_miner_submit A w r)"
  "frozen books (h_validators A w r)" "frozen books (h_validators_register A w r)" "frozen books (h_bootstrap A w r)" "frozen books (h_registry A w r)"
  "frozen books (h_registry_register A w r)" "frozen books (h_registry_update A w r)" "frozen books (h_registry_purchase A w r)" "frozen books (h_accounts A w r)"
  "frozen books (h_stake A w r)" "frozen books (h_wallet A w r)" "frozen books (h_universal_register A w r)" "frozen books (h_universal_lookup A w r)"
  "frozen books (h_universal_transfer A w r)" "frozen books (h_token A w r)" "frozen books (h_managed_wallets A w r)" "frozen books (h_transfer A w r)"
  "frozen books (h_transfer_binary A w r)" "frozen books (h_escrow A w r)" "frozen books (h_reversals_request A w r)" "frozen books (h_reversals_confirm A w r)"
  "frozen books (h_reversals_commit A w r)" "frozen books (h_proposals A w r)" "frozen books (h_agreements A w r)" "frozen books (h_usage A w r)"
  "frozen books (h_tokenomics A w r)"
  unfolding handler_defs Let_def by (intro lock_rules; auto intro!: lock_rules simp: books_def frame)+

lemma frozen_lock_handlers:
  "frozen books (h_faucet A w r)" "frozen books (h_mine A w r)" "frozen books (h_admin_mint A w r)" "frozen books (h_ingest A w r)"
  unfolding h_faucet_def h_mine_def h_admin_mint_def h_ingest_def Let_def
  by (rule rate_limited_frozen check_rules(2) check_rules(6) or_fail_rules(2) if_locks(3) frozen_locks frozen_basic chain_call_rules frozen_then)+

lemma frozen_mux: "frozen books (api_mux A w r)"
proof -
  have "frozen books (h A w r)" if "map_of api_routes (rq_Path r) = Some h" for h
    using map_of_SomeD [OF that]
    by (auto simp: api_routes_def frozen_handlers frozen_lock_handlers frozen_chain_handler)
  then show ?thesis
    by (auto simp: api_mux_def intro: lock_rules split: option.splits)
qed

lemma frozen_StartAPI: "frozen books (StartAPI A w r)"
  unfolding StartAPI_def requestIDMiddleware_def idempotencyMiddleware_def maxBodyMiddleware_def Let_def
  by (intro lock_rules) (auto intro!: lock_rules frozen_mux simp: books_def)

interpretation api_lock: lock_guarded_server "on_request A" books for A
  by unfold_locales (auto simp: on_request_def intro: frozen_StartAPI)

section \<open>The requests\<close>

text \<open>Every handler of a list of routes waits for the lock.\<close>

lemma waits_for_lock:
  assumes "mu_writer (g_mu g)" "rq_Path r \<in> {''/api/audit'', ''/api/mempool'', ''/api/accounts'', ''/api/registry'', ''/api/validators'', ''/api/wallet'', ''/api/tokenomics''}"
  shows "fst (api_mux A w r g) = Blocked"
  using assms
  by (auto simp: api_mux_def api_routes_def h_audit_def h_mempool_def h_accounts_def h_registry_def h_validators_def h_wallet_def h_tokenomics_def
        lock_blocks chain_do_def p_then_def [of "locked m" for m] p_bind_def Let_def)

text \<open>C21. One request to \<open>/api/admin/mint\<close> with an address and an amount, from anyone and with any key, stops the node: the handler holds the
  lock of the chain when it calls \<open>AddAccount\<close>, which takes it. The request blocks, nothing is minted, no later request
  changes chain, mempool, ledger or supply, and even reading them blocks, on the seven paths that the theorem lists. The statement starts where the request has reached its handler and the lock is free.\<close>

theorem mint_request_stops_the_node:
  assumes "mu_free (g_mu g)" "rq_Method r = ''POST''" "aj_amount (ap_J A) (rq_Body r) = Ok payload" "am_Address payload \<noteq> []" "am_Amount payload \<noteq> 0"
  shows "fst (h_admin_mint A w r g) = Blocked \<and>
    books (g_val (serve_all (on_request A) rs (snd (h_admin_mint A w r g)))) = books (g_val g) \<and>
    (rq_Path r' \<in> {''/api/audit'', ''/api/mempool'', ''/api/accounts'', ''/api/registry'', ''/api/validators'', ''/api/wallet'', ''/api/tokenomics''} \<longrightarrow>
     fst (api_mux A w' r' (serve_all (on_request A) rs (snd (h_admin_mint A w r g)))) = Blocked)"
proof -
  have run: "fst (h_admin_mint A w r g) = Blocked" "mu_writer (g_mu (snd (h_admin_mint A w r g)))" "g_val (snd (h_admin_mint A w r g)) = g_val g"
    using assms MaxSupply_top
    by (simp_all add: h_admin_mint_def only_post_def decoded_def p_then_def p_bind_def Lock_def reads_def mu_free_def chain_do_def locked_def)
  with api_lock.stays_frozen [OF run(2), of A rs] waits_for_lock show ?thesis by simp
qed

text \<open>A message to \<open>/api/p2p/libp2p/ingest\<close> with a block whose index is \<open>2\<^sup>6\<^sup>3\<close> or more passes the signed comparison with the length of the
  chain and panics on the access. The panic ends the request between \<open>Lock\<close> and \<open>Unlock\<close>: the lock stays held, and no later request changes the books.\<close>

theorem ingest_index_leaks_the_lock:
  assumes "mu_free (g_mu g)" "rq_Method r = ''POST''" "aj_ingest (ap_J A) (rq_Body r) = Ok msg" "ig_Type msg = ''block''"
    and "ig_Block msg = Some j" "json_field j ''index'' = Some (JNum f)" "2 ^ 63 \<le> f" "f < 2 ^ 64" "length (bc_Chain (h_chain (g_val g))) < 2 ^ 63"
  shows "fst (h_ingest A w r g) = Panicked ''index out of range'' \<and> mu_writer (g_mu (snd (h_ingest A w r g))) \<and>
    books (g_val (serve_all (on_request A) rs (snd (h_ingest A w r g)))) = books (g_val g)"
proof -
  let ?idx = "to_u64 (ch_oor (wo_K w)) f"
  have fl: "2 ^ 63 \<le> \<lfloor>f\<rfloor>" "\<lfloor>f\<rfloor> < 2 ^ 64" using assms(7,8) by (simp_all add: le_floor_iff floor_less_iff)
  have pos: "0 \<le> f" using assms(7) by (meson order_trans zero_le_numeral zero_le_power)
  have u: "uint ?idx = \<lfloor>f\<rfloor>"
    using fl pos by (simp add: to_u64_def u64_of_float_def uint_word_of_int)
  then have un: "2 ^ 63 \<le> unat ?idx" using fl(1) by (simp add: nat_le_eq_zle unat_eq_nat_uint le_nat_iff)
  have s: "sint ?idx < 0" using u fl sint_large [of ?idx] by simp
  have run: "fst (h_ingest A w r g) = Panicked ''index out of range''" "mu_writer (g_mu (snd (h_ingest A w r g)))" "g_val (snd (h_ingest A w r g)) = g_val g"
    using assms(1-6,9) un s
    by (simp_all add: h_ingest_def only_post_def decoded_def p_then_def p_bind_def Lock_def reads_def mu_free_def ingest_block_def Let_def p_panic_def)
  with api_lock.stays_frozen [OF run(2), of A rs] show ?thesis by simp
qed

section \<open>Examples\<close>

theorem mint_request_stops_the_node_witness:
  "fst (h_admin_mint demo_api demo_world (demo_request ''POST'' ''/api/admin/mint'') demo_server) = Blocked"
proof -
  let ?r = "demo_request ''POST'' ''/api/admin/mint''"
  have "mu_free (g_mu demo_server)" "rq_Method ?r = ''POST''" "aj_amount (ap_J demo_api) (rq_Body ?r) = Ok demo_payload"
    "am_Address demo_payload \<noteq> []" "am_Amount demo_payload \<noteq> 0"
    by (simp_all add: demo_server_def demo_request_def demo_api_def demo_json_def demo_payload_def)
  from mint_request_stops_the_node [OF this, of demo_world "[]" ?r demo_world] show ?thesis by blast
qed

theorem ingest_index_leaks_the_lock_witness:
  "fst (h_ingest demo_api demo_world (demo_request ''POST'' ''/api/p2p/libp2p/ingest'') demo_server) = Panicked ''index out of range''"
proof -
  let ?r = "demo_request ''POST'' ''/api/p2p/libp2p/ingest''"
  have "mu_free (g_mu demo_server)" "rq_Method ?r = ''POST''" "aj_ingest (ap_J demo_api) (rq_Body ?r) = Ok demo_ingest" "ig_Type demo_ingest = ''block''"
    "ig_Block demo_ingest = Some (JObj [(''index'', JNum (2 ^ 63))])" "json_field (JObj [(''index'', JNum (2 ^ 63))]) ''index'' = Some (JNum (2 ^ 63))"
    "(2 :: rat) ^ 63 \<le> 2 ^ 63" "(2 :: rat) ^ 63 < 2 ^ 64" "length (bc_Chain (h_chain (g_val demo_server))) < 2 ^ 63"
    by (simp_all add: demo_server_def demo_request_def demo_api_def demo_json_def demo_ingest_def new_server_def demo_chain_def createGenesisBlock_def empty_Blockchain_def Let_def)
  from ingest_index_leaks_the_lock [OF this, of demo_world "[]"] show ?thesis by blast
qed

end
