(* ===== verification/Node_State.thy ===== *)
theory Node_State
  imports Ledger
begin

text \<open>
  The state of the node that \<open>main.go\<close> runs. It has its own struct \<open>Blockchain\<close>, with the data types of
  package \<open>blockchain\<close> but its own constants and its own rules; here it is the record \<open>Node\<close>, and its
  functions carry the prefix \<open>node_\<close>.

  \<^item> \<open>NewBlockchain\<close> does not make the maps \<open>PendingReversals\<close> and \<open>IrreversibleTxs\<close>: they are \<open>nil\<close> until a
    file provides them, and writing to a \<open>nil\<close> map panics. They have an option type, \<open>None\<close> for \<open>nil\<close>. The other
    maps are made at the start, and a file written by the node has them.
  \<^item> The files are \<open>chain.json\<close> and the backup of a chain with another genesis block. \<open>saveToDisk\<close> writes in
    place: a failed write leaves what \<open>ne_write_fault\<close> says. \<open>ne_path\<close> is the path of \<open>chain.json\<close>.
\<close>

section \<open>Constants\<close>

definition node_HogohogoPerTender :: u64 where [go_defs]: "node_HogohogoPerTender = 100000000"
definition node_AIBurnScaling :: u64 where [go_defs]: "node_AIBurnScaling = 20"
definition node_AIModelStake :: u64 where [go_defs]: "node_AIModelStake = 50 * node_HogohogoPerTender"
definition node_AgentMinBalance :: u64 where [go_defs]: "node_AgentMinBalance = 10 * node_HogohogoPerTender"
definition node_BaseFee :: u64 where [go_defs]: "node_BaseFee = 5"
definition node_FeeMultiplier :: u64 where [go_defs]: "node_FeeMultiplier = 2"
definition node_BurnRatePercent :: u64 where [go_defs]: "node_BurnRatePercent = 1"
definition node_RewardRatePercent :: u64 where [go_defs]: "node_RewardRatePercent = 4"
definition node_MinStake :: u64 where [go_defs]: "node_MinStake = 100"
definition node_MaxSupply :: u64 where [go_defs]: "node_MaxSupply = 18446744073709551615"
definition node_InitialSupply :: u64 where [go_defs]: "node_InitialSupply = 50000000000"
definition AlucardBaseEmission :: u64 where [go_defs]: "AlucardBaseEmission = 20"
definition AlucardBonusStart :: u64 where [go_defs]: "AlucardBonusStart = 80"
definition AlucardDecayFactor :: u64 where [go_defs]: "AlucardDecayFactor = 70"
definition AlucardCycleBlocks :: u64 where [go_defs]: "AlucardCycleBlocks = 78914000"

section \<open>State\<close>

record node_saved =
  sv_Chain :: "Block list"
  sv_Pending :: "Transaction list"
  sv_Ledger :: "(string, Account) fmap"
  sv_Registry :: "(string, ModelRef) fmap"
  sv_Consensus :: string
  sv_Authorities :: "string list"
  sv_TokenSupply :: u64
  sv_Escrows :: "(string, Escrow) fmap"
  sv_Proposals :: "(string, GovernanceProposal) fmap"
  sv_Agreements :: "(string, ServiceAgreement) fmap"
  sv_UsageMeters :: "(string, UsageMeter) fmap"
  sv_UsedNonces :: "(string, u64 fset) fmap"
  sv_SeenTxIDs :: "string fset"
  sv_AuditTrail :: "AuditEntry list"
  sv_NextNonce :: "(string, u64) fmap"
  sv_PendingReversals :: "(string, PendingReversal) fmap option"
  sv_IrreversibleTxs :: "string fset option"

record Node =
  nd_Chain :: "Block list"
  nd_Pending :: "Transaction list"
  nd_Ledger :: "(string, Account) fmap"
  nd_Registry :: "(string, ModelRef) fmap"
  nd_Consensus :: ConsensusType
  nd_Authorities :: "string list"
  nd_validatorIdx :: nat
  nd_TokenSupply :: u64
  nd_Escrows :: "(string, Escrow) fmap"
  nd_Proposals :: "(string, GovernanceProposal) fmap"
  nd_Agreements :: "(string, ServiceAgreement) fmap"
  nd_UsageMeters :: "(string, UsageMeter) fmap"
  nd_UsedNonces :: "(string, u64 fset) fmap"
  nd_NextNonce :: "(string, u64) fmap"
  nd_SeenTxIDs :: "string fset"
  nd_AuditTrail :: "AuditEntry list"
  nd_Wallets :: "(string, ManagedWallet) fmap"
  nd_Validators :: "(string, Validator) fmap"
  nd_GenesisHash :: string
  nd_ChainID :: string
  nd_BlockTime :: i64
  nd_Difficulty :: u32
  nd_MintPaused :: bool
  nd_MintPauseUntil :: i64
  nd_AgentTxCount :: u64
  nd_PendingReversals :: "(string, PendingReversal) fmap option"
  nd_IrreversibleTxs :: "string fset option"
  nd_metrics :: "serverMetrics option"
  nd_CurrencyName :: string
  nd_file :: "string option"
  nd_backup :: "string option"

record node_env =
  ne_now :: i64
  ne_nano :: i64
  ne_json_genesis :: "string \<Rightarrow> i64 \<Rightarrow> u64 \<Rightarrow> string \<Rightarrow> string"
  ne_json_view :: "string \<Rightarrow> nat \<Rightarrow> nat \<Rightarrow> string list \<Rightarrow> string"
  ne_json_state :: "node_saved \<Rightarrow> string go"
  ne_unjson_state :: "string \<Rightarrow> node_saved go"
  ne_write_fault :: "(string option \<times> string) option"
  ne_rename_ok :: bool
  ne_path :: string

section \<open>Genesis and audit\<close>

definition node_consensusName :: "ConsensusType \<Rightarrow> string" where
  "node_consensusName c = (case c of ProofOfAuthority \<Rightarrow> ''poa'' | ProofOfWork \<Rightarrow> ''pow'' | _ \<Rightarrow> ''pos'')"

definition node_appendAuditEntry :: "node_env \<Rightarrow> string \<Rightarrow> string \<Rightarrow> string \<Rightarrow> Node \<Rightarrow> Node" where
  "node_appendAuditEntry E event actor details n =
     n\<lparr>nd_AuditTrail := nd_AuditTrail n @
        [\<lparr>aud_Timestamp = ne_now E, aud_Event = event, aud_Actor = actor, aud_Details = details\<rparr>]\<rparr>"

text \<open>The first byte of a digest is below 256, so the remainder modulo 157680000 changes nothing.\<close>

definition ChainGenesisTime :: "crypto \<Rightarrow> Node \<Rightarrow> i64" where
  "ChainGenesisTime C n = 1700000000 + of_nat (of_char (hd (sha256 C (nd_ChainID n))) mod 157680000)"

definition node_createGenesisBlock :: "crypto \<Rightarrow> node_env \<Rightarrow> Node \<Rightarrow> Node" where
  "node_createGenesisBlock C E n =
     (let genesisTime = ChainGenesisTime C n;
          genesisPayload = ne_json_genesis E (nd_ChainID n) genesisTime (nd_TokenSupply n) (node_consensusName (nd_Consensus n));
          genesis = \<lparr>blk_Index = 0, blk_Author = ''genesis'', blk_MinerAddress = [], blk_PreviousHash = ''0'',
            blk_Timestamp = genesisTime, blk_Transactions = [], blk_Nonce = 0,
            blk_BlockHash = EncodeToString (sha256 C genesisPayload), blk_TxMerkleRoot = []\<rparr>
      in n\<lparr>nd_Chain := nd_Chain n @ [genesis], nd_GenesisHash := blk_BlockHash genesis\<rparr>)"

definition DeterministicGenesisHash :: "crypto \<Rightarrow> node_env \<Rightarrow> Node \<Rightarrow> string" where
  "DeterministicGenesisHash C E n =
     EncodeToString (sha256 C (ne_json_genesis E (nd_ChainID n) (ChainGenesisTime C n) node_InitialSupply (node_consensusName (nd_Consensus n))))"

definition StateRootSnapshotEquivalent :: "crypto \<Rightarrow> node_env \<Rightarrow> Node \<Rightarrow> string" where
  "StateRootSnapshotEquivalent C E n =
     EncodeToString (sha256 C (ne_json_view E (nd_ChainID n) (length (nd_Chain n)) (length (nd_Chain n)) (nd_Authorities n)))"

section \<open>Saving and loading\<close>

definition node_state_of :: "Node \<Rightarrow> node_saved" where
  "node_state_of n = \<lparr>sv_Chain = nd_Chain n, sv_Pending = nd_Pending n, sv_Ledger = nd_Ledger n, sv_Registry = nd_Registry n,
     sv_Consensus = node_consensusName (nd_Consensus n), sv_Authorities = nd_Authorities n, sv_TokenSupply = nd_TokenSupply n,
     sv_Escrows = nd_Escrows n, sv_Proposals = nd_Proposals n, sv_Agreements = nd_Agreements n, sv_UsageMeters = nd_UsageMeters n,
     sv_UsedNonces = nd_UsedNonces n, sv_SeenTxIDs = nd_SeenTxIDs n, sv_AuditTrail = nd_AuditTrail n, sv_NextNonce = nd_NextNonce n,
     sv_PendingReversals = nd_PendingReversals n, sv_IrreversibleTxs = nd_IrreversibleTxs n\<rparr>"

definition node_saveToDisk :: "node_env \<Rightarrow> Node \<Rightarrow> Node \<times> unit go" where
  "node_saveToDisk E n =
     (case ne_json_state E (node_state_of n) of
        Err e \<Rightarrow> (n, Err e)
      | Panic e \<Rightarrow> (n, Panic e)
      | Ok payload \<Rightarrow>
          (case ne_write_fault E of
             None \<Rightarrow> (n\<lparr>nd_file := Some payload\<rparr>, Ok ())
           | Some (rest, e) \<Rightarrow> (n\<lparr>nd_file := rest\<rparr>, Err e)))"

definition saveToDiskSafe :: "node_env \<Rightarrow> Node \<Rightarrow> Node \<times> unit go" where
  "saveToDiskSafe E n = node_saveToDisk E n"

text \<open>The blocks that \<open>trimInvalidBlocks\<close> keeps: up to the first one that does not follow its predecessor.\<close>

fun trim_chain :: "Block list \<Rightarrow> Block list" where
  "trim_chain (prev # block # bs) =
     (if blk_Index block \<noteq> blk_Index prev + 1 \<or> blk_PreviousHash block \<noteq> blk_BlockHash prev then [prev]
      else prev # trim_chain (block # bs))"
| "trim_chain bs = bs"

definition trimInvalidBlocks :: "node_env \<Rightarrow> Node \<Rightarrow> Node" where
  "trimInvalidBlocks E n =
     (let kept = trim_chain (nd_Chain n) in
      if length kept < length (nd_Chain n)
      then node_appendAuditEntry E ''chain_trimmed'' ''startup'' (''height='' @ fmt_nat (length kept))
             (fst (node_saveToDisk E (n\<lparr>nd_Chain := kept\<rparr>)))
      else n)"

text \<open>What is forgotten when the file belongs to a chain with another genesis block.\<close>

definition reset_mismatch :: "node_env \<Rightarrow> Node \<Rightarrow> Node" where
  "reset_mismatch E n =
     (let n = (if ne_rename_ok E then n\<lparr>nd_backup := nd_file n, nd_file := None\<rparr> else n);
          n = n\<lparr>nd_Chain := [], nd_Pending := [], nd_Ledger := fmempty, nd_Authorities := [], nd_TokenSupply := node_InitialSupply,
                nd_AuditTrail := [], nd_UsedNonces := fmempty, nd_SeenTxIDs := {||}, nd_NextNonce := fmempty\<rparr>
      in node_appendAuditEntry E ''genesis_mismatch_reset'' ''system'' (''backup='' @ ne_path E @ ''.mismatched-genesis.bak'') n)"

definition adopt_state :: "node_saved \<Rightarrow> Node \<Rightarrow> Node" where
  "adopt_state state n = n\<lparr>nd_Chain := sv_Chain state, nd_Pending := sv_Pending state, nd_Ledger := sv_Ledger state,
     nd_Registry := sv_Registry state, nd_Authorities := sv_Authorities state, nd_TokenSupply := sv_TokenSupply state,
     nd_Escrows := sv_Escrows state, nd_Proposals := sv_Proposals state, nd_Agreements := sv_Agreements state,
     nd_UsageMeters := sv_UsageMeters state, nd_UsedNonces := sv_UsedNonces state, nd_SeenTxIDs := sv_SeenTxIDs state,
     nd_AuditTrail := sv_AuditTrail state, nd_NextNonce := sv_NextNonce state,
     nd_PendingReversals := sv_PendingReversals state, nd_IrreversibleTxs := sv_IrreversibleTxs state, nd_Wallets := fmempty\<rparr>"

definition node_loadFromDisk :: "crypto \<Rightarrow> node_env \<Rightarrow> Node \<Rightarrow> Node \<times> unit go" where
  "node_loadFromDisk C E n =
     (case nd_file n of
        None \<Rightarrow> (n, Err ''no such file or directory'')
      | Some payload \<Rightarrow>
          (case ne_unjson_state E payload of
             Err e \<Rightarrow> (n, Err e)
           | Panic e \<Rightarrow> (n, Panic e)
           | Ok state \<Rightarrow>
               (let n = adopt_state state n;
                    n = (if nd_Chain n \<noteq> [] \<and> blk_BlockHash (hd (nd_Chain n)) \<noteq> [] \<and>
                            blk_BlockHash (hd (nd_Chain n)) \<noteq> DeterministicGenesisHash C E n
                         then reset_mismatch E n else n);
                    n = n\<lparr>nd_NextNonce := restoreNonces (nd_UsedNonces n) (nd_NextNonce n)\<rparr>;
                    n = (if nd_Chain n \<noteq> [] then n\<lparr>nd_GenesisHash := blk_BlockHash (hd (nd_Chain n))\<rparr> else n);
                    n = n\<lparr>nd_Consensus := (if sv_Consensus state = ''poa'' then ProofOfAuthority else ProofOfStake)\<rparr>;
                    n = (if nd_Chain n = [] then node_createGenesisBlock C E n else trimInvalidBlocks E n)
                in (n, Ok ()))))"

end
