(* ===== verification/Node_Ledger.thy ===== *)
theory Node_Ledger
  imports Node_State Services Genesis
begin

text \<open>
  Accounts, staking, rewards, escrow, governance and metering of the node of \<open>main.go\<close>, its genesis file,
  and the construction of a node.
\<close>

section \<open>Accounts and staking\<close>

definition node_addAccountLocked :: "node_env \<Rightarrow> string \<Rightarrow> u64 \<Rightarrow> bool \<Rightarrow> Node \<Rightarrow> Node" where
  "node_addAccountLocked E address balance isAgent n =
     (let n = n\<lparr>nd_Ledger := fmupd address
            \<lparr>acct_Address = address, acct_Balance = balance, acct_Staked = 0, acct_IsAgent = isAgent\<rparr> (nd_Ledger n)\<rparr>
      in node_appendAuditEntry E ''account_created'' address
           (''balance='' @ FormatUint balance @ '' agent='' @ fmt_bool isAgent) n)"

definition node_AddAccount :: "node_env \<Rightarrow> string \<Rightarrow> u64 \<Rightarrow> bool \<Rightarrow> Node \<Rightarrow> Node" where
  "node_AddAccount E address balance isAgent n = node_addAccountLocked E address balance isAgent n"

definition node_CreateManagedWallet :: "crypto \<Rightarrow> node_env \<Rightarrow> Wallet \<Rightarrow> string \<Rightarrow> bool \<Rightarrow> Node \<Rightarrow> Node \<times> ManagedWallet go" where
  "node_CreateManagedWallet C E wallet label isAgent n =
     (let address = wallet_Address C wallet;
          n = node_addAccountLocked E address 1000 isAgent n;
          managed = \<lparr>mw_ID = ''wallet-'' @ FormatInt (ne_nano E), mw_Address = address,
            mw_PublicKey = EncodeToString (w_PublicKey wallet), mw_Label = label, mw_IsAgent = isAgent\<rparr>;
          n = n\<lparr>nd_Wallets := fmupd (mw_ID managed) managed (nd_Wallets n)\<rparr>
      in (node_appendAuditEntry E ''wallet_created'' address (''label='' @ label @ '' agent='' @ fmt_bool isAgent) n, Ok managed))"

definition node_Stake :: "node_env \<Rightarrow> string \<Rightarrow> u64 \<Rightarrow> Node \<Rightarrow> Node" where
  "node_Stake E address amount n =
     (case fmlookup (nd_Ledger n) address of
        None \<Rightarrow> n
      | Some account \<Rightarrow>
          (if acct_Balance account < amount then n
           else node_appendAuditEntry E ''stake'' address (''amount='' @ FormatUint amount)
                  (n\<lparr>nd_Ledger := add_stake address amount (debit address amount (nd_Ledger n))\<rparr>)))"

text \<open>The whole amount is taken from the stake and once more from the balance.\<close>

definition node_Slash :: "node_env \<Rightarrow> string \<Rightarrow> u64 \<Rightarrow> Node \<Rightarrow> Node" where
  "node_Slash E address amount n =
     (case fmlookup (nd_Ledger n) address of
        None \<Rightarrow> n
      | Some account \<Rightarrow>
          (if acct_Staked account < amount then n
           else node_appendAuditEntry E ''slash'' address (''amount='' @ FormatUint amount)
                  (n\<lparr>nd_Ledger := debit address amount (sub_stake address amount (nd_Ledger n))\<rparr>)))"

definition node_MarkIrreversible :: "string \<Rightarrow> Node \<Rightarrow> Node \<times> unit go" where
  "node_MarkIrreversible txID n =
     (case nd_IrreversibleTxs n of
        None \<Rightarrow> (n, Panic ''assignment to entry in nil map'')
      | Some s \<Rightarrow> (n\<lparr>nd_IrreversibleTxs := Some (finsert txID s)\<rparr>, Ok ()))"

text \<open>The loop over the ledger visits the accounts in the order \<open>ks\<close>.\<close>

fun node_rewards_loop :: "string list \<Rightarrow> Node \<Rightarrow> Node" where
  "node_rewards_loop [] n = n"
| "node_rewards_loop (a # ks) n =
     (case fmlookup (nd_Ledger n) a of
        None \<Rightarrow> node_rewards_loop ks n
      | Some account \<Rightarrow>
          (if 0 < acct_Staked account then
             let reward = acct_Staked account * node_RewardRatePercent div 100
             in node_rewards_loop ks (n\<lparr>nd_Ledger := credit a reward (nd_Ledger n), nd_TokenSupply := nd_TokenSupply n + reward\<rparr>)
           else node_rewards_loop ks n))"

definition node_distributeRewards :: "string list \<Rightarrow> Node \<Rightarrow> Node" where
  "node_distributeRewards ks n = node_rewards_loop ks n"

definition node_DistributeRewards :: "string list \<Rightarrow> Node \<Rightarrow> Node" where
  "node_DistributeRewards ks n = node_distributeRewards ks n"

definition node_Burn :: "u64 \<Rightarrow> Node \<Rightarrow> Node" where
  "node_Burn amount n =
     (let amount = (if nd_TokenSupply n < amount then nd_TokenSupply n else amount)
      in n\<lparr>nd_TokenSupply := nd_TokenSupply n - amount\<rparr>)"

definition node_treasuryBuyback :: "node_env \<Rightarrow> Node \<Rightarrow> Node" where
  "node_treasuryBuyback E n =
     (if nd_TokenSupply n \<le> 0 then n
      else case fmlookup (nd_Ledger n) CommunityFundAddress of
        None \<Rightarrow> n
      | Some cfAcct \<Rightarrow>
          (if acct_Balance cfAcct = 0 then n
           else let burn = acct_Balance cfAcct div 10;
                    burn = (if nd_TokenSupply n div 100 < burn then nd_TokenSupply n div 100 else burn)
             in if 0 < burn
                then node_appendAuditEntry E ''treasury_buyback'' CommunityFundAddress (''amount='' @ FormatUint burn)
                       (n\<lparr>nd_Ledger := debit CommunityFundAddress burn (nd_Ledger n), nd_TokenSupply := nd_TokenSupply n - burn\<rparr>)
                else n))"

section \<open>Block rewards\<close>

fun decay_loop :: "nat \<Rightarrow> u64 \<Rightarrow> u64" where
  "decay_loop 0 bonus = bonus"
| "decay_loop (Suc k) bonus = (if 1 < bonus then decay_loop k (bonus * AlucardDecayFactor div 100) else bonus)"

definition BlockReward :: "u64 \<Rightarrow> u64" where
  "BlockReward blockHeight =
     (if blockHeight = 0 then AlucardBaseEmission + AlucardBonusStart
      else let era = blockHeight div AlucardCycleBlocks
        in AlucardBaseEmission + decay_loop (unat era) AlucardBonusStart)"

text \<open>The bonuses of the first eras; from the tenth on the bonus is one.\<close>

definition era_bonus :: "nat \<Rightarrow> nat" where
  "era_bonus k = (if k < 10 then [80, 56, 39, 27, 18, 12, 8, 5, 3, 2] ! k else 1)"

lemma decay_loop_one: "decay_loop k 1 = 1"
  by (cases k) auto

lemma decay_steps:
  "decay_loop (Suc k) 80 = decay_loop k 56" "decay_loop (Suc k) 56 = decay_loop k 39" "decay_loop (Suc k) 39 = decay_loop k 27"
  "decay_loop (Suc k) 27 = decay_loop k 18" "decay_loop (Suc k) 18 = decay_loop k 12" "decay_loop (Suc k) 12 = decay_loop k 8"
  "decay_loop (Suc k) 8 = decay_loop k 5" "decay_loop (Suc k) 5 = decay_loop k 3" "decay_loop (Suc k) 3 = decay_loop k 2"
  "decay_loop (Suc k) 2 = decay_loop k 1"
  by (simp_all add: AlucardDecayFactor_def)

lemma ten_cases:
  "k < 10 \<Longrightarrow> k \<in> {0, Suc 0, Suc (Suc 0), Suc (Suc (Suc 0)), Suc (Suc (Suc (Suc 0))), Suc (Suc (Suc (Suc (Suc 0)))),
     Suc (Suc (Suc (Suc (Suc (Suc 0))))), Suc (Suc (Suc (Suc (Suc (Suc (Suc 0)))))),
     Suc (Suc (Suc (Suc (Suc (Suc (Suc (Suc 0))))))), Suc (Suc (Suc (Suc (Suc (Suc (Suc (Suc (Suc 0))))))))}"
  by (auto simp: numeral_eq_Suc less_Suc_eq)

lemma decay_loop_start: "unat (decay_loop k 80) = era_bonus k"
proof (cases "k < 10")
  case True
  from ten_cases [OF True] show ?thesis
    by (elim insertE emptyE) (simp_all add: era_bonus_def decay_steps del: decay_loop.simps(2))
next
  case False
  then obtain j where "k = Suc (Suc (Suc (Suc (Suc (Suc (Suc (Suc (Suc (Suc j)))))))))"
    using le_Suc_ex [of 10 k] by (auto simp: numeral_eq_Suc)
  then show ?thesis
    using decay_loop_one [of j] False by (simp add: era_bonus_def decay_steps del: decay_loop.simps(2))
qed

text \<open>The reward of a block: the loop over the eras computes the table of bonuses, which falls from 80 to 1
  over ten eras. So a block earns at least 21 and at most 100, and a later block never earns more than an
  earlier one.\<close>

theorem BlockReward_schedule:
  "unat (BlockReward h) = 20 + era_bonus (unat h div 78914000) \<and>
   21 \<le> unat (BlockReward h) \<and> unat (BlockReward h) \<le> 100 \<and>
   unat (BlockReward (max h h')) \<le> unat (BlockReward h)"
proof -
  have b: "1 \<le> era_bonus k \<and> era_bonus k \<le> 80" for k
    by (cases "k < 10") (drule ten_cases, auto simp: era_bonus_def)
  have step: "era_bonus (Suc k) \<le> era_bonus k" for k
  proof (cases "k < 10")
    case True
    from ten_cases [OF True] show ?thesis by (elim insertE emptyE) (simp_all add: era_bonus_def)
  qed (simp add: era_bonus_def)
  have r: "unat (BlockReward x) = 20 + era_bonus (unat x div 78914000)" for x
  proof (cases "x = 0")
    case True
    then show ?thesis by (simp add: BlockReward_def AlucardBaseEmission_def AlucardBonusStart_def era_bonus_def)
  next
    case False
    let ?d = "decay_loop (unat (x div AlucardCycleBlocks)) 80"
    have d: "unat ?d = era_bonus (unat x div 78914000)"
      by (simp add: decay_loop_start unat_div AlucardCycleBlocks_def)
    then have "unat (20 + ?d) = 20 + unat ?d" using b [of "unat x div 78914000"] by (subst unat_add_no_wrap) auto
    then show ?thesis
      using False d by (simp add: BlockReward_def Let_def AlucardBaseEmission_def AlucardBonusStart_def)
  qed
  have "unat h div 78914000 \<le> unat (max h h') div 78914000"
    by (intro div_le_mono) (simp add: word_le_nat_alt [symmetric])
  then have "era_bonus (unat (max h h') div 78914000) \<le> era_bonus (unat h div 78914000)"
    by (rule lift_Suc_antimono_le [where f = era_bonus, OF step])
  then show ?thesis using r b by simp
qed

section \<open>Escrow, governance and metering\<close>

text \<open>The escrow is paid and stored before the write to the set of irreversible transactions, which panics
  when that map is \<open>nil\<close>.\<close>

definition node_CreateEscrow :: "node_env \<Rightarrow> string \<Rightarrow> string \<Rightarrow> u64 \<Rightarrow> string \<Rightarrow> Node \<Rightarrow> Node \<times> Escrow go" where
  "node_CreateEscrow E payer payee amount serviceID n =
     (case fmlookup (nd_Ledger n) payer of
        None \<Rightarrow> (n, Err ''insufficient funds'')
      | Some fromAccount \<Rightarrow>
          (if acct_Balance fromAccount < amount then (n, Err ''insufficient funds'')
           else let i = ''escrow-'' @ FormatInt (ne_nano E);
                    escrow = \<lparr>esc_ID = i, esc_From = payer, esc_To = payee, esc_Amount = amount,
                      esc_ServiceID = serviceID, esc_Status = ''active'', esc_Irreversible = True\<rparr>;
                    n = n\<lparr>nd_Ledger := debit payer amount (nd_Ledger n), nd_Escrows := fmupd i escrow (nd_Escrows n)\<rparr>
             in case node_MarkIrreversible i n of
                  (n, Ok _) \<Rightarrow>
                    (node_appendAuditEntry E ''escrow_created'' payer (''to='' @ payee @ '' amount='' @ FormatUint amount @
                       '' service_id='' @ serviceID @ '' irreversible=true'') n, Ok escrow)
                | (n, Err e) \<Rightarrow> (n, Err e)
                | (n, Panic e) \<Rightarrow> (n, Panic e)))"

definition node_CreateProposal :: "node_env \<Rightarrow> string \<Rightarrow> string \<Rightarrow> Node \<Rightarrow> Node \<times> GovernanceProposal" where
  "node_CreateProposal E title description n =
     (let i = ''proposal-'' @ FormatInt (ne_nano E);
          proposal = \<lparr>prop_ID = i, prop_Title = title, prop_Description = description, prop_Votes = fmempty, prop_Status = ''open''\<rparr>;
          n = n\<lparr>nd_Proposals := fmupd i proposal (nd_Proposals n)\<rparr>
      in (node_appendAuditEntry E ''proposal_created'' ''governance'' (''id='' @ i @ '' title='' @ title) n, proposal))"

definition node_VoteProposal :: "node_env \<Rightarrow> string \<Rightarrow> string \<Rightarrow> Node \<Rightarrow> Node" where
  "node_VoteProposal E i voter n =
     (case fmlookup (nd_Proposals n) i of
        None \<Rightarrow> n
      | Some proposal \<Rightarrow>
          (if prop_ID proposal = [] then n
           else let proposal = proposal\<lparr>prop_Votes := fmupd voter True (prop_Votes proposal)\<rparr>;
                    n = n\<lparr>nd_Proposals := fmupd i proposal (nd_Proposals n)\<rparr>
             in node_appendAuditEntry E ''proposal_voted'' voter (''proposal_id='' @ i) n))"

definition node_AddAuthority :: "string \<Rightarrow> Node \<Rightarrow> Node" where
  "node_AddAuthority address n = n\<lparr>nd_Authorities := nd_Authorities n @ [address]\<rparr>"

definition node_RegisterValidator :: "node_env \<Rightarrow> string \<Rightarrow> u64 \<Rightarrow> Node \<Rightarrow> Node \<times> unit go" where
  "node_RegisterValidator E address stake n =
     (case fmlookup (nd_Ledger n) address of
        None \<Rightarrow> (n, Err ''insufficient funds or stake below minimum'')
      | Some account \<Rightarrow>
          (if acct_Balance account < stake \<or> stake < node_MinStake
           then (n, Err ''insufficient funds or stake below minimum'')
           else let n = n\<lparr>nd_Ledger := add_stake address stake (debit address stake (nd_Ledger n)),
                      nd_Validators := fmupd address
                        \<lparr>val_PublicKey = [], val_Address = address, val_Stake = stake, val_Active = True, val_JoinedAt = ne_now E,
                         val_Performance = 100, val_PublicKeyVersion = 0, val_KeyRotatedAt = ne_now E,
                         val_NextRotationAt = ne_now E + 30 * 24 * 60 * 60\<rparr> (nd_Validators n)\<rparr>
             in (node_appendAuditEntry E ''validator_registered'' address (''stake='' @ FormatUint stake) n, Ok ())))"

definition node_CreateServiceAgreement ::
  "node_env \<Rightarrow> string \<Rightarrow> string \<Rightarrow> string \<Rightarrow> u64 \<Rightarrow> u64 \<Rightarrow> Node \<Rightarrow> Node \<times> ServiceAgreement go" where
  "node_CreateServiceAgreement E provider consumer modelID pricePerCall maxCalls n =
     (if has_key (nd_Agreements n) modelID then (n, Err ''agreement already exists'')
      else let agreement = \<lparr>agr_ID = ''agreement-'' @ FormatInt (ne_nano E), agr_Provider = provider,
                 agr_Consumer = consumer, agr_ModelID = modelID, agr_PricePerCall = pricePerCall,
                 agr_MaxCalls = maxCalls, agr_Status = ''active''\<rparr>
        in (n\<lparr>nd_Agreements := fmupd (agr_ID agreement) agreement (nd_Agreements n)\<rparr>, Ok agreement))"

definition node_RecordUsage :: "string \<Rightarrow> u64 \<Rightarrow> Node \<Rightarrow> Node \<times> UsageMeter go" where
  "node_RecordUsage agreementID usageCount n =
     (case fmlookup (nd_Agreements n) agreementID of
        None \<Rightarrow> (n, Err ''agreement not found'')
      | Some agreement \<Rightarrow>
          (let n = (if 0 < agr_MaxCalls agreement \<and> agr_MaxCalls agreement < usageCount
                    then n\<lparr>nd_Agreements := fmupd agreementID (agreement\<lparr>agr_Status := ''over_limit''\<rparr>) (nd_Agreements n)\<rparr>
                    else n);
               meter = map_get zero_meter (nd_UsageMeters n) agreementID;
               meter = meter\<lparr>um_AgreementID := agreementID,
                             um_UsageCount := um_UsageCount meter + usageCount,
                             um_TotalCost := um_TotalCost meter + usageCount * agr_PricePerCall agreement\<rparr>
           in (n\<lparr>nd_UsageMeters := fmupd agreementID meter (nd_UsageMeters n)\<rparr>, Ok meter)))"

section \<open>Genesis and construction\<close>

record node_genesisFile =
  ng_ChainID :: string
  ng_Consensus :: string
  ng_TokenSymbol :: string
  ng_Allocations :: "genesis_alloc list"
  ng_Validators :: "genesis_val list"

fun node_load_allocations :: "node_env \<Rightarrow> genesis_alloc list \<Rightarrow> Node \<Rightarrow> Node \<times> unit go" where
  "node_load_allocations E [] n = (n, Ok ())"
| "node_load_allocations E (alloc # rest) n =
     (if ga_Address alloc = [] then (n, Err ''genesis allocation missing address'')
      else if node_MaxSupply < ga_Amount alloc then (n, Err ''genesis allocation exceeds max supply'')
      else let n = node_addAccountLocked E (ga_Address alloc) (ga_Amount alloc) False n;
               n = n\<lparr>nd_TokenSupply := nd_TokenSupply n + ga_Amount alloc\<rparr>
        in node_load_allocations E rest n)"

definition node_genesis_stake :: "node_env \<Rightarrow> string \<Rightarrow> u64 \<Rightarrow> Node \<Rightarrow> Node" where
  "node_genesis_stake E a stake n =
     (if has_key (nd_Ledger n) a
      then n\<lparr>nd_Ledger := modify_account a (\<lambda>acct. acct\<lparr>acct_IsAgent := False, acct_Staked := stake,
                acct_Balance := acct_Balance acct - stake\<rparr>) (nd_Ledger n)\<rparr>
      else let n = node_addAccountLocked E a stake False n
        in n\<lparr>nd_Ledger := modify_account a (\<lambda>acct. acct\<lparr>acct_Staked := stake\<rparr>) (nd_Ledger n)\<rparr>)"

fun node_load_validators :: "node_env \<Rightarrow> genesis_val list \<Rightarrow> Node \<Rightarrow> Node \<times> unit go" where
  "node_load_validators E [] n = (n, Ok ())"
| "node_load_validators E (val # rest) n =
     (if gv_Address val = [] then (n, Err ''genesis validator missing address'')
      else if gv_Stake val < node_MinStake then (n, Err ''genesis validator stake below minimum'')
      else let n = n\<lparr>nd_TokenSupply := nd_TokenSupply n + gv_Stake val\<rparr>;
               n = node_genesis_stake E (gv_Address val) (gv_Stake val) n;
               n = n\<lparr>nd_Validators := fmupd (gv_Address val)
                      \<lparr>val_PublicKey = [], val_Address = gv_Address val, val_Stake = gv_Stake val, val_Active = True,
                       val_JoinedAt = ne_now E, val_Performance = 100, val_PublicKeyVersion = 0, val_KeyRotatedAt = 0,
                       val_NextRotationAt = 0\<rparr> (nd_Validators n)\<rparr>;
               n = node_AddAuthority (gv_Address val) n
        in node_load_validators E rest n)"

definition node_loadGenesis :: "node_env \<Rightarrow> (string \<Rightarrow> node_genesisFile go) \<Rightarrow> string go \<Rightarrow> Node \<Rightarrow> Node \<times> unit go" where
  "node_loadGenesis E unjson file n =
     (case go_bind file unjson of
        Err e \<Rightarrow> (n, Err e)
      | Panic e \<Rightarrow> (n, Panic e)
      | Ok genesis \<Rightarrow>
          (let n = (if ng_ChainID genesis \<noteq> [] then n\<lparr>nd_ChainID := ng_ChainID genesis\<rparr> else n);
               n = (if ng_Consensus genesis \<noteq> [] then n\<lparr>nd_Consensus :=
                      (if ng_Consensus genesis = ''poa'' then ProofOfAuthority
                       else if ng_Consensus genesis = ''pow'' then ProofOfWork else ProofOfStake)\<rparr> else n);
               n = (if ng_TokenSymbol genesis \<noteq> [] then n\<lparr>nd_CurrencyName := ng_TokenSymbol genesis\<rparr> else n);
               n = n\<lparr>nd_TokenSupply := 0\<rparr>
           in case node_load_allocations E (ng_Allocations genesis) n of
                (n, Ok _) \<Rightarrow>
                  (case node_load_validators E (ng_Validators genesis) n of
                     (n, Ok _) \<Rightarrow>
                       (if node_MaxSupply < nd_TokenSupply n
                        then (n, Err (''genesis total supply exceeds max supply: '' @
                                FormatUint (nd_TokenSupply n) @ '' > '' @ FormatUint node_MaxSupply))
                        else (node_appendAuditEntry E ''genesis_loaded'' ''system'' (''chain_id='' @ nd_ChainID n @ '' supply='' @
                                FormatUint (nd_TokenSupply n) @ '' allocations='' @ fmt_nat (length (ng_Allocations genesis)) @
                                '' validators='' @ fmt_nat (length (ng_Validators genesis))) n, Ok ()))
                   | r \<Rightarrow> r)
              | r \<Rightarrow> r))"

definition node_seedDemoState :: "node_env \<Rightarrow> Node \<Rightarrow> Node" where
  "node_seedDemoState E n =
     (let n = node_AddAccount E ''human1'' 1000000 False n;
          n = node_AddAccount E ''agentA'' 100000 True n;
          n = node_AddAccount E ''agentB'' 50000 True n;
          n = node_Stake E ''agentA'' 10000 n
      in node_AddAuthority ''agentA'' n)"

definition empty_Node :: "ConsensusType \<Rightarrow> string \<Rightarrow> string option \<Rightarrow> Node" where
  "empty_Node consensus chainID file = \<lparr>nd_Chain = [], nd_Pending = [], nd_Ledger = fmempty, nd_Registry = fmempty,
     nd_Consensus = consensus, nd_Authorities = [], nd_validatorIdx = 0, nd_TokenSupply = node_InitialSupply,
     nd_Escrows = fmempty, nd_Proposals = fmempty, nd_Agreements = fmempty, nd_UsageMeters = fmempty, nd_UsedNonces = fmempty,
     nd_NextNonce = fmempty, nd_SeenTxIDs = {||}, nd_AuditTrail = [], nd_Wallets = fmempty, nd_Validators = fmempty,
     nd_GenesisHash = [], nd_ChainID = chainID, nd_BlockTime = 5000000000, nd_Difficulty = 8, nd_MintPaused = False,
     nd_MintPauseUntil = 0, nd_AgentTxCount = 0, nd_PendingReversals = None, nd_IrreversibleTxs = None,
     nd_metrics = Some zero_metrics, nd_CurrencyName = ''TENDER'', nd_file = file, nd_backup = None\<rparr>"

text \<open>\<open>genesis\<close> is the genesis file, absent when no path is given.\<close>

definition node_NewBlockchain ::
  "crypto \<Rightarrow> node_env \<Rightarrow> (string \<Rightarrow> node_genesisFile go) \<Rightarrow> ConsensusType \<Rightarrow> string option \<Rightarrow> string \<Rightarrow> string go option \<Rightarrow> Node" where
  "node_NewBlockchain C E unjson consensus file chainID genesis =
     (case node_loadFromDisk C E (node_createGenesisBlock C E (empty_Node consensus chainID file)) of
        (n, Ok _) \<Rightarrow> n
      | (n, _) \<Rightarrow>
          (let n = (case genesis of
                      None \<Rightarrow> node_seedDemoState E n
                    | Some g \<Rightarrow> (case node_loadGenesis E unjson g n of (n, Ok _) \<Rightarrow> n | (n, _) \<Rightarrow> node_seedDemoState E n))
           in fst (node_saveToDisk E n)))"

section \<open>Agreement with the package\<close>

text \<open>Reading a \<open>nil\<close> map is reading an empty one.\<close>

definition pending_reversals :: "Node \<Rightarrow> (string, PendingReversal) fmap" where
  "pending_reversals n = (case nd_PendingReversals n of None \<Rightarrow> fmempty | Some m \<Rightarrow> m)"

definition irreversible_txs :: "Node \<Rightarrow> string fset" where
  "irreversible_txs n = (case nd_IrreversibleTxs n of None \<Rightarrow> {||} | Some s \<Rightarrow> s)"

text \<open>A node of \<open>main.go\<close> seen as a node of package \<open>blockchain\<close>: the fields they share.\<close>

definition pkg :: "Node \<Rightarrow> Blockchain" where
  "pkg n = (empty_Blockchain (nd_Consensus n) (nd_ChainID n) \<lparr>file_chain = None, file_tmp = None\<rparr>)
     \<lparr>bc_Chain := nd_Chain n, bc_Pending := nd_Pending n, bc_Ledger := nd_Ledger n, bc_Registry := nd_Registry n,
      bc_Authorities := nd_Authorities n, bc_validatorIdx := nd_validatorIdx n, bc_TokenSupply := nd_TokenSupply n,
      bc_Escrows := nd_Escrows n, bc_Proposals := nd_Proposals n, bc_Agreements := nd_Agreements n,
      bc_UsageMeters := nd_UsageMeters n, bc_UsedNonces := nd_UsedNonces n, bc_NextNonce := nd_NextNonce n,
      bc_SeenTxIDs := nd_SeenTxIDs n, bc_AuditTrail := nd_AuditTrail n, bc_Wallets := nd_Wallets n,
      bc_AgentTxCount := nd_AgentTxCount n, bc_Difficulty := nd_Difficulty n, bc_BlockTime := nd_BlockTime n,
      bc_Validators := nd_Validators n, bc_PendingReversals := pending_reversals n, bc_IrreversibleTxs := irreversible_txs n\<rparr>"

definition pkg_env :: "node_env \<Rightarrow> env" where
  "pkg_env E = \<lparr>env_now = ne_now E, env_nano = ne_nano E, env_json_genesis = ne_json_genesis E,
     env_json_state = (\<lambda>_. Err []), env_unjson_state = (\<lambda>_. Err []), env_write_fault = None, env_rename_fault = None\<rparr>"

lemma pkg_select [simp]:
  "bc_Chain (pkg n) = nd_Chain n" "bc_Pending (pkg n) = nd_Pending n" "bc_Ledger (pkg n) = nd_Ledger n"
  "bc_Registry (pkg n) = nd_Registry n" "bc_Authorities (pkg n) = nd_Authorities n" "bc_TokenSupply (pkg n) = nd_TokenSupply n"
  "bc_Proposals (pkg n) = nd_Proposals n" "bc_Agreements (pkg n) = nd_Agreements n" "bc_UsageMeters (pkg n) = nd_UsageMeters n"
  "bc_UsedNonces (pkg n) = nd_UsedNonces n" "bc_NextNonce (pkg n) = nd_NextNonce n" "bc_SeenTxIDs (pkg n) = nd_SeenTxIDs n"
  "bc_AuditTrail (pkg n) = nd_AuditTrail n" "bc_Wallets (pkg n) = nd_Wallets n" "bc_AgentTxCount (pkg n) = nd_AgentTxCount n"
  "bc_ChainID (pkg n) = nd_ChainID n" "bc_Consensus (pkg n) = nd_Consensus n" "bc_Difficulty (pkg n) = nd_Difficulty n"
  "bc_BlockTime (pkg n) = nd_BlockTime n" "bc_Validators (pkg n) = nd_Validators n" "bc_validatorIdx (pkg n) = nd_validatorIdx n"
  "bc_PendingReversals (pkg n) = pending_reversals n" "bc_IrreversibleTxs (pkg n) = irreversible_txs n"
  by (simp_all add: pkg_def empty_Blockchain_def)

lemma pkg_update:
  "pkg (n\<lparr>nd_Ledger := x1\<rparr>) = (pkg n)\<lparr>bc_Ledger := x1\<rparr>"
  "pkg (n\<lparr>nd_TokenSupply := x2\<rparr>) = (pkg n)\<lparr>bc_TokenSupply := x2\<rparr>"
  "pkg (n\<lparr>nd_Proposals := x3\<rparr>) = (pkg n)\<lparr>bc_Proposals := x3\<rparr>"
  "pkg (n\<lparr>nd_Agreements := x4\<rparr>) = (pkg n)\<lparr>bc_Agreements := x4\<rparr>"
  "pkg (n\<lparr>nd_UsageMeters := x5\<rparr>) = (pkg n)\<lparr>bc_UsageMeters := x5\<rparr>"
  "pkg (n\<lparr>nd_Wallets := x6\<rparr>) = (pkg n)\<lparr>bc_Wallets := x6\<rparr>"
  "pkg (n\<lparr>nd_Authorities := x7\<rparr>) = (pkg n)\<lparr>bc_Authorities := x7\<rparr>"
  "pkg (n\<lparr>nd_AuditTrail := x8\<rparr>) = (pkg n)\<lparr>bc_AuditTrail := x8\<rparr>"
  "pkg (n\<lparr>nd_Pending := x9\<rparr>) = (pkg n)\<lparr>bc_Pending := x9\<rparr>"
  "pkg (n\<lparr>nd_Registry := x10\<rparr>) = (pkg n)\<lparr>bc_Registry := x10\<rparr>"
  "pkg (n\<lparr>nd_Difficulty := x11\<rparr>) = (pkg n)\<lparr>bc_Difficulty := x11\<rparr>"
  "pkg (n\<lparr>nd_PendingReversals := Some x12\<rparr>) = (pkg n)\<lparr>bc_PendingReversals := x12\<rparr>"
  "pkg (n\<lparr>nd_validatorIdx := x13\<rparr>) = (pkg n)\<lparr>bc_validatorIdx := x13\<rparr>"
  by (simp_all add: pkg_def empty_Blockchain_def pending_reversals_def irreversible_txs_def)

lemma pkg_audit: "pkg (node_appendAuditEntry E e a d n) = appendAuditEntry (pkg_env E) e a d (pkg n)"
  by (simp add: node_appendAuditEntry_def appendAuditEntry_def pkg_update pkg_env_def)

lemmas pkg_simps = pkg_update pkg_audit

lemma pkg_rewards: "pkg (node_rewards_loop ks n) = rewards_loop ks (pkg n)"
proof (induction ks arbitrary: n)
  case (Cons k ks)
  show ?case
    by (simp add: Cons pkg_simps stake_reward_def node_RewardRatePercent_def RewardRatePercent_def Let_def split: option.splits)
qed simp

text \<open>C14. Two implementations, one behaviour: the accounts, stakes, rewards, burning, buyback, wallets, proposals,
  agreements and metering of the node in \<open>main.go\<close> do, on the fields they share, exactly what the
  operations of package \<open>blockchain\<close> do. So what is proved of these operations of the package holds of those of the node; slashing, which differs, is not among them.\<close>

theorem node_agrees_with_package:
  "pkg (node_AddAccount E a v ag n) = AddAccount (pkg_env E) a v ag (pkg n) \<and>
   pkg (fst (node_CreateManagedWallet C E w l ag n)) = fst (CreateManagedWallet C (pkg_env E) w l ag (pkg n)) \<and>
   pkg (node_Stake E a v n) = Stake (pkg_env E) a v (pkg n) \<and>
   pkg (node_DistributeRewards ks n) = DistributeRewards ks (pkg n) \<and>
   pkg (node_Burn v n) = Burn v (pkg n) \<and>
   pkg (node_treasuryBuyback E n) = treasuryBuybackLocked (pkg_env E) (pkg n) \<and>
   pkg (fst (node_CreateProposal E t d n)) = fst (CreateProposal (pkg_env E) t d (pkg n)) \<and>
   pkg (node_VoteProposal E i voter n) = VoteProposal (pkg_env E) i voter (pkg n) \<and>
   pkg (node_AddAuthority a n) = AddAuthority a (pkg n) \<and>
   pkg (fst (node_CreateServiceAgreement E p c m pr mx n)) = fst (CreateServiceAgreement (pkg_env E) p c m pr mx (pkg n)) \<and>
   snd (node_CreateServiceAgreement E p c m pr mx n) = snd (CreateServiceAgreement (pkg_env E) p c m pr mx (pkg n)) \<and>
   pkg (fst (node_RecordUsage i cnt n)) = fst (RecordUsage i cnt (pkg n)) \<and>
   snd (node_RecordUsage i cnt n) = snd (RecordUsage i cnt (pkg n))"
proof -
  have env: "env_nano (pkg_env E) = ne_nano E" by (simp add: pkg_env_def)
  have acc: "pkg (node_addAccountLocked E a v ag n) = addAccountLocked (pkg_env E) a v ag (pkg n)" for a v ag n
    by (simp add: node_addAccountLocked_def addAccountLocked_def Let_def pkg_simps)
  have "bc_Wallets (addAccountLocked (pkg_env E) a v ag (pkg n)) = nd_Wallets (node_addAccountLocked E a v ag n)" for a v ag n
    by (simp add: node_addAccountLocked_def addAccountLocked_def appendAuditEntry_def node_appendAuditEntry_def Let_def)
  then have "pkg (fst (node_CreateManagedWallet C E w l ag n)) = fst (CreateManagedWallet C (pkg_env E) w l ag (pkg n))"
    by (simp add: node_CreateManagedWallet_def CreateManagedWallet_def Let_def pkg_simps acc env)
  moreover have "pkg (node_Stake E a v n) = Stake (pkg_env E) a v (pkg n)"
    by (simp add: node_Stake_def Stake_def pkg_simps split: option.splits)
  moreover have "pkg (node_treasuryBuyback E n) = treasuryBuybackLocked (pkg_env E) (pkg n)"
    by (simp add: node_treasuryBuyback_def treasuryBuybackLocked_def Let_def pkg_simps split: option.splits)
  moreover have "pkg (fst (node_CreateProposal E t d n)) = fst (CreateProposal (pkg_env E) t d (pkg n))"
    by (simp add: node_CreateProposal_def CreateProposal_def Let_def pkg_simps env)
  moreover have "pkg (node_VoteProposal E i voter n) = VoteProposal (pkg_env E) i voter (pkg n)"
    by (simp add: node_VoteProposal_def VoteProposal_def Let_def pkg_simps split: option.splits)
  moreover have "pkg (fst (node_CreateServiceAgreement E p c m pr mx n)) = fst (CreateServiceAgreement (pkg_env E) p c m pr mx (pkg n))"
      "snd (node_CreateServiceAgreement E p c m pr mx n) = snd (CreateServiceAgreement (pkg_env E) p c m pr mx (pkg n))"
    by (simp_all add: node_CreateServiceAgreement_def CreateServiceAgreement_def Let_def pkg_simps env)
  moreover have "pkg (fst (node_RecordUsage i cnt n)) = fst (RecordUsage i cnt (pkg n))"
      "snd (node_RecordUsage i cnt n) = snd (RecordUsage i cnt (pkg n))"
    by (simp_all add: node_RecordUsage_def RecordUsage_def Let_def pkg_simps split: option.splits)
  ultimately show ?thesis
    by (simp add: node_AddAccount_def AddAccount_def acc node_DistributeRewards_def node_distributeRewards_def DistributeRewards_def
        pkg_rewards node_Burn_def Burn_def Let_def pkg_simps node_AddAuthority_def AddAuthority_def)
qed

text \<open>Creating an escrow on a node that was not loaded from a file with irreversible transactions is a trap:
  the sender is debited and the escrow stored, and then the call panics.\<close>

theorem escrow_panics_on_fresh_node:
  assumes "fmlookup (nd_Ledger n) payer = Some ac" "amount \<le> acct_Balance ac" "nd_IrreversibleTxs n = None"
  shows "case node_CreateEscrow E payer payee amount sid n of (n', r) \<Rightarrow>
    r = Panic ''assignment to entry in nil map'' \<and> balance_of (nd_Ledger n') payer = Some (acct_Balance ac - amount) \<and>
    (\<exists>e. fmlookup (nd_Escrows n') (''escrow-'' @ FormatInt (ne_nano E)) = Some e \<and> esc_Amount e = amount)"
  using assms
  by (simp add: node_CreateEscrow_def node_MarkIrreversible_def Let_def not_less balance_of_def debit_def modify_account_lookup)

definition demo_node_env :: node_env where
  "demo_node_env = \<lparr>ne_now = 1000, ne_nano = 1000000000000, ne_json_genesis = (\<lambda>c t s k. c), ne_json_view = (\<lambda>c h t a. c),
     ne_json_state = (\<lambda>s. Ok ''state''), ne_unjson_state = (\<lambda>s. Err ''syntax''), ne_write_fault = None, ne_rename_ok = True,
     ne_path = ''data/chain.json''\<rparr>"

definition demo_main :: Node where
  "demo_main = node_NewBlockchain demo_crypto demo_node_env (\<lambda>_. Err []) ProofOfStake None ''main'' None"

lemmas demo_main_simps = demo_main_def node_NewBlockchain_def node_loadFromDisk_def node_createGenesisBlock_def empty_Node_def
  node_seedDemoState_def node_AddAccount_def node_addAccountLocked_def node_appendAuditEntry_def node_Stake_def
  node_AddAuthority_def node_saveToDisk_def demo_node_env_def Let_def

lemma demo_main_fields:
  "nd_IrreversibleTxs demo_main = None" "nd_PendingReversals demo_main = None"
  "balance_of (nd_Ledger demo_main) ''human1'' = Some 1000000"
  by (simp_all add: demo_main_simps balance_of_def account_ops modify_account_lookup)

theorem escrow_panics_on_fresh_node_witness:
  "snd (node_CreateEscrow demo_node_env ''human1'' ''agentA'' 5 ''s'' demo_main) = Panic ''assignment to entry in nil map''"
proof -
  obtain ac where "fmlookup (nd_Ledger demo_main) ''human1'' = Some ac" "acct_Balance ac = 1000000"
    using demo_main_fields(3) by (auto simp: balance_of_def)
  then show ?thesis
    using escrow_panics_on_fresh_node [of demo_main "''human1''" ac 5 demo_node_env "''agentA''" "''s''"] demo_main_fields(1)
    by (simp add: case_prod_beta)
qed

end
