(* ===== verification/Node_Rules.thy ===== *)
theory Node_Rules
  imports Node_Ledger Mining_Properties
begin

text \<open>
  The rules of the node of \<open>main.go\<close>: replay protection, mempool, fees, reversals, valid transactions,
  blocks and chains, the application of a block, and the ledger that peers exchange. They look like the rules of
  package \<open>blockchain\<close> and differ in details that matter; the last sections prove where they agree and
  what the differences mean.
\<close>

section \<open>Replay protection and mempool\<close>

definition node_isReplay :: "Transaction \<Rightarrow> Node \<Rightarrow> bool" where
  "node_isReplay tx n =
     (if tx_Nonce tx = 0 then False
      else if (case fmlookup (nd_UsedNonces n) (tx_From tx) of None \<Rightarrow> False | Some used \<Rightarrow> tx_Nonce tx |\<in>| used)
      then True
      else if tx_Nonce tx < map_get 0 (nd_NextNonce n) (tx_From tx) then True
      else if tx_ID tx \<noteq> [] \<and> tx_ID tx |\<in>| nd_SeenTxIDs n then True
      else False)"

definition node_markTransactionSeen :: "Transaction \<Rightarrow> Node \<Rightarrow> Node" where
  "node_markTransactionSeen tx n =
     (let n = (if tx_ID tx \<noteq> [] then n\<lparr>nd_SeenTxIDs := finsert (tx_ID tx) (nd_SeenTxIDs n)\<rparr> else n) in
      if 0 < tx_Nonce tx then
        let used = map_get {||} (nd_UsedNonces n) (tx_From tx);
            n = n\<lparr>nd_UsedNonces := fmupd (tx_From tx) (finsert (tx_Nonce tx) used) (nd_UsedNonces n)\<rparr>
        in (if map_get 0 (nd_NextNonce n) (tx_From tx) \<le> tx_Nonce tx
            then n\<lparr>nd_NextNonce := fmupd (tx_From tx) (tx_Nonce tx + 1) (nd_NextNonce n)\<rparr>
            else n)
      else n)"

definition node_SubmitTransaction :: "node_env \<Rightarrow> Transaction \<Rightarrow> Node \<Rightarrow> Node" where
  "node_SubmitTransaction E tx n =
     (let next = map_get 0 (nd_NextNonce n) (tx_From tx) in
      if tx_Nonce tx < next then
        node_appendAuditEntry E ''transaction_rejected'' (tx_From tx) (''tx_id='' @ tx_ID tx @ '' nonce='' @
          FormatUint (tx_Nonce tx) @ '' expected='' @ FormatUint next) n
      else
        node_appendAuditEntry E ''transaction_submitted'' (tx_From tx) (''tx_id='' @ tx_ID tx @ '' nonce='' @
          FormatUint (tx_Nonce tx)) (n\<lparr>nd_Pending := nd_Pending n @ [tx]\<rparr>))"

definition node_prepare_tx :: "node_env \<Rightarrow> Transaction \<Rightarrow> Node \<Rightarrow> Transaction" where
  "node_prepare_tx E tx n =
     (let tx = (if tx_ID tx = [] then tx\<lparr>tx_ID := ''tx-'' @ FormatInt (ne_nano E)\<rparr> else tx)
      in if tx_Nonce tx = 0 then tx\<lparr>tx_Nonce := map_get 0 (nd_NextNonce n) (tx_From tx)\<rparr> else tx)"

definition node_EnqueueTransaction :: "node_env \<Rightarrow> Transaction \<Rightarrow> Node \<Rightarrow> Node" where
  "node_EnqueueTransaction E tx0 n =
     (let tx = node_prepare_tx E tx0 n;
          queued = node_appendAuditEntry E ''transaction_queued'' (tx_From tx)
            (''tx_id='' @ tx_ID tx @ '' fee='' @ FormatUint (tx_Fee tx))
      in if node_isReplay tx n then
           node_appendAuditEntry E ''transaction_rejected'' (tx_From tx)
             (''tx_id='' @ tx_ID tx @ '' nonce='' @ FormatUint (tx_Nonce tx)) n
         else case find_same 0 (nd_Pending n) tx of
           Some (i, pending) \<Rightarrow>
             (if tx_Fee pending < tx_Fee tx then
                node_appendAuditEntry E ''transaction_replaced'' (tx_From tx) (''tx_id='' @ tx_ID tx)
                  (n\<lparr>nd_Pending := (nd_Pending n)[i := tx]\<rparr>)
              else n)
         | None \<Rightarrow>
             (if 5000 \<le> length (nd_Pending n) then
                (let low = lowestFeeIdx (nd_Pending n) in
                 if tx_Fee tx \<le> tx_Fee (nd_Pending n ! low) then n
                 else queued (n\<lparr>nd_Pending := (nd_Pending n)[low := tx]\<rparr>))
              else queued (n\<lparr>nd_Pending := nd_Pending n @ [tx]\<rparr>)))"

section \<open>Fees\<close>

definition node_isAITransaction :: "TransactionType \<Rightarrow> bool" where
  "node_isAITransaction txType \<longleftrightarrow> txType = RegisterModel \<or> txType = UpdateModel \<or> txType = PurchaseApiKey"

definition node_estimateFee :: "(rat \<Rightarrow> u64) \<Rightarrow> Transaction \<Rightarrow> nat \<Rightarrow> Node \<Rightarrow> u64" where
  "node_estimateFee oor tx congestion n =
     (let baseComplexity = (if tx_TxType tx = RegisterModel then 3 else if tx_TxType tx = UpdateModel then 2
            else if tx_TxType tx = PurchaseApiKey then 2 else 1 :: u64);
          congestionFactor = of_nat congestion :: u64;
          congestionFactor = (if 10 < congestionFactor then 10 else congestionFactor);
          baseFee = node_BaseFee + baseComplexity * node_FeeMultiplier + congestionFactor;
          baseFee = (if 0 < nd_TokenSupply n then
                       (if nd_TokenSupply n < 1000000 then baseFee + 2
                        else if 10000000 < nd_TokenSupply n then baseFee - 1 else baseFee)
                     else baseFee)
      in if node_isAITransaction (tx_TxType tx) \<and> 0 < nd_AgentTxCount n \<and> 0 < nd_TokenSupply n
         then baseFee + u64_of_float oor (fl (fl (float_of_u64 (nd_AgentTxCount n) / float_of_u64 (nd_TokenSupply n)) * 1000000000))
         else baseFee)"

section \<open>Reversals\<close>

definition node_findOriginalTransaction :: "string \<Rightarrow> Node \<Rightarrow> Transaction option" where
  "node_findOriginalTransaction txID n = find (\<lambda>tx. tx_ID tx = txID) (concat (map blk_Transactions (nd_Chain n)))"

definition node_validateRequestReversal :: "Node \<Rightarrow> Transaction \<Rightarrow> bool" where
  "node_validateRequestReversal n tx =
     (if tx_Amount tx = 0 \<or> tx_Payload tx = [] then False
      else if tx_Payload tx |\<in>| irreversible_txs n then False
      else case node_findOriginalTransaction (tx_Payload tx) n of
        None \<Rightarrow> False
      | Some original \<Rightarrow>
          (if tx_From original \<noteq> tx_From tx \<or> tx_To original \<noteq> tx_To tx \<or> tx_Amount original \<noteq> tx_Amount tx
           then False
           else if tx_TxType original \<noteq> Transfer then False
           else case fmlookup (nd_Ledger n) (tx_To tx) of
             None \<Rightarrow> False
           | Some receiver \<Rightarrow>
               (if acct_Balance receiver < tx_Amount tx then False
                else if has_key (pending_reversals n) (tx_Payload tx) then False
                else True)))"

definition node_validateConfirmReversal :: "Node \<Rightarrow> Transaction \<Rightarrow> bool" where
  "node_validateConfirmReversal n tx =
     (if tx_Payload tx = [] then False
      else case fmlookup (pending_reversals n) (tx_Payload tx) of
        None \<Rightarrow> False
      | Some reversal \<Rightarrow>
          (if rev_Status reversal \<noteq> ''requested'' then False
           else if rev_To reversal \<noteq> tx_From tx then False
           else True))"

definition node_validateCommitReversal :: "Node \<Rightarrow> Transaction \<Rightarrow> bool" where
  "node_validateCommitReversal n tx =
     (if tx_Payload tx = [] then False
      else case fmlookup (pending_reversals n) (tx_Payload tx) of
        None \<Rightarrow> False
      | Some reversal \<Rightarrow>
          (if rev_Status reversal \<noteq> ''confirmed'' then False
           else if rev_From reversal \<noteq> tx_From tx \<and> rev_To reversal \<noteq> tx_From tx then False
           else True))"

text \<open>The body of the loop of \<open>ProcessReversals\<close>, and the loop, which a panic ends.\<close>

definition node_process_reversal :: "node_env \<Rightarrow> Transaction \<Rightarrow> Node \<Rightarrow> Node \<times> unit go" where
  "node_process_reversal E tx n =
     (if tx_TxType tx = RequestReversal then
        (if \<not> has_key (pending_reversals n) (tx_Payload tx) then
           (case nd_PendingReversals n of
              None \<Rightarrow> (n, Panic ''assignment to entry in nil map'')
            | Some m \<Rightarrow>
                (node_appendAuditEntry E ''reversal_requested'' (tx_From tx)
                   (''original_tx='' @ tx_Payload tx @ '' amount='' @ FormatUint (tx_Amount tx))
                   (n\<lparr>nd_PendingReversals := Some (fmupd (tx_Payload tx)
                     \<lparr>rev_ID = tx_ID tx, rev_OriginalTxID = tx_Payload tx, rev_From = tx_From tx, rev_To = tx_To tx,
                      rev_Amount = tx_Amount tx, rev_Requester = tx_From tx, rev_Confirmer = [],
                      rev_Status = ''requested'', rev_Irreversible = False\<rparr> m)\<rparr>), Ok ()))
         else (n, Ok ()))
      else if tx_TxType tx = ConfirmReversal then
        (case fmlookup (pending_reversals n) (tx_Payload tx) of
           None \<Rightarrow> (n, Ok ())
         | Some reversal \<Rightarrow>
             (if rev_Status reversal = ''requested'' then
                (node_appendAuditEntry E ''reversal_confirmed'' (tx_From tx) (''original_tx='' @ tx_Payload tx)
                  (n\<lparr>nd_PendingReversals := Some (fmupd (tx_Payload tx)
                    (reversal\<lparr>rev_Status := ''confirmed'', rev_Confirmer := tx_From tx\<rparr>) (pending_reversals n))\<rparr>), Ok ())
              else (n, Ok ())))
      else if tx_TxType tx = CommitReversal then
        (case fmlookup (pending_reversals n) (tx_Payload tx) of
           None \<Rightarrow> (n, Ok ())
         | Some reversal \<Rightarrow>
             (if rev_Status reversal = ''confirmed'' then
                (case (fmlookup (nd_Ledger n) (rev_From reversal), fmlookup (nd_Ledger n) (rev_To reversal)) of
                   (Some sender, Some receiver) \<Rightarrow>
                     (if rev_Amount reversal \<le> acct_Balance receiver then
                        (node_appendAuditEntry E ''reversal_committed'' (tx_From tx)
                          (''original_tx='' @ tx_Payload tx @ '' amount='' @ FormatUint (rev_Amount reversal))
                          (n\<lparr>nd_Ledger := credit (rev_From reversal) (rev_Amount reversal)
                                (debit (rev_To reversal) (rev_Amount reversal) (nd_Ledger n)),
                             nd_PendingReversals := Some (fmdrop (tx_Payload tx) (pending_reversals n))\<rparr>), Ok ())
                      else (n, Ok ()))
                 | _ \<Rightarrow> (n, Ok ()))
              else (n, Ok ())))
      else (n, Ok ()))"

fun node_process_reversals :: "node_env \<Rightarrow> Transaction list \<Rightarrow> Node \<Rightarrow> Node \<times> unit go" where
  "node_process_reversals E [] n = (n, Ok ())"
| "node_process_reversals E (tx # txs) n =
     (case node_process_reversal E tx n of
        (n, Ok _) \<Rightarrow> node_process_reversals E txs n
      | (n, r) \<Rightarrow> (n, r))"

definition node_ProcessReversals :: "node_env \<Rightarrow> Block \<Rightarrow> Node \<Rightarrow> Node \<times> unit go" where
  "node_ProcessReversals E block n = node_process_reversals E (blk_Transactions block) n"

section \<open>Valid transactions, blocks and chains\<close>

definition node_calculateHash :: "crypto \<Rightarrow> Block \<Rightarrow> string" where
  "node_calculateHash C block =
     (let clone = block\<lparr>blk_BlockHash := []\<rparr>;
          data = json_block C clone;
          sum = sha256 C data
      in EncodeToString sum)"

text \<open>\<open>time.Unix(t, 0)\<close> counts seconds from the year 1 in an \<open>int64\<close>, and the sum wraps around; the comparison with
  ten minutes ago is exact.\<close>

definition tx_expired :: "node_env \<Rightarrow> i64 \<Rightarrow> bool" where
  "tx_expired E t \<longleftrightarrow> sint (t + 62135596800) * 1000000000 < sint (ne_nano E) - 600 * 1000000000 + 62135596800 * 1000000000"

definition node_validateTransaction :: "crypto \<Rightarrow> node_env \<Rightarrow> Transaction \<Rightarrow> Node \<Rightarrow> bool" where
  "node_validateTransaction C E tx n =
     (if tx_ChainID tx \<noteq> nd_ChainID n then False
      else if \<not> VerifyTransaction C tx then False
      else if node_isReplay tx n then False
      else if tx_Timestamp tx = 0 \<or> tx_expired E (tx_Timestamp tx) then False
      else case fmlookup (nd_Ledger n) (tx_From tx) of
        None \<Rightarrow> False
      | Some sender \<Rightarrow>
          (if tx_From tx \<noteq> tx_To tx \<and> tx_Amount tx = 0 then False
           else if node_isAITransaction (tx_TxType tx) \<and> acct_Balance sender < node_AgentMinBalance then False
           else if tx_TxType tx = Transfer then
             has_key (nd_Ledger n) (tx_To tx) \<and> tx_Amount tx \<le> acct_Balance sender
           else if tx_TxType tx = RegisterModel then
             acct_IsAgent sender \<and> \<not> has_key (nd_Registry n) (tx_To tx) \<and> node_AIModelStake \<le> acct_Staked sender
           else if tx_TxType tx = UpdateModel then
             (case fmlookup (nd_Registry n) (tx_To tx) of
                None \<Rightarrow> False | Some entry \<Rightarrow> mr_Owner entry = tx_From tx \<and> node_AIModelStake \<le> acct_Staked sender)
           else if tx_TxType tx = PurchaseApiKey then
             (case fmlookup (nd_Registry n) (tx_To tx) of
                None \<Rightarrow> False | Some entry \<Rightarrow> tx_Amount tx \<le> acct_Balance sender \<and> mr_Active entry)
           else if tx_TxType tx = RequestReversal then node_validateRequestReversal n tx
           else if tx_TxType tx = ConfirmReversal then node_validateConfirmReversal n tx
           else if tx_TxType tx = CommitReversal then node_validateCommitReversal n tx
           else False))"

fun node_validate_txs :: "crypto \<Rightarrow> node_env \<Rightarrow> Node \<Rightarrow> string fset \<Rightarrow> Transaction list \<Rightarrow> unit go" where
  "node_validate_txs C E n seen [] = Ok ()"
| "node_validate_txs C E n seen (tx # txs) =
     (if tx_ID tx = [] then Err ''missing transaction id''
      else if tx_ID tx |\<in>| seen then Err ''duplicate transaction''
      else if \<not> node_validateTransaction C E tx n then Err ''invalid transaction''
      else node_validate_txs C E n (finsert (tx_ID tx) seen) txs)"

definition node_validateBlock :: "crypto \<Rightarrow> node_env \<Rightarrow> Block \<Rightarrow> Block \<Rightarrow> Node \<Rightarrow> unit go" where
  "node_validateBlock C E block prev n =
     (if blk_Index block \<noteq> blk_Index prev + 1 then Err ''invalid index''
      else if blk_PreviousHash block \<noteq> blk_BlockHash prev then Err ''invalid previous hash''
      else if blk_BlockHash block = [] then Err ''missing block hash''
      else if node_calculateHash C block \<noteq> blk_BlockHash block then Err ''invalid block hash''
      else node_validate_txs C E n {||} (blk_Transactions block))"

fun node_validate_links :: "crypto \<Rightarrow> node_env \<Rightarrow> Node \<Rightarrow> Block list \<Rightarrow> unit go" where
  "node_validate_links C E n (prev # b # bs) =
     go_bind (node_validateBlock C E b prev n) (\<lambda>_. node_validate_links C E n (b # bs))"
| "node_validate_links C E n bs = Ok ()"

definition node_validateChain :: "crypto \<Rightarrow> node_env \<Rightarrow> Block list \<Rightarrow> Node \<Rightarrow> unit go" where
  "node_validateChain C E chain n =
     (case chain of
        [] \<Rightarrow> Err ''empty chain''
      | genesis # _ \<Rightarrow>
          (if blk_Index genesis \<noteq> 0 then Err ''invalid genesis'' else node_validate_links C E n chain))"

definition node_replaceChain :: "crypto \<Rightarrow> node_env \<Rightarrow> Block list \<Rightarrow> Node \<Rightarrow> Node \<times> bool" where
  "node_replaceChain C E newChain n =
     (if node_validateChain C E newChain n \<noteq> Ok () then (n, False)
      else if length newChain \<le> length (nd_Chain n) then (n, False)
      else let n = n\<lparr>nd_Chain := newChain\<rparr>;
               n = node_appendAuditEntry E ''chain_replaced'' ''network'' (''height='' @ fmt_nat (length newChain)) n
        in (fst (node_saveToDisk E n), True))"

definition node_adjustDifficulty :: "Node \<Rightarrow> Node" where
  "node_adjustDifficulty n =
     (if length (nd_Chain n) < 2 then n
      else let last = nd_Chain n ! (length (nd_Chain n) - 1);
               prev = nd_Chain n ! (length (nd_Chain n) - 2);
               actualTime = saturate64 ((sint (blk_Timestamp last) - sint (blk_Timestamp prev)) * 1000000000)
        in if actualTime <s nd_BlockTime n \<and> nd_Difficulty n < 64 then n\<lparr>nd_Difficulty := nd_Difficulty n + 1\<rparr>
           else if nd_BlockTime n * 2 <s actualTime \<and> 0 < nd_Difficulty n then n\<lparr>nd_Difficulty := nd_Difficulty n - 1\<rparr>
           else n)"

section \<open>Application of a block\<close>

definition node_apply_tx :: "Transaction \<Rightarrow> Node \<Rightarrow> Node" where
  "node_apply_tx tx n =
     (let cid = tx_To tx @ '':'' @ tx_From tx @ '':'' @ tx_Payload tx
      in if tx_TxType tx = Transfer then
           n\<lparr>nd_Ledger := guarded_pay (tx_From tx) (tx_To tx) (tx_Amount tx) (nd_Ledger n)\<rparr>
         else if tx_TxType tx = RegisterModel then
           (let n = (case fmlookup (nd_Ledger n) (tx_From tx) of
                       None \<Rightarrow> n
                     | Some staker \<Rightarrow>
                         (if node_AIModelStake \<le> acct_Balance staker
                          then n\<lparr>nd_Ledger := add_stake (tx_From tx) node_AIModelStake
                                 (debit (tx_From tx) node_AIModelStake (nd_Ledger n))\<rparr>
                          else n))
            in n\<lparr>nd_Registry := fmupd (tx_To tx) \<lparr>mr_ID = tx_To tx, mr_Owner = tx_From tx, mr_CID = cid,
                 mr_Active = True, mr_PricePerCall = tx_Amount tx\<rparr> (nd_Registry n)\<rparr>)
         else if tx_TxType tx = UpdateModel then
           n\<lparr>nd_Registry := fmupd (tx_To tx) ((map_get zero_ModelRef (nd_Registry n) (tx_To tx))
                \<lparr>mr_CID := cid, mr_PricePerCall := tx_Amount tx\<rparr>) (nd_Registry n)\<rparr>
         else if tx_TxType tx = PurchaseApiKey then
           n\<lparr>nd_Ledger := guarded_pay (tx_From tx) (mr_Owner (map_get zero_ModelRef (nd_Registry n) (tx_To tx)))
                (tx_Amount tx) (nd_Ledger n)\<rparr>
         else n)"

definition node_applyBlock :: "node_env \<Rightarrow> Block \<Rightarrow> Node \<Rightarrow> Node \<times> unit go" where
  "node_applyBlock E block n = node_ProcessReversals E block (fold node_apply_tx (blk_Transactions block) n)"

section \<open>The ledger that peers exchange\<close>

text \<open>A received ledger may hold \<open>null\<close> for an account.\<close>

record LedgerState =
  ls_Ledger :: "(string, Account option) fmap"
  ls_Authorities :: "string list"
  ls_TokenSupply :: u64

definition node_snapshot :: "Node \<Rightarrow> node_saved" where
  "node_snapshot n = \<lparr>sv_Chain = nd_Chain n, sv_Pending = nd_Pending n, sv_Ledger = nd_Ledger n, sv_Registry = nd_Registry n,
     sv_Consensus = node_consensusName (nd_Consensus n), sv_Authorities = nd_Authorities n, sv_TokenSupply = nd_TokenSupply n,
     sv_Escrows = nd_Escrows n, sv_Proposals = nd_Proposals n, sv_Agreements = nd_Agreements n, sv_UsageMeters = nd_UsageMeters n,
     sv_UsedNonces = fmempty, sv_SeenTxIDs = {||}, sv_AuditTrail = [], sv_NextNonce = nd_NextNonce n,
     sv_PendingReversals = None, sv_IrreversibleTxs = None\<rparr>"

definition node_ledgerState :: "Node \<Rightarrow> LedgerState" where
  "node_ledgerState n = \<lparr>ls_Ledger = fmmap Some (nd_Ledger n), ls_Authorities = nd_Authorities n, ls_TokenSupply = nd_TokenSupply n\<rparr>"

text \<open>The loop over the received ledger, in the order \<open>ks\<close>.\<close>

fun sync_accounts :: "node_env \<Rightarrow> LedgerState \<Rightarrow> string list \<Rightarrow> Node \<Rightarrow> Node" where
  "sync_accounts E state [] n = n"
| "sync_accounts E state (addr # ks) n =
     (case fmlookup (ls_Ledger state) addr of
        Some (Some acct) \<Rightarrow>
          (case fmlookup (nd_Ledger n) addr of
             None \<Rightarrow> sync_accounts E state ks
               (node_appendAuditEntry E ''state_synced_account'' addr (''balance='' @ FormatUint (acct_Balance acct) @
                  '' staked='' @ FormatUint (acct_Staked acct) @ '' agent='' @ fmt_bool (acct_IsAgent acct))
                  (n\<lparr>nd_Ledger := fmupd addr acct (nd_Ledger n)\<rparr>))
           | Some existing \<Rightarrow> sync_accounts E state ks
               (n\<lparr>nd_Ledger := fmupd addr (existing\<lparr>acct_Balance := acct_Balance acct, acct_Staked := acct_Staked acct,
                    acct_IsAgent := acct_IsAgent acct\<rparr>) (nd_Ledger n)\<rparr>))
      | _ \<Rightarrow> sync_accounts E state ks n)"

definition node_applyLedgerState :: "node_env \<Rightarrow> string list \<Rightarrow> LedgerState option \<Rightarrow> Node \<Rightarrow> Node" where
  "node_applyLedgerState E ks state n =
     (case state of
        None \<Rightarrow> n
      | Some state \<Rightarrow>
          (let n = sync_accounts E state ks n;
               n = (if 0 < length (ls_Authorities state) then n\<lparr>nd_Authorities := ls_Authorities state\<rparr> else n);
               n = (if 0 < ls_TokenSupply state then n\<lparr>nd_TokenSupply := ls_TokenSupply state\<rparr> else n)
           in node_appendAuditEntry E ''state_synced'' ''network''
                (''accounts='' @ fmt_nat (map_len (ls_Ledger state)) @ '' supply='' @ FormatUint (ls_TokenSupply state)) n))"

section \<open>Agreement with the package\<close>

lemma pkg_isReplay:
  "node_isReplay tx n \<longleftrightarrow> isReplay tx (pkg n) \<or> (tx_Nonce tx \<noteq> 0 \<and> tx_ID tx \<noteq> [] \<and> tx_ID tx |\<in>| nd_SeenTxIDs n)"
  by (simp add: node_isReplay_def isReplay_def)

lemma pkg_prepare: "node_prepare_tx E tx n = prepare_tx (pkg_env E) tx (pkg n)"
  by (simp add: node_prepare_tx_def prepare_tx_def pkg_env_def Let_def)

lemma node_prepare_named: "tx_ID (node_prepare_tx E tx n) \<noteq> []"
  by (simp add: node_prepare_tx_def Let_def)

lemma node_replay_prepared:
  "node_isReplay (node_prepare_tx E tx n) n \<longleftrightarrow>
     (let p = node_prepare_tx E tx n in 0 < tx_Nonce p \<and>
       (tx_Nonce p |\<in>| map_get {||} (nd_UsedNonces n) (tx_From p) \<or> tx_Nonce p < map_get 0 (nd_NextNonce n) (tx_From p) \<or> tx_ID p |\<in>| nd_SeenTxIDs n))"
  using node_prepare_named [of E tx n]
  by (auto simp: node_isReplay_def Let_def map_get_def word_gt_0 split: option.splits)

lemma audit_pending [frame]: "nd_Pending (node_appendAuditEntry E e a d n) = nd_Pending n"
  by (simp add: node_appendAuditEntry_def)

text \<open>C16. The mempool of the node is that of the package behind a stronger filter. The transaction is first completed (an identifier, and the next nonce of its sender in place of nonce 0);
  it is then refused, with the mempool unchanged, exactly when its nonce is positive and either used, below the next nonce of its sender, or its identifier was seen before; the package looks at the nonces only.
  Every other one is appended, replaced or evicted as in the package. A transaction that still has nonce 0 is never refused as a replay.\<close>

theorem node_mempool_refines:
  "nd_Pending (node_EnqueueTransaction E tx n) =
     (let p = node_prepare_tx E tx n in
      if 0 < tx_Nonce p \<and> (tx_Nonce p |\<in>| map_get {||} (nd_UsedNonces n) (tx_From p) \<or> tx_Nonce p < map_get 0 (nd_NextNonce n) (tx_From p) \<or> tx_ID p |\<in>| nd_SeenTxIDs n)
      then nd_Pending n
      else bc_Pending (EnqueueTransaction (pkg_env E) tx (pkg n)))"
proof -
  have "nd_Pending (node_EnqueueTransaction E tx n) =
      (if node_isReplay (node_prepare_tx E tx n) n then nd_Pending n else bc_Pending (EnqueueTransaction (pkg_env E) tx (pkg n)))"
  proof (cases "node_isReplay (node_prepare_tx E tx n) n")
    case False
    then have "\<not> isReplay (prepare_tx (pkg_env E) tx (pkg n)) (pkg n)"
      by (simp add: pkg_isReplay pkg_prepare)
    with False show ?thesis
      by (simp add: node_EnqueueTransaction_def EnqueueTransaction_def pkg_prepare [symmetric] Let_def frame
          appendAuditEntry_def markTransactionSeen_def split: option.splits)
  qed (simp add: node_EnqueueTransaction_def Let_def frame)
  then show ?thesis using node_replay_prepared [of E tx n] by (simp only: Let_def)
qed

lemma pkg_reversal_rules:
  "node_validateRequestReversal n tx = validateRequestReversal (pkg n) tx"
  "node_validateConfirmReversal n tx = validateConfirmReversal (pkg n) tx"
  "node_validateCommitReversal n tx = validateCommitReversal (pkg n) tx"
  by (simp_all add: node_validateRequestReversal_def validateRequestReversal_def node_findOriginalTransaction_def
      findOriginalTransaction_def node_validateConfirmReversal_def validateConfirmReversal_def
      node_validateCommitReversal_def validateCommitReversal_def cong: option.case_cong if_cong)

lemma audit_reversals [frame]: "nd_PendingReversals (node_appendAuditEntry E e a d n) = nd_PendingReversals n"
  by (simp add: node_appendAuditEntry_def)

lemma pkg_process_reversal:
  assumes "nd_PendingReversals n = Some m"
  shows "snd (node_process_reversal E tx n) = Ok () \<and> (\<exists>m. nd_PendingReversals (fst (node_process_reversal E tx n)) = Some m) \<and>
    pkg (fst (node_process_reversal E tx n)) = process_reversal (pkg_env E) tx (pkg n)"
proof -
  have m: "pending_reversals n = m" using assms by (simp add: pending_reversals_def)
  show ?thesis
    unfolding node_process_reversal_def process_reversal_def pkg_select m assms
    by (simp add: frame pkg_audit pkg_update assms split: option.splits)
qed

text \<open>Once the map of pending reversals exists, the node validates and processes reversals exactly as the package
  does, and never panics.\<close>

theorem node_reversals_agree:
  assumes "nd_PendingReversals n = Some m"
  shows "snd (node_ProcessReversals E b n) = Ok () \<and>
    pkg (fst (node_ProcessReversals E b n)) = ProcessReversals (pkg_env E) b (pkg n) \<and>
    node_validateRequestReversal n tx = validateRequestReversal (pkg n) tx \<and>
    node_validateConfirmReversal n tx = validateConfirmReversal (pkg n) tx \<and>
    node_validateCommitReversal n tx = validateCommitReversal (pkg n) tx"
proof -
  have "snd (node_process_reversals E txs n) = Ok () \<and>
      pkg (fst (node_process_reversals E txs n)) = fold (process_reversal (pkg_env E)) txs (pkg n)" for txs
    using assms
  proof (induction txs arbitrary: n m)
    case (Cons t txs)
    obtain n' r where s: "node_process_reversal E t n = (n', r)" by force
    with pkg_process_reversal [OF Cons.prems, of E t] have "r = Ok ()" "\<exists>m. nd_PendingReversals n' = Some m"
        "pkg n' = process_reversal (pkg_env E) t (pkg n)"
      by simp_all
    with s Cons.IH [of n'] show ?case by auto
  qed simp
  then show ?thesis
    by (simp add: node_ProcessReversals_def ProcessReversals_def pkg_reversal_rules)
qed

theorem node_reversals_agree_witness:
  "snd (node_ProcessReversals demo_node_env (rev_block [rev_tx RequestReversal ''human1'' ''agentA'']) (demo_main\<lparr>nd_PendingReversals := Some fmempty\<rparr>)) = Ok ()"
  using node_reversals_agree [of "demo_main\<lparr>nd_PendingReversals := Some fmempty\<rparr>" fmempty demo_node_env] by simp

section \<open>Money\<close>

lemma guarded_pay_wealth: "total_wealth L < 2 ^ 64 \<Longrightarrow> total_wealth (guarded_pay a b v L) = total_wealth L"
  using guarded_pay_total [of L a b v] guarded_pay_staked [of a b v L] by (simp add: total_wealth_def)

lemma node_apply_tx_wealth:
  assumes "total_wealth (nd_Ledger n) < 2 ^ 64"
  shows "total_wealth (nd_Ledger (node_apply_tx tx n)) = total_wealth (nd_Ledger n)"
  using assms lock_stake_wealth [of "nd_Ledger n" "tx_From tx" _ node_AIModelStake]
  by (simp add: node_apply_tx_def Let_def guarded_pay_wealth split: option.splits)

lemma node_apply_txs_wealth:
  "total_wealth (nd_Ledger n) < 2 ^ 64 \<Longrightarrow> total_wealth (nd_Ledger (fold node_apply_tx txs n)) = total_wealth (nd_Ledger n)"
  by (induction txs arbitrary: n) (simp_all add: node_apply_tx_wealth)

lemma node_apply_frame [frame]:
  "nd_TokenSupply (node_apply_tx tx n) = nd_TokenSupply n" "nd_Chain (node_apply_tx tx n) = nd_Chain n"
  "nd_PendingReversals (node_apply_tx tx n) = nd_PendingReversals n" "nd_UsedNonces (node_apply_tx tx n) = nd_UsedNonces n"
  "nd_NextNonce (node_apply_tx tx n) = nd_NextNonce n" "nd_SeenTxIDs (node_apply_tx tx n) = nd_SeenTxIDs n"
  "nd_ChainID (node_apply_tx tx n) = nd_ChainID n"
  by (simp_all add: node_apply_tx_def Let_def split: option.splits)

lemma node_apply_txs_frame [frame]:
  "nd_TokenSupply (fold node_apply_tx txs n) = nd_TokenSupply n" "nd_Chain (fold node_apply_tx txs n) = nd_Chain n"
  "nd_PendingReversals (fold node_apply_tx txs n) = nd_PendingReversals n" "nd_UsedNonces (fold node_apply_tx txs n) = nd_UsedNonces n"
  "nd_NextNonce (fold node_apply_tx txs n) = nd_NextNonce n" "nd_SeenTxIDs (fold node_apply_tx txs n) = nd_SeenTxIDs n"
  "nd_ChainID (fold node_apply_tx txs n) = nd_ChainID n"
  by (induction txs arbitrary: n) (simp_all add: frame)

lemma node_process_reversal_frame [frame]:
  "nd_TokenSupply (fst (node_process_reversal E tx n)) = nd_TokenSupply n" "nd_Chain (fst (node_process_reversal E tx n)) = nd_Chain n"
  "nd_UsedNonces (fst (node_process_reversal E tx n)) = nd_UsedNonces n" "nd_NextNonce (fst (node_process_reversal E tx n)) = nd_NextNonce n"
  "nd_SeenTxIDs (fst (node_process_reversal E tx n)) = nd_SeenTxIDs n" "nd_ChainID (fst (node_process_reversal E tx n)) = nd_ChainID n"
  by (auto simp: node_process_reversal_def node_appendAuditEntry_def split: option.splits)

lemma node_process_reversal_wealth:
  assumes "total_wealth (nd_Ledger n) < 2 ^ 64"
  shows "total_wealth (nd_Ledger (fst (node_process_reversal E tx n))) = total_wealth (nd_Ledger n)"
proof -
  have "total_balance (nd_Ledger n) < 2 ^ 64" using assms by (simp add: total_wealth_def)
  from ledger.pay_total [OF _ _ _ this] show ?thesis
    by (auto simp: node_process_reversal_def node_appendAuditEntry_def total_wealth_def balance_of_def split: option.splits)
qed

text \<open>What every step of the loop keeps is kept by the whole loop, whether it ends or panics.\<close>

lemma node_process_reversals_keep:
  assumes "\<And>tx n. P n \<Longrightarrow> P (fst (node_process_reversal E tx n))"
  shows "P n \<Longrightarrow> P (fst (node_process_reversals E txs n))"
proof (induction txs arbitrary: n)
  case (Cons t txs)
  obtain n' r where s: "node_process_reversal E t n = (n', r)" by force
  with assms [OF Cons.prems, of t] have "P n'" by simp
  with s Cons.IH [of n'] show ?case by (cases r) simp_all
qed simp

lemma node_applyBlock_frame [frame]:
  "nd_TokenSupply (fst (node_applyBlock E b n)) = nd_TokenSupply n" "nd_Chain (fst (node_applyBlock E b n)) = nd_Chain n"
  "nd_UsedNonces (fst (node_applyBlock E b n)) = nd_UsedNonces n" "nd_NextNonce (fst (node_applyBlock E b n)) = nd_NextNonce n"
  "nd_SeenTxIDs (fst (node_applyBlock E b n)) = nd_SeenTxIDs n" "nd_ChainID (fst (node_applyBlock E b n)) = nd_ChainID n"
  unfolding node_applyBlock_def node_ProcessReversals_def
  by (rule node_process_reversals_keep; simp add: frame)+

text \<open>Applying a block conserves what the accounts of the node own, free or staked, and the supply, whatever the
  block holds and also when it panics half way: payments, the stake of a registered model and reversals only
  move it.\<close>

theorem node_applyBlock_conserves:
  assumes "total_wealth (nd_Ledger n) < 2 ^ 64"
  shows "total_wealth (nd_Ledger (fst (node_applyBlock E b n))) = total_wealth (nd_Ledger n) \<and>
    nd_TokenSupply (fst (node_applyBlock E b n)) = nd_TokenSupply n"
proof -
  let ?n = "fold node_apply_tx (blk_Transactions b) n"
  have "total_wealth (nd_Ledger (fst (node_process_reversals E (blk_Transactions b) ?n))) = total_wealth (nd_Ledger n)"
    by (rule node_process_reversals_keep) (use assms in \<open>simp_all add: node_process_reversal_wealth node_apply_txs_wealth\<close>)
  then show ?thesis
    by (simp add: frame) (simp add: node_applyBlock_def node_ProcessReversals_def)
qed

lemma demo_main_wealth: "total_wealth (nd_Ledger demo_main) = 1150000"
proof -
  let ?acct = "\<lambda>a v ag. \<lparr>acct_Address = a, acct_Balance = v, acct_Staked = 0, acct_IsAgent = ag\<rparr>"
  let ?L = "fmupd ''agentB'' (?acct ''agentB'' 50000 True) (fmupd ''agentA'' (?acct ''agentA'' 100000 True)
    (fmupd ''human1'' (?acct ''human1'' 1000000 False) fmempty))"
  have "nd_Ledger demo_main = add_stake ''agentA'' 10000 (debit ''agentA'' 10000 ?L)"
    by (simp add: demo_main_simps)
  moreover have "total_wealth ?L = 1150000"
    by (simp add: total_wealth_def total_balance_def total_staked_def fmsum_fmupd_new)
  ultimately show ?thesis
    using lock_stake_wealth [of ?L "''agentA''" "?acct ''agentA'' 100000 True" 10000] by simp
qed

theorem node_applyBlock_conserves_witness:
  "total_wealth (nd_Ledger (fst (node_applyBlock demo_node_env
     (rev_block [rev_tx Transfer ''human1'' ''agentA'', rev_tx RequestReversal ''human1'' ''agentA'']) demo_main))) = 1150000"
  using node_applyBlock_conserves [of demo_main demo_node_env] by (simp add: demo_main_wealth)

section \<open>Traps\<close>

text \<open>On a node that was not loaded from a file with pending reversals, a block with a request for a reversal panics
  while it is applied: the payments of the block have been made, the rest of the caller never runs.\<close>

theorem reversal_request_panics:
  assumes "nd_PendingReversals n = None" "\<exists>tx \<in> set (blk_Transactions b). tx_TxType tx = RequestReversal"
  shows "node_applyBlock E b n = (fold node_apply_tx (blk_Transactions b) n, Panic ''assignment to entry in nil map'')"
proof -
  have none: "node_process_reversal E tx n = (if tx_TxType tx = RequestReversal then (n, Panic ''assignment to entry in nil map'') else (n, Ok ()))"
    if "nd_PendingReversals n = None" for tx n
    using that by (simp add: node_process_reversal_def pending_reversals_def)
  have "node_process_reversals E txs n = (n, Panic ''assignment to entry in nil map'')"
    if "nd_PendingReversals n = None" "\<exists>tx \<in> set txs. tx_TxType tx = RequestReversal" for txs n
    using that by (induction txs) (auto simp: none)
  then show ?thesis using assms by (simp add: node_applyBlock_def node_ProcessReversals_def frame)
qed

theorem reversal_request_panics_witness:
  "snd (node_applyBlock demo_node_env (rev_block [rev_tx RequestReversal ''human1'' ''agentA'']) demo_main) = Panic ''assignment to entry in nil map''"
  using reversal_request_panics [of demo_main "rev_block [rev_tx RequestReversal ''human1'' ''agentA'']" demo_node_env]
  by (simp add: demo_main_fields rev_block_def rev_tx_def)

lemma node_validateTransfer:
  assumes "tx_TxType tx = Transfer"
  shows "node_validateTransaction C E tx n \<longleftrightarrow> tx_ChainID tx = nd_ChainID n \<and> VerifyTransaction C tx \<and> \<not> node_isReplay tx n \<and>
    tx_Timestamp tx \<noteq> 0 \<and> \<not> tx_expired E (tx_Timestamp tx) \<and> (tx_From tx = tx_To tx \<or> tx_Amount tx \<noteq> 0) \<and>
    has_key (nd_Ledger n) (tx_To tx) \<and> (\<exists>v. balance_of (nd_Ledger n) (tx_From tx) = Some v \<and> tx_Amount tx \<le> v)"
  using assms
  by (auto simp: node_validateTransaction_def node_isAITransaction_def balance_of_def go_defs split: option.splits if_splits)

text \<open>A transfer without a nonce has no replay protection: after any block, one that holds it included, and after it
  is marked as seen, the same signed transfer is still valid as long as the sender can pay it and it is not ten
  minutes old.\<close>

theorem zero_nonce_is_replayable:
  assumes "tx_Nonce tx = 0" "tx_TxType tx = Transfer" "node_validateTransaction C E tx n"
    and "balance_of (nd_Ledger (fst (node_applyBlock E b n))) (tx_From tx) = Some v" "tx_Amount tx \<le> v"
    and "has_key (nd_Ledger (fst (node_applyBlock E b n))) (tx_To tx)"
  shows "node_validateTransaction C E tx (node_markTransactionSeen tx (fst (node_applyBlock E b n)))"
proof -
  have "nd_Ledger (node_markTransactionSeen tx m) = nd_Ledger m" "nd_ChainID (node_markTransactionSeen tx m) = nd_ChainID m" for m
    by (simp_all add: node_markTransactionSeen_def Let_def)
  then show ?thesis
    using assms by (simp add: node_validateTransfer frame) (simp add: node_isReplay_def)
qed

text \<open>A node with a signed transfer whose nonce is \<open>k\<close>.\<close>

definition demo_main_bank :: Node where
  "demo_main_bank = demo_main\<lparr>nd_Ledger := bc_Ledger demo_bank, nd_ChainID := ''c''\<rparr>"

definition demo_transfer :: "u64 \<Rightarrow> Transaction" where
  "demo_transfer k = wallet_Sign demo_crypto 900 demo_wallet (demo_tx\<lparr>tx_From := demo_addr, tx_To := ''a'', tx_Nonce := k, tx_Fee := 100\<rparr>)"

lemma demo_transfer_fields:
  "tx_From (demo_transfer k) = demo_addr" "tx_To (demo_transfer k) = ''a''" "tx_Amount (demo_transfer k) = 5" "tx_Nonce (demo_transfer k) = k"
  "tx_TxType (demo_transfer k) = Transfer" "tx_ChainID (demo_transfer k) = ''c''" "tx_ID (demo_transfer k) \<noteq> []"
  "tx_Timestamp (demo_transfer k) = 900" "tx_Fee (demo_transfer k) = 100"
proof -
  have "fit 32 s \<noteq> []" for s by (metis length_fit list.size(3) zero_neq_numeral)
  then show "tx_ID (demo_transfer k) \<noteq> []"
    by (simp add: demo_transfer_def wallet_Sign_def Let_def demo_crypto_def)
qed (simp_all add: demo_transfer_def wallet_Sign_def Let_def demo_tx_def)

lemma demo_main_nonces:
  "nd_UsedNonces demo_main = fmempty" "nd_NextNonce demo_main = fmempty" "nd_SeenTxIDs demo_main = {||}"
  by (simp_all add: demo_main_simps)

lemma demo_addr_neq: "demo_addr \<noteq> ''a''" "''a'' \<noteq> demo_addr"
proof -
  have "length demo_addr \<noteq> length ''a''"
    by (simp add: demo_addr_def wallet_Address_def Let_def demo_crypto_def length_EncodeToString)
  then show "demo_addr \<noteq> ''a''" "''a'' \<noteq> demo_addr" by metis+
qed

lemma demo_transfer_valid: "node_validateTransaction demo_crypto demo_node_env (demo_transfer k) demo_main_bank"
proof -
  have "VerifyTransaction demo_crypto (demo_transfer k)"
    unfolding demo_transfer_def
    by (rule wallet_Sign_ok [OF crypto_ok_demo]) (simp_all add: demo_wallet_def demo_crypto_def demo_tx_def demo_addr_def)
  moreover have "\<not> tx_expired demo_node_env 900" by (simp add: tx_expired_def demo_node_env_def)
  ultimately show ?thesis
    by (simp add: node_validateTransfer demo_transfer_fields node_isReplay_def demo_main_bank_def demo_main_nonces
        demo_bank_fields balance_of_def demo_account_def)
qed

theorem zero_nonce_is_replayable_witness:
  "node_validateTransaction demo_crypto demo_node_env (demo_transfer 0)
     (node_markTransactionSeen (demo_transfer 0) (fst (node_applyBlock demo_node_env (rev_block [demo_transfer 0]) demo_main_bank)))"
proof -
  let ?n = "fst (node_applyBlock demo_node_env (rev_block [demo_transfer 0]) demo_main_bank)"
  have "nd_Ledger ?n = guarded_pay demo_addr ''a'' 5 (bc_Ledger demo_bank)"
    by (simp add: node_applyBlock_def node_ProcessReversals_def rev_block_def node_process_reversal_def node_apply_tx_def
        demo_transfer_fields demo_main_bank_def go_defs Let_def)
  then have L: "balance_of (nd_Ledger ?n) demo_addr = Some 95" "has_key (nd_Ledger ?n) ''a''"
    by (simp_all add: guarded_pay_def demo_bank_fields demo_account_def balance_of_def account_ops modify_account_lookup
        has_key_def demo_addr_neq)
  show ?thesis
    by (rule zero_nonce_is_replayable [OF _ _ demo_transfer_valid, where v = 95]) (use L in \<open>simp_all add: demo_transfer_fields\<close>)
qed

section \<open>Synchronisation of ledgers\<close>

text \<open>An account as a received one leaves it: everything but the address is replaced.\<close>

definition synced :: "Account option option \<Rightarrow> Account option \<Rightarrow> Account option" where
  "synced new old = (case new of
     Some (Some acct) \<Rightarrow> Some (case old of None \<Rightarrow> acct | Some ac \<Rightarrow> acct\<lparr>acct_Address := acct_Address ac\<rparr>) | _ \<Rightarrow> old)"

lemma sync_accounts_ledger:
  assumes "distinct ks"
  shows "fmlookup (nd_Ledger (sync_accounts E st ks n)) a =
    (if a \<in> set ks then synced (fmlookup (ls_Ledger st) a) (fmlookup (nd_Ledger n) a) else fmlookup (nd_Ledger n) a)"
  using assms
  by (induction ks arbitrary: n) (auto simp: synced_def node_appendAuditEntry_def split: option.splits)

text \<open>A ledger from a peer is adopted without question: every balance, stake and kind of account it names replaces
  the node's own, unknown accounts are created, a list of authorities and a supply that are not empty replace
  the node's; nothing else changes.\<close>

theorem node_sync_adopts:
  assumes "range_order ks (ls_Ledger st)"
  shows "fmlookup (nd_Ledger (node_applyLedgerState E ks (Some st) n)) a = synced (fmlookup (ls_Ledger st) a) (fmlookup (nd_Ledger n) a) \<and>
    nd_Authorities (node_applyLedgerState E ks (Some st) n) = (if ls_Authorities st = [] then nd_Authorities n else ls_Authorities st) \<and>
    nd_TokenSupply (node_applyLedgerState E ks (Some st) n) = (if ls_TokenSupply st = 0 then nd_TokenSupply n else ls_TokenSupply st) \<and>
    nd_Chain (node_applyLedgerState E ks (Some st) n) = nd_Chain n"
proof -
  have "nd_Authorities (sync_accounts E st ks n) = nd_Authorities n" "nd_TokenSupply (sync_accounts E st ks n) = nd_TokenSupply n"
      "nd_Chain (sync_accounts E st ks n) = nd_Chain n"
    by (induction ks arbitrary: n) (simp_all add: node_appendAuditEntry_def split: option.splits)
  moreover have "a \<notin> set ks \<Longrightarrow> fmlookup (ls_Ledger st) a = None"
    using range_order_has_key [OF assms, of a] by (simp add: has_key_def)
  ultimately show ?thesis
    using assms sync_accounts_ledger [where ks = ks and E = E and st = st and n = n and a = a]
    by (auto simp: node_applyLedgerState_def Let_def node_appendAuditEntry_def range_order_def synced_def word_neq_0_conv)
qed

theorem node_sync_adopts_witness:
  "fmlookup (nd_Ledger (node_applyLedgerState demo_node_env [demo_addr, ''a''] (Some (node_ledgerState demo_main_bank)) demo_main)) ''a'' =
     Some (demo_account ''a'' 50 0)"
proof -
  let ?st = "node_ledgerState demo_main_bank"
  have "range_order [demo_addr, ''a''] (ls_Ledger ?st)"
    by (auto simp: range_order_def node_ledgerState_def demo_main_bank_def demo_bank_fields demo_addr_neq)
  from node_sync_adopts [OF this, of demo_node_env demo_main "''a''"] show ?thesis
    by (simp add: synced_def node_ledgerState_def demo_main_bank_def demo_bank_fields demo_account_def demo_addr_neq split: option.splits)
      (simp add: demo_main_simps account_ops modify_account_lookup)
qed

text \<open>C37. Synchronisation converges: a node that adopts the ledger of a peer which knows all its accounts has the
  ledger of the peer, when both file accounts under their addresses.\<close>

theorem node_sync_converges:
  assumes "range_order ks (nd_Ledger m)" "\<And>a. has_key (nd_Ledger n) a \<Longrightarrow> has_key (nd_Ledger m) a"
    and "\<And>a ac. fmlookup (nd_Ledger n) a = Some ac \<Longrightarrow> acct_Address ac = a"
    and "\<And>a ac. fmlookup (nd_Ledger m) a = Some ac \<Longrightarrow> acct_Address ac = a"
  shows "nd_Ledger (node_applyLedgerState E ks (Some (node_ledgerState m)) n) = nd_Ledger m"
proof (rule fmap_ext)
  fix a
  have "range_order ks (ls_Ledger (node_ledgerState m))"
    using assms(1) by (simp add: range_order_def node_ledgerState_def)
  then have "fmlookup (nd_Ledger (node_applyLedgerState E ks (Some (node_ledgerState m)) n)) a =
      synced (fmlookup (ls_Ledger (node_ledgerState m)) a) (fmlookup (nd_Ledger n) a)"
    by (simp add: node_applyLedgerState_def Let_def node_appendAuditEntry_def sync_accounts_ledger range_order_def fmlookup_dom_iff
        synced_def)
  also have "\<dots> = fmlookup (nd_Ledger m) a"
  proof (cases "fmlookup (nd_Ledger m) a")
    case None
    then have "\<not> has_key (nd_Ledger n) a" using assms(2) [of a] unfolding has_key_def by blast
    then have "fmlookup (nd_Ledger n) a = None" by (simp add: has_key_def)
    with None show ?thesis by (simp add: synced_def node_ledgerState_def)
  next
    case (Some ac)
    have "acct_Address ac = a" by (rule assms(4) [OF Some])
    moreover have "acct_Address old = a" if "fmlookup (nd_Ledger n) a = Some old" for old by (rule assms(3) [OF that])
    ultimately show ?thesis using Some by (auto simp: synced_def node_ledgerState_def split: option.splits)
  qed
  finally show "fmlookup (nd_Ledger (node_applyLedgerState E ks (Some (node_ledgerState m)) n)) a = fmlookup (nd_Ledger m) a" .
qed

theorem node_sync_converges_witness:
  "nd_Ledger (node_applyLedgerState demo_node_env [demo_addr, ''a''] (Some (node_ledgerState demo_main_bank))
     (demo_main_bank\<lparr>nd_Ledger := fmupd ''a'' (demo_account ''a'' 7 0) fmempty\<rparr>)) = nd_Ledger demo_main_bank"
proof (rule node_sync_converges)
  show "range_order [demo_addr, ''a''] (nd_Ledger demo_main_bank)"
    by (auto simp: range_order_def demo_main_bank_def demo_bank_fields demo_addr_neq)
qed (auto simp: demo_main_bank_def demo_bank_fields demo_account_def split: if_splits)

end
