(* ===== verification/Node_Mining.thy ===== *)
theory Node_Mining
  imports Node_Rules
begin

text \<open>
  How the node of \<open>main.go\<close> makes and accepts blocks: selection of the author, proof of work, \<open>MineBlockFor\<close>
  and \<open>SubmitMinedBlock\<close>. As for the package, what the language leaves open is an argument, the record
  \<open>node_choices\<close>: the orders in which maps are visited, the sorted copy of the mempool, and the value of
  an out-of-range conversion from \<open>float64\<close>.
\<close>

record node_choices =
  nc_validators :: "string list"
  nc_ledger :: "string list"
  nc_pending :: "Transaction list"
  nc_rewards :: "string list"
  nc_oor :: "rat \<Rightarrow> u64"

section \<open>Selection of the author\<close>

definition node_validator_at :: "Node \<Rightarrow> string \<Rightarrow> Validator" where
  "node_validator_at n a = map_get zero_Validator (nd_Validators n) a"

definition node_staked_candidates :: "string list \<Rightarrow> Node \<Rightarrow> string list" where
  "node_staked_candidates ks n =
     filter (\<lambda>a. has_key (nd_Validators n) a \<and> val_Active (node_validator_at n a) \<and> 0 < val_Stake (node_validator_at n a)) ks"

definition node_pubkey_less :: "Node \<Rightarrow> string \<Rightarrow> string \<Rightarrow> bool" where
  "node_pubkey_less n a b =
     (let left = node_validator_at n a; right = node_validator_at n b in
      if val_Stake left = val_Stake right then a < b else val_Stake right < val_Stake left)"

definition node_selectValidatorPubKey :: "string list \<Rightarrow> Node \<Rightarrow> string" where
  "node_selectValidatorPubKey ks n =
     (let candidates = node_staked_candidates ks n in
      if length candidates = 0 then []
      else val_PublicKey (node_validator_at n (sort_slice (node_pubkey_less n) candidates ! 0)))"

definition node_candidate_less :: "Node \<Rightarrow> string \<Rightarrow> string \<Rightarrow> bool" where
  "node_candidate_less n a b =
     (let left = node_validator_at n a; right = node_validator_at n b in
      if val_Stake left = val_Stake right then
        (if val_Performance left = val_Performance right then a < b else val_Performance right < val_Performance left)
      else val_Stake right < val_Stake left)"

definition node_candidates :: "node_choices \<Rightarrow> Node \<Rightarrow> string list" where
  "node_candidates K n =
     (let cs = node_staked_candidates (nc_validators K) n;
          cs = (if length cs = 0
            then filter (\<lambda>a. case fmlookup (nd_Ledger n) a of None \<Rightarrow> False | Some ac \<Rightarrow> 0 < acct_Staked ac) (nc_ledger K)
            else cs)
      in if length cs = 0 then nc_ledger K else cs)"

definition node_selectValidator :: "node_choices \<Rightarrow> Node \<Rightarrow> Node \<times> string" where
  "node_selectValidator K n =
     (if nd_Consensus n = ProofOfAuthority then
        (if length (nd_Authorities n) = 0 then (n, ''authority'')
         else let idx = (nd_validatorIdx n + 1) mod length (nd_Authorities n)
           in (n\<lparr>nd_validatorIdx := idx\<rparr>, nd_Authorities n ! idx))
      else if length (node_candidates K n) = 0 then (n, ''validator'')
      else let sorted = sort_slice (node_candidate_less n) (node_candidates K n);
               idx = (nd_validatorIdx n + 1) mod length sorted
        in (n\<lparr>nd_validatorIdx := idx\<rparr>, sorted ! idx))"

definition node_isActiveValidatorPubKey :: "string \<Rightarrow> Node \<Rightarrow> bool" where
  "node_isActiveValidatorPubKey pubKey n \<longleftrightarrow>
     fBex (fmdom (nd_Validators n)) (\<lambda>a. case fmlookup (nd_Validators n) a of
        None \<Rightarrow> False | Some v \<Rightarrow> val_Active v \<and> 0 < val_Stake v \<and> val_PublicKey v = pubKey)"

section \<open>Proof of work\<close>

partial_function (option) node_pow_loop :: "crypto \<Rightarrow> nat \<Rightarrow> Block \<Rightarrow> Block option" where
  "node_pow_loop C target block =
     (let hash = node_calculateHash C block in
      if hex_number hash < target then Some (block\<lparr>blk_BlockHash := hash\<rparr>)
      else node_pow_loop C target (block\<lparr>blk_Nonce := blk_Nonce block + 1\<rparr>))"

definition node_proofOfWork :: "crypto \<Rightarrow> Block \<Rightarrow> Node \<Rightarrow> Block go option" where
  "node_proofOfWork C block n =
     (if 256 < unat (nd_Difficulty n) then Some (Panic ''makeslice: len out of range'')
      else map_option Ok (node_pow_loop C (2 ^ (256 - unat (nd_Difficulty n))) block))"

section \<open>Metrics\<close>

definition node_ensureMetrics :: "Node \<Rightarrow> Node" where
  "node_ensureMetrics n = (if nd_metrics n = None then n\<lparr>nd_metrics := Some zero_metrics\<rparr> else n)"

definition node_count :: "(serverMetrics \<Rightarrow> serverMetrics) \<Rightarrow> Node \<Rightarrow> Node" where
  "node_count f n = n\<lparr>nd_metrics := map_option f (nd_metrics n)\<rparr>"

definition node_recordRequest :: "node_env \<Rightarrow> bool \<Rightarrow> serverMetrics option \<Rightarrow> serverMetrics option" where
  "node_recordRequest E ok m =
     (case m of None \<Rightarrow> None
      | Some m \<Rightarrow>
          (let m = m\<lparr>m_requestCount := m_requestCount m + 1\<rparr>;
               m = (if \<not> ok then m\<lparr>m_errorCount := m_errorCount m + 1\<rparr> else m)
           in Some (m\<lparr>m_lastRequestAt := ne_now E\<rparr>)))"

section \<open>Mining\<close>

definition node_settle_fee :: "Transaction \<Rightarrow> Node \<Rightarrow> Node" where
  "node_settle_fee tx n =
     (if 0 < tx_Fee tx then
        let burnRate = node_BurnRatePercent;
            burnRate = (if node_isAITransaction (tx_TxType tx) \<and> 0 < nd_AgentTxCount n \<and> 0 < nd_TokenSupply n
              then burnRate + node_AIBurnScaling else burnRate);
            totalBurn = tx_Fee tx * burnRate div 100;
            permanentBurn = totalBurn * 70 div 100;
            communityFund = totalBurn - permanentBurn;
            permanentBurn = (if nd_TokenSupply n < permanentBurn then nd_TokenSupply n else permanentBurn);
            n = n\<lparr>nd_TokenSupply := nd_TokenSupply n - permanentBurn\<rparr>
        in (case fmlookup (nd_Ledger n) CommunityFundAddress of
              Some cfAcct \<Rightarrow> n\<lparr>nd_Ledger := credit CommunityFundAddress communityFund (nd_Ledger n)\<rparr>
            | None \<Rightarrow> n\<lparr>nd_Ledger := fmupd CommunityFundAddress
                \<lparr>acct_Address = CommunityFundAddress, acct_Balance = communityFund, acct_Staked = 0,
                 acct_IsAgent = False\<rparr> (nd_Ledger n)\<rparr>)
      else n)"

text \<open>The loop that fills the block; \<open>len\<close> is the number of pending transactions.\<close>

fun node_mine_txs :: "crypto \<Rightarrow> node_env \<Rightarrow> (rat \<Rightarrow> u64) \<Rightarrow> nat \<Rightarrow> Transaction list \<Rightarrow> Transaction list \<Rightarrow> Node \<Rightarrow> Node \<times> Transaction list go" where
  "node_mine_txs C E oor len [] acc n = (n, Ok acc)"
| "node_mine_txs C E oor len (tx # txs) acc n =
     (if node_validateTransaction C E tx n then
        (if tx_Fee tx < node_estimateFee oor tx len n then
           (if nd_metrics n = None then (n, Panic ''invalid memory address or nil pointer dereference'')
            else node_mine_txs C E oor len txs acc (node_count (\<lambda>m. m\<lparr>m_txRejected := m_txRejected m + 1\<rparr>) n))
         else
           let n = node_settle_fee tx n;
               n = node_markTransactionSeen tx n;
               n = node_count (\<lambda>m. m\<lparr>m_txAccepted := m_txAccepted m + 1\<rparr>) (node_ensureMetrics n)
           in node_mine_txs C E oor len txs (acc @ [tx]) n)
      else node_mine_txs C E oor len txs acc n)"

definition node_pay_reward :: "string \<Rightarrow> u64 \<Rightarrow> Node \<Rightarrow> Node" where
  "node_pay_reward author reward n =
     (if nd_TokenSupply n + reward \<le> node_MaxSupply then
        (if has_key (nd_Ledger n) author
         then n\<lparr>nd_Ledger := credit author reward (nd_Ledger n), nd_TokenSupply := nd_TokenSupply n + reward\<rparr>
         else n)
      else n)"

text \<open>What follows the validation of the new block. A panic while the block is applied ends the call.\<close>

definition node_commit_mined :: "node_env \<Rightarrow> node_choices \<Rightarrow> string \<Rightarrow> Block \<Rightarrow> Node \<Rightarrow> Node \<times> Block go" where
  "node_commit_mined E K author block n =
     (let reward = BlockReward (blk_Index block);
          n = node_pay_reward author reward n
      in case node_applyBlock E block n of
           (n, Err e) \<Rightarrow> (n, Err e)
         | (n, Panic e) \<Rightarrow> (n, Panic e)
         | (n, Ok _) \<Rightarrow>
             (let n = n\<lparr>nd_Chain := nd_Chain n @ [block]\<rparr>;
                  n = n\<lparr>nd_Pending := []\<rparr>;
                  n = node_adjustDifficulty n;
                  n = node_distributeRewards (nc_rewards K) n;
                  n = (if 0 < nd_AgentTxCount n then node_treasuryBuyback E n else n);
                  n = node_appendAuditEntry E ''block_mined'' author (''index='' @ FormatUint (blk_Index block) @ '' txs='' @
                        fmt_nat (length (blk_Transactions block)) @ '' miner='' @ author @ '' reward='' @ FormatUint reward) n;
                  n = node_count (\<lambda>m. m\<lparr>m_blocksMined := m_blocksMined m + 1\<rparr>) (node_ensureMetrics n)
              in case node_saveToDisk E n of
                   (n, Ok _) \<Rightarrow> (n, Ok block)
                 | (n, Err e) \<Rightarrow> (n, Err e)
                 | (n, Panic e) \<Rightarrow> (n, Panic e)))"

definition node_seal_block :: "crypto \<Rightarrow> string \<Rightarrow> Block \<Rightarrow> Node \<Rightarrow> Block go option" where
  "node_seal_block C minerAddress block n =
     (if minerAddress = [] \<or> nd_Consensus n = ProofOfWork then node_proofOfWork C block n
      else Some (Ok (block\<lparr>blk_BlockHash := node_calculateHash C block\<rparr>)))"

definition node_MineBlockFor :: "crypto \<Rightarrow> node_env \<Rightarrow> node_choices \<Rightarrow> string \<Rightarrow> Node \<Rightarrow> (Node \<times> Block go) option" where
  "node_MineBlockFor C E K minerAddress n =
     (if nd_MintPaused n \<and> 0 <s nd_MintPauseUntil n \<and> ne_now E <s nd_MintPauseUntil n
      then Some (n, Err ''minting is currently paused'')
      else
        let n = (if nd_Chain n = [] then node_createGenesisBlock C E n else n);
            prevHash = blk_BlockHash (last (nd_Chain n));
            (n, selected) = node_selectValidator K n;
            author = (if minerAddress \<noteq> [] then minerAddress else selected);
            block = \<lparr>blk_Index = of_nat (length (nd_Chain n)), blk_Author = author, blk_MinerAddress = author,
              blk_PreviousHash = prevHash, blk_Timestamp = ne_now E, blk_Transactions = [], blk_Nonce = 0,
              blk_BlockHash = [], blk_TxMerkleRoot = []\<rparr>
        in case node_mine_txs C E (nc_oor K) (length (nc_pending K)) (nc_pending K) [] n of
             (n, Err e) \<Rightarrow> Some (n, Err e)
           | (n, Panic e) \<Rightarrow> Some (n, Panic e)
           | (n, Ok txs) \<Rightarrow>
               (case node_seal_block C minerAddress (block\<lparr>blk_Transactions := txs\<rparr>) n of
                  None \<Rightarrow> None
                | Some (Err e) \<Rightarrow> Some (n, Err e)
                | Some (Panic e) \<Rightarrow> Some (n, Panic e)
                | Some (Ok block) \<Rightarrow>
                    (case node_validateBlock C E block (last (nd_Chain n)) n of
                       Ok _ \<Rightarrow> Some (node_commit_mined E K author block n)
                     | Err e \<Rightarrow> Some (n, Err e)
                     | Panic e \<Rightarrow> Some (n, Panic e))))"

definition node_MineBlock :: "crypto \<Rightarrow> node_env \<Rightarrow> node_choices \<Rightarrow> Node \<Rightarrow> (Node \<times> Block go) option" where
  "node_MineBlock C E K n = node_MineBlockFor C E K [] n"

definition node_SubmitMinedBlock :: "crypto \<Rightarrow> node_env \<Rightarrow> Block \<Rightarrow> Node \<Rightarrow> Node \<times> unit go" where
  "node_SubmitMinedBlock C E block n =
     (if length (nd_Chain n) = 0 \<or> blk_Index block \<noteq> of_nat (length (nd_Chain n)) then (n, Err ''invalid block index'')
      else let prev = last (nd_Chain n) in
        if blk_PreviousHash block \<noteq> blk_BlockHash prev then (n, Err ''invalid previous hash'')
        else if node_calculateHash C block \<noteq> blk_BlockHash block then (n, Err ''invalid block hash'')
        else case node_validateBlock C E block prev n of
          Err e \<Rightarrow> (n, Err (''invalid block transactions: '' @ e))
        | Panic e \<Rightarrow> (n, Panic e)
        | Ok _ \<Rightarrow>
            (let author = (if blk_Author block = [] then blk_MinerAddress block else blk_Author block) in
             if author = [] then (n, Err ''missing miner address'')
             else let reward = BlockReward (blk_Index block);
                      n = node_pay_reward author reward n
               in case node_applyBlock E block n of
                    (n, Err e) \<Rightarrow> (n, Err e)
                  | (n, Panic e) \<Rightarrow> (n, Panic e)
                  | (n, Ok _) \<Rightarrow>
                      (let n = n\<lparr>nd_Chain := nd_Chain n @ [block], nd_Pending := []\<rparr>;
                           n = node_adjustDifficulty n;
                           n = node_appendAuditEntry E ''block_submitted'' author (''index='' @ FormatUint (blk_Index block) @
                                 '' txs='' @ fmt_nat (length (blk_Transactions block)) @ '' reward='' @ FormatUint reward) n;
                           n = node_count (\<lambda>m. m\<lparr>m_blocksMined := m_blocksMined m + 1\<rparr>) (node_ensureMetrics n)
                       in node_saveToDisk E n)))"

section \<open>Proof of work is that of the package\<close>

lemma node_calculateHash_eq [simp]: "node_calculateHash C b = calculateHash C b"
  by (simp add: node_calculateHash_def calculateHash_def Let_def)

lemma node_pow_loop_eq: "node_pow_loop C t b = pow_loop C t b"
proof -
  have "pow_loop C t b = Some r" if "node_pow_loop C t b = Some r" for r
    by (rule node_pow_loop.raw_induct [OF _ that]) (subst pow_loop.simps, auto simp: Let_def split: if_splits)
  moreover have "node_pow_loop C t b = Some r" if "pow_loop C t b = Some r" for r
    by (rule pow_loop.raw_induct [OF _ that]) (subst node_pow_loop.simps, auto simp: Let_def split: if_splits)
  ultimately show ?thesis by (metis not_Some_eq)
qed

lemma node_seal_block_Ok:
  assumes "node_seal_block C miner block n = Some (Ok b)"
  shows "blk_Transactions b = blk_Transactions block" "blk_Index b = blk_Index block" "blk_PreviousHash b = blk_PreviousHash block"
    "blk_BlockHash b = calculateHash C b"
proof -
  have "\<exists>k. b = block\<lparr>blk_Nonce := k, blk_BlockHash := calculateHash C (block\<lparr>blk_Nonce := k\<rparr>)\<rparr>"
  proof (cases "miner = [] \<or> nd_Consensus n = ProofOfWork")
    case True
    with assms obtain t where "pow_loop C t block = Some b"
      by (auto simp: node_seal_block_def node_proofOfWork_def node_pow_loop_eq split: if_splits)
    from pow_loop_result [OF this] show ?thesis by blast
  next
    case False
    with assms show ?thesis by (intro exI [of _ "blk_Nonce block"]) (simp add: node_seal_block_def)
  qed
  then show "blk_Transactions b = blk_Transactions block" "blk_Index b = blk_Index block" "blk_PreviousHash b = blk_PreviousHash block"
    "blk_BlockHash b = calculateHash C b"
    by auto
qed

section \<open>Valid blocks\<close>

lemma node_validate_txs_Ok:
  "node_validate_txs C E n seen txs = Ok () \<longleftrightarrow>
     distinct (map tx_ID txs) \<and> (\<forall>tx \<in> set txs. tx_ID tx \<noteq> [] \<and> tx_ID tx |\<notin>| seen \<and> node_validateTransaction C E tx n)"
proof (induction txs arbitrary: seen)
  case (Cons tx txs)
  have "tx_ID tx \<in> tx_ID ` set txs \<longleftrightarrow> (\<exists>t \<in> set txs. tx_ID t = tx_ID tx)"
    unfolding image_iff by metis
  with Cons show ?case by auto
qed simp

lemma node_validateBlock_Ok:
  "node_validateBlock C E b prev n = Ok () \<longleftrightarrow>
     blk_Index b = blk_Index prev + 1 \<and> blk_PreviousHash b = blk_BlockHash prev \<and> blk_BlockHash b \<noteq> [] \<and>
     blk_BlockHash b = calculateHash C b \<and> node_validate_txs C E n {||} (blk_Transactions b) = Ok ()"
  by (auto simp: node_validateBlock_def)

lemma node_validate_txs_panics [simp]: "node_validate_txs C E n seen txs \<noteq> Panic e"
  by (induction txs arbitrary: seen) auto

section \<open>Transactions with a nonce\<close>

definition node_nonce_used :: "Node \<Rightarrow> Transaction \<Rightarrow> bool" where
  "node_nonce_used n tx \<longleftrightarrow> tx_Nonce tx = 0 \<or> tx_Nonce tx |\<in>| map_get {||} (nd_UsedNonces n) (tx_From tx)"

interpretation node_nonces: replay_guard node_nonce_used node_markTransactionSeen
  by unfold_locales (auto simp: node_nonce_used_def node_markTransactionSeen_def Let_def u64_neq_zero)

lemma node_nonce_used_isReplay: "node_nonce_used n tx \<Longrightarrow> tx_Nonce tx \<noteq> 0 \<Longrightarrow> node_isReplay tx n"
  by (auto simp: node_nonce_used_def node_isReplay_def map_get_def split: option.splits)

lemma node_validate_not_replay: "node_validateTransaction C E tx n \<Longrightarrow> \<not> node_isReplay tx n"
  by (auto simp: node_validateTransaction_def split: if_splits)

lemma node_settle_frame [frame]:
  "nd_UsedNonces (node_settle_fee tx n) = nd_UsedNonces n" "nd_Chain (node_settle_fee tx n) = nd_Chain n"
  "nd_Pending (node_settle_fee tx n) = nd_Pending n" "nd_Consensus (node_settle_fee tx n) = nd_Consensus n"
  by (auto simp: node_settle_fee_def Let_def split: option.splits)

lemma node_count_frame [frame]:
  "nd_UsedNonces (node_count f n) = nd_UsedNonces n" "nd_UsedNonces (node_ensureMetrics n) = nd_UsedNonces n"
  "nd_Chain (node_count f n) = nd_Chain n" "nd_Chain (node_ensureMetrics n) = nd_Chain n"
  "nd_Pending (node_count f n) = nd_Pending n" "nd_Pending (node_ensureMetrics n) = nd_Pending n"
  "nd_Consensus (node_count f n) = nd_Consensus n" "nd_Consensus (node_ensureMetrics n) = nd_Consensus n"
  by (simp_all add: node_count_def node_ensureMetrics_def)

lemma node_mark_frame [frame]:
  "nd_Chain (node_markTransactionSeen tx n) = nd_Chain n" "nd_Pending (node_markTransactionSeen tx n) = nd_Pending n"
  "nd_Consensus (node_markTransactionSeen tx n) = nd_Consensus n"
  by (simp_all add: node_markTransactionSeen_def Let_def)

lemma node_nonce_used_cong: "nd_UsedNonces m = nd_UsedNonces n \<Longrightarrow> node_nonce_used m tx = node_nonce_used n tx"
  by (simp add: node_nonce_used_def)

text \<open>The mining loop records the nonce of everything it puts into the block.\<close>

lemma node_mine_txs_used:
  assumes "\<And>tx. tx \<in> set acc \<Longrightarrow> node_nonce_used n tx" "node_mine_txs C E oor len txs acc n = (n', Ok ts)" "tx \<in> set ts"
  shows "node_nonce_used n' tx"
  using assms
proof (induction C E oor len txs acc n rule: node_mine_txs.induct)
  case (2 C E oor len t txs acc n)
  let ?m = "node_count (\<lambda>m. m\<lparr>m_txAccepted := m_txAccepted m + 1\<rparr>) (node_ensureMetrics (node_markTransactionSeen t (node_settle_fee t n)))"
  have "node_nonce_used ?m k \<longleftrightarrow> node_nonce_used (node_markTransactionSeen t (node_settle_fee t n)) k" for k
    by (rule node_nonce_used_cong) (simp add: frame)
  moreover have "node_nonce_used (node_settle_fee t n) k = node_nonce_used n k" for k
    by (rule node_nonce_used_cong) (simp add: frame)
  ultimately have used: "k \<in> set (acc @ [t]) \<Longrightarrow> node_nonce_used ?m k" for k
    using "2.prems"(1) node_nonces.mark_seen node_nonces.mark_mono by auto
  have rejected: "node_nonce_used (node_count f n) k = node_nonce_used n k" for f k
    by (rule node_nonce_used_cong) (simp add: frame)
  show ?case
    using "2.prems" "2.IH"(1,3) "2.IH"(2) [OF _ _ refl refl refl] used rejected
    by (auto simp: Let_def split: if_splits)
qed simp

lemma node_mine_txs_frame [frame]:
  "nd_Chain (fst (node_mine_txs C E oor len txs acc n)) = nd_Chain n"
  "nd_Pending (fst (node_mine_txs C E oor len txs acc n)) = nd_Pending n"
  "nd_Consensus (fst (node_mine_txs C E oor len txs acc n)) = nd_Consensus n"
  by (induction C E oor len txs acc n rule: node_mine_txs.induct) (auto simp: Let_def frame)

lemma node_select_frame [frame]:
  "nd_Chain (fst (node_selectValidator K n)) = nd_Chain n" "nd_Pending (fst (node_selectValidator K n)) = nd_Pending n"
  "nd_Consensus (fst (node_selectValidator K n)) = nd_Consensus n" "nd_UsedNonces (fst (node_selectValidator K n)) = nd_UsedNonces n"
  "nd_NextNonce (fst (node_selectValidator K n)) = nd_NextNonce n" "nd_SeenTxIDs (fst (node_selectValidator K n)) = nd_SeenTxIDs n"
  "nd_Ledger (fst (node_selectValidator K n)) = nd_Ledger n" "nd_ChainID (fst (node_selectValidator K n)) = nd_ChainID n"
  "nd_TokenSupply (fst (node_selectValidator K n)) = nd_TokenSupply n" "nd_AgentTxCount (fst (node_selectValidator K n)) = nd_AgentTxCount n"
  by (auto simp: node_selectValidator_def Let_def)

section \<open>Outcomes of mining\<close>

lemma node_save_frame [frame]:
  "nd_Chain (fst (node_saveToDisk E n)) = nd_Chain n" "nd_Pending (fst (node_saveToDisk E n)) = nd_Pending n"
  "nd_Ledger (fst (node_saveToDisk E n)) = nd_Ledger n" "nd_TokenSupply (fst (node_saveToDisk E n)) = nd_TokenSupply n"
  by (auto simp: node_saveToDisk_def split: go.splits option.splits)

lemma node_steps_frame [frame]:
  "nd_Chain (node_adjustDifficulty n) = nd_Chain n" "nd_Pending (node_adjustDifficulty n) = nd_Pending n"
  "nd_Chain (node_treasuryBuyback E n) = nd_Chain n" "nd_Pending (node_treasuryBuyback E n) = nd_Pending n"
  "nd_Chain (node_appendAuditEntry E e a d n) = nd_Chain n" "nd_Chain (node_pay_reward a v n) = nd_Chain n"
  by (auto simp: node_adjustDifficulty_def node_treasuryBuyback_def node_appendAuditEntry_def node_pay_reward_def Let_def
      split: option.splits)

lemma node_rewards_frame [frame]:
  "nd_Chain (node_distributeRewards ks n) = nd_Chain n" "nd_Pending (node_distributeRewards ks n) = nd_Pending n"
  unfolding node_distributeRewards_def by (induction ks arbitrary: n) (auto simp: Let_def split: option.splits)

lemma node_commit_mined_spec:
  assumes "node_commit_mined E K author block n = (n', r)"
  shows "nd_Chain n' = nd_Chain n \<and> \<not> is_ok r \<or> nd_Chain n' = nd_Chain n @ [block] \<and> nd_Pending n' = [] \<and> (\<forall>b. r = Ok b \<longrightarrow> b = block)"
proof -
  let ?n = "node_pay_reward author (BlockReward (blk_Index block)) n"
  obtain m q where ap: "node_applyBlock E block ?n = (m, q)" by force
  have chain: "nd_Chain m = nd_Chain n" using node_applyBlock_frame(2) [of E block ?n] by (simp add: ap frame)
  show ?thesis
  proof (cases q)
    case (Ok u)
    obtain m' where m': "nd_Chain m' = nd_Chain n @ [block]" "nd_Pending m' = []"
        "(n', r) = (case node_saveToDisk E m' of (n, Ok _) \<Rightarrow> (n, Ok block) | (n, Err e) \<Rightarrow> (n, Err e) | (n, Panic e) \<Rightarrow> (n, Panic e))"
      using assms unfolding node_commit_mined_def Let_def ap prod.case Ok go.case
      apply -
      apply (rule that)
        prefer 3
        apply (erule sym)
       apply (simp_all add: frame chain)
      done
    then show ?thesis
      using node_save_frame(1,2) [of E m'] by (cases "node_saveToDisk E m'"; cases "snd (node_saveToDisk E m')") auto
  qed (use assms chain in \<open>auto simp: node_commit_mined_def Let_def ap\<close>)
qed

lemma node_MineBlockFor_cases:
  assumes "node_MineBlockFor C E K miner n = Some (n', r)" "nd_Chain n \<noteq> []"
  obtains (failed) "nd_Chain n' = nd_Chain n" "nd_Pending n' = nd_Pending n" "\<not> is_ok r"
    | (mined) m block author where "nd_Chain m = nd_Chain n" "node_validateBlock C E block (last (nd_Chain n)) m = Ok ()"
      "node_commit_mined E K author block m = (n', r)" "\<And>tx. tx \<in> set (blk_Transactions block) \<Longrightarrow> node_nonce_used m tx"
proof -
  obtain n0 sel where sel: "node_selectValidator K n = (n0, sel)" by force
  have n0: "nd_Chain n0 = nd_Chain n" "nd_Pending n0 = nd_Pending n"
    using node_select_frame(1,2) [of K n] by (simp_all add: sel)
  obtain m q where m: "node_mine_txs C E (nc_oor K) (length (nc_pending K)) (nc_pending K) [] n0 = (m, q)" by force
  have fm: "nd_Chain m = nd_Chain n" "nd_Pending m = nd_Pending n"
    using node_mine_txs_frame(1,2) [of C E "nc_oor K" "length (nc_pending K)" "nc_pending K" "[]" n0] by (simp_all add: m n0)
  have used: "node_nonce_used m tx" if "q = Ok ts" "tx \<in> set ts" for ts tx
    using node_mine_txs_used [of "[]" n0 C E "nc_oor K" "length (nc_pending K)" "nc_pending K" m ts tx] m that by simp
  have "(nd_Chain n' = nd_Chain n \<and> nd_Pending n' = nd_Pending n \<and> \<not> is_ok r) \<or>
      (\<exists>b0 block author. q = Ok (blk_Transactions b0) \<and> node_seal_block C miner b0 m = Some (Ok block) \<and>
         node_validateBlock C E block (last (nd_Chain n)) m = Ok () \<and> node_commit_mined E K author block m = (n', r))"
  proof (cases q)
    case (Ok ts)
    define author where "author = (if miner \<noteq> [] then miner else sel)"
    define b0 where "b0 = \<lparr>blk_Index = of_nat (length (nd_Chain n)), blk_Author = author, blk_MinerAddress = author,
      blk_PreviousHash = blk_BlockHash (last (nd_Chain n)), blk_Timestamp = ne_now E, blk_Transactions = ts, blk_Nonce = 0,
      blk_BlockHash = [], blk_TxMerkleRoot = []\<rparr>"
    show ?thesis
    proof (cases "nd_MintPaused n \<and> 0 <s nd_MintPauseUntil n \<and> ne_now E <s nd_MintPauseUntil n")
      case True
      then show ?thesis using assms(1) by (auto simp: node_MineBlockFor_def)
    next
      case False
      have run: "Some (n', r) = (case node_seal_block C miner b0 m of None \<Rightarrow> None | Some (Err e) \<Rightarrow> Some (m, Err e)
          | Some (Panic e) \<Rightarrow> Some (m, Panic e)
          | Some (Ok block) \<Rightarrow> (case node_validateBlock C E block (last (nd_Chain n)) m of
               Ok _ \<Rightarrow> Some (node_commit_mined E K author block m) | Err e \<Rightarrow> Some (m, Err e) | Panic e \<Rightarrow> Some (m, Panic e)))"
        using assms n0 fm unfolding node_MineBlockFor_def if_not_P [OF False]
        by (cases "miner = []") (simp_all add: sel m Ok b0_def author_def cong: option.case_cong go.case_cong)
      have ts: "ts = blk_Transactions b0" by (simp add: b0_def)
      show ?thesis
      proof (cases "\<exists>block. node_seal_block C miner b0 m = Some (Ok block) \<and> node_validateBlock C E block (last (nd_Chain n)) m = Ok ()")
        case True
        then obtain block where b: "node_seal_block C miner b0 m = Some (Ok block)" "node_validateBlock C E block (last (nd_Chain n)) m = Ok ()"
          by blast
        with run have "node_commit_mined E K author block m = (n', r)" by simp
        with b Ok ts show ?thesis by blast
      next
        case False
        with run fm show ?thesis by (auto split: option.splits go.splits)
      qed
    qed
  qed (use assms n0 fm in \<open>auto simp: node_MineBlockFor_def sel m Let_def split: if_splits\<close>)
  then show ?thesis
  proof (elim disjE exE conjE)
    fix b0 block author
    assume b: "q = Ok (blk_Transactions b0)" "node_seal_block C miner b0 m = Some (Ok block)"
      "node_validateBlock C E block (last (nd_Chain n)) m = Ok ()" "node_commit_mined E K author block m = (n', r)"
    show ?thesis
      by (rule mined [OF fm(1) b(3,4)]) (simp add: used [OF b(1)] node_seal_block_Ok(1) [OF b(2)])
  qed (rule failed)
qed

lemma node_linked_snoc:
  "linked C chain \<Longrightarrow> chain \<noteq> [] \<Longrightarrow> node_validateBlock C E b (last chain) n = Ok () \<Longrightarrow> linked C (chain @ [b])"
  by (simp add: linked_def successively_append_iff follows_def node_validateBlock_Ok)

text \<open>C15. Mining on the node keeps the chain linked by index and hash whatever its outcome, and a success appends
  exactly the block that is returned and empties the mempool; but no block that it mines ever holds a
  transaction with a nonce: the loop marks the nonces as used before \<open>validateBlock\<close> checks
  that they are not.\<close>

theorem node_mining_outcome:
  assumes "linked C (nd_Chain n)" "nd_Chain n \<noteq> []" "node_MineBlockFor C E K miner n = Some (n', r)"
  shows "linked C (nd_Chain n') \<and> (nd_Chain n' = nd_Chain n \<or> (\<exists>b. nd_Chain n' = nd_Chain n @ [b] \<and> (\<forall>tx \<in> set (blk_Transactions b). tx_Nonce tx = 0))) \<and>
    (\<forall>b. r = Ok b \<longrightarrow> nd_Chain n' = nd_Chain n @ [b] \<and> nd_Pending n' = [])"
  using assms(3,2)
proof (cases rule: node_MineBlockFor_cases)
  case failed
  then show ?thesis using assms(1) by (cases r) auto
next
  case (mined m block author)
  have "tx_Nonce tx = 0" if "tx \<in> set (blk_Transactions block)" for tx
    using that mined(2,4) node_nonce_used_isReplay [of m tx] node_validate_not_replay [of C E tx m]
    by (auto simp: node_validateBlock_Ok node_validate_txs_Ok)
  then show ?thesis
    using node_commit_mined_spec [OF mined(3)] node_linked_snoc [OF assms(1,2) mined(2)] mined(1) assms(1) by auto
qed

text \<open>Without proof of work mining always ends.\<close>

lemma node_MineBlockFor_total:
  assumes "miner \<noteq> []" "nd_Consensus n \<noteq> ProofOfWork"
  shows "node_MineBlockFor C E K miner n \<noteq> None"
proof -
  let ?g = "if nd_Chain n = [] then node_createGenesisBlock C E n else n"
  obtain n0 sel where sel: "node_selectValidator K ?g = (n0, sel)" by force
  obtain m q where m: "node_mine_txs C E (nc_oor K) (length (nc_pending K)) (nc_pending K) [] n0 = (m, q)" by force
  have "nd_Consensus m \<noteq> ProofOfWork"
    using node_mine_txs_frame(3) [of C E "nc_oor K" "length (nc_pending K)" "nc_pending K" "[]" n0] node_select_frame(3) [of K ?g] assms(2)
    by (simp add: m sel node_createGenesisBlock_def Let_def split: if_splits)
  then have seal: "node_seal_block C miner b m = Some (Ok (b\<lparr>blk_BlockHash := calculateHash C b\<rparr>))" for b
    using assms(1) by (simp add: node_seal_block_def)
  show ?thesis
    unfolding node_MineBlockFor_def Let_def sel prod.case m seal by (simp split: go.split)
qed

lemma node_select_idx: "\<exists>i. fst (node_selectValidator K n) = n\<lparr>nd_validatorIdx := i\<rparr>"
  by (auto simp: node_selectValidator_def Let_def intro: exI [of _ "nd_validatorIdx n"])

lemma node_validateTransaction_idx [simp]:
  "node_validateTransaction C E tx (n\<lparr>nd_validatorIdx := i\<rparr>) = node_validateTransaction C E tx n"
  by (simp add: node_validateTransaction_def node_isReplay_def node_validateRequestReversal_def node_validateConfirmReversal_def
      node_validateCommitReversal_def node_findOriginalTransaction_def pending_reversals_def irreversible_txs_def
      cong: if_cong option.case_cong)

lemma node_estimateFee_idx [simp]: "node_estimateFee oor tx len (n\<lparr>nd_validatorIdx := i\<rparr>) = node_estimateFee oor tx len n"
  by (simp add: node_estimateFee_def Let_def cong: if_cong)

text \<open>A valid transaction with a nonce and a sufficient fee stops the node from mining: the attempt ends with an error, no block
  is added, its fee share is burnt and its nonce is used up, so that the transaction can never be mined
  again.\<close>

theorem nonce_stops_mining:
  assumes "nd_Chain n \<noteq> []" "blk_Index (last (nd_Chain n)) + 1 = of_nat (length (nd_Chain n))" "\<not> nd_MintPaused n" "crypto_ok C"
    and "miner \<noteq> []" "nd_Consensus n \<noteq> ProofOfWork" "nc_pending K = [tx]" "tx_ID tx \<noteq> []" "tx_Nonce tx \<noteq> 0"
    and "node_validateTransaction C E tx n" "node_estimateFee (nc_oor K) tx 1 n \<le> tx_Fee tx"
  shows "\<exists>n'. node_MineBlockFor C E K miner n = Some (n', Err ''invalid transaction'') \<and> nd_Chain n' = nd_Chain n \<and>
    nd_Pending n' = nd_Pending n \<and> \<not> node_validateTransaction C E' tx n'"
proof -
  obtain n0 sel where sel: "node_selectValidator K n = (n0, sel)" by force
  with node_select_idx [of K n] obtain i where n0: "n0 = n\<lparr>nd_validatorIdx := i\<rparr>" by auto
  define m where "m = node_count (\<lambda>m. m\<lparr>m_txAccepted := m_txAccepted m + 1\<rparr>) (node_ensureMetrics (node_markTransactionSeen tx (node_settle_fee tx n0)))"
  have mine: "node_mine_txs C E (nc_oor K) (length (nc_pending K)) (nc_pending K) [] n0 = (m, Ok [tx])"
    using assms(7,10,11) by (simp add: n0 m_def not_less [symmetric])
  have c0: "nd_Chain n0 = nd_Chain n" by (simp add: n0)
  have fm: "nd_Chain m = nd_Chain n" "nd_Pending m = nd_Pending n" "nd_Consensus m = nd_Consensus n"
    by (simp_all add: m_def n0 frame)
  have "node_isReplay tx m"
    by (rule node_nonce_used_isReplay [OF node_mine_txs_used [OF _ mine] assms(9)]) simp_all
  then have inv: "\<not> node_validateTransaction C E' tx m" for E' using node_validate_not_replay by blast
  define b where "b = (let b0 = \<lparr>blk_Index = of_nat (length (nd_Chain n)), blk_Author = miner, blk_MinerAddress = miner,
      blk_PreviousHash = blk_BlockHash (last (nd_Chain n)), blk_Timestamp = ne_now E, blk_Transactions = [tx], blk_Nonce = 0,
      blk_BlockHash = [], blk_TxMerkleRoot = []\<rparr> in b0\<lparr>blk_BlockHash := calculateHash C b0\<rparr>)"
  have "node_validateBlock C E b (last (nd_Chain n)) m = Err ''invalid transaction''"
    using assms(2,8) inv [of E] calculateHash_nonempty [OF assms(4), of b]
    by (simp add: node_validateBlock_def b_def Let_def calculateHash_def)
  then have "node_MineBlockFor C E K miner n = Some (m, Err ''invalid transaction'')"
    using assms(1,3,5,6) fm c0 unfolding node_MineBlockFor_def Let_def
    by (simp add: sel mine node_seal_block_def b_def Let_def)
  then show ?thesis using fm inv by blast
qed

text \<open>The node with two signed transfers, and a miner that offers one of them.\<close>

definition demo_offer :: "Transaction list \<Rightarrow> node_choices" where
  "demo_offer txs = \<lparr>nc_validators = [], nc_ledger = [''a''], nc_pending = txs, nc_rewards = [], nc_oor = (\<lambda>x. 0)\<rparr>"

lemma demo_main_bank_fields:
  "length (nd_Chain demo_main_bank) = 1" "nd_Chain demo_main_bank \<noteq> []" "blk_Index (last (nd_Chain demo_main_bank)) = 0"
  "\<not> nd_MintPaused demo_main_bank" "nd_Consensus demo_main_bank = ProofOfStake" "nd_TokenSupply demo_main_bank = 50000000000"
  by (simp_all add: demo_main_bank_def demo_main_simps node_InitialSupply_def)

theorem nonce_stops_mining_witness:
  "\<exists>n'. node_MineBlockFor demo_crypto demo_node_env (demo_offer [demo_transfer 3]) ''a'' demo_main_bank = Some (n', Err ''invalid transaction'') \<and>
     nd_Chain n' = nd_Chain demo_main_bank \<and> nd_Pending n' = nd_Pending demo_main_bank \<and>
     \<not> node_validateTransaction demo_crypto demo_node_env (demo_transfer 3) n'"
proof (rule nonce_stops_mining)
  show "node_estimateFee (nc_oor (demo_offer [demo_transfer 3])) (demo_transfer 3) 1 demo_main_bank \<le> tx_Fee (demo_transfer 3)"
    by (simp add: node_estimateFee_def demo_transfer_fields demo_main_bank_fields node_isAITransaction_def go_defs Let_def)
qed (simp_all add: demo_main_bank_fields demo_offer_def demo_transfer_fields demo_transfer_valid)

theorem node_mining_outcome_witness:
  "linked demo_crypto (nd_Chain (fst (the (node_MineBlockFor demo_crypto demo_node_env (demo_offer [demo_transfer 0]) ''a'' demo_main_bank))))"
proof -
  obtain n' r where "node_MineBlockFor demo_crypto demo_node_env (demo_offer [demo_transfer 0]) ''a'' demo_main_bank = Some (n', r)"
    using node_MineBlockFor_total [of "''a''" demo_main_bank demo_crypto demo_node_env "demo_offer [demo_transfer 0]"]
    by (auto simp: demo_main_bank_fields)
  moreover have "linked demo_crypto (nd_Chain demo_main_bank)"
    using demo_main_bank_fields(1) by (cases "nd_Chain demo_main_bank") (auto simp: linked_def)
  ultimately show ?thesis
    using node_mining_outcome [of demo_crypto demo_main_bank demo_node_env "demo_offer [demo_transfer 0]" "''a''" n' r]
    by (simp add: demo_main_bank_fields)
qed

section \<open>Submitted blocks\<close>

text \<open>The bound on the supply is the largest 64-bit number: the guard of the reward never fails, and the supply wraps around.\<close>

lemma reward_cap_is_vacuous:
  "node_pay_reward a v n = (if has_key (nd_Ledger n) a
     then n\<lparr>nd_Ledger := credit a v (nd_Ledger n), nd_TokenSupply := nd_TokenSupply n + v\<rparr> else n)"
proof -
  have "node_MaxSupply = - 1" by (simp add: node_MaxSupply_def)
  then have "x \<le> node_MaxSupply" for x :: u64 using word_order.extremum [of x] by metis
  then show ?thesis by (simp add: node_pay_reward_def)
qed

definition nonce_state :: "Node \<Rightarrow> (string, u64 fset) fmap \<times> (string, u64) fmap \<times> string fset" where
  "nonce_state n = (nd_UsedNonces n, nd_NextNonce n, nd_SeenTxIDs n)"

lemma nonce_state_frame [frame]:
  "nonce_state (node_adjustDifficulty n) = nonce_state n" "nonce_state (node_pay_reward a v n) = nonce_state n"
  "nonce_state (node_appendAuditEntry E e a d n) = nonce_state n" "nonce_state (node_count f n) = nonce_state n"
  "nonce_state (node_ensureMetrics n) = nonce_state n" "nonce_state (fst (node_saveToDisk E n)) = nonce_state n"
  "nonce_state (fst (node_applyBlock E b n)) = nonce_state n" "nonce_state (n\<lparr>nd_Chain := c, nd_Pending := p\<rparr>) = nonce_state n"
  by (auto simp: nonce_state_def frame node_adjustDifficulty_def node_pay_reward_def node_appendAuditEntry_def node_count_def
      node_ensureMetrics_def node_saveToDisk_def Let_def split: go.splits option.splits)

lemma isReplay_nonce_state: "nonce_state m = nonce_state n \<Longrightarrow> node_isReplay tx m = node_isReplay tx n"
  by (simp add: nonce_state_def node_isReplay_def)

lemma node_SubmitMinedBlock_Ok:
  assumes "node_SubmitMinedBlock C E b n = (n', Ok ())"
  shows "node_validateBlock C E b (last (nd_Chain n)) n = Ok ()" "nd_Chain n' = nd_Chain n @ [b]" "nonce_state n' = nonce_state n"
proof -
  have v: "node_validateBlock C E b (last (nd_Chain n)) n = Ok ()"
    using assms by (auto simp: node_SubmitMinedBlock_def Let_def split: if_splits go.splits)
  then show "node_validateBlock C E b (last (nd_Chain n)) n = Ok ()" .
  define author where "author = (if blk_Author b = [] then blk_MinerAddress b else blk_Author b)"
  let ?n = "node_pay_reward author (BlockReward (blk_Index b)) n"
  obtain m q where ap: "node_applyBlock E b ?n = (m, q)" by force
  have m: "nd_Chain m = nd_Chain n" "nonce_state m = nonce_state n"
    using node_applyBlock_frame(2) [of E b ?n] nonce_state_frame(7) [of E b ?n] by (simp_all add: ap frame)
  note run = assms [unfolded node_SubmitMinedBlock_def Let_def author_def [symmetric] v go.case ap prod.case]
  have q: "q = Ok ()" using run by (cases q) (auto split: if_splits)
  obtain m' where "nd_Chain m' = nd_Chain n @ [b]" "nonce_state m' = nonce_state n" "node_saveToDisk E m' = (n', Ok ())"
  proof (rule that)
    show "node_saveToDisk E (node_count (\<lambda>m. m\<lparr>m_blocksMined := m_blocksMined m + 1\<rparr>) (node_ensureMetrics
        (node_appendAuditEntry E ''block_submitted'' author (''index='' @ FormatUint (blk_Index b) @ '' txs='' @
           fmt_nat (length (blk_Transactions b)) @ '' reward='' @ FormatUint (BlockReward (blk_Index b)))
           (node_adjustDifficulty (m\<lparr>nd_Chain := nd_Chain m @ [b], nd_Pending := []\<rparr>))))) = (n', Ok ())"
      using run by (simp add: q split: if_splits)
  qed (simp_all add: frame m)
  then show "nd_Chain n' = nd_Chain n @ [b]" "nonce_state n' = nonce_state n"
    using node_save_frame(1) [of E m'] nonce_state_frame(6) [of E m'] by simp_all
qed

text \<open>A transaction in a block that is submitted ready-made is never marked as used: after the block is accepted and
  applied, the same transaction is still no replay, so that the next submitted block may hold it again.\<close>

theorem submitted_transactions_replayable:
  assumes "node_SubmitMinedBlock C E b n = (n', Ok ())" "tx \<in> set (blk_Transactions b)"
  shows "nd_Chain n' = nd_Chain n @ [b] \<and> \<not> node_isReplay tx n \<and> \<not> node_isReplay tx n'"
proof -
  note s = node_SubmitMinedBlock_Ok [OF assms(1)]
  have "node_validateTransaction C E tx n"
    using s(1) assms(2) by (simp add: node_validateBlock_Ok node_validate_txs_Ok)
  from node_validate_not_replay [OF this] show ?thesis
    using s(2) isReplay_nonce_state [OF s(3)] by simp
qed

definition demo_submitted :: Block where
  "demo_submitted = (let b = \<lparr>blk_Index = 1, blk_Author = ''a'', blk_MinerAddress = ''a'',
     blk_PreviousHash = blk_BlockHash (last (nd_Chain demo_main_bank)), blk_Timestamp = 1000, blk_Transactions = [demo_transfer 3],
     blk_Nonce = 0, blk_BlockHash = [], blk_TxMerkleRoot = []\<rparr> in b\<lparr>blk_BlockHash := calculateHash demo_crypto b\<rparr>)"

theorem submitted_transactions_replayable_witness:
  "\<not> node_isReplay (demo_transfer 3) (fst (node_SubmitMinedBlock demo_crypto demo_node_env demo_submitted demo_main_bank))"
proof -
  have f: "blk_Index demo_submitted = 1" "blk_Author demo_submitted = ''a''" "blk_Transactions demo_submitted = [demo_transfer 3]"
      "blk_PreviousHash demo_submitted = blk_BlockHash (last (nd_Chain demo_main_bank))"
      "blk_BlockHash demo_submitted = calculateHash demo_crypto demo_submitted"
    by (simp_all add: demo_submitted_def Let_def calculateHash_def)
  have "node_validateBlock demo_crypto demo_node_env demo_submitted (last (nd_Chain demo_main_bank)) demo_main_bank = Ok ()"
    using calculateHash_nonempty [OF crypto_ok_demo, of demo_submitted]
    by (simp add: node_validateBlock_Ok node_validate_txs_Ok f demo_main_bank_fields demo_transfer_fields demo_transfer_valid)
  moreover have "snd (node_applyBlock demo_node_env demo_submitted n) = Ok ()" for n
    by (simp add: node_applyBlock_def node_ProcessReversals_def f node_process_reversal_def demo_transfer_fields go_defs)
  moreover have "snd (node_saveToDisk demo_node_env n) = Ok ()" for n
    by (simp add: node_saveToDisk_def demo_node_env_def)
  ultimately have "snd (node_SubmitMinedBlock demo_crypto demo_node_env demo_submitted demo_main_bank) = Ok ()"
    using demo_main_bank_fields(1) f unfolding node_SubmitMinedBlock_def Let_def
    by (simp add: case_prod_beta split: go.splits)
  then show ?thesis
    using submitted_transactions_replayable [of demo_crypto demo_node_env demo_submitted demo_main_bank
        "fst (node_SubmitMinedBlock demo_crypto demo_node_env demo_submitted demo_main_bank)" "demo_transfer 3"] f(3)
    by (simp add: prod_eq_iff)
qed

end
