(* ===== verification/Node_P2P.thy ===== *)
theory Node_P2P
  imports Node_Mining
begin

text \<open>
  The peer-to-peer layer of \<open>main.go\<close>: \<open>P2PNode\<close>, the messages it exchanges, and how a received message changes the node.

  \<^item> Times are nanoseconds, \<open>int\<close>; \<open>p2p_now\<close> is the clock of an operation. The differences that the code takes
    fit into a \<open>time.Duration\<close>.
  \<^item> A connection is opaque: \<open>p_peerConns\<close> holds the addresses in the maps \<open>peerConns\<close> and \<open>peerWriters\<close>, which always
    have the same keys. What the network does is the argument of type \<open>net\<close>: whether the
    connection to a peer is alive, whether dialling it succeeds, and what becomes of a write. A connection has no deadline for writing, so that a write to a peer that
    does not read may never return; then neither does the operation that writes (\<open>None\<close>, or \<open>False\<close> in a pair), and it holds no lock while it waits.
  \<^item> \<open>p_out\<close> lists the messages written to peers and \<open>p_pushed\<close> those pushed to the relay, so that
    effects on the network can be stated. A message stands for its JSON encoding.
  \<^item> \<open>ks\<close> and \<open>so\<close> are the orders in which \<open>range\<close> visits the validators and a received ledger.
\<close>

record NodeInfo =
  ni_Address :: string
  ni_Peers :: "string list"
  ni_ValidatorPubKey :: string
  ni_Height :: u64

record p2pMessage =
  msg_Type :: string
  msg_From :: string
  msg_NodeID :: string
  msg_To :: string
  msg_Block :: "Block option"
  msg_Chain :: "Block list"
  msg_Tx :: "Transaction option"
  msg_Peer :: "NodeInfo option"
  msg_State :: "LedgerState option"
  msg_StreamID :: string

record P2PNode =
  p_addr :: string
  p_advertiseAddr :: string
  p_peers :: "string list"
  p_peerScores :: "(string, int) fmap"
  p_trustedPeers :: "(string, bool) fmap"
  p_chain :: Node
  p_maxPeers :: int
  p_strictMode :: bool
  p_seenMsgIDs :: "(string, int) fmap"
  p_peerConns :: "string fset"
  p_dialBackoff :: "(string, int) fmap"
  p_helloReplies :: "(string, int) fmap"
  p_relayURL :: string
  p_nodeID :: string
  p_relayLastPull :: int
  p_out :: "(string \<times> p2pMessage) list"
  p_pushed :: "p2pMessage list"

datatype write_outcome = Written | WriteFailed | Stalled

record net =
  net_alive :: "string \<Rightarrow> bool"
  net_dial :: "string \<Rightarrow> bool"
  net_write :: "string \<Rightarrow> write_outcome"

definition p2p_now :: "node_env \<Rightarrow> int" where
  "p2p_now E = sint (ne_nano E)"

definition second :: int where
  "second = 1000000000"

definition empty_message :: p2pMessage where
  "empty_message = \<lparr>msg_Type = [], msg_From = [], msg_NodeID = [], msg_To = [], msg_Block = None, msg_Chain = [], msg_Tx = None,
     msg_Peer = None, msg_State = None, msg_StreamID = []\<rparr>"

definition advertisedAddr :: "P2PNode \<Rightarrow> string" where
  "advertisedAddr p = (if p_advertiseAddr p \<noteq> [] then p_advertiseAddr p else p_addr p)"

section \<open>Dialling and writing\<close>

definition allowDial :: "node_env \<Rightarrow> string \<Rightarrow> P2PNode \<Rightarrow> bool" where
  "allowDial E target p = (case fmlookup (p_dialBackoff p) target of None \<Rightarrow> True | Some next \<Rightarrow> next < p2p_now E)"

definition recordDialFailure :: "node_env \<Rightarrow> string \<Rightarrow> P2PNode \<Rightarrow> P2PNode" where
  "recordDialFailure E target p =
     (let backoff = (case fmlookup (p_dialBackoff p) target of
            None \<Rightarrow> second
          | Some prev \<Rightarrow>
              (let d = p2p_now E - prev in
               if d < 30 * second then (if 30 * second < d * 2 then 30 * second else d * 2) else second))
      in p\<lparr>p_dialBackoff := fmupd target (p2p_now E + backoff) (p_dialBackoff p)\<rparr>)"

definition cleanupPeerLocked :: "string \<Rightarrow> P2PNode \<Rightarrow> P2PNode" where
  "cleanupPeerLocked target p = p\<lparr>p_peerConns := p_peerConns p |-| {|target|}\<rparr>"

definition ensurePeerConn :: "net \<Rightarrow> node_env \<Rightarrow> string \<Rightarrow> P2PNode \<Rightarrow> P2PNode \<times> unit go" where
  "ensurePeerConn W E target p =
     (if target |\<in>| p_peerConns p \<and> net_alive W target then (p, Ok ())
      else let p = cleanupPeerLocked target p in
        if \<not> allowDial E target p then (p, Err ''use of closed network connection'')
        else if \<not> net_dial W target then (recordDialFailure E target p, Err ''dial tcp'')
        else (p\<lparr>p_peerConns := finsert target (p_peerConns p)\<rparr>, Ok ()))"

definition writePeer :: "net \<Rightarrow> node_env \<Rightarrow> string \<Rightarrow> p2pMessage \<Rightarrow> P2PNode \<Rightarrow> P2PNode \<times> unit go option" where
  "writePeer W E target payload p =
     (case ensurePeerConn W E target p of
        (p, Ok _) \<Rightarrow>
          (case net_write W target of
             WriteFailed \<Rightarrow> (cleanupPeerLocked target p, Some (Err ''write tcp''))
           | Stalled \<Rightarrow> (p, None)
           | Written \<Rightarrow> (p\<lparr>p_out := p_out p @ [(target, payload)]\<rparr>, Some (Ok ())))
      | (p, Err e) \<Rightarrow> (cleanupPeerLocked target p, Some (Err e))
      | (p, Panic e) \<Rightarrow> (p, Some (Panic e)))"

section \<open>Messages seen before\<close>

definition seenMessageID :: "node_env \<Rightarrow> string \<Rightarrow> P2PNode \<Rightarrow> P2PNode \<times> bool" where
  "seenMessageID E i p =
     (if i = [] then (p, False)
      else if has_key (p_seenMsgIDs p) i then (p, True)
      else let m = fmupd i (p2p_now E) (p_seenMsgIDs p);
               cut = p2p_now E - 600 * second;
               m = (if 4096 < map_len m then fmfilter (\<lambda>k. \<not> map_get 0 m k < cut) m else m)
        in (p\<lparr>p_seenMsgIDs := m\<rparr>, False))"

section \<open>Received messages\<close>

text \<open>The closure \<open>relayToPeers\<close>, a loop over the peers; the second component says whether it has come to its end.\<close>

fun relay_loop :: "net \<Rightarrow> node_env \<Rightarrow> p2pMessage \<Rightarrow> string \<Rightarrow> string list \<Rightarrow> P2PNode \<Rightarrow> P2PNode \<times> bool" where
  "relay_loop W E msg remote [] p = (p, True)"
| "relay_loop W E msg remote (peer # peers) p =
     (if peer = [] \<or> peer = p_addr p \<or> peer = remote \<or> \<not> map_get False (p_trustedPeers p) peer
      then relay_loop W E msg remote peers p
      else let (p, skip) = (if msg_StreamID msg \<noteq> [] then seenMessageID E (msg_StreamID msg) p else (p, False)) in
        if skip then relay_loop W E msg remote peers p
        else case writePeer W E peer msg p of
          (p, None) \<Rightarrow> (p, False)
        | (p, Some _) \<Rightarrow> relay_loop W E msg remote peers p)"

definition relayToPeers :: "net \<Rightarrow> node_env \<Rightarrow> p2pMessage \<Rightarrow> string \<Rightarrow> P2PNode \<Rightarrow> P2PNode \<times> bool" where
  "relayToPeers W E msg remote p = relay_loop W E msg remote (p_peers p) p"

text \<open>What a block message does to the chain: the state it carries, then its chain, then its block.\<close>

definition receive_block :: "crypto \<Rightarrow> node_env \<Rightarrow> string list \<Rightarrow> Block \<Rightarrow> p2pMessage \<Rightarrow> Node \<Rightarrow> Node \<times> bool" where
  "receive_block C E so block msg n =
     (let n = (case msg_State msg of None \<Rightarrow> n | Some st \<Rightarrow> node_applyLedgerState E so (Some st) n);
          (n, replaced) = (if 0 < length (msg_Chain msg) then node_replaceChain C E (msg_Chain msg) n else (n, False))
      in if replaced then (n, True)
         else if 0 < length (nd_Chain n) \<and> sint (blk_Index block) = int (length (nd_Chain n)) \<and>
                 blk_BlockHash (last (nd_Chain n)) = blk_PreviousHash block
         then (fst (node_saveToDisk E (n\<lparr>nd_Chain := nd_Chain n @ [block]\<rparr>)), False)
         else (n, False))"

text \<open>The two answers to a greeting: a greeting and the whole chain.\<close>

definition hello_message :: "string list \<Rightarrow> P2PNode \<Rightarrow> p2pMessage" where
  "hello_message ks p = empty_message\<lparr>msg_Type := ''hello'', msg_From := p_addr p,
     msg_Peer := Some \<lparr>ni_Address = advertisedAddr p, ni_Peers = p_peers p, ni_ValidatorPubKey = node_selectValidatorPubKey ks (p_chain p),
       ni_Height = of_nat (length (nd_Chain (p_chain p)))\<rparr>\<rparr>"

definition sync_messages :: "node_env \<Rightarrow> P2PNode \<Rightarrow> p2pMessage list" where
  "sync_messages E p =
     (let chainCopy = nd_Chain (p_chain p) in
      if 0 < length chainCopy
      then [empty_message\<lparr>msg_Type := ''block'', msg_Block := Some (last chainCopy), msg_Chain := chainCopy,
              msg_State := Some (node_ledgerState (p_chain p)), msg_StreamID := ''sync-'' @ FormatInt (ne_nano E)\<rparr>]
      else [])"

text \<open>\<open>conn\<close> tells whether the message came over a connection, which then serves the greeting peer.\<close>

definition receive_hello :: "node_env \<Rightarrow> string list \<Rightarrow> NodeInfo \<Rightarrow> bool \<Rightarrow> P2PNode \<Rightarrow> P2PNode \<times> p2pMessage list" where
  "receive_hello E ks peer conn p =
     (if p_strictMode p \<and> p_maxPeers p \<le> int (length (p_peers p)) then (p, [])
      else if ni_Address peer \<noteq> [] \<and> ni_Address peer \<noteq> p_addr p \<and> ni_Address peer \<noteq> advertisedAddr p then
        (if p_strictMode p \<and> ni_ValidatorPubKey peer \<noteq> [] \<and> \<not> node_isActiveValidatorPubKey (ni_ValidatorPubKey peer) (p_chain p)
         then (p, [])
         else
           let known = (ni_Address peer \<in> set (p_peers p));
               p = p\<lparr>p_peerScores := fmupd (ni_Address peer) 1 (p_peerScores p), p_trustedPeers := fmupd (ni_Address peer) True (p_trustedPeers p)\<rparr>;
               p = (if \<not> known then p\<lparr>p_peers := p_peers p @ [ni_Address peer]\<rparr> else p);
               p = (if conn then p\<lparr>p_peerConns := finsert (ni_Address peer) (p_peerConns p)\<rparr> else p);
               due = (case fmlookup (p_helloReplies p) (ni_Address peer) of None \<Rightarrow> True | Some prev \<Rightarrow> 20 * second < p2p_now E - prev);
               p = (if due then p\<lparr>p_helloReplies := fmupd (ni_Address peer) (p2p_now E) (p_helloReplies p)\<rparr> else p);
               reply = (\<not> known \<or> due)
           in if reply then (p, hello_message ks p # sync_messages E p)
              else if ni_Height peer < of_nat (length (nd_Chain (p_chain p))) then (p, sync_messages E p)
              else (p, []))
      else (p, []))"

text \<open>A message is applied and relayed; the replies are \<open>None\<close> when relaying it never returns.\<close>

definition relayed :: "P2PNode \<times> bool \<Rightarrow> P2PNode \<times> p2pMessage list option" where
  "relayed r = (fst r, if snd r then Some [] else None)"

definition processMessage ::
  "crypto \<Rightarrow> net \<Rightarrow> node_env \<Rightarrow> string list \<Rightarrow> string list \<Rightarrow> p2pMessage \<Rightarrow> string \<Rightarrow> bool \<Rightarrow> P2PNode \<Rightarrow> P2PNode \<times> p2pMessage list option" where
  "processMessage C W E ks so msg remote conn p =
     (let (p, seen) = (if msg_StreamID msg \<noteq> [] then seenMessageID E (msg_StreamID msg) p else (p, False)) in
      if seen then (p, Some [])
      else if msg_Type msg = ''block'' \<and> msg_Block msg \<noteq> None then
        (let (n, replaced) = receive_block C E so (the (msg_Block msg)) msg (p_chain p);
             p = p\<lparr>p_chain := n\<rparr>
         in if replaced then (p, Some []) else relayed (relayToPeers W E msg remote p))
      else if msg_Type msg = ''tx'' \<and> msg_Tx msg \<noteq> None then
        relayed (relayToPeers W E msg remote (p\<lparr>p_chain := node_EnqueueTransaction E (the (msg_Tx msg)) (p_chain p)\<rparr>))
      else if msg_Type msg = ''state'' \<and> msg_State msg \<noteq> None then
        relayed (relayToPeers W E msg remote (p\<lparr>p_chain := node_applyLedgerState E so (msg_State msg) (p_chain p)\<rparr>))
      else if msg_Type msg = ''hello'' \<and> msg_Peer msg \<noteq> None then
        apsnd Some (receive_hello E ks (the (msg_Peer msg)) conn p)
      else (p, Some []))"

text \<open>The loop of \<open>handleConn\<close> over the lines that a connection delivers; \<open>decode\<close> is \<open>json.Unmarshal\<close>, \<open>utrim\<close> trims a
  line that is not ASCII. The result is the node and the answers written to the connection; the connection takes them. A message that is never done with
  leaves the lines after it unread.\<close>

fun handleConn ::
  "crypto \<Rightarrow> net \<Rightarrow> node_env \<Rightarrow> string list \<Rightarrow> string list \<Rightarrow> (string \<Rightarrow> string) \<Rightarrow> (string \<Rightarrow> p2pMessage go) \<Rightarrow> string \<Rightarrow> string list \<Rightarrow> P2PNode \<Rightarrow>
     P2PNode \<times> p2pMessage list" where
  "handleConn C W E ks so utrim decode remote [] p = (p, [])"
| "handleConn C W E ks so utrim decode remote (l # ls) p =
     (let line = TrimSpace utrim l in
      if line = [] then handleConn C W E ks so utrim decode remote ls p
      else if 5 * 1024 * 1024 < length line then (p, [])
      else case decode line of
        Ok msg \<Rightarrow>
          (case processMessage C W E ks so msg remote True p of
             (p, None) \<Rightarrow> (p, [])
           | (p, Some replies) \<Rightarrow>
               (let (p, rest) = handleConn C W E ks so utrim decode remote ls p
                in (p, replies @ rest)))
      | _ \<Rightarrow> (p, []))"

section \<open>Broadcast and relay\<close>

definition relayPush :: "p2pMessage \<Rightarrow> P2PNode \<Rightarrow> P2PNode" where
  "relayPush msg p =
     (if p_relayURL p = [] then p
      else p\<lparr>p_pushed := p_pushed p @ [msg\<lparr>msg_NodeID := p_nodeID p, msg_From := p_nodeID p\<rparr>]\<rparr>)"

fun broadcast_loop :: "net \<Rightarrow> node_env \<Rightarrow> p2pMessage \<Rightarrow> string list \<Rightarrow> P2PNode \<Rightarrow> P2PNode \<times> bool" where
  "broadcast_loop W E msg [] p = (p, True)"
| "broadcast_loop W E msg (peer # peers) p =
     (if peer = [] \<or> peer = p_addr p \<or> \<not> map_get False (p_trustedPeers p) peer then broadcast_loop W E msg peers p
      else case writePeer W E peer msg p of
        (p, None) \<Rightarrow> (p, False)
      | (p, Some _) \<Rightarrow> broadcast_loop W E msg peers p)"

definition broadcastMessage :: "net \<Rightarrow> node_env \<Rightarrow> p2pMessage \<Rightarrow> P2PNode \<Rightarrow> P2PNode \<times> bool" where
  "broadcastMessage W E msg p =
     (let msg = msg\<lparr>msg_StreamID := FormatInt (ne_nano E) @ ''-'' @ fmt_nat (length (p_peers p))\<rparr>
      in case broadcast_loop W E msg (p_peers p) p of
           (p, False) \<Rightarrow> (p, False)
         | (p, True) \<Rightarrow> (if p_relayURL p \<noteq> [] then relayPush msg p else p, True))"

definition broadcastTransaction :: "net \<Rightarrow> node_env \<Rightarrow> Transaction \<Rightarrow> P2PNode \<Rightarrow> P2PNode \<times> bool" where
  "broadcastTransaction W E tx p = broadcastMessage W E (empty_message\<lparr>msg_Type := ''tx'', msg_Tx := Some tx\<rparr>) p"

definition broadcastBlock :: "net \<Rightarrow> node_env \<Rightarrow> Block \<Rightarrow> P2PNode \<Rightarrow> P2PNode \<times> bool" where
  "broadcastBlock W E block p =
     broadcastMessage W E (empty_message\<lparr>msg_Type := ''block'', msg_Block := Some block, msg_State := Some (node_ledgerState (p_chain p))\<rparr>) p"

definition broadcastState :: "net \<Rightarrow> node_env \<Rightarrow> LedgerState option \<Rightarrow> P2PNode \<Rightarrow> P2PNode \<times> bool" where
  "broadcastState W E state p =
     (case state of None \<Rightarrow> (p, True) | Some st \<Rightarrow> broadcastMessage W E (empty_message\<lparr>msg_Type := ''state'', msg_State := Some st\<rparr>) p)"

definition announceRelay :: "node_env \<Rightarrow> string list \<Rightarrow> P2PNode \<Rightarrow> P2PNode" where
  "announceRelay E ks p =
     (if p_relayURL p = [] then p
      else relayPush ((hello_message ks p)\<lparr>msg_From := [], msg_StreamID := ''announce-'' @ FormatInt (ne_nano E)\<rparr>) p)"

fun relay_messages :: "crypto \<Rightarrow> net \<Rightarrow> node_env \<Rightarrow> string list \<Rightarrow> string list \<Rightarrow> p2pMessage list \<Rightarrow> P2PNode \<Rightarrow> P2PNode \<times> bool" where
  "relay_messages C W E ks so [] p = (p, True)"
| "relay_messages C W E ks so (msg # msgs) p =
     (if msg_NodeID msg = p_nodeID p then relay_messages C W E ks so msgs p
      else case processMessage C W E ks so msg (''relay:'' @ msg_NodeID msg) False p of
        (p, None) \<Rightarrow> (p, False)
      | (p, Some replies) \<Rightarrow>
          relay_messages C W E ks so msgs (fold (\<lambda>reply. relayPush (reply\<lparr>msg_To := msg_NodeID msg\<rparr>)) replies p))"

text \<open>\<open>pulled\<close> is the decoded answer of the relay.\<close>

definition relayPollOnce :: "crypto \<Rightarrow> net \<Rightarrow> node_env \<Rightarrow> string list \<Rightarrow> string list \<Rightarrow> p2pMessage list go \<Rightarrow> P2PNode \<Rightarrow> P2PNode \<times> bool" where
  "relayPollOnce C W E ks so pulled p =
     (if p_relayURL p = [] then (p, True)
      else if p2p_now E - p_relayLastPull p < second then (p, True)
      else let p = p\<lparr>p_relayLastPull := p2p_now E\<rparr> in
        case pulled of Ok msgs \<Rightarrow> relay_messages C W E ks so msgs p | _ \<Rightarrow> (p, True))"

section \<open>Messages are handled once\<close>

lemma seenMessageID_True: "snd (seenMessageID E i p) \<Longrightarrow> fst (seenMessageID E i p) = p"
  by (auto simp: seenMessageID_def Let_def split: if_splits)

lemma seenMessageID_frame [frame]:
  "p_out (fst (seenMessageID E i p)) = p_out p" "p_peers (fst (seenMessageID E i p)) = p_peers p"
  "p_chain (fst (seenMessageID E i p)) = p_chain p" "p_strictMode (fst (seenMessageID E i p)) = p_strictMode p"
  "p_maxPeers (fst (seenMessageID E i p)) = p_maxPeers p" "p_addr (fst (seenMessageID E i p)) = p_addr p"
  "p_trustedPeers (fst (seenMessageID E i p)) = p_trustedPeers p" "advertisedAddr (fst (seenMessageID E i p)) = advertisedAddr p"
  by (simp_all add: seenMessageID_def Let_def advertisedAddr_def)

lemma seenMessageID_records:
  assumes "i \<noteq> []"
  shows "has_key (p_seenMsgIDs (fst (seenMessageID E i p))) i"
proof -
  have "\<not> p2p_now E < p2p_now E - 600 * second" by (simp add: second_def)
  then show ?thesis using assms by (auto simp: seenMessageID_def Let_def has_key_def)
qed

text \<open>An identifier stays on record for ten minutes, whatever else is recorded meanwhile.\<close>

lemma seenMessageID_keeps:
  assumes "fmlookup (p_seenMsgIDs p) i = Some t" "p2p_now E \<le> t + 600 * second"
  shows "fmlookup (p_seenMsgIDs (fst (seenMessageID E j p))) i = Some t"
  using assms by (auto simp: seenMessageID_def Let_def has_key_def map_get_def)

text \<open>Deduplication: a message whose stream identifier was recorded is dropped without any effect during the ten
  minutes that follow, whatever other messages arrive and however many.\<close>

theorem seen_messages_are_dropped:
  assumes "fmlookup (p_seenMsgIDs p) (msg_StreamID msg) = Some t" "msg_StreamID msg \<noteq> []"
    and "list_all (\<lambda>(E, j). p2p_now E \<le> t + 600 * second) others"
  shows "let q = fold (\<lambda>(E, j) p. fst (seenMessageID E j p)) others p in processMessage C W E ks so msg remote conn q = (q, Some [])"
proof -
  have "fmlookup (p_seenMsgIDs (fold (\<lambda>(E, j) p. fst (seenMessageID E j p)) others p)) (msg_StreamID msg) = Some t"
    using assms(1,3) by (induction others arbitrary: p) (auto simp: seenMessageID_keeps)
  then show ?thesis
    using assms(2) by (simp add: processMessage_def seenMessageID_def has_key_def Let_def)
qed

section \<open>Gossip\<close>

lemma relay_loop_seen:
  assumes "msg_StreamID msg \<noteq> []" "has_key (p_seenMsgIDs p) (msg_StreamID msg)"
  shows "relay_loop W E msg remote peers p = (p, True)"
  using assms by (induction peers) (simp_all add: seenMessageID_def)

lemma receive_hello_out: "p_out (fst (receive_hello E ks peer conn p)) = p_out p"
  by (simp add: receive_hello_def Let_def)

text \<open>A message that carries a stream identifier is never passed on: \<open>processMessage\<close> records the identifier, and
  \<open>relayToPeers\<close> then skips every peer because the identifier is recorded. Every broadcast carries one, so a
  transaction or a block reaches the direct peers of its origin and no others.\<close>

theorem broadcasts_are_not_relayed:
  assumes "msg_StreamID msg \<noteq> []"
  shows "p_out (fst (processMessage C W E ks so msg remote conn p)) = p_out p"
proof -
  obtain q s where q: "seenMessageID E (msg_StreamID msg) p = (q, s)" by force
  have k: "has_key (p_seenMsgIDs (q\<lparr>p_chain := n\<rparr>)) (msg_StreamID msg)" for n
    using seenMessageID_records [OF assms, of E p] by (simp add: q)
  have "p_out q = p_out p" using seenMessageID_frame(1) [of E "msg_StreamID msg" p] by (simp add: q)
  then show ?thesis
    using assms
    by (simp add: processMessage_def q relayToPeers_def relay_loop_seen [OF assms k] relayed_def receive_hello_out Let_def split: prod.splits)
qed

lemma writePeer_out:
  "p_out (fst (writePeer W E a b p)) = p_out p \<or> p_out (fst (writePeer W E a b p)) = p_out p @ [(a, b)]"
  by (simp add: writePeer_def ensurePeerConn_def cleanupPeerLocked_def recordDialFailure_def Let_def split: write_outcome.splits)

lemma broadcast_loop_step:
  obtains (skip) "broadcast_loop W E msg (peer # peers) p = broadcast_loop W E msg peers p"
  | (stall) "broadcast_loop W E msg (peer # peers) p = (fst (writePeer W E peer msg p), False)" "snd (writePeer W E peer msg p) = None"
  | (step) "broadcast_loop W E msg (peer # peers) p = broadcast_loop W E msg peers (fst (writePeer W E peer msg p))"
  by (cases "peer = [] \<or> peer = p_addr p \<or> \<not> map_get False (p_trustedPeers p) peer"; cases "writePeer W E peer msg p"; cases "snd (writePeer W E peer msg p)") auto

lemma broadcast_loop_out: "set (p_out (fst (broadcast_loop W E b ps p))) \<subseteq> set (p_out p) \<union> range (\<lambda>a. (a, b))"
proof (induction ps arbitrary: p)
  case (Cons a ps)
  let ?q = "fst (writePeer W E a b p)"
  have "set (p_out ?q) \<subseteq> set (p_out p) \<union> range (\<lambda>a. (a, b))" using writePeer_out [of W E a b p] by auto
  then show ?case
    using Cons [of p] Cons [of ?q] by (cases rule: broadcast_loop_step [of W E b a ps p]) auto
qed simp

lemma broadcast_carries_id:
  assumes "(peer, msg) \<in> set (p_out (fst (broadcastMessage W E m p)))" "(peer, msg) \<notin> set (p_out p)"
  shows "msg_StreamID msg \<noteq> []"
proof -
  let ?m = "m\<lparr>msg_StreamID := FormatInt (ne_nano E) @ ''-'' @ fmt_nat (length (p_peers p))\<rparr>"
  have "p_out (fst (broadcastMessage W E m p)) = p_out (fst (broadcast_loop W E ?m (p_peers p) p))"
    by (auto simp: broadcastMessage_def Let_def relayPush_def split: prod.splits bool.splits)
  then have "msg = ?m" using assms broadcast_loop_out [of W E ?m "p_peers p" p] by auto
  then show ?thesis by simp
qed

text \<open>A broadcast comes to its end when no peer stalls, and is stuck in the first write that does.\<close>

lemma broadcast_loop_ends: "(\<And>a. net_write W a \<noteq> Stalled) \<Longrightarrow> snd (broadcast_loop W E m ps p)"
proof (induction ps arbitrary: p)
  case (Cons a ps)
  have "snd (writePeer W E a m p) \<noteq> None" using Cons.prems [of a]
    by (auto simp: writePeer_def split: prod.splits go.splits write_outcome.splits)
  with Cons show ?case by (cases rule: broadcast_loop_step [of W E m a ps p]) auto
qed simp

lemma broadcastMessage_ends: "(\<And>a. net_write W a \<noteq> Stalled) \<Longrightarrow> snd (broadcastMessage W E m p)"
  using broadcast_loop_ends [of W E "m\<lparr>msg_StreamID := FormatInt (ne_nano E) @ ''-'' @ fmt_nat (length (p_peers p))\<rparr>" "p_peers p" p]
  by (auto simp: broadcastMessage_def Let_def split: prod.splits bool.splits)

lemma broadcasts_end:
  assumes "\<And>a. net_write W a \<noteq> Stalled"
  shows "snd (broadcastTransaction W E tx p)" "snd (broadcastBlock W E b p)" "snd (broadcastState W E st p)"
  using assms by (auto simp: broadcastTransaction_def broadcastBlock_def broadcastState_def broadcastMessage_ends split: option.splits)

section \<open>Peers\<close>

lemma writePeer_frame [frame]:
  "p_peers (fst (writePeer W E a m p)) = p_peers p" "p_strictMode (fst (writePeer W E a m p)) = p_strictMode p"
  "p_maxPeers (fst (writePeer W E a m p)) = p_maxPeers p" "p_chain (fst (writePeer W E a m p)) = p_chain p"
  "p_seenMsgIDs (fst (writePeer W E a m p)) = p_seenMsgIDs p" "p_addr (fst (writePeer W E a m p)) = p_addr p"
  "p_trustedPeers (fst (writePeer W E a m p)) = p_trustedPeers p"
  by (simp_all add: writePeer_def ensurePeerConn_def cleanupPeerLocked_def recordDialFailure_def Let_def split: write_outcome.splits)

lemma relay_loop_frame [frame]:
  "p_peers (fst (relay_loop W E msg r peers p)) = p_peers p" "p_strictMode (fst (relay_loop W E msg r peers p)) = p_strictMode p"
  "p_maxPeers (fst (relay_loop W E msg r peers p)) = p_maxPeers p" "p_chain (fst (relay_loop W E msg r peers p)) = p_chain p"
proof -
  define same where "same q p \<longleftrightarrow> p_peers q = p_peers p \<and> p_strictMode q = p_strictMode p \<and> p_maxPeers q = p_maxPeers p \<and> p_chain q = p_chain p" for q p :: P2PNode
  have "same (fst (relay_loop W E msg r peers p)) p"
  proof (induction peers arbitrary: p)
    case (Cons a peers)
    have s: "same (fst (relay_loop W E msg r peers q)) p" if "same q p" for q
      using Cons [of q] that by (simp add: same_def)
    have "same (fst (writePeer W E a msg q)) p" if "same q p" for q
      using that by (simp add: same_def frame)
    then have w: "same q' p" if "writePeer W E a msg q = (q', x)" "same q p" for q q' x
      using that by (metis fst_conv)
    have i: "same q p" if "(if msg_StreamID msg \<noteq> [] then seenMessageID E (msg_StreamID msg) p else (p, False)) = (q, sk)" for q sk
      using that seenMessageID_frame [of E "msg_StreamID msg" p] by (auto simp: same_def split: if_splits)
    show ?case
      using Cons [of p] by (auto simp: Let_def split: prod.splits option.splits intro!: s dest!: i w simp del: if_split_asm)
        (auto intro!: s w simp: i)
  qed (simp add: same_def)
  then show "p_peers (fst (relay_loop W E msg r peers p)) = p_peers p" "p_strictMode (fst (relay_loop W E msg r peers p)) = p_strictMode p"
    "p_maxPeers (fst (relay_loop W E msg r peers p)) = p_maxPeers p" "p_chain (fst (relay_loop W E msg r peers p)) = p_chain p"
    by (simp_all add: same_def)
qed

definition peers_ok :: "P2PNode \<Rightarrow> bool" where
  "peers_ok p \<longleftrightarrow> distinct (p_peers p) \<and> (p_strictMode p \<longrightarrow> int (length (p_peers p)) \<le> p_maxPeers p)"

lemma receive_hello_ok: "peers_ok p \<Longrightarrow> peers_ok (fst (receive_hello E ks peer conn p))"
  by (auto simp: peers_ok_def receive_hello_def Let_def)

definition p2p_on :: "crypto \<Rightarrow> node_env \<times> net \<times> string list \<times> string list \<times> p2pMessage \<times> string \<times> bool \<Rightarrow> P2PNode \<Rightarrow> P2PNode" where
  "p2p_on C ev p = (case ev of (E, W, ks, so, msg, remote, conn) \<Rightarrow> fst (processMessage C W E ks so msg remote conn p))"

interpretation p2p: machine "p2p_on C" peers_ok for C
proof unfold_locales
  fix p and ev :: "node_env \<times> net \<times> string list \<times> string list \<times> p2pMessage \<times> string \<times> bool"
  assume ok: "peers_ok p"
  obtain E W ks so msg remote conn where ev: "ev = (E, W, ks, so, msg, remote, conn)" by (cases ev) auto
  obtain q s where q: "(if msg_StreamID msg \<noteq> [] then seenMessageID E (msg_StreamID msg) p else (p, False)) = (q, s)" by force
  have "p_peers q = p_peers p \<and> p_strictMode q = p_strictMode p \<and> p_maxPeers q = p_maxPeers p"
    using q seenMessageID_frame [of E "msg_StreamID msg" p] by (auto split: if_splits)
  with ok have okq: "peers_ok q" by (simp add: peers_ok_def)
  then have "peers_ok (fst (relayed (relayToPeers W E msg remote (q\<lparr>p_chain := n\<rparr>))))" for n
    by (simp add: peers_ok_def relayToPeers_def relayed_def frame)
  with okq receive_hello_ok [OF okq] show "peers_ok (p2p_on C ev p)"
    unfolding p2p_on_def ev prod.case processMessage_def q Let_def by (simp add: peers_ok_def split: prod.split)
qed

text \<open>However many messages arrive, from whomever and over whatever network, the list of peers never holds an
  address twice, and in strict mode it never outgrows the limit.\<close>

theorem peers_stay_bounded:
  assumes "peers_ok p"
  shows "peers_ok (fold (p2p_on C) evs p)"
  using assms by (rule p2p.run_inv)

section \<open>Trust\<close>

text \<open>Anyone can set the ledger: a state message that is not a duplicate is applied whoever sent it, over whatever
  transport, trusted or not, also in strict mode; every balance, stake and kind of account that it names
  replaces the node's own.\<close>

theorem state_from_anyone:
  assumes "msg_Type msg = ''state''" "msg_State msg = Some st" "range_order so (ls_Ledger st)"
    and "\<not> has_key (p_seenMsgIDs p) (msg_StreamID msg)"
  shows "fmlookup (nd_Ledger (p_chain (fst (processMessage C W E ks so msg remote conn p)))) a =
    synced (fmlookup (ls_Ledger st) a) (fmlookup (nd_Ledger (p_chain p)) a)"
proof -
  obtain q where q: "(if msg_StreamID msg \<noteq> [] then seenMessageID E (msg_StreamID msg) p else (p, False)) = (q, False)" "p_chain q = p_chain p"
    using assms(4) by (cases "msg_StreamID msg = []") (auto simp: seenMessageID_def Let_def)
  have "p_chain (fst (processMessage C W E ks so msg remote conn p)) = node_applyLedgerState E so (Some st) (p_chain p)"
    unfolding processMessage_def q(1) using assms(1,2) by (simp add: relayToPeers_def relayed_def Let_def frame q(2))
  moreover have "fmlookup (nd_Ledger (node_applyLedgerState E so (Some st) n)) a = synced (fmlookup (ls_Ledger st) a) (fmlookup (nd_Ledger n) a)" for n
    using assms(3) range_order_has_key [OF assms(3), of a]
    by (auto simp: node_applyLedgerState_def Let_def node_appendAuditEntry_def sync_accounts_ledger range_order_def has_key_def synced_def)
  ultimately show ?thesis by simp
qed

text \<open>A block from a peer is appended when its index and previous hash fit, and nothing else is checked: neither its
  hash, nor its signatures, nor its transactions, nor its author; and it is not applied to the ledger.\<close>

theorem block_appended_unchecked:
  assumes "msg_Type msg = ''block''" "msg_Block msg = Some b" "msg_State msg = None" "msg_Chain msg = []"
    and "\<not> has_key (p_seenMsgIDs p) (msg_StreamID msg)"
    and "nd_Chain (p_chain p) \<noteq> []" "sint (blk_Index b) = int (length (nd_Chain (p_chain p)))"
    and "blk_PreviousHash b = blk_BlockHash (last (nd_Chain (p_chain p)))"
  shows "nd_Chain (p_chain (fst (processMessage C W E ks so msg remote conn p))) = nd_Chain (p_chain p) @ [b] \<and>
    nd_Ledger (p_chain (fst (processMessage C W E ks so msg remote conn p))) = nd_Ledger (p_chain p)"
proof -
  obtain q where q: "(if msg_StreamID msg \<noteq> [] then seenMessageID E (msg_StreamID msg) p else (p, False)) = (q, False)" "p_chain q = p_chain p"
    using assms(5) by (cases "msg_StreamID msg = []") (auto simp: seenMessageID_def Let_def)
  let ?n = "(p_chain p)\<lparr>nd_Chain := nd_Chain (p_chain p) @ [b]\<rparr>"
  have "receive_block C E so b msg (p_chain p) = (fst (node_saveToDisk E ?n), False)"
    using assms by (simp add: receive_block_def Let_def)
  then have "p_chain (fst (processMessage C W E ks so msg remote conn p)) = fst (node_saveToDisk E ?n)"
    unfolding processMessage_def q(1) using assms(1,2) by (simp add: relayToPeers_def relayed_def Let_def frame q(2))
  then show ?thesis by (auto simp: node_saveToDisk_def split: go.splits option.splits)
qed

section \<open>Dialling\<close>

text \<open>After a failed attempt a peer is left alone for a while, but not for longer and longer: the pause is one second
  for a peer that did not fail recently, and otherwise twice the time since the last pause ended, at most thirty
  seconds. An attempt right after a pause is followed by a pause of almost no length.\<close>

theorem dial_pause:
  assumes "\<not> net_dial W target" "\<not> (target |\<in>| p_peerConns p \<and> net_alive W target)" "allowDial E target p"
  shows "let q = fst (ensurePeerConn W E target p);
             pause = (case fmlookup (p_dialBackoff p) target of None \<Rightarrow> second
               | Some t \<Rightarrow> if 30 * second \<le> p2p_now E - t then second else min (30 * second) (2 * (p2p_now E - t)))
    in 0 < pause \<and> pause \<le> 30 * second \<and> (\<forall>E'. allowDial E' target q \<longleftrightarrow> p2p_now E + pause < p2p_now E')"
proof -
  have d: "p_dialBackoff (cleanupPeerLocked target p) = p_dialBackoff p" by (simp add: cleanupPeerLocked_def)
  then have "allowDial E target (cleanupPeerLocked target p)" using assms(3) by (simp add: allowDial_def)
  then have "fst (ensurePeerConn W E target p) = recordDialFailure E target (cleanupPeerLocked target p)"
    using assms(1,2) by (auto simp: ensurePeerConn_def Let_def)
  then show ?thesis
    using assms(3) by (auto simp: recordDialFailure_def allowDial_def d Let_def second_def min_def split: option.splits)
qed

section \<open>Examples\<close>

definition demo_p2p :: P2PNode where
  "demo_p2p = \<lparr>p_addr = ''here'', p_advertiseAddr = [], p_peers = [''p1'', ''p2''], p_peerScores = fmempty,
     p_trustedPeers = fmupd ''p1'' True (fmupd ''p2'' True fmempty), p_chain = demo_main_bank, p_maxPeers = 50, p_strictMode = True,
     p_seenMsgIDs = fmupd ''old'' 999000000000 fmempty, p_peerConns = {||}, p_dialBackoff = fmupd ''p1'' 998000000000 fmempty,
     p_helloReplies = fmempty, p_relayURL = [], p_nodeID = ''n'', p_relayLastPull = 0, p_out = [], p_pushed = []\<rparr>"

definition demo_net :: "bool \<Rightarrow> net" where
  "demo_net up = \<lparr>net_alive = (\<lambda>_. up), net_dial = (\<lambda>_. up), net_write = (\<lambda>_. if up then Written else WriteFailed)\<rparr>"

lemma demo_p2p_fields:
  "p_seenMsgIDs demo_p2p = fmupd ''old'' 999000000000 fmempty" "p_out demo_p2p = []" "p_chain demo_p2p = demo_main_bank"
  "p_dialBackoff demo_p2p = fmupd ''p1'' 998000000000 fmempty" "p_peerConns demo_p2p = {||}" "peers_ok demo_p2p"
  "p2p_now demo_node_env = 1000000000000"
  by (simp_all add: demo_p2p_def peers_ok_def p2p_now_def demo_node_env_def)

definition demo_gossip :: "string \<Rightarrow> p2pMessage" where
  "demo_gossip i = empty_message\<lparr>msg_Type := ''tx'', msg_Tx := Some demo_tx, msg_StreamID := i\<rparr>"

theorem seen_messages_are_dropped_witness:
  "processMessage demo_crypto (demo_net True) demo_node_env [] [] (demo_gossip ''old'') ''x'' True (fst (seenMessageID demo_node_env ''new'' demo_p2p)) =
     (fst (seenMessageID demo_node_env ''new'' demo_p2p), Some [])"
  using seen_messages_are_dropped [of demo_p2p "demo_gossip ''old''" 999000000000
      "[(demo_node_env, ''new'')]" demo_crypto "demo_net True" demo_node_env "[]" "[]" "''x''" True]
  by (simp add: demo_p2p_fields demo_gossip_def second_def Let_def)

theorem broadcasts_are_not_relayed_witness:
  "p_out (fst (processMessage demo_crypto (demo_net True) demo_node_env [] [] (demo_gossip ''new'') ''x'' True demo_p2p)) = []"
  using broadcasts_are_not_relayed [of "demo_gossip ''new''" demo_crypto "demo_net True" demo_node_env "[]" "[]" "''x''" True demo_p2p]
  by (simp add: demo_p2p_fields demo_gossip_def)

theorem peers_stay_bounded_witness:
  "peers_ok (fold (p2p_on demo_crypto) (replicate 100 (demo_node_env, demo_net True, [], [], demo_gossip [], ''x'', True)) demo_p2p)"
  by (rule peers_stay_bounded) (rule demo_p2p_fields)

theorem state_from_anyone_witness:
  "fmlookup (nd_Ledger (p_chain (fst (processMessage demo_crypto (demo_net True) demo_node_env [] [''a'']
     (empty_message\<lparr>msg_Type := ''state'', msg_State := Some \<lparr>ls_Ledger = fmupd ''a'' (Some (demo_account ''a'' 77 0)) fmempty,
        ls_Authorities = [], ls_TokenSupply = 0\<rparr>\<rparr>) ''stranger'' True demo_p2p)))) ''a'' = Some (demo_account ''a'' 77 0)"
  by (subst state_from_anyone [where st = "\<lparr>ls_Ledger = fmupd ''a'' (Some (demo_account ''a'' 77 0)) fmempty, ls_Authorities = [], ls_TokenSupply = 0\<rparr>"])
    (simp_all add: range_order_def demo_p2p_fields empty_message_def synced_def demo_main_bank_def demo_bank_fields demo_account_def demo_addr_neq split: option.splits)

theorem block_appended_unchecked_witness:
  "nd_Chain (p_chain (fst (processMessage demo_crypto (demo_net True) demo_node_env [] []
     (empty_message\<lparr>msg_Type := ''block'', msg_Block := Some (demo_submitted\<lparr>blk_BlockHash := ''junk''\<rparr>)\<rparr>) ''stranger'' True demo_p2p))) =
     nd_Chain demo_main_bank @ [demo_submitted\<lparr>blk_BlockHash := ''junk''\<rparr>]"
proof -
  have "\<not> has_key (p_seenMsgIDs demo_p2p) []" by (simp add: demo_p2p_fields)
  then show ?thesis
    using block_appended_unchecked [of "empty_message\<lparr>msg_Type := ''block'', msg_Block := Some (demo_submitted\<lparr>blk_BlockHash := ''junk''\<rparr>)\<rparr>"
        "demo_submitted\<lparr>blk_BlockHash := ''junk''\<rparr>" demo_p2p demo_crypto "demo_net True" demo_node_env "[]" "[]" "''stranger''" True]
      demo_main_bank_fields
    by (simp add: demo_p2p_fields empty_message_def demo_submitted_def Let_def)
qed

theorem dial_pause_witness:
  "allowDial (demo_node_env\<lparr>ne_nano := 1004000000001\<rparr>) ''p1'' (fst (ensurePeerConn (demo_net False) demo_node_env ''p1'' demo_p2p)) \<and>
   \<not> allowDial (demo_node_env\<lparr>ne_nano := 1004000000000\<rparr>) ''p1'' (fst (ensurePeerConn (demo_net False) demo_node_env ''p1'' demo_p2p))"
  using dial_pause [of "demo_net False" "''p1''" demo_p2p demo_node_env]
  by (simp add: demo_p2p_fields demo_net_def allowDial_def [of demo_node_env] second_def Let_def) (simp add: p2p_now_def)

end
