(* ===== verification/Node_Api.thy ===== *)
theory Node_Api
  imports Node_P2P Node_Guard Http_Server
begin

text \<open>
  The HTTP server of the node in \<open>main.go\<close> (\<open>startAPI\<close>): one procedure for each handler, the table of routes, and the check of the key in front
  of it. The mutex is \<open>chain.mu\<close>; it guards the chain, which the peer-to-peer node holds (\<open>p_chain\<close>). Methods take the lock as in the code;
  \<open>broadcastState\<close> and \<open>broadcastBlock\<close> read the ledger under a read lock first. The record \<open>node_api\<close> is what is
  fixed while the server runs, \<open>node_world\<close> what a request meets.
\<close>

section \<open>The server\<close>

record NamePayload =
  np_From :: string
  np_ToLabel :: string
  np_Amount :: u64
  np_Fee :: u64
  np_FromPubKey :: string
  np_Signature :: string

record node_json =
  nj_tx :: "reader \<Rightarrow> Transaction go"
  nj_block :: "reader \<Rightarrow> Block go"
  nj_miner :: "reader \<Rightarrow> string go"
  nj_amount :: "reader \<Rightarrow> AmountPayload go"
  nj_managed :: "reader \<Rightarrow> (string \<times> bool) go"
  nj_name :: "reader \<Rightarrow> NamePayload go"
  nj_escrow :: "reader \<Rightarrow> EscrowPayload go"
  nj_proposal :: "reader \<Rightarrow> (string \<times> string) go"
  nj_agreement :: "reader \<Rightarrow> AgreementPayload go"
  nj_usage :: "reader \<Rightarrow> (string \<times> u64) go"

datatype node_value =
    NStr string | NNum u64 | NLen nat | NBool bool | NStrs "string list" | NFlags "(string, bool) fmap"
  | NTx Transaction | NTxs "Transaction list" | NBlock Block | NState node_saved | NAudit "AuditEntry list"
  | NLedger "(string, Account) fmap" | NRegistry "(string, ModelRef) fmap" | NValidators "(string, Validator) fmap"
  | NEscrow Escrow | NEscrows "(string, Escrow) fmap" | NProposal GovernanceProposal | NProposals "(string, GovernanceProposal) fmap"
  | NAgreement ServiceAgreement | NMeter UsageMeter | NManaged ManagedWallet
  | NText string | NObj "(string \<times> node_value) list" | NArr "node_value list"

record NodeServer =
  nv_p2p :: P2PNode
  nv_limiter :: rateLimiter
  nv_cb :: circuitBreaker

record node_api =
  na_cfg :: serverConfig
  na_C :: crypto
  na_J :: node_json
  na_utrim :: "string \<Rightarrow> string"

record node_world =
  nw_E :: node_env
  nw_W :: net
  nw_K :: node_choices
  nw_wallets :: "string list"
  nw_wallet :: Wallet

type_synonym node_proc = "(NodeServer guarded, node_value http_reply) proc"
type_synonym node_handler = "node_api \<Rightarrow> node_world \<Rightarrow> http_request \<Rightarrow> node_proc"

definition new_node_server :: "serverConfig \<Rightarrow> P2PNode \<Rightarrow> NodeServer" where
  "new_node_server cfg p = \<lparr>nv_p2p = p\<lparr>p_chain := node_ensureMetrics (p_chain p)\<rparr>, nv_limiter = newRateLimiter (cfg_RateLimit cfg) (cfg_RateWindow cfg),
     nv_cb = newCircuitBreaker 5 (10 * second)\<rparr>"

definition nv_chain :: "NodeServer \<Rightarrow> Node" where
  "nv_chain s = p_chain (nv_p2p s)"

definition nv_set :: "Node \<Rightarrow> NodeServer \<Rightarrow> NodeServer" where
  "nv_set n s = s\<lparr>nv_p2p := (nv_p2p s)\<lparr>p_chain := n\<rparr>\<rparr>"

definition n_call :: "(Node \<Rightarrow> Node \<times> 'a go) \<Rightarrow> (NodeServer guarded, string + 'a) proc" where
  "n_call f = locked (body (\<lambda>s. case f (nv_chain s) of (n, r) \<Rightarrow> Some (nv_set n s, r)))"

definition n_do :: "(Node \<Rightarrow> Node) \<Rightarrow> (NodeServer guarded, unit) proc" where
  "n_do f = locked (writes (\<lambda>s. nv_set (f (nv_chain s)) s))"

definition n_read :: "(Node \<Rightarrow> 'a) \<Rightarrow> (NodeServer guarded, 'a) proc" where
  "n_read f = rlocked (reads (\<lambda>s. f (nv_chain s)))"

definition n_save :: "node_world \<Rightarrow> (NodeServer guarded, unit) proc" where
  "n_save w = n_do (\<lambda>n. fst (saveToDiskSafe (nw_E w) n))"

text \<open>A broadcast that never returns blocks the request. It runs outside the lock of the chain.\<close>

definition n_send :: "(P2PNode \<Rightarrow> P2PNode \<times> bool) \<Rightarrow> (NodeServer guarded, unit) proc" where
  "n_send f g = (case f (nv_p2p (g_val g)) of (p, finished) \<Rightarrow> (if finished then Returned () else Blocked, g\<lparr>g_val := (g_val g)\<lparr>nv_p2p := p\<rparr>\<rparr>))"

definition n_broadcastState :: "node_world \<Rightarrow> (NodeServer guarded, unit) proc" where
  "n_broadcastState w = p_bind (n_read node_ledgerState) (\<lambda>state. n_send (broadcastState (nw_W w) (nw_E w) (Some state)))"

definition n_broadcastBlock :: "node_world \<Rightarrow> Block \<Rightarrow> (NodeServer guarded, unit) proc" where
  "n_broadcastBlock w block = p_bind (n_read node_ledgerState) (\<lambda>_. n_send (broadcastBlock (nw_W w) (nw_E w) block))"

definition n_broadcastTransaction :: "node_world \<Rightarrow> Transaction \<Rightarrow> (NodeServer guarded, unit) proc" where
  "n_broadcastTransaction w tx = n_send (broadcastTransaction (nw_W w) (nw_E w) tx)"

definition n_allow :: "node_world \<Rightarrow> string \<Rightarrow> (NodeServer guarded, bool) proc" where
  "n_allow w key g =
     (case rl_allow (p2p_now (nw_E w)) key (nv_limiter (g_val g)) of (rl, ok) \<Rightarrow> (Returned ok, g\<lparr>g_val := (g_val g)\<lparr>nv_limiter := rl\<rparr>\<rparr>))"

definition n_breaker :: "node_world \<Rightarrow> (NodeServer guarded, bool) proc" where
  "n_breaker w g = (case cb_Allow (p2p_now (nw_E w)) (nv_cb (g_val g)) of (cb, ok) \<Rightarrow> (Returned ok, g\<lparr>g_val := (g_val g)\<lparr>nv_cb := cb\<rparr>\<rparr>))"

definition n_rate_limited :: "node_world \<Rightarrow> http_request \<Rightarrow> node_proc \<Rightarrow> node_proc" where
  "n_rate_limited w r k = p_bind (n_allow w (rq_RemoteAddr r)) (\<lambda>ok. if \<not> ok then http_Error StatusTooManyRequests ''rate limit exceeded'' else k)"

definition n_selectValidator :: "node_world \<Rightarrow> (NodeServer guarded, string) proc" where
  "n_selectValidator w g = (case node_selectValidator (nw_K w) (nv_chain (g_val g)) of (n, v) \<Rightarrow> (Returned v, g\<lparr>g_val := nv_set n (g_val g)\<rparr>))"

abbreviation n_auth :: "node_api \<Rightarrow> http_request \<Rightarrow> unit go" where
  "n_auth A r \<equiv> requireAuth (na_utrim A) (rq_Authorization r) (na_cfg A)"

section \<open>Reading handlers\<close>

definition n_health :: node_handler where
  "n_health A w r = encode (NObj [(''status'', NStr ''ok'')])"

definition n_chain :: node_handler where
  "n_chain A w r =
     p_bind (n_breaker w) (\<lambda>ok.
     if \<not> ok then http_Error StatusServiceUnavailable ''circuit breaker open''
     else p_bind (n_allow w (rq_RemoteAddr r)) (\<lambda>ok.
       if \<not> ok
       then p_then (writes (\<lambda>s. s\<lparr>nv_cb := RecordFailure (p2p_now (nw_E w)) (nv_cb s)\<rparr>)) (http_Error StatusTooManyRequests ''rate limit exceeded'')
       else p_then (writes (\<lambda>s. s\<lparr>nv_cb := RecordSuccess (nv_cb s)\<rparr>))
           (p_then (writes (\<lambda>s. nv_set ((nv_chain s)\<lparr>nd_metrics := node_recordRequest (nw_E w) True (nd_metrics (nv_chain s))\<rparr>) s))
           (p_bind (n_read node_snapshot) (\<lambda>snapshot. encode (NState snapshot))))))"

definition n_audit :: node_handler where
  "n_audit A w r = p_bind (n_read nd_AuditTrail) (\<lambda>x. encode (NAudit x))"

definition n_monitoring :: node_handler where
  "n_monitoring A w r = n_rate_limited w r (rlocked (p_bind (reads nv_p2p) (\<lambda>p. let n = p_chain p in
     encode (NObj [(''height'', NLen (length (nd_Chain n))), (''pending_transactions'', NLen (length (nd_Pending n))), (''token_supply'', NNum (nd_TokenSupply n)),
       (''audit_entries'', NLen (length (nd_AuditTrail n))), (''peer_count'', NLen (length (p_peers p))), (''trusted_peer_count'', NLen (map_len (p_trustedPeers p))),
       (''strict_p2p'', NBool (p_strictMode p)), (''consensus'', NStr (node_consensusName (nd_Consensus n)))]))))"

definition n_mempool :: node_handler where
  "n_mempool A w r = p_bind (n_read nd_Pending) (\<lambda>x. encode (NTxs x))"

definition n_validators :: node_handler where
  "n_validators A w r = rlocked (p_bind (n_selectValidator w) (\<lambda>v. p_bind (reads nv_chain) (\<lambda>n.
     encode (NObj [(''consensus'', NStr (node_consensusName (nd_Consensus n))), (''authorities'', NStrs (nd_Authorities n)), (''next_validator'', NStr v),
       (''validators'', NValidators (nd_Validators n))]))))"

definition n_bootstrap :: node_handler where
  "n_bootstrap A w r = p_bind (n_selectValidator w) (\<lambda>v. p_bind (reads nv_p2p) (\<lambda>p.
     encode (NObj [(''node'', NStr (p_addr p)), (''peers'', NStrs (p_peers p)), (''trusted'', NFlags (p_trustedPeers p)), (''validator'', NStr v)])))"

definition n_registry :: node_handler where
  "n_registry A w r = p_bind (n_read nd_Registry) (\<lambda>x. encode (NRegistry x))"

definition n_accounts :: node_handler where
  "n_accounts A w r = p_bind (n_read nd_Ledger) (\<lambda>x. encode (NLedger x))"

definition n_account :: node_handler where
  "n_account A w r =
     (let addr = rq_Query r ''address'' in
      if addr = [] then http_Error StatusBadRequest ''missing address query param''
      else rlocked (p_bind (reads nv_chain) (\<lambda>n.
        case fmlookup (nd_Ledger n) addr of
          None \<Rightarrow> http_Error StatusNotFound ''address not found''
        | Some acct \<Rightarrow> encode (NObj [(''address'', NStr (acct_Address acct)), (''balance'', NNum (acct_Balance acct)), (''staked'', NNum (acct_Staked acct)),
            (''is_agent'', NBool (acct_IsAgent acct)), (''next_nonce'', NNum (map_get 0 (nd_NextNonce n) addr))]))))"

definition wallet_view :: "ManagedWallet \<Rightarrow> node_value" where
  "wallet_view m = NObj [(''label'', NStr (mw_Label m)), (''address'', NStr (mw_Address m)), (''id'', NStr (mw_ID m))]"

definition n_wallets :: node_handler where
  "n_wallets A w r =
     p_then RLock (p_bind (reads (\<lambda>s. map (\<lambda>k. wallet_view (the (fmlookup (nd_Wallets (nv_chain s)) k))) (filter (has_key (nd_Wallets (nv_chain s))) (nw_wallets w)))) (\<lambda>list.
     p_then RUnlock (encode (NArr list))))"

definition n_tokenomics :: node_handler where
  "n_tokenomics A w r = rlocked (p_bind (reads nv_chain) (\<lambda>n.
     encode (NObj [(''currency'', NStr (nd_CurrencyName n)), (''token_supply'', NNum (nd_TokenSupply n)), (''burn_rate_percent'', NNum node_BurnRatePercent),
       (''reward_rate_percent'', NNum node_RewardRatePercent), (''base_fee'', NNum node_BaseFee), (''escrows'', NEscrows (nd_Escrows n)), (''proposals'', NProposals (nd_Proposals n))])))"

definition n_token :: node_handler where
  "n_token A w r = p_bind (reads nv_chain) (\<lambda>n. encode (NObj [(''currency_name'', NStr (nd_CurrencyName n)), (''currency_symbol'', NStr (nd_CurrencyName n)), (''currency_subunit'', NStr ''HOGOHOGO''),
     (''subunit_factor'', NNum node_HogohogoPerTender), (''base_fee'', NNum node_BaseFee), (''burn_rate_percent'', NNum node_BurnRatePercent),
     (''reward_rate_percent'', NNum node_RewardRatePercent)]))"

text \<open>The counters in the text format of Prometheus; they are read without a lock.\<close>

definition metric_lines :: "string \<Rightarrow> string \<Rightarrow> i64 \<Rightarrow> string" where
  "metric_lines name help v = ''# HELP tender_'' @ name @ ''_total '' @ help @ [CHR 0x0A] @ ''# TYPE tender_'' @ name @ ''_total counter'' @ [CHR 0x0A] @
     ''tender_'' @ name @ ''_total '' @ FormatInt v @ [CHR 0x0A]"

definition n_metrics :: node_handler where
  "n_metrics A w r = p_bind (reads (\<lambda>s. nd_metrics (nv_chain s))) (\<lambda>m. case m of
     None \<Rightarrow> p_panic ''invalid memory address or nil pointer dereference''
   | Some m \<Rightarrow> encode (NText (
       metric_lines ''http_requests'' ''Total HTTP requests'' (m_requestCount m) @ metric_lines ''http_errors'' ''Total HTTP errors'' (m_errorCount m) @
       metric_lines ''blocks_mined'' ''Total blocks mined'' (m_blocksMined m) @ metric_lines ''peers_seen'' ''Total peers observed'' (m_peersSeen m) @
       metric_lines ''tx_accepted'' ''Total accepted transactions'' (m_txAccepted m) @ metric_lines ''tx_rejected'' ''Total rejected transactions'' (m_txRejected m))))"

section \<open>Writing handlers\<close>

definition n_transactions :: node_handler where
  "n_transactions A w r = authorized (n_auth A r) (n_rate_limited w r (only_post r
     (decoded (nj_tx (na_J A)) r (\<lambda>tx.
        p_then (n_do (node_EnqueueTransaction (nw_E w) tx)) (p_then (n_save w) (p_then (n_broadcastTransaction w tx) (encode (NTx tx))))))))"

definition n_mine :: node_handler where
  "n_mine A w r = only_post r
     (decoded (nj_miner (na_J A)) r (\<lambda>minerAddress.
        or_fail StatusInternalServerError
          (locked (body (\<lambda>s. map_option (\<lambda>(n, res). (nv_set n s, res)) (node_MineBlockFor (na_C A) (nw_E w) (nw_K w) minerAddress (nv_chain s)))))
          (\<lambda>block. p_then (n_broadcastBlock w block) (encode (NBlock block)))))"

definition n_miner_submit :: node_handler where
  "n_miner_submit A w r = only_post r
     (decoded (nj_block (na_J A)) r (\<lambda>block.
        or_fail StatusBadRequest (n_call (node_SubmitMinedBlock (na_C A) (nw_E w) block))
          (\<lambda>_. p_then (n_broadcastBlock w block) (encode (NObj [(''status'', NStr ''accepted''), (''hash'', NStr (blk_BlockHash block))])))))"

definition n_validators_register :: node_handler where
  "n_validators_register A w r = only_post r
     (decoded (nj_amount (na_J A)) r (\<lambda>payload.
        or_fail StatusBadRequest (n_call (node_RegisterValidator (nw_E w) (am_Address payload) (am_Amount payload)))
          (\<lambda>_. p_then (n_save w) (p_then (n_broadcastState w) (encode (NObj [(''status'', NStr ''registered'')]))))))"

definition n_stake :: node_handler where
  "n_stake A w r = only_post r
     (decoded (nj_amount (na_J A)) r (\<lambda>payload.
        p_then (n_do (node_Stake (nw_E w) (am_Address payload) (am_Amount payload)))
       (p_then (n_save w) (p_then (n_broadcastState w)
         (encode (NObj [(''address'', NStr (am_Address payload)), (''amount'', NNum (am_Amount payload))]))))))"

definition n_wallet :: node_handler where
  "n_wallet A w r = authorized (n_auth A r)
     (let address = wallet_Address (na_C A) (nw_wallet w) in
      p_then (n_do (node_AddAccount (nw_E w) address 1000 False))
     (p_then (n_save w) (p_then (n_broadcastState w)
       (encode (NObj [(''address'', NStr address), (''public_key'', NStr (EncodeToString (w_PublicKey (nw_wallet w))))])))))"

definition n_managed_wallets :: node_handler where
  "n_managed_wallets A w r = only_post r
     (decoded (nj_managed (na_J A)) r (\<lambda>(label, isAgent).
        or_fail StatusBadRequest (n_call (node_CreateManagedWallet (na_C A) (nw_E w) (nw_wallet w) label isAgent))
          (\<lambda>wallet. p_then (n_save w) (p_then (n_broadcastState w) (encode (NManaged wallet))))))"

text \<open>The first wallet with the label, in the order in which the map is visited.\<close>

fun label_address :: "string list \<Rightarrow> string \<Rightarrow> (string, ManagedWallet) fmap \<Rightarrow> string" where
  "label_address [] label m = []"
| "label_address (k # ks) label m =
     (case fmlookup m k of
        None \<Rightarrow> label_address ks label m
      | Some mw \<Rightarrow> if mw_Label mw = label then mw_Address mw else label_address ks label m)"

definition n_transfer_by_name :: node_handler where
  "n_transfer_by_name A w r = authorized (n_auth A r) (only_post r
     (decoded (nj_name (na_J A)) r (\<lambda>payload.
        if np_From payload = [] \<or> np_ToLabel payload = [] \<or> np_Amount payload = 0
        then http_Error StatusBadRequest ''missing from, to_label, or amount''
        else p_bind (n_read (\<lambda>n. label_address (nw_wallets w) (np_ToLabel payload) (nd_Wallets n))) (\<lambda>toAddr.
          if toAddr = [] then http_Error StatusNotFound ''wallet label not found''
          else p_bind (reads (\<lambda>s. nd_ChainID (nv_chain s))) (\<lambda>chainID.
            let tx = \<lparr>tx_ID = [], tx_From = np_From payload, tx_FromPubKey = np_FromPubKey payload, tx_To = toAddr, tx_Amount = np_Amount payload,
                  tx_Fee = np_Fee payload, tx_Nonce = 0, tx_TxType = Transfer, tx_Payload = [], tx_Signature = np_Signature payload,
                  tx_Timestamp = ne_nano (nw_E w), tx_ChainID = chainID\<rparr>
            in p_then (n_do (node_EnqueueTransaction (nw_E w) tx)) (p_then (n_save w) (p_then (n_broadcastTransaction w tx)
                 (encode (NObj [(''status'', NStr ''queued''), (''to'', NStr toAddr), (''to_label'', NStr (np_ToLabel payload)), (''amount'', NNum (np_Amount payload))])))))))))"

definition n_transfer :: node_handler where
  "n_transfer A w r = authorized (n_auth A r) (n_rate_limited w r (only_post r
     (decoded (nj_tx (na_J A)) r (\<lambda>payload.
        p_then (n_do (node_EnqueueTransaction (nw_E w) payload)) (p_then (n_save w) (p_then (n_broadcastTransaction w payload) (encode (NTx payload))))))))"

definition n_faucet :: node_handler where
  "n_faucet A w r = only_post r
     (decoded (nj_amount (na_J A)) r (\<lambda>payload.
        if am_Address payload = [] then http_Error StatusBadRequest ''missing address''
        else let amount = (if am_Amount payload = 0 then 1000 else am_Amount payload) in
          p_then (n_do (node_AddAccount (nw_E w) (am_Address payload) amount False))
         (p_then (n_save w) (p_then (n_broadcastState w)
         (p_bind (n_read (\<lambda>n. case fmlookup (nd_Ledger n) (am_Address payload) of None \<Rightarrow> 0 | Some acct \<Rightarrow> acct_Balance acct)) (\<lambda>balance.
            encode (NObj [(''address'', NStr (am_Address payload)), (''amount'', NNum amount), (''balance'', NNum balance)])))))))"

definition n_admin_mint :: node_handler where
  "n_admin_mint A w r = only_post r
     (decoded (nj_amount (na_J A)) r (\<lambda>payload.
        if am_Address payload = [] \<or> am_Amount payload = 0 then http_Error StatusBadRequest ''missing address or amount''
        else p_then Lock (p_bind (reads (\<lambda>s. nd_TokenSupply (nv_chain s))) (\<lambda>supply.
          if node_MaxSupply < supply + am_Amount payload
          then p_then Unlock (http_Error StatusBadRequest ''mint would exceed max supply'')
          else p_then (writes (\<lambda>s. nv_set (node_addAccountLocked (nw_E w) (am_Address payload) (am_Amount payload) False (nv_chain s)) s))
              (p_then (writes (\<lambda>s. nv_set ((nv_chain s)\<lparr>nd_TokenSupply := nd_TokenSupply (nv_chain s) + am_Amount payload\<rparr>) s))
              (p_then Unlock
              (p_then (n_save w) (p_then (n_broadcastState w)
                (encode (NObj [(''address'', NStr (am_Address payload)), (''amount'', NNum (am_Amount payload)), (''status'', NStr ''minted'')]))))))))))"

definition n_escrow :: node_handler where
  "n_escrow A w r = only_post r
     (decoded (nj_escrow (na_J A)) r (\<lambda>payload.
        or_fail StatusBadRequest (n_call (node_CreateEscrow (nw_E w) (ep_From payload) (ep_To payload) (ep_Amount payload) (ep_ServiceID payload)))
          (\<lambda>escrow. p_then (n_save w) (encode (NEscrow escrow)))))"

definition n_proposals :: node_handler where
  "n_proposals A w r = only_post r
     (decoded (nj_proposal (na_J A)) r (\<lambda>(title, description).
        or_fail StatusOK (n_call (\<lambda>n. case node_CreateProposal (nw_E w) title description n of (n, p) \<Rightarrow> (n, Ok p)))
          (\<lambda>proposal. p_then (n_save w) (encode (NProposal proposal)))))"

definition n_agreements :: node_handler where
  "n_agreements A w r = only_post r
     (decoded (nj_agreement (na_J A)) r (\<lambda>payload.
        or_fail StatusBadRequest
          (n_call (node_CreateServiceAgreement (nw_E w) (ag_Provider payload) (ag_Consumer payload) (ag_ModelID payload) (ag_PricePerCall payload) (ag_MaxCalls payload)))
          (\<lambda>agreement. p_then (n_save w) (encode (NAgreement agreement)))))"

definition n_usage :: node_handler where
  "n_usage A w r = only_post r
     (decoded (nj_usage (na_J A)) r (\<lambda>(agreementID, usageCount).
        or_fail StatusBadRequest (n_call (node_RecordUsage agreementID usageCount))
          (\<lambda>meter. p_then (n_save w) (encode (NMeter meter)))))"

section \<open>Routes\<close>

text \<open>The path of the metrics is a setting; registering a path twice would panic at the start.\<close>

definition node_routes :: "node_api \<Rightarrow> (string \<times> node_handler) list" where
  "node_routes A = [
     (''/health'', n_health), (''/api/chain'', n_chain), (''/api/audit'', n_audit), (''/api/monitoring'', n_monitoring), (''/api/mempool'', n_mempool),
     (''/api/transactions'', n_transactions), (''/api/mine'', n_mine), (''/api/miner/submit'', n_miner_submit), (''/api/validators'', n_validators),
     (''/api/validators/register'', n_validators_register), (''/api/bootstrap'', n_bootstrap), (''/api/registry'', n_registry), (''/api/accounts'', n_accounts),
     (''/api/account'', n_account), (''/api/stake'', n_stake), (''/api/wallet'', n_wallet), (''/api/managed-wallets'', n_managed_wallets), (''/api/wallets'', n_wallets),
     (''/api/transfer-by-name'', n_transfer_by_name), (''/api/transfer'', n_transfer), (''/api/tokenomics'', n_tokenomics), (''/api/token'', n_token),
     (''/api/faucet'', n_faucet), (''/api/admin/mint'', n_admin_mint), (''/api/escrow'', n_escrow), (''/api/proposals'', n_proposals),
     (''/api/agreements'', n_agreements), (''/api/usage'', n_usage), (cfg_MetricsPath (na_cfg A), n_metrics)]"

definition node_mux :: node_handler where
  "node_mux A w r = (case map_of (node_routes A) (rq_Path r) of Some h \<Rightarrow> h A w r | None \<Rightarrow> p_ret (ServedFile (rq_Path r)))"

definition startAPI :: node_handler where
  "startAPI A w r =
     (if rq_Method r \<in> {''POST'', ''PUT'', ''DELETE'', ''PATCH''} then authorized (n_auth A r) (node_mux A w r) else node_mux A w r)"

end
