(* ===== verification/Node_Api_Properties.thy ===== *)
theory Node_Api_Properties
  imports Node_Api
begin

text \<open>
  What the HTTP server of \<open>main.go\<close> guarantees: every request but one to mine leaves the lock of the chain free, and is answered when the peers it writes to take what is written; a request
  without the key changes nothing that the node accounts for; and what minting and the faucet do to an account that exists.
\<close>

section \<open>Requests are answered\<close>

lemma n_steady [lock_rules]: "steady (n_allow w k)" "steady (n_breaker w)" "steady (n_selectValidator w)"
  by (simp_all add: steady_def n_allow_def n_breaker_def n_selectValidator_def split: prod.splits)

lemmas n_releases [lock_rules] = n_steady [THEN releases_steady]

lemma n_methods_release [lock_rules]: "releases (n_call f)" "releases (n_do h)" "releases (n_read k)"
  unfolding n_call_def n_do_def n_read_def by (intro lock_rules; simp add: case_prod_unfold)+

lemma n_save_releases [lock_rules]: "releases (n_save w)"
  unfolding n_save_def by (intro lock_rules)

lemma n_rate_limited_releases [lock_rules]: "releases k \<Longrightarrow> releases (n_rate_limited w r k)"
  unfolding n_rate_limited_def by (intro lock_rules) auto

lemma pair_case_releases [lock_rules]: "releases (f (fst p) (snd p)) \<Longrightarrow> releases (case p of (a, b) \<Rightarrow> f a b)"
  by (simp add: case_prod_unfold)

text \<open>A request that broadcasts ends when no write to a peer stalls in the world it meets.\<close>

definition no_stall :: "node_world \<Rightarrow> bool" where
  "no_stall w \<longleftrightarrow> (\<forall>peer. net_write (nw_W w) peer \<noteq> Stalled)"

lemmas n_yields [lock_rules] = n_releases [THEN yields_releases] n_methods_release [THEN yields_releases] n_save_releases [THEN yields_releases]

lemma n_send_yields: "(c \<Longrightarrow> (\<And>p. snd (f p))) \<Longrightarrow> yields c (n_send f)"
  by (auto simp: yields_def n_send_def split: prod.splits) (metis snd_conv)

lemma n_broadcasts_yield [lock_rules]:
  "yields (no_stall w) (n_broadcastState w)" "yields (no_stall w) (n_broadcastBlock w b)" "yields (no_stall w) (n_broadcastTransaction w tx)"
  unfolding n_broadcastState_def n_broadcastBlock_def n_broadcastTransaction_def
  by (intro lock_rules n_send_yields broadcasts_end; simp add: no_stall_def)+

lemma n_rate_limited_yields [lock_rules]: "yields c k \<Longrightarrow> yields c (n_rate_limited w r k)"
  unfolding n_rate_limited_def by (intro lock_rules) auto

lemma pair_case_yields [lock_rules]: "yields c (f (fst p) (snd p)) \<Longrightarrow> yields c (case p of (a, b) \<Rightarrow> f a b)"
  by (simp add: case_prod_unfold)

text \<open>Sections that release the lock by an explicit call.\<close>

lemma read_section_releases:
  assumes "\<And>x. releases (k x)"
  shows "releases (p_then RLock (p_bind (reads f) (\<lambda>x. p_then RUnlock (k x))))"
proof (rule releases_freeI)
  fix v r g' assume "p_then RLock (p_bind (reads f) (\<lambda>x. p_then RUnlock (k x))) (free v) = (r, g')"
  then have "k (f v) (free v) = (r, g')"
    by (simp add: p_then_def p_bind_def RLock_def reads_def RUnlock_def runlock_def free_def)
  with assms show "r \<noteq> Blocked \<and> mu_free (g_mu g')" by (rule releases_freeD)
qed

lemma mint_section_yields:
  assumes "yields c k" "yields c k'"
  shows "yields c (p_then Lock (p_bind (reads f) (\<lambda>x. if t x then p_then Unlock k' else p_then (writes h1) (p_then (writes h2) (p_then Unlock k)))))"
proof (rule yields_freeI)
  fix v r g'
  assume "p_then Lock (p_bind (reads f) (\<lambda>x. if t x then p_then Unlock k' else p_then (writes h1) (p_then (writes h2) (p_then Unlock k)))) (free v) = (r, g')"
  then have "(if t (f v) then k' (free v) else k (free (h2 (h1 v)))) = (r, g')"
    by (simp add: p_then_def p_bind_def Lock_def reads_def writes_def Unlock_def unlock_def free_def mu_free_def split: if_splits)
  with yields_freeD [OF assms(1), of "h2 (h1 v)"] yields_freeD [OF assms(2), of v]
  show "(c \<longrightarrow> r \<noteq> Blocked) \<and> mu_free (g_mu g')" by (simp split: if_splits)
qed

lemmas node_handler_defs = n_health_def n_chain_def n_audit_def n_monitoring_def n_mempool_def n_transactions_def n_miner_submit_def
  n_validators_def n_validators_register_def n_bootstrap_def n_registry_def n_accounts_def n_account_def n_stake_def n_wallet_def n_managed_wallets_def
  n_transfer_by_name_def n_transfer_def n_tokenomics_def n_token_def n_faucet_def n_escrow_def n_proposals_def n_agreements_def n_usage_def n_metrics_def

lemma silent_handlers_release:
  "releases (n_health A w r)" "releases (n_chain A w r)" "releases (n_audit A w r)" "releases (n_monitoring A w r)" "releases (n_mempool A w r)"
  "releases (n_validators A w r)" "releases (n_bootstrap A w r)" "releases (n_registry A w r)" "releases (n_accounts A w r)" "releases (n_account A w r)"
  "releases (n_tokenomics A w r)" "releases (n_token A w r)" "releases (n_escrow A w r)" "releases (n_proposals A w r)"
  "releases (n_agreements A w r)" "releases (n_usage A w r)" "releases (n_metrics A w r)"
  unfolding node_handler_defs Let_def by (intro lock_rules; auto intro!: lock_rules split: option.splits)+

lemma n_wallets_releases: "releases (n_wallets A w r)"
  unfolding n_wallets_def by (rule read_section_releases releases_basic)+

lemma broadcasting_handlers_yield:
  "yields (no_stall w) (n_transactions A w r)" "yields (no_stall w) (n_miner_submit A w r)" "yields (no_stall w) (n_validators_register A w r)"
  "yields (no_stall w) (n_stake A w r)" "yields (no_stall w) (n_wallet A w r)" "yields (no_stall w) (n_managed_wallets A w r)"
  "yields (no_stall w) (n_transfer_by_name A w r)" "yields (no_stall w) (n_transfer A w r)" "yields (no_stall w) (n_faucet A w r)"
  unfolding node_handler_defs Let_def by (intro lock_rules; auto intro!: lock_rules split: option.splits)+

lemma n_admin_mint_yields: "yields (no_stall w) (n_admin_mint A w r)"
  unfolding n_admin_mint_def
  by (rule check_yields(1) check_yields(3) if_locks(4) mint_section_yields yields_basic lock_rules)+

text \<open>The paths whose handlers write to no peer.\<close>

definition silent_paths :: "string list" where
  "silent_paths = [''/health'', ''/api/chain'', ''/api/audit'', ''/api/monitoring'', ''/api/mempool'', ''/api/validators'', ''/api/bootstrap'', ''/api/registry'',
     ''/api/accounts'', ''/api/account'', ''/api/wallets'', ''/api/tokenomics'', ''/api/token'', ''/api/escrow'', ''/api/proposals'', ''/api/agreements'', ''/api/usage'']"

definition prompt_request :: "node_world \<times> http_request \<Rightarrow> bool" where
  "prompt_request = (\<lambda>(w, r). no_stall w \<or> rq_Path r \<in> set silent_paths)"

lemma startAPI_yields:
  assumes "rq_Path r \<noteq> ''/api/mine''"
  shows "yields (prompt_request (w, r)) (startAPI A w r)"
proof -
  let ?c = "prompt_request (w, r)"
  note silent = silent_handlers_release [THEN yields_releases] n_wallets_releases [THEN yields_releases]
  have "yields ?c (h A w r)" if "map_of (node_routes A) (rq_Path r) = Some h" for h
    using map_of_SomeD [OF that] assms
    by (auto simp: node_routes_def prompt_request_def silent_paths_def silent broadcasting_handlers_yield n_admin_mint_yields)
  then have "yields ?c (node_mux A w r)" by (auto simp: node_mux_def intro: lock_rules split: option.splits)
  then show ?thesis unfolding startAPI_def by (auto intro!: lock_rules)
qed

definition on_node_request :: "node_api \<Rightarrow> node_world \<times> http_request \<Rightarrow> (NodeServer guarded, node_value http_reply) proc" where
  "on_node_request A = (\<lambda>(w, r). startAPI A w r)"

interpretation node_answers: patient_server "on_node_request A" "\<lambda>(w, r). rq_Path r \<noteq> ''/api/mine''" prompt_request for A
  by unfold_locales (auto simp: on_node_request_def intro: startAPI_yields)

text \<open>C19. The HTTP server of the node answers: whatever requests were served before, none of them to mine, also ones that wait forever for a peer that does not take what is written to it, the next one
  returns or panics, which ends only that request, when the writes to peers that it meets return, or when its path is one of the seventeen whose handlers write to no peer. No request waits for the lock of the chain, and none
  keeps it. What is exchanged with the client and written to the disk is taken to return.\<close>

theorem node_requests_are_answered:
  assumes "list_all (\<lambda>(w, r). rq_Path r \<noteq> ''/api/mine'') rs" "rq_Path r \<noteq> ''/api/mine''"
    and "(\<forall>peer. net_write (nw_W w) peer \<noteq> Stalled) \<or> rq_Path r \<in> set silent_paths"
  shows "fst (startAPI A w r (serve_all (on_node_request A) rs (free (new_node_server (na_cfg A) p)))) \<noteq> Blocked \<and>
    mu_free (g_mu (serve_all (on_node_request A) rs (free (new_node_server (na_cfg A) p))))"
proof -
  have "prompt_request (w, r)" using assms(3) by (simp add: prompt_request_def no_stall_def)
  then show ?thesis
    using node_answers.answers_prompt [of rs "(w, r)" "free (new_node_server (na_cfg A) p)" A] node_answers.stays_open [of rs _ A] assms(1,2)
    by (simp add: on_node_request_def)
qed

text \<open>The condition is needed. Connections to peers have no deadline for writing: a trusted peer that is connected and does not read makes a request that broadcasts wait forever, after it has changed the ledger.\<close>

theorem stalled_peer_holds_request:
  assumes "rq_Method r = ''POST''" "rq_Path r = ''/api/stake''" "n_auth A r = Ok ()" "nj_amount (na_J A) (rq_Body r) = Ok payload"
    and "p_peers (nv_p2p s) = a # peers" "a \<noteq> []" "a \<noteq> p_addr (nv_p2p s)" "map_get False (p_trustedPeers (nv_p2p s)) a"
    and "a |\<in>| p_peerConns (nv_p2p s)" "net_alive (nw_W w) a" "net_write (nw_W w) a = Stalled"
  shows "fst (startAPI A w r (free s)) = Blocked"
proof -
  have "startAPI A w r = n_stake A w r" using assms(1-3) by (simp add: startAPI_def authorized_def node_mux_def node_routes_def)
  moreover have "snd (broadcastState (nw_W w) (nw_E w) (Some st) ((nv_p2p s)\<lparr>p_chain := n\<rparr>)) = False" for st n
    using assms(5-11) by (simp add: broadcastState_def broadcastMessage_def writePeer_def ensurePeerConn_def Let_def)
  ultimately show ?thesis
    using assms(1,4)
    by (simp add: n_stake_def only_post_def decoded_def p_then_def p_bind_def n_do_def n_save_def locked_def Lock_def free_def mu_free_def p_defer_def writes_def unlock_def
        n_broadcastState_def n_read_def rlocked_def RLock_def reads_def runlock_def n_send_def nv_set_def case_prod_unfold)
qed

section \<open>Requests without the key change nothing\<close>

text \<open>The node without the two fields of it that a reading request may change, the counter of the authorities and the metrics, and without the rate limiter and the circuit breaker of
  the HTTP server, which such requests change as well.\<close>

definition node_view :: "NodeServer \<Rightarrow> P2PNode" where
  "node_view s = (nv_p2p s)\<lparr>p_chain := (p_chain (nv_p2p s))\<lparr>nd_validatorIdx := 0, nd_metrics := None\<rparr>\<rparr>"

lemma node_view_set: "node_view (nv_set n s) = (nv_p2p s)\<lparr>p_chain := n\<lparr>nd_validatorIdx := 0, nd_metrics := None\<rparr>\<rparr>"
  by (simp add: node_view_def nv_set_def)

lemma selectValidator_view:
  "(fst (node_selectValidator K n))\<lparr>nd_validatorIdx := 0, nd_metrics := None\<rparr> = n\<lparr>nd_validatorIdx := 0, nd_metrics := None\<rparr>"
  by (simp add: node_selectValidator_def Let_def)

lemma n_keeps [keep_rules]:
  "keeps node_view (n_allow w k)" "keeps node_view (n_breaker w)" "keeps node_view (n_selectValidator w)" "keeps node_view (n_read f)"
proof -
  show "keeps node_view (n_allow w k)" "keeps node_view (n_breaker w)"
    by (simp_all add: keeps_def n_allow_def n_breaker_def node_view_def split: prod.splits)
  show "keeps node_view (n_selectValidator w)"
    unfolding keeps_def n_selectValidator_def case_prod_unfold
    by (simp add: node_view_set selectValidator_view) (simp add: node_view_def nv_chain_def)
  show "keeps node_view (n_read f)" unfolding n_read_def by (intro keep_rules)
qed

lemma n_rate_limited_keeps [keep_rules]: "keeps node_view k \<Longrightarrow> keeps node_view (n_rate_limited w r k)"
  unfolding n_rate_limited_def by (intro keep_rules) auto

lemma metrics_view: "node_view (nv_set ((nv_chain s)\<lparr>nd_metrics := m\<rparr>) s) = node_view s"
  by (simp add: node_view_def nv_set_def nv_chain_def)

lemma readers_keep:
  "keeps node_view (n_health A w r)" "keeps node_view (n_chain A w r)" "keeps node_view (n_audit A w r)" "keeps node_view (n_monitoring A w r)"
  "keeps node_view (n_mempool A w r)" "keeps node_view (n_validators A w r)" "keeps node_view (n_bootstrap A w r)" "keeps node_view (n_registry A w r)"
  "keeps node_view (n_accounts A w r)" "keeps node_view (n_account A w r)" "keeps node_view (n_wallets A w r)" "keeps node_view (n_tokenomics A w r)"
  "keeps node_view (n_token A w r)" "keeps node_view (n_metrics A w r)"
  unfolding node_handler_defs n_wallets_def Let_def
  by (intro keep_rules; auto intro!: keep_rules simp: metrics_view split: option.splits; simp add: node_view_def)+

text \<open>Without the key, a writing handler is not reached by a request with a method that writes, and refuses every other method.\<close>

lemma writers_keep:
  assumes "n_auth A r = Err e" "rq_Method r \<noteq> ''POST''"
  shows "keeps node_view (n_transactions A w r)" "keeps node_view (n_mine A w r)" "keeps node_view (n_miner_submit A w r)"
    "keeps node_view (n_validators_register A w r)" "keeps node_view (n_stake A w r)" "keeps node_view (n_wallet A w r)"
    "keeps node_view (n_managed_wallets A w r)" "keeps node_view (n_transfer_by_name A w r)" "keeps node_view (n_transfer A w r)"
    "keeps node_view (n_faucet A w r)" "keeps node_view (n_admin_mint A w r)" "keeps node_view (n_escrow A w r)" "keeps node_view (n_proposals A w r)"
    "keeps node_view (n_agreements A w r)" "keeps node_view (n_usage A w r)"
  using assms
  by (simp_all add: node_handler_defs n_mine_def n_admin_mint_def only_post_def authorized_def keep_rules)

lemma startAPI_keeps:
  assumes "n_auth A r = Err e"
  shows "keeps node_view (startAPI A w r)"
proof -
  have "keeps node_view (h A w r)" if "map_of (node_routes A) (rq_Path r) = Some h" "rq_Method r \<noteq> ''POST''" for h
    using map_of_SomeD [OF that(1)] assms that(2)
    by (auto simp: node_routes_def readers_keep writers_keep)
  then have "keeps node_view (node_mux A w r)" if "rq_Method r \<noteq> ''POST''"
    using that by (auto simp: node_mux_def intro: keep_rules split: option.splits)
  with assms show ?thesis unfolding startAPI_def by (auto simp: authorized_def intro: keep_rules)
qed

definition unauthorised :: "node_api \<Rightarrow> node_world \<times> http_request \<Rightarrow> bool" where
  "unauthorised A = (\<lambda>(w, r). \<exists>e. n_auth A r = Err e)"

interpretation node_quiet: guarded_server "on_node_request A" "unauthorised A" node_view for A
  by unfold_locales (auto simp: on_node_request_def unauthorised_def intro: startAPI_keeps)

text \<open>C17. No number of requests without the key, of whatever method and to whatever path, changes anything of the node but the counter of the
  authorities, the metrics, and the rate limiter and circuit breaker of the HTTP server: not the chain, the mempool, the ledger, the supply, a wallet or a file, nor the peers; and no
  message is sent to a peer.\<close>

theorem unauthorised_requests_change_nothing:
  assumes "list_all (\<lambda>(w, r). \<exists>e. requireAuth (na_utrim A) (rq_Authorization r) (na_cfg A) = Err e) rs"
  shows "node_view (g_val (serve_all (on_node_request A) rs g)) = node_view (g_val g)"
  using node_quiet.stays_unchanged [of A rs g] assms by (simp add: unauthorised_def)

section \<open>Minting and the faucet overwrite\<close>

lemma broadcast_loop_chain: "p_chain (fst (broadcast_loop W E m ps p)) = p_chain p"
proof (induction ps arbitrary: p)
  case (Cons a ps)
  then show ?case by (cases rule: broadcast_loop_step [of W E m a ps p]) (simp_all add: frame)
qed simp

lemma broadcastMessage_chain [frame]: "p_chain (fst (broadcastMessage W E m p)) = p_chain p"
  using broadcast_loop_chain [of W E "m\<lparr>msg_StreamID := FormatInt (ne_nano E) @ ''-'' @ fmt_nat (length (p_peers p))\<rparr>" "p_peers p" p]
  by (auto simp: broadcastMessage_def Let_def relayPush_def split: prod.splits bool.splits)

lemma broadcastState_chain [frame]: "p_chain (fst (broadcastState W E st p)) = p_chain p"
  by (simp add: broadcastState_def frame split: option.splits)

text \<open>\<open>addAccountLocked\<close> makes a new account under the address: minting to an address, or the faucet, replaces the balance that is there and forgets the
  stake, instead of adding to it.\<close>

theorem mint_overwrites_account:
  assumes "rq_Method r = ''POST''" "nj_amount (na_J A) (rq_Body r) = Ok payload" "am_Address payload \<noteq> []" "am_Amount payload \<noteq> 0"
  shows "fmlookup (nd_Ledger (nv_chain (g_val (snd (n_admin_mint A w r (free s)))))) (am_Address payload) =
    Some \<lparr>acct_Address = am_Address payload, acct_Balance = am_Amount payload, acct_Staked = 0, acct_IsAgent = False\<rparr>"
proof -
  have top: "\<not> node_MaxSupply < (x :: u64)" for x using unat_u64_lt [of x] by (simp add: node_MaxSupply_def not_less word_le_nat_alt)
  show ?thesis
    using assms top
    by (auto simp: n_admin_mint_def only_post_def decoded_def p_then_def p_bind_def Lock_def Unlock_def unlock_def reads_def writes_def p_ret_def free_def mu_free_def
        n_save_def saveToDiskSafe_def n_do_def locked_def p_defer_def n_broadcastState_def n_send_def n_read_def rlocked_def RLock_def runlock_def nv_set_def nv_chain_def
        node_addAccountLocked_def node_appendAuditEntry_def Let_def frame case_prod_unfold)
qed

section \<open>Examples\<close>

definition demo_node_json :: node_json where
  "demo_node_json = \<lparr>nj_tx = \<lambda>_. Err [], nj_block = \<lambda>_. Err [], nj_miner = \<lambda>_. Ok ''a'', nj_amount = \<lambda>_. Ok \<lparr>am_Address = ''a'', am_Amount = 7\<rparr>,
     nj_managed = \<lambda>_. Err [], nj_name = \<lambda>_. Err [], nj_escrow = \<lambda>_. Err [], nj_proposal = \<lambda>_. Err [], nj_agreement = \<lambda>_. Err [], nj_usage = \<lambda>_. Err []\<rparr>"

definition demo_node_api :: node_api where
  "demo_node_api = \<lparr>na_cfg = serverConfigFromEnv (\<lambda>s. s) (\<lambda>_. []), na_C = demo_crypto, na_J = demo_node_json, na_utrim = \<lambda>s. s\<rparr>"

definition demo_node_world :: node_world where
  "demo_node_world = \<lparr>nw_E = demo_node_env, nw_W = demo_net True, nw_K = \<lparr>nc_validators = [], nc_ledger = [], nc_pending = [], nc_rewards = [], nc_oor = \<lambda>_. 0\<rparr>,
     nw_wallets = [], nw_wallet = \<lparr>w_PublicKey = ''k'', w_PrivateKey = ''k''\<rparr>\<rparr>"

definition demo_node_request :: "string \<Rightarrow> string \<Rightarrow> http_request" where
  "demo_node_request m p = \<lparr>rq_Method = m, rq_Path = p, rq_RemoteAddr = ''c'', rq_Authorization = ''Bearer x'', rq_RequestID = [], rq_IdempotencyKey = [],
     rq_ContentLength = 0, rq_Body = ([], []), rq_Query = \<lambda>_. [], rq_ContextValidator = None\<rparr>"

text \<open>Two peers, the first of which never reads what is written to it.\<close>

definition demo_stalled_world :: node_world where
  "demo_stalled_world = demo_node_world\<lparr>nw_W := (demo_net True)\<lparr>net_write := (\<lambda>a. if a = ''p1'' then Stalled else Written)\<rparr>\<rparr>"

theorem node_requests_are_answered_witness:
  "fst (startAPI demo_node_api demo_stalled_world (demo_node_request ''GET'' ''/api/accounts'')
     (serve_all (on_node_request demo_node_api) [(demo_stalled_world, demo_node_request ''POST'' ''/api/stake'')]
       (free (new_node_server (na_cfg demo_node_api) demo_p2p)))) \<noteq> Blocked \<and>
   fst (startAPI demo_node_api demo_node_world (demo_node_request ''POST'' ''/api/stake'')
     (serve_all (on_node_request demo_node_api) [(demo_stalled_world, demo_node_request ''POST'' ''/api/stake'')]
       (free (new_node_server (na_cfg demo_node_api) demo_p2p)))) \<noteq> Blocked"
  using node_requests_are_answered [of "[(demo_stalled_world, demo_node_request ''POST'' ''/api/stake'')]" "demo_node_request ''GET'' ''/api/accounts''"
      demo_stalled_world demo_node_api demo_p2p]
    node_requests_are_answered [of "[(demo_stalled_world, demo_node_request ''POST'' ''/api/stake'')]" "demo_node_request ''POST'' ''/api/stake''"
      demo_node_world demo_node_api demo_p2p]
  by (simp add: demo_node_request_def silent_paths_def demo_node_world_def demo_net_def)

theorem stalled_peer_holds_request_witness:
  "fst (startAPI (demo_node_api\<lparr>na_cfg := (na_cfg demo_node_api)\<lparr>cfg_APIKey := ''x''\<rparr>\<rparr>) demo_stalled_world (demo_node_request ''POST'' ''/api/stake'')
     (free (new_node_server (na_cfg demo_node_api) (demo_p2p\<lparr>p_peerConns := {|''p1''|}\<rparr>)))) = Blocked"
proof -
  have "requireAuth (na_utrim demo_node_api) ''Bearer x'' ((na_cfg demo_node_api)\<lparr>cfg_APIKey := ''x''\<rparr>) = Ok ()"
    unfolding requireAuth_Ok_iff by (simp add: demo_node_api_def TrimSpace_def trim_ascii_def is_ascii_def is_space_def)
  then show ?thesis
    by (intro stalled_peer_holds_request [where a = "''p1''" and peers = "[''p2'']" and payload = "\<lparr>am_Address = ''a'', am_Amount = 7\<rparr>"])
      (simp_all add: demo_node_request_def demo_node_api_def demo_node_json_def new_node_server_def demo_p2p_def demo_stalled_world_def demo_node_world_def demo_net_def)
qed

theorem unauthorised_requests_change_nothing_witness:
  "node_view (g_val (serve_all (on_node_request demo_node_api) [(demo_node_world, demo_node_request ''POST'' ''/api/admin/mint'')]
       (free (new_node_server (na_cfg demo_node_api) demo_p2p)))) = node_view (new_node_server (na_cfg demo_node_api) demo_p2p)"
  using unauthorised_requests_change_nothing [of demo_node_api "[(demo_node_world, demo_node_request ''POST'' ''/api/admin/mint'')]"
      "free (new_node_server (na_cfg demo_node_api) demo_p2p)"]
  by (simp add: demo_node_api_def default_config_refuses)

theorem mint_overwrites_account_witness:
  "fmlookup (nd_Ledger (nv_chain (g_val (snd (n_admin_mint demo_node_api demo_node_world (demo_node_request ''POST'' ''/api/admin/mint'')
       (free (new_node_server (na_cfg demo_node_api) demo_p2p))))))) ''a'' =
     Some \<lparr>acct_Address = ''a'', acct_Balance = 7, acct_Staked = 0, acct_IsAgent = False\<rparr>"
  using mint_overwrites_account [of "demo_node_request ''POST'' ''/api/admin/mint''" demo_node_api "\<lparr>am_Address = ''a'', am_Amount = 7\<rparr>" demo_node_world]
  by (simp add: demo_node_api_def demo_node_json_def demo_node_request_def)

end
