(* ===== verification/Node_Main.thy ===== *)
theory Node_Main
  imports Node_Api_Properties Security Rosetta
begin

text \<open>
  The start of the node, \<open>main\<close> of \<open>main.go\<close>: the command line overrides the environment, the chain is made or loaded, the integrity check runs, and the peer
  node is set up with the peers it is given; then \<open>connectToPeers\<close>, which greets them. \<open>log.Fatal\<close> is an error. The embedded libp2p host is a parameter of
  the deployment and not started here.
\<close>

section \<open>Settings\<close>

record flags =
  fg_apiPort :: int
  fg_p2pPort :: int
  fg_peer :: string
  fg_bootstrapPeers :: string
  fg_dataDir :: string
  fg_consensus :: string
  fg_strictP2P :: bool
  fg_apiKey :: string
  fg_enableAuth :: bool
  fg_rateLimit :: int
  fg_chainID :: string
  fg_genesisPath :: string
  fg_p2pAdvertise :: string
  fg_relayURL :: string
  fg_nodeID :: string

definition override :: "bool \<Rightarrow> ('c \<Rightarrow> 'c) \<Rightarrow> 'c \<Rightarrow> 'c" where
  "override given set_it cfg = (if given then set_it cfg else cfg)"

text \<open>The flags that are given, one after the other.\<close>

definition apply_flags :: "(string \<Rightarrow> string) \<Rightarrow> flags \<Rightarrow> serverConfig \<Rightarrow> serverConfig" where
  "apply_flags ulower f = fold (\<lambda>step. step)
     [override (fg_apiPort f \<noteq> 0) (\<lambda>c. c\<lparr>cfg_APIPort := fg_apiPort f\<rparr>),
      override (fg_p2pPort f \<noteq> 0) (\<lambda>c. c\<lparr>cfg_P2PPort := fg_p2pPort f\<rparr>),
      override (fg_dataDir f \<noteq> []) (\<lambda>c. c\<lparr>cfg_DataDir := fg_dataDir f\<rparr>),
      override (fg_consensus f \<noteq> []) (\<lambda>c. c\<lparr>cfg_Consensus := ToLower ulower (fg_consensus f)\<rparr>),
      override (fg_strictP2P f) (\<lambda>c. c\<lparr>cfg_StrictP2P := True\<rparr>),
      override (fg_apiKey f \<noteq> []) (\<lambda>c. c\<lparr>cfg_APIKey := fg_apiKey f\<rparr>),
      override (fg_enableAuth f) (\<lambda>c. c\<lparr>cfg_EnableAuth := True\<rparr>),
      override (fg_rateLimit f \<noteq> 0) (\<lambda>c. c\<lparr>cfg_RateLimit := fg_rateLimit f\<rparr>),
      override (fg_p2pAdvertise f \<noteq> []) (\<lambda>c. c\<lparr>cfg_AdvertiseAddr := fg_p2pAdvertise f\<rparr>),
      override (fg_relayURL f \<noteq> []) (\<lambda>c. c\<lparr>cfg_RelayURL := fg_relayURL f\<rparr>),
      override (fg_nodeID f \<noteq> []) (\<lambda>c. c\<lparr>cfg_NodeID := fg_nodeID f\<rparr>)]"

text \<open>A step that does not touch a field keeps it.\<close>

lemma override_keep:
  "(\<And>c. cfg_EnableAuth (u c) = cfg_EnableAuth c) \<Longrightarrow> cfg_EnableAuth (override b u c) = cfg_EnableAuth c"
  "(\<And>c. cfg_APIKey (u c) = cfg_APIKey c) \<Longrightarrow> cfg_APIKey (override b u c) = cfg_APIKey c"
  "override True u c = u c" "override False u c = c"
  by (simp_all add: override_def)

text \<open>The command line can switch authorization on but not off, and its key wins over the one of the environment.\<close>

lemma apply_flags_auth:
  "cfg_EnableAuth (apply_flags ulower f c) \<longleftrightarrow> fg_enableAuth f \<or> cfg_EnableAuth c"
  "cfg_APIKey (apply_flags ulower f c) = (if fg_apiKey f \<noteq> [] then fg_apiKey f else cfg_APIKey c)"
  by (cases "fg_enableAuth f"; simp add: apply_flags_def override_keep) (cases "fg_apiKey f = []"; simp add: apply_flags_def override_keep)

text \<open>A list of peers: the parts between commas, trimmed, without the empty ones.\<close>

definition peer_list :: "(string \<Rightarrow> string) \<Rightarrow> string \<Rightarrow> string list" where
  "peer_list utrim s = filter (\<lambda>p. p \<noteq> []) (map (TrimSpace utrim) (split_at (CHR '','') s))"

definition initial_peers :: "(string \<Rightarrow> string) \<Rightarrow> flags \<Rightarrow> serverConfig \<Rightarrow> string list" where
  "initial_peers utrim f envCfg =
     (if fg_peer f \<noteq> [] then [fg_peer f] else []) @ (if fg_bootstrapPeers f \<noteq> [] then peer_list utrim (fg_bootstrapPeers f) else []) @
     (if cfg_BootstrapPeers envCfg \<noteq> [] then peer_list utrim (cfg_BootstrapPeers envCfg) else [])"

definition new_p2p :: "serverConfig \<Rightarrow> string list \<Rightarrow> Node \<Rightarrow> P2PNode" where
  "new_p2p envCfg peers chain = \<lparr>p_addr = ''0.0.0.0:'' @ FormatInt (word_of_int (cfg_P2PPort envCfg)), p_advertiseAddr = cfg_AdvertiseAddr envCfg, p_peers = peers,
     p_peerScores = fmempty, p_trustedPeers = fmempty, p_chain = chain, p_maxPeers = 50, p_strictMode = cfg_StrictP2P envCfg, p_seenMsgIDs = fmempty,
     p_peerConns = {||}, p_dialBackoff = fmempty, p_helloReplies = fmempty, p_relayURL = cfg_RelayURL envCfg, p_nodeID = cfg_NodeID envCfg,
     p_relayLastPull = 0, p_out = [], p_pushed = []\<rparr>"

text \<open>\<open>file\<close> is the content of the saved chain, if there is one, and \<open>genesis\<close> what reading the genesis file yields, if one is given; \<open>sec\<close> is \<open>GlobalSecurity\<close>.\<close>

definition node_main ::
  "crypto \<Rightarrow> node_env \<Rightarrow> (string \<Rightarrow> node_genesisFile go) \<Rightarrow> (string \<Rightarrow> string) \<Rightarrow> (string \<Rightarrow> string) \<Rightarrow> (string \<Rightarrow> string) \<Rightarrow> flags \<Rightarrow> string option \<Rightarrow> string go option \<Rightarrow>
   SecurityModule \<Rightarrow> (serverConfig \<times> P2PNode) go" where
  "node_main C E unjson ulower utrim osenv f file genesis sec =
     (let envCfg = apply_flags ulower f (serverConfigFromEnv ulower osenv) in
      if cfg_APIKey envCfg = [] then Err ''API key must be set via --api-key or TENDER_API_KEY env var''
      else let consensus = (if cfg_Consensus envCfg = ''poa'' then ProofOfAuthority else ProofOfStake);
               chain = node_NewBlockchain C E unjson consensus file (fg_chainID f) genesis
        in if getEnvBoolOrDefault osenv ''TENDER_SEALED_MODE'' True \<and> IsSealed sec \<and>
              \<not> VerifyIntegrity sec ''blockchain_state'' (StateRootSnapshotEquivalent C E chain)
           then Err ''sealed-mode integrity check failed''
           else Ok (envCfg, new_p2p envCfg (initial_peers utrim f envCfg) chain))"

section \<open>Greeting the peers\<close>

text \<open>The goroutines that \<open>connectToPeers\<close> starts, one after the other; the announcement to the local network is left out. A write that stalls holds up its own goroutine only.\<close>

fun node_connect_loop :: "net \<Rightarrow> node_env \<Rightarrow> p2pMessage \<Rightarrow> string list \<Rightarrow> P2PNode \<Rightarrow> P2PNode" where
  "node_connect_loop W E hello [] p = p"
| "node_connect_loop W E hello (peer # peers) p =
     (if peer = [] \<or> peer = p_addr p then node_connect_loop W E hello peers p
      else if p_maxPeers p < int (length (p_peers p)) then p
      else node_connect_loop W E hello peers (fst (writePeer W E peer hello p)))"

definition connectToPeers :: "net \<Rightarrow> node_env \<Rightarrow> string list \<Rightarrow> P2PNode \<Rightarrow> P2PNode" where
  "connectToPeers W E ks p =
     node_connect_loop W E (empty_message\<lparr>msg_Type := ''hello'', msg_From := p_addr p,
       msg_Peer := Some \<lparr>ni_Address = advertisedAddr p, ni_Peers = p_peers p, ni_ValidatorPubKey = node_selectValidatorPubKey ks (p_chain p), ni_Height = 0\<rparr>\<rparr>)
       (p_peers p) p"

section \<open>What a started node has\<close>

lemma node_main_Ok:
  assumes "node_main C E unjson ulower utrim osenv f file genesis sec = Ok (cfg, p)"
  shows "cfg = apply_flags ulower f (serverConfigFromEnv ulower osenv)" "cfg_APIKey cfg \<noteq> []" "p = new_p2p cfg (initial_peers utrim f cfg) (p_chain p)"
  using assms by (auto simp: node_main_def Let_def new_p2p_def split: if_splits)

text \<open>C18. A node that starts has a key. If authorization is not switched off by the environment, then whatever requests it receives that do not carry exactly
  this key, nothing of the node but the counter of the authorities, the metrics, and the rate limiter and circuit breaker of the HTTP server changes, from its first state on.\<close>

theorem started_node_is_protected:
  assumes "node_main C E unjson ulower utrim osenv f file genesis sec = Ok (cfg, p)"
    and "getEnvBoolOrDefault osenv ''TENDER_ENABLE_AUTH'' True"
    and "na_cfg A = cfg" "list_all (\<lambda>(w, r). TrimSpace (na_utrim A) (rq_Authorization r) \<noteq> ''Bearer '' @ cfg_APIKey cfg) rs"
  shows "cfg_APIKey cfg \<noteq> [] \<and>
    node_view (g_val (serve_all (on_node_request A) rs (free (new_node_server cfg p)))) = node_view (new_node_server cfg p)"
proof -
  note ok = node_main_Ok [OF assms(1)]
  have auth: "cfg_EnableAuth cfg" using assms(2) by (simp add: ok(1) apply_flags_auth serverConfigFromEnv_def)
  have "\<exists>e. requireAuth (na_utrim A) (rq_Authorization r) (na_cfg A) = Err e"
    if "TrimSpace (na_utrim A) (rq_Authorization r) \<noteq> ''Bearer '' @ cfg_APIKey cfg" for r :: http_request
    using that auth assms(3) requireAuth_Ok_iff [of "na_utrim A" "rq_Authorization r" cfg]
    by (auto simp: requireAuth_def Let_def split: if_splits)
  then have "list_all (unauthorised A) rs"
    using assms(4) by (auto simp: unauthorised_def list_all_iff)
  with ok(2) node_quiet.stays_unchanged [of A rs "free (new_node_server cfg p)"] show ?thesis by simp
qed

text \<open>The peers of a started node are the ones it is given, without blank entries and not limited in number; the message layer refuses greetings beyond 50 peers.\<close>

lemma initial_peers_nonempty: "x \<in> set (initial_peers utrim f cfg) \<Longrightarrow> x \<noteq> []"
  by (auto simp: initial_peers_def peer_list_def split: if_splits)

text \<open>More than 50 configured peers are never greeted at all: the test is on the length of the list, not on the connections made.\<close>

theorem too_many_peers_are_not_greeted:
  assumes "p_maxPeers p < int (length (p_peers p))"
  shows "p_out (connectToPeers W E ks p) = p_out p"
proof -
  have "p_maxPeers q < int (length (p_peers q)) \<Longrightarrow> p_out (node_connect_loop W E m ps q) = p_out q" for m ps q
    by (induction ps) auto
  with assms show ?thesis by (simp add: connectToPeers_def)
qed

section \<open>Example\<close>

definition demo_flags :: flags where
  "demo_flags = \<lparr>fg_apiPort = 0, fg_p2pPort = 0, fg_peer = ''b'', fg_bootstrapPeers = ''c, ,d'', fg_dataDir = [], fg_consensus = [], fg_strictP2P = False,
     fg_apiKey = ''secret'', fg_enableAuth = False, fg_rateLimit = 0, fg_chainID = ''main'', fg_genesisPath = [], fg_p2pAdvertise = [], fg_relayURL = [], fg_nodeID = []\<rparr>"

definition demo_start :: "(serverConfig \<times> P2PNode) go" where
  "demo_start = node_main demo_crypto demo_node_env (\<lambda>_. Err []) (\<lambda>s. s) (\<lambda>s. s) (\<lambda>_. []) demo_flags None None (NewSecurityModule demo_crypto)"

lemma demo_start_Ok: "\<exists>cfg p. demo_start = Ok (cfg, p) \<and> cfg_APIKey cfg = ''secret''"
  by (auto simp: demo_start_def node_main_def Let_def apply_flags_auth demo_flags_def VerifyIntegrity_def NewSecurityModule_def baselineIntegrity_def)

theorem started_node_is_protected_witness:
  "\<exists>cfg p. demo_start = Ok (cfg, p) \<and>
    node_view (g_val (serve_all (on_node_request (demo_node_api\<lparr>na_cfg := cfg\<rparr>)) [(demo_node_world, demo_node_request ''POST'' ''/api/admin/mint'')]
      (free (new_node_server cfg p)))) = node_view (new_node_server cfg p)"
proof -
  obtain cfg p where start: "demo_start = Ok (cfg, p)" "cfg_APIKey cfg = ''secret''" using demo_start_Ok by blast
  let ?A = "demo_node_api\<lparr>na_cfg := cfg\<rparr>" and ?rs = "[(demo_node_world, demo_node_request ''POST'' ''/api/admin/mint'')]"
  have "list_all (\<lambda>(w, r). TrimSpace (na_utrim ?A) (rq_Authorization r) \<noteq> ''Bearer '' @ cfg_APIKey cfg) ?rs"
    by (simp add: start(2) demo_node_request_def TrimSpace_def is_ascii_def trim_ascii_def is_space_def)
  moreover have "getEnvBoolOrDefault (\<lambda>_. []) ''TENDER_ENABLE_AUTH'' True" "na_cfg ?A = cfg" by (simp_all add: getEnvBoolOrDefault_def)
  ultimately have "node_view (g_val (serve_all (on_node_request ?A) ?rs (free (new_node_server cfg p)))) = node_view (new_node_server cfg p)"
    using started_node_is_protected [OF start(1) [unfolded demo_start_def]] by blast
  with start(1) show ?thesis by blast
qed

end
