(* ===== verification/Tool_World.thy ===== *)
theory Tool_World
  imports Domain Http_Server
begin

text \<open>
  What the command-line tools share: files with their permissions, and an HTTP client. The content of a file and the body of a
  request are values of a type of the tool; the JSON encoding of a value stands for the value, and decoders are arguments.
\<close>

section \<open>Files\<close>

text \<open>A file has a content and a mode. \<open>os.WriteFile\<close> gives the mode to a file it makes and keeps the mode of one that exists. \<open>fault\<close>
  says which writes fail, with the content that the failed write leaves, if it got that far.\<close>

type_synonym 'c files = "(string, 'c \<times> nat) fmap"
type_synonym 'c faults = "string \<Rightarrow> ('c option \<times> string) option"

definition put_file :: "string \<Rightarrow> 'c \<Rightarrow> nat \<Rightarrow> 'c files \<Rightarrow> 'c files" where
  "put_file path c perm fs = fmupd path (c, case fmlookup fs path of None \<Rightarrow> perm | Some (_, mode) \<Rightarrow> mode) fs"

definition WriteFile :: "'c faults \<Rightarrow> string \<Rightarrow> 'c \<Rightarrow> nat \<Rightarrow> 'c files \<Rightarrow> 'c files \<times> unit go" where
  "WriteFile fault path c perm fs =
     (case fault path of
        None \<Rightarrow> (put_file path c perm fs, Ok ())
      | Some (None, e) \<Rightarrow> (fs, Err e)
      | Some (Some rest, e) \<Rightarrow> (put_file path rest perm fs, Err e))"

definition ReadFile :: "string \<Rightarrow> 'c files \<Rightarrow> 'c go" where
  "ReadFile path fs = (case fmlookup fs path of None \<Rightarrow> Err (''open '' @ path @ '': no such file or directory'') | Some (c, _) \<Rightarrow> Ok c)"

text \<open>The modes \<open>0o600\<close> and \<open>0o644\<close>, and the modes that let every user read.\<close>

abbreviation mode_600 :: nat where "mode_600 \<equiv> 384"
abbreviation mode_644 :: nat where "mode_644 \<equiv> 420"

definition world_readable :: "nat \<Rightarrow> bool" where
  "world_readable mode \<longleftrightarrow> odd (mode div 4)"

lemma put_file_lookup [simp]:
  "fmlookup (put_file path c perm fs) q = (if q = path then Some (c, case fmlookup fs path of None \<Rightarrow> perm | Some (_, mode) \<Rightarrow> mode) else fmlookup fs q)"
  by (simp add: put_file_def)

lemma ReadFile_WriteFile: "WriteFile fault path c perm fs = (fs', Ok ()) \<Longrightarrow> ReadFile path fs' = Ok c"
  by (auto simp: WriteFile_def ReadFile_def split: option.splits)

lemma WriteFile_frame: "WriteFile fault path c perm fs = (fs', r) \<Longrightarrow> q \<noteq> path \<Longrightarrow> fmlookup fs' q = fmlookup fs q"
  by (auto simp: WriteFile_def split: option.splits)

section \<open>Paths\<close>

text \<open>\<open>filepath.Join\<close>: the elements that are not empty, joined by slashes and cleaned. Cleaning drops empty and \<open>.\<close> elements and resolves \<open>..\<close> against
  the element before it.\<close>

fun split_path :: "string \<Rightarrow> string list" where
  "split_path [] = [[]]"
| "split_path (c # cs) = (if c = CHR ''/'' then [] # split_path cs else (case split_path cs of w # ws \<Rightarrow> (c # w) # ws | [] \<Rightarrow> [[c]]))"

definition clean_step :: "bool \<Rightarrow> string list \<Rightarrow> string \<Rightarrow> string list" where
  "clean_step rooted st w =
     (if w = [] \<or> w = ''.'' then st
      else if w = ''..'' then (if st \<noteq> [] \<and> last st \<noteq> ''..'' then butlast st else if rooted then st else st @ [w])
      else st @ [w])"

fun join_slash :: "string list \<Rightarrow> string" where
  "join_slash [] = []"
| "join_slash [w] = w"
| "join_slash (w # v # ws) = w @ CHR ''/'' # join_slash (v # ws)"

definition path_Clean :: "string \<Rightarrow> string" where
  "path_Clean p =
     (if p = [] then ''.''
      else let rooted = (hd p = CHR ''/'');
               out = join_slash (foldl (clean_step rooted) [] (split_path p))
        in if rooted then CHR ''/'' # out else if out = [] then ''.'' else out)"

definition path_Join :: "string list \<Rightarrow> string" where
  "path_Join elems = (let es = filter (\<lambda>e. e \<noteq> []) elems in if es = [] then [] else path_Clean (join_slash es))"

section \<open>HTTP clients\<close>

text \<open>A request of a client, and the network with the servers behind it: a state that a request may change. A request ends with a status
  and a body, or with an error. \<open>cl_bad_url\<close> is the error of \<open>http.NewRequest\<close>.\<close>

record 'b client_request =
  cr_Method :: string
  cr_URL :: string
  cr_Authorization :: string
  cr_Body :: "'b option"

record ('b, 'n) client =
  cl_bad_url :: "string \<Rightarrow> string option"
  cl_do :: "'b client_request \<Rightarrow> 'n \<Rightarrow> 'n \<times> (nat \<times> reader) go"

definition ReadAll :: "reader \<Rightarrow> string go" where
  "ReadAll rd = (if snd rd = [] then Ok (fst rd) else Err (snd rd))"

text \<open>A request with the key of the node, which is left out when it is empty.\<close>

definition bearer :: "string \<Rightarrow> string" where
  "bearer key = (if key = [] then [] else ''Bearer '' @ key)"

definition post :: "string \<Rightarrow> string \<Rightarrow> 'b \<Rightarrow> 'b client_request" where
  "post url key b = \<lparr>cr_Method = ''POST'', cr_URL = url, cr_Authorization = bearer key, cr_Body = Some b\<rparr>"

text \<open>\<open>http.Get\<close>.\<close>

definition http_Get :: "('b, 'n) client \<Rightarrow> string \<Rightarrow> 'n \<Rightarrow> 'n \<times> (nat \<times> reader) go" where
  "http_Get cl url n =
     (case cl_bad_url cl url of
        Some e \<Rightarrow> (n, Err e)
      | None \<Rightarrow> cl_do cl \<lparr>cr_Method = ''GET'', cr_URL = url, cr_Authorization = [], cr_Body = None\<rparr> n)"

text \<open>\<open>http.Post\<close>: no header but the type of the content.\<close>

definition http_Post :: "('b, 'n) client \<Rightarrow> string \<Rightarrow> 'b \<Rightarrow> 'n \<Rightarrow> 'n \<times> (nat \<times> reader) go" where
  "http_Post cl url b n = (case cl_bad_url cl url of Some e \<Rightarrow> (n, Err e) | None \<Rightarrow> cl_do cl (post url [] b) n)"

text \<open>A server as the network of a client. A request arrives with the path after the base address, the header and the encoded body; \<open>enc\<close> encodes bodies, \<open>dump\<close> what the
  server replies. A request that blocks ends with the timeout of the client, one that panics with a closed connection.\<close>

definition received_request :: "('b \<Rightarrow> string) \<Rightarrow> string \<Rightarrow> 'b client_request \<Rightarrow> http_request" where
  "received_request enc base cr = \<lparr>rq_Method = cr_Method cr, rq_Path = drop (length base) (cr_URL cr), rq_RemoteAddr = ''127.0.0.1'', rq_Authorization = cr_Authorization cr,
     rq_RequestID = [], rq_IdempotencyKey = [], rq_ContentLength = 0, rq_Body = (case cr_Body cr of Some b \<Rightarrow> (enc b, []) | None \<Rightarrow> ([], [])),
     rq_Query = (\<lambda>_. []), rq_ContextValidator = None\<rparr>"

fun answer_of :: "('v \<Rightarrow> string) \<Rightarrow> 'v http_reply outcome \<Rightarrow> (nat \<times> reader) go" where
  "answer_of dump (Returned (Failed code e)) = Ok (code, e, [])"
| "answer_of dump (Returned (Replied v)) = Ok (StatusOK, dump v, [])"
| "answer_of dump (Returned (ServedFile p)) = Ok (StatusOK, p, [])"
| "answer_of dump (Panicked e) = Err ''EOF''"
| "answer_of dump Blocked = Err ''Client.Timeout exceeded''"

definition server_client :: "(http_request \<Rightarrow> ('s, 'v http_reply) proc) \<Rightarrow> ('b \<Rightarrow> string) \<Rightarrow> ('v \<Rightarrow> string) \<Rightarrow> string \<Rightarrow> ('b, 's) client" where
  "server_client handle enc dump base = \<lparr>cl_bad_url = (\<lambda>_. None),
     cl_do = (\<lambda>cr s. case handle (received_request enc base cr) s of (x, s) \<Rightarrow> (s, answer_of dump x))\<rparr>"

text \<open>How a program ends: it returns, having printed lines; it exits with status 1 and a message; or it panics.\<close>

datatype tool_exit = Exit0 "string list" | Exit1 string | Crash string

text \<open>\<open>ed25519.Sign\<close> panics on a private key of the wrong size.\<close>

definition ed25519_Sign :: "crypto \<Rightarrow> string \<Rightarrow> string \<Rightarrow> string go" where
  "ed25519_Sign C sk m = (if length sk \<noteq> 64 then Panic ''ed25519: bad private key length'' else Ok (ed_sign C sk m))"

text \<open>A client that answers every request in the same way and records the requests, for concrete runs.\<close>

definition recording :: "(nat \<times> reader) go \<Rightarrow> ('b, 'b client_request list) client" where
  "recording answer = \<lparr>cl_bad_url = (\<lambda>_. None), cl_do = (\<lambda>r sent. (sent @ [r], answer))\<rparr>"

text \<open>Files of one directory with different plain names have different paths.\<close>

definition plain_name :: "string \<Rightarrow> bool" where
  "plain_name f \<longleftrightarrow> f \<notin> {[], ''.'', ''..''} \<and> CHR ''/'' \<notin> set f"

lemma split_path_nonempty: "split_path p \<noteq> []"
  by (cases p) (auto split: list.splits)

lemma split_path_file: "CHR ''/'' \<notin> set f \<Longrightarrow> split_path f = [f]"
  by (induction f) auto

lemma split_path_append: "CHR ''/'' \<notin> set f \<Longrightarrow> split_path (d @ CHR ''/'' # f) = split_path d @ [f]"
proof (induction d)
  case (Cons c d)
  obtain w ws where "split_path d = w # ws" using split_path_nonempty by (cases "split_path d") auto
  with Cons show ?case by simp
qed (simp add: split_path_file)

lemma join_slash_snoc: "join_slash (ws @ [f]) = (if ws = [] then f else join_slash ws @ CHR ''/'' # f)"
  by (induction ws rule: join_slash.induct) simp_all

lemma path_Join_file:
  assumes "d \<noteq> []" "plain_name f"
  shows "\<exists>p. path_Join [d, f] = p @ f \<and> (\<forall>f'. plain_name f' \<longrightarrow> path_Join [d, f'] = p @ f')"
proof -
  define rooted st where "rooted = (hd d = CHR ''/'')" and "st = foldl (clean_step rooted) [] (split_path d)"
  define p where "p = (if rooted then ''/'' else []) @ (if st = [] then [] else join_slash st @ ''/'')"
  have "path_Join [d, f'] = p @ f'" if f': "plain_name f'" for f'
  proof -
    have "foldl (clean_step rooted) [] (split_path (d @ CHR ''/'' # f')) = st @ [f']"
      using f' by (simp add: plain_name_def split_path_append clean_step_def st_def)
    then have "path_Clean (d @ CHR ''/'' # f') = p @ f'"
      using assms(1) f' by (cases rooted) (simp_all add: path_Clean_def rooted_def [symmetric] p_def Let_def join_slash_snoc plain_name_def)
    then show ?thesis using assms(1) f' by (simp add: path_Join_def plain_name_def)
  qed
  with assms(2) show ?thesis by blast
qed

lemma path_Join_inj: "d \<noteq> [] \<Longrightarrow> plain_name f \<Longrightarrow> plain_name f' \<Longrightarrow> path_Join [d, f] = path_Join [d, f'] \<longleftrightarrow> f = f'"
  using path_Join_file by (metis same_append_eq)

end
