(* ===== verification/Wallet_Tool.thy ===== *)
theory Wallet_Tool
  imports Tool_World Node_Rules
begin

text \<open>
  The wallet tool (\<open>tools/wallet/main.go\<close>): it makes key files, asks a node for balances, and signs and sends payments. Its struct
  \<open>Transaction\<close> has the fields of the one of the node. Strings that only appear in what the tool prints about a time are arguments.
\<close>

section \<open>The tool\<close>

record WalletFile =
  wf_PublicKey :: string
  wf_PrivateKey :: string
  wf_Address :: string
  wf_Label :: string
  wf_CreatedAt :: string

type_synonym tool_Transaction = Transaction

record AccountInfo =
  ai_Address :: string
  ai_Balance :: u64
  ai_Staked :: u64
  ai_IsAgent :: bool
  ai_NextNonce :: u64

text \<open>The JSON encodings: of a wallet file, and the two structs that the answer of \<open>/api/account\<close> is decoded into.\<close>

record 'c wallet_json =
  wj_encode :: "WalletFile \<Rightarrow> 'c"
  wj_decode :: "'c \<Rightarrow> WalletFile go"
  wj_account :: "string \<Rightarrow> AccountInfo go"
  wj_nonce :: "string \<Rightarrow> u64 go"

definition defaultAPI :: string where "defaultAPI = ''http://localhost:8080''"
definition defaultChainID :: string where "defaultChainID = ''tdr-mainnet-1''"

definition createWallet :: "crypto \<Rightarrow> 'c wallet_json \<Rightarrow> 'c faults \<Rightarrow> (string \<times> string) go \<Rightarrow> string \<Rightarrow> string \<Rightarrow> 'c files \<Rightarrow> 'c files \<times> tool_exit" where
  "createWallet C J fault key now label fs =
     (case key of
        Err e \<Rightarrow> (fs, Exit1 (''error generating key: '' @ e))
      | Panic e \<Rightarrow> (fs, Crash e)
      | Ok (pub, priv) \<Rightarrow>
          (let addr = EncodeToString (sha256 C pub);
               wallet = \<lparr>wf_PublicKey = EncodeToString pub, wf_PrivateKey = EncodeToString priv, wf_Address = addr, wf_Label = label, wf_CreatedAt = now\<rparr>;
               filename = ''tender-wallet-'' @ take 8 addr @ ''.json''
           in case WriteFile fault filename (wj_encode J wallet) mode_600 fs of
                (fs, Ok _) \<Rightarrow> (fs, Exit0 [''=== TENDER Wallet Created ==='', ''  Address:    '' @ addr, ''  Public Key: '' @ EncodeToString pub,
                   ''  File:       '' @ filename, [], ''IMPORTANT: Back up this file. It contains your private key.'', ''Never share it with anyone.''])
              | (fs, Err e) \<Rightarrow> (fs, Exit1 (''error saving wallet: '' @ e))
              | (fs, Panic e) \<Rightarrow> (fs, Crash e)))"

text \<open>Both commands that read a wallet file start in the same way.\<close>

definition with_wallet :: "'c wallet_json \<Rightarrow> string \<Rightarrow> 'c files \<Rightarrow> (WalletFile \<Rightarrow> 'a \<times> tool_exit) \<Rightarrow> 'a \<Rightarrow> 'a \<times> tool_exit" where
  "with_wallet J filename fs k s =
     (case ReadFile filename fs of
        Err e \<Rightarrow> (s, Exit1 (''error reading wallet: '' @ e))
      | Panic e \<Rightarrow> (s, Crash e)
      | Ok data \<Rightarrow> (case wj_decode J data of Err e \<Rightarrow> (s, Exit1 (''error parsing wallet: '' @ e)) | Panic e \<Rightarrow> (s, Crash e) | Ok wallet \<Rightarrow> k wallet))"

definition showWallet :: "'c wallet_json \<Rightarrow> string \<Rightarrow> 'c files \<Rightarrow> tool_exit" where
  "showWallet J filename fs = snd (with_wallet J filename fs (\<lambda>wallet. ((),
     Exit0 [''=== TENDER Wallet ==='', ''  Address:    '' @ wf_Address wallet, ''  Public Key: '' @ wf_PublicKey wallet, ''  Private Key: '' @ wf_PrivateKey wallet,
       ''  Label:      '' @ wf_Label wallet, ''  Created:    '' @ wf_CreatedAt wallet])) ())"

definition formatTender :: "u64 \<Rightarrow> string" where
  "formatTender amount =
     (let tender = amount div HogohogoPerTender;
          hogohogo = amount mod HogohogoPerTender
      in FormatUint tender @ ''.'' @ fmt_padded 8 hogohogo @ '' TDR'')"

text \<open>The request for an account, up to the status 200. \<open>what\<close> names the response in an error.\<close>

definition ask_account :: "('b, 'n) client \<Rightarrow> string \<Rightarrow> string \<Rightarrow> string \<Rightarrow> 'a \<Rightarrow> (string \<Rightarrow> tool_exit + 'a) \<Rightarrow> 'n \<Rightarrow> 'n \<times> (tool_exit + 'a)" where
  "ask_account cl apiURL address what missing k n =
     (case http_Get cl (apiURL @ ''/api/account?address='' @ address) n of
        (n, Err e) \<Rightarrow> (n, Inl (Exit1 (''error connecting to node at '' @ apiURL @ '': '' @ e)))
      | (n, Panic e) \<Rightarrow> (n, Inl (Crash e))
      | (n, Ok (status, rd)) \<Rightarrow> (n,
          case ReadAll rd of
            Err e \<Rightarrow> Inl (Exit1 (''error reading '' @ what @ '': '' @ e))
          | Panic e \<Rightarrow> Inl (Crash e)
          | Ok b \<Rightarrow>
              (if status = StatusNotFound then Inr missing
               else if status \<noteq> StatusOK then Inl (Exit1 (''error from node ('' @ fmt_nat status @ ''): '' @ b))
               else k b)))"

definition account_lines :: "string \<Rightarrow> AccountInfo \<Rightarrow> string list" where
  "account_lines address acct =
     [''Address:    '' @ address, ''Balance:    '' @ formatTender (ai_Balance acct), ''Staked:     '' @ formatTender (ai_Staked acct),
      ''Is Agent:   '' @ fmt_bool (ai_IsAgent acct), ''Next Nonce: '' @ FormatUint (ai_NextNonce acct)]"

definition balanceWallet :: "'c wallet_json \<Rightarrow> ('b, 'n) client \<Rightarrow> string \<Rightarrow> string \<Rightarrow> 'n \<Rightarrow> 'n \<times> tool_exit" where
  "balanceWallet J cl apiURL address n =
     (case ask_account cl apiURL address ''response'' [''Address '' @ address @ '' has 0 TDR (not found on chain)'']
        (\<lambda>b. case wj_account J b of
           Ok acct \<Rightarrow> Inr (account_lines address acct)
         | Err e \<Rightarrow> Inl (Exit1 (''error parsing account: '' @ e)) | Panic e \<Rightarrow> Inl (Crash e)) n of
        (n, Inl x) \<Rightarrow> (n, x)
      | (n, Inr ls) \<Rightarrow> (n, Exit0 ls))"

definition fetchNextNonce :: "'c wallet_json \<Rightarrow> ('b, 'n) client \<Rightarrow> string \<Rightarrow> string \<Rightarrow> 'n \<Rightarrow> 'n \<times> (tool_exit + u64)" where
  "fetchNextNonce J cl apiURL address =
     ask_account cl apiURL address ''nonce response'' 0
       (\<lambda>b. case wj_nonce J b of Ok v \<Rightarrow> Inr v | Err e \<Rightarrow> Inl (Exit1 (''error parsing nonce: '' @ e)) | Panic e \<Rightarrow> Inl (Crash e))"

definition canonicalBytes :: "tool_Transaction \<Rightarrow> string" where
  "canonicalBytes tx =
     concat [tx_ChainID tx, [zero_byte], tx_From tx, [zero_byte], tx_FromPubKey tx, [zero_byte], tx_To tx, [zero_byte],
       FormatUint (tx_Amount tx), [zero_byte], FormatUint (tx_Fee tx), [zero_byte], FormatUint (tx_Nonce tx), [zero_byte],
       tx_TxType tx, [zero_byte], tx_Payload tx, [zero_byte], FormatInt (tx_Timestamp tx)]"

text \<open>The transaction that is sent.\<close>

definition signed_payment :: "crypto \<Rightarrow> i64 \<Rightarrow> WalletFile \<Rightarrow> string \<Rightarrow> string \<Rightarrow> u64 \<Rightarrow> u64 \<Rightarrow> u64 \<Rightarrow> tool_Transaction go" where
  "signed_payment C now wallet priv toAddress hogohogoAmount fee nonce =
     (let tx = \<lparr>tx_ID = [], tx_From = wf_Address wallet, tx_FromPubKey = wf_PublicKey wallet, tx_To = toAddress, tx_Amount = hogohogoAmount,
            tx_Fee = fee, tx_Nonce = nonce, tx_TxType = ''TRANSFER'', tx_Payload = [], tx_Signature = [], tx_Timestamp = now, tx_ChainID = defaultChainID\<rparr>;
          payload = canonicalBytes tx
      in go_bind (ed25519_Sign C priv payload) (\<lambda>sig.
           Ok (tx\<lparr>tx_ID := EncodeToString (sha256 C payload), tx_Signature := EncodeToString sig\<rparr>)))"

text \<open>The last part: the request, and what the tool prints. The error of reading the answer is ignored.\<close>

definition submit_payment :: "(tool_Transaction, 'n) client \<Rightarrow> string \<Rightarrow> string \<Rightarrow> tool_Transaction \<Rightarrow> 'n \<Rightarrow> 'n \<times> tool_exit" where
  "submit_payment cl apiURL apiKey tx n =
     (let url = apiURL @ ''/api/transactions'' in
      case cl_bad_url cl url of
        Some e \<Rightarrow> (n, Exit1 (''error building request: '' @ e))
      | None \<Rightarrow>
          (case cl_do cl (post url apiKey tx) n of
             (n, Err e) \<Rightarrow> (n, Exit1 (''error submitting transaction: '' @ e))
           | (n, Panic e) \<Rightarrow> (n, Crash e)
           | (n, Ok (status, rd)) \<Rightarrow> (n,
               if status \<noteq> StatusOK then Exit1 (''transaction rejected ('' @ fmt_nat status @ ''): '' @ fst rd)
               else Exit0 [''=== Transaction Sent ==='', ''  From:    '' @ tx_From tx, ''  To:      '' @ tx_To tx, ''  Amount:  '' @ formatTender (tx_Amount tx),
                      ''  Nonce:   '' @ FormatUint (tx_Nonce tx), ''  Tx ID:   '' @ tx_ID tx, ''  Status:  accepted''])))"

definition sendTransaction :: "crypto \<Rightarrow> 'c wallet_json \<Rightarrow> (tool_Transaction, 'n) client \<Rightarrow> i64 \<Rightarrow> 'c files \<Rightarrow>
    string \<Rightarrow> string \<Rightarrow> string \<Rightarrow> u64 \<Rightarrow> u64 \<Rightarrow> string \<Rightarrow> 'n \<Rightarrow> 'n \<times> tool_exit" where
  "sendTransaction C J cl now fs apiURL walletFile toAddress amount fee apiKey n =
     with_wallet J walletFile fs (\<lambda>wallet.
       case DecodeString (wf_PrivateKey wallet) of
         Err e \<Rightarrow> (n, Exit1 (''error decoding private key: '' @ e))
       | Panic e \<Rightarrow> (n, Crash e)
       | Ok priv \<Rightarrow>
           (case fetchNextNonce J cl apiURL (wf_Address wallet) n of
              (n, Inl x) \<Rightarrow> (n, x)
            | (n, Inr nonce) \<Rightarrow>
                (case signed_payment C now wallet priv toAddress (amount * HogohogoPerTender) fee nonce of
                   Ok tx \<Rightarrow> submit_payment cl apiURL apiKey tx n
                 | Err e \<Rightarrow> (n, Exit1 e)
                 | Panic e \<Rightarrow> (n, Crash e)))) n"

text \<open>The command line. \<open>args\<close> are the arguments after the name of the program; the tool changes files or the network, never both.
  The message of an error of \<open>strconv\<close> is a constant.\<close>

definition usage_lines :: "string list" where
  "usage_lines = [''TENDER Wallet Tool'', [], ''Usage:'',
     ''  tender-wallet create [label]             Create a new wallet'',
     ''  tender-wallet show <file>                Show wallet details'',
     ''  tender-wallet balance <address> [api]    Check balance of an address'',
     ''  tender-wallet send <file> <to> <amount> [api] [fee] [api-key]  Send TDR'', [],
     ''Environment:'',
     ''  TENDER_API_KEY                         API key for authenticated nodes'',
     ''  TENDER_API_URL                         Default node API URL (default http://localhost:8080)'', [],
     ''Examples:'',
     ''  tender-wallet create my-wallet'',
     ''  tender-wallet show tender-wallet-abcd1234.json'',
     ''  tender-wallet balance f7cddfdc...'',
     ''  tender-wallet send tender-wallet-abcd.json f7cddfdc... 100'']"

definition send_command :: "crypto \<Rightarrow> 'c wallet_json \<Rightarrow> (tool_Transaction, 'n) client \<Rightarrow> i64 \<Rightarrow> 'c files \<Rightarrow>
    string \<Rightarrow> string \<Rightarrow> string list \<Rightarrow> 'n \<Rightarrow> 'n \<times> tool_exit" where
  "send_command C J cl now fs apiURL apiKey args n =
     (if length args < 3 then (n, Exit1 ''usage: tender-wallet send <wallet-file> <to-address> <amount> [api-url] [fee] [api-key]'')
      else case ParseUint (args ! 2) of
        Inl _ \<Rightarrow> (n, Exit1 ''invalid amount'')
      | Inr amount \<Rightarrow>
          (let apiURL = (if 3 < length args then args ! 3 else apiURL);
               apiKey = (if 5 < length args then args ! 5 else apiKey)
           in case (if 4 < length args then ParseUint (args ! 4) else Inr 1) of
                Inl _ \<Rightarrow> (n, Exit1 ''invalid fee'')
              | Inr fee \<Rightarrow> sendTransaction C J cl now fs apiURL (args ! 0) (args ! 1) amount fee apiKey n))"

definition wallet_main :: "crypto \<Rightarrow> 'c wallet_json \<Rightarrow> 'c faults \<Rightarrow> (tool_Transaction, 'n) client \<Rightarrow> (string \<times> string) go \<Rightarrow> i64 \<Rightarrow> string \<Rightarrow>
    (string \<Rightarrow> string) \<Rightarrow> string list \<Rightarrow> 'c files \<times> 'n \<Rightarrow> ('c files \<times> 'n) \<times> tool_exit" where
  "wallet_main C J fault cl key now stamp getenv args s =
     (let (fs, n) = s;
          apiURL = (if getenv ''TENDER_API_URL'' = [] then defaultAPI else getenv ''TENDER_API_URL'');
          apiKey = getenv ''TENDER_API_KEY''
      in case args of
        [] \<Rightarrow> (s, Exit0 usage_lines)
      | cmd # rest \<Rightarrow>
         (if cmd = ''create'' then (case createWallet C J fault key stamp (if rest = [] then ''default'' else hd rest) fs of (fs, x) \<Rightarrow> ((fs, n), x))
          else if cmd = ''show'' then
            (s, if rest = [] then Exit1 ''usage: tender-wallet show <wallet-file>'' else showWallet J (hd rest) fs)
          else if cmd = ''balance'' then
            (if rest = [] then (s, Exit1 ''usage: tender-wallet balance <address> [api-url]'')
             else case balanceWallet J cl (if 1 < length rest then rest ! 1 else apiURL) (hd rest) n of (n, x) \<Rightarrow> ((fs, n), x))
          else if cmd = ''send'' then (case send_command C J cl now fs apiURL apiKey rest n of (n, x) \<Rightarrow> ((fs, n), x))
          else (s, Exit1 (''unknown command: '' @ cmd))))"

section \<open>Key files\<close>

lemma canonicalBytes_eq: "canonicalBytes tx = CanonicalSigningBytes tx"
  by (simp add: canonicalBytes_def CanonicalSigningBytes_def)

text \<open>A key file that \<open>createWallet\<close> has written reads back as the wallet of the key.\<close>

lemma createWallet_reads_back:
  assumes "createWallet C J fault (Ok (pub, priv)) now label fs = (fs', Exit0 out)" and "\<And>w. wj_decode J (wj_encode J w) = Ok w"
  shows "with_wallet J (''tender-wallet-'' @ take 8 (EncodeToString (sha256 C pub)) @ ''.json'') fs' k s =
    k \<lparr>wf_PublicKey = EncodeToString pub, wf_PrivateKey = EncodeToString priv, wf_Address = EncodeToString (sha256 C pub), wf_Label = label, wf_CreatedAt = now\<rparr>"
  using assms by (auto simp: createWallet_def with_wallet_def Let_def dest!: ReadFile_WriteFile split: prod.splits go.splits)

section \<open>Payments\<close>

text \<open>What a wallet of a key signs is a transaction that the node accepts as signed.\<close>

lemma signed_payment_ok:
  assumes "crypto_ok C" and "length priv = 64" and "pub = ed_public C priv"
    and w: "wf_PublicKey w = EncodeToString pub" "wf_Address w = EncodeToString (sha256 C pub)"
    and tx: "signed_payment C now w priv dest amt fee nonce = Ok tx"
  shows "VerifyTransaction C tx" "tx_From tx = wf_Address w" "tx_To tx = dest" "tx_Amount tx = amt" "tx_Fee tx = fee"
    "tx_Nonce tx = nonce" "tx_TxType tx = Transfer" "tx_ChainID tx = defaultChainID" "tx_Timestamp tx = now" "tx_ID tx \<noteq> []"
proof -
  have h: "length (sha256 C m) = 32" for m using assms(1) by (simp add: crypto_ok_def)
  then have id: "EncodeToString (sha256 C m) \<noteq> []" for m by (metis length_EncodeToString list.size(3) mult_is_0 zero_neq_numeral)
  show "VerifyTransaction C tx" "tx_From tx = wf_Address w" "tx_To tx = dest" "tx_Amount tx = amt" "tx_Fee tx = fee"
    "tx_Nonce tx = nonce" "tx_TxType tx = Transfer" "tx_ChainID tx = defaultChainID" "tx_Timestamp tx = now" "tx_ID tx \<noteq> []"
    using assms h id by (auto simp: signed_payment_def ed25519_Sign_def Let_def canonicalBytes_eq VerifyTransaction_def crypto_ok_def defaultChainID_def
        CanonicalSigningBytes_def)
qed

text \<open>When a node can take a payment: it is of its chain, has the next nonce of a sender that can pay, an identifier that is new, a time that
  is not too old, and a recipient that is known. Then it is queued as it was signed and passes the checks of the node.\<close>

definition can_pay :: "node_env \<Rightarrow> Transaction \<Rightarrow> Node \<Rightarrow> bool" where
  "can_pay E tx n \<longleftrightarrow>
     tx_ChainID tx = nd_ChainID n \<and> tx_Nonce tx = map_get 0 (nd_NextNonce n) (tx_From tx) \<and>
     (case fmlookup (nd_UsedNonces n) (tx_From tx) of None \<Rightarrow> True | Some used \<Rightarrow> tx_Nonce tx |\<notin>| used) \<and> tx_ID tx |\<notin>| nd_SeenTxIDs n \<and>
     tx_Timestamp tx \<noteq> 0 \<and> \<not> tx_expired E (tx_Timestamp tx) \<and> tx_Amount tx \<noteq> 0 \<and>
     (case fmlookup (nd_Ledger n) (tx_From tx) of None \<Rightarrow> False | Some acct \<Rightarrow> tx_Amount tx \<le> acct_Balance acct) \<and> has_key (nd_Ledger n) (tx_To tx)"

lemma signed_payment_enters_node:
  assumes "VerifyTransaction C tx" "tx_ID tx \<noteq> []" "tx_TxType tx = Transfer" "can_pay E tx n"
  shows "node_prepare_tx E tx n = tx" "node_validateTransaction C E tx n"
proof -
  show "node_prepare_tx E tx n = tx" using assms by (simp add: node_prepare_tx_def can_pay_def Let_def)
  have "\<not> node_isReplay tx n" using assms(4) by (auto simp: can_pay_def node_isReplay_def split: option.splits)
  then show "node_validateTransaction C E tx n"
    using assms by (auto simp: can_pay_def node_validateTransaction_def node_isAITransaction_def split: option.splits)
qed

lemma fetchNextNonce_error: "fetchNextNonce J cl url addr s \<noteq> (s', Inl (Exit0 lines))"
  by (auto simp: fetchNextNonce_def ask_account_def split: go.splits prod.splits if_splits)

lemma sendTransaction_sends:
  assumes "sendTransaction C J cl now fs url file dest amount fee key s = (s', Exit0 lines)"
    and "\<And>k. with_wallet J file fs k s = k w"
  obtains s1 priv nonce tx rd where "DecodeString (wf_PrivateKey w) = Ok priv" "fetchNextNonce J cl url (wf_Address w) s = (s1, Inr nonce)"
    "signed_payment C now w priv dest (amount * HogohogoPerTender) fee nonce = Ok tx"
    "cl_do cl (post (url @ ''/api/transactions'') key tx) s1 = (s', Ok (StatusOK, rd))"
  using assms by (auto simp: sendTransaction_def submit_payment_def Let_def fetchNextNonce_error split: go.splits prod.splits sum.splits option.splits if_splits)

lemma find_same_absent: "\<forall>p \<in> set ps. tx_ID p \<noteq> tx_ID tx \<Longrightarrow> find_same i ps tx = None"
  by (induction ps arbitrary: i) (auto simp: same_tx_def)

lemma signed_payment_is_queued:
  assumes "tx_ID tx \<noteq> []" "can_pay E tx n" "length (nd_Pending n) < 5000" "\<forall>p \<in> set (nd_Pending n). tx_ID p \<noteq> tx_ID tx"
  shows "nd_Pending (node_EnqueueTransaction E tx n) = nd_Pending n @ [tx]"
proof -
  have "node_prepare_tx E tx n = tx" using assms(1,2) by (simp add: node_prepare_tx_def can_pay_def Let_def)
  moreover have "\<not> node_isReplay tx n" using assms(2) by (auto simp: can_pay_def node_isReplay_def split: option.splits)
  ultimately show ?thesis
    using assms(3) find_same_absent [OF assms(4)] by (simp add: node_EnqueueTransaction_def Let_def frame)
qed

text \<open>C22. The wallet tool and the node agree on a payment. A key file made by \<open>createWallet\<close> from a key pair, and read back by the JSON decoder as it was written, can be used to pay: when \<open>sendTransaction\<close> reports
  success, the transaction it has posted carries the signature of that key over all its fields, the amount of the command line times \<open>10\<^sup>7\<close>, modulo \<open>2\<^sup>6\<^sup>4\<close>, and the nonce that the node
  has named. A node with which the sender is in good standing (\<open>can_pay\<close>) finds it valid, and when its mempool has room and holds no transaction of the same identifier, it appends the
  payment to it as it was signed. The factor is that of the package; the node of \<open>main.go\<close> itself counts \<open>10\<^sup>8\<close> base units in one unit.\<close>

theorem wallet_payment_is_valid:
  assumes "crypto_ok C" and "length priv = 64" and "\<And>w. wj_decode J (wj_encode J w) = Ok w"
    and made: "createWallet C J fault (Ok (ed_public C priv, priv)) stamp label fs = (fs', Exit0 out)"
    and sent: "sendTransaction C J cl now fs' url (''tender-wallet-'' @ take 8 (EncodeToString (sha256 C (ed_public C priv))) @ ''.json'')
      dest amount fee key s = (s', Exit0 lines)"
  shows "\<exists>s1 tx rd. fetchNextNonce J cl url (tx_From tx) s = (s1, Inr (tx_Nonce tx)) \<and>
    cl_do cl (post (url @ ''/api/transactions'') key tx) s1 = (s', Ok (StatusOK, rd)) \<and>
    tx_From tx = EncodeToString (sha256 C (ed_public C priv)) \<and> tx_To tx = dest \<and> unat (tx_Amount tx) = unat amount * 10 ^ 7 mod 2 ^ 64 \<and> tx_Fee tx = fee \<and>
    tx_ChainID tx = defaultChainID \<and> tx_Timestamp tx = now \<and> VerifyTransaction C tx \<and>
    (\<forall>E n. can_pay E tx n \<longrightarrow> node_validateTransaction C E tx n \<and>
      (length (nd_Pending n) < 5000 \<and> (\<forall>p \<in> set (nd_Pending n). tx_ID p \<noteq> tx_ID tx) \<longrightarrow>
        nd_Pending (node_EnqueueTransaction E tx n) = nd_Pending n @ [tx]))"
proof -
  define w where "w = \<lparr>wf_PublicKey = EncodeToString (ed_public C priv), wf_PrivateKey = EncodeToString priv,
    wf_Address = EncodeToString (sha256 C (ed_public C priv)), wf_Label = label, wf_CreatedAt = stamp\<rparr>"
  note reads = createWallet_reads_back [OF made assms(3), folded w_def]
  obtain s1 priv' nonce tx rd where *: "DecodeString (wf_PrivateKey w) = Ok priv'" "fetchNextNonce J cl url (wf_Address w) s = (s1, Inr nonce)"
    "signed_payment C now w priv' dest (amount * HogohogoPerTender) fee nonce = Ok tx"
    "cl_do cl (post (url @ ''/api/transactions'') key tx) s1 = (s', Ok (StatusOK, rd))"
    by (rule sendTransaction_sends [OF sent reads])
  have "priv' = priv" using *(1) by (simp add: w_def)
  then have "signed_payment C now w priv dest (amount * HogohogoPerTender) fee nonce = Ok tx" using *(3) by simp
  note ok = signed_payment_ok [OF assms(1,2) refl _ _ this, unfolded w_def, simplified]
  have "fetchNextNonce J cl url (tx_From tx) s = (s1, Inr (tx_Nonce tx))" using *(2) ok(2,6) by (simp add: w_def)
  moreover have "unat (tx_Amount tx) = unat amount * 10 ^ 7 mod 2 ^ 64"
    by (simp add: ok(4) HogohogoPerTender_def unat_word_ariths)
  ultimately show ?thesis using *(4) ok signed_payment_enters_node(2) [OF ok(1,10,7)] signed_payment_is_queued [OF ok(10)] by blast
qed

text \<open>A node at which the sender of a transaction has an account of 100 units and can use its nonce, and \<open>bob\<close> is known.\<close>

definition demo_payee :: "Transaction \<Rightarrow> Node" where
  "demo_payee tx = demo_main\<lparr>nd_ChainID := defaultChainID, nd_Pending := [], nd_SeenTxIDs := {||}, nd_UsedNonces := fmempty, nd_NextNonce := fmupd (tx_From tx) (tx_Nonce tx) fmempty,
     nd_Ledger := fmupd (tx_From tx) (demo_account (tx_From tx) 1000000000 0) (fmupd ''bob'' (demo_account ''bob'' 0 0) fmempty)\<rparr>"

lemma demo_payee_can_pay:
  assumes "tx_ChainID tx = defaultChainID" "tx_To tx = ''bob''" "unat (tx_Amount tx) = 20000000" "tx_Timestamp tx = 900"
  shows "can_pay demo_node_env tx (demo_payee tx)"
proof -
  have "tx_Amount tx = 20000000" using assms(3) by (simp add: word_unat_eq_iff)
  then show ?thesis using assms by (simp add: can_pay_def demo_payee_def demo_account_def tx_expired_def demo_node_env_def has_key_def)
qed

text \<open>A concrete run: the key file is written, and the node answers every request with status 200 and names the nonce 3.\<close>

definition demo_wallet_json :: "WalletFile wallet_json" where
  "demo_wallet_json = \<lparr>wj_encode = (\<lambda>w. w), wj_decode = Ok, wj_account = (\<lambda>_. Err []), wj_nonce = (\<lambda>_. Ok 3)\<rparr>"

lemma createWallet_succeeds: "\<exists>fs' out. createWallet C J (\<lambda>_. None) (Ok (pub, priv)) stamp label fs = (fs', Exit0 out)"
  by (simp add: createWallet_def WriteFile_def Let_def)

lemma sendTransaction_succeeds:
  assumes "\<And>k. with_wallet demo_wallet_json file fs k s = k w" and "DecodeString (wf_PrivateKey w) = Ok priv" and "length priv = 64"
  shows "\<exists>s' lines. sendTransaction C demo_wallet_json (recording (Ok (StatusOK, b, []))) now fs url file dest amount fee key s = (s', Exit0 lines)"
  using assms by (simp add: sendTransaction_def fetchNextNonce_def ask_account_def http_Get_def recording_def ReadAll_def demo_wallet_json_def
      signed_payment_def ed25519_Sign_def submit_payment_def Let_def)

theorem wallet_payment_is_valid_witness:
  "\<exists>fs' out s' lines s1 tx rd.
     createWallet demo_crypto demo_wallet_json (\<lambda>_. None) (Ok (ed_public demo_crypto (replicate 64 CHR ''k''), replicate 64 CHR ''k'')) ''now'' ''me'' fmempty = (fs', Exit0 out) \<and>
     sendTransaction demo_crypto demo_wallet_json (recording (Ok (StatusOK, ''ok'', []))) 900 fs' defaultAPI
       (''tender-wallet-'' @ take 8 (EncodeToString (sha256 demo_crypto (ed_public demo_crypto (replicate 64 CHR ''k'')))) @ ''.json'') ''bob'' 2 1 ''key'' [] = (s', Exit0 lines) \<and>
     cl_do (recording (Ok (StatusOK, ''ok'', []))) (post (defaultAPI @ ''/api/transactions'') ''key'' tx) s1 = (s', Ok (StatusOK, rd)) \<and>
     tx_To tx = ''bob'' \<and> unat (tx_Amount tx) = 20000000 \<and> VerifyTransaction demo_crypto tx \<and>
     nd_Pending (node_EnqueueTransaction demo_node_env tx (demo_payee tx)) = [tx]"
proof -
  let ?priv = "replicate 64 CHR ''k''"
  have J: "wj_decode demo_wallet_json (wj_encode demo_wallet_json w) = Ok w" for w by (simp add: demo_wallet_json_def)
  obtain fs' out where made: "createWallet demo_crypto demo_wallet_json (\<lambda>_. None) (Ok (ed_public demo_crypto ?priv, ?priv)) ''now'' ''me'' fmempty = (fs', Exit0 out)"
    using createWallet_succeeds by blast
  obtain s' lines where sent: "sendTransaction demo_crypto demo_wallet_json (recording (Ok (StatusOK, ''ok'', []))) 900 fs' defaultAPI
       (''tender-wallet-'' @ take 8 (EncodeToString (sha256 demo_crypto (ed_public demo_crypto ?priv))) @ ''.json'') ''bob'' 2 1 ''key'' [] = (s', Exit0 lines)"
    using sendTransaction_succeeds [OF createWallet_reads_back [OF made J], of ?priv] by fastforce
  from wallet_payment_is_valid [OF crypto_ok_demo _ J made sent] obtain s1 tx rd where
    tx: "cl_do (recording (Ok (StatusOK, ''ok'', []))) (post (defaultAPI @ ''/api/transactions'') ''key'' tx) s1 = (s', Ok (StatusOK, rd))"
      "tx_To tx = ''bob''" "unat (tx_Amount tx) = 20000000" "VerifyTransaction demo_crypto tx" "tx_ChainID tx = defaultChainID" "tx_Timestamp tx = 900"
    and queued: "\<And>E n. can_pay E tx n \<Longrightarrow> length (nd_Pending n) < 5000 \<Longrightarrow> \<forall>p \<in> set (nd_Pending n). tx_ID p \<noteq> tx_ID tx \<Longrightarrow>
      nd_Pending (node_EnqueueTransaction E tx n) = nd_Pending n @ [tx]"
    by auto
  have "nd_Pending (demo_payee tx) = []" by (simp add: demo_payee_def)
  then have "nd_Pending (node_EnqueueTransaction demo_node_env tx (demo_payee tx)) = [tx]"
    using queued [OF demo_payee_can_pay [OF tx(5,2,3,6)]] by simp
  with made sent tx(1-4) show ?thesis by blast
qed

section \<open>Amounts\<close>

text \<open>The amount on the command line is in whole units and is multiplied without a check: it is kept up to 1844674407370 units and wraps around
  above.\<close>

lemma payment_amount_exact:
  assumes "unat amount \<le> 1844674407370"
  shows "unat (amount * HogohogoPerTender) = unat amount * 10000000"
  using assms by (subst unat_mult_lem [THEN iffD1]) (simp_all add: HogohogoPerTender_def)

lemma payment_amount_wraps: "unat (1844674407371 * HogohogoPerTender) = 448384"
  by (simp add: HogohogoPerTender_def)

text \<open>A unit has \<open>10\<^sup>7\<close> parts and the fraction is printed with eight digits, so it reads as a tenth of its value: five parts are
  0.0000005 units.\<close>

lemma formatTender_misplaces: "formatTender 5 = ''0.00000005 TDR''"
  by (simp add: formatTender_def HogohogoPerTender_def fmt_padded_def FormatUint_def fmt_nat.simps [of 0] fmt_nat.simps [of 5] digit_def) code_simp

end
