(* ===== verification/Bridge_Relayer.thy ===== *)
theory Bridge_Relayer
  imports Tool_World
begin

text \<open>
  The bridge relayer (\<open>tools/bridge-relayer\<close>): an HTTP server that signs lock events and asks a node to mint (\<open>relayer.go\<close>), the adapter that talks to the
  node (\<open>token.go\<close>), the listener for events of the other chain (\<open>ethereum_listener.go\<close>), and the start (\<open>main.go\<close>).

  The value that the mutex of the relayer guards is the set of processed hashes. The record \<open>Bridge\<close> holds it together with the set of the
  listener, whose own mutex is taken by its one goroutine only and is free whenever it is taken, and the network \<open>'n\<close> that requests of the adapter change.
  A log of the other chain has the bytes of its data and those between the end of the slice and its capacity.
\<close>

section \<open>Data\<close>

record lockRequest =
  lr_TxHash :: string
  lr_From :: string
  lr_Amount :: u64
  lr_Recipient :: string

record mintRequest =
  mr_TxHash :: string
  mr_To :: string
  mr_Amount :: u64

record keyFile =
  kf_PublicKey :: string
  kf_PrivateKey :: string

record TokenAdapter =
  ta_nodeAPIBase :: string
  ta_nodeAPIKey :: string

record MintResult =
  ms_Address :: string
  ms_Amount :: u64
  ms_TxHash :: string
  ms_Timestamp :: i64

record relayer =
  ry_privKey :: string
  ry_pubKey :: string
  ry_pubHex :: string
  ry_tokenAdapter :: TokenAdapter
  ry_nodeAPIBase :: string
  ry_nodeAPIKey :: string

record 'n Bridge =
  br_processedHashes :: "string fset"
  br_processed :: "string fset"
  br_net :: 'n

datatype bridge_body = MintBody AmountPayload | BurnBody string string u64

type_synonym 'n bridge_client = "(bridge_body, 'n) client"
type_synonym 'n bridge_proc = "('n Bridge guarded, json http_reply) proc"

record relay_json =
  rj_lock :: "string \<Rightarrow> lockRequest go"
  rj_mint :: "string \<Rightarrow> mintRequest go"
  rj_result :: "reader \<Rightarrow> MintResult \<Rightarrow> MintResult"
  rj_object :: "string \<Rightarrow> json go"

section \<open>The token adapter\<close>

definition NewTokenAdapter :: "string \<Rightarrow> string \<Rightarrow> TokenAdapter" where
  "NewTokenAdapter nodeAPIBase nodeAPIKey = \<lparr>ta_nodeAPIBase = nodeAPIBase, ta_nodeAPIKey = nodeAPIKey\<rparr>"

text \<open>The requests of the adapter: the error of a bad address is passed on as it is, one of the transport after \<open>what\<close>.\<close>

definition adapter_post :: "'n bridge_client \<Rightarrow> TokenAdapter \<Rightarrow> string \<Rightarrow> string \<Rightarrow> bridge_body \<Rightarrow> 'n \<Rightarrow> 'n \<times> (nat \<times> reader) go" where
  "adapter_post cl a path what b n =
     (let url = ta_nodeAPIBase a @ path in
      case cl_bad_url cl url of
        Some e \<Rightarrow> (n, Err e)
      | None \<Rightarrow> (case cl_do cl (post url (ta_nodeAPIKey a) b) n of (n, Err e) \<Rightarrow> (n, Err (what @ e)) | (n, Ok x) \<Rightarrow> (n, Ok x) | (n, Panic e) \<Rightarrow> (n, Panic e)))"

definition faucet_hash :: "json \<Rightarrow> string" where
  "faucet_hash result =
     (case json_field result ''tx_id'' of
        Some (JStr h) \<Rightarrow> h
      | _ \<Rightarrow> (case json_field result ''tx_hash'' of Some (JStr h) \<Rightarrow> h | _ \<Rightarrow> []))"

text \<open>The callers do not use the result when there is an error.\<close>

definition mintViaFaucet :: "relay_json \<Rightarrow> 'n bridge_client \<Rightarrow> i64 \<Rightarrow> TokenAdapter \<Rightarrow> string \<Rightarrow> u64 \<Rightarrow> 'n \<Rightarrow> 'n \<times> MintResult go" where
  "mintViaFaucet J cl now a dest amount n =
     (case adapter_post cl a ''/api/faucet'' ''faucet mint failed: '' (MintBody \<lparr>am_Address = dest, am_Amount = amount\<rparr>) n of
        (n, Err e) \<Rightarrow> (n, Err e)
      | (n, Panic e) \<Rightarrow> (n, Panic e)
      | (n, Ok (status, rd)) \<Rightarrow> (n,
          if status \<noteq> StatusOK then Err (''faucet mint failed: '' @ fst rd)
          else case rj_object J (fst rd) of
            Ok result \<Rightarrow> Ok \<lparr>ms_Address = dest, ms_Amount = amount, ms_TxHash = faucet_hash result, ms_Timestamp = now\<rparr>
          | Err _ \<Rightarrow> Ok \<lparr>ms_Address = dest, ms_Amount = amount, ms_TxHash = [], ms_Timestamp = 0\<rparr>
          | Panic e \<Rightarrow> Panic e))"

definition Mint :: "relay_json \<Rightarrow> 'n bridge_client \<Rightarrow> i64 \<Rightarrow> TokenAdapter \<Rightarrow> string \<Rightarrow> u64 \<Rightarrow> 'n \<Rightarrow> 'n \<times> MintResult go" where
  "Mint J cl now a dest amount n =
     (let mintResult = \<lparr>ms_Address = dest, ms_Amount = amount, ms_TxHash = [], ms_Timestamp = now\<rparr> in
      case adapter_post cl a ''/api/admin/mint'' ''admin mint request failed: '' (MintBody \<lparr>am_Address = dest, am_Amount = amount\<rparr>) n of
        (n, Err e) \<Rightarrow> (n, Err e)
      | (n, Panic e) \<Rightarrow> (n, Panic e)
      | (n, Ok (status, rd)) \<Rightarrow>
          (if status = StatusOK \<or> status = StatusCreated then (n, Ok (rj_result J rd mintResult))
           else if status = StatusNotFound then mintViaFaucet J cl now a dest amount n
           else (n, Err (''admin mint failed: '' @ fst rd))))"

definition adapter_Burn :: "'n bridge_client \<Rightarrow> TokenAdapter \<Rightarrow> string \<Rightarrow> u64 \<Rightarrow> 'n \<Rightarrow> 'n \<times> unit go" where
  "adapter_Burn cl a src amount n =
     (case adapter_post cl a ''/api/transfer'' ''burn via transfer failed: '' (BurnBody src (replicate 64 (CHR ''0'')) amount) n of
        (n, Err e) \<Rightarrow> (n, Err e)
      | (n, Panic e) \<Rightarrow> (n, Panic e)
      | (n, Ok (status, rd)) \<Rightarrow> (n, if status \<noteq> StatusOK then Err (''burn via transfer failed: '' @ fst rd) else Ok ()))"

section \<open>The handlers\<close>

definition on_net :: "('n \<Rightarrow> 'n \<times> 'a go) \<Rightarrow> ('n Bridge guarded, string + 'a) proc" where
  "on_net f = body (\<lambda>s. case f (br_net s) of (n, r) \<Rightarrow> Some (s\<lparr>br_net := n\<rparr>, r))"

definition read_body :: "(string \<Rightarrow> 'a go) \<Rightarrow> http_request \<Rightarrow> ('a \<Rightarrow> ('s, 'v http_reply) proc) \<Rightarrow> ('s, 'v http_reply) proc" where
  "read_body dec = decoded (\<lambda>rd. go_bind (ReadAll rd) dec)"

definition lock_payload :: "lockRequest \<Rightarrow> string" where
  "lock_payload lr = lr_TxHash lr @ '':'' @ lr_From lr @ '':'' @ FormatUint (lr_Amount lr) @ '':'' @ lr_Recipient lr"

definition mint_payload :: "mintRequest \<Rightarrow> string" where
  "mint_payload mr = mr_TxHash mr @ '':'' @ mr_To mr @ '':'' @ FormatUint (mr_Amount mr)"

definition relay_sign :: "crypto \<Rightarrow> relayer \<Rightarrow> string \<Rightarrow> (string \<Rightarrow> ('s, 'a) proc) \<Rightarrow> ('s, 'a) proc" where
  "relay_sign C r payload k =
     (case ed25519_Sign C (ry_privKey r) (sha256 C payload) of Ok sig \<Rightarrow> k (EncodeToString sig) | Err e \<Rightarrow> p_panic e | Panic e \<Rightarrow> p_panic e)"

text \<open>The part that both handlers share: the test of the hash and its mark, under the lock.\<close>

definition if_new_hash :: "string \<Rightarrow> 'n bridge_proc \<Rightarrow> 'n bridge_proc" where
  "if_new_hash h k =
     p_then Lock (p_bind (reads (\<lambda>s. h |\<in>| br_processedHashes s)) (\<lambda>seen.
       if seen then p_then Unlock (encode (JObj [(''status'', JStr ''already_processed''), (''tx_hash'', JStr h)]))
       else p_then (writes (\<lambda>s. s\<lparr>br_processedHashes := finsert h (br_processedHashes s)\<rparr>)) (p_then Unlock k)))"

definition lock_complete :: "lockRequest \<Rightarrow> bool" where
  "lock_complete lr \<longleftrightarrow> \<not> (lr_TxHash lr = [] \<or> lr_From lr = [] \<or> lr_Amount lr = 0 \<or> lr_Recipient lr = [])"

definition mint_complete :: "mintRequest \<Rightarrow> bool" where
  "mint_complete mr \<longleftrightarrow> \<not> (mr_TxHash mr = [] \<or> mr_To mr = [] \<or> mr_Amount mr = 0)"

definition handleLock :: "crypto \<Rightarrow> relay_json \<Rightarrow> relayer \<Rightarrow> http_request \<Rightarrow> 'n bridge_proc" where
  "handleLock C J r req = only_post req (read_body (rj_lock J) req (\<lambda>lr.
     if \<not> lock_complete lr then http_Error StatusBadRequest ''missing required fields''
     else if_new_hash (lr_TxHash lr) (relay_sign C r (lock_payload lr) (\<lambda>signature.
       encode (JObj [(''status'', JStr ''lock_recorded''), (''tx_hash'', JStr (lr_TxHash lr)), (''from'', JStr (lr_From lr)), (''amount'', jnum (lr_Amount lr)),
         (''recipient'', JStr (lr_Recipient lr)), (''signature'', JStr signature)])))))"

definition result_json :: "MintResult \<Rightarrow> json" where
  "result_json m = JObj ([(''address'', JStr (ms_Address m)), (''amount'', jnum (ms_Amount m))] @
     (if ms_TxHash m = [] then [] else [(''tx_hash'', JStr (ms_TxHash m))]) @ [(''timestamp'', JNum (of_int (sint (ms_Timestamp m))))])"

definition handleMint :: "crypto \<Rightarrow> relay_json \<Rightarrow> 'n bridge_client \<Rightarrow> i64 \<Rightarrow> relayer \<Rightarrow> http_request \<Rightarrow> 'n bridge_proc" where
  "handleMint C J cl now r req = only_post req (read_body (rj_mint J) req (\<lambda>mr.
     if \<not> mint_complete mr then http_Error StatusBadRequest ''missing required fields''
     else if_new_hash (mr_TxHash mr) (relay_sign C r (mint_payload mr) (\<lambda>signature.
       p_bind (on_net (Mint J cl now (ry_tokenAdapter r) (mr_To mr) (mr_Amount mr))) (\<lambda>res.
         case res of
           Inl e \<Rightarrow> http_Error StatusInternalServerError (''mint failed: '' @ e)
         | Inr mintResult \<Rightarrow>
             encode (JObj [(''status'', JStr ''mint_executed''), (''tx_hash'', JStr (mr_TxHash mr)), (''to'', JStr (mr_To mr)), (''amount'', jnum (mr_Amount mr)),
               (''signature'', JStr signature), (''mint'', result_json mintResult)]))))))"

definition handleStatus :: "'n bridge_proc" where
  "handleStatus = p_then RLock (p_bind (reads (\<lambda>s. fcard (br_processedHashes s))) (\<lambda>count.
     p_then RUnlock (encode (JObj [(''processed_tx_hashes'', JNum (of_nat count))]))))"

definition handleHealth :: "string \<Rightarrow> 'n bridge_proc" where
  "handleHealth stamp = encode (JObj [(''status'', JStr ''ok''), (''timestamp'', JStr stamp)])"

text \<open>The requests that the server gets; \<open>now\<close> and \<open>stamp\<close> are the clock when the request runs. Any other path is not found.\<close>

record relay_event =
  re_request :: http_request
  re_now :: i64
  re_stamp :: string

definition relay_mux :: "crypto \<Rightarrow> relay_json \<Rightarrow> 'n bridge_client \<Rightarrow> relayer \<Rightarrow> relay_event \<Rightarrow> 'n bridge_proc" where
  "relay_mux C J cl r ev =
     (let req = re_request ev in
      if rq_Path req = ''/relay/lock'' then handleLock C J r req
      else if rq_Path req = ''/relay/mint'' then handleMint C J cl (re_now ev) r req
      else if rq_Path req = ''/relay/status'' then handleStatus
      else if rq_Path req = ''/relayer/health'' then handleHealth (re_stamp ev)
      else http_Error StatusNotFound ''404 page not found'')"

section \<open>The listener\<close>

record ethereumLockEvent =
  ev_TxHash :: string
  ev_Block :: u64
  ev_LogIndex :: u64
  ev_From :: string
  ev_To :: string
  ev_Amount :: u64
  ev_Recipient :: string

record eth_log =
  lg_TxHash :: string
  lg_BlockNumber :: u64
  lg_Index :: u64
  lg_Data :: string
  lg_Spare :: string

record ethereumListener =
  el_rpcURL :: string
  el_contract :: string
  el_topic :: string

text \<open>The functions of the package of the other chain: the text of a hash, the text of the address in a word of 32 bytes, and the addresses and hashes that
  texts denote. \<open>et_over\<close> is the result of \<open>big.Int.Uint64\<close> on a number that does not fit.\<close>

record eth =
  et_hash_Hex :: "string \<Rightarrow> string"
  et_address_Hex :: "string \<Rightarrow> string"
  et_HexToAddress :: "string \<Rightarrow> string"
  et_HexToHash :: "string \<Rightarrow> string"
  et_over :: "nat \<Rightarrow> u64"

definition newEthereumListener :: "(string \<Rightarrow> string) \<Rightarrow> string \<Rightarrow> ethereumListener go" where
  "newEthereumListener utrim rpcURL =
     (if TrimSpace utrim rpcURL = [] then Err ''missing TENDER_ETHEREUM_RPC_URL'' else Ok \<lparr>el_rpcURL = rpcURL, el_contract = [], el_topic = []\<rparr>)"

definition big_Uint64 :: "eth \<Rightarrow> string \<Rightarrow> u64" where
  "big_Uint64 T bs = (let v = foldl (\<lambda>acc c. acc * 256 + of_char c) (0 :: nat) bs in if v < 2 ^ 64 then of_nat v else et_over T v)"

text \<open>A slice expression reaches up to the capacity; beyond it, it panics.\<close>

definition decodeLockEvent :: "eth \<Rightarrow> eth_log \<Rightarrow> ethereumLockEvent go" where
  "decodeLockEvent T lg =
     (let data = lg_Data lg;
          word = (\<lambda>i. take 32 (drop i data));
          out = \<lparr>ev_TxHash = et_hash_Hex T (lg_TxHash lg), ev_Block = lg_BlockNumber lg, ev_LogIndex = lg_Index lg, ev_From = [], ev_To = [], ev_Amount = 0, ev_Recipient = []\<rparr>;
          out = (if 64 \<le> length data then out\<lparr>ev_From := et_address_Hex T (word 0), ev_To := et_address_Hex T (word 32)\<rparr> else out)
      in if 96 \<le> length data
         then if length data + length (lg_Spare lg) < 128 then Panic ''slice bounds out of range''
              else Ok (out\<lparr>ev_Recipient := et_address_Hex T (word 64), ev_Amount := big_Uint64 T (take 32 (drop 96 (data @ lg_Spare lg)))\<rparr>)
         else Ok out)"

text \<open>What happens when the node refuses to mint is only logged.\<close>

definition handleEthereumLock :: "relay_json \<Rightarrow> 'n bridge_client \<Rightarrow> i64 \<Rightarrow> relayer \<Rightarrow> ethereumLockEvent \<Rightarrow> 'n Bridge \<Rightarrow> 'n Bridge \<times> unit go" where
  "handleEthereumLock J cl now r event s =
     (case Mint J cl now (ry_tokenAdapter r) (ev_To event) (ev_Amount event) (br_net s) of
        (n, Panic e) \<Rightarrow> (s\<lparr>br_net := n\<rparr>, Panic e)
      | (n, _) \<Rightarrow> (s\<lparr>br_net := n\<rparr>, Ok ()))"

definition handleLog :: "eth \<Rightarrow> relay_json \<Rightarrow> 'n bridge_client \<Rightarrow> i64 \<Rightarrow> relayer \<Rightarrow> eth_log \<Rightarrow> 'n Bridge \<Rightarrow> 'n Bridge \<times> unit go" where
  "handleLog T J cl now r lg s =
     (if lg_TxHash lg |\<in>| br_processed s then (s, Ok ())
      else let s = s\<lparr>br_processed := finsert (lg_TxHash lg) (br_processed s)\<rparr> in
        case decodeLockEvent T lg of
          Err _ \<Rightarrow> (s, Ok ())
        | Panic e \<Rightarrow> (s, Panic e)
        | Ok event \<Rightarrow>
            (let event = (if ev_Recipient event = [] then event\<lparr>ev_Recipient := ev_From event\<rparr> else event)
             in handleEthereumLock J cl now r event s))"

text \<open>The loop of \<open>start\<close>, after dialling and subscribing, on what its channels deliver. \<open>None\<close>: it is waiting for more.\<close>

datatype listen_event = CtxDone | SubErr "string option" | NewLog eth_log i64

fun listen_loop :: "eth \<Rightarrow> relay_json \<Rightarrow> 'n bridge_client \<Rightarrow> relayer \<Rightarrow> listen_event list \<Rightarrow> 'n Bridge \<Rightarrow> 'n Bridge \<times> unit go option" where
  "listen_loop T J cl r [] s = (s, None)"
| "listen_loop T J cl r (CtxDone # evs) s = (s, Some (Ok ()))"
| "listen_loop T J cl r (SubErr (Some e) # evs) s = (s, Some (Err e))"
| "listen_loop T J cl r (SubErr None # evs) s = listen_loop T J cl r evs s"
| "listen_loop T J cl r (NewLog lg now # evs) s =
     (case handleLog T J cl now r lg s of
        (s, Panic e) \<Rightarrow> (s, Some (Panic e))
      | (s, _) \<Rightarrow> listen_loop T J cl r evs s)"

definition listener_start :: "eth \<Rightarrow> relay_json \<Rightarrow> 'n bridge_client \<Rightarrow> relayer \<Rightarrow> unit go \<Rightarrow> unit go \<Rightarrow> listen_event list \<Rightarrow> 'n Bridge \<Rightarrow> 'n Bridge \<times> unit go option" where
  "listener_start T J cl r dial sub evs s =
     (case dial of
        Err e \<Rightarrow> (s, Some (Err (''ethclient dial: '' @ e))) | Panic e \<Rightarrow> (s, Some (Panic e))
      | Ok _ \<Rightarrow>
          (case sub of
             Err e \<Rightarrow> (s, Some (Err (''subscribe logs: '' @ e))) | Panic e \<Rightarrow> (s, Some (Panic e))
           | Ok _ \<Rightarrow> listen_loop T J cl r evs s))"

section \<open>The start\<close>

definition loadOrGenerateKey :: "('c \<Rightarrow> keyFile go) \<Rightarrow> (keyFile \<Rightarrow> 'c) \<Rightarrow> 'c faults \<Rightarrow> (string \<times> string) go \<Rightarrow> string \<Rightarrow> 'c files \<Rightarrow>
    'c files \<times> (string \<times> string) go" where
  "loadOrGenerateKey dec enc fault key path fs =
     (case ReadFile path fs of
        Ok data \<Rightarrow> (fs,
          go_bind (dec data) (\<lambda>kf.
          go_bind (DecodeString (kf_PrivateKey kf)) (\<lambda>priv.
          go_bind (DecodeString (kf_PublicKey kf)) (\<lambda>pub.
          if length priv \<noteq> 64 then Err ''invalid private key size'' else Ok (priv, pub)))))
      | _ \<Rightarrow>
          (case key of
             Err e \<Rightarrow> (fs, Err e) | Panic e \<Rightarrow> (fs, Panic e)
           | Ok (pub, priv) \<Rightarrow>
               (case WriteFile fault path (enc \<lparr>kf_PublicKey = EncodeToString pub, kf_PrivateKey = EncodeToString priv\<rparr>) mode_600 fs of
                  (fs, Ok _) \<Rightarrow> (fs, Ok (priv, pub)) | (fs, Err e) \<Rightarrow> (fs, Err e) | (fs, Panic e) \<Rightarrow> (fs, Panic e))))"

definition relay_getenv :: "(string \<Rightarrow> string) \<Rightarrow> string \<Rightarrow> string \<Rightarrow> string" where
  "relay_getenv osenv key fallback = (if osenv key \<noteq> [] then osenv key else fallback)"

definition new_relayer :: "(string \<Rightarrow> string) \<Rightarrow> string \<Rightarrow> string \<Rightarrow> relayer" where
  "new_relayer osenv priv pub =
     (let base = relay_getenv osenv ''TENDER_NODE_URL'' ''http://localhost:8080'';
          key = relay_getenv osenv ''TENDER_API_KEY'' []
      in \<lparr>ry_privKey = priv, ry_pubKey = pub, ry_pubHex = EncodeToString pub, ry_tokenAdapter = NewTokenAdapter base key, ry_nodeAPIBase = base, ry_nodeAPIKey = key\<rparr>)"

definition relay_listener :: "eth \<Rightarrow> (string \<Rightarrow> string) \<Rightarrow> (string \<Rightarrow> string) \<Rightarrow> ethereumListener option go" where
  "relay_listener T utrim osenv =
     (let rpc = relay_getenv osenv ''TENDER_ETHEREUM_RPC_URL'' [];
          contract = relay_getenv osenv ''TENDER_ETHEREUM_LOCK_CONTRACT'' [];
          topic = relay_getenv osenv ''TENDER_ETHEREUM_LOCK_TOPIC'' []
      in if rpc \<noteq> [] \<and> contract \<noteq> [] \<and> topic \<noteq> []
         then go_bind (newEthereumListener utrim rpc) (\<lambda>l. Ok (Some (l\<lparr>el_contract := et_HexToAddress T contract, el_topic := et_HexToHash T topic\<rparr>)))
         else Ok None)"

definition new_bridge :: "'n \<Rightarrow> 'n Bridge" where
  "new_bridge n = \<lparr>br_processedHashes = {||}, br_processed = {||}, br_net = n\<rparr>"

section \<open>Requests are answered\<close>

lemma releases_if_new_hash [lock_rules]:
  assumes "releases k"
  shows "releases (if_new_hash h k)"
proof (rule releases_freeI)
  fix v r g'
  assume *: "if_new_hash h k (free v) = (r, g')"
  show "r \<noteq> Blocked \<and> mu_free (g_mu g')"
  proof (cases "h |\<in>| br_processedHashes v")
    case True
    with * show ?thesis
      by (auto simp: if_new_hash_def p_then_def p_bind_def Lock_def Unlock_def unlock_def reads_def p_ret_def free_def mu_free_def)
  next
    case False
    with * have "k (free (v\<lparr>br_processedHashes := finsert h (br_processedHashes v)\<rparr>)) = (r, g')"
      by (simp add: if_new_hash_def p_then_def p_bind_def Lock_def Unlock_def unlock_def reads_def writes_def p_ret_def free_def mu_free_def)
    with assms show ?thesis by (rule releases_freeD)
  qed
qed

lemma releases_on_net [lock_rules]: "releases (on_net f)"
  unfolding on_net_def by (rule releases_steady) (auto intro!: lock_rules split: prod.splits)

lemma relay_parts_release [lock_rules]:
  "(\<And>x. releases (f x)) \<Longrightarrow> releases (relay_sign C r payload f)" "(\<And>y. releases (h y)) \<Longrightarrow> releases (read_body dec req h)"
  by (auto simp: relay_sign_def read_body_def intro!: lock_rules split: go.splits)

lemma releases_handleStatus: "releases handleStatus"
  by (rule releases_freeI)
    (auto simp: handleStatus_def p_then_def p_bind_def RLock_def RUnlock_def runlock_def reads_def p_ret_def free_def mu_free_def)

lemma relay_handlers_release:
  "releases (handleLock C J r req)" "releases (handleMint C J cl now r req)" "releases (handleHealth stamp)"
  unfolding handleLock_def handleMint_def handleHealth_def
  by (auto intro!: lock_rules split: sum.splits)

interpretation relay: answering_server "relay_mux C J cl r" "\<lambda>_. True"
  by unfold_locales (simp add: relay_mux_def Let_def relay_handlers_release releases_handleStatus releases_basic)

section \<open>A hash is relayed once\<close>

text \<open>The hash of a complete request to lock or to mint.\<close>

definition relay_hash :: "relay_json \<Rightarrow> relay_event \<Rightarrow> string option" where
  "relay_hash J ev =
     (let req = re_request ev in
      if rq_Method req \<noteq> ''POST'' then None
      else if rq_Path req = ''/relay/lock'' then
        (case go_bind (ReadAll (rq_Body req)) (rj_lock J) of Ok lr \<Rightarrow> if lock_complete lr then Some (lr_TxHash lr) else None | _ \<Rightarrow> None)
      else if rq_Path req = ''/relay/mint'' then
        (case go_bind (ReadAll (rq_Body req)) (rj_mint J) of Ok mr \<Rightarrow> if mint_complete mr then Some (mr_TxHash mr) else None | _ \<Rightarrow> None)
      else None)"

abbreviation already_processed :: "string \<Rightarrow> json http_reply" where
  "already_processed h \<equiv> Replied (JObj [(''status'', JStr ''already_processed''), (''tx_hash'', JStr h)])"

lemma if_new_hash_free:
  "if_new_hash h k (free v) =
     (if h |\<in>| br_processedHashes v then (Returned (already_processed h), free v)
      else k (free (v\<lparr>br_processedHashes := finsert h (br_processedHashes v)\<rparr>)))"
  by (simp add: if_new_hash_def p_then_def p_bind_def Lock_def Unlock_def unlock_def reads_def writes_def p_ret_def free_def mu_free_def)

text \<open>What a complete request does to a free state: nothing if its hash is known; otherwise the hash is recorded first, and a rest
  runs that does not touch the hashes.\<close>

lemma keeps_on_net: "keeps br_processedHashes (on_net f)"
  unfolding on_net_def by (auto intro!: keep_rules split: prod.splits)

lemma keeps_relay_sign: "(\<And>x. keeps view (f x)) \<Longrightarrow> keeps view (relay_sign C r payload f)"
  by (auto simp: relay_sign_def intro!: keep_rules split: go.splits)

lemma relay_mux_hash:
  assumes "relay_hash J ev = Some h"
  obtains k where "relay_mux C J cl r ev = if_new_hash h k" "keeps br_processedHashes k"
proof (cases "rq_Path (re_request ev) = ''/relay/lock''")
  case True
  with assms obtain lr where lr: "rq_Method (re_request ev) = ''POST''" "go_bind (ReadAll (rq_Body (re_request ev))) (rj_lock J) = Ok lr" "lock_complete lr" "h = lr_TxHash lr"
    by (auto simp: relay_hash_def Let_def split: if_splits go.splits)
  show thesis
    by (rule that) (use True lr in \<open>auto simp: relay_mux_def handleLock_def only_post_def read_body_def decoded_def intro!: keep_rules keeps_relay_sign\<close>)
next
  case False
  with assms obtain mr where mr: "rq_Method (re_request ev) = ''POST''" "rq_Path (re_request ev) = ''/relay/mint''"
    "go_bind (ReadAll (rq_Body (re_request ev))) (rj_mint J) = Ok mr" "mint_complete mr" "h = mr_TxHash mr"
    by (auto simp: relay_hash_def Let_def split: if_splits go.splits)
  show thesis
    by (rule that) (use mr in \<open>auto simp: relay_mux_def handleMint_def only_post_def read_body_def decoded_def intro!: keep_rules keeps_relay_sign keeps_on_net split: sum.splits\<close>)
qed

lemma relay_mux_no_hash:
  assumes "relay_hash J ev = None"
  shows "keeps br_processedHashes (relay_mux C J cl r ev)"
  using assms
  by (auto simp: relay_mux_def relay_hash_def handleLock_def handleMint_def handleStatus_def handleHealth_def only_post_def read_body_def decoded_def Let_def
      intro!: keep_rules split: go.splits if_splits)

lemma hashes_grow: "br_processedHashes v |\<subseteq>| br_processedHashes (g_val (snd (relay_mux C J cl r ev (free v))))"
proof (cases "relay_hash J ev")
  case None
  then show ?thesis using relay_mux_no_hash [OF None, of C cl r] by (simp add: keeps_def)
next
  case (Some h)
  then obtain k where k: "relay_mux C J cl r ev = if_new_hash h k" "keeps br_processedHashes k" by (rule relay_mux_hash)
  then show ?thesis by (auto simp: if_new_hash_free keeps_def)
qed

lemma hash_recorded:
  assumes "relay_hash J ev = Some h"
  shows "h |\<in>| br_processedHashes (g_val (snd (relay_mux C J cl r ev (free v))))"
proof -
  obtain k where k: "relay_mux C J cl r ev = if_new_hash h k" "keeps br_processedHashes k" by (rule relay_mux_hash [OF assms])
  then show ?thesis by (simp add: if_new_hash_free keeps_def)
qed

lemma hashes_stay:
  assumes "mu_free (g_mu g)" "h |\<in>| br_processedHashes (g_val g)"
  shows "h |\<in>| br_processedHashes (g_val (serve_all (relay_mux C J cl r) evs g))"
  using assms
proof (induction evs arbitrary: g)
  case (Cons ev evs)
  have g: "g = free (g_val g)" by (rule free_eq) (rule Cons.prems)
  have "mu_free (g_mu (snd (relay_mux C J cl r ev g)))"
    using relay.safe_releases [of C J cl r ev] Cons.prems(1) by (simp add: releases_def)
  moreover have "h |\<in>| br_processedHashes (g_val (snd (relay_mux C J cl r ev g)))"
    using hashes_grow [of "g_val g" C J cl r ev] Cons.prems(2) by (metis g fsubsetD)
  ultimately show ?case using Cons.IH by simp
qed simp

text \<open>C25. The relayer acts on a transaction hash at most once: after a complete request to lock or to mint has been served, whatever the outcome, and
  after any further requests, every complete request with the same hash is answered with \<open>already_processed\<close> and changes nothing,
  neither on the node nor in the relayer.\<close>

theorem relayed_hash_is_final:
  assumes "relay_hash J ev = Some h" and "relay_hash J ev' = Some h"
    and "g = serve_all (relay_mux C J cl r) evs (snd (relay_mux C J cl r ev (free s)))"
  shows "relay_mux C J cl r ev' g = (Returned (already_processed h), g)"
proof -
  have fr: "mu_free (g_mu (snd (relay_mux C J cl r ev (free s))))"
    using relay.safe_releases [of C J cl r ev] by (simp add: releases_def)
  have "mu_free (g_mu g)" unfolding assms(3) by (rule relay.stays_free) (use fr in \<open>simp_all add: list_all_iff\<close>)
  then obtain v where g: "g = free v" using free_eq by blast
  have "h |\<in>| br_processedHashes (g_val g)" unfolding assms(3) by (rule hashes_stay [OF fr hash_recorded [OF assms(1)]])
  moreover obtain k where "relay_mux C J cl r ev' = if_new_hash h k" by (rule relay_mux_hash [OF assms(2)])
  ultimately show ?thesis by (simp add: g if_new_hash_free)
qed

section \<open>What a mint request does\<close>

lemma on_net_free:
  "f (br_net s) = (n, Ok x) \<Longrightarrow> on_net f (free s) = (Returned (Inr x), free (s\<lparr>br_net := n\<rparr>))"
  "f (br_net s) = (n, Err e) \<Longrightarrow> on_net f (free s) = (Returned (Inl e), free (s\<lparr>br_net := n\<rparr>))"
  by (simp_all add: on_net_def body_def free_def)

text \<open>A first mint request asks the node once, with the recipient and the amount of the request, and reports what the node has done.\<close>

lemma handleMint_effect:
  assumes "rq_Method req = ''POST''" "go_bind (ReadAll (rq_Body req)) (rj_mint J) = Ok mr" "mint_complete mr" "mr_TxHash mr |\<notin>| br_processedHashes s"
    and "length (ry_privKey r) = 64"
    and "Mint J cl now (ry_tokenAdapter r) (mr_To mr) (mr_Amount mr) (br_net s) = (n, Ok res)"
  shows "handleMint C J cl now r req (free s) =
    (Returned (Replied (JObj [(''status'', JStr ''mint_executed''), (''tx_hash'', JStr (mr_TxHash mr)), (''to'', JStr (mr_To mr)), (''amount'', jnum (mr_Amount mr)),
       (''signature'', JStr (EncodeToString (ed_sign C (ry_privKey r) (sha256 C (mint_payload mr))))), (''mint'', result_json res)])),
     free (s\<lparr>br_processedHashes := finsert (mr_TxHash mr) (br_processedHashes s), br_net := n\<rparr>))"
  using assms
  by (simp add: handleMint_def only_post_def read_body_def decoded_def if_new_hash_free relay_sign_def ed25519_Sign_def on_net_free p_bind_def p_ret_def)

text \<open>A mint that the node refuses is answered with status 500, and the hash counts as processed.\<close>

lemma failed_mint_is_recorded:
  assumes "rq_Method req = ''POST''" "go_bind (ReadAll (rq_Body req)) (rj_mint J) = Ok mr" "mint_complete mr" "mr_TxHash mr |\<notin>| br_processedHashes s"
    and "length (ry_privKey r) = 64"
    and "Mint J cl now (ry_tokenAdapter r) (mr_To mr) (mr_Amount mr) (br_net s) = (n, Err e)"
  shows "handleMint C J cl now r req (free s) =
    (Returned (Failed StatusInternalServerError (''mint failed: '' @ e)), free (s\<lparr>br_processedHashes := finsert (mr_TxHash mr) (br_processedHashes s), br_net := n\<rparr>))"
  using assms
  by (simp add: handleMint_def only_post_def read_body_def decoded_def if_new_hash_free relay_sign_def ed25519_Sign_def on_net_free p_bind_def p_ret_def)

text \<open>No route of the relayer looks at the key of the request: anyone who reaches the port mints with the key of the relayer.\<close>

lemma relay_needs_no_key: "relay_mux C J cl r (ev\<lparr>re_request := (re_request ev)\<lparr>rq_Authorization := x\<rparr>\<rparr>) = relay_mux C J cl r ev"
  by (simp add: relay_mux_def handleLock_def handleMint_def only_post_def read_body_def decoded_def Let_def)

text \<open>The bytes that are signed for a lock and for a mint are not told apart: the signature on a lock is one on a mint of another hash.\<close>

lemma lock_signature_is_mint_signature:
  "lock_payload \<lparr>lr_TxHash = h, lr_From = a, lr_Amount = v, lr_Recipient = FormatUint w\<rparr> =
   mint_payload \<lparr>mr_TxHash = h @ '':'' @ a, mr_To = FormatUint v, mr_Amount = w\<rparr>"
  by (simp add: lock_payload_def mint_payload_def)

section \<open>The listener\<close>

text \<open>A log of a transaction that has been seen is dropped, also another log of the same transaction.\<close>

lemma second_log_is_dropped:
  assumes "handleLog T J cl now r lg s = (s', res)" and "lg_TxHash lg' = lg_TxHash lg"
  shows "handleLog T J cl' now' r lg' s' = (s', Ok ())"
proof -
  have "lg_TxHash lg |\<in>| br_processed s'"
    using assms(1) by (auto simp: handleLog_def handleEthereumLock_def Let_def split: if_splits go.splits prod.splits)
  with assms(2) show ?thesis by (simp add: handleLog_def)
qed

text \<open>Decoding fails, by a panic that ends the program, exactly for data of 96 to 127 bytes whose slice cannot be extended.\<close>

lemma decodeLockEvent_panics_iff:
  "(\<exists>e. decodeLockEvent T lg = Panic e) \<longleftrightarrow> 96 \<le> length (lg_Data lg) \<and> length (lg_Data lg) + length (lg_Spare lg) < 128"
  by (auto simp: decodeLockEvent_def Let_def)

text \<open>The two ways into the relayer keep separate records: what the listener has relayed is not known to the server, which relays it again when it is posted.\<close>

lemma listener_keeps_hashes: "br_processedHashes (fst (handleLog T J cl now r lg s)) = br_processedHashes s"
  by (auto simp: handleLog_def handleEthereumLock_def Let_def split: go.splits prod.splits)

text \<open>A concrete run of the server: a request to mint is served, the same request again is not.\<close>

definition demo_mint_json :: relay_json where
  "demo_mint_json = \<lparr>rj_lock = (\<lambda>_. Err []), rj_mint = (\<lambda>_. Ok \<lparr>mr_TxHash = ''h'', mr_To = ''a'', mr_Amount = 7\<rparr>), rj_result = (\<lambda>_ m. m), rj_object = (\<lambda>_. Err [])\<rparr>"

definition demo_mint_event :: relay_event where
  "demo_mint_event = \<lparr>re_request = \<lparr>rq_Method = ''POST'', rq_Path = ''/relay/mint'', rq_RemoteAddr = [], rq_Authorization = [], rq_RequestID = [], rq_IdempotencyKey = [],
     rq_ContentLength = 0, rq_Body = ([], []), rq_Query = (\<lambda>_. []), rq_ContextValidator = None\<rparr>, re_now = 3, re_stamp = []\<rparr>"

definition demo_mint_relayer :: relayer where
  "demo_mint_relayer = new_relayer (\<lambda>_. []) (replicate 64 CHR ''s'') (fit 32 ''p'')"

definition demo_mint_run :: "bridge_body client_request list Bridge guarded" where
  "demo_mint_run = serve_all (relay_mux demo_crypto demo_mint_json (recording (Ok (StatusOK, [], []))) demo_mint_relayer) []
     (snd (relay_mux demo_crypto demo_mint_json (recording (Ok (StatusOK, [], []))) demo_mint_relayer demo_mint_event (free (new_bridge []))))"

theorem relayed_hash_is_final_witness:
  "relay_mux demo_crypto demo_mint_json (recording (Ok (StatusOK, [], []))) demo_mint_relayer demo_mint_event demo_mint_run =
     (Returned (already_processed ''h''), demo_mint_run)"
  by (rule relayed_hash_is_final [OF _ _ demo_mint_run_def])
    (simp_all add: relay_hash_def demo_mint_event_def demo_mint_json_def ReadAll_def mint_complete_def)

end
