(* ===== verification/Node_Network.thy ===== *)
theory Node_Network
  imports Tool_World Node_Api_Properties
begin

text \<open>
  The running HTTP server of the node in \<open>main.go\<close> as the network of a tool. The theories that compose a tool with the node use it.
\<close>

abbreviation node_client :: "node_api \<Rightarrow> node_world \<Rightarrow> ('b \<Rightarrow> string) \<Rightarrow> (node_value \<Rightarrow> string) \<Rightarrow> string \<Rightarrow> ('b, NodeServer guarded) client" where
  "node_client A w \<equiv> server_client (startAPI A w)"

text \<open>A request that writes and does not have the key is refused before its handler runs: the server is as it was.\<close>

lemma refused_by_node:
  assumes "requireAuth (na_utrim A) (cr_Authorization cr) (na_cfg A) = Err e" "cr_Method cr = ''POST''"
  shows "cl_do (node_client A w enc dump base) cr g = (g, Ok (StatusUnauthorized, e, []))"
  using assms by (simp add: server_client_def startAPI_def authorized_def received_request_def p_ret_def)

end
