(* ===== verification/Bridge_Node.thy ===== *)
theory Bridge_Node
  imports Bridge_Relayer Node_Network
begin

text \<open>
  The bridge relayer together with the node of \<open>main.go\<close>: the network of the adapter is the running HTTP server of the node. An accepted mint request
  of the relayer reaches the ledger.
\<close>

section \<open>Minting through the bridge\<close>

text \<open>The request to mint, seen from the node.\<close>

lemma n_admin_mint_answers:
  assumes "rq_Method r = ''POST''" "nj_amount (na_J A) (rq_Body r) = Ok payload" "am_Address payload \<noteq> []" "am_Amount payload \<noteq> 0"
  shows "no_stall w \<Longrightarrow> fst (n_admin_mint A w r (free s)) = Returned (Replied (NObj [(''address'', NStr (am_Address payload)), (''amount'', NNum (am_Amount payload)), (''status'', NStr ''minted'')]))"
    and "fmlookup (nd_Ledger (nv_chain (g_val (snd (n_admin_mint A w r (free s)))))) (am_Address payload) =
      Some \<lparr>acct_Address = am_Address payload, acct_Balance = am_Amount payload, acct_Staked = 0, acct_IsAgent = False\<rparr>"
    and "nd_TokenSupply (nv_chain (g_val (snd (n_admin_mint A w r (free s))))) = nd_TokenSupply (nv_chain s) + am_Amount payload"
    and "a \<noteq> am_Address payload \<Longrightarrow>
      fmlookup (nd_Ledger (nv_chain (g_val (snd (n_admin_mint A w r (free s)))))) a = fmlookup (nd_Ledger (nv_chain s)) a"
proof -
  have top: "\<not> node_MaxSupply < (x :: u64)" for x using unat_u64_lt [of x] by (simp add: node_MaxSupply_def not_less word_le_nat_alt)
  note defs = n_admin_mint_def only_post_def decoded_def p_then_def p_bind_def Lock_def Unlock_def unlock_def reads_def writes_def p_ret_def free_def mu_free_def
    n_save_def saveToDiskSafe_def n_do_def locked_def p_defer_def n_broadcastState_def n_send_def n_read_def rlocked_def RLock_def runlock_def nv_set_def nv_chain_def
    node_addAccountLocked_def node_appendAuditEntry_def Let_def frame case_prod_unfold
  show "no_stall w \<Longrightarrow> fst (n_admin_mint A w r (free s)) = Returned (Replied (NObj [(''address'', NStr (am_Address payload)), (''amount'', NNum (am_Amount payload)), (''status'', NStr ''minted'')]))"
    using assms top broadcasts_end(3) [of "nw_W w"] by (auto simp: defs no_stall_def)
  show "fmlookup (nd_Ledger (nv_chain (g_val (snd (n_admin_mint A w r (free s)))))) (am_Address payload) =
      Some \<lparr>acct_Address = am_Address payload, acct_Balance = am_Amount payload, acct_Staked = 0, acct_IsAgent = False\<rparr>"
    using assms top by (auto simp: defs)
  show "nd_TokenSupply (nv_chain (g_val (snd (n_admin_mint A w r (free s))))) = nd_TokenSupply (nv_chain s) + am_Amount payload"
    using assms top by (auto simp: defs)
  show "a \<noteq> am_Address payload \<Longrightarrow>
      fmlookup (nd_Ledger (nv_chain (g_val (snd (n_admin_mint A w r (free s)))))) a = fmlookup (nd_Ledger (nv_chain s)) a"
    using assms top by (auto simp: defs)
qed

lemma mint_route: "map_of (node_routes A) ''/api/admin/mint'' = Some n_admin_mint"
  by (simp add: node_routes_def)

text \<open>The request of the adapter to the node: it is let in by its key, it is answered with status 200, and it ends in the handler of the route.\<close>

lemma Mint_on_node:
  assumes "requireAuth (na_utrim A) (bearer (ta_nodeAPIKey a)) (na_cfg A) = Ok ()"
    and "nj_amount (na_J A) (enc (MintBody \<lparr>am_Address = dest, am_Amount = amount\<rparr>), []) = Ok \<lparr>am_Address = dest, am_Amount = amount\<rparr>"
    and "dest \<noteq> []" and "amount \<noteq> 0" and "no_stall w"
    and "req = received_request enc (ta_nodeAPIBase a) (post (ta_nodeAPIBase a @ ''/api/admin/mint'') (ta_nodeAPIKey a) (MintBody \<lparr>am_Address = dest, am_Amount = amount\<rparr>))"
  shows "\<exists>res. Mint J (node_client A w enc dump (ta_nodeAPIBase a)) now a dest amount (free v) = (snd (n_admin_mint A w req (free v)), Ok res)"
proof -
  let ?cr = "post (ta_nodeAPIBase a @ ''/api/admin/mint'') (ta_nodeAPIKey a) (MintBody \<lparr>am_Address = dest, am_Amount = amount\<rparr>)"
  have req: "rq_Method req = ''POST''" "rq_Path req = ''/api/admin/mint''" "rq_Authorization req = bearer (ta_nodeAPIKey a)"
    "nj_amount (na_J A) (rq_Body req) = Ok \<lparr>am_Address = dest, am_Amount = amount\<rparr>"
    using assms(2,6) by (simp_all add: received_request_def post_def)
  have "startAPI A w req (free v) = n_admin_mint A w req (free v)"
    using req assms(1) by (simp add: startAPI_def authorized_def node_mux_def mint_route)
  moreover obtain x g where g: "n_admin_mint A w req (free v) = (x, g)" by force
  moreover have "x = Returned (Replied (NObj [(''address'', NStr dest), (''amount'', NNum amount), (''status'', NStr ''minted'')]))"
    using n_admin_mint_answers(1) [OF req(1,4), of w v] g assms(3-5) by simp
  ultimately show ?thesis
    by (simp add: Mint_def adapter_post_def server_client_def Let_def assms(6) [symmetric])
qed

text \<open>C23. The bridge and the node together. A complete mint request that reaches the relayer with a new hash is executed on the ledger of the node: the recipient's
  account is replaced by one that holds the amount and no stake, whatever it held before, the supply counter has grown by the amount modulo \<open>2\<^sup>6\<^sup>4\<close>, and no other account is touched; provided that the relayer has the key of the node, the
  two agree on the encoding of a request, and the peers of the node take what is written to them. The node refuses no amount: its check against the maximal supply compares a wrapped sum with the largest 64-bit number.\<close>

theorem bridge_mint_reaches_ledger:
  assumes auth: "requireAuth (na_utrim A) (bearer (ta_nodeAPIKey (ry_tokenAdapter r))) (na_cfg A) = Ok ()"
    and codec: "nj_amount (na_J A) (enc (MintBody \<lparr>am_Address = mr_To mr, am_Amount = mr_Amount mr\<rparr>), []) = Ok \<lparr>am_Address = mr_To mr, am_Amount = mr_Amount mr\<rparr>"
    and peers: "\<forall>peer. net_write (nw_W w) peer \<noteq> Stalled"
    and req: "rq_Method (re_request ev) = ''POST''" "rq_Path (re_request ev) = ''/relay/mint''"
      "go_bind (ReadAll (rq_Body (re_request ev))) (rj_mint J) = Ok mr" "mint_complete mr" "mr_TxHash mr |\<notin>| hashes"
    and key: "length (ry_privKey r) = 64"
    and run: "relay_mux C J (node_client A w enc dump (ta_nodeAPIBase (ry_tokenAdapter r))) r ev
      (free \<lparr>br_processedHashes = hashes, br_processed = logs, br_net = free v\<rparr>) = (out, g)"
  shows "let n' = nv_chain (g_val (br_net (g_val g))) in
    fmlookup (nd_Ledger n') (mr_To mr) = Some \<lparr>acct_Address = mr_To mr, acct_Balance = mr_Amount mr, acct_Staked = 0, acct_IsAgent = False\<rparr> \<and>
    unat (nd_TokenSupply n') = (unat (nd_TokenSupply (nv_chain v)) + unat (mr_Amount mr)) mod 2 ^ 64 \<and>
    (\<forall>a. a = mr_To mr \<or> fmlookup (nd_Ledger n') a = fmlookup (nd_Ledger (nv_chain v)) a) \<and>
    mr_TxHash mr |\<in>| br_processedHashes (g_val g)"
proof -
  let ?a = "ry_tokenAdapter r" and ?s = "\<lparr>br_processedHashes = hashes, br_processed = logs, br_net = free v\<rparr>"
  define hr where "hr = received_request enc (ta_nodeAPIBase ?a) (post (ta_nodeAPIBase ?a @ ''/api/admin/mint'') (ta_nodeAPIKey ?a) (MintBody \<lparr>am_Address = mr_To mr, am_Amount = mr_Amount mr\<rparr>))"
  have w: "no_stall w" using peers by (simp add: no_stall_def)
  have mr: "mr_To mr \<noteq> []" "mr_Amount mr \<noteq> 0" using req(4) by (simp_all add: mint_complete_def)
  have hr: "rq_Method hr = ''POST''" "nj_amount (na_J A) (rq_Body hr) = Ok \<lparr>am_Address = mr_To mr, am_Amount = mr_Amount mr\<rparr>"
    using codec by (simp_all add: hr_def received_request_def post_def)
  obtain res where res: "Mint J (node_client A w enc dump (ta_nodeAPIBase ?a)) (re_now ev) ?a (mr_To mr) (mr_Amount mr) (br_net ?s) = (snd (n_admin_mint A w hr (free v)), Ok res)"
    using Mint_on_node [OF auth codec mr w hr_def, of J dump "re_now ev" v] by auto
  have "g = free (?s\<lparr>br_processedHashes := finsert (mr_TxHash mr) hashes, br_net := snd (n_admin_mint A w hr (free v))\<rparr>)"
    using run handleMint_effect [OF req(1,3,4) _ key res, of C] req(2,5) by (simp add: relay_mux_def)
  then have g: "nv_chain (g_val (br_net (g_val g))) = nv_chain (g_val (snd (n_admin_mint A w hr (free v))))" "br_processedHashes (g_val g) = finsert (mr_TxHash mr) hashes"
    by simp_all
  show ?thesis using n_admin_mint_answers(2-4) [where w = w and s = v, OF hr] mr by (auto simp: g Let_def unat_word_ariths)
qed

text \<open>A concrete run: the relayer has the key \<open>k\<close> of the node, and a request of 7 units for \<open>a\<close> is relayed to a new node.\<close>

definition demo_relayer :: relayer where
  "demo_relayer = new_relayer (\<lambda>v. if v = ''TENDER_API_KEY'' then ''k'' else []) (replicate 64 CHR ''s'') (fit 32 ''p'')"

definition demo_bridge_api :: node_api where
  "demo_bridge_api = demo_node_api\<lparr>na_cfg := (na_cfg demo_node_api)\<lparr>cfg_APIKey := ''k''\<rparr>\<rparr>"

definition demo_bridge_run :: "json http_reply outcome \<times> NodeServer guarded Bridge guarded" where
  "demo_bridge_run = relay_mux demo_crypto demo_mint_json (node_client demo_bridge_api demo_node_world (\<lambda>_. ''x'') (\<lambda>_. ''y'') ''http://localhost:8080'')
     demo_relayer demo_mint_event (free (new_bridge (free (new_node_server (na_cfg demo_bridge_api) demo_p2p))))"

lemma demo_relay_fields:
  "length (ry_privKey demo_relayer) = 64" "ta_nodeAPIBase (ry_tokenAdapter demo_relayer) = ''http://localhost:8080''" "ta_nodeAPIKey (ry_tokenAdapter demo_relayer) = ''k''"
  "go_bind (ReadAll (rq_Body (re_request demo_mint_event))) (rj_mint demo_mint_json) = Ok \<lparr>mr_TxHash = ''h'', mr_To = ''a'', mr_Amount = 7\<rparr>"
  by (simp_all add: demo_relayer_def new_relayer_def relay_getenv_def NewTokenAdapter_def demo_mint_event_def demo_mint_json_def ReadAll_def Let_def)

theorem bridge_mint_reaches_ledger_witness:
  "let n' = nv_chain (g_val (br_net (g_val (snd demo_bridge_run)))) in
     fmlookup (nd_Ledger n') ''a'' = Some \<lparr>acct_Address = ''a'', acct_Balance = 7, acct_Staked = 0, acct_IsAgent = False\<rparr> \<and>
     unat (nd_TokenSupply n') = (unat (nd_TokenSupply (nv_chain (new_node_server (na_cfg demo_bridge_api) demo_p2p))) + 7) mod 2 ^ 64 \<and>
     ''h'' |\<in>| br_processedHashes (g_val (snd demo_bridge_run))"
proof -
  have auth: "requireAuth (na_utrim demo_bridge_api) (bearer ''k'') (na_cfg demo_bridge_api) = Ok ()"
    unfolding requireAuth_Ok_iff by (simp add: demo_bridge_api_def demo_node_api_def bearer_def TrimSpace_def trim_ascii_def is_ascii_def is_space_def)
  obtain out g where run: "relay_mux demo_crypto demo_mint_json (node_client demo_bridge_api demo_node_world (\<lambda>_. ''x'') (\<lambda>_. ''y'') ''http://localhost:8080'')
     demo_relayer demo_mint_event (free \<lparr>br_processedHashes = {||}, br_processed = {||}, br_net = free (new_node_server (na_cfg demo_bridge_api) demo_p2p)\<rparr>) = (out, g)"
    by force
  from bridge_mint_reaches_ledger [of demo_bridge_api demo_relayer "\<lambda>_. ''x''" "\<lparr>mr_TxHash = ''h'', mr_To = ''a'', mr_Amount = 7\<rparr>" demo_node_world demo_mint_event demo_mint_json "{||}"]
  show ?thesis
    using auth run
    by (simp add: demo_relay_fields demo_bridge_run_def new_bridge_def Let_def mint_complete_def)
      (simp add: demo_bridge_api_def demo_node_api_def demo_node_json_def demo_mint_event_def demo_node_world_def demo_net_def)
qed

end
