(* ===== verification/Bridge_Notify.thy ===== *)
theory Bridge_Notify
  imports Bridge_Relayer Chain_State
begin

text \<open>
  The notification of the bridge at the end of mining (\<open>NotifyBridgeRelayer\<close> of \<open>blockchain.go\<close>), composed with the relayer that receives it.
\<close>

text \<open>The payload: its fields \<open>tx_hash\<close>, \<open>from\<close>, \<open>amount\<close>, \<open>recipient\<close>, \<open>block_index\<close> and \<open>block_hash\<close>.\<close>

record lock_notice =
  ln_tx_hash :: string
  ln_from :: string
  ln_amount :: u64
  ln_recipient :: string
  ln_block_index :: u64
  ln_block_hash :: string

definition notice_of :: "Block \<Rightarrow> lock_notice" where
  "notice_of b = \<lparr>ln_tx_hash = blk_BlockHash b, ln_from = blk_Author b, ln_amount = 0, ln_recipient = blk_Author b, ln_block_index = blk_Index b, ln_block_hash = blk_BlockHash b\<rparr>"

definition NotifyBridgeRelayer :: "(lock_notice, 'n) client \<Rightarrow> Block option \<Rightarrow> 'n \<Rightarrow> 'n \<times> unit go" where
  "NotifyBridgeRelayer cl block n =
     (case block of
        None \<Rightarrow> (n, Ok ())
      | Some b \<Rightarrow>
          (let payload = notice_of b;
               url = ''http://localhost:8081/relay/lock''
           in case cl_bad_url cl url of
                Some e \<Rightarrow> (n, Err e)
              | None \<Rightarrow>
                  (case cl_do cl (post url [] payload) n of
                     (n, Err e) \<Rightarrow> (n, Err e)
                   | (n, Panic e) \<Rightarrow> (n, Panic e)
                   | (n, Ok (status, rd)) \<Rightarrow>
                       (n, if status \<noteq> StatusOK \<and> status \<noteq> StatusCreated then Err (''bridge relayer returned '' @ fmt_nat status) else Ok ()))))"

text \<open>The relayer as the network of the node; \<open>now\<close> and \<open>stamp\<close> are the clock of the relayer.\<close>

definition relayer_client :: "crypto \<Rightarrow> relay_json \<Rightarrow> 'n bridge_client \<Rightarrow> relayer \<Rightarrow> i64 \<Rightarrow> string \<Rightarrow> (lock_notice \<Rightarrow> string) \<Rightarrow> (json \<Rightarrow> string) \<Rightarrow>
    (lock_notice, 'n Bridge guarded) client" where
  "relayer_client C J cl r now stamp enc dump =
     server_client (\<lambda>req. relay_mux C J cl r \<lparr>re_request = req, re_now = now, re_stamp = stamp\<rparr>) enc dump ''http://localhost:8081''"

text \<open>What the relayer decodes of the payload.\<close>

definition decoded_notice :: "lock_notice \<Rightarrow> lockRequest" where
  "decoded_notice m = \<lparr>lr_TxHash = ln_tx_hash m, lr_From = ln_from m, lr_Amount = ln_amount m, lr_Recipient = ln_recipient m\<rparr>"

text \<open>The amount of a notification is always 0, and the relayer takes a request without an amount for incomplete. So a mined block is never recorded: every notification is
  refused with status 400 and leaves the relayer as it was, whatever the block is, provided that the two agree on the encoding.\<close>

theorem notification_is_refused:
  assumes "rj_lock J (enc (notice_of b)) = Ok (decoded_notice (notice_of b))"
  shows "NotifyBridgeRelayer (relayer_client C J cl r now stamp enc dump) (Some b) g = (g, Err ''bridge relayer returned 400'')"
proof -
  have "fmt_nat 400 = ''400''" by code_simp
  then show ?thesis
    using assms
    by (simp add: NotifyBridgeRelayer_def relayer_client_def server_client_def received_request_def post_def relay_mux_def handleLock_def only_post_def read_body_def
        decoded_def ReadAll_def lock_complete_def decoded_notice_def notice_of_def p_ret_def)
qed

definition demo_notice :: lock_notice where
  "demo_notice = \<lparr>ln_tx_hash = ''h'', ln_from = ''a'', ln_amount = 0, ln_recipient = ''a'', ln_block_index = 1, ln_block_hash = ''h''\<rparr>"

theorem notification_is_refused_witness:
  "NotifyBridgeRelayer
     (relayer_client demo_crypto \<lparr>rj_lock = \<lambda>_. Ok (decoded_notice demo_notice), rj_mint = \<lambda>_. Err [], rj_result = \<lambda>_ m. m, rj_object = \<lambda>_. Err []\<rparr>
       (recording (Err [])) (new_relayer (\<lambda>_. []) [] []) 0 [] (\<lambda>_. ''x'') (\<lambda>_. []))
     (Some \<lparr>blk_Index = 1, blk_Author = ''a'', blk_MinerAddress = ''a'', blk_PreviousHash = ''g'', blk_Timestamp = 0, blk_Transactions = [], blk_Nonce = 0,
        blk_BlockHash = ''h'', blk_TxMerkleRoot = []\<rparr>)
     (free (new_bridge [])) = (free (new_bridge []), Err ''bridge relayer returned 400'')"
  by (rule notification_is_refused) (simp add: demo_notice_def notice_of_def)

end
