(* ===== verification/Genesis_Tool.thy ===== *)
theory Genesis_Tool
  imports Genesis Tool_World
begin

text \<open>
  The genesis tool (\<open>tools/genesis-tool/main.go\<close>): it generates a genesis file, adds signatures to it and reports on them. The JSON encoding of a
  genesis file, which is what is signed, is the argument \<open>js\<close>; the file holds the value. Key pairs are drawn from a stream \<open>keys\<close>.

  As it stands the source does not build: \<open>generateKeyPairFromHex\<close> calls the method \<open>Public\<close> on a plain byte slice. The model reads the call as the one on the
  private key that the bytes are returned as.
\<close>

section \<open>Data\<close>

record GenesisAllocation =
  al_Address :: string
  al_PublicKey :: string
  al_Amount :: u64
  al_Description :: string
  al_LockupUntil :: i64
  al_Vesting :: string

record ValidatorMeta =
  vm_Address :: string
  vm_PublicKey :: string
  vm_Stake :: u64
  vm_Country :: string
  vm_City :: string
  vm_Contact :: string

record GenesisSignature =
  gs_SignerAddress :: string
  gs_PublicKey :: string
  gs_Signature :: string
  gs_SignedAt :: i64

record GenesisToken =
  gt_Name :: string
  gt_Symbol :: string
  gt_Decimals :: int

record GenesisEconomics =
  ge_BaseGasFee :: u64
  ge_BurnRatePercent :: u64
  ge_RewardRatePercent :: u64
  ge_MinStake :: u64
  ge_BlockTimeSeconds :: int
  ge_InflationStartYear :: int
  ge_InflationDecay :: rat

record GenesisMultisig =
  gm_Threshold :: int
  gm_Signers :: "string list"
  gm_Signatures :: "GenesisSignature list"
  gm_Finalized :: bool
  gm_FinalizedAt :: i64

record GenesisFile =
  gn_ChainID :: string
  gn_GenesisTime :: i64
  gn_Consensus :: string
  gn_InitialSupply :: u64
  gn_MaxSupply :: u64
  gn_Token :: GenesisToken
  gn_Allocations :: "GenesisAllocation list"
  gn_Validators :: "ValidatorMeta list"
  gn_Economics :: GenesisEconomics
  gn_Multisig :: GenesisMultisig

record keyPair =
  kp_address :: string
  kp_publicKey :: string
  kp_privateKey :: string

type_synonym key_stream = "nat \<Rightarrow> (string \<times> string) go"

definition generateKeyPair :: "crypto \<Rightarrow> (string \<times> string) go \<Rightarrow> keyPair go" where
  "generateKeyPair C key = go_bind key (\<lambda>(pub, priv).
     Ok \<lparr>kp_address = EncodeToString (sha256 C pub), kp_publicKey = EncodeToString pub, kp_privateKey = EncodeToString priv\<rparr>)"

text \<open>An error here ends the program with a panic.\<close>

definition must :: "'a go \<Rightarrow> 'a go" where
  "must r = (case r of Err e \<Rightarrow> Panic e | _ \<Rightarrow> r)"

section \<open>Generating\<close>

record gen_flags =
  gg_output :: string
  gg_chainID :: string
  gg_initialSupply :: u64
  gg_maxSupply :: u64
  gg_validatorCount :: int
  gg_teamPct :: rat
  gg_communityPct :: rat
  gg_treasuryPct :: rat
  gg_stakingPct :: rat
  gg_liquidityPct :: rat

definition default_gen_flags :: gen_flags where
  "default_gen_flags = \<lparr>gg_output = ''genesis_mainnet.json'', gg_chainID = ''tdr-mainnet-1'', gg_initialSupply = 50000000000, gg_maxSupply = 18446744073709551615,
     gg_validatorCount = 7, gg_teamPct = fl (15 / 100), gg_communityPct = fl (35 / 100), gg_treasuryPct = fl (20 / 100), gg_stakingPct = fl (25 / 100), gg_liquidityPct = fl (5 / 100)\<rparr>"

definition pctTotal :: "gen_flags \<Rightarrow> rat" where
  "pctTotal f = fl (fl (fl (fl (gg_teamPct f + gg_communityPct f) + gg_treasuryPct f) + gg_stakingPct f) + gg_liquidityPct f)"

definition allocation_plan :: "gen_flags \<Rightarrow> (string \<times> rat \<times> bool) list" where
  "allocation_plan f = [(''Team and advisors'', gg_teamPct f, True), (''Community and ecosystem'', gg_communityPct f, False),
     (''Treasury and operations'', gg_treasuryPct f, False), (''Staking rewards pool'', gg_stakingPct f, False), (''Liquidity and exchange listings'', gg_liquidityPct f, False)]"

text \<open>\<open>later\<close> is the time in four years; \<open>i\<close> counts the key pairs that have been drawn.\<close>

fun alloc_loop :: "crypto \<Rightarrow> (rat \<Rightarrow> u64) \<Rightarrow> key_stream \<Rightarrow> i64 \<Rightarrow> u64 \<Rightarrow> nat \<Rightarrow> (string \<times> rat \<times> bool) list \<Rightarrow> GenesisFile \<Rightarrow> GenesisFile go" where
  "alloc_loop C oor keys later supply i [] g = Ok g"
| "alloc_loop C oor keys later supply i ((desc, pct, lock) # rest) g =
     go_bind (must (generateKeyPair C (keys i))) (\<lambda>key.
       let amount = u64_of_float oor (fl (float_of_u64 supply * pct));
           entry = \<lparr>al_Address = kp_address key, al_PublicKey = kp_publicKey key, al_Amount = amount, al_Description = desc,
             al_LockupUntil = (if lock then later else 0), al_Vesting = ''linear_4_years''\<rparr>
       in alloc_loop C oor keys later supply (i + 1) rest (g\<lparr>gn_Allocations := gn_Allocations g @ [entry]\<rparr>))"

definition countries :: "string list" where
  "countries = sort_slice (<) [''KE'', ''SG'', ''DE'', ''NG'', ''ZA'', ''AE'', ''US'']"

definition city_of :: "string \<Rightarrow> string" where
  "city_of country = (case map_of [(''KE'', ''Nairobi''), (''SG'', ''Singapore''), (''DE'', ''Frankfurt''), (''NG'', ''Lagos''), (''ZA'', ''Cape Town''),
     (''AE'', ''Dubai''), (''US'', ''New York'')] country of Some c \<Rightarrow> c | None \<Rightarrow> [])"

definition add_validator :: "nat \<Rightarrow> keyPair \<Rightarrow> GenesisFile \<Rightarrow> GenesisFile" where
  "add_validator i key g =
     (let country = countries ! (i mod length countries);
          v = \<lparr>vm_Address = kp_address key, vm_PublicKey = kp_publicKey key, vm_Stake = 100000, vm_Country = country, vm_City = city_of country,
            vm_Contact = ''validator-'' @ fmt_nat (i + 1) @ ''@tender.network''\<rparr>;
          entry = \<lparr>al_Address = kp_address key, al_PublicKey = kp_publicKey key, al_Amount = 100000, al_Description = ''Genesis validator '' @ fmt_nat (i + 1) @ '' stake'',
            al_LockupUntil = 0, al_Vesting = ''none''\<rparr>;
          ms = gn_Multisig g
      in g\<lparr>gn_Validators := gn_Validators g @ [v], gn_Allocations := gn_Allocations g @ [entry],
           gn_Multisig := (if i < 2 then ms\<lparr>gm_Signers := gm_Signers ms @ [kp_publicKey key]\<rparr> else ms)\<rparr>)"

fun validator_loop :: "crypto \<Rightarrow> key_stream \<Rightarrow> nat \<Rightarrow> nat \<Rightarrow> GenesisFile \<Rightarrow> GenesisFile go" where
  "validator_loop C keys 0 i g = Ok g"
| "validator_loop C keys (Suc k) i g =
     go_bind (must (generateKeyPair C (keys (5 + i)))) (\<lambda>key. validator_loop C keys k (i + 1) (add_validator i key g))"

definition blank_genesis :: "gen_flags \<Rightarrow> i64 \<Rightarrow> GenesisFile" where
  "blank_genesis f now = \<lparr>gn_ChainID = gg_chainID f, gn_GenesisTime = now, gn_Consensus = ''hybrid-pos-poa'', gn_InitialSupply = gg_initialSupply f, gn_MaxSupply = gg_maxSupply f,
     gn_Token = \<lparr>gt_Name = ''TENDER'', gt_Symbol = ''TDR'', gt_Decimals = 8\<rparr>, gn_Allocations = [], gn_Validators = [],
     gn_Economics = \<lparr>ge_BaseGasFee = 5, ge_BurnRatePercent = 1, ge_RewardRatePercent = 4, ge_MinStake = 100, ge_BlockTimeSeconds = 5, ge_InflationStartYear = 2026,
       ge_InflationDecay = fl (15 / 100)\<rparr>,
     gn_Multisig = \<lparr>gm_Threshold = 2, gm_Signers = [], gm_Signatures = [], gm_Finalized = False, gm_FinalizedAt = 0\<rparr>\<rparr>"

definition generated :: "crypto \<Rightarrow> (rat \<Rightarrow> u64) \<Rightarrow> key_stream \<Rightarrow> i64 \<Rightarrow> i64 \<Rightarrow> gen_flags \<Rightarrow> GenesisFile go" where
  "generated C oor keys now later f =
     (if pctTotal f \<noteq> 1 then Panic ''allocation percentages must sum to 1.0''
      else go_bind (alloc_loop C oor keys later (gg_initialSupply f) 0 (allocation_plan f) (blank_genesis f now)) (\<lambda>g.
           go_bind (validator_loop C keys (nat (gg_validatorCount f)) 0 g) (\<lambda>g.
             let ms = gn_Multisig g in
             Ok (if gm_Signers ms = [] \<and> gn_Validators g \<noteq> []
                 then g\<lparr>gn_Multisig := ms\<lparr>gm_Signers := gm_Signers ms @ [vm_PublicKey (hd (gn_Validators g))]\<rparr>\<rparr> else g))))"

section \<open>Files\<close>

definition writeGenesis :: "unit go \<Rightarrow> GenesisFile faults \<Rightarrow> string \<Rightarrow> GenesisFile \<Rightarrow> GenesisFile files \<Rightarrow> GenesisFile files \<times> unit go" where
  "writeGenesis mkdir fault path g fs =
     (case must mkdir of
        Ok _ \<Rightarrow> (case WriteFile fault path g mode_644 fs of (fs, r) \<Rightarrow> (fs, must r))
      | r \<Rightarrow> (fs, r))"

definition mustLoadGenesis :: "string \<Rightarrow> GenesisFile files \<Rightarrow> GenesisFile go" where
  "mustLoadGenesis path fs = must (ReadFile path fs)"

definition mainGenerate :: "crypto \<Rightarrow> (rat \<Rightarrow> u64) \<Rightarrow> key_stream \<Rightarrow> i64 \<Rightarrow> i64 \<Rightarrow> unit go \<Rightarrow> GenesisFile faults \<Rightarrow> gen_flags \<Rightarrow> GenesisFile files \<Rightarrow> GenesisFile files \<times> unit go" where
  "mainGenerate C oor keys now later mkdir fault f fs =
     (case generated C oor keys now later f of
        Ok g \<Rightarrow> writeGenesis mkdir fault (gg_output f) g fs
      | Err e \<Rightarrow> (fs, Err e)
      | Panic e \<Rightarrow> (fs, Panic e))"

section \<open>Signing\<close>

text \<open>\<open>ufold\<close> compares strings outside ASCII.\<close>

definition EqualFold :: "(string \<Rightarrow> string \<Rightarrow> bool) \<Rightarrow> string \<Rightarrow> string \<Rightarrow> bool" where
  "EqualFold ufold s t = (if is_ascii s \<and> is_ascii t then map lower_char s = map lower_char t else ufold s t)"

text \<open>In the intended reading: the source asks the plain bytes for their public key, which does not compile.\<close>

definition generateKeyPairFromHex :: "crypto \<Rightarrow> string \<Rightarrow> (string \<times> string) go" where
  "generateKeyPairFromHex C privHex =
     go_bind (DecodeString (TrimPrefix privHex ''0x'')) (\<lambda>privBytes.
       if length privBytes \<noteq> 64 then Err ''invalid private key size'' else Ok (ed_public C privBytes, privBytes))"

definition add_signature :: "i64 \<Rightarrow> GenesisSignature \<Rightarrow> GenesisFile \<Rightarrow> GenesisFile" where
  "add_signature now s g =
     (let ms = gn_Multisig g; ms = ms\<lparr>gm_Signatures := gm_Signatures ms @ [s]\<rparr>
      in g\<lparr>gn_Multisig := (if gm_Threshold ms \<le> int (length (gm_Signatures ms)) then ms\<lparr>gm_Finalized := True, gm_FinalizedAt := now\<rparr> else ms)\<rparr>)"

definition signed :: "crypto \<Rightarrow> (GenesisFile \<Rightarrow> string go) \<Rightarrow> (string \<Rightarrow> string \<Rightarrow> bool) \<Rightarrow> i64 \<Rightarrow> string \<Rightarrow> string \<Rightarrow> GenesisFile \<Rightarrow> GenesisFile go" where
  "signed C js ufold now privKeyHex address g =
     (if gm_Finalized (gn_Multisig g) then Panic ''genesis already finalized''
      else go_bind (must (generateKeyPairFromHex C privKeyHex)) (\<lambda>(pub, priv).
        if \<not> EqualFold ufold (EncodeToString pub) (TrimPrefix address ''0x'') then Panic ''private key does not match provided address''
        else if \<not> list_ex (\<lambda>s. EqualFold ufold s (EncodeToString pub)) (gm_Signers (gn_Multisig g)) then Panic ''provided public key is not in the signer set''
        else if list_ex (\<lambda>s. EqualFold ufold (gs_SignerAddress s) address) (gm_Signatures (gn_Multisig g)) then Panic ''address already signed''
        else go_bind (must (js g)) (\<lambda>canonicalJSON.
          Ok (add_signature now \<lparr>gs_SignerAddress = address, gs_PublicKey = EncodeToString pub,
                gs_Signature = EncodeToString (ed_sign C priv canonicalJSON), gs_SignedAt = now\<rparr> g))))"

definition mainSign :: "crypto \<Rightarrow> (GenesisFile \<Rightarrow> string go) \<Rightarrow> (string \<Rightarrow> string \<Rightarrow> bool) \<Rightarrow> i64 \<Rightarrow> unit go \<Rightarrow> GenesisFile faults \<Rightarrow>
    string \<Rightarrow> string \<Rightarrow> string \<Rightarrow> string \<Rightarrow> GenesisFile files \<Rightarrow> GenesisFile files \<times> unit go" where
  "mainSign C js ufold now mkdir fault genesisPath privKeyHex address output fs =
     (if privKeyHex = [] \<or> address = [] then (fs, Panic ''--private-key and --address are required'')
      else let output = (if output = [] then genesisPath else output) in
        case go_bind (mustLoadGenesis genesisPath fs) (signed C js ufold now privKeyHex address) of
          Ok g \<Rightarrow> writeGenesis mkdir fault output g fs
        | Err e \<Rightarrow> (fs, Err e)
        | Panic e \<Rightarrow> (fs, Panic e))"

section \<open>Verifying\<close>

text \<open>The report: the verdict on each signature, and whether the file is final. \<open>ed25519.Verify\<close> panics on a public key of the wrong size.\<close>

fun verify_signatures :: "crypto \<Rightarrow> string \<Rightarrow> GenesisSignature list \<Rightarrow> (string \<times> bool) list go" where
  "verify_signatures C canonicalJSON [] = Ok []"
| "verify_signatures C canonicalJSON (s # rest) =
     go_bind (must (DecodeString (gs_PublicKey s))) (\<lambda>pub.
     go_bind (must (DecodeString (gs_Signature s))) (\<lambda>sigBytes.
       if length pub \<noteq> 32 then Panic ''ed25519: bad public key length''
       else go_bind (verify_signatures C canonicalJSON rest) (\<lambda>vs.
         Ok ((gs_SignerAddress s, length sigBytes = 64 \<and> ed_verify C pub canonicalJSON sigBytes) # vs))))"

definition verify_report :: "GenesisFile \<Rightarrow> string option" where
  "verify_report g =
     (let ms = gn_Multisig g in
      if \<not> gm_Finalized ms \<and> gm_Threshold ms \<le> int (length (gm_Signatures ms)) then Some ''Threshold reached but genesis not marked finalized''
      else if gm_Finalized ms then Some ''Genesis finalized'' else None)"

definition mainVerify :: "crypto \<Rightarrow> (GenesisFile \<Rightarrow> string go) \<Rightarrow> string \<Rightarrow> GenesisFile files \<Rightarrow> (string \<times> (string \<times> bool) list \<times> string option) go" where
  "mainVerify C js genesisPath fs =
     go_bind (mustLoadGenesis genesisPath fs) (\<lambda>g.
     go_bind (must (js g)) (\<lambda>canonicalJSON.
     go_bind (verify_signatures C canonicalJSON (gm_Signatures (gn_Multisig g))) (\<lambda>vs.
       Ok (EncodeToString (sha256 C canonicalJSON), vs, verify_report g))))"

section \<open>The command line\<close>

text \<open>The program parses its arguments twice: first when only \<open>-action\<close> is declared, and an argument that is not declared ends the program with status 2. So the other
  settings keep their default values.\<close>

definition genesis_main :: "crypto \<Rightarrow> (GenesisFile \<Rightarrow> string go) \<Rightarrow> (string \<Rightarrow> string \<Rightarrow> bool) \<Rightarrow> (rat \<Rightarrow> u64) \<Rightarrow> key_stream \<Rightarrow> i64 \<Rightarrow> i64 \<Rightarrow> unit go \<Rightarrow>
    GenesisFile faults \<Rightarrow> string \<Rightarrow> GenesisFile files \<Rightarrow> GenesisFile files \<times> unit go" where
  "genesis_main C js ufold oor keys now later mkdir fault action fs =
     (if action = ''generate'' then mainGenerate C oor keys now later mkdir fault default_gen_flags fs
      else if action = ''sign'' then mainSign C js ufold now mkdir fault ''genesis_mainnet.json'' [] [] [] fs
      else if action = ''verify'' then (fs, go_bind (mainVerify C js ''genesis_mainnet.json'' fs) (\<lambda>_. Ok ()))
      else (fs, Ok ()))"

section \<open>Generated files and the node\<close>

text \<open>What \<open>LoadGenesis\<close> of the node reads of a file of the tool: the fields with the same names.\<close>

definition loaded_view :: "GenesisFile \<Rightarrow> genesisFile" where
  "loaded_view g = \<lparr>gf_ChainID = gn_ChainID g, gf_InitialSupply = gn_InitialSupply g, gf_MaxSupply = gn_MaxSupply g,
     gf_Allocations = map (\<lambda>a. \<lparr>ga_Address = al_Address a, ga_PublicKey = al_PublicKey a, ga_Amount = al_Amount a\<rparr>) (gn_Allocations g),
     gf_Validators = map (\<lambda>v. \<lparr>gv_Address = vm_Address v, gv_PublicKey = vm_PublicKey v, gv_Stake = vm_Stake v\<rparr>) (gn_Validators g)\<rparr>"

lemma alloc_loop_keeps:
  "alloc_loop C oor keys later supply i plan g = Ok g' \<Longrightarrow> gn_Validators g' = gn_Validators g \<and> gn_Multisig g' = gn_Multisig g \<and> length (gn_Allocations g') = length (gn_Allocations g) + length plan"
  by (induction plan arbitrary: i g) (auto simp: Let_def go_bind_Ok_iff)

lemma add_validator_fields [simp]:
  "gn_Validators (add_validator i key g) = gn_Validators g @ [\<lparr>vm_Address = kp_address key, vm_PublicKey = kp_publicKey key, vm_Stake = 100000,
     vm_Country = countries ! (i mod length countries), vm_City = city_of (countries ! (i mod length countries)), vm_Contact = ''validator-'' @ fmt_nat (i + 1) @ ''@tender.network''\<rparr>]"
  "length (gn_Allocations (add_validator i key g)) = length (gn_Allocations g) + 1"
  by (simp_all add: add_validator_def Let_def)

lemma validator_loop_allocations: "validator_loop C keys k i g = Ok g' \<Longrightarrow> length (gn_Allocations g') = length (gn_Allocations g) + k"
  by (induction k arbitrary: i g) (auto simp: go_bind_Ok_iff)

lemma validator_loop_stakes:
  "validator_loop C keys k i g = Ok g' \<Longrightarrow> \<exists>vs. gn_Validators g' = gn_Validators g @ vs \<and> length vs = k \<and> list_all (\<lambda>v. vm_Stake v = 100000) vs"
proof (induction k arbitrary: i g)
  case (Suc k)
  then obtain key where "validator_loop C keys k (i + 1) (add_validator i key g) = Ok g'" by (auto simp: go_bind_Ok_iff)
  from Suc.IH [OF this] show ?case by auto
qed simp

lemma generated_shape:
  assumes "generated C oor keys now later f = Ok g"
  shows "length (gn_Validators g) = nat (gg_validatorCount f)" "length (gn_Allocations g) = 5 + nat (gg_validatorCount f)"
    "list_all (\<lambda>v. vm_Stake v = 100000) (gn_Validators g)"
proof -
  obtain g1 g2 where 1: "alloc_loop C oor keys later (gg_initialSupply f) 0 (allocation_plan f) (blank_genesis f now) = Ok g1"
    and 2: "validator_loop C keys (nat (gg_validatorCount f)) 0 g1 = Ok g2" and g: "gn_Validators g = gn_Validators g2" "gn_Allocations g = gn_Allocations g2"
    using assms by (auto simp: generated_def Let_def simp: go_bind_Ok_iff split: if_splits)
  have "gn_Validators g1 = []" "length (gn_Allocations g1) = 5"
    using alloc_loop_keeps [OF 1] by (simp_all add: blank_genesis_def allocation_plan_def)
  with validator_loop_stakes [OF 2] validator_loop_allocations [OF 2] g
  show "length (gn_Validators g) = nat (gg_validatorCount f)" "length (gn_Allocations g) = 5 + nat (gg_validatorCount f)"
    "list_all (\<lambda>v. vm_Stake v = 100000) (gn_Validators g)" by auto
qed

text \<open>The tool gives its validators a stake of 100000 base units; the node asks for \<open>MinStake\<close>, ten thousand times as much. So the node refuses every file that the tool
  generates with a validator.\<close>

theorem generated_genesis_is_refused:
  assumes "generated C oor keys now later f = Ok g" and "0 < gg_validatorCount f"
  shows "snd (LoadGenesis E (\<lambda>_. Ok (loaded_view g)) (Ok data) bc) \<noteq> Ok ()"
proof
  assume "snd (LoadGenesis E (\<lambda>_. Ok (loaded_view g)) (Ok data) bc) = Ok ()"
  then have all: "list_all (\<lambda>v. MinStake \<le> vm_Stake v) (gn_Validators g)"
    using LoadGenesis_decoded [of "Ok data" "\<lambda>_. Ok (loaded_view g)" "loaded_view g" E bc] by (simp add: loaded_view_def list_all_iff)
  obtain v vs where "gn_Validators g = v # vs"
    using generated_shape(1) [OF assms(1)] assms(2) by (cases "gn_Validators g") auto
  with all generated_shape(3) [OF assms(1)] show False by (simp add: MinStake_def word_le_nat_alt)
qed

section \<open>Signatures\<close>

text \<open>The invariant of the signatures of a file: it is final exactly when there are as many signatures as the threshold asks for, each is by a key of the signer set, under an
  address that names the key, and no address appears twice.\<close>

definition signers_ok :: "(string \<Rightarrow> string \<Rightarrow> bool) \<Rightarrow> GenesisFile \<Rightarrow> bool" where
  "signers_ok ufold g \<longleftrightarrow>
     (let ms = gn_Multisig g in
      (gm_Finalized ms \<longleftrightarrow> gm_Threshold ms \<le> int (length (gm_Signatures ms))) \<and>
      list_all (\<lambda>s. list_ex (\<lambda>k. EqualFold ufold k (gs_PublicKey s)) (gm_Signers ms) \<and> EqualFold ufold (gs_PublicKey s) (TrimPrefix (gs_SignerAddress s) ''0x'')) (gm_Signatures ms) \<and>
      sorted_wrt (\<lambda>s t. \<not> EqualFold ufold (gs_SignerAddress s) (gs_SignerAddress t)) (gm_Signatures ms))"

lemma signed_OkE:
  assumes "signed C js ufold now privKeyHex address g = Ok g'"
  obtains pub priv canonicalJSON where "\<not> gm_Finalized (gn_Multisig g)" "generateKeyPairFromHex C privKeyHex = Ok (pub, priv)"
    "EqualFold ufold (EncodeToString pub) (TrimPrefix address ''0x'')" "list_ex (\<lambda>s. EqualFold ufold s (EncodeToString pub)) (gm_Signers (gn_Multisig g))"
    "\<not> list_ex (\<lambda>s. EqualFold ufold (gs_SignerAddress s) address) (gm_Signatures (gn_Multisig g))" "js g = Ok canonicalJSON"
    "g' = add_signature now \<lparr>gs_SignerAddress = address, gs_PublicKey = EncodeToString pub, gs_Signature = EncodeToString (ed_sign C priv canonicalJSON), gs_SignedAt = now\<rparr> g"
  using assms by (auto simp: signed_def must_def simp: go_bind_Ok_iff split: if_splits go.splits)

text \<open>Signing keeps the invariant and adds one signature.\<close>

lemma signing_step:
  assumes "signers_ok ufold g" and "signed C js ufold now privKeyHex address g = Ok g'"
  shows "signers_ok ufold g' \<and> length (gm_Signatures (gn_Multisig g')) = Suc (length (gm_Signatures (gn_Multisig g))) \<and>
    gm_Signers (gn_Multisig g') = gm_Signers (gn_Multisig g) \<and> gn_Allocations g' = gn_Allocations g \<and> gn_Validators g' = gn_Validators g"
  by (rule signed_OkE [OF assms(2)], use assms(1) in
    \<open>auto simp: signers_ok_def add_signature_def Let_def sorted_wrt_append list_ex_iff\<close>)

text \<open>The bytes that are signed are never those that are verified: the signature covers the file before it is entered, verification the file that holds it.\<close>

theorem signature_is_over_other_bytes:
  assumes "signed C js ufold now privKeyHex address g = Ok g'" and "inj js"
  shows "\<exists>pub priv m m'. generateKeyPairFromHex C privKeyHex = Ok (pub, priv) \<and> js g = Ok m \<and> js g' \<noteq> Ok m \<and>
    gs_Signature (last (gm_Signatures (gn_Multisig g'))) = EncodeToString (ed_sign C priv m)"
proof (rule signed_OkE [OF assms(1)])
  fix pub priv m
  let ?s = "\<lparr>gs_SignerAddress = address, gs_PublicKey = EncodeToString pub, gs_Signature = EncodeToString (ed_sign C priv m), gs_SignedAt = now\<rparr>"
  assume *: "generateKeyPairFromHex C privKeyHex = Ok (pub, priv)" "js g = Ok m" "g' = add_signature now ?s g"
  have sigs: "gm_Signatures (gn_Multisig g') = gm_Signatures (gn_Multisig g) @ [?s]" by (simp add: *(3) add_signature_def Let_def)
  then have "g' \<noteq> g" by (metis append_self_conv not_Cons_self2)
  with assms(2) *(2) have "js g' \<noteq> Ok m" by (metis injD)
  with * sigs show ?thesis by auto
qed

text \<open>Any number of signings after a file was generated.\<close>

fun sign_all :: "crypto \<Rightarrow> (GenesisFile \<Rightarrow> string go) \<Rightarrow> (string \<Rightarrow> string \<Rightarrow> bool) \<Rightarrow> (i64 \<times> string \<times> string) list \<Rightarrow> GenesisFile \<Rightarrow> GenesisFile go" where
  "sign_all C js ufold [] g = Ok g"
| "sign_all C js ufold ((now, priv, address) # rest) g = go_bind (signed C js ufold now priv address g) (sign_all C js ufold rest)"

lemma add_validator_multisig [simp]:
  "gm_Signatures (gn_Multisig (add_validator i key g)) = gm_Signatures (gn_Multisig g)" "gm_Finalized (gn_Multisig (add_validator i key g)) = gm_Finalized (gn_Multisig g)"
  "gm_Threshold (gn_Multisig (add_validator i key g)) = gm_Threshold (gn_Multisig g)"
  by (simp_all add: add_validator_def Let_def)

lemma validator_loop_multisig: "validator_loop C keys k i g = Ok g' \<Longrightarrow> gm_Signatures (gn_Multisig g') = gm_Signatures (gn_Multisig g) \<and>
  gm_Finalized (gn_Multisig g') = gm_Finalized (gn_Multisig g) \<and> gm_Threshold (gn_Multisig g') = gm_Threshold (gn_Multisig g)"
proof (induction k arbitrary: i g)
  case (Suc k)
  then obtain key where "validator_loop C keys k (i + 1) (add_validator i key g) = Ok g'" by (auto simp: go_bind_Ok_iff)
  from Suc.IH [OF this] show ?case by simp
qed simp

lemma generated_signers_ok:
  assumes "generated C oor keys now later f = Ok g"
  shows "signers_ok ufold g" "gm_Signatures (gn_Multisig g) = []" "gm_Threshold (gn_Multisig g) = 2"
proof -
  obtain g1 g2 where 1: "alloc_loop C oor keys later (gg_initialSupply f) 0 (allocation_plan f) (blank_genesis f now) = Ok g1"
    and 2: "validator_loop C keys (nat (gg_validatorCount f)) 0 g1 = Ok g2"
    and g: "gm_Signatures (gn_Multisig g) = gm_Signatures (gn_Multisig g2)" "gm_Finalized (gn_Multisig g) = gm_Finalized (gn_Multisig g2)" "gm_Threshold (gn_Multisig g) = gm_Threshold (gn_Multisig g2)"
    using assms by (auto simp: generated_def Let_def go_bind_Ok_iff split: if_splits)
  have "gn_Multisig g1 = gn_Multisig (blank_genesis f now)" using alloc_loop_keeps [OF 1] by simp
  with validator_loop_multisig [OF 2] g
  show "signers_ok ufold g" "gm_Signatures (gn_Multisig g) = []" "gm_Threshold (gn_Multisig g) = 2"
    by (simp_all add: signers_ok_def blank_genesis_def Let_def)
qed

lemma sign_all_ok:
  "sign_all C js ufold reqs g = Ok g' \<Longrightarrow> signers_ok ufold g \<Longrightarrow> signers_ok ufold g' \<and> gm_Threshold (gn_Multisig g') = gm_Threshold (gn_Multisig g) \<and>
     length (gm_Signatures (gn_Multisig g')) = length (gm_Signatures (gn_Multisig g)) + length reqs"
proof (induction reqs arbitrary: g)
  case (Cons r reqs)
  obtain now priv address where r: "r = (now, priv, address)" by (cases r)
  from Cons.prems(1) obtain h where h: "signed C js ufold now priv address g = Ok h" "sign_all C js ufold reqs h = Ok g'" by (auto simp: r go_bind_Ok_iff)
  have "gm_Threshold (gn_Multisig h) = gm_Threshold (gn_Multisig g)"
    by (rule signed_OkE [OF h(1)]) (simp add: add_signature_def Let_def)
  with Cons.IH [OF h(2)] signing_step [OF Cons.prems(2) h(1)] show ?case by simp
qed simp

text \<open>What the mark of a final file means, in the intended reading of \<open>generateKeyPairFromHex\<close>: after the file was generated and signed any number of times, it is marked final exactly when at least two
  entries have been added, each naming the public key of a signer of the file and entered under an address that names this key, no two under the
  same address. Addresses are compared as they are written, so that this does not mean two signers (\<open>one_signer_finalizes\<close>), and the bytes of the signatures, which are over a state of the file that no longer
  exists (\<open>signature_is_over_other_bytes\<close>), play no part in it.\<close>

theorem final_genesis_is_signed:
  assumes "generated C oor keys now later f = Ok g" and "sign_all C js ufold reqs g = Ok g'"
  shows "signers_ok ufold g' \<and> (gm_Finalized (gn_Multisig g') \<longleftrightarrow> 2 \<le> length reqs)"
proof -
  have "signers_ok ufold g' \<and> gm_Threshold (gn_Multisig g') = 2 \<and> length (gm_Signatures (gn_Multisig g')) = length reqs"
    using sign_all_ok [OF assms(2) generated_signers_ok(1) [OF assms(1)]] generated_signers_ok(2,3) [OF assms(1)] by simp
  then show ?thesis by (auto simp: signers_ok_def Let_def)
qed

lemma hex_digit_plain: "n < 16 \<Longrightarrow> hex_digit n \<noteq> CHR ''x'' \<and> of_char (hex_digit n) < (128 :: nat)"
  by (auto simp: hex_digit_def char_of_eq_iff take_bit_nat_def)

lemma of_char_div_16: "of_char c div 16 < (16 :: nat)"
  using nat_of_char_less_256 [of c] by (simp add: less_mult_imp_div_less)

lemma EncodeToString_plain: "is_ascii (EncodeToString s)" "\<not> prefix ''0x'' (EncodeToString s)"
proof -
  show "is_ascii (EncodeToString s)"
    by (induction s rule: EncodeToString.induct) (auto simp: is_ascii_def hex_digit_plain of_char_div_16)
  show "\<not> prefix ''0x'' (EncodeToString s)"
    using hex_digit_plain [of "of_char (hd s) mod 16"] by (cases s) auto
qed

text \<open>An address may be written with or without \<open>0x\<close>, and the two count as different signers: one signer makes the file final alone.\<close>

theorem one_signer_finalizes:
  assumes "length priv = 64" and "js = (\<lambda>x. Ok (enc x))"
    and g: "\<not> gm_Finalized (gn_Multisig g)" "gm_Threshold (gn_Multisig g) = 2" "gm_Signatures (gn_Multisig g) = []"
      "EncodeToString (ed_public C priv) \<in> set (gm_Signers (gn_Multisig g))"
  shows "\<exists>g'. sign_all C js ufold [(t, EncodeToString priv, EncodeToString (ed_public C priv)), (t, EncodeToString priv, ''0x'' @ EncodeToString (ed_public C priv))] g = Ok g' \<and>
    gm_Finalized (gn_Multisig g')"
proof -
  let ?pub = "EncodeToString (ed_public C priv)"
  have trim: "TrimPrefix (EncodeToString s) ''0x'' = EncodeToString s" "TrimPrefix (''0x'' @ EncodeToString s) ''0x'' = EncodeToString s" for s
    using EncodeToString_plain(2) [of s] by (simp_all add: TrimPrefix_def)
  have key: "generateKeyPairFromHex C (EncodeToString priv) = Ok (ed_public C priv, priv)" using assms(1) by (simp add: generateKeyPairFromHex_def trim)
  have same: "EqualFold ufold ?pub ?pub" by (simp add: EqualFold_def EncodeToString_plain)
  then have signer: "list_ex (\<lambda>s. EqualFold ufold s ?pub) (gm_Signers (gn_Multisig g))" using g(4) by (auto simp: list_ex_iff)
  have "is_ascii (''0x'' @ ?pub)" using EncodeToString_plain(1) by (simp add: is_ascii_def)
  then have other: "\<not> EqualFold ufold ?pub (''0x'' @ ?pub)" using EncodeToString_plain(1) by (auto simp: EqualFold_def dest!: arg_cong [of _ _ length])
  show ?thesis
    using g(1-3) signer same other by (simp add: signed_def key trim trim(2) [simplified] must_def assms(2) add_signature_def Let_def)
qed

text \<open>The program cannot be told a key on its command line: signing always ends with a panic.\<close>

lemma sign_command_panics: "\<exists>e. genesis_main C js ufold oor keys now later mkdir fault ''sign'' fs = (fs, Panic e)"
  by (simp add: genesis_main_def mainSign_def)

section \<open>Examples\<close>

definition demo_gen_flags :: gen_flags where
  "demo_gen_flags = default_gen_flags\<lparr>gg_validatorCount := 1, gg_teamPct := 1 / 2, gg_communityPct := 1 / 2, gg_treasuryPct := 0, gg_stakingPct := 0, gg_liquidityPct := 0\<rparr>"

definition demo_signer :: string where
  "demo_signer = replicate 64 CHR ''k''"

definition demo_keys :: key_stream where
  "demo_keys i = Ok (ed_public demo_crypto demo_signer, demo_signer)"

lemma demo_pctTotal: "pctTotal demo_gen_flags = 1"
  using fl_of_nat [of 1] by (simp add: pctTotal_def demo_gen_flags_def default_gen_flags_def)

lemma demo_generated:
  "\<exists>g. generated demo_crypto (\<lambda>_. 0) demo_keys 3 9 demo_gen_flags = Ok g \<and> gm_Signers (gn_Multisig g) = [EncodeToString (ed_public demo_crypto demo_signer)] \<and>
     gm_Threshold (gn_Multisig g) = 2 \<and> gm_Signatures (gn_Multisig g) = [] \<and> \<not> gm_Finalized (gn_Multisig g)"
  by (simp add: generated_def demo_pctTotal allocation_plan_def demo_keys_def generateKeyPair_def must_def Let_def)
    (simp add: demo_gen_flags_def default_gen_flags_def blank_genesis_def add_validator_def demo_keys_def generateKeyPair_def must_def Let_def)

theorem final_genesis_is_signed_witness:
  "\<exists>g g'. generated demo_crypto (\<lambda>_. 0) demo_keys 3 9 demo_gen_flags = Ok g \<and>
     sign_all demo_crypto (\<lambda>_. Ok ''json'') (=) [(4, EncodeToString demo_signer, EncodeToString (ed_public demo_crypto demo_signer)),
       (4, EncodeToString demo_signer, ''0x'' @ EncodeToString (ed_public demo_crypto demo_signer))] g = Ok g' \<and> signers_ok (=) g' \<and> gm_Finalized (gn_Multisig g')"
proof -
  obtain g where g: "generated demo_crypto (\<lambda>_. 0) demo_keys 3 9 demo_gen_flags = Ok g" "gm_Signers (gn_Multisig g) = [EncodeToString (ed_public demo_crypto demo_signer)]"
    "gm_Threshold (gn_Multisig g) = 2" "gm_Signatures (gn_Multisig g) = []" "\<not> gm_Finalized (gn_Multisig g)"
    using demo_generated by blast
  have "length demo_signer = 64" by (simp add: demo_signer_def)
  from one_signer_finalizes [where enc = "\<lambda>_. ''json''" and C = demo_crypto and ufold = "(=)" and t = 4, OF this refl g(5,3,4)] g(2)
  obtain g' where g': "sign_all demo_crypto (\<lambda>_. Ok ''json'') (=) [(4, EncodeToString demo_signer, EncodeToString (ed_public demo_crypto demo_signer)),
       (4, EncodeToString demo_signer, ''0x'' @ EncodeToString (ed_public demo_crypto demo_signer))] g = Ok g'" "gm_Finalized (gn_Multisig g')" by auto
  with final_genesis_is_signed [OF g(1) g'(1)] g(1) show ?thesis by blast
qed

end
