(* ===== verification/Onboard_Tool.thy ===== *)
theory Onboard_Tool
  imports Tool_World
begin

text \<open>
  The tools that make the files of a new validator: \<open>validator-onboard/main.go\<close>, with its flags and with its prompts, and the helpers of \<open>validator_onboarding.go\<close> of the node.
  A file holds the value that is encoded. \<open>now\<close> is the time, \<open>ip\<close> the local address that is detected.
\<close>

section \<open>Data\<close>

record ToolIdentity =
  ti_Name :: string
  ti_Address :: string
  ti_PublicKey :: string
  ti_PrivateKey :: string
  ti_Stake :: u64
  ti_Country :: string
  ti_Region :: string
  ti_City :: string
  ti_IPAddress :: string
  ti_P2PPort :: int
  ti_APIPort :: int
  ti_MetricsPort :: int
  ti_UptimeSLA :: string
  ti_Consensus :: string
  ti_Network :: string
  ti_TelemetryEndpoint :: string
  ti_RegisteredAt :: int
  ti_LastHeartbeatAt :: int

record ValidatorManifest =
  vf_Network :: string
  vf_Chain :: string
  vf_Version :: string
  vf_GeneratedAt :: int
  vf_Validators :: "ToolIdentity list"
  vf_BootstrapSeeds :: "string list"
  vf_TelemetryURL :: string

datatype telemetry_value = TStr string | TNum u64 | TTime int

datatype artifact = ManifestFile ValidatorManifest | IdentityFile ToolIdentity | EnvFile string | TelemetryFile "(string \<times> telemetry_value) list"

text \<open>The private key that a file shows to its reader.\<close>

fun shown_keys :: "artifact \<Rightarrow> string list" where
  "shown_keys (ManifestFile m) = map ti_PrivateKey (vf_Validators m)"
| "shown_keys (IdentityFile i) = [ti_PrivateKey i]"
| "shown_keys _ = []"

record onboard_flags =
  of_name :: string
  of_country :: string
  of_region :: string
  of_city :: string
  of_stake :: u64
  of_network :: string
  of_consensus :: string
  of_output :: string
  of_p2pPort :: int
  of_apiPort :: int
  of_metricsPort :: int
  of_telemetryURL :: string

definition upper_char :: "char \<Rightarrow> char" where
  "upper_char c = (if 97 \<le> (of_char c :: nat) \<and> (of_char c :: nat) \<le> 122 then char_of (of_char c - 32 :: nat) else c)"

definition ToUpper :: "(string \<Rightarrow> string) \<Rightarrow> string \<Rightarrow> string" where
  "ToUpper uupper s = (if is_ascii s then map upper_char s else uupper s)"

definition fmt_int :: "int \<Rightarrow> string" where
  "fmt_int v = (if v < 0 then CHR ''-'' # fmt_nat (nat (- v)) else fmt_nat (nat v))"

section \<open>Files\<close>

definition writeJSON :: "artifact faults \<Rightarrow> string \<Rightarrow> artifact \<Rightarrow> nat \<Rightarrow> artifact files \<Rightarrow> artifact files \<times> unit go" where
  "writeJSON fault path v perm fs =
     (case WriteFile fault path v perm fs of (fs, Ok _) \<Rightarrow> (fs, Ok ()) | (fs, Err e) \<Rightarrow> (fs, Panic e) | (fs, Panic e) \<Rightarrow> (fs, Panic e))"

text \<open>Several files, in order; the first failure ends the program.\<close>

fun write_all :: "artifact faults \<Rightarrow> (string \<times> artifact \<times> nat) list \<Rightarrow> artifact files \<Rightarrow> artifact files \<times> unit go" where
  "write_all fault [] fs = (fs, Ok ())"
| "write_all fault ((path, v, perm) # rest) fs =
     (case writeJSON fault path v perm fs of (fs, Ok _) \<Rightarrow> write_all fault rest fs | (fs, r) \<Rightarrow> (fs, r))"

section \<open>With flags\<close>

definition flag_identity :: "crypto \<Rightarrow> (string \<Rightarrow> string) \<Rightarrow> string \<times> string \<Rightarrow> string \<Rightarrow> int \<Rightarrow> onboard_flags \<Rightarrow> ToolIdentity" where
  "flag_identity C uupper key ip now f =
     (case key of (pub, priv) \<Rightarrow>
       \<lparr>ti_Name = of_name f, ti_Address = EncodeToString (sha256 C pub), ti_PublicKey = EncodeToString pub, ti_PrivateKey = EncodeToString priv, ti_Stake = of_stake f,
        ti_Country = ToUpper uupper (of_country f), ti_Region = of_region f, ti_City = of_city f, ti_IPAddress = ip @ '':'' @ fmt_int (of_p2pPort f),
        ti_P2PPort = of_p2pPort f, ti_APIPort = of_apiPort f, ti_MetricsPort = of_metricsPort f, ti_UptimeSLA = ''99.90%'', ti_Consensus = of_consensus f, ti_Network = of_network f,
        ti_TelemetryEndpoint = of_telemetryURL f, ti_RegisteredAt = now, ti_LastHeartbeatAt = now\<rparr>)"

definition new_manifest :: "int \<Rightarrow> ToolIdentity \<Rightarrow> string list \<Rightarrow> ValidatorManifest" where
  "new_manifest now i seeds = \<lparr>vf_Network = ti_Network i, vf_Chain = ''go-chain'', vf_Version = ''v1.0.0'', vf_GeneratedAt = now, vf_Validators = [i],
     vf_BootstrapSeeds = seeds, vf_TelemetryURL = ti_TelemetryEndpoint i\<rparr>"

definition newline :: string where
  "newline = [CHR 0x0A]"

definition env_content :: "string \<Rightarrow> ToolIdentity \<Rightarrow> string" where
  "env_content outDir i =
     ''TENDER_VALIDATOR_NAME='' @ ti_Name i @ newline @ ''TENDER_VALIDATOR_ADDRESS='' @ ti_Address i @ newline @ ''TENDER_VALIDATOR_PUBLIC_KEY='' @ ti_PublicKey i @ newline @
     ''TENDER_P2P_PORT='' @ fmt_int (ti_P2PPort i) @ newline @ ''TENDER_API_PORT='' @ fmt_int (ti_APIPort i) @ newline @ ''TENDER_METRICS_PORT='' @ fmt_int (ti_MetricsPort i) @ newline @
     ''TENDER_DATA_DIR='' @ path_Join [outDir, ''data''] @ newline @ ''TENDER_CONSENSUS='' @ ti_Consensus i @ newline @ ''TENDER_TELEMETRY_ENDPOINT='' @ ti_TelemetryEndpoint i @ newline"

definition telemetry_payload :: "ToolIdentity \<Rightarrow> (string \<times> telemetry_value) list" where
  "telemetry_payload i = [(''validator_address'', TStr (ti_Address i)), (''validator_name'', TStr (ti_Name i)), (''public_key'', TStr (ti_PublicKey i)), (''country'', TStr (ti_Country i)),
     (''region'', TStr (ti_Region i)), (''city'', TStr (ti_City i)), (''ip_address'', TStr (ti_IPAddress i)), (''network'', TStr (ti_Network i)), (''consensus'', TStr (ti_Consensus i)),
     (''stake'', TNum (ti_Stake i)), (''uptime_sla'', TStr (ti_UptimeSLA i)), (''registered_at'', TTime (ti_RegisteredAt i))]"

definition onboard_dir :: "onboard_flags \<Rightarrow> string" where
  "onboard_dir f = (if of_output f = [] then path_Join [''.'', ''validator-'' @ of_name f] else of_output f)"

definition onboard_files :: "string \<Rightarrow> ToolIdentity \<Rightarrow> int \<Rightarrow> (string \<times> artifact \<times> nat) list" where
  "onboard_files outDir i now =
     [(path_Join [outDir, ''validator_manifest.json''], ManifestFile (new_manifest now i [ti_IPAddress i]), mode_644),
      (path_Join [outDir, ''validator.key.json''], IdentityFile i, mode_600),
      (path_Join [outDir, ''validator.public.json''], IdentityFile (i\<lparr>ti_PrivateKey := []\<rparr>), mode_644),
      (path_Join [outDir, ''.env''], EnvFile (env_content outDir i), mode_600),
      (path_Join [outDir, ''telemetry_payload.json''], TelemetryFile (telemetry_payload i), mode_644)]"

text \<open>The error of making the directory is ignored.\<close>

definition onboard_main :: "crypto \<Rightarrow> (string \<Rightarrow> string) \<Rightarrow> artifact faults \<Rightarrow> (string \<times> string) go \<Rightarrow> string \<Rightarrow> int \<Rightarrow> onboard_flags \<Rightarrow> artifact files \<Rightarrow> artifact files \<times> tool_exit" where
  "onboard_main C uupper fault key ip now f fs =
     (if of_name f = [] \<or> of_country f = [] \<or> of_stake f = 0
      then (fs, Exit1 ''usage: validator-onboard [--name NAME] [--country CODE] [--stake AMOUNT] [--output DIR]'')
      else case key of
        Err e \<Rightarrow> (fs, Crash e)
      | Panic e \<Rightarrow> (fs, Crash e)
      | Ok k \<Rightarrow>
          (let i = flag_identity C uupper k ip now f; outDir = onboard_dir f in
           case write_all fault (onboard_files outDir i now) fs of
             (fs, Ok _) \<Rightarrow> (fs, Exit0 [''validator identity generated successfully'', ''  address:         '' @ ti_Address i, ''  public key:      '' @ ti_PublicKey i,
               ''  files written:   '' @ outDir, ''  manifest:        '' @ path_Join [outDir, ''validator_manifest.json''],
               ''  telemetry:       '' @ path_Join [outDir, ''telemetry_payload.json''], ''  p2p address:     '' @ ti_IPAddress i,
               ''  api endpoint:    http://'' @ ip @ '':'' @ fmt_int (of_apiPort f)])
           | (fs, Err e) \<Rightarrow> (fs, Crash e)
           | (fs, Panic e) \<Rightarrow> (fs, Crash e)))"

section \<open>With prompts\<close>

text \<open>What the prompts deliver, the zero value where nothing could be read; zero values of the later ones are replaced by defaults. The error of drawing a key is ignored, which leaves
  empty keys.\<close>

definition with_defaults :: "onboard_flags \<Rightarrow> onboard_flags" where
  "with_defaults f = f\<lparr>of_network := (if of_network f = [] then ''tdr-testnet'' else of_network f), of_consensus := (if of_consensus f = [] then ''pos'' else of_consensus f),
     of_p2pPort := (if of_p2pPort f = 0 then 3030 else of_p2pPort f), of_apiPort := (if of_apiPort f = 0 then 8080 else of_apiPort f),
     of_metricsPort := (if of_metricsPort f = 0 then 9090 else of_metricsPort f),
     of_telemetryURL := (if of_telemetryURL f = [] then ''https://telemetry.tender.network/api/v1/register'' else of_telemetryURL f)\<rparr>"

definition runInteractive :: "crypto \<Rightarrow> (string \<Rightarrow> string) \<Rightarrow> artifact faults \<Rightarrow> (string \<times> string) go \<Rightarrow> int \<Rightarrow> onboard_flags \<Rightarrow> artifact files \<Rightarrow> artifact files \<times> tool_exit" where
  "runInteractive C uupper fault key now f0 fs =
     (let f = with_defaults f0;
          k = (case key of Ok k \<Rightarrow> k | _ \<Rightarrow> ([], []));
          i = (flag_identity C uupper k [] now f)\<lparr>ti_IPAddress := []\<rparr>;
          outDir = path_Join [''.'', ''validator-'' @ of_name f]
      in case write_all fault [(path_Join [outDir, ''validator_manifest.json''], ManifestFile (new_manifest now i []), mode_644),
             (path_Join [outDir, ''validator.key.json''], IdentityFile i, mode_600)] fs of
           (fs, Ok _) \<Rightarrow> (fs, Exit0 [''Validator registered at '' @ outDir, ''Address: '' @ ti_Address i])
         | (fs, Err e) \<Rightarrow> (fs, Crash e)
         | (fs, Panic e) \<Rightarrow> (fs, Crash e))"

section \<open>The helpers of the node\<close>

record ValidatorIdentity =
  vi_Name :: string
  vi_PublicKey :: string
  vi_PrivateKeyPath :: string
  vi_Country :: string
  vi_Region :: string
  vi_Weight :: u64

record ValidatorTelemetryPayload =
  vt_ValidatorID :: string
  vt_PublicKey :: string
  vt_Country :: string
  vt_Region :: string
  vt_Weight :: u64
  vt_Seeds :: "string list"

datatype identity_file = RawKey string | PayloadFile ValidatorTelemetryPayload

definition GenerateValidatorIdentity :: "identity_file faults \<Rightarrow> (string \<times> string) go \<Rightarrow> unit go \<Rightarrow> string \<Rightarrow> string \<Rightarrow> string \<Rightarrow> u64 \<Rightarrow> string \<Rightarrow> identity_file files \<Rightarrow>
    identity_file files \<times> ValidatorIdentity go" where
  "GenerateValidatorIdentity fault key mkdir name country region weight seedDir fs =
     (case key of
        Err e \<Rightarrow> (fs, Err e) | Panic e \<Rightarrow> (fs, Panic e)
      | Ok (pub, priv) \<Rightarrow>
          (case mkdir of
             Err e \<Rightarrow> (fs, Err e) | Panic e \<Rightarrow> (fs, Panic e)
           | Ok _ \<Rightarrow>
               (let keyPath = path_Join [seedDir, name @ ''.key''] in
                case WriteFile fault keyPath (RawKey priv) mode_600 fs of
                  (fs, Err e) \<Rightarrow> (fs, Err e) | (fs, Panic e) \<Rightarrow> (fs, Panic e)
                | (fs, Ok _) \<Rightarrow> (fs, Ok \<lparr>vi_Name = name, vi_PublicKey = EncodeToString pub, vi_PrivateKeyPath = keyPath, vi_Country = country, vi_Region = region, vi_Weight = weight\<rparr>))))"

definition TelemetryPayload :: "ValidatorIdentity \<Rightarrow> string list \<Rightarrow> ValidatorTelemetryPayload" where
  "TelemetryPayload v seeds = \<lparr>vt_ValidatorID = vi_Name v, vt_PublicKey = vi_PublicKey v, vt_Country = vi_Country v, vt_Region = vi_Region v, vt_Weight = vi_Weight v, vt_Seeds = seeds\<rparr>"

definition WriteValidatorPayload :: "identity_file faults \<Rightarrow> string \<Rightarrow> ValidatorTelemetryPayload \<Rightarrow> identity_file files \<Rightarrow> identity_file files \<times> unit go" where
  "WriteValidatorPayload fault path payload fs = WriteFile fault path (PayloadFile payload) mode_644 fs"

section \<open>What the files show\<close>

lemma writeJSON_Ok: "writeJSON fault path v perm fs = (fs', Ok u) \<longleftrightarrow> fault path = None \<and> fs' = put_file path v perm fs"
  by (auto simp: writeJSON_def WriteFile_def split: option.splits)

lemma write_all_Ok:
  "write_all fault ws fs = (fs', Ok u) \<Longrightarrow> fs' = fold (\<lambda>(path, v, perm). put_file path v perm) ws fs"
  by (induction ws arbitrary: fs) (auto simp: writeJSON_Ok split: prod.splits go.splits)

text \<open>After a run that ends well, each of the five files holds what it is meant to hold.\<close>

lemma onboard_dir_nonempty: "onboard_dir f \<noteq> []"
  by (simp add: onboard_dir_def path_Join_def path_Clean_def Let_def)

lemma onboard_names:
  "plain_name ''validator_manifest.json''" "plain_name ''validator.key.json''" "plain_name ''validator.public.json''" "plain_name ''.env''" "plain_name ''telemetry_payload.json''"
  by (simp_all add: plain_name_def)

lemma onboard_main_files:
  assumes "onboard_main C uupper fault (Ok k) ip now f fs = (fs', Exit0 out)" and "(path, v, perm) \<in> set (onboard_files (onboard_dir f) (flag_identity C uupper k ip now f) now)"
    and "fmlookup fs path = None"
  shows "fmlookup fs' path = Some (v, perm)"
proof -
  let ?ws = "onboard_files (onboard_dir f) (flag_identity C uupper k ip now f) now"
  have "write_all fault ?ws fs = (fs', Ok ())" using assms(1) by (auto simp: onboard_main_def Let_def split: if_splits prod.splits go.splits)
  then have "fs' = fold (\<lambda>(path, v, perm). put_file path v perm) ?ws fs" by (rule write_all_Ok)
  then show ?thesis using assms(2,3) onboard_names onboard_dir_nonempty [of f]
    by (auto simp: onboard_files_def path_Join_inj)
qed

text \<open>The file of the public identity and the telemetry do not show the private key, and the file that is meant for it is for the owner only; but the manifest, which every user may
  read, holds the whole identity with the key.\<close>

theorem manifest_shows_private_key:
  assumes "onboard_main C uupper fault (Ok (pub, priv)) ip now f fs = (fs', Exit0 out)" and "fmlookup fs (path_Join [onboard_dir f, ''validator_manifest.json'']) = None"
  shows "\<exists>v mode. fmlookup fs' (path_Join [onboard_dir f, ''validator_manifest.json'']) = Some (v, mode) \<and> world_readable mode \<and> EncodeToString priv \<in> set (shown_keys v)"
proof -
  let ?i = "flag_identity C uupper (pub, priv) ip now f"
  have "fmlookup fs' (path_Join [onboard_dir f, ''validator_manifest.json'']) = Some (ManifestFile (new_manifest now ?i [ti_IPAddress ?i]), mode_644)"
    by (rule onboard_main_files [OF assms(1) _ assms(2)]) (simp add: onboard_files_def)
  then show ?thesis by (simp add: world_readable_def new_manifest_def flag_identity_def)
qed

theorem public_files_hide_key:
  assumes "onboard_main C uupper fault (Ok (pub, priv)) ip now f fs = (fs', Exit0 out)" and "name \<in> {''validator.public.json'', ''.env'', ''telemetry_payload.json''}"
    and "fmlookup fs (path_Join [onboard_dir f, name]) = None" and "priv \<noteq> []"
  shows "\<exists>v mode. fmlookup fs' (path_Join [onboard_dir f, name]) = Some (v, mode) \<and> EncodeToString priv \<notin> set (shown_keys v)"
proof -
  let ?i = "flag_identity C uupper (pub, priv) ip now f"
  let ?ws = "onboard_files (onboard_dir f) ?i now"
  have "(path_Join [onboard_dir f, ''validator.public.json''], IdentityFile (?i\<lparr>ti_PrivateKey := []\<rparr>), mode_644) \<in> set ?ws"
    "(path_Join [onboard_dir f, ''.env''], EnvFile (env_content (onboard_dir f) ?i), mode_600) \<in> set ?ws"
    "(path_Join [onboard_dir f, ''telemetry_payload.json''], TelemetryFile (telemetry_payload ?i), mode_644) \<in> set ?ws"
    by (simp_all add: onboard_files_def)
  moreover have "EncodeToString priv \<notin> set (shown_keys (IdentityFile (?i\<lparr>ti_PrivateKey := []\<rparr>)))" using assms(4) by simp
  moreover have "EncodeToString priv \<notin> set (shown_keys (EnvFile e))" "EncodeToString priv \<notin> set (shown_keys (TelemetryFile t))" for e t by simp_all
  ultimately have "\<exists>v mode. (path_Join [onboard_dir f, name], v, mode) \<in> set ?ws \<and> EncodeToString priv \<notin> set (shown_keys v)"
    using assms(2) by blast
  with onboard_main_files [OF assms(1) _ assms(3)] show ?thesis by blast
qed

end
