(* ===== verification/LibP2P_Host.thy ===== *)
theory LibP2P_Host
  imports Encoding
begin

text \<open>
  The embedded host of \<open>p2p/libp2p_host.go\<close>: the handshake, the frames, the sessions of peers and the broadcasts.

  \<^item> A connection is what will arrive on it and what has been written to it. \<open>cn_in\<close> lists the pieces that successive calls of \<open>Read\<close> find; a call takes at most
    as many bytes as it asks for, from the first piece only, and the rest of its buffer keeps its zeros. The end of the list is
    the end of the connection, or a deadline. \<open>cn_broken\<close>: writes fail. The handshake reads the connection itself, the frames are read through a
    \<open>bufio.Reader\<close> with its buffer of 4096 bytes (\<open>bufio_Read\<close>).
  \<^item> A session owns its connection. Every method takes and releases the lock of the node; each is one step here.
  \<^item> The key of a node is generated when the node is made, so that it has the size that signing asks for.
  \<^item> The loops that look for routers and for announcements in the local network only log; they are left out.
\<close>

section \<open>Connections and frames\<close>

record conn =
  cn_in :: "string list"
  cn_out :: "string list"
  cn_broken :: bool

definition zero_fill :: "nat \<Rightarrow> string \<Rightarrow> string" where
  "zero_fill k s = s @ replicate (k - length s) (CHR 0x00)"

fun Read :: "nat \<Rightarrow> string list \<Rightarrow> (string \<times> string list) option" where
  "Read k [] = None"
| "Read k (s # ss) = Some (zero_fill k (take k s), if length s \<le> k then ss else drop k s # ss)"

text \<open>A \<open>bufio.Reader\<close> asks the connection for 4096 bytes when less is wanted, delivers what one such call has found, and keeps the rest; a larger read
  with an empty buffer goes to the connection itself. What the buffer keeps is a piece of its own before those that are still to come, so that a piece of more than 4096 bytes is cut there.\<close>

fun bufio_Read :: "nat \<Rightarrow> string list \<Rightarrow> (string \<times> string list) option" where
  "bufio_Read k [] = None"
| "bufio_Read k (s # ss) =
     (let m = max 4096 k in Some (zero_fill k (take k s), filter (\<lambda>p. p \<noteq> []) [drop k (take m s), drop m s] @ ss))"

definition conn_Read :: "nat \<Rightarrow> conn \<Rightarrow> conn \<times> string option" where
  "conn_Read k c = (case Read k (cn_in c) of None \<Rightarrow> (c, None) | Some (b, rest) \<Rightarrow> (c\<lparr>cn_in := rest\<rparr>, Some b))"

definition conn_Write :: "string \<Rightarrow> conn \<Rightarrow> conn \<times> unit go" where
  "conn_Write d c = (if cn_broken c then (c, Err ''write tcp'') else (c\<lparr>cn_out := cn_out c @ [d]\<rparr>, Ok ()))"

definition writeFrame :: "conn \<Rightarrow> string \<Rightarrow> conn \<times> unit go" where
  "writeFrame c data =
     (case conn_Write (be_bytes 4 (length data mod 2 ^ 32)) c of
        (c, Ok _) \<Rightarrow> conn_Write data c
      | (c, r) \<Rightarrow> (c, r))"

text \<open>A buffered reader with nothing to deliver returns at once when it is asked for no bytes.\<close>

definition readFrame :: "string list \<Rightarrow> (string \<times> string list) option" where
  "readFrame r =
     (case bufio_Read 4 r of
        None \<Rightarrow> None
      | Some (lenBuf, r) \<Rightarrow>
          (let len = be_nat lenBuf in
           if 5 * 1024 * 1024 < len then None else if len = 0 then Some ([], r) else bufio_Read len r))"

record LibP2PMessage =
  lm_Type :: string
  lm_From :: string
  lm_To :: string
  lm_PubKey :: string
  lm_Address :: string
  lm_Signature :: string
  lm_Block :: "Block option"
  lm_Tx :: "Transaction option"

definition blank_lm :: LibP2PMessage where
  "blank_lm = \<lparr>lm_Type = [], lm_From = [], lm_To = [], lm_PubKey = [], lm_Address = [], lm_Signature = [], lm_Block = None, lm_Tx = None\<rparr>"

definition readMessage :: "(string \<Rightarrow> LibP2PMessage go) \<Rightarrow> string list \<Rightarrow> (LibP2PMessage \<times> string list) option" where
  "readMessage dec r = (case readFrame r of None \<Rightarrow> None | Some (data, r) \<Rightarrow> (case dec data of Ok msg \<Rightarrow> Some (msg, r) | _ \<Rightarrow> None))"

text \<open>Strings with a length of variable size. \<open>PutUvarint\<close> and \<open>Uvarint\<close> are those of \<open>encoding/binary\<close>; the second one returns the
  number of bytes it has read, 0 when the buffer is too short, and a negative number on overflow.\<close>

fun PutUvarint :: "nat \<Rightarrow> string" where
  "PutUvarint x = (if x < 128 then [char_of x] else char_of (x mod 128 + 128) # PutUvarint (x div 128))"

declare PutUvarint.simps [simp del]

fun uvarint_loop :: "nat \<Rightarrow> nat \<Rightarrow> string \<Rightarrow> u64 \<times> int" where
  "uvarint_loop i x [] = (0, 0)"
| "uvarint_loop i x (c # cs) =
     (let b = of_char c :: nat in
      if i = 10 then (0, - (int i + 1))
      else if b < 128 then (if i = 9 \<and> 1 < b then (0, - (int i + 1)) else (of_nat (x + b * 128 ^ i), int i + 1))
      else uvarint_loop (i + 1) (x + (b - 128) * 128 ^ i) cs)"

definition Uvarint :: "string \<Rightarrow> u64 \<times> int" where
  "Uvarint buf = uvarint_loop 0 0 buf"

definition writeVarintString :: "conn \<Rightarrow> string \<Rightarrow> conn \<times> unit go" where
  "writeVarintString c s =
     (case conn_Write (PutUvarint (length s)) c of
        (c, Ok _) \<Rightarrow> conn_Write s c
      | (c, r) \<Rightarrow> (c, r))"

definition readVarintString :: "string list \<Rightarrow> (string \<times> string list) option" where
  "readVarintString r =
     (case bufio_Read 10 r of
        None \<Rightarrow> None
      | Some (lenBuf, r) \<Rightarrow>
          (case Uvarint lenBuf of (len, vn) \<Rightarrow>
             if len = 0 \<or> 4096 < len then None
             else case bufio_Read (unat len) r of
               None \<Rightarrow> None
             | Some (buf, r) \<Rightarrow> (case bufio_Read (nat vn) r of None \<Rightarrow> None | Some (_, r) \<Rightarrow> Some (buf, r))))"

section \<open>The node\<close>

record peerSession =
  ps_remotePeerID :: string
  ps_conn :: conn
  ps_trusted :: bool
  ps_lastSeen :: int

record LibP2PNode =
  lp_privKey :: string
  lp_pubKey :: string
  lp_peerID :: string
  lp_addr :: string
  lp_strictMode :: bool
  lp_validatorSet :: "string fset"
  lp_peers :: "(string, peerSession) fmap"

definition peer_id :: "crypto \<Rightarrow> string \<Rightarrow> string" where
  "peer_id C pub = ''libp2p:'' @ EncodeToString (sha256 C pub)"

definition NewLibP2PNode :: "crypto \<Rightarrow> (string \<times> string) go \<Rightarrow> string \<Rightarrow> bool \<Rightarrow> LibP2PNode go" where
  "NewLibP2PNode C key addr strictMode =
     (case key of
        Err e \<Rightarrow> Err (''generate identity key: '' @ e)
      | Panic e \<Rightarrow> Panic e
      | Ok (pub, priv) \<Rightarrow> Ok \<lparr>lp_privKey = priv, lp_pubKey = pub, lp_peerID = peer_id C pub, lp_addr = addr, lp_strictMode = strictMode,
          lp_validatorSet = {||}, lp_peers = fmempty\<rparr>)"

definition lp_ValidatorSet :: "string list \<Rightarrow> LibP2PNode \<Rightarrow> LibP2PNode" where
  "lp_ValidatorSet validators n = n\<lparr>lp_validatorSet := fold finsert validators (lp_validatorSet n)\<rparr>"

definition Peers :: "string list \<Rightarrow> LibP2PNode \<Rightarrow> string list" where
  "Peers ks n = filter (has_key (lp_peers n)) ks"

definition TrustedPeers :: "LibP2PNode \<Rightarrow> (string, bool) fmap" where
  "TrustedPeers n = fmmap ps_trusted (lp_peers n)"

text \<open>\<open>Addr\<close> appends the first address of an interface that is not local and has version 4; \<open>ifs\<close> lists the interfaces with these two facts.\<close>

fun lp_Addr :: "(string \<times> bool \<times> bool) list \<Rightarrow> LibP2PNode \<Rightarrow> string" where
  "lp_Addr [] n = lp_addr n"
| "lp_Addr ((ip, loopback, v4) # ifs) n = (if \<not> loopback \<and> v4 then lp_addr n @ ''/'' @ ip else lp_Addr ifs n)"

section \<open>The handshake\<close>

definition ed25519_Verify :: "crypto \<Rightarrow> string \<Rightarrow> string \<Rightarrow> string \<Rightarrow> bool go" where
  "ed25519_Verify C pub m sig =
     (if length pub \<noteq> 32 then Panic ''ed25519: bad public key length'' else Ok (length sig = 64 \<and> ed_verify C pub m sig))"

text \<open>\<open>rnd\<close> is what the random source delivers.\<close>

definition noiseHandshakeOutbound :: "crypto \<Rightarrow> string go \<Rightarrow> LibP2PNode \<Rightarrow> conn \<Rightarrow> string \<Rightarrow> conn \<times> bool go" where
  "noiseHandshakeOutbound C rnd n c remotePub =
     (case rnd of
        Ok nonce \<Rightarrow>
          (case conn_Write (ed_sign C (lp_privKey n) (lp_pubKey n @ nonce)) c of
             (c, Ok _) \<Rightarrow>
               (case conn_Write nonce c of
                  (c, Ok _) \<Rightarrow>
                    (case conn_Read 96 c of
                       (c, None) \<Rightarrow> (c, Ok False)
                     | (c, Some buf) \<Rightarrow>
                         (let remoteSig = take 64 buf; remoteNonce = drop 64 buf
                          in (c, go_bind (ed25519_Verify C remotePub (remotePub @ remoteNonce) remoteSig) (\<lambda>ok.
                                   Ok (if \<not> ok then False else remoteNonce = nonce)))))
                | (c, _) \<Rightarrow> (c, Ok False))
           | (c, _) \<Rightarrow> (c, Ok False))
      | _ \<Rightarrow> (c, Ok False))"

definition noiseHandshakeInbound :: "crypto \<Rightarrow> LibP2PNode \<Rightarrow> conn \<Rightarrow> conn \<times> string option" where
  "noiseHandshakeInbound C n c =
     (case conn_Read 64 c of
        (c, None) \<Rightarrow> (c, None)
      | (c, Some sig) \<Rightarrow>
          (case conn_Read 32 c of
             (c, None) \<Rightarrow> (c, None)
           | (c, Some nonce) \<Rightarrow>
               (let remotePub = take 32 sig in
                case ed25519_Verify C remotePub (remotePub @ nonce) sig of
                  Ok True \<Rightarrow>
                    (case conn_Write (ed_sign C (lp_privKey n) (lp_pubKey n @ nonce)) c of
                       (c, Ok _) \<Rightarrow> (c, Some remotePub)
                     | (c, _) \<Rightarrow> (c, None))
                | _ \<Rightarrow> (c, None))))"

section \<open>Sessions\<close>

definition hello :: "LibP2PNode \<Rightarrow> string \<Rightarrow> LibP2PMessage" where
  "hello n remotePeerID = blank_lm\<lparr>lm_Type := ''hello'', lm_From := lp_peerID n, lm_To := remotePeerID, lm_PubKey := EncodeToString (lp_pubKey n)\<rparr>"

definition new_session :: "string \<Rightarrow> conn \<Rightarrow> int \<Rightarrow> peerSession" where
  "new_session remotePeerID c now = \<lparr>ps_remotePeerID = remotePeerID, ps_conn = c, ps_trusted = True, ps_lastSeen = now\<rparr>"

text \<open>The first part of \<open>handleIncoming\<close>, up to the read loop: the session that has been entered under its identifier, if any. The error of
  sending the greeting is ignored.\<close>

definition admit :: "crypto \<Rightarrow> (LibP2PMessage \<Rightarrow> string) \<Rightarrow> int \<Rightarrow> conn \<Rightarrow> LibP2PNode \<Rightarrow> LibP2PNode \<times> string option" where
  "admit C enc now c n =
     (case noiseHandshakeInbound C n c of
        (c, None) \<Rightarrow> (n, None)
      | (c, Some remotePub) \<Rightarrow>
          (let remotePeerID = peer_id C remotePub in
           if has_key (lp_peers n) remotePeerID then (n, None)
           else if lp_strictMode n \<and> remotePeerID |\<notin>| lp_validatorSet n then (n, None)
           else let c = fst (writeFrame c (enc (hello n remotePeerID)))
                in (n\<lparr>lp_peers := fmupd remotePeerID (new_session remotePeerID c now) (lp_peers n)\<rparr>, Some remotePeerID)))"

text \<open>One turn of \<open>readLoop\<close> on the session under an identifier: the message that is logged, or the end, at which the peer is removed.\<close>

definition read_turn :: "(string \<Rightarrow> LibP2PMessage go) \<Rightarrow> int \<Rightarrow> string \<Rightarrow> LibP2PNode \<Rightarrow> LibP2PNode \<times> LibP2PMessage option" where
  "read_turn dec now pid n =
     (case fmlookup (lp_peers n) pid of
        None \<Rightarrow> (n, None)
      | Some session \<Rightarrow>
          (case readMessage dec (cn_in (ps_conn session)) of
             None \<Rightarrow> (n\<lparr>lp_peers := fmdrop (ps_remotePeerID session) (lp_peers n)\<rparr>, None)
           | Some (msg, rest) \<Rightarrow>
               (n\<lparr>lp_peers := fmupd pid (session\<lparr>ps_conn := (ps_conn session)\<lparr>cn_in := rest\<rparr>, ps_lastSeen := now\<rparr>) (lp_peers n)\<rparr>, Some msg)))"

definition lp_Connect :: "crypto \<Rightarrow> (LibP2PMessage \<Rightarrow> string) \<Rightarrow> int \<Rightarrow> string go \<Rightarrow> conn go \<Rightarrow> string \<Rightarrow> LibP2PNode \<Rightarrow> LibP2PNode \<times> unit go" where
  "lp_Connect C enc now rnd dial remotePub n =
     (case dial of
        Err e \<Rightarrow> (n, Err e) | Panic e \<Rightarrow> (n, Panic e)
      | Ok c \<Rightarrow>
          (case noiseHandshakeOutbound C rnd n c remotePub of
             (c, Panic e) \<Rightarrow> (n, Panic e)
           | (c, Err e) \<Rightarrow> (n, Err ''noise handshake failed'')
           | (c, Ok False) \<Rightarrow> (n, Err ''noise handshake failed'')
           | (c, Ok True) \<Rightarrow>
               (let remotePeerID = peer_id C remotePub in
                case writeFrame c (enc (hello n remotePeerID)) of
                  (c, Err e) \<Rightarrow> (n, Err e) | (c, Panic e) \<Rightarrow> (n, Panic e)
                | (c, Ok _) \<Rightarrow>
                    (if has_key (lp_peers n) remotePeerID then n
                     else n\<lparr>lp_peers := fmupd remotePeerID (new_session remotePeerID c now) (lp_peers n)\<rparr>, Ok ()))))"

section \<open>Broadcasts\<close>

definition send_to :: "string \<Rightarrow> string \<Rightarrow> LibP2PNode \<Rightarrow> LibP2PNode" where
  "send_to data pid n =
     (case fmlookup (lp_peers n) pid of
        None \<Rightarrow> n
      | Some session \<Rightarrow> n\<lparr>lp_peers := fmupd pid (session\<lparr>ps_conn := fst (writeFrame (ps_conn session) data)\<rparr>) (lp_peers n)\<rparr>)"

text \<open>\<open>ks\<close> is the order in which the peers are visited.\<close>

definition lp_broadcast :: "(LibP2PMessage \<Rightarrow> string) \<Rightarrow> string list \<Rightarrow> LibP2PMessage \<Rightarrow> LibP2PNode \<Rightarrow> LibP2PNode" where
  "lp_broadcast enc ks msg n = fold (send_to (enc msg)) ks n"

definition lp_BroadcastTransaction :: "(LibP2PMessage \<Rightarrow> string) \<Rightarrow> string list \<Rightarrow> Transaction \<Rightarrow> LibP2PNode \<Rightarrow> LibP2PNode" where
  "lp_BroadcastTransaction enc ks tx = lp_broadcast enc ks (blank_lm\<lparr>lm_Type := ''tx'', lm_Tx := Some tx\<rparr>)"

definition lp_BroadcastBlock :: "(LibP2PMessage \<Rightarrow> string) \<Rightarrow> string list \<Rightarrow> Block \<Rightarrow> LibP2PNode \<Rightarrow> LibP2PNode" where
  "lp_BroadcastBlock enc ks block = lp_broadcast enc ks (blank_lm\<lparr>lm_Type := ''block'', lm_Block := Some block\<rparr>)"

text \<open>The whole life of an incoming connection: the messages that are logged until the connection ends, and the node after that.\<close>

definition input_size :: "string list \<Rightarrow> nat" where
  "input_size r = length r + 2 * length (concat r)"

lemma bufio_Read_shrinks:
  assumes "bufio_Read k r = Some (b, r')" "0 < k"
  shows "input_size r' < input_size r"
proof (cases r)
  case (Cons s ss)
  let ?m = "max 4096 k"
  have "length (drop k (take ?m s)) + length (drop ?m s) = length s - k" by simp
  moreover have "r' = filter (\<lambda>p. p \<noteq> []) [drop k (take ?m s), drop ?m s] @ ss" using assms(1) Cons by (simp add: Let_def)
  ultimately show ?thesis using assms(2) Cons by (auto simp: input_size_def)
qed (use assms in simp)

lemma readFrame_shrinks:
  assumes "readFrame r = Some (d, r')"
  shows "input_size r' < input_size r"
proof -
  obtain b x where x: "bufio_Read 4 r = Some (b, x)" using assms by (auto simp: readFrame_def split: option.splits)
  then have "r' = x \<or> (\<exists>k > 0. bufio_Read k x = Some (d, r'))" using assms by (auto simp: readFrame_def Let_def split: if_splits)
  then have "input_size r' \<le> input_size x" using bufio_Read_shrinks by (auto simp: less_imp_le)
  with bufio_Read_shrinks [OF x] show ?thesis by simp
qed

lemma readMessage_shrinks: "readMessage dec r = Some (m, r') \<Longrightarrow> input_size r' < input_size r"
  by (auto simp: readMessage_def dest: readFrame_shrinks split: option.splits prod.splits go.splits)

function readLoop :: "(string \<Rightarrow> LibP2PMessage go) \<Rightarrow> string list \<Rightarrow> LibP2PMessage list" where
  "readLoop dec r = (case readMessage dec r of None \<Rightarrow> [] | Some (msg, r') \<Rightarrow> msg # readLoop dec r')"
  by pat_completeness auto

termination
  by (relation "measure (\<lambda>(dec, r). input_size r)") (auto dest: readMessage_shrinks)

declare readLoop.simps [simp del]

definition handleIncoming :: "crypto \<Rightarrow> (LibP2PMessage \<Rightarrow> string) \<Rightarrow> (string \<Rightarrow> LibP2PMessage go) \<Rightarrow> int \<Rightarrow> conn \<Rightarrow> LibP2PNode \<Rightarrow> LibP2PNode \<times> LibP2PMessage list" where
  "handleIncoming C enc dec now c n =
     (case admit C enc now c n of
        (n, None) \<Rightarrow> (n, [])
      | (n, Some pid) \<Rightarrow>
          (n\<lparr>lp_peers := fmdrop pid (lp_peers n)\<rparr>,
           case fmlookup (lp_peers n) pid of None \<Rightarrow> [] | Some session \<Rightarrow> readLoop dec (cn_in (ps_conn session))))"

section \<open>Frames read back\<close>

lemma zero_fill_full [simp]: "k \<le> length s \<Longrightarrow> zero_fill k s = s"
  by (simp add: zero_fill_def)

lemma Read_whole [simp]: "length s = k \<Longrightarrow> Read k (s # ss) = Some (s, ss)"
  by (simp add: zero_fill_def)

lemma bufio_Read_whole [simp]: "length s = k \<Longrightarrow> bufio_Read k (s # ss) = Some (s, ss)"
  by (simp add: Let_def)

lemma bufio_Read_short [simp]: "length s \<le> k \<Longrightarrow> bufio_Read k (s # ss) = Some (zero_fill k s, ss)"
  by (simp add: Let_def)

declare bufio_Read.simps(2) [simp del]

definition frame_header :: "string \<Rightarrow> string" where
  "frame_header data = be_bytes 4 (length data mod 2 ^ 32)"

definition sendable :: "string \<Rightarrow> bool" where
  "sendable data \<longleftrightarrow> data \<noteq> [] \<and> length data \<le> 5 * 1024 * 1024"

lemma length_frame_header [simp]: "length (frame_header data) = 4"
  by (simp add: frame_header_def)

lemma header_length: "sendable data \<Longrightarrow> be_nat (frame_header data) = length data"
  by (simp add: frame_header_def be_nat_be_bytes sendable_def)

lemma readFrame_pieces:
  assumes "sendable data"
  shows "readFrame (frame_header data # data # r) = Some (data, r)"
  using assms header_length [OF assms] by (simp add: readFrame_def Let_def sendable_def)

text \<open>A frame that arrives in one piece together with what follows it is read whole as long as it fits into the buffer of the reader.\<close>

lemma readFrame_coalesced:
  assumes "sendable data" "length data \<le> 4092"
  shows "readFrame ((frame_header data @ data @ rest) # r) =
    Some (data, filter (\<lambda>p. p \<noteq> []) [take (4092 - length data) rest, drop (4092 - length data) rest] @ r)"
proof -
  have "bufio_Read 4 ((frame_header data @ data @ rest) # r) =
      Some (frame_header data, (data @ take (4092 - length data) rest) # filter (\<lambda>p. p \<noteq> []) [drop (4092 - length data) rest] @ r)"
    using assms by (auto simp: bufio_Read.simps Let_def sendable_def zero_fill_def)
  moreover have "bufio_Read (length data) ((data @ take (4092 - length data) rest) # x) =
      Some (data, filter (\<lambda>p. p \<noteq> []) [take (4092 - length data) rest] @ x)" for x
    using assms(2) by (auto simp: bufio_Read.simps Let_def zero_fill_def)
  ultimately show ?thesis
    using assms header_length [OF assms(1)] by (simp add: readFrame_def Let_def sendable_def)
qed

text \<open>A longer one is cut after 4096 bytes: the rest of its data is replaced by zeros and is taken for the beginning of the next frame.\<close>

lemma long_coalesced_frame_is_cut:
  assumes "sendable data" "4092 < length data"
  shows "readFrame ((frame_header data @ data) # r) = Some (take 4092 data @ replicate (length data - 4092) (CHR 0x00), drop 4092 data # r)"
proof -
  have "bufio_Read 4 ((frame_header data @ data) # r) = Some (frame_header data, take 4092 data # drop 4092 data # r)"
    using assms by (auto simp: bufio_Read.simps Let_def zero_fill_def)
  then show ?thesis
    using assms header_length [OF assms(1)] by (simp add: readFrame_def Let_def sendable_def zero_fill_def)
qed

text \<open>Nothing makes sure that a frame is read completely: when its data arrive in two pieces, the second piece is replaced by zeros and is taken
  for the beginning of the next frame.\<close>

lemma split_frame_is_corrupted:
  assumes "sendable data" "0 < j" "j < length data"
  shows "readFrame (frame_header data # take j data # drop j data # r) = Some (take j data @ replicate (length data - j) (CHR 0x00), drop j data # r)"
  using assms header_length [OF assms(1)] by (simp add: readFrame_def Let_def zero_fill_def sendable_def)

lemma writeFrame_open: "\<not> cn_broken c \<Longrightarrow> writeFrame c data = (c\<lparr>cn_out := cn_out c @ [frame_header data, data]\<rparr>, Ok ())"
  by (simp add: writeFrame_def conn_Write_def frame_header_def)

definition send_all :: "(LibP2PMessage \<Rightarrow> string) \<Rightarrow> LibP2PMessage list \<Rightarrow> conn \<Rightarrow> conn" where
  "send_all enc ms c = fold (\<lambda>m c. fst (writeFrame c (enc m))) ms c"

lemma send_all_out:
  "\<not> cn_broken c \<Longrightarrow> cn_out (send_all enc ms c) = cn_out c @ concat (map (\<lambda>m. [frame_header (enc m), enc m]) ms)"
proof (induction ms arbitrary: c)
  case (Cons m ms)
  then show ?case using Cons.IH [of "fst (writeFrame c (enc m))"] by (simp add: send_all_def writeFrame_open)
qed (simp add: send_all_def)

text \<open>C28. Messages that are written to a connection, each in its frame, are the messages that the read loop of the other side gets, in
  the same order, and the loop then ends: when the pieces arrive as they are written, the JSON decoder reads back each message from its encoding, and every encoding is non-empty and at most
  5 MiB long.\<close>

theorem frames_read_back:
  assumes "\<And>m. m \<in> set ms \<Longrightarrow> sendable (enc m) \<and> dec (enc m) = Ok m" and "\<not> cn_broken c" and "cn_out c = []"
  shows "readLoop dec (cn_out (send_all enc ms c)) = ms"
proof -
  have "readLoop dec (concat (map (\<lambda>m. [frame_header (enc m), enc m]) ms)) = ms"
    using assms(1)
  proof (induction ms)
    case Nil
    show ?case by (simp add: readLoop.simps readMessage_def readFrame_def)
  next
    case (Cons m ms)
    then have "readMessage dec (frame_header (enc m) # enc m # concat (map (\<lambda>m. [frame_header (enc m), enc m]) ms)) =
        Some (m, concat (map (\<lambda>m. [frame_header (enc m), enc m]) ms))"
      by (simp add: readMessage_def readFrame_pieces)
    then show ?case using Cons by (simp add: readLoop.simps [of dec "frame_header (enc m) # _"])
  qed
  then show ?thesis using assms(2,3) by (simp add: send_all_out)
qed

text \<open>Strings with a length of variable size do not read back: the reader asks for the bytes of the length a second time at the end.\<close>

lemma uvarint_Put:
  assumes "n < 128 ^ k" "i + k \<le> 9" "0 < k"
  shows "uvarint_loop i x (PutUvarint n @ r) = (of_nat (x + n * 128 ^ i), int i + int (length (PutUvarint n)))" "length (PutUvarint n) \<le> k"
  using assms
proof (induction k arbitrary: n i x)
  case (Suc k)
  {
    case 1
    note step = PutUvarint.simps [of n]
    have low: "of_char (char_of (n mod 128 + 128) :: char) = n mod 128 + (128 :: nat)" by simp
    show ?case
    proof (cases "n < 128")
      case True
      then show ?thesis using 1 by (simp add: step Let_def)
    next
      case False
      then have k: "n div 128 < 128 ^ k" "0 < k" using 1 by (auto simp: less_mult_imp_div_less mult.commute intro: Nat.gr0I)
      have "(n mod 128 + 128 * (n div 128)) * 128 ^ i = n mod 128 * 128 ^ i + n div 128 * 128 ^ (i + 1)"
        by (simp only: distrib_left distrib_right power_add power_one_right ac_simps)
      then have eq: "x + n mod 128 * 128 ^ i + n div 128 * 128 ^ (i + 1) = x + n * 128 ^ i" by simp
      have "i + 1 + k \<le> 9" using 1 by simp
      note IH = Suc.IH(1) [OF k(1) this k(2), of "x + n mod 128 * 128 ^ i", unfolded eq]
      show ?thesis using False 1 low IH by (simp add: step Let_def del: of_nat_add of_nat_mult)
    qed
  next
    case 2
    note step = PutUvarint.simps [of n]
    show ?case
    proof (cases "n < 128")
      case False
      then have k: "n div 128 < 128 ^ k" "0 < k" using 2 by (auto simp: less_mult_imp_div_less mult.commute intro: Nat.gr0I)
      show ?thesis using False 2 Suc.IH(2) [OF k(1) _ k(2), of i] by (simp add: step)
    qed (simp add: step)
  }
qed simp_all

lemma varint_string_is_refused:
  assumes "length s < 2 ^ 63"
  shows "readVarintString [PutUvarint (length s), s] = None"
proof -
  have n: "length s < 128 ^ 9" using assms by simp
  let ?p = "PutUvarint (length s)"
  have "length ?p \<le> 9" using uvarint_Put(2) [OF n, of 0] by simp
  then have "bufio_Read 10 [?p, s] = Some (zero_fill 10 ?p, [s])" by simp
  moreover have "Uvarint (zero_fill 10 ?p) = (of_nat (length s), int (length ?p))"
    using uvarint_Put(1) [OF n, of 0 0] by (simp add: Uvarint_def zero_fill_def)
  moreover have "unat (of_nat (length s) :: u64) = length s"
    using assms by (simp add: unat_of_nat)
  ultimately show ?thesis by (simp add: readVarintString_def)
qed

section \<open>Who becomes a peer\<close>

text \<open>What happens to a host: a connection arrives, a session is read once, another host is dialled, validators are named, a message is broadcast.\<close>

datatype host_event = Arrive int conn | Turn int string | Dial int "string go" "conn go" string | Validators "string list" | Cast "string list" LibP2PMessage

fun host_on :: "crypto \<Rightarrow> (LibP2PMessage \<Rightarrow> string) \<Rightarrow> (string \<Rightarrow> LibP2PMessage go) \<Rightarrow> host_event \<Rightarrow> LibP2PNode \<Rightarrow> LibP2PNode" where
  "host_on C enc dec (Arrive now c) n = fst (admit C enc now c n)"
| "host_on C enc dec (Turn now pid) n = fst (read_turn dec now pid n)"
| "host_on C enc dec (Dial now rnd dial pub) n = fst (lp_Connect C enc now rnd dial pub n)"
| "host_on C enc dec (Validators vs) n = lp_ValidatorSet vs n"
| "host_on C enc dec (Cast ks msg) n = lp_broadcast enc ks msg n"

definition host_run :: "crypto \<Rightarrow> (LibP2PMessage \<Rightarrow> string) \<Rightarrow> (string \<Rightarrow> LibP2PMessage go) \<Rightarrow> host_event list \<Rightarrow> LibP2PNode \<Rightarrow> LibP2PNode" where
  "host_run C enc dec evs n = fold (host_on C enc dec) evs n"

text \<open>The key that a connection shows when it arrives: the first half of the signature it sends, when this signature holds for that key and the nonce that follows.\<close>

definition key_shown :: "crypto \<Rightarrow> conn \<Rightarrow> string option" where
  "key_shown C c =
     (case Read 64 (cn_in c) of
        None \<Rightarrow> None
      | Some (sig, r) \<Rightarrow>
          (case Read 32 r of
             None \<Rightarrow> None
           | Some (nonce, _) \<Rightarrow> if ed_verify C (take 32 sig) (take 32 sig @ nonce) sig then Some (take 32 sig) else None))"

text \<open>Whether a host that was dialled has answered with the signature of its key over the nonce it was sent.\<close>

definition key_answered :: "crypto \<Rightarrow> string go \<Rightarrow> conn \<Rightarrow> string \<Rightarrow> bool" where
  "key_answered C rnd c pub \<longleftrightarrow>
     (case (rnd, Read 96 (cn_in c)) of
        (Ok nonce, Some (buf, _)) \<Rightarrow> drop 64 buf = nonce \<and> ed_verify C pub (pub @ nonce) (take 64 buf)
      | _ \<Rightarrow> False)"

fun shown_id :: "crypto \<Rightarrow> host_event \<Rightarrow> string option" where
  "shown_id C (Arrive now c) = map_option (peer_id C) (key_shown C c)"
| "shown_id C ev = None"

fun answered_id :: "crypto \<Rightarrow> host_event \<Rightarrow> string option" where
  "answered_id C (Dial now rnd (Ok c) pub) = (if key_answered C rnd c pub then Some (peer_id C pub) else None)"
| "answered_id C ev = None"

lemma inbound_shows: "noiseHandshakeInbound C n c = (c', Some pub) \<Longrightarrow> key_shown C c = Some pub"
  by (auto simp: noiseHandshakeInbound_def conn_Read_def ed25519_Verify_def key_shown_def Let_def
      split: option.splits prod.splits go.splits bool.splits if_splits)

lemma outbound_answers: "noiseHandshakeOutbound C rnd n c pub = (c', Ok True) \<Longrightarrow> key_answered C rnd c pub"
  by (auto simp: noiseHandshakeOutbound_def conn_Read_def conn_Write_def ed25519_Verify_def key_answered_def Let_def
      split: option.splits prod.splits go.splits if_splits)

text \<open>The invariant: a session is entered under its own identifier, counts as trusted, and belongs to a host that was dialled and answered, or to one that has shown its key and, in strict mode,
  is a validator. \<open>A\<close> and \<open>D\<close> are the identifiers of the two kinds.\<close>

definition host_ok :: "bool \<Rightarrow> string set \<Rightarrow> string set \<Rightarrow> LibP2PNode \<Rightarrow> bool" where
  "host_ok b A D n \<longleftrightarrow> lp_strictMode n = b \<and> (\<forall>pid s. fmlookup (lp_peers n) pid = Some s \<longrightarrow>
     ps_remotePeerID s = pid \<and> ps_trusted s \<and> (pid \<in> A \<and> (b \<longrightarrow> pid |\<in>| lp_validatorSet n) \<or> pid \<in> D))"

lemma fold_finsert_mem: "x |\<in>| fold finsert xs S \<longleftrightarrow> x \<in> set xs \<or> x |\<in>| S"
  by (induction xs arbitrary: S) auto

lemma send_to_ok: "host_ok b A D n \<Longrightarrow> host_ok b A D (send_to data pid n)"
  by (auto simp: host_ok_def send_to_def split: option.splits)

lemma host_ok_new:
  assumes "host_ok b A D n" "pid \<in> A \<and> (b \<longrightarrow> pid |\<in>| lp_validatorSet n) \<or> pid \<in> D"
  shows "host_ok b A D (n\<lparr>lp_peers := fmupd pid (new_session pid c now) (lp_peers n)\<rparr>)"
  using assms by (auto simp: host_ok_def new_session_def)

lemma admit_ok:
  assumes "host_ok b A D n" "set_option (shown_id C (Arrive now c)) \<subseteq> A"
  shows "host_ok b A D (fst (admit C enc now c n))"
proof (cases "noiseHandshakeInbound C n c")
  case (Pair c1 pub)
  show ?thesis
  proof (cases pub)
    case (Some k)
    then have "peer_id C k \<in> A" using assms(2) inbound_shows [of C n c c1 k] Pair by simp
    moreover have "lp_strictMode n = b" using assms(1) by (simp add: host_ok_def)
    ultimately show ?thesis using assms(1) Pair Some by (auto simp: admit_def Let_def intro!: host_ok_new)
  qed (use assms(1) Pair in \<open>simp add: admit_def\<close>)
qed

lemma lp_Connect_ok:
  assumes "host_ok b A D n" "set_option (answered_id C (Dial now rnd dial pub)) \<subseteq> D"
  shows "host_ok b A D (fst (lp_Connect C enc now rnd dial pub n))"
proof -
  have "peer_id C pub \<in> D" if "dial = Ok c" "noiseHandshakeOutbound C rnd n c pub = (c1, Ok True)" for c c1
    using assms(2) outbound_answers [OF that(2)] that(1) by simp
  then show ?thesis using assms(1) by (auto simp: lp_Connect_def Let_def intro!: host_ok_new split: prod.splits go.splits bool.splits)
qed

lemma host_on_ok:
  assumes "host_ok b A D n" and "set_option (shown_id C ev) \<subseteq> A" "set_option (answered_id C ev) \<subseteq> D"
  shows "host_ok b A D (host_on C enc dec ev n)"
proof (cases ev)
  case (Arrive now c)
  then show ?thesis using assms admit_ok by simp
next
  case (Turn now pid)
  then show ?thesis using assms(1)
    by (auto simp: host_ok_def read_turn_def split: prod.splits option.splits if_splits)
next
  case (Dial now rnd dial pub)
  then show ?thesis using assms lp_Connect_ok by simp
next
  case (Validators vs)
  then show ?thesis using assms(1) by (auto simp: host_ok_def lp_ValidatorSet_def fold_finsert_mem)
next
  case (Cast ks msg)
  have "host_ok b A D (fold (send_to data) ks n)" for data using assms(1) by (induction ks arbitrary: n) (simp_all add: send_to_ok)
  with Cast show ?thesis by (simp add: lp_broadcast_def)
qed

lemma host_run_ok:
  assumes "host_ok b A D n" and "\<And>ev. ev \<in> set evs \<Longrightarrow> set_option (shown_id C ev) \<subseteq> A \<and> set_option (answered_id C ev) \<subseteq> D"
  shows "host_ok b A D (host_run C enc dec evs n)"
  using assms unfolding host_run_def by (induction evs arbitrary: n) (simp_all add: host_on_ok)

text \<open>C26. In strict mode a host deals with validators, and with peers that it has dialled itself: after any events on a new host, every session is entered under the identifier of its peer, and this identifier
  is derived from a key. Either a connection has arrived that sent a signature which holds for that key and the nonce that follows it, and the identifier is in the set of validators; or the host was told to dial the peer of that
  key, and the answer held the signature of the key over the nonce it was sent. The first signature need not be fresh, see \<open>handshake_is_replayable\<close>.\<close>

theorem strict_host_admits_validators:
  assumes "NewLibP2PNode C key addr True = Ok n0"
    and "fmlookup (lp_peers (host_run C enc dec evs n0)) pid = Some s"
  shows "ps_remotePeerID s = pid \<and>
    ((\<exists>now c pub. Arrive now c \<in> set evs \<and> key_shown C c = Some pub \<and> pid = peer_id C pub \<and> pid |\<in>| lp_validatorSet (host_run C enc dec evs n0)) \<or>
     (\<exists>now rnd c pub. Dial now rnd (Ok c) pub \<in> set evs \<and> key_answered C rnd c pub \<and> pid = peer_id C pub))"
proof -
  let ?A = "{p. \<exists>ev\<in>set evs. shown_id C ev = Some p}" and ?D = "{p. \<exists>ev\<in>set evs. answered_id C ev = Some p}"
  have "host_ok True ?A ?D n0" using assms(1) by (auto simp: host_ok_def NewLibP2PNode_def split: go.splits)
  then have "host_ok True ?A ?D (host_run C enc dec evs n0)" by (rule host_run_ok) auto
  then have "ps_remotePeerID s = pid \<and> (pid \<in> ?A \<and> pid |\<in>| lp_validatorSet (host_run C enc dec evs n0) \<or> pid \<in> ?D)"
    using assms(2) by (auto simp: host_ok_def)
  moreover have "\<exists>now c pub. ev = Arrive now c \<and> key_shown C c = Some pub \<and> pid = peer_id C pub" if "shown_id C ev = Some pid" for ev
    using that by (cases ev) auto
  moreover have "\<exists>now rnd c pub. ev = Dial now rnd (Ok c) pub \<and> key_answered C rnd c pub \<and> pid = peer_id C pub" if "answered_id C ev = Some pid" for ev
    using that by (cases "(C, ev)" rule: answered_id.cases) (auto split: if_splits)
  ultimately show ?thesis by fast
qed

section \<open>The handshake\<close>

text \<open>The two sides of the handshake do not fit together. The one that answers sends its signature only, the one that waits expects the signature followed by its
  nonce: it finds zeros instead. So a host that dials another one is refused, whatever the keys, unless its random nonce is all zero.\<close>

theorem honest_handshake_fails:
  assumes "crypto_ok C" and "length (lp_pubKey b) = 32" and "length nonce = 32" and "nonce \<noteq> replicate 32 (CHR 0x00)"
    and "c = fst (noiseHandshakeInbound C b \<lparr>cn_in = [ed_sign C (lp_privKey a) (lp_pubKey a @ nonce), nonce], cn_out = [], cn_broken = False\<rparr>)"
  shows "snd (noiseHandshakeOutbound C (Ok nonce) a \<lparr>cn_in = cn_out c, cn_out = [], cn_broken = False\<rparr> (lp_pubKey b)) = Ok False"
proof -
  let ?reply = "ed_sign C (lp_privKey b) (lp_pubKey b @ nonce)"
  have sig: "length (ed_sign C sk m) = 64" for sk m using assms(1) by (simp add: crypto_ok_def)
  have "cn_out c = [] \<or> cn_out c = [?reply]"
    unfolding assms(5) using sig assms(3)
    by (auto simp: noiseHandshakeInbound_def conn_Read_def conn_Write_def Let_def split: go.splits bool.splits)
  moreover have "drop 64 (zero_fill 96 ?reply) = replicate 32 (CHR 0x00)" using sig by (simp add: zero_fill_def)
  ultimately show ?thesis
    using assms(2,4) sig by (auto simp: noiseHandshakeOutbound_def conn_Read_def conn_Write_def ed25519_Verify_def Let_def)
qed

text \<open>The side that is dialled contributes nothing of its own to what it checks: bytes that were accepted once are accepted again on every other connection, by every host.\<close>

theorem handshake_is_replayable:
  assumes "noiseHandshakeInbound C n c = (c1, Some pub)" and "cn_in c' = cn_in c" and "\<not> cn_broken c'"
  shows "snd (noiseHandshakeInbound C n' c') = Some pub"
  using assms by (auto simp: noiseHandshakeInbound_def conn_Read_def conn_Write_def Let_def split: option.splits prod.splits go.splits bool.splits if_splits)

section \<open>Examples\<close>

theorem frames_read_back_witness:
  "readLoop (\<lambda>_. Ok (blank_lm\<lparr>lm_Type := ''tx''\<rparr>))
     (cn_out (send_all (\<lambda>_. ''x'') [blank_lm\<lparr>lm_Type := ''tx''\<rparr>, blank_lm\<lparr>lm_Type := ''tx''\<rparr>] \<lparr>cn_in = [], cn_out = [], cn_broken = False\<rparr>)) =
   [blank_lm\<lparr>lm_Type := ''tx''\<rparr>, blank_lm\<lparr>lm_Type := ''tx''\<rparr>]"
  by (rule frames_read_back) (auto simp: sendable_def)

text \<open>A validator that is let in: in the concrete model of signatures, a message of 64 bytes signs itself.\<close>

definition demo_host :: LibP2PNode where
  "demo_host = \<lparr>lp_privKey = ''k'', lp_pubKey = fit 32 ''k'', lp_peerID = peer_id demo_crypto (fit 32 ''k''), lp_addr = ''a'', lp_strictMode = True,
     lp_validatorSet = {||}, lp_peers = fmempty\<rparr>"

definition demo_host_events :: "host_event list" where
  "demo_host_events = [Validators [peer_id demo_crypto (replicate 32 CHR ''v'')],
     Arrive 5 \<lparr>cn_in = [replicate 64 CHR ''v'', replicate 32 CHR ''v''], cn_out = [], cn_broken = False\<rparr>]"

lemma demo_host_admits: "has_key (lp_peers (host_run demo_crypto (\<lambda>_. ''x'') (\<lambda>_. Err []) demo_host_events demo_host)) (peer_id demo_crypto (replicate 32 CHR ''v''))"
proof -
  have "replicate 32 CHR ''v'' @ replicate 32 CHR ''v'' = replicate 64 CHR ''v''" by (simp add: replicate_add [symmetric])
  then have "\<exists>c. noiseHandshakeInbound demo_crypto n \<lparr>cn_in = [replicate 64 CHR ''v'', replicate 32 CHR ''v''], cn_out = [], cn_broken = False\<rparr> = (c, Some (replicate 32 CHR ''v''))" for n
    by (simp add: noiseHandshakeInbound_def conn_Read_def conn_Write_def ed25519_Verify_def demo_crypto_def fit_def Let_def)
  from this [of "lp_ValidatorSet [peer_id demo_crypto (replicate 32 CHR ''v'')] demo_host"] show ?thesis
    by (auto simp: demo_host_events_def host_run_def admit_def lp_ValidatorSet_def demo_host_def has_key_def Let_def)
qed

theorem strict_host_admits_validators_witness:
  "\<exists>pid s now c pub. fmlookup (lp_peers (host_run demo_crypto (\<lambda>_. ''x'') (\<lambda>_. Err []) demo_host_events demo_host)) pid = Some s \<and> ps_remotePeerID s = pid \<and>
     Arrive now c \<in> set demo_host_events \<and> key_shown demo_crypto c = Some pub \<and> pid = peer_id demo_crypto pub \<and>
     pid |\<in>| lp_validatorSet (host_run demo_crypto (\<lambda>_. ''x'') (\<lambda>_. Err []) demo_host_events demo_host)"
proof -
  have "NewLibP2PNode demo_crypto (Ok (fit 32 ''k'', ''k'')) ''a'' True = Ok demo_host" by (simp add: NewLibP2PNode_def demo_host_def)
  note ok = strict_host_admits_validators [OF this]
  obtain pid s where s: "fmlookup (lp_peers (host_run demo_crypto (\<lambda>_. ''x'') (\<lambda>_. Err []) demo_host_events demo_host)) pid = Some s"
    using demo_host_admits by (auto simp: has_key_def)
  have "Dial now rnd d pub \<notin> set demo_host_events" for now rnd d pub by (simp add: demo_host_events_def)
  with ok [OF s] s show ?thesis by blast
qed

end
