(* ===== verification/Host_Loops.thy ===== *)
theory Host_Loops
  imports LibP2P_Host P2P_Package Node_P2P
begin

text \<open>
  The loops around the two peer-to-peer hosts of package \<open>p2p\<close> and the one of \<open>main.go\<close>: accepting connections and listening for announcements. A loop is a function of the events that it meets, in
  their order; it yields whether it has ended. What a connection does then is in \<open>LibP2P_Host\<close> and \<open>P2P_Package\<close>.
\<close>

section \<open>The embedded host\<close>

text \<open>An error of \<open>Accept\<close> comes with the state of the channel \<open>shutdownCh\<close>. A connection is handled by a goroutine of its own, whose first part is \<open>admit\<close>.\<close>

datatype accept_event = AcceptError bool | Accepted int conn

fun acceptLoop :: "crypto \<Rightarrow> (LibP2PMessage \<Rightarrow> string) \<Rightarrow> accept_event list \<Rightarrow> LibP2PNode \<Rightarrow> LibP2PNode \<times> bool" where
  "acceptLoop C enc [] n = (n, False)"
| "acceptLoop C enc (AcceptError shut # evs) n = (if shut then (n, True) else acceptLoop C enc evs n)"
| "acceptLoop C enc (Accepted now c # evs) n = acceptLoop C enc evs (fst (admit C enc now c n))"

definition lp_Start :: "unit go \<Rightarrow> unit go" where
  "lp_Start listen = (case listen of Ok _ \<Rightarrow> Ok () | Err e \<Rightarrow> Err (''libp2p listen: '' @ e) | Panic e \<Rightarrow> Panic e)"

text \<open>The loop of \<open>startMDNS\<close>, after its socket is open. Each turn looks at the channel and then reads; the deadline of the socket was set once, at the start, so a read after it fails at
  once. A turn has the state of the channel, the time of the read and the datagram that arrives: the address of its sender and its bytes.\<close>

fun Contains :: "string \<Rightarrow> string \<Rightarrow> bool" where
  "Contains [] sub = (sub = [])"
| "Contains (c # cs) sub = (prefix sub (c # cs) \<or> Contains cs sub)"

record mdns_turn =
  mt_shut :: bool
  mt_now :: int
  mt_datagram :: "(string \<times> string) go"

definition read_udp :: "int \<Rightarrow> mdns_turn \<Rightarrow> (string \<times> string) go" where
  "read_udp deadline t = (if deadline \<le> mt_now t then Err ''i/o timeout'' else mt_datagram t)"

fun mdns_loop :: "int \<Rightarrow> mdns_turn list \<Rightarrow> (string \<times> string) list \<times> bool" where
  "mdns_loop deadline [] = ([], False)"
| "mdns_loop deadline (t # ts) =
     (if mt_shut t then ([], True)
      else case read_udp deadline t of
        Ok (remote, msg) \<Rightarrow>
          (let msg = take 4096 msg in
           if Contains msg ''tender-discovery'' then (case mdns_loop deadline ts of (logged, ended) \<Rightarrow> ((remote, msg) # logged, ended))
           else mdns_loop deadline ts)
      | _ \<Rightarrow> mdns_loop deadline ts)"

text \<open>\<open>start\<close> is the time when the socket is opened, in nanoseconds; both calls before it may fail.\<close>

definition startMDNS :: "unit go \<Rightarrow> unit go \<Rightarrow> int \<Rightarrow> mdns_turn list \<Rightarrow> (string \<times> string) list \<times> bool" where
  "startMDNS resolved listen start ts =
     (if resolved = Ok () \<and> listen = Ok () then mdns_loop (start + 600 * 1000000000) ts else ([], True))"

text \<open>After ten minutes the listener is deaf: nothing that arrives is logged any more, and the loop has not ended, it only spins until the shutdown.\<close>

theorem mdns_is_deaf_after_ten_minutes:
  assumes "list_all (\<lambda>t. start + 600 * 1000000000 \<le> mt_now t) ts"
  shows "startMDNS (Ok ()) (Ok ()) start ts = ([], list_ex mt_shut ts)"
  using assms by (induction ts) (auto simp: startMDNS_def read_udp_def)

text \<open>Before that, exactly the announcements are logged, in their order.\<close>

lemma mdns_logs_announcements:
  assumes "list_all (\<lambda>t. \<not> mt_shut t \<and> mt_now t < deadline) ts"
  shows "mdns_loop deadline ts =
    (concat (map (\<lambda>t. case mt_datagram t of Ok (remote, msg) \<Rightarrow> if Contains (take 4096 msg) ''tender-discovery'' then [(remote, take 4096 msg)] else [] | _ \<Rightarrow> []) ts), False)"
  using assms by (induction ts) (auto simp: read_udp_def Let_def split: go.splits)

text \<open>The accept loop ends only after the shutdown, and whatever it accepts goes through the admission of the host: in strict mode, only members of the validator set get a session.\<close>

theorem accept_loop_admits:
  assumes "host_ok b A D n" "\<And>now c. Accepted now c \<in> set evs \<Longrightarrow> set_option (shown_id C (Arrive now c)) \<subseteq> A"
  shows "host_ok b A D (fst (acceptLoop C enc evs n)) \<and> (snd (acceptLoop C enc evs n) \<longleftrightarrow> AcceptError True \<in> set evs)"
  using assms by (induction C enc evs n rule: acceptLoop.induct) (auto simp: admit_ok simp del: shown_id.simps)

section \<open>The peer-to-peer node\<close>

text \<open>\<open>Start\<close> of \<open>p2p.go\<close>: the first component says whether the node listens. The error of \<open>net.Listen\<close> is logged and dropped.\<close>

definition pn_Start :: "unit go \<Rightarrow> bool \<times> unit go" where
  "pn_Start listen = (case listen of Ok _ \<Rightarrow> (True, Ok ()) | Err e \<Rightarrow> (False, Ok ()) | Panic e \<Rightarrow> (False, Panic e))"

text \<open>The loop of its goroutine: the connections that are handed to \<open>handleConn\<close>, and whether the loop has ended.\<close>

fun pn_accept_loop :: "(bool + 'c) list \<Rightarrow> 'c list \<times> bool" where
  "pn_accept_loop [] = ([], False)"
| "pn_accept_loop (Inl shut # evs) = (if shut then ([], True) else pn_accept_loop evs)"
| "pn_accept_loop (Inr c # evs) = (case pn_accept_loop evs of (cs, ended) \<Rightarrow> (c # cs, ended))"

text \<open>The datagram of \<open>announceMDNS\<close>, when the address resolves and the socket opens.\<close>

definition announceMDNS :: "unit go \<Rightarrow> unit go \<Rightarrow> PeerNode \<Rightarrow> string option \<times> unit go" where
  "announceMDNS resolved dial p =
     (case resolved of
        Ok _ \<Rightarrow> (case dial of Ok _ \<Rightarrow> (Some (''tender-discovery:'' @ pn_addr p), Ok ()) | e \<Rightarrow> (None, e))
      | e \<Rightarrow> (None, e))"

text \<open>What a node announces is what a host listens for.\<close>

lemma Contains_prefix: "prefix sub s \<Longrightarrow> Contains s sub"
  by (cases s) auto

theorem announcement_is_noticed:
  assumes "announceMDNS (Ok ()) (Ok ()) p = (Some msg, Ok ())" "length msg \<le> 4096" "\<not> mt_shut t" "mt_now t < start + 600 * 1000000000" "mt_datagram t = Ok (remote, msg)"
  shows "startMDNS (Ok ()) (Ok ()) start [t] = ([(remote, msg)], False)"
proof -
  have "Contains msg ''tender-discovery''" using assms(1) by (intro Contains_prefix) (auto simp: announceMDNS_def prefix_def)
  then show ?thesis using assms(2-5) by (simp add: startMDNS_def read_udp_def)
qed

section \<open>The peer-to-peer node of \<open>main.go\<close>\<close>

text \<open>Here the error of \<open>net.Listen\<close> is returned; the accept loop is that of \<open>p2p.go\<close>.\<close>

definition node_p2p_Start :: "unit go \<Rightarrow> (bool + 'c) list \<Rightarrow> ('c list \<times> bool) go" where
  "node_p2p_Start listen evs = go_bind listen (\<lambda>_. Ok (pn_accept_loop evs))"

definition announceMDNSLocked :: "unit go \<Rightarrow> unit go \<Rightarrow> P2PNode \<Rightarrow> string option \<times> unit go" where
  "announceMDNSLocked resolved dial p =
     (case resolved of
        Ok _ \<Rightarrow> (case dial of Ok _ \<Rightarrow> (Some (''tender-discovery:'' @ p_addr p), Ok ()) | e \<Rightarrow> (None, e))
      | e \<Rightarrow> (None, e))"

definition node_BroadcastTransaction :: "net \<Rightarrow> node_env \<Rightarrow> Transaction \<Rightarrow> P2PNode \<Rightarrow> P2PNode \<times> bool" where
  "node_BroadcastTransaction = broadcastTransaction"

definition node_BroadcastBlock :: "net \<Rightarrow> node_env \<Rightarrow> Block \<Rightarrow> P2PNode \<Rightarrow> P2PNode \<times> bool" where
  "node_BroadcastBlock = broadcastBlock"

text \<open>The turns of \<open>startRelaySync\<close> after the announcement; each has the network and the clock it meets, the orders of the maps, and what the relay answers.\<close>

record relay_turn =
  rt_W :: net
  rt_E :: node_env
  rt_ks :: "string list"
  rt_so :: "string list"
  rt_pulled :: "p2pMessage list go"

text \<open>A turn that never ends is the last one.\<close>

fun relay_turns :: "crypto \<Rightarrow> relay_turn list \<Rightarrow> P2PNode \<Rightarrow> P2PNode" where
  "relay_turns C [] p = p"
| "relay_turns C (t # ts) p =
     (case relayPollOnce C (rt_W t) (rt_E t) (rt_ks t) (rt_so t) (rt_pulled t) p of
        (p, False) \<Rightarrow> p
      | (p, True) \<Rightarrow> relay_turns C ts p)"

definition startRelaySync :: "crypto \<Rightarrow> node_env \<Rightarrow> string list \<Rightarrow> relay_turn list \<Rightarrow> P2PNode \<Rightarrow> P2PNode" where
  "startRelaySync C E ks turns p = relay_turns C turns (announceRelay E ks p)"

text \<open>Without a relay, or when it answers with errors only, the node applies nothing.\<close>

lemma relay_errors_apply_nothing:
  assumes "list_all (\<lambda>t. \<not> is_ok (rt_pulled t)) turns"
  shows "p_chain (startRelaySync C E ks turns p) = p_chain p"
proof -
  have "p_chain (relay_turns C turns q) = p_chain q" for q
    using assms by (induction turns arbitrary: q) (auto simp: relayPollOnce_def Let_def split: go.splits)
  then show ?thesis by (simp add: startRelaySync_def announceRelay_def relayPush_def)
qed

lemma no_relay_no_change: "p_relayURL p = [] \<Longrightarrow> startRelaySync C E ks turns p = p"
proof -
  assume r: "p_relayURL p = []"
  have "relay_turns C turns p = p"
    by (induction turns) (simp_all add: relayPollOnce_def r)
  then show ?thesis by (simp add: startRelaySync_def announceRelay_def r)
qed

end
