(* ===== verification/Embedded_Host.thy ===== *)
theory Embedded_Host
  imports Host_Loops Node_Main
begin

text \<open>
  The choice of the peer-to-peer backend at the end of \<open>main\<close> (\<open>main.go\<close>): with \<open>-p2p-backend libp2p\<close> the node makes an embedded host on its own address, hands it the addresses of the
  validators of the ledger, and starts it beside the peer-to-peer node. \<open>ks\<close> is the order in which the validators are visited, \<open>key\<close> the key pair of the host.
\<close>

definition start_embedded :: "crypto \<Rightarrow> (string \<times> string) go \<Rightarrow> string list \<Rightarrow> string \<Rightarrow> serverConfig \<Rightarrow> P2PNode \<Rightarrow> LibP2PNode option" where
  "start_embedded C key ks p2pBackend cfg p =
     (if p2pBackend = ''libp2p'' then
        (case NewLibP2PNode C key (p_addr p) (cfg_StrictP2P cfg) of Ok embedded \<Rightarrow> Some (lp_ValidatorSet ks embedded) | _ \<Rightarrow> None)
      else None)"

text \<open>An address of the ledger is no identifier of a peer: one is a hash in hexadecimal digits, the other has a prefix before it.\<close>

lemma hex_is_no_peer: "\<not> prefix ''libp2p:'' (EncodeToString s)"
proof (cases s)
  case (Cons c cs)
  have "hex_val (CHR ''l'') = None" by (simp add: hex_val_def)
  moreover have "(of_char c :: nat) div 16 < 16" using nat_of_char_less_256 [of c] by (simp add: less_mult_imp_div_less)
  ultimately have "hex_digit (of_char c div 16) \<noteq> CHR ''l''" by (metis hex_val_hex_digit option.distinct(1))
  then show ?thesis by (simp add: Cons)
qed simp

lemma admit_shut_out:
  assumes "lp_strictMode n" "\<And>v. v |\<in>| lp_validatorSet n \<Longrightarrow> \<not> prefix ''libp2p:'' v"
  shows "fst (admit C enc now c n) = n"
proof -
  have "peer_id C pub |\<notin>| lp_validatorSet n" for pub using assms(2) [of "peer_id C pub"] by (auto simp: peer_id_def)
  then show ?thesis using assms(1) by (auto simp: admit_def Let_def split: prod.splits option.splits)
qed

lemma acceptLoop_shut_out:
  assumes "lp_strictMode n" "\<And>v. v |\<in>| lp_validatorSet n \<Longrightarrow> \<not> prefix ''libp2p:'' v"
  shows "fst (acceptLoop C enc evs n) = n"
  using assms by (induction C enc evs n rule: acceptLoop.induct) (simp_all add: admit_shut_out)

text \<open>C27. The strict embedded host admits nobody. Its set of validators holds addresses of the ledger, and it compares them with identifiers of peers; as long as no address starts with the
  prefix of an identifier, whatever connections arrive, no session is ever made, not even for a validator.\<close>

theorem strict_embedded_host_is_empty:
  assumes "start_embedded C key ks backend cfg p = Some n" "cfg_StrictP2P cfg" "range_order ks (nd_Validators (p_chain p))"
    and "\<And>v. has_key (nd_Validators (p_chain p)) v \<Longrightarrow> \<not> prefix ''libp2p:'' v"
  shows "lp_peers (fst (acceptLoop C enc evs n)) = fmempty"
proof -
  have n: "lp_strictMode n" "lp_peers n = fmempty" "lp_validatorSet n = fold finsert ks {||}"
    using assms(1,2) by (auto simp: start_embedded_def NewLibP2PNode_def lp_ValidatorSet_def split: if_splits go.splits)
  have "\<not> prefix ''libp2p:'' v" if "v |\<in>| lp_validatorSet n" for v
    using that assms(3,4) by (auto simp: n(3) fold_finsert_mem range_order_def has_key_def fmlookup_dom_iff)
  then show ?thesis using acceptLoop_shut_out [OF n(1)] n(2) by simp
qed

definition demo_backend_node :: P2PNode where
  "demo_backend_node = demo_p2p\<lparr>p_chain := (p_chain demo_p2p)\<lparr>nd_Validators := fmupd ''v'' (demo_validator 500) fmempty\<rparr>\<rparr>"

theorem strict_embedded_host_is_empty_witness:
  "\<exists>n. start_embedded demo_crypto (Ok (replicate 32 CHR ''p'', replicate 64 CHR ''s'')) [''v''] ''libp2p'' ((na_cfg demo_node_api)\<lparr>cfg_StrictP2P := True\<rparr>) demo_backend_node = Some n \<and>
     lp_peers (fst (acceptLoop demo_crypto (\<lambda>_. ''x'') [AcceptError False, Accepted 0 \<lparr>cn_in = [], cn_out = [], cn_broken = False\<rparr>] n)) = fmempty"
proof -
  obtain n where n: "start_embedded demo_crypto (Ok (replicate 32 CHR ''p'', replicate 64 CHR ''s'')) [''v''] ''libp2p'' ((na_cfg demo_node_api)\<lparr>cfg_StrictP2P := True\<rparr>)
      demo_backend_node = Some n"
    by (simp add: start_embedded_def NewLibP2PNode_def)
  have "lp_peers (fst (acceptLoop demo_crypto (\<lambda>_. ''x'') evs n)) = fmempty" for evs
    by (rule strict_embedded_host_is_empty [OF n]) (auto simp: range_order_def has_key_def demo_backend_node_def split: if_splits)
  with n show ?thesis by blast
qed

end
