(* ===== verification/Miner_Tool.thy ===== *)
theory Miner_Tool
  imports Node_Network
begin

text \<open>
  The miner (\<open>tools/miner/main.go\<close>): it asks a node to mine a block and hands the block back to it, again and again. A block is the JSON object that the node
  answered, a nil map is \<open>None\<close>. The loop of \<open>Start\<close> has no end: \<open>Start\<close> is the state after a number of rounds and the lines that were printed.
\<close>

section \<open>The tool\<close>

record Miner =
  mi_apiURL :: string
  mi_minerAddr :: string

type_synonym json_object = "(string \<times> json) list"

datatype miner_body = MineBody string | SubmitBody json_object

record miner_json =
  mj_block :: "reader \<Rightarrow> json_object option go"
  mj_Sprint :: "json option \<Rightarrow> string"

definition NewMiner :: "string \<Rightarrow> string \<Rightarrow> Miner" where
  "NewMiner apiURL minerAddr = \<lparr>mi_apiURL = apiURL, mi_minerAddr = minerAddr\<rparr>"

definition mineBlock :: "miner_json \<Rightarrow> (miner_body, 'n) client \<Rightarrow> Miner \<Rightarrow> 'n \<Rightarrow> 'n \<times> json_object option go" where
  "mineBlock J cl m n =
     (case http_Post cl (mi_apiURL m @ ''/api/mine'') (MineBody (mi_minerAddr m)) n of
        (n, Err e) \<Rightarrow> (n, Err e)
      | (n, Panic e) \<Rightarrow> (n, Panic e)
      | (n, Ok (status, rd)) \<Rightarrow>
          (n, if status \<noteq> StatusOK then Err (''mine endpoint returned '' @ fmt_nat status) else mj_block J rd))"

definition submitBlock :: "(miner_body, 'n) client \<Rightarrow> Miner \<Rightarrow> json_object \<Rightarrow> 'n \<Rightarrow> 'n \<times> unit go" where
  "submitBlock cl m block n =
     (case http_Post cl (mi_apiURL m @ ''/api/miner/submit'') (SubmitBody block) n of
        (n, Err e) \<Rightarrow> (n, Err e)
      | (n, Panic e) \<Rightarrow> (n, Panic e)
      | (n, Ok (status, rd)) \<Rightarrow> (n, if status \<noteq> StatusOK then Err (''submit endpoint returned '' @ fmt_nat status) else Ok ()))"

definition miner_round :: "miner_json \<Rightarrow> (miner_body, 'n) client \<Rightarrow> Miner \<Rightarrow> 'n \<Rightarrow> 'n \<times> string list go" where
  "miner_round J cl m n =
     (case mineBlock J cl m n of
        (n, Err e) \<Rightarrow> (n, Ok [''mine error: '' @ e])
      | (n, Panic e) \<Rightarrow> (n, Panic e)
      | (n, Ok None) \<Rightarrow> (n, Ok [])
      | (n, Ok (Some block)) \<Rightarrow>
          (let idx = mj_Sprint J (map_of block ''index'');
               hash = mj_Sprint J (map_of block ''block_hash'');
               line = ''Block mined: index='' @ idx @ '' hash='' @ hash
           in case submitBlock cl m block n of
                (n, Ok _) \<Rightarrow> (n, Ok [line])
              | (n, Err e) \<Rightarrow> (n, Ok [line, ''submit error: '' @ e])
              | (n, Panic e) \<Rightarrow> (n, Panic e)))"

text \<open>The client of a round may differ from that of the next one: it holds what the node meets in that round.\<close>

fun miner_rounds :: "miner_json \<Rightarrow> Miner \<Rightarrow> (miner_body, 'n) client list \<Rightarrow> 'n \<Rightarrow> 'n \<times> string list go" where
  "miner_rounds J m [] n = (n, Ok [])"
| "miner_rounds J m (cl # cls) n =
     (case miner_round J cl m n of
        (n, Ok lines) \<Rightarrow> (case miner_rounds J m cls n of (n, Ok rest) \<Rightarrow> (n, Ok (lines @ rest)) | (n, r) \<Rightarrow> (n, r))
      | (n, r) \<Rightarrow> (n, r))"

definition miner_Start :: "miner_json \<Rightarrow> Miner \<Rightarrow> (miner_body, 'n) client list \<Rightarrow> 'n \<Rightarrow> 'n \<times> string list go" where
  "miner_Start J m cls n =
     (case miner_rounds J m cls n of
        (n, Ok lines) \<Rightarrow> (n, Ok ([''Miner started: '' @ mi_minerAddr m, ''API: '' @ mi_apiURL m] @ lines))
      | (n, r) \<Rightarrow> (n, r))"

definition miner_main :: "(string \<Rightarrow> string) \<Rightarrow> string + Miner" where
  "miner_main osenv =
     (let apiURL = (if osenv ''TENDER_API_URL'' = [] then ''http://localhost:8080'' else osenv ''TENDER_API_URL'');
          minerAddr = osenv ''TENDER_MINER_ADDRESS''
      in if minerAddr = [] then Inl ''TENDER_MINER_ADDRESS is required'' else Inr (NewMiner apiURL minerAddr))"

section \<open>The miner and the node\<close>

text \<open>The miner has no key. A node that asks for one refuses the request of every round before it looks at it.\<close>

lemma no_header_refused: "cfg_EnableAuth cfg \<Longrightarrow> \<exists>e. requireAuth utrim [] cfg = Err e"
  by (simp add: requireAuth_def TrimSpace_def trim_ascii_def is_ascii_def)

lemma miner_round_refused:
  assumes "cfg_EnableAuth (na_cfg A)"
  shows "miner_round J (node_client A w enc dump base) m g = (g, Ok [''mine error: mine endpoint returned 401''])"
proof -
  obtain e where "requireAuth (na_utrim A) [] (na_cfg A) = Err e" using no_header_refused assms by blast
  then have "cl_do (node_client A w enc dump base) (post url [] b) g = (g, Ok (StatusUnauthorized, e, []))" for url b
    by (intro refused_by_node) (simp_all add: post_def bearer_def)
  moreover have "fmt_nat 401 = ''401''" by code_simp
  ultimately show ?thesis by (simp add: miner_round_def mineBlock_def http_Post_def server_client_def)
qed

text \<open>C24. The miner and the node together. As long as the node asks for a key, which is its default, the miner never mines: whatever the node meets in the rounds, it
  stays exactly as it is, and every round prints that the request was refused.\<close>

theorem miner_never_mines:
  assumes "cfg_EnableAuth (na_cfg A)"
  shows "miner_Start J m (map (\<lambda>w. node_client A w enc dump (mi_apiURL m)) ws) g =
    (g, Ok ([''Miner started: '' @ mi_minerAddr m, ''API: '' @ mi_apiURL m] @ replicate (length ws) ''mine error: mine endpoint returned 401''))"
proof -
  have "miner_rounds J m (map (\<lambda>w. node_client A w enc dump (mi_apiURL m)) ws) g =
      (g, Ok (replicate (length ws) ''mine error: mine endpoint returned 401''))"
    by (induction ws) (simp_all add: miner_round_refused [OF assms])
  then show ?thesis by (simp add: miner_Start_def)
qed

theorem miner_never_mines_witness:
  "miner_Start \<lparr>mj_block = \<lambda>_. Ok None, mj_Sprint = \<lambda>_. []\<rparr> (NewMiner ''http://localhost:8080'' ''a'')
     (map (\<lambda>w. node_client demo_node_api w (\<lambda>_. []) (\<lambda>_. []) ''http://localhost:8080'') [demo_node_world, demo_node_world])
     (free (new_node_server (na_cfg demo_node_api) demo_p2p)) =
   (free (new_node_server (na_cfg demo_node_api) demo_p2p),
     Ok [''Miner started: a'', ''API: http://localhost:8080'', ''mine error: mine endpoint returned 401'', ''mine error: mine endpoint returned 401''])"
proof -
  have "cfg_EnableAuth (na_cfg demo_node_api)"
    by (simp add: demo_node_api_def serverConfigFromEnv_def getEnvBoolOrDefault_def)
  from miner_never_mines [OF this, of "\<lparr>mj_block = \<lambda>_. Ok None, mj_Sprint = \<lambda>_. []\<rparr>" "NewMiner ''http://localhost:8080'' ''a''" "\<lambda>_. []" "\<lambda>_. []"
      "[demo_node_world, demo_node_world]"]
  show ?thesis by (simp add: NewMiner_def numeral_2_eq_2)
qed

section \<open>A block that is mined cannot be submitted\<close>

text \<open>A mined block is on the chain already: the index that a submitted block must have is the next one.\<close>

lemma mined_block_is_refused:
  assumes "node_MineBlockFor C E K miner n = Some (n', Ok b)" "nd_Chain n \<noteq> []" "blk_Index (last (nd_Chain n)) + 1 = of_nat (length (nd_Chain n))"
  shows "node_SubmitMinedBlock C E' b n' = (n', Err ''invalid block index'') \<and> nd_Chain n' = nd_Chain n @ [b]"
  using assms(1,2)
proof (cases rule: node_MineBlockFor_cases)
  case (mined m block author)
  have b: "b = block" "nd_Chain n' = nd_Chain n @ [block]" using node_commit_mined_spec [OF mined(3)] mined(1) by auto
  have "blk_Index block = of_nat (length (nd_Chain n))" using mined(2) assms(3) by (simp add: node_validateBlock_Ok)
  then show ?thesis by (simp add: node_SubmitMinedBlock_def b)
qed simp

lemma broadcastBlock_chain [frame]: "p_chain (fst (broadcastBlock W E b p)) = p_chain p"
  by (simp add: broadcastBlock_def frame)

lemma n_mine_answers:
  assumes "rq_Method r = ''POST''" "nj_miner (na_J A) (rq_Body r) = Ok miner" "no_stall w"
    and "node_MineBlockFor (na_C A) (nw_E w) (nw_K w) miner (nv_chain s) = Some (n', Ok b)"
  shows "\<exists>s'. n_mine A w r (free s) = (Returned (Replied (NBlock b)), free s') \<and> nv_chain s' = n'"
  using assms broadcasts_end(2) [of "nw_W w"]
  by (auto simp: n_mine_def only_post_def decoded_def or_fail_def p_then_def p_bind_def locked_def Lock_def p_defer_def body_def free_def mu_free_def unlock_def no_stall_def
      n_broadcastBlock_def n_send_def n_read_def rlocked_def RLock_def reads_def runlock_def p_ret_def nv_set_def nv_chain_def frame case_prod_unfold)

lemma n_miner_submit_refuses:
  assumes "rq_Method r = ''POST''" "nj_block (na_J A) (rq_Body r) = Ok b"
    and "node_SubmitMinedBlock (na_C A) (nw_E w) b (nv_chain s) = (nv_chain s, Err e)"
  shows "n_miner_submit A w r (free s) = (Returned (Failed StatusBadRequest e), free s)"
  using assms
  by (auto simp: n_miner_submit_def only_post_def decoded_def or_fail_def p_then_def p_bind_def n_call_def locked_def Lock_def p_defer_def body_def free_def mu_free_def unlock_def
      p_ret_def nv_set_def nv_chain_def)

lemma miner_routes: "map_of (node_routes A) ''/api/mine'' = Some n_mine" "map_of (node_routes A) ''/api/miner/submit'' = Some n_miner_submit"
  by (simp_all add: node_routes_def)

text \<open>With a node that asks for no key, a round in which the node mines appends exactly the mined block; handing it back is refused with status 400 and
  changes nothing, since the block is on the chain already. So the miner prints an error for every block that it mines. The hypotheses on \<open>enc\<close>, \<open>dump\<close> and
  \<open>obj\<close> say that node and miner agree on the encoding; the peers of the node take what is written to them.\<close>

theorem mined_block_is_refused_on_submission:
  assumes "\<not> cfg_EnableAuth (na_cfg A)"
    and "nj_miner (na_J A) (enc (MineBody (mi_minerAddr m)), []) = Ok (mi_minerAddr m)"
    and "mj_block J (dump (NBlock b), []) = Ok (Some obj)" "nj_block (na_J A) (enc (SubmitBody obj), []) = Ok b"
    and "nd_Chain (nv_chain s) \<noteq> []" "blk_Index (last (nd_Chain (nv_chain s))) + 1 = of_nat (length (nd_Chain (nv_chain s)))"
    and "node_MineBlockFor (na_C A) (nw_E w) (nw_K w) (mi_minerAddr m) (nv_chain s) = Some (n', Ok b)" and "no_stall w"
  shows "\<exists>s' line. miner_round J (node_client A w enc dump (mi_apiURL m)) m (free s) =
      (free s', Ok [line, ''submit error: submit endpoint returned 400'']) \<and> nv_chain s' = n' \<and> nd_Chain n' = nd_Chain (nv_chain s) @ [b]"
proof -
  let ?cl = "node_client A w enc dump (mi_apiURL m)"
  have ok: "requireAuth (na_utrim A) [] (na_cfg A) = Ok ()" using assms(1) by (simp add: requireAuth_def)
  have api: "startAPI A w (received_request enc (mi_apiURL m) (post (mi_apiURL m @ path) [] x)) = h A w (received_request enc (mi_apiURL m) (post (mi_apiURL m @ path) [] x))"
    if "map_of (node_routes A) path = Some h" for path x h
    using that ok by (simp add: startAPI_def authorized_def node_mux_def received_request_def post_def bearer_def)
  obtain s' where s': "http_Post ?cl (mi_apiURL m @ ''/api/mine'') (MineBody (mi_minerAddr m)) (free s) = (free s', Ok (StatusOK, dump (NBlock b), []))" "nv_chain s' = n'"
    using n_mine_answers [of "received_request enc (mi_apiURL m) (post (mi_apiURL m @ ''/api/mine'') [] (MineBody (mi_minerAddr m)))" A "mi_minerAddr m" w s n' b] assms(2,7,8)
      api [OF miner_routes(1)]
    by (auto simp: http_Post_def server_client_def received_request_def post_def)
  have "http_Post ?cl (mi_apiURL m @ ''/api/miner/submit'') (SubmitBody obj) (free s') = (free s', Ok (StatusBadRequest, ''invalid block index'', []))"
    using n_miner_submit_refuses [of "received_request enc (mi_apiURL m) (post (mi_apiURL m @ ''/api/miner/submit'') [] (SubmitBody obj))" A b w s' "''invalid block index''"]
      assms(4) api [OF miner_routes(2)] mined_block_is_refused [OF assms(7,5,6)] s'(2)
    by (auto simp: http_Post_def server_client_def received_request_def post_def)
  moreover have "fmt_nat 400 = ''400''" by code_simp
  ultimately show ?thesis
    using s' assms(3) mined_block_is_refused [OF assms(7,5,6)]
    by (auto simp: miner_round_def mineBlock_def submitBlock_def Let_def)
qed

end
