(* ===== verification/Faucet_Server.thy ===== *)
theory Faucet_Server
  imports Tool_World
begin

text \<open>
  The HTTP server of the faucet tool (\<open>tools/faucet/server.go\<close>). The type \<open>Faucet\<close> that it serves is declared nowhere in the repository: its state is the type \<open>'f\<close> and
  its two methods are the fields of \<open>faucet\<close>. A method may panic, which ends the request.
\<close>

record 'f faucet =
  fc_Fund :: "string \<Rightarrow> u64 \<Rightarrow> 'f \<Rightarrow> 'f \<times> u64 go"
  fc_GetBalance :: "string \<Rightarrow> 'f \<Rightarrow> u64 go"

record 'f FaucetServer =
  fs_faucet :: "'f faucet"

definition NewFaucetServer :: "'f faucet \<Rightarrow> 'f FaucetServer" where
  "NewFaucetServer F = \<lparr>fs_faucet = F\<rparr>"

definition handleFund :: "(reader \<Rightarrow> string go) \<Rightarrow> 'f FaucetServer \<Rightarrow> http_request \<Rightarrow> 'f \<Rightarrow> 'f \<times> json http_reply go" where
  "handleFund dec s r f =
     (if rq_Method r \<noteq> ''POST'' then (f, Ok (Failed StatusMethodNotAllowed ''method not allowed''))
      else case dec (rq_Body r) of
        Err e \<Rightarrow> (f, Ok (Failed StatusBadRequest e))
      | Panic e \<Rightarrow> (f, Panic e)
      | Ok address \<Rightarrow>
          (let amount = 1000 in
           case fc_Fund (fs_faucet s) address amount f of
             (f, Err e) \<Rightarrow> (f, Ok (Failed StatusTooManyRequests e))
           | (f, Panic e) \<Rightarrow> (f, Panic e)
           | (f, Ok balance) \<Rightarrow> (f, Ok (Replied (JObj [(''address'', JStr address), (''amount'', jnum amount), (''balance'', jnum balance)])))))"

definition handleBalance :: "'f FaucetServer \<Rightarrow> http_request \<Rightarrow> 'f \<Rightarrow> json http_reply go" where
  "handleBalance s r f =
     (let address = drop (length ''/balance/'') (rq_Path r) in
      go_bind (fc_GetBalance (fs_faucet s) address f) (\<lambda>balance. Ok (Replied (JObj [(''balance'', jnum balance)]))))"

definition faucet_handleHealth :: "string \<Rightarrow> json http_reply" where
  "faucet_handleHealth stamp = Replied (JObj [(''status'', JStr ''ok''), (''timestamp'', JStr stamp)])"

text \<open>The routes of \<open>Start\<close>, for requests with a clean path; \<open>stamp\<close> is the clock.\<close>

definition faucet_mux :: "(reader \<Rightarrow> string go) \<Rightarrow> 'f FaucetServer \<Rightarrow> string \<times> http_request \<Rightarrow> 'f \<Rightarrow> 'f \<times> json http_reply go" where
  "faucet_mux dec s = (\<lambda>(stamp, r) f.
     if rq_Path r = ''/fund'' then handleFund dec s r f
     else if prefix ''/balance/'' (rq_Path r) then (f, handleBalance s r f)
     else if rq_Path r = ''/health'' then (f, Ok (faucet_handleHealth stamp))
     else if rq_Path r = ''/balance'' then (f, Ok (Failed 301 ''/balance/''))
     else (f, Ok (Failed StatusNotFound ''404 page not found'')))"

text \<open>Only funding changes the state of the faucet, and always by the same amount: a request leaves the state as it is, or it is what \<open>Fund\<close> makes of it for the decoded
  address and 1000 units; a refusal of \<open>Fund\<close> is answered with status 429, a success with the amount and the new balance.\<close>

theorem faucet_funds_fixed_amounts:
  assumes "faucet_mux dec s (stamp, r) f = (f', Ok answer)"
  shows "f' = f \<or> (\<exists>address x. rq_Path r = ''/fund'' \<and> rq_Method r = ''POST'' \<and> dec (rq_Body r) = Ok address \<and>
    fc_Fund (fs_faucet s) address 1000 f = (f', x) \<and>
    answer = (case x of Ok balance \<Rightarrow> Replied (JObj [(''address'', JStr address), (''amount'', JNum 1000), (''balance'', jnum balance)])
              | Err e \<Rightarrow> Failed StatusTooManyRequests e | Panic e \<Rightarrow> answer))"
proof (cases "rq_Path r = ''/fund'' \<and> rq_Method r = ''POST''")
  case True
  obtain address where d: "dec (rq_Body r) = Ok address \<or> f' = f"
    using assms True by (auto simp: faucet_mux_def handleFund_def split: go.splits)
  obtain f1 x where "fc_Fund (fs_faucet s) address 1000 f = (f1, x)" by force
  then show ?thesis
    using assms True d by (cases x) (auto simp: faucet_mux_def handleFund_def Let_def jnum_def)
qed (use assms in \<open>auto simp: faucet_mux_def handleFund_def split: if_splits\<close>)

end
