(* ===== verification/Go_Scan.thy ===== *)
theory Go_Scan
  imports Domain
begin

text \<open>
  \<open>fmt.Sscanf\<close> with a format of a literal text, \<open>%d\<close> for a \<open>uint64\<close>, and another literal text. The verb skips white space, but not over the end of a line; what follows
  the format in the input is not looked at. \<open>uspace s\<close> is the number of bytes of a white space outside ASCII at the front of \<open>s\<close>, 0 if there is none.
\<close>

fun SkipSpace :: "(string \<Rightarrow> nat) \<Rightarrow> string \<Rightarrow> string go" where
  "SkipSpace uspace [] = Ok []"
| "SkipSpace uspace (c # cs) =
     (if c = CHR 0x0D \<and> prefix [CHR 0x0A] cs then SkipSpace uspace cs
      else if c = CHR 0x0A then Err ''unexpected newline''
      else if is_space c then SkipSpace uspace cs
      else if 0 < uspace (c # cs) then SkipSpace uspace (drop (uspace (c # cs) - 1) cs)
      else Ok (c # cs))"

definition scan_uint :: "(string \<Rightarrow> nat) \<Rightarrow> string \<Rightarrow> (u64 \<times> string) go" where
  "scan_uint uspace s =
     go_bind (SkipSpace uspace s) (\<lambda>s.
       let tok = takeWhile is_digit s in
       if s = [] then Err ''unexpected EOF''
       else if tok = [] then Err ''expected integer''
       else case ParseUint tok of
         Inl _ \<Rightarrow> Err (''strconv.ParseUint: parsing '' @ tok @ '': value out of range'')
       | Inr v \<Rightarrow> Ok (v, dropWhile is_digit s))"

definition scan_literal :: "string \<Rightarrow> string \<Rightarrow> string go" where
  "scan_literal lit s =
     (if prefix lit s then Ok (drop (length lit) s)
      else if prefix s lit then Err ''unexpected EOF'' else Err ''input does not match format'')"

definition Sscanf_uint :: "(string \<Rightarrow> nat) \<Rightarrow> string \<Rightarrow> string \<Rightarrow> string \<Rightarrow> u64 go" where
  "Sscanf_uint uspace before after s =
     go_bind (scan_literal before s) (\<lambda>s.
     go_bind (scan_uint uspace s) (\<lambda>(v, s).
     go_bind (scan_literal after s) (\<lambda>_. Ok v)))"

section \<open>A printed number is read back\<close>

lemma span_digits:
  assumes "list_all is_digit ds" "rest = [] \<or> \<not> is_digit (hd rest)"
  shows "takeWhile is_digit (ds @ rest) = ds" "dropWhile is_digit (ds @ rest) = rest"
  using assms by (induction ds; cases rest; simp)+

lemma SkipSpace_digit: "is_digit c \<Longrightarrow> uspace (c # cs) = 0 \<Longrightarrow> SkipSpace uspace (c # cs) = Ok (c # cs)"
  by (auto simp: is_digit_def is_space_def)

lemma scan_uint_FormatUint:
  assumes "rest = [] \<or> \<not> is_digit (hd rest)" "uspace (FormatUint v @ rest) = 0"
  shows "scan_uint uspace (FormatUint v @ rest) = Ok (v, rest)"
proof -
  obtain c cs where c: "FormatUint v = c # cs" using FormatUint_nonempty by (cases "FormatUint v") auto
  have "is_digit c" using FormatUint_digits [of v] by (simp add: c)
  then have "SkipSpace uspace (FormatUint v @ rest) = Ok (FormatUint v @ rest)"
    using assms(2) SkipSpace_digit unfolding c append_Cons by blast
  then show ?thesis
    using span_digits [OF FormatUint_digits assms(1)] FormatUint_nonempty by (simp add: scan_uint_def Let_def del: SkipSpace.simps)
qed

lemma Sscanf_uint_reads:
  assumes "after @ rest = [] \<or> \<not> is_digit (hd (after @ rest))" "uspace (FormatUint v @ after @ rest) = 0"
  shows "Sscanf_uint uspace before after (before @ FormatUint v @ after @ rest) = Ok v"
  using scan_uint_FormatUint [of "after @ rest" uspace v] assms by (simp add: Sscanf_uint_def scan_literal_def)

end
