(* ===== verification/Rosetta_Server.thy ===== *)
theory Rosetta_Server
  imports Tool_World Go_Scan
begin

text \<open>
  The Rosetta server (\<open>tools/rosetta-server/main.go\<close>): it reads the state file of a node once, at its start, and answers three requests about the copy.
  Its struct \<open>Transaction\<close> has the fields of the one of the node; its struct \<open>Block\<close> has fewer. A handler is a function from the state to the new state and
  the reply; the server has no lock, and a handler is one step here. A nil slice of transactions, which is encoded as \<open>null\<close>, is \<open>None\<close>.
\<close>

section \<open>Data\<close>

type_synonym rosetta_Transaction = Transaction

record ServedBlock =
  rb_Index :: u64
  rb_Author :: string
  rb_PreviousHash :: string
  rb_Timestamp :: i64
  rb_Transactions :: "rosetta_Transaction list option"
  rb_Nonce :: u64
  rb_BlockHash :: string

record ServedState =
  st_Chain :: "ServedBlock list"
  st_Pending :: "rosetta_Transaction list"
  st_ChainID :: string
  st_TokenSupply :: u64

record RosettaServer =
  rs_state :: ServedState
  rs_port :: string

record submitPayload =
  sp_Transaction :: string
  sp_Blockchain :: string
  sp_Network :: string

text \<open>JSON: the two decoders of a submission, the encoding that signatures are checked against, and \<open>json.Unmarshal\<close> of the state file, which on an error keeps what it has
  decoded so far.\<close>

record rosetta_json =
  rsj_submit :: "reader \<Rightarrow> submitPayload go"
  rsj_tx :: "string \<Rightarrow> rosetta_Transaction go"
  rsj_marshal :: "rosetta_Transaction \<Rightarrow> string"
  rsj_state :: "string \<Rightarrow> ServedState \<Rightarrow> ServedState"

text \<open>The clock: seconds, nanoseconds, and the time as text.\<close>

record rosetta_clock =
  rk_Unix :: i64
  rk_UnixNano :: i64
  rk_RFC3339 :: string

section \<open>Handlers\<close>

definition NewRosettaServer :: "ServedState \<Rightarrow> string \<Rightarrow> RosettaServer" where
  "NewRosettaServer state port = \<lparr>rs_state = state, rs_port = port\<rparr>"

definition jint :: "i64 \<Rightarrow> json" where
  "jint v = JNum (of_int (sint v))"

definition served_tx :: "rosetta_Transaction \<Rightarrow> json" where
  "served_tx tx = JObj (
     (if tx_ID tx = [] then [] else [(''id'', JStr (tx_ID tx))]) @
     [(''from'', JStr (tx_From tx)), (''from_pubkey'', JStr (tx_FromPubKey tx)), (''to'', JStr (tx_To tx)), (''amount'', jnum (tx_Amount tx))] @
     (if tx_Fee tx = 0 then [] else [(''fee'', jnum (tx_Fee tx))]) @ (if tx_Nonce tx = 0 then [] else [(''nonce'', jnum (tx_Nonce tx))]) @
     [(''tx_type'', JStr (tx_TxType tx))] @
     (if tx_Payload tx = [] then [] else [(''payload'', JStr (tx_Payload tx))]) @ (if tx_Signature tx = [] then [] else [(''signature'', JStr (tx_Signature tx))]) @
     [(''timestamp'', jint (tx_Timestamp tx))] @ (if tx_ChainID tx = [] then [] else [(''chain_id'', JStr (tx_ChainID tx))]))"

definition block_identifier :: "u64 \<Rightarrow> string \<Rightarrow> json" where
  "block_identifier index hash = JObj [(''index'', jnum index), (''hash'', JStr hash)]"

definition networkStatus :: "rosetta_clock \<Rightarrow> ServedState \<Rightarrow> json http_reply" where
  "networkStatus k st =
     (let genesis = block_identifier 0 ''genesis'';
          (current, timestamp) =
            (if st_Chain st \<noteq> [] then let b = last (st_Chain st) in (block_identifier (rb_Index b) (rb_BlockHash b), rb_Timestamp b)
             else (genesis, rk_Unix k))
      in Replied (JObj [(''current_block_identifier'', current), (''oldest_block_identifier'', genesis), (''genesis_block_identifier'', genesis),
           (''current_block_timestamp'', jint timestamp), (''peers'', JArr [])]))"

definition served_block :: "ServedBlock \<Rightarrow> json" where
  "served_block b = JObj [(''block'', JObj [
     (''block_identifier'', block_identifier (rb_Index b) (rb_BlockHash b)),
     (''parent_block_identifier'', block_identifier (rb_Index b - 1) (rb_PreviousHash b)),
     (''timestamp'', jint (rb_Timestamp b)),
     (''transactions'', case rb_Transactions b of None \<Rightarrow> JNull | Some txs \<Rightarrow> JArr (map served_tx txs))])]"

definition blockByIndex :: "(string \<Rightarrow> nat) \<Rightarrow> http_request \<Rightarrow> ServedState \<Rightarrow> json http_reply" where
  "blockByIndex uspace r st =
     (let path = drop (length ''/block/'') (rq_Path r) in
      if path = [] then Failed StatusBadRequest ''missing block index''
      else case Sscanf_uint uspace [] [] path of
        Ok targetIndex \<Rightarrow>
          (case List.find (\<lambda>b. rb_Index b = targetIndex) (st_Chain st) of
             Some block \<Rightarrow> Replied (served_block block)
           | None \<Rightarrow> Failed StatusNotFound ''block not found'')
      | _ \<Rightarrow> Failed StatusBadRequest ''invalid block index'')"

definition constructionSubmit :: "crypto \<Rightarrow> rosetta_json \<Rightarrow> rosetta_clock \<Rightarrow> http_request \<Rightarrow> ServedState \<Rightarrow> ServedState \<times> json http_reply go" where
  "constructionSubmit C J k r st =
     (case rsj_submit J (rq_Body r) of
        Err e \<Rightarrow> (st, Ok (Failed StatusBadRequest e))
      | Panic e \<Rightarrow> (st, Panic e)
      | Ok req \<Rightarrow>
          (if sp_Transaction req = [] then (st, Ok (Failed StatusBadRequest ''missing transaction''))
           else case rsj_tx J (sp_Transaction req) of
             Err e \<Rightarrow> (st, Ok (Failed StatusBadRequest e))
           | Panic e \<Rightarrow> (st, Panic e)
           | Ok tx \<Rightarrow>
               (let tx = tx\<lparr>tx_ID := ''tx-'' @ FormatInt (rk_UnixNano k)\<rparr>;
                    st = st\<lparr>st_Pending := st_Pending st @ [tx]\<rparr>;
                    txHash = sha256 C (tx_ID tx @ sp_Network req)
                in (st, Ok (Replied (JObj [(''transaction_identifier'', JObj [(''hash'', JStr (EncodeToString txHash))]),
                     (''status'', JObj [(''accepted'', JBool True)])]))))))"

definition rosetta_health :: "rosetta_clock \<Rightarrow> json http_reply" where
  "rosetta_health k = Replied (JObj [(''status'', JStr ''ok''), (''service'', JStr ''rosetta''), (''timestamp'', JStr (rk_RFC3339 k))])"

text \<open>The routes of \<open>Start\<close>, for requests with a clean path: the path without the final slash is redirected.\<close>

definition rosetta_mux :: "crypto \<Rightarrow> (string \<Rightarrow> nat) \<Rightarrow> rosetta_json \<Rightarrow> rosetta_clock \<times> http_request \<Rightarrow> ServedState \<Rightarrow> ServedState \<times> json http_reply go" where
  "rosetta_mux C uspace J = (\<lambda>(k, r) st.
     if rq_Path r = ''/network/status'' then (st, Ok (networkStatus k st))
     else if prefix ''/block/'' (rq_Path r) then (st, Ok (blockByIndex uspace r st))
     else if rq_Path r = ''/construction/submit'' then constructionSubmit C J k r st
     else if rq_Path r = ''/health'' then (st, Ok (rosetta_health k))
     else if rq_Path r = ''/block'' then (st, Ok (Failed 301 ''/block/''))
     else (st, Ok (Failed StatusNotFound ''404 page not found'')))"

text \<open>The signature check of the file, which no handler calls: it is that of the node but for the bytes that are signed.\<close>

definition verifyTransaction :: "crypto \<Rightarrow> rosetta_json \<Rightarrow> rosetta_Transaction \<Rightarrow> bool" where
  "verifyTransaction C J tx =
     (if tx_ChainID tx = [] then False
      else case DecodeString (tx_FromPubKey tx) of
        Ok pubKey \<Rightarrow>
          (if length pubKey \<noteq> 32 then False
           else if tx_From tx \<noteq> EncodeToString (sha256 C pubKey) then False
           else case DecodeString (tx_Signature tx) of
             Ok sig \<Rightarrow>
               (if length sig \<noteq> 64 then False
                else let payload = tx\<lparr>tx_Signature := [], tx_ID := []\<rparr> in ed_verify C pubKey (rsj_marshal J payload) sig)
           | _ \<Rightarrow> False)
      | _ \<Rightarrow> False)"

definition rosetta_main :: "rosetta_json \<Rightarrow> (string \<Rightarrow> string) \<Rightarrow> string files \<Rightarrow> RosettaServer" where
  "rosetta_main J osenv fs =
     (let port = (if osenv ''ROSETTA_PORT'' \<noteq> [] then osenv ''ROSETTA_PORT'' else ''8083'');
          statePath = osenv ''CHAIN_STATE_PATH'';
          state = \<lparr>st_Chain = [], st_Pending = [], st_ChainID = ''tdr-mainnet-1'', st_TokenSupply = 0\<rparr>;
          state = (if statePath \<noteq> [] then (case ReadFile statePath fs of Ok data \<Rightarrow> rsj_state J data state | _ \<Rightarrow> state) else state)
      in NewRosettaServer state port)"

section \<open>What the server shows\<close>

text \<open>Requests never change the chain that is shown; they only append to the list of pending transactions. As a machine whose invariant is that chain and supply are those of the
  start and that the pending transactions begin with those of the start.\<close>

definition serve_rosetta :: "crypto \<Rightarrow> (string \<Rightarrow> nat) \<Rightarrow> rosetta_json \<Rightarrow> rosetta_clock \<times> http_request \<Rightarrow> ServedState \<Rightarrow> ServedState" where
  "serve_rosetta C uspace J ev st = fst (rosetta_mux C uspace J ev st)"

definition grown_from :: "ServedState \<Rightarrow> ServedState \<Rightarrow> bool" where
  "grown_from st0 st \<longleftrightarrow> (\<exists>txs. st = st0\<lparr>st_Pending := st_Pending st0 @ txs\<rparr>)"

lemma submit_grows: "grown_from st0 st \<Longrightarrow> grown_from st0 (fst (constructionSubmit C J k r st))"
  by (auto simp: grown_from_def constructionSubmit_def Let_def split: go.splits)

interpretation rosetta_reads: machine "serve_rosetta C uspace J" "grown_from st0" for C uspace J st0
  by unfold_locales (auto simp: serve_rosetta_def rosetta_mux_def submit_grows split: prod.splits)

text \<open>Block lookup: the index in the path, printed in decimal, finds the first block with that index.\<close>

lemma blockByIndex_found:
  assumes "rq_Path r = ''/block/'' @ FormatUint i" "List.find (\<lambda>b. rb_Index b = i) (st_Chain st) = Some b" "uspace (FormatUint i) = 0"
  shows "blockByIndex uspace r st = Replied (served_block b)"
  using Sscanf_uint_reads [of "[]" "[]" uspace i "[]"] assms by (simp add: blockByIndex_def Let_def)

text \<open>Whatever requests the server has answered, it still shows the chain of the file that was read at the start: the status is that of the last block there, and every block can be
  looked up by its index, as long as the indices are distinct.\<close>

theorem rosetta_shows_the_start:
  assumes "distinct (map rb_Index (st_Chain st0))" "b \<in> set (st_Chain st0)" "\<And>s. uspace s = 0"
    and "rq_Path r = ''/block/'' @ FormatUint (rb_Index b)"
  shows "snd (rosetta_mux C uspace J (k, r) (fold (serve_rosetta C uspace J) evs st0)) = Ok (Replied (served_block b)) \<and>
    st_Chain (fold (serve_rosetta C uspace J) evs st0) = st_Chain st0"
proof -
  let ?st = "fold (serve_rosetta C uspace J) evs st0"
  have "grown_from st0 st0" by (auto simp: grown_from_def intro: exI [of _ "[]"])
  then have "grown_from st0 ?st" by (rule rosetta_reads.run_inv)
  then have chain: "st_Chain ?st = st_Chain st0" by (auto simp: grown_from_def)
  have "List.find (\<lambda>c. rb_Index c = rb_Index b) xs = Some b" if "distinct (map rb_Index xs)" "b \<in> set xs" for xs
    using that by (induction xs) (auto simp: image_iff)
  with assms chain have "blockByIndex uspace r ?st = Replied (served_block b)" by (intro blockByIndex_found) auto
  then show ?thesis using assms(4) chain by (simp add: rosetta_mux_def)
qed

text \<open>Every submission that decodes is accepted and queued, whatever its signature: \<open>verifyTransaction\<close> is not called.\<close>

theorem submission_is_not_verified:
  assumes "rsj_submit J (rq_Body r) = Ok req" "sp_Transaction req \<noteq> []" "rsj_tx J (sp_Transaction req) = Ok tx"
  shows "\<exists>hash. constructionSubmit C J k r st = (st\<lparr>st_Pending := st_Pending st @ [tx\<lparr>tx_ID := ''tx-'' @ FormatInt (rk_UnixNano k)\<rparr>]\<rparr>,
    Ok (Replied (JObj [(''transaction_identifier'', JObj [(''hash'', hash)]), (''status'', JObj [(''accepted'', JBool True)])])))"
  using assms by (simp add: constructionSubmit_def Let_def)

text \<open>The check agrees with that of the node exactly when the signature verifies on both payloads or on neither; a transaction that is signed as the node asks
  passes it only if the signature of one payload also verifies on the other.\<close>

theorem verifyTransaction_agrees_iff:
  assumes "VerifyTransaction C tx"
  shows "verifyTransaction C J tx \<longleftrightarrow>
    (\<exists>pk sig. DecodeString (tx_FromPubKey tx) = Ok pk \<and> DecodeString (tx_Signature tx) = Ok sig \<and> ed_verify C pk (rsj_marshal J (tx\<lparr>tx_Signature := [], tx_ID := []\<rparr>)) sig)"
  using assms by (auto simp: VerifyTransaction_def verifyTransaction_def Let_def split: go.splits if_splits)

text \<open>The parent of the block with index 0 has the greatest index there is: the subtraction wraps around.\<close>

theorem genesis_parent_wraps:
  assumes "rb_Index b = 0"
  shows "served_block b = JObj [(''block'', JObj [(''block_identifier'', block_identifier 0 (rb_BlockHash b)),
     (''parent_block_identifier'', JObj [(''index'', JNum 18446744073709551615), (''hash'', JStr (rb_PreviousHash b))]),
     (''timestamp'', jint (rb_Timestamp b)), (''transactions'', case rb_Transactions b of None \<Rightarrow> JNull | Some txs \<Rightarrow> JArr (map served_tx txs))])]"
  using assms by (simp add: served_block_def block_identifier_def jnum_def unsigned_minus_1_eq_mask mask_eq_exp_minus_1)

definition demo_served :: ServedState where
  "demo_served = \<lparr>st_Chain = [\<lparr>rb_Index = 0, rb_Author = ''g'', rb_PreviousHash = [], rb_Timestamp = 1, rb_Transactions = None, rb_Nonce = 0, rb_BlockHash = ''h''\<rparr>],
     st_Pending = [], st_ChainID = ''c'', st_TokenSupply = 9\<rparr>"

definition served_request :: "string \<Rightarrow> http_request" where
  "served_request path = \<lparr>rq_Method = ''GET'', rq_Path = path, rq_RemoteAddr = ''c'', rq_Authorization = [], rq_RequestID = [], rq_IdempotencyKey = [],
     rq_ContentLength = 0, rq_Body = ([], []), rq_Query = \<lambda>_. [], rq_ContextValidator = None\<rparr>"

definition demo_rosetta_json :: rosetta_json where
  "demo_rosetta_json = \<lparr>rsj_submit = \<lambda>_. Ok \<lparr>sp_Transaction = ''x'', sp_Blockchain = [], sp_Network = []\<rparr>, rsj_tx = \<lambda>_. Ok demo_tx,
     rsj_marshal = \<lambda>_. [], rsj_state = \<lambda>_ st. st\<rparr>"

definition demo_clock :: rosetta_clock where
  "demo_clock = \<lparr>rk_Unix = 0, rk_UnixNano = 0, rk_RFC3339 = []\<rparr>"

theorem rosetta_shows_the_start_witness:
  "snd (rosetta_mux demo_crypto (\<lambda>_. 0) demo_rosetta_json (demo_clock, served_request (''/block/'' @ FormatUint 0))
      (fold (serve_rosetta demo_crypto (\<lambda>_. 0) demo_rosetta_json) [(demo_clock, served_request ''/construction/submit'')] demo_served)) =
   Ok (Replied (served_block (hd (st_Chain demo_served))))"
  by (rule conjunct1 [OF rosetta_shows_the_start]) (simp_all add: demo_served_def served_request_def)

end
