(* ===== verification/Package_Store.thy ===== *)
theory Package_Store
  imports State_Store Go_Scan
begin

text \<open>
  The store of snapshots that package \<open>blockchain\<close> declares beside its data (\<open>domain.go\<close>): it opens a directory, looks for the snapshot of the greatest height
  and deletes files beyond a limit. Its struct \<open>Snapshot\<close> has the fields of the one in \<open>state_store.go\<close>, and the directory is modelled as there; what the
  operating system refuses is a field of \<open>package_store_env\<close>.
\<close>

section \<open>The store\<close>

type_synonym package_Snapshot = StoreSnapshot

record PackageStore =
  pk_files :: "(string, store_file) fmap"
  pk_latest :: "package_Snapshot option"
  pk_history :: "string list"
  pk_maxFiles :: nat

record package_store_env =
  pe_store :: store_env
  pe_mkdir :: "unit go"
  pe_mkdata :: bool
  pe_readdir :: "unit go"
  pe_removable :: "string \<Rightarrow> bool"
  pe_uspace :: "string \<Rightarrow> nat"

definition package_stateRoot :: "crypto \<Rightarrow> string \<Rightarrow> string" where
  "package_stateRoot C data = EncodeToString (take 8 (sha256 C data))"

text \<open>The loop over the names of the directory: \<open>latest\<close>, \<open>latestHeight\<close> and \<open>snapshots\<close> are the variables of the code.\<close>

fun scan_snapshots :: "(string \<Rightarrow> nat) \<Rightarrow> (string, store_file) fmap \<Rightarrow> string list \<Rightarrow> string \<Rightarrow> u64 \<Rightarrow> string list \<Rightarrow> string \<times> string list" where
  "scan_snapshots uspace files [] latest latestHeight snapshots = (latest, snapshots)"
| "scan_snapshots uspace files (name # names) latest latestHeight snapshots =
     (case fmlookup files name of
        None \<Rightarrow> scan_snapshots uspace files names latest latestHeight snapshots
      | Some f \<Rightarrow>
          (if sf_dir f then scan_snapshots uspace files names latest latestHeight snapshots
           else if length name < 12 \<or> take 8 name \<noteq> ''snapshot'' then scan_snapshots uspace files names latest latestHeight snapshots
           else let snapshots = snapshots @ [name] in
             case Sscanf_uint uspace ''snapshot_'' ''.json.gz'' name of
               Ok h \<Rightarrow> (if latestHeight < h then scan_snapshots uspace files names name h snapshots
                         else scan_snapshots uspace files names latest latestHeight snapshots)
             | _ \<Rightarrow> scan_snapshots uspace files names latest latestHeight snapshots))"

definition remove_file :: "package_store_env \<Rightarrow> string \<Rightarrow> (string, store_file) fmap \<Rightarrow> (string, store_file) fmap" where
  "remove_file E name files = (if pe_removable E name then fmdrop name files else files)"

definition pruneSnapshotFiles :: "package_store_env \<Rightarrow> string list \<Rightarrow> PackageStore \<Rightarrow> PackageStore" where
  "pruneSnapshotFiles E names s =
     (let sorted = sort names in
      if length sorted \<le> pk_maxFiles s then s
      else s\<lparr>pk_files := fold (remove_file E) (take (length sorted - pk_maxFiles s) sorted) (pk_files s)\<rparr>)"

definition package_loadLatest :: "package_store_env \<Rightarrow> PackageStore \<Rightarrow> PackageStore \<times> unit go" where
  "package_loadLatest E s =
     (case pe_readdir E of
        Err e \<Rightarrow> (s, Err e)
      | Panic e \<Rightarrow> (s, Panic e)
      | Ok _ \<Rightarrow>
          (case scan_snapshots (pe_uspace E) (pk_files s) (sorted_list_of_fset (fmdom (pk_files s))) [] 0 [] of
             (latest, snapshots) \<Rightarrow>
               (let s = (if pk_maxFiles s < length snapshots then pruneSnapshotFiles E snapshots s else s);
                    s = (if latest = [] \<and> pe_mkdata E \<and> \<not> has_key (pk_files s) ''data''
                         then s\<lparr>pk_files := fmupd ''data'' \<lparr>sf_dir = True, sf_info_ok = True, sf_mod = se_now (pe_store E), sf_data = []\<rparr> (pk_files s)\<rparr> else s)
                in (s, Ok ()))))"

definition package_NewStateStore :: "package_store_env \<Rightarrow> (string, store_file) fmap \<Rightarrow> PackageStore go" where
  "package_NewStateStore E files =
     go_bind (pe_mkdir E) (\<lambda>_.
       case package_loadLatest E \<lparr>pk_files = files, pk_latest = None, pk_history = [], pk_maxFiles = 64\<rparr> of
         (s, Ok _) \<Rightarrow> Ok s | (s, Err e) \<Rightarrow> Err e | (s, Panic e) \<Rightarrow> Panic e)"

definition package_readSnapshot :: "package_store_env \<Rightarrow> string \<Rightarrow> PackageStore \<Rightarrow> PackageStore \<times> unit go" where
  "package_readSnapshot E path s =
     (case fmlookup (pk_files s) path of
        None \<Rightarrow> (s, Err ''no such file or directory'')
      | Some f \<Rightarrow>
          (case go_bind (se_gunzip (pe_store E) (sf_data f)) (\<lambda>data. se_unjson (pe_store E) (take (maxSnapshotSize + 1) data)) of
             Ok snap \<Rightarrow> (s\<lparr>pk_latest := Some snap\<rparr>, Ok ())
           | Err e \<Rightarrow> (s, Err e)
           | Panic e \<Rightarrow> (s, Panic e)))"

section \<open>Opening a directory\<close>

definition snapshot_file :: "(string, store_file) fmap \<Rightarrow> string \<Rightarrow> bool" where
  "snapshot_file files name \<longleftrightarrow>
     12 \<le> length name \<and> take 8 name = ''snapshot'' \<and> (case fmlookup files name of None \<Rightarrow> False | Some f \<Rightarrow> \<not> sf_dir f)"

lemma scan_snapshots_names: "snd (scan_snapshots uspace files names latest h acc) = acc @ filter (snapshot_file files) names"
  by (induction names arbitrary: latest h acc)
    (auto simp: snapshot_file_def Let_def not_less split: option.splits go.splits)

lemma fold_remove_lookup:
  "fmlookup (fold (remove_file E) names files) x = (if x \<in> set names \<and> pe_removable E x then None else fmlookup files x)"
  by (induction names arbitrary: files) (auto simp: remove_file_def)

definition snapshots_of :: "(string, store_file) fmap \<Rightarrow> string list" where
  "snapshots_of files = filter (snapshot_file files) (sorted_list_of_fset (fmdom files))"

lemma snapshots_of_sorted: "sort (snapshots_of files) = snapshots_of files" "distinct (snapshots_of files)"
  by (simp_all add: snapshots_of_def sorted_list_of_fset.rep_eq sorted_sort_id sorted_wrt_filter)

lemma set_snapshots_of: "set (snapshots_of files) = {x. snapshot_file files x}"
  by (auto simp: snapshots_of_def snapshot_file_def fmlookup_dom_iff split: option.splits)

text \<open>What opening does to the directory: with more than 64 snapshot files, the first of their names in lexical order are deleted.\<close>

lemma package_open:
  assumes "package_NewStateStore E files = Ok s"
  shows "pk_latest s = None" "pk_history s = []"
    and "x \<noteq> ''data'' \<Longrightarrow> fmlookup (pk_files s) x =
      (if x \<in> set (take (length (snapshots_of files) - 64) (snapshots_of files)) \<and> pe_removable E x then None else fmlookup files x)"
proof -
  define latest where "latest = fst (scan_snapshots (pe_uspace E) files (sorted_list_of_fset (fmdom files)) [] 0 [])"
  have scan: "scan_snapshots (pe_uspace E) files (sorted_list_of_fset (fmdom files)) [] 0 [] = (latest, snapshots_of files)"
    by (rule prod_eqI) (simp_all add: latest_def scan_snapshots_names snapshots_of_def)
  note run = assms [unfolded package_NewStateStore_def package_loadLatest_def, simplified scan PackageStore.simps prod.case, simplified]
  have "pk_latest s = None \<and> pk_history s = []"
    using run by (cases "pe_mkdir E"; auto simp: Let_def pruneSnapshotFiles_def split: go.splits if_splits)
  then show "pk_latest s = None" "pk_history s = []" by simp_all
  show "x \<noteq> ''data'' \<Longrightarrow> fmlookup (pk_files s) x =
      (if x \<in> set (take (length (snapshots_of files) - 64) (snapshots_of files)) \<and> pe_removable E x then None else fmlookup files x)"
    using run by (cases "pe_mkdir E"; auto simp: Let_def pruneSnapshotFiles_def snapshots_of_sorted(1) fold_remove_lookup split: go.splits if_splits)
qed

lemma package_opens: "pe_mkdir E = Ok () \<Longrightarrow> pe_readdir E = Ok () \<Longrightarrow> \<exists>s. package_NewStateStore E files = Ok s"
  by (auto simp: package_NewStateStore_def package_loadLatest_def Let_def split: prod.splits)

text \<open>The limit of the store: after opening a directory in which files can be removed it holds at most 64 snapshot files, and as many as before when there
  were no more; files that are no snapshots stay, and of the snapshots only those are gone whose names come first in lexical order.\<close>

theorem opening_prunes_the_store:
  assumes "package_NewStateStore E files = Ok s" "\<And>x. pe_removable E x"
  shows "card {x. snapshot_file (pk_files s) x} = min 64 (card {x. snapshot_file files x}) \<and>
    (\<forall>x. x \<noteq> ''data'' \<longrightarrow> \<not> snapshot_file files x \<longrightarrow> fmlookup (pk_files s) x = fmlookup files x) \<and>
    (\<forall>x y. snapshot_file files x \<and> \<not> snapshot_file (pk_files s) x \<and> snapshot_file (pk_files s) y \<longrightarrow> x < y)"
proof -
  define xs k where "xs = snapshots_of files" and "k = length xs - 64"
  have xs: "set xs = {x. snapshot_file files x}" "distinct xs" "sorted xs"
    using set_snapshots_of snapshots_of_sorted [of files] sorted_sort [of "snapshots_of files"] by (simp_all add: xs_def)
  have look: "fmlookup (pk_files s) x = (if x \<in> set (take k xs) then None else fmlookup files x)" if "x \<noteq> ''data''" for x
    using package_open(3) [OF assms(1) that] assms(2) by (simp add: xs_def k_def)
  have disj: "set (take k xs) \<inter> set (drop k xs) = {}" "set (take k xs) \<union> set (drop k xs) = set xs"
    using xs(2) set_take_disj_set_drop_if_distinct [of xs k k] by (auto simp flip: set_append)
  have snap: "snapshot_file (pk_files s) x \<longleftrightarrow> x \<in> set (drop k xs)" for x
  proof (cases "x = ''data''")
    case True
    then have "x \<notin> set xs" "\<not> snapshot_file (pk_files s) x" by (simp_all add: xs(1) snapshot_file_def)
    then show ?thesis using disj(2) by blast
  next
    case False
    then have "snapshot_file (pk_files s) x \<longleftrightarrow> x \<notin> set (take k xs) \<and> x \<in> set xs"
      using look xs(1) by (auto simp: snapshot_file_def)
    then show ?thesis using disj by blast
  qed
  have "card (set (drop k xs)) = length xs - k" "card (set xs) = length xs" using xs(2) by (simp_all add: distinct_card)
  then have "card {x. snapshot_file (pk_files s) x} = min 64 (card {x. snapshot_file files x})"
    by (simp add: snap xs(1) [symmetric] k_def)
  moreover have "fmlookup (pk_files s) x = fmlookup files x" if "x \<noteq> ''data''" "\<not> snapshot_file files x" for x
    using look [OF that(1)] that(2) xs(1) in_set_takeD by force
  moreover have "x < y" if "snapshot_file files x" "\<not> snapshot_file (pk_files s) x" "snapshot_file (pk_files s) y" for x y
  proof -
    have "x \<in> set (take k xs)" "y \<in> set (drop k xs)" using that snap xs(1) disj(2) by blast+
    moreover from this xs(3) have "x \<le> y" by (metis append_take_drop_id sorted_append)
    ultimately show ?thesis using disj(1) by (metis IntI emptyE order_le_less)
  qed
  ultimately show ?thesis by blast
qed

text \<open>Opening never reads a snapshot: the search for the greatest height only decides whether a subdirectory is made, and \<open>readSnapshot\<close> is not called.\<close>

theorem opened_store_has_no_snapshot:
  "package_NewStateStore E files = Ok s \<Longrightarrow> pk_latest s = None"
  by (rule package_open(1))

text \<open>Lexical order is not the order of heights: of the snapshots of heights 9 and 10, the one of height 10 is deleted.\<close>

definition demo_package_env :: package_store_env where
  "demo_package_env = \<lparr>pe_store = \<lparr>se_json = \<lambda>_. Ok [], se_unjson = \<lambda>_. Ok empty_snapshot, se_gzip = \<lambda>s. s, se_gunzip = \<lambda>s. Ok s, se_write_fault = None, se_now = 0\<rparr>,
     pe_mkdir = Ok (), pe_mkdata = True, pe_readdir = Ok (), pe_removable = \<lambda>_. True, pe_uspace = \<lambda>_. 0\<rparr>"

definition demo_package_files :: "(string, store_file) fmap" where
  "demo_package_files = fmap_of_list (map (\<lambda>h. (''snapshot_'' @ h @ ''.json.gz'', \<lparr>sf_dir = False, sf_info_ok = True, sf_mod = 0, sf_data = []\<rparr>)) [''9'', ''10''])"

theorem pruning_deletes_the_highest:
  "Sscanf_uint (\<lambda>_. 0) ''snapshot_'' ''.json.gz'' ''snapshot_10.json.gz'' = Ok 10 \<and>
   (let s = pruneSnapshotFiles demo_package_env [''snapshot_10.json.gz'', ''snapshot_9.json.gz'']
       \<lparr>pk_files = demo_package_files, pk_latest = None, pk_history = [], pk_maxFiles = 1\<rparr>
    in fmlookup (pk_files s) ''snapshot_10.json.gz'' = None \<and> fmlookup (pk_files s) ''snapshot_9.json.gz'' \<noteq> None)"
proof -
  have "Sscanf_uint (\<lambda>_. 0) ''snapshot_'' ''.json.gz'' ''snapshot_10.json.gz'' = Ok 10"
    by (simp add: Sscanf_uint_def scan_literal_def scan_uint_def ParseUint_def is_digit_def is_space_def digit_val_def)
  moreover have "sort [''snapshot_10.json.gz'', ''snapshot_9.json.gz''] = [''snapshot_10.json.gz'', ''snapshot_9.json.gz'']" by code_simp
  ultimately show ?thesis by (simp add: pruneSnapshotFiles_def remove_file_def demo_package_env_def demo_package_files_def)
qed

theorem opening_prunes_the_store_witness:
  "\<exists>s. package_NewStateStore demo_package_env demo_package_files = Ok s \<and>
     card {x. snapshot_file (pk_files s) x} = min 64 (card {x. snapshot_file demo_package_files x})"
proof -
  obtain s where "package_NewStateStore demo_package_env demo_package_files = Ok s"
    using package_opens [of demo_package_env demo_package_files] by (auto simp: demo_package_env_def)
  then show ?thesis using opening_prunes_the_store [of demo_package_env demo_package_files s] by (auto simp: demo_package_env_def)
qed

end
