(* ===== verification/Pool_Server.thy ===== *)
theory Pool_Server
  imports Mining_Pool Http_Server
begin

text \<open>
  The server of the mining pool and its start (\<open>PoolServer\<close> and \<open>main\<close> of \<open>tools/pool/main.go\<close>), on the handlers of \<open>Mining_Pool\<close>; and the loop that fetches templates. The two JSON
  decoders are fields of \<open>pool_json\<close>; \<open>now\<close> is the clock of a request.
\<close>

record PoolServer =
  pl_pool :: MiningPool

definition NewPoolServer :: "MiningPool \<Rightarrow> PoolServer" where
  "NewPoolServer pool = \<lparr>pl_pool = pool\<rparr>"

record pool_json =
  pj_worker :: "reader \<Rightarrow> string go"
  pj_submit :: "reader \<Rightarrow> submit_request go"

text \<open>The routes of \<open>Start\<close>.\<close>

definition pool_mux :: "pool_json \<Rightarrow> i64 \<times> http_request \<Rightarrow> PoolServer \<Rightarrow> PoolServer \<times> response" where
  "pool_mux J = (\<lambda>(now, r) s.
     let on = map_prod (\<lambda>p. s\<lparr>pl_pool := p\<rparr>) (\<lambda>x. x) in
     if rq_Path r = ''/pool/register'' then on (handleRegister (rq_Method r) (pj_worker J (rq_Body r)) (pl_pool s))
     else if rq_Path r = ''/pool/work'' then (s, handleWork now (rq_Query r ''worker_id'') (pl_pool s))
     else if rq_Path r = ''/pool/submit'' then on (handleSubmit (rq_Method r) (pj_submit J (rq_Body r)) (pl_pool s))
     else if rq_Path r = ''/pool/stats'' then (s, handleStats (pl_pool s))
     else if rq_Path r = ''/pool/payout'' then on (handlePayout now (rq_Method r) (pl_pool s))
     else (s, HttpError StatusNotFound ''404 page not found''))"

text \<open>The turns of \<open>syncLoop\<close>, one for each tick, with what the node replies; their errors are dropped. \<open>StartSync\<close> sets the address of the node and starts the loop.\<close>

definition syncLoop :: "(rat \<Rightarrow> u64) \<Rightarrow> json go list \<Rightarrow> MiningPool \<Rightarrow> MiningPool" where
  "syncLoop oor replies p = fold (\<lambda>reply p. fst (refreshTemplate oor reply p)) replies p"

definition StartSync :: "(rat \<Rightarrow> u64) \<Rightarrow> string \<Rightarrow> json go list \<Rightarrow> MiningPool \<Rightarrow> MiningPool" where
  "StartSync oor nodeBase replies p =
     syncLoop oor replies (p\<lparr>mp_nodeBase := rev (dropWhile (\<lambda>c. c = CHR ''/'') (rev nodeBase))\<rparr>)"

record pool_flags =
  pf_addr :: string
  pf_poolAddr :: string
  pf_minPayout :: u64
  pf_difficulty :: u64

definition pool_main :: "i64 \<Rightarrow> pool_flags \<Rightarrow> PoolServer go" where
  "pool_main now f =
     (if pf_poolAddr f = [] then Err ''error: pool address required (use --pool-address or POOL_ADDRESS env)''
      else Ok (NewPoolServer (NewMiningPool now (pf_poolAddr f) (pf_minPayout f) (ucast (pf_difficulty f)))))"

section \<open>The pool that is started\<close>

text \<open>\<open>main\<close> calls neither \<open>StartSync\<close> nor \<open>AddReward\<close>. What then holds of the pool: it has no template and no balance.\<close>

definition idle :: "string \<Rightarrow> PoolServer \<Rightarrow> bool" where
  "idle address s \<longleftrightarrow> mp_nodeBase (pl_pool s) = [] \<and> mp_latestBlockHash (pl_pool s) = [] \<and> mp_latestBlockIdx (pl_pool s) = 0 \<and>
     mp_balance (pl_pool s) = 0 \<and> mp_address (pl_pool s) = address"

lemma handlers_idle:
  "idle a s \<Longrightarrow> idle a (s\<lparr>pl_pool := fst (handleRegister m b (pl_pool s))\<rparr>)"
  "idle a s \<Longrightarrow> idle a (s\<lparr>pl_pool := fst (handleSubmit m c (pl_pool s))\<rparr>)"
  "idle a s \<Longrightarrow> idle a (s\<lparr>pl_pool := fst (handlePayout now m (pl_pool s))\<rparr>)"
  by (auto simp: idle_def handleRegister_def RegisterWorker_def handleSubmit_def RecordShare_def handlePayout_def Payout_def Let_def split: go.splits bool.splits)

interpretation pool_requests: machine "\<lambda>ev s. fst (pool_mux J ev s)" "idle address" for J address
proof unfold_locales
  fix s and e :: "i64 \<times> http_request" assume i: "idle address s"
  obtain now r where "e = (now, r)" by force
  then show "idle address (fst (pool_mux J e s))" using i by (simp add: pool_mux_def Let_def handlers_idle)
qed

text \<open>The program that is started mines nothing and pays nothing: whatever requests came before, a worker that asks for work gets a template without a previous hash and
  with height 0, and a request for the payout is answered with a balance of 0 that is below the threshold.\<close>

theorem started_pool_is_idle:
  assumes "pool_main now f = Ok s0" "s = fold (\<lambda>ev s. fst (pool_mux J ev s)) evs s0"
  shows "handlePayout t ''POST'' (pl_pool s) = (fst (handlePayout t ''POST'' (pl_pool s)),
      ok_json [(''status'', JStr ''below_threshold''), (''balance'', JNum 0), (''min_payout'', jnum (mp_minThreshold (pl_pool s)))]) \<and>
    (has_key (mp_workers (pl_pool s)) w \<and> w \<noteq> [] \<longrightarrow>
      handleWork t w (pl_pool s) = ok_json [(''difficulty'', JNum (of_nat (unat (mp_difficulty (pl_pool s))))), (''worker_id'', JStr w), (''timestamp'', JNum (of_int (sint t))),
        (''block_template'', JObj [(''previous_hash'', JStr []), (''height'', JNum 0), (''miner_address'', JStr (pf_poolAddr f)), (''transactions'', JArr [])])])"
proof -
  have "idle (pf_poolAddr f) s0" using assms(1) by (auto simp: pool_main_def idle_def NewPoolServer_def NewMiningPool_def split: if_splits)
  then have "idle (pf_poolAddr f) s" unfolding assms(2) by (rule pool_requests.run_inv)
  then show ?thesis by (auto simp: idle_def handlePayout_def Payout_def handleWork_def jnum_def)
qed

text \<open>With \<open>StartSync\<close> a reachable node with a chain would give the template of its last block.\<close>

lemma StartSync_template:
  assumes "nodeBase \<noteq> []" "last nodeBase \<noteq> CHR ''/''" "json_field result ''chain'' = Some (JArr (bs @ [JObj fs]))"
  shows "mp_latestBlockHash (StartSync oor nodeBase [Ok result] p) = str_of_json (map_of fs ''block_hash'') \<and>
    mp_latestBlockIdx (StartSync oor nodeBase [Ok result] p) = u64_of_json oor (map_of fs ''index'')"
proof -
  have "rev (dropWhile (\<lambda>c. c = CHR ''/'') (rev nodeBase)) = nodeBase" using assms(1,2) by (cases nodeBase rule: rev_cases) simp_all
  moreover have "\<exists>b bs'. bs @ [JObj fs] = b # bs' \<and> last (b # bs') = JObj fs" by (cases bs) auto
  ultimately show ?thesis using assms by (auto simp: StartSync_def syncLoop_def refreshTemplate_def)
qed

end
