(* ===== verification/Spec2Isabelle.thy ===== *)
theory Spec2Isabelle
  imports Wallet_Vault Mining_Pool Persistence Tendermint State_Store Api_Stop Node_Main
    Wallet_Tool Bridge_Node Bridge_Notify Genesis_Tool Onboard_Tool Embedded_Host Miner_Tool Faucet_Server Rosetta_Server
    Package_Store Pool_Server
begin

text \<open>
  A verification of the Tender node, a blockchain written in Go (\<open>src/go-chain\<close>).

  \<^bold>\<open>The program.\<close> Package \<open>go-chain/blockchain\<close> holds the domain model (transactions, blocks, accounts, models,
  validators), the ledger and its services, the mempool, the rules of the chain, mining, finality, a Tendermint
  engine, Merkle trees, a binary encoding, a Rosetta interface, a wallet vault and a security module.
  \<open>go-chain/main.go\<close> is the node: it has its own struct \<open>Blockchain\<close> on the data types of the package, with its
  own rules for mempool, validation and mining, its own peer-to-peer layer and HTTP server. Packages \<open>api\<close> and \<open>p2p\<close> are a
  second HTTP server and a second peer-to-peer layer, on the chain of the package; \<open>p2p\<close> also has a host that the node can embed. The programs under
  \<open>go-chain/tools\<close> and \<open>go-chain/validator-onboard\<close> surround a node: a mining pool, a miner, a wallet, a relayer for a bridge to another chain, a Rosetta server, a
  faucet server, and tools that make and sign the genesis file and the files of a new validator. Transactions enter the mempool over HTTP or from peers; mining validates them, settles their fees,
  seals a block and applies it to the ledger; the node saves its state to a file and exchanges blocks
  and ledgers with peers.

  \<^bold>\<open>Theories.\<close>
  \<^item> \<open>Go_Prelude\<close>, \<open>Go_Float\<close>, \<open>Go_Http\<close>: Go's integers (words that wrap around), strings, maps, \<open>range\<close>, \<open>sort.Slice\<close>,
    formatting and parsing, hexadecimal; IEEE doubles as rationals with rounding; HTTP answers. The
    interface \<open>machine\<close> (an invariant kept by every event of a component) is interpreted by the mempool, the pool,
    the security module and the peer-to-peer layer.
  \<^item> \<open>Domain\<close> (\<open>domain.go\<close>): data, amounts, signed bytes, signatures. \<open>Encoding\<close> (\<open>encoding.go\<close>): interface \<open>codec\<close>, round
    trips, panics of the decoders. \<open>Merkle\<close> (\<open>merkle.go\<close>): interface \<open>merkle_reduction\<close>, completeness and soundness of
    proofs. \<open>Tendermint\<close> (\<open>consensus_tendermint.go\<close>): the engine as a state machine, interface \<open>phased\<close>.
  \<^item> \<open>Chain_State\<close>, \<open>Persistence\<close>, \<open>Ledger\<close>, \<open>Services\<close>, \<open>Mempool\<close>, \<open>Reversal\<close>, \<open>Fees\<close>, \<open>Finality\<close>, \<open>Miner_Rewards\<close>,
    \<open>Chain_Rules\<close>, \<open>Mining\<close>, \<open>Mining_Properties\<close>, \<open>Genesis\<close> (\<open>blockchain.go\<close> and \<open>validator_onboarding.go\<close>): the record
    \<open>Blockchain\<close> is the struct; every method is a function from the receiver to the new receiver and
    the result. Interfaces: \<open>token_book\<close> (credits and debits keep the total), \<open>replay_guard\<close> (what is recorded
    is not accepted again), \<open>phased\<close> (a step needs the event that guards it).
  \<^item> \<open>Wallet_Vault\<close> (\<open>wallet_vault.go\<close>), \<open>Security\<close> (\<open>security.go\<close>), \<open>Rosetta\<close> (\<open>rosetta.go\<close>), \<open>Tokenomics\<close> (\<open>tokenomics.go\<close>),
    \<open>State_Store\<close> (\<open>state_store.go\<close>), \<open>Mining_Pool\<close> (\<open>tools/pool/main.go\<close>).
  \<^item> \<open>Node_State\<close>, \<open>Node_Ledger\<close>, \<open>Node_Rules\<close>, \<open>Node_Mining\<close>, \<open>Node_P2P\<close>, \<open>Node_Guard\<close> (\<open>main.go\<close>): the record \<open>Node\<close> is the struct
    \<open>Blockchain\<close> of \<open>main.go\<close>, functions carry the prefix \<open>node_\<close>; the function \<open>pkg\<close> sees a \<open>Node\<close> as a \<open>Blockchain\<close> of the
    package, and the theorems about agreement relate the two implementations.

  \<^item> \<open>Go_Proc\<close>, \<open>Http_Server\<close>: procedures that take a \<open>sync.RWMutex\<close> themselves, return, panic or block; the contracts \<open>steady\<close>, \<open>releases\<close>, \<open>yields\<close>, \<open>frozen\<close> and
    \<open>keeps\<close> with their rules, and four interfaces of a server: \<open>answering_server\<close> (no request blocks), \<open>patient_server\<close> (a request may wait for a peer, but never with the lock), \<open>lock_guarded_server\<close> (nothing changes while the
    lock is held) and \<open>guarded_server\<close> (a class of requests changes nothing).
  \<^item> \<open>P2P_Package\<close> (\<open>p2p/p2p.go\<close>), \<open>Api_Server\<close>, \<open>Api_Handlers\<close>, \<open>Api_Properties\<close>, \<open>Api_Stop\<close> (\<open>api/api.go\<close>), \<open>Node_Api\<close>, \<open>Node_Api_Properties\<close>, \<open>Node_Main\<close>
    (\<open>startAPI\<close> and \<open>main\<close> of \<open>main.go\<close>): one procedure for each message and each handler, interpreted as servers.
  \<^item> \<open>LibP2P_Host\<close> (\<open>p2p/libp2p_host.go\<close>): handshake, frames and sessions of the embedded host, on connections that deliver bytes in pieces. \<open>Host_Loops\<close>: the accept
    loops, the announcements and the polling of the relay. \<open>Embedded_Host\<close>: the choice of the host in \<open>main\<close>.
  \<^item> \<open>Tool_World\<close>, \<open>Go_Scan\<close>, \<open>Node_Network\<close>: what the tools share: files with modes, paths, an HTTP client, a server as the network of a client, \<open>fmt.Sscanf\<close>, and
    the node as the network of a tool.
  \<^item> \<open>Wallet_Tool\<close> (\<open>tools/wallet\<close>), \<open>Genesis_Tool\<close> (\<open>tools/genesis-tool\<close>), \<open>Onboard_Tool\<close> (\<open>validator-onboard\<close>, \<open>validator_onboarding.go\<close>), \<open>Miner_Tool\<close> (\<open>tools/miner\<close>, with the
    node behind it), \<open>Rosetta_Server\<close> (\<open>tools/rosetta-server\<close>), \<open>Faucet_Server\<close> (\<open>tools/faucet\<close>), \<open>Pool_Server\<close> (server and start of \<open>tools/pool\<close>), \<open>Bridge_Relayer\<close>
    (\<open>tools/bridge-relayer\<close>), \<open>Bridge_Node\<close> (the relayer with the node behind it) and \<open>Bridge_Notify\<close> (the notification of the relayer by a node that mines).
    \<open>Package_Store\<close>: the snapshot store that \<open>domain.go\<close> declares.

  \<^bold>\<open>What is shown.\<close> Blocks create no money, and they conserve it, as staking, services and reversals do, while the sum of the balances fits in 64 bits; then the balances refine an abstract
  transfer on numbers without bound. Mining extends a chain of linked blocks, raises the supply by at most one base unit and the balances by at most that and the share of the fees that the community fund gets without anybody
  paying it, and, under proof of work, ends exactly when a nonce exists; a valid block has the properties that its checks
  promise, and a chain whose tip is fixed cannot be changed without a collision of the hash; signatures bind
  every field that they should, encodings round-trip, Merkle proofs are complete and sound up to collisions;
  the mempool stays within its capacity and is a fee market; a used nonce is refused, where it is not zero; finality needs two
  thirds of the votes; a restart restores the saved state, next nonces included where the nonce tables agree, and a failed write keeps the old file; the node of \<open>main.go\<close>
  agrees with the package on ledger operations, mempool and reversals; rate limiter and circuit breaker implement their
  specifications; peers stay bounded and duplicates are dropped; the HTTP server of the node answers every request but one to
  mine, as long as the peers that the request writes to take what is written, and never keeps its lock; requests without the key change nothing; the server of package \<open>api\<close> answers all but three routes, and two of these stop it for good. A payment of
  the wallet tool passes the checks of the node and is queued; a mint request of the relayer reaches the ledger, and no hash is relayed twice; frames of the embedded host read back,
  and in strict mode its sessions are with validators that showed a signature of their key, or with hosts it dialled; a final genesis file has as many entries under different spellings of addresses as it asks for, which one signer can provide alone; the programs around the node are composed with it, and the
  theorems say what then happens: the miner without a key is refused in every round, the notification of a mined block is refused by the relayer, the strict embedded
  host admits nobody, the pool as it is started hands out empty templates. Further theorems state precisely where
  the code does not do what it means to do.

  \<^bold>\<open>Conventions.\<close> SHA-256, ed25519, JSON and the wall clock are parameters (records \<open>crypto\<close>, \<open>env\<close>, \<open>node_env\<close>); \<open>crypto_ok\<close> is
  what is assumed of them, and \<open>demo_crypto\<close> satisfies it. Orders of \<open>range\<close> over maps, the order of equal elements after
  \<open>sort.Slice\<close>, and out-of-range float conversions are arguments. Errors and panics are values of type \<open>go\<close>. A method
  holds its mutex for its whole run and is one step; where handlers take the lock around several
  calls, they are procedures of \<open>Go_Proc\<close>, one request at a time. The search for a nonce is a \<open>partial_function\<close> into \<open>option\<close>: \<open>None\<close> means
  that it runs forever. A write to a peer of the node may also never return: operations that write say so in their result, and a request that waits is \<open>Blocked\<close>. No other definition needs fuel: loops recurse over the list they traverse, or over the events they meet when they have no end, and \<open>readLoop\<close> of the
  embedded host ends because every message takes bytes from its input.

  \<^bold>\<open>Not modelled.\<close> Sockets, timers and goroutines (I/O around the modelled operations, which take the events that these deliver); interleaving inside a method or a handler
  (one request at a time); the loops that look for routers by UPnP and NAT-PMP and drop what they find; \<open>src/node/p2p/host.go\<close>, which only calls a third-party
  library; \<open>rest_files.go\<close>, which only keeps imports. The type \<open>Faucet\<close> of the faucet server is declared nowhere and is a parameter.
\<close>

end
